(* ===== verification/SL_Prelude.thy ===== *)
theory SL_Prelude
  imports Main "HOL-Library.Signed_Division"
begin

text \<open>
  Shared infrastructure of the development: Rust's fixed-width arithmetic, the effect type of a
  contract function (a state transformer that returns, fails with an error or panics), the
  \<open>?\<close>-operator as a combinator, the rules that turn \<open>the call returned Ok\<close> into the guards it
  passed, and the two generic interfaces of the library: a double-entry ledger and a machine with
  an invariant. Nothing here is specific to one contract.
\<close>

named_theorems ok_simps \<open>inversion rules: a contract function returned Ok\<close>
named_theorems run_simps \<open>evaluation rules for contract functions\<close>

section \<open>Machine integers\<close>

text \<open>
  Values of type i128, u64 and u32 are \<open>int\<close> and \<open>nat\<close>; every operation of the source that can
  leave the range is written out: \<open>checked_*\<close> gives \<open>None\<close>, \<open>saturating_*\<close> clamps, plain operators
  panic (the release profile sets overflow-checks). Division truncates towards zero (\<open>sdiv\<close>).
\<close>

type_synonym i128 = int
type_synonym u64 = nat
type_synonym u32 = nat

definition i128_max :: i128 where
  "i128_max = 2 ^ 127 - 1"

definition i128_min :: i128 where
  "i128_min = - (2 ^ 127)"

definition in_i128 :: "int \<Rightarrow> bool" where
  "in_i128 x \<longleftrightarrow> i128_min \<le> x \<and> x \<le> i128_max"

definition to_i128 :: "int \<Rightarrow> i128 option" where
  "to_i128 x = (if in_i128 x then Some x else None)"

definition checked_add :: "i128 \<Rightarrow> i128 \<Rightarrow> i128 option" where
  "checked_add a b = to_i128 (a + b)"

definition checked_sub :: "i128 \<Rightarrow> i128 \<Rightarrow> i128 option" where
  "checked_sub a b = to_i128 (a - b)"

definition checked_mul :: "i128 \<Rightarrow> i128 \<Rightarrow> i128 option" where
  "checked_mul a b = to_i128 (a * b)"

definition checked_div :: "i128 \<Rightarrow> i128 \<Rightarrow> i128 option" where
  "checked_div a b = (if b = 0 then None else to_i128 (a sdiv b))"

definition saturate :: "int \<Rightarrow> i128" where
  "saturate x = max i128_min (min i128_max x)"

definition saturating_add :: "i128 \<Rightarrow> i128 \<Rightarrow> i128" where
  "saturating_add a b = saturate (a + b)"

definition saturating_sub :: "i128 \<Rightarrow> i128 \<Rightarrow> i128" where
  "saturating_sub a b = saturate (a - b)"

definition saturating_mul :: "i128 \<Rightarrow> i128 \<Rightarrow> i128" where
  "saturating_mul a b = saturate (a * b)"

text \<open>\<open>saturating_div\<close> is only called where the divisor is known not to be zero; where it is not
  known, the caller panics first.\<close>

definition saturating_div :: "i128 \<Rightarrow> i128 \<Rightarrow> i128" where
  "saturating_div a b = saturate (a sdiv b)"

text \<open>The host's 256-bit integers: an operation that leaves the range traps.\<close>

definition in_i256 :: "int \<Rightarrow> bool" where
  "in_i256 x \<longleftrightarrow> - (2 ^ 255) \<le> x \<and> x \<le> 2 ^ 255 - 1"

definition i256_mul :: "int \<Rightarrow> int \<Rightarrow> int option" where
  "i256_mul a b = (if in_i256 (a * b) then Some (a * b) else None)"

definition i256_add :: "int \<Rightarrow> int \<Rightarrow> int option" where
  "i256_add a b = (if in_i256 (a + b) then Some (a + b) else None)"

definition i256_div :: "int \<Rightarrow> int \<Rightarrow> int option" where
  "i256_div a b = (if b = 0 \<or> \<not> in_i256 (a sdiv b) then None else Some (a sdiv b))"

definition u64_max :: u64 where
  "u64_max = 2 ^ 64 - 1"

definition u32_max :: u32 where
  "u32_max = 2 ^ 32 - 1"

definition checked_add_u64 :: "u64 \<Rightarrow> u64 \<Rightarrow> u64 option" where
  "checked_add_u64 a b = (if a + b \<le> u64_max then Some (a + b) else None)"

definition checked_add_u32 :: "u32 \<Rightarrow> u32 \<Rightarrow> u32 option" where
  "checked_add_u32 a b = (if a + b \<le> u32_max then Some (a + b) else None)"

text \<open>The same functions with the bounds as integer literals, for evaluation.\<close>

lemma checked_add_u64_code [code]:
  "checked_add_u64 a b = (if int a + int b \<le> 18446744073709551615 then Some (a + b) else None)"
proof -
  have "(a + b \<le> u64_max) = (int (a + b) \<le> int u64_max)" by (rule of_nat_le_iff [symmetric])
  also have "int u64_max = 18446744073709551615" by (simp add: u64_max_def)
  finally show ?thesis by (simp add: checked_add_u64_def)
qed

lemma checked_add_u32_code [code]:
  "checked_add_u32 a b = (if int a + int b \<le> 4294967295 then Some (a + b) else None)"
proof -
  have "(a + b \<le> u32_max) = (int (a + b) \<le> int u32_max)" by (rule of_nat_le_iff [symmetric])
  also have "int u32_max = 4294967295" by (simp add: u32_max_def)
  finally show ?thesis by (simp add: checked_add_u32_def)
qed

definition saturating_add_u64 :: "u64 \<Rightarrow> u64 \<Rightarrow> u64" where
  "saturating_add_u64 a b = min (a + b) u64_max"

definition saturating_add_u32 :: "u32 \<Rightarrow> u32 \<Rightarrow> u32" where
  "saturating_add_u32 a b = min (a + b) u32_max"

lemma saturating_add_u64_code [code]:
  "saturating_add_u64 a b = (case checked_add_u64 a b of Some c \<Rightarrow> c | None \<Rightarrow> u64_max)"
  by (simp add: saturating_add_u64_def checked_add_u64_def)

lemma saturating_add_u32_code [code]:
  "saturating_add_u32 a b = (case checked_add_u32 a b of Some c \<Rightarrow> c | None \<Rightarrow> u32_max)"
  by (simp add: saturating_add_u32_def checked_add_u32_def)

lemmas i128_defs = i128_max_def i128_min_def in_i128_def
lemmas checked_defs = checked_add_def checked_sub_def checked_mul_def checked_div_def to_i128_def
lemmas i256_defs = i256_mul_def i256_add_def i256_div_def in_i256_def

lemma to_i128_Some [simp]: "to_i128 x = Some y \<longleftrightarrow> y = x \<and> in_i128 x"
  by (auto simp: to_i128_def)

lemma to_i128_None [simp]: "to_i128 x = None \<longleftrightarrow> \<not> in_i128 x"
  by (simp add: to_i128_def)

lemma checked_add_Some [simp]: "checked_add a b = Some c \<longleftrightarrow> c = a + b \<and> in_i128 (a + b)"
  by (simp add: checked_add_def)

lemma checked_sub_Some [simp]: "checked_sub a b = Some c \<longleftrightarrow> c = a - b \<and> in_i128 (a - b)"
  by (simp add: checked_sub_def)

lemma checked_mul_Some [simp]: "checked_mul a b = Some c \<longleftrightarrow> c = a * b \<and> in_i128 (a * b)"
  by (simp add: checked_mul_def)

lemma checked_div_Some [simp]:
  "checked_div a b = Some c \<longleftrightarrow> c = a sdiv b \<and> b \<noteq> 0 \<and> in_i128 (a sdiv b)"
  by (auto simp: checked_div_def)

lemma saturate_id [simp]: "in_i128 x \<Longrightarrow> saturate x = x"
  by (simp add: saturate_def in_i128_def)

lemma in_i128_saturate [simp]: "in_i128 (saturate x)"
  by (simp add: saturate_def i128_defs)

lemma saturate_mono: "x \<le> y \<Longrightarrow> saturate x \<le> saturate y"
  by (auto simp: saturate_def)

lemma saturate_nonneg: "0 \<le> x \<Longrightarrow> 0 \<le> saturate x"
  by (simp add: saturate_def i128_defs)

lemma sdiv_nonneg_eq: "0 \<le> a \<Longrightarrow> 0 \<le> b \<Longrightarrow> a sdiv b = a div b" for a b :: int
  by (cases "a = 0"; cases "b = 0") (simp_all add: signed_divide_int_def)

lemma zdiv_le_self: "0 \<le> a \<Longrightarrow> 0 < b \<Longrightarrow> a div b \<le> a" for a b :: int
  using div_by_1 [of a] zdiv_mono2 [of a 1 b] by simp

lemma in_i128_0 [simp]: "in_i128 0"
  by (simp add: i128_defs)

lemma in_i128_between: "0 \<le> x \<Longrightarrow> x \<le> y \<Longrightarrow> in_i128 y \<Longrightarrow> in_i128 x"
  by (simp add: i128_defs)

section \<open>Results and effects\<close>

text \<open>
  A contract function returns \<open>Ok\<close>, returns \<open>Err\<close>, or panics. Panics cover failed
  \<open>require_auth\<close>, arithmetic overflow, a trapping cross-contract call and \<open>panic_with_error!\<close>.
  The state is threaded through all outcomes; that a failed invocation leaves no trace is the
  host's rollback, \<open>invoke\<close> below.
\<close>

datatype ('e, 'a) res = Ok 'a | Err 'e | Panic

type_synonym ('s, 'e, 'a) contract_fn = "'s \<Rightarrow> ('e, 'a) res \<times> 's"

definition ret :: "'a \<Rightarrow> ('s, 'e, 'a) contract_fn" where
  "ret a = (\<lambda>s. (Ok a, s))"

definition fail :: "'e \<Rightarrow> ('s, 'e, 'a) contract_fn" where
  "fail e = (\<lambda>s. (Err e, s))"

definition panic :: "('s, 'e, 'a) contract_fn" where
  "panic = (\<lambda>s. (Panic, s))"

text \<open>\<open>tryM m (\<lambda>x. k)\<close> is \<open>let x = m?; k\<close>.\<close>

definition tryM :: "('s, 'e, 'a) contract_fn \<Rightarrow> ('a \<Rightarrow> ('s, 'e, 'b) contract_fn)
    \<Rightarrow> ('s, 'e, 'b) contract_fn" where
  "tryM m k = (\<lambda>s. case m s of
     (Ok a, s') \<Rightarrow> k a s'
   | (Err e, s') \<Rightarrow> (Err e, s')
   | (Panic, s') \<Rightarrow> (Panic, s'))"

text \<open>\<open>reads f (\<lambda>x. k)\<close> is \<open>let x = f(env); k\<close>, a read of the storage.\<close>

definition reads :: "('s \<Rightarrow> 'a) \<Rightarrow> ('a \<Rightarrow> ('s, 'e, 'b) contract_fn) \<Rightarrow> ('s, 'e, 'b) contract_fn" where
  "reads f k = (\<lambda>s. k (f s) s)"

text \<open>\<open>writes f k\<close> is a write to the storage (or an event) followed by \<open>k\<close>.\<close>

definition writes :: "('s \<Rightarrow> 's) \<Rightarrow> ('s, 'e, 'b) contract_fn \<Rightarrow> ('s, 'e, 'b) contract_fn" where
  "writes f k = (\<lambda>s. k (f s))"

text \<open>\<open>fail_if c e k\<close> is \<open>if c { return Err(e); } k\<close>.\<close>

definition fail_if :: "bool \<Rightarrow> 'e \<Rightarrow> ('s, 'e, 'b) contract_fn \<Rightarrow> ('s, 'e, 'b) contract_fn" where
  "fail_if c e k = (if c then fail e else k)"

text \<open>\<open>ok_or\<close> is \<open>Option::ok_or(e)?\<close>; \<open>unwrap\<close> panics on \<open>None\<close>, as overflowing plain
  operators and trapping host calls do.\<close>

definition ok_or :: "'a option \<Rightarrow> 'e \<Rightarrow> ('a \<Rightarrow> ('s, 'e, 'b) contract_fn) \<Rightarrow> ('s, 'e, 'b) contract_fn" where
  "ok_or x e k = (case x of Some a \<Rightarrow> k a | None \<Rightarrow> fail e)"

definition unwrap :: "'a option \<Rightarrow> ('a \<Rightarrow> ('s, 'e, 'b) contract_fn) \<Rightarrow> ('s, 'e, 'b) contract_fn" where
  "unwrap x k = (case x of Some a \<Rightarrow> k a | None \<Rightarrow> panic)"

definition map_err :: "('e \<Rightarrow> 'f) \<Rightarrow> ('s, 'e, 'a) contract_fn \<Rightarrow> ('s, 'f, 'a) contract_fn" where
  "map_err g m = (\<lambda>s. case m s of
     (Ok a, s') \<Rightarrow> (Ok a, s') | (Err e, s') \<Rightarrow> (Err (g e), s') | (Panic, s') \<Rightarrow> (Panic, s'))"

text \<open>The host's transaction: every effect of an invocation that does not return \<open>Ok\<close> is undone.\<close>

definition invoke :: "('s, 'e, 'a) contract_fn \<Rightarrow> ('s, 'e, 'a) contract_fn" where
  "invoke m = (\<lambda>s. case m s of (Ok a, s') \<Rightarrow> (Ok a, s') | (r, _) \<Rightarrow> (r, s))"

lemma ret_run [simp, run_simps]: "ret a s = (Ok a, s)"
  by (simp add: ret_def)

lemma fail_run [simp, run_simps]: "fail e s = (Err e, s)"
  by (simp add: fail_def)

lemma panic_run [simp, run_simps]: "panic s = (Panic, s)"
  by (simp add: panic_def)

lemma reads_run [simp, run_simps]: "reads f k s = k (f s) s"
  by (simp add: reads_def)

lemma writes_run [simp, run_simps]: "writes f k s = k (f s)"
  by (simp add: writes_def)

lemma fail_if_run [run_simps]: "fail_if c e k s = (if c then (Err e, s) else k s)"
  by (simp add: fail_if_def)

lemma ok_or_run [run_simps]: "ok_or x e k s = (case x of Some a \<Rightarrow> k a s | None \<Rightarrow> (Err e, s))"
  by (simp add: ok_or_def split: option.split)

lemma unwrap_run [run_simps]: "unwrap x k s = (case x of Some a \<Rightarrow> k a s | None \<Rightarrow> (Panic, s))"
  by (simp add: unwrap_def split: option.split)

lemma tryM_run [run_simps]:
  "tryM m k s = (case m s of (Ok a, s') \<Rightarrow> k a s' | (Err e, s') \<Rightarrow> (Err e, s') | (Panic, s') \<Rightarrow> (Panic, s'))"
  by (simp add: tryM_def)

lemma tryM_step: "m s = (Ok a, s') \<Longrightarrow> tryM m k s = k a s'"
  by (simp add: tryM_run)

lemma if_run [run_simps]: "(if c then f else g) s = (if c then f s else g s)"
  by simp

lemma ret_Ok [ok_simps]: "ret a s = (Ok b, t) \<longleftrightarrow> b = a \<and> t = s"
  by auto

lemma fail_Ok [ok_simps]: "fail e s \<noteq> (Ok b, t)"
  by simp

lemma panic_Ok [ok_simps]: "panic s \<noteq> (Ok b, t)"
  by simp

lemma fail_if_Ok [ok_simps]: "fail_if c e k s = (Ok b, t) \<longleftrightarrow> \<not> c \<and> k s = (Ok b, t)"
  by (simp add: fail_if_run)

lemma ok_or_Ok [ok_simps]: "ok_or x e k s = (Ok b, t) \<longleftrightarrow> (\<exists>a. x = Some a \<and> k a s = (Ok b, t))"
  by (cases x) (simp_all add: ok_or_run)

lemma unwrap_Ok [ok_simps]: "unwrap x k s = (Ok b, t) \<longleftrightarrow> (\<exists>a. x = Some a \<and> k a s = (Ok b, t))"
  by (cases x) (simp_all add: unwrap_run)

lemma tryM_Ok [ok_simps]:
  "tryM m k s = (Ok b, t) \<longleftrightarrow> (\<exists>a s'. m s = (Ok a, s') \<and> k a s' = (Ok b, t))"
  by (auto simp: tryM_run split: res.splits prod.splits)

lemma map_err_Ok [ok_simps]: "map_err g m s = (Ok b, t) \<longleftrightarrow> m s = (Ok b, t)"
  by (auto simp: map_err_def split: res.splits prod.splits)

lemma if_Ok [ok_simps]:
  "(if c then f else g) s = (Ok b, t) \<longleftrightarrow> (c \<and> f s = (Ok b, t)) \<or> (\<not> c \<and> g s = (Ok b, t))"
  by simp

lemma invoke_Ok [ok_simps]: "invoke m s = (Ok b, t) \<longleftrightarrow> m s = (Ok b, t)"
  by (auto simp: invoke_def split: res.splits prod.splits)

text \<open>Atomicity: an invocation that does not return \<open>Ok\<close> leaves the state as it was.\<close>

lemma invoke_rollback: "invoke m s = (r, t) \<Longrightarrow> (\<And>a. r \<noteq> Ok a) \<Longrightarrow> t = s"
  by (auto simp: invoke_def split: res.splits prod.splits)

lemma invoke_cases:
  obtains (committed) a t where "m s = (Ok a, t)" "invoke m s = (Ok a, t)"
  | (rolled_back) "snd (invoke m s) = s" "\<And>a t. m s \<noteq> (Ok a, t)"
  by (cases "m s"; cases "fst (m s)") (auto simp: invoke_def)

lemma invoke_preserves:
  assumes "P s" and "\<And>a t. m s = (Ok a, t) \<Longrightarrow> P t"
  shows "P (snd (invoke m s))"
  by (cases rule: invoke_cases [of m s]) (use assms in auto)

subsection \<open>Pure fallible functions\<close>

text \<open>A Rust function that only computes a \<open>Result\<close> is a value of the sum type.\<close>

definition bindE :: "'e + 'a \<Rightarrow> ('a \<Rightarrow> 'e + 'b) \<Rightarrow> 'e + 'b" where
  "bindE x k = (case x of Inl e \<Rightarrow> Inl e | Inr a \<Rightarrow> k a)"

definition ok_orE :: "'a option \<Rightarrow> 'e \<Rightarrow> ('a \<Rightarrow> 'e + 'b) \<Rightarrow> 'e + 'b" where
  "ok_orE x e k = (case x of Some a \<Rightarrow> k a | None \<Rightarrow> Inl e)"

definition liftE :: "'e + 'a \<Rightarrow> ('s, 'e, 'a) contract_fn" where
  "liftE x = (case x of Inl e \<Rightarrow> fail e | Inr a \<Rightarrow> ret a)"

lemma bindE_Inr [ok_simps]: "bindE x k = Inr b \<longleftrightarrow> (\<exists>a. x = Inr a \<and> k a = Inr b)"
  by (cases x) (simp_all add: bindE_def)

lemma ok_orE_Inr [ok_simps]: "ok_orE x e k = Inr b \<longleftrightarrow> (\<exists>a. x = Some a \<and> k a = Inr b)"
  by (cases x) (simp_all add: ok_orE_def)

lemma liftE_Ok [ok_simps]: "liftE x s = (Ok b, t) \<longleftrightarrow> x = Inr b \<and> t = s"
  by (cases x) (auto simp: liftE_def)

lemma liftE_run [run_simps]: "liftE x s = (case x of Inl e \<Rightarrow> (Err e, s) | Inr a \<Rightarrow> (Ok a, s))"
  by (cases x) (auto simp: liftE_def)

text \<open>Evaluation applies an operation to its state before it looks at what follows.\<close>

lemmas run_code [code] = ret_run fail_run panic_run reads_run writes_run fail_if_run ok_or_run unwrap_run tryM_run liftE_run

lemma invoke_code [code]:
  "invoke m s = (case m s of (Ok a, s') \<Rightarrow> (Ok a, s') | (Err e, s') \<Rightarrow> (Err e, s) | (Panic, s') \<Rightarrow> (Panic, s))"
  by (auto simp: invoke_def split: res.splits prod.splits)

lemmas runE_simps = bindE_def ok_orE_def

end
