(* ===== verification/Lending_State.thy ===== *)
theory Lending_State
  imports SL_Prelude
begin

text \<open>
  The data model of the lending contract (src/stellar-lend/contracts/lending/src): its enums and
  structs, its error types, its events, its storage and the host it runs on.

  The contract's storage is a key-value map whose keys are the variants of one enum per module. Each
  enum is a record here, each variant a field with the variant's name: a variant without argument is
  an \<open>option\<close> (absent until it is first written), a variant with arguments a partial map
  (BorrowDataKey::BorrowCollateralRatio, which no code reads or writes, has no field). The
  records extend one another, so that \<open>lending_state\<close> is the whole storage, with the log of the
  published events.
\<close>

type_synonym address = nat
type_synonym symbol = string

section \<open>Enums and structs\<close>

datatype RateType = Variable | Stable

datatype BorrowAuth = RequireUserSignature | TrustedCommitment

record DebtPosition =
  borrowed_amount :: i128
  interest_accrued :: i128
  last_update :: u64
  debt_asset :: address
  rate_type :: RateType
  stable_rate_bps :: i128

record StableRateState =
  avg_rate_bps :: i128
  srs_last_update :: u64

record BorrowCollateral =
  bc_amount :: i128
  bc_asset :: address

record StablecoinConfig =
  target_price :: i128
  peg_threshold_bps :: i128
  stability_fee_bps :: i128
  emergency_threshold_bps :: i128

record DepositCollateral =
  dc_amount :: i128
  dc_asset :: address
  last_deposit_time :: u64

record InterestRateConfig =
  base_rate_bps :: i128
  kink_utilization_bps :: i128
  slope_bps :: i128
  jump_slope_bps :: i128
  rate_floor_bps :: i128
  rate_ceiling_bps :: i128
  spread_bps :: i128
  irc_last_update :: u64

record InterestRateConfigUpdate =
  u_base_rate_bps :: "i128 option"
  u_kink_utilization_bps :: "i128 option"
  u_slope_bps :: "i128 option"
  u_jump_slope_bps :: "i128 option"
  u_rate_floor_bps :: "i128 option"
  u_rate_ceiling_bps :: "i128 option"
  u_spread_bps :: "i128 option"

datatype PauseType =
  All_Ops | Deposit | Borrow | Repay | Withdraw | Liquidation | FlashLoan | BridgeAcceptance

datatype EmergencyState = Normal | Shutdown | Recovery

datatype RiskAlertSeverity = Warning | Critical | Emergency

record RiskAlertThresholds =
  warning_utilization_bps :: u32
  critical_utilization_bps :: u32
  emergency_utilization_bps :: u32

datatype TriggerCombiner = Any_Trigger | All_Triggers

record PriceTrigger =
  pt_asset :: address
  trigger_price :: i128
  fire_when_at_or_above :: bool

datatype CommitmentStatus = Pending | Executed | Cancelled | Expired_Status

record BorrowCommitment =
  owner :: address
  triggers :: "PriceTrigger list"
  combiner :: TriggerCombiner
  borrow_asset :: address
  cm_collateral_asset :: address
  borrow_amount :: i128
  cm_collateral_amount :: i128
  min_fill_bps :: u32
  expiry_timestamp :: u64
  status :: CommitmentStatus

section \<open>Errors\<close>

datatype BorrowError =
  InsufficientCollateral | DebtCeilingReached | ProtocolPaused | InvalidAmount | Overflow
  | Unauthorized | AssetNotSupported | BelowMinimumBorrow | RepayAmountTooHigh | PositionHealthy
  | InsufficientReserves

datatype InterestRateError = Unauthorized | InvalidParameter | Overflow | DivisionByZero

datatype DepositError =
  InvalidAmount | DepositPaused | Overflow | AssetNotSupported | ExceedsDepositCap | Unauthorized

datatype WithdrawError =
  InvalidAmount | WithdrawPaused | Overflow | InsufficientCollateral | InsufficientCollateralRatio
  | Unauthorized

datatype FlashLoanError =
  InvalidAmount | InsufficientRepayment | Unauthorized | InvalidFee | CallbackFailed | Reentrancy
  | FlashLoanPaused

datatype RiskMonitorError = Unauthorized | InvalidThresholds

datatype CommitmentError =
  NotFound | Unauthorized | BadConfig | Expired | NotExecutable | OracleNotConfigured
  | TriggerNotMet | BelowMinPartialFill | BorrowFailed | TooManyTriggers

datatype MetaTxError =
  Unauthorized | Expired | InvalidNonce | DelegationMissing | DelegationExpired | PermissionDenied

section \<open>Events\<close>

datatype pause_event =
  PauseEvent PauseType bool address
  | GuardianSetEvent address address
  | EmergencyStateEvent EmergencyState EmergencyState address

datatype lending_event =
  BorrowEvent address address i128 i128 u64
  | BorrowCollateralDepositEvent address address i128 u64
  | RepayEvent address address i128 u64
  | VaultDepositEvent address address i128 i128 u64
  | WithdrawEvent address address i128 i128 u64
  | FlashLoanEvent address address i128 i128 u64
  | PegDeviationEvent address i128 i128 i128 u64
  | StabilityFeeAppliedEvent address i128 u64
  | InterestRateModelUpdatedEvent address InterestRateConfig InterestRateConfig u64
  | RiskUtilizationAlertEvent u32 u32 i128 i128 u64
  | BorrowCommitmentCreatedEvent u64 address address i128 u64
  | BorrowCommitmentCancelledEvent u64 address
  | BorrowCommitmentExecutedEvent u64 address i128 i128
  | PauseModuleEvent pause_event
  | BadDebtEvent address i128
  | BadDebtRecoveredEvent i128

section \<open>Storage\<close>

record pause_store =
  State :: "PauseType \<Rightarrow> bool option"
  Guardian :: "address option"
  EmergencyStateKey :: "EmergencyState option"

record borrow_store = pause_store +
  ProtocolAdmin :: "address option"
  BorrowUserDebt :: "address \<Rightarrow> DebtPosition option"
  BorrowUserVariableDebt :: "address \<Rightarrow> DebtPosition option"
  BorrowUserStableDebt :: "address \<Rightarrow> DebtPosition option"
  BorrowUserCollateral :: "address \<Rightarrow> BorrowCollateral option"
  BorrowTotalDebt :: "i128 option"
  BorrowDebtCeiling :: "i128 option"
  BorrowInterestRate :: "InterestRateConfig option"
  BorrowMinAmount :: "i128 option"
  OracleAddress :: "address option"
  LiquidationThresholdBps :: "i128 option"
  CloseFactorBps :: "i128 option"
  LiquidationIncentiveBps :: "i128 option"
  InterestIndex :: "i128 option"
  AssetStablecoinConfig :: "address \<Rightarrow> StablecoinConfig option"
  StableRateStateKey :: "StableRateState option"
  StableRatePremiumBps :: "i128 option"
  StableRateRecalcIntervalSecs :: "u64 option"
  RateSwitchFeeBps :: "i128 option"

record deposit_store = borrow_store +
  UserCollateral :: "address \<Rightarrow> DepositCollateral option"
  TotalAmount :: "i128 option"
  CapAmount :: "i128 option"
  MinAmount :: "i128 option"

record withdraw_store = deposit_store +
  Paused :: "bool option"
  MinWithdrawAmount :: "i128 option"

record flash_store = withdraw_store +
  FlashLoanFeeBps :: "i128 option"
  ReentrancyGuard :: "bool option"

record risk_store = flash_store +
  Thresholds :: "RiskAlertThresholds option"
  LastEmittedTier :: "u32 option"

record commitment_store = risk_store +
  NextId :: "u64 option"
  Commitment :: "u64 \<Rightarrow> BorrowCommitment option"

record meta_store = commitment_store +
  DelegationRegistry :: "address option"
  Nonce :: "address \<Rightarrow> u64 option"

record bad_debt_store = meta_store +
  BadDebtTotal :: "i128 option"
  BadDebtUser :: "address \<Rightarrow> i128 option"

record lending_state = bad_debt_store +
  ProtocolReserves :: "i128 option"
  events :: "lending_event list"

text \<open>The storage of a freshly deployed contract: no key is present.\<close>

definition empty_storage :: lending_state where
  "empty_storage =
   \<lparr>State = (\<lambda>_. None), Guardian = None, EmergencyStateKey = None,
    ProtocolAdmin = None, BorrowUserDebt = (\<lambda>_. None), BorrowUserVariableDebt = (\<lambda>_. None),
    BorrowUserStableDebt = (\<lambda>_. None), BorrowUserCollateral = (\<lambda>_. None),
    BorrowTotalDebt = None, BorrowDebtCeiling = None, BorrowInterestRate = None,
    BorrowMinAmount = None, OracleAddress = None, LiquidationThresholdBps = None,
    CloseFactorBps = None, LiquidationIncentiveBps = None, InterestIndex = None,
    AssetStablecoinConfig = (\<lambda>_. None), StableRateStateKey = None, StableRatePremiumBps = None,
    StableRateRecalcIntervalSecs = None, RateSwitchFeeBps = None,
    UserCollateral = (\<lambda>_. None), TotalAmount = None, CapAmount = None, MinAmount = None,
    Paused = None, MinWithdrawAmount = None, FlashLoanFeeBps = None, ReentrancyGuard = None,
    Thresholds = None, LastEmittedTier = None, NextId = None, Commitment = (\<lambda>_. None),
    DelegationRegistry = None, Nonce = (\<lambda>_. None),
    BadDebtTotal = None, BadDebtUser = (\<lambda>_. None), ProtocolReserves = None, events = []\<rparr>"

definition unwrap_or :: "'a option \<Rightarrow> 'a \<Rightarrow> 'a" where
  "unwrap_or x d = (case x of Some a \<Rightarrow> a | None \<Rightarrow> d)"

lemma unwrap_or_simps [simp]: "unwrap_or None d = d" "unwrap_or (Some a) d = a"
  by (simp_all add: unwrap_or_def)

definition publish :: "lending_event \<Rightarrow> lending_state \<Rightarrow> lending_state" where
  "publish e s = s\<lparr>events := events s @ [e]\<rparr>"

section \<open>The host\<close>

text \<open>
  What the contract reads from the Soroban host and from other contracts during one invocation: the
  ledger time, which addresses signed, the price an oracle contract reports for an asset and the
  answer of a delegation registry. The last two are code outside this contract: parameters, with
  \<open>None\<close> for a call that traps.
\<close>

record host =
  now :: u64
  signed :: "address \<Rightarrow> bool"
  oracle_price :: "address \<Rightarrow> address \<Rightarrow> i128 option"
  registry_validate :: "address \<Rightarrow> address \<Rightarrow> address \<Rightarrow> u32 \<Rightarrow> bool option"

definition require_auth :: "host \<Rightarrow> address \<Rightarrow> ('s, 'e, unit) contract_fn" where
  "require_auth h a = (if signed h a then ret () else panic)"

lemma require_auth_Ok [ok_simps]: "require_auth h a s = (Ok b, t) \<longleftrightarrow> signed h a \<and> t = s"
  by (auto simp: require_auth_def)

lemma require_auth_run [run_simps]:
  "require_auth h a s = (if signed h a then (Ok (), s) else (Panic, s))"
  by (simp add: require_auth_def)

end
