(* ===== verification/Sample.thy ===== *)
theory Sample
  imports Lending_State
begin

text \<open>
  A concrete host and concrete storages on which the theorems with hypotheses are instantiated: every
  address has signed, the oracle reports 1.00 (8 decimals) for every asset, the registry accepts.
\<close>

definition sample_host :: "u64 \<Rightarrow> host" where
  "sample_host n = \<lparr>now = n, signed = (\<lambda>_. True), oracle_price = (\<lambda>_ _. Some 100000000),
                    registry_validate = (\<lambda>_ _ _ _. Some True)\<rparr>"

definition sample_debt :: "i128 \<Rightarrow> i128 \<Rightarrow> address \<Rightarrow> RateType \<Rightarrow> DebtPosition" where
  "sample_debt borrowed interest asset rt =
     \<lparr>borrowed_amount = borrowed, interest_accrued = interest, last_update = 0, debt_asset = asset,
      rate_type = rt, stable_rate_bps = 0\<rparr>"

text \<open>User 1 owes 1000 of asset 7 at the variable rate against 3000 of asset 8; the oracle is
  contract 5; the admin is address 9.\<close>

definition sample_state :: lending_state where
  "sample_state = empty_storage\<lparr>
     ProtocolAdmin := Some 9,
     BorrowUserDebt := [1 \<mapsto> sample_debt 1000 10 7 Variable],
     BorrowUserVariableDebt := [1 \<mapsto> sample_debt 1000 10 7 Variable],
     BorrowUserCollateral := [1 \<mapsto> \<lparr>bc_amount = 3000, bc_asset = 8\<rparr>],
     BorrowTotalDebt := Some 1000, BorrowDebtCeiling := Some 1000000,
     OracleAddress := Some 5\<rparr>"

text \<open>The state a call that returned \<open>r\<close> left behind.\<close>

lemma run_pair: "fst x = r \<Longrightarrow> x = (r, snd x)"
  by (simp add: prod_eq_iff)

end
