(* ===== verification/SL_Interfaces.thy ===== *)
theory SL_Interfaces
  imports SL_Prelude
begin

text \<open>
  The interfaces several components share, as locales: a double-entry ledger (the vault's deposits
  and the borrow module's debts keep a protocol total beside per-user entries), an operation only
  the admin may run, and a machine whose steps keep an invariant.
\<close>

section \<open>Double-entry ledgers\<close>

text \<open>
  \<open>entry\<close> is what the store holds for a key, \<open>amt\<close> the number that is summed, \<open>tot\<close> the
  protocol-wide counter that the code updates separately from the entries, \<open>fits\<close> which values
  the code stores under a key.
\<close>

definition ledger_bal :: "('s \<Rightarrow> 'k \<Rightarrow> 'v option) \<Rightarrow> ('v \<Rightarrow> int) \<Rightarrow> 's \<Rightarrow> 'k \<Rightarrow> int" where
  "ledger_bal entry amt s k = (case entry s k of None \<Rightarrow> 0 | Some v \<Rightarrow> amt v)"

definition ledger_sum :: "('s \<Rightarrow> 'k \<Rightarrow> 'v option) \<Rightarrow> ('v \<Rightarrow> int) \<Rightarrow> 's \<Rightarrow> int" where
  "ledger_sum entry amt s = (\<Sum>k\<in>dom (entry s). ledger_bal entry amt s k)"

definition ledger_balanced ::
    "('s \<Rightarrow> 'k \<Rightarrow> 'v option) \<Rightarrow> ('v \<Rightarrow> int) \<Rightarrow> ('s \<Rightarrow> int) \<Rightarrow> 's \<Rightarrow> bool" where
  "ledger_balanced entry amt tot s \<longleftrightarrow>
     finite (dom (entry s)) \<and> (\<forall>k. 0 \<le> ledger_bal entry amt s k) \<and> tot s = ledger_sum entry amt s"

lemma ledger_balanced_cong:
  assumes "entry t = entry s" and "tot t = tot s"
  shows "ledger_balanced entry amt tot t = ledger_balanced entry amt tot s"
  using assms by (simp add: ledger_balanced_def ledger_sum_def ledger_bal_def)

lemma ledger_balanced_total_nonneg:
  "ledger_balanced entry amt tot s \<Longrightarrow> 0 \<le> tot s"
  by (simp add: ledger_balanced_def ledger_sum_def sum_nonneg)

lemma ledger_balanced_bal_le_total:
  assumes "ledger_balanced entry amt tot s"
  shows "ledger_bal entry amt s k \<le> tot s"
proof (cases "k \<in> dom (entry s)")
  case True
  with assms show ?thesis
    by (auto simp: ledger_balanced_def ledger_sum_def intro!: member_le_sum)
next
  case False
  then have "ledger_bal entry amt s k = 0"
    by (auto simp: ledger_bal_def split: option.splits)
  with ledger_balanced_total_nonneg [OF assms] show ?thesis by simp
qed

locale ledger =
  fixes entry :: "'s \<Rightarrow> 'k \<Rightarrow> 'v option"
    and amt :: "'v \<Rightarrow> int"
    and tot :: "'s \<Rightarrow> int"
    and save :: "'k \<Rightarrow> 'v \<Rightarrow> 's \<Rightarrow> 's"
    and set_total :: "int \<Rightarrow> 's \<Rightarrow> 's"
    and fits :: "'k \<Rightarrow> 'v \<Rightarrow> bool"
  assumes entry_save: "fits k v \<Longrightarrow> entry (save k v s) = (entry s)(k \<mapsto> v)"
    and total_save: "fits k v \<Longrightarrow> tot (save k v s) = tot s"
    and entry_set_total: "entry (set_total n s) = entry s"
    and total_set_total: "tot (set_total n s) = n"
begin

abbreviation bal :: "'s \<Rightarrow> 'k \<Rightarrow> int" where
  "bal \<equiv> ledger_bal entry amt"

abbreviation balanced :: "'s \<Rightarrow> bool" where
  "balanced \<equiv> ledger_balanced entry amt tot"

lemma bal_save: "fits k v \<Longrightarrow> bal (save k v s) = (bal s)(k := amt v)"
  by (rule ext) (simp add: ledger_bal_def entry_save)

lemma bal_set_total: "bal (set_total n s) = bal s"
  by (rule ext) (simp add: ledger_bal_def entry_set_total)

lemma sum_save:
  assumes "finite (dom (entry s))" and "fits k v"
  shows "ledger_sum entry amt (save k v s) = ledger_sum entry amt s - bal s k + amt v"
proof -
  let ?D = "dom (entry s)"
  have out: "j \<notin> ?D \<Longrightarrow> bal s j = 0" for j
    by (auto simp: ledger_bal_def split: option.splits)
  have "(\<Sum>j\<in>insert k ?D. bal (save k v s) j) = amt v + (\<Sum>j\<in>?D - {k}. bal s j)"
    by (subst sum.insert_remove) (auto simp: assms bal_save)
  moreover have "(\<Sum>j\<in>?D - {k}. bal s j) = (\<Sum>j\<in>?D. bal s j) - bal s k"
    by (cases "k \<in> ?D") (auto simp: sum_diff1 assms out)
  ultimately show ?thesis by (simp add: ledger_sum_def entry_save assms)
qed

lemma sum_set_total: "ledger_sum entry amt (set_total n s) = ledger_sum entry amt s"
  by (simp add: ledger_sum_def entry_set_total bal_set_total)

lemma finite_dom_save: "finite (dom (entry s)) \<Longrightarrow> fits k v \<Longrightarrow> finite (dom (entry (save k v s)))"
  by (simp add: entry_save)

lemma nonneg_save: "(\<forall>j. 0 \<le> bal s j) \<Longrightarrow> 0 \<le> amt v \<Longrightarrow> fits k v \<Longrightarrow> \<forall>j. 0 \<le> bal (save k v s) j"
  by (simp add: bal_save)

lemmas ledger_laws = bal_save bal_set_total sum_save sum_set_total finite_dom_save nonneg_save
  total_save total_set_total entry_set_total ledger_balanced_def

text \<open>A posting: one entry and the total change by the same amount. The order of the two writes
  does not matter.\<close>

lemma balanced_post:
  assumes "balanced s" and "fits k v" and "amt v = bal s k + d" and "0 \<le> amt v"
  shows "balanced (set_total (tot s + d) (save k v s))"
  using assms by (simp add: ledger_laws)

lemma balanced_post_rev:
  assumes "balanced s" and "fits k v" and "amt v = bal s k + d" and "0 \<le> amt v"
  shows "balanced (save k v (set_total (tot s + d) s))"
  using assms by (simp add: ledger_laws)

text \<open>Rewriting an entry without changing its amount.\<close>

lemma balanced_rewrite:
  assumes "balanced s" and "fits k v" and "amt v = bal s k"
  shows "balanced (save k v s)"
  using assms by (simp add: ledger_laws)

text \<open>A transfer between two entries: the total is untouched.\<close>

lemma balanced_transfer:
  assumes "balanced s" and "fits k v" and "fits k' v'" and "k \<noteq> k'" and "amt v = 0" and "bal s k' = 0" and "amt v' = bal s k"
  shows "balanced (save k' v' (save k v s))"
  using assms by (simp add: ledger_laws)

end

section \<open>Admin-gated operations\<close>

text \<open>
  \<open>admin_of\<close> reads the stored admin, \<open>auth\<close> says who signed the invocation, \<open>op c\<close> is the
  operation run with caller \<open>c\<close>.
\<close>

locale admin_gated =
  fixes admin_of :: "'s \<Rightarrow> 'ad option"
    and auth :: "'ad \<Rightarrow> bool"
    and op :: "'ad \<Rightarrow> ('s, 'e, 'a) contract_fn"
  assumes gate: "op c s = (Ok a, t) \<Longrightarrow> admin_of s = Some c \<and> auth c"
begin

lemma not_admin_no_effect:
  assumes "admin_of s \<noteq> Some c \<or> \<not> auth c"
  shows "snd (invoke (op c) s) = s"
proof (cases rule: invoke_cases [of "op c" s])
  case (committed a t)
  with gate assms show ?thesis by blast
qed

end

section \<open>Machines with an invariant\<close>

text \<open>
  \<open>allowed s l\<close> restricts the steps of a run; a run is a list of labels, executed from the left.
\<close>

primrec run :: "('l \<Rightarrow> 's \<Rightarrow> 's) \<Rightarrow> 's \<Rightarrow> 'l list \<Rightarrow> 's" where
  "run step s [] = s"
| "run step s (l # ls) = run step (step l s) ls"

primrec allowed_run :: "('s \<Rightarrow> 'l \<Rightarrow> bool) \<Rightarrow> ('l \<Rightarrow> 's \<Rightarrow> 's) \<Rightarrow> 's \<Rightarrow> 'l list \<Rightarrow> bool" where
  "allowed_run ok step s [] = True"
| "allowed_run ok step s (l # ls) = (ok s l \<and> allowed_run ok step (step l s) ls)"

lemma allowed_run_always: "allowed_run (\<lambda>_ _. True) step s ls"
  by (induction ls arbitrary: s) simp_all

lemma run_append: "run step s (xs @ ys) = run step (run step s xs) ys"
  by (induction xs arbitrary: s) simp_all

locale invariant_machine =
  fixes step :: "'l \<Rightarrow> 's \<Rightarrow> 's"
    and start :: 's
    and allowed :: "'s \<Rightarrow> 'l \<Rightarrow> bool"
    and inv :: "'s \<Rightarrow> bool"
  assumes inv_start: "inv start"
    and inv_step: "inv s \<Longrightarrow> allowed s l \<Longrightarrow> inv (step l s)"
begin

lemma inv_run_from: "inv s \<Longrightarrow> allowed_run allowed step s ls \<Longrightarrow> inv (run step s ls)"
  by (induction ls arbitrary: s) (auto intro: inv_step)

lemma inv_run: "allowed_run allowed step start ls \<Longrightarrow> inv (run step start ls)"
  by (rule inv_run_from [OF inv_start])

end

end
