(* ===== verification/HW_Core.thy ===== *)
theory HW_Core
  imports Sample SL_Interfaces
begin

text \<open>
  The core of the protocol contract (src/stellar-lend/contracts/hello-world/src): the admin and its roles
  (admin.rs), the risk parameters (risk_params.rs), the pause switches (risk_management.rs), the interest rate
  model with its compound index (interest_rate.rs), and the public entry points and error codes that expose
  them (lib.rs, errors.rs).

  The storage is a record that the other modules of the contract extend, so the operations are stated for every
  extension. A key is the name of an enum variant: \<open>AdminDataKey::Admin\<close> and \<open>RiskDataKey::Admin\<close>, both
  persistent, are one entry, \<open>AdminKey\<close>.
\<close>

section \<open>Data\<close>

datatype AdminError = Unauthorized | InvalidParameter | AdminAlreadySet

datatype RiskParamsError = Unauthorized | InvalidParameter | ParameterChangeTooLarge | InvalidCollateralRatio
  | InvalidLiquidationThreshold | InvalidCloseFactor | InvalidLiquidationIncentive

datatype RiskManagementError = Unauthorized | InvalidParameter | ParameterChangeTooLarge | InsufficientCollateralRatio
  | OperationPaused | EmergencyPaused | InvalidCollateralRatio | InvalidLiquidationThreshold | InvalidCloseFactor
  | InvalidLiquidationIncentive | Overflow | GovernanceRequired | AlreadyInitialized

datatype InterestRateError = Unauthorized | InvalidParameter | ParameterChangeTooLarge | Overflow | DivisionByZero
  | AlreadyInitialized

text \<open>The codebook of the public interface, as far as the modelled modules use it.\<close>

datatype LendingError = Unauthorized | InvalidAmount | InvalidAsset | InvalidParameter | InsufficientBalance
  | InsufficientCollateral | InsufficientCollateralRatio | Overflow | ProtocolPaused | Reentrancy | NotInitialized
  | AlreadyInitialized | DataNotFound | DivisionByZero | NoDebt | AssetNotEnabled | LimitExceeded | InvalidState
  | PriceUnavailable | InsufficientLiquidity | InvalidCallback | CallbackFailed | NotRepaid | TreasuryNotSet
  | InsufficientReserve | InvalidFee | GovernanceRequired | GovernanceFailure | CommitRequired | CommitNotFound
  | CommitNotReady | CommitExpired | FeeCapExceeded | NotFound | AlreadyExists

fun of_AdminError :: "AdminError \<Rightarrow> LendingError" where
  "of_AdminError AdminError.Unauthorized = LendingError.Unauthorized"
| "of_AdminError AdminError.InvalidParameter = LendingError.InvalidParameter"
| "of_AdminError AdminAlreadySet = LendingError.AlreadyInitialized"

fun of_InterestRateError :: "InterestRateError \<Rightarrow> LendingError" where
  "of_InterestRateError InterestRateError.Unauthorized = LendingError.Unauthorized"
| "of_InterestRateError InterestRateError.InvalidParameter = LendingError.InvalidParameter"
| "of_InterestRateError InterestRateError.ParameterChangeTooLarge = LendingError.LimitExceeded"
| "of_InterestRateError InterestRateError.Overflow = LendingError.Overflow"
| "of_InterestRateError InterestRateError.DivisionByZero = LendingError.DivisionByZero"
| "of_InterestRateError InterestRateError.AlreadyInitialized = LendingError.AlreadyInitialized"

fun of_RiskManagementError :: "RiskManagementError \<Rightarrow> LendingError" where
  "of_RiskManagementError RiskManagementError.Unauthorized = LendingError.Unauthorized"
| "of_RiskManagementError RiskManagementError.InvalidParameter = LendingError.InvalidParameter"
| "of_RiskManagementError RiskManagementError.ParameterChangeTooLarge = LendingError.LimitExceeded"
| "of_RiskManagementError RiskManagementError.InsufficientCollateralRatio = LendingError.InsufficientCollateralRatio"
| "of_RiskManagementError OperationPaused = LendingError.ProtocolPaused"
| "of_RiskManagementError EmergencyPaused = LendingError.ProtocolPaused"
| "of_RiskManagementError RiskManagementError.InvalidCollateralRatio = LendingError.InvalidParameter"
| "of_RiskManagementError RiskManagementError.InvalidLiquidationThreshold = LendingError.InvalidParameter"
| "of_RiskManagementError RiskManagementError.InvalidCloseFactor = LendingError.InvalidParameter"
| "of_RiskManagementError RiskManagementError.InvalidLiquidationIncentive = LendingError.InvalidParameter"
| "of_RiskManagementError RiskManagementError.Overflow = LendingError.Overflow"
| "of_RiskManagementError RiskManagementError.GovernanceRequired = LendingError.GovernanceRequired"
| "of_RiskManagementError RiskManagementError.AlreadyInitialized = LendingError.AlreadyInitialized"

record RiskParams =
  rp_min_collateral_ratio :: i128
  rp_liquidation_threshold :: i128
  rp_close_factor :: i128
  rp_liquidation_incentive :: i128
  rp_last_update :: u64

record RiskConfig =
  pause_switches :: "symbol \<Rightarrow> bool option"
  rc_min_collateral_ratio :: i128
  rc_liquidation_threshold :: i128
  rc_close_factor :: i128
  rc_liquidation_incentive :: i128
  rc_last_update :: u64

record LendingIndex =
  borrow_index :: i128
  supply_index :: i128
  li_last_update :: u64

record InterestRateConfig =
  hc_base_rate_bps :: i128
  hc_kink_utilization_bps :: i128
  hc_multiplier_bps :: i128
  hc_jump_multiplier_bps :: i128
  hc_rate_floor_bps :: i128
  hc_rate_ceiling_bps :: i128
  hc_spread_bps :: i128
  hc_emergency_adjustment_bps :: i128
  hc_last_update :: u64

record InterestRateParams =
  ip_base_rate_bps :: "i128 option"
  ip_kink_utilization_bps :: "i128 option"
  ip_multiplier_bps :: "i128 option"
  ip_jump_multiplier_bps :: "i128 option"
  ip_rate_floor_bps :: "i128 option"
  ip_rate_ceiling_bps :: "i128 option"
  ip_spread_bps :: "i128 option"

record ProtocolAnalytics =
  pa_total_deposits :: i128
  pa_total_borrows :: i128
  pa_total_value_locked :: i128

datatype core_event =
  AdminChanged address "address option"
| RoleGranted address symbol address
| RoleRevoked address symbol address
| AdminActionEvent address symbol u64
| PauseStateChangedEvent address symbol bool u64
| RiskParamsUpdated RiskParams

record hw_core =
  AdminKey :: "address option"
  RoleKey :: "symbol \<times> address \<Rightarrow> bool option"
  RiskConfigKey :: "RiskConfig option"
  EmergencyPauseKey :: "bool option"
  RiskParamsConfig :: "RiskParams option"
  InterestRateConfigKey :: "InterestRateConfig option"
  LendingIndexKey :: "LendingIndex option"
  ProtocolAnalyticsKey :: "ProtocolAnalytics option"
  core_log :: "core_event list"

type_synonym ('z, 'e, 'a) core_fn = "('z hw_core_scheme, 'e, 'a) contract_fn"

definition core_publish :: "core_event \<Rightarrow> 'z hw_core_scheme \<Rightarrow> 'z hw_core_scheme" where
  "core_publish e s = s\<lparr>core_log := core_log s @ [e]\<rparr>"

text \<open>\<open>if let Some(v) = x { config = f(v, config)? }\<close>, and \<open>m.unwrap_or(d)\<close> for a fallible call.\<close>

definition when_some :: "'v option \<Rightarrow> ('v \<Rightarrow> 'c \<Rightarrow> ('s, 'e, 'c) contract_fn) \<Rightarrow> 'c \<Rightarrow> ('s, 'e, 'c) contract_fn" where
  "when_some x f c = (case x of Some v \<Rightarrow> f v c | None \<Rightarrow> ret c)"

definition or_default :: "('s, 'e, 'a) contract_fn \<Rightarrow> 'a \<Rightarrow> ('s, 'e2, 'a) contract_fn" where
  "or_default m d = (\<lambda>s. case m s of (Ok a, t) \<Rightarrow> (Ok a, t) | (Err e, t) \<Rightarrow> (Ok d, t) | (Panic, t) \<Rightarrow> (Panic, t))"

section \<open>The admin and roles: admin.rs\<close>

definition has_admin :: "'z hw_core_scheme \<Rightarrow> bool" where
  "has_admin s \<longleftrightarrow> AdminKey s \<noteq> None"

definition hw_set_admin :: "address \<Rightarrow> address option \<Rightarrow> ('z, AdminError, unit) core_fn" where
  "hw_set_admin new_admin caller =
     reads AdminKey (\<lambda>current.
     fail_if (current \<noteq> None \<and> caller \<noteq> current) AdminError.Unauthorized (
     writes (\<lambda>s. s\<lparr>AdminKey := Some new_admin\<rparr>) (
     writes (core_publish (AdminChanged new_admin caller))
     (ret ()))))"

definition hw_require_admin :: "address \<Rightarrow> ('z, AdminError, unit) core_fn" where
  "hw_require_admin caller =
     reads AdminKey (\<lambda>a. ok_or a AdminError.Unauthorized (\<lambda>admin.
     fail_if (admin \<noteq> caller) AdminError.Unauthorized (ret ())))"

definition grant_role :: "address \<Rightarrow> symbol \<Rightarrow> address \<Rightarrow> ('z, AdminError, unit) core_fn" where
  "grant_role caller role account =
     tryM (hw_require_admin caller) (\<lambda>_.
     writes (\<lambda>s. s\<lparr>RoleKey := (RoleKey s)((role, account) \<mapsto> True)\<rparr>) (
     writes (core_publish (RoleGranted caller role account))
     (ret ())))"

definition revoke_role :: "address \<Rightarrow> symbol \<Rightarrow> address \<Rightarrow> ('z, AdminError, unit) core_fn" where
  "revoke_role caller role account =
     tryM (hw_require_admin caller) (\<lambda>_.
     writes (\<lambda>s. s\<lparr>RoleKey := (RoleKey s)((role, account) := None)\<rparr>) (
     writes (core_publish (RoleRevoked caller role account))
     (ret ())))"

definition has_role :: "'z hw_core_scheme \<Rightarrow> symbol \<Rightarrow> address \<Rightarrow> bool" where
  "has_role s role account = unwrap_or (RoleKey s (role, account)) False"

definition require_role_or_admin :: "address \<Rightarrow> symbol \<Rightarrow> ('z, AdminError, unit) core_fn" where
  "require_role_or_admin caller required_role =
     reads (\<lambda>s. AdminKey s = Some caller) (\<lambda>is_admin.
     if is_admin then ret ()
     else reads (\<lambda>s. has_role s required_role caller) (\<lambda>ok.
       if ok then ret () else fail AdminError.Unauthorized))"

section \<open>Risk parameters: risk_params.rs\<close>

definition BASIS_POINTS_SCALE :: i128 where "BASIS_POINTS_SCALE = 10000"
definition MIN_COLLATERAL_RATIO_MIN :: i128 where "MIN_COLLATERAL_RATIO_MIN = 10000"
definition MIN_COLLATERAL_RATIO_MAX :: i128 where "MIN_COLLATERAL_RATIO_MAX = 50000"
definition LIQUIDATION_THRESHOLD_MIN :: i128 where "LIQUIDATION_THRESHOLD_MIN = 10000"
definition LIQUIDATION_THRESHOLD_MAX :: i128 where "LIQUIDATION_THRESHOLD_MAX = 50000"
definition CLOSE_FACTOR_MIN :: i128 where "CLOSE_FACTOR_MIN = 0"
definition CLOSE_FACTOR_MAX :: i128 where "CLOSE_FACTOR_MAX = BASIS_POINTS_SCALE"
definition LIQUIDATION_INCENTIVE_MIN :: i128 where "LIQUIDATION_INCENTIVE_MIN = 0"
definition LIQUIDATION_INCENTIVE_MAX :: i128 where "LIQUIDATION_INCENTIVE_MAX = 5000"
definition MAX_PARAMETER_CHANGE_BPS :: i128 where "MAX_PARAMETER_CHANGE_BPS = 1000"

definition validate_risk_params :: "RiskParams \<Rightarrow> RiskParamsError + unit" where
  "validate_risk_params c =
     (if rp_min_collateral_ratio c < MIN_COLLATERAL_RATIO_MIN \<or> rp_min_collateral_ratio c > MIN_COLLATERAL_RATIO_MAX
      then Inl RiskParamsError.InvalidParameter
      else if rp_liquidation_threshold c < LIQUIDATION_THRESHOLD_MIN \<or> rp_liquidation_threshold c > LIQUIDATION_THRESHOLD_MAX
      then Inl RiskParamsError.InvalidLiquidationThreshold
      else if rp_min_collateral_ratio c < rp_liquidation_threshold c then Inl RiskParamsError.InvalidCollateralRatio
      else if rp_close_factor c < CLOSE_FACTOR_MIN \<or> rp_close_factor c > CLOSE_FACTOR_MAX
      then Inl RiskParamsError.InvalidCloseFactor
      else if rp_liquidation_incentive c < LIQUIDATION_INCENTIVE_MIN \<or> rp_liquidation_incentive c > LIQUIDATION_INCENTIVE_MAX
      then Inl RiskParamsError.InvalidLiquidationIncentive
      else Inr ())"

definition initialize_risk_params :: "host \<Rightarrow> ('z, RiskParamsError, unit) core_fn" where
  "initialize_risk_params h =
     (let c = \<lparr>rp_min_collateral_ratio = 11000, rp_liquidation_threshold = 10500, rp_close_factor = 5000,
               rp_liquidation_incentive = 1000, rp_last_update = now h\<rparr> in
      tryM (liftE (validate_risk_params c)) (\<lambda>_.
      writes (\<lambda>s. s\<lparr>RiskParamsConfig := Some c\<rparr>)
      (ret ())))"

definition validate_parameter_change :: "i128 \<Rightarrow> i128 \<Rightarrow> ('s, RiskParamsError, unit) contract_fn" where
  "validate_parameter_change old_value new_value =
     unwrap (if new_value > old_value then checked_sub new_value old_value else checked_sub old_value new_value) (\<lambda>change.
     unwrap (checked_mul old_value MAX_PARAMETER_CHANGE_BPS) (\<lambda>m.
     fail_if (change > m sdiv BASIS_POINTS_SCALE) RiskParamsError.ParameterChangeTooLarge (ret ())))"

definition set_risk_params ::
    "host \<Rightarrow> i128 option \<Rightarrow> i128 option \<Rightarrow> i128 option \<Rightarrow> i128 option \<Rightarrow> ('z, RiskParamsError, unit) core_fn" where
  "set_risk_params h mcr lt cf li =
     reads RiskParamsConfig (\<lambda>x. ok_or x RiskParamsError.InvalidParameter (\<lambda>c0.
     tryM (when_some mcr (\<lambda>v c. tryM (validate_parameter_change (rp_min_collateral_ratio c) v)
             (\<lambda>_. ret (c\<lparr>rp_min_collateral_ratio := v\<rparr>))) c0) (\<lambda>c1.
     tryM (when_some lt (\<lambda>v c. tryM (validate_parameter_change (rp_liquidation_threshold c) v)
             (\<lambda>_. ret (c\<lparr>rp_liquidation_threshold := v\<rparr>))) c1) (\<lambda>c2.
     tryM (when_some cf (\<lambda>v c. tryM (validate_parameter_change (rp_close_factor c) v)
             (\<lambda>_. ret (c\<lparr>rp_close_factor := v\<rparr>))) c2) (\<lambda>c3.
     tryM (when_some li (\<lambda>v c. tryM (validate_parameter_change (rp_liquidation_incentive c) v)
             (\<lambda>_. ret (c\<lparr>rp_liquidation_incentive := v\<rparr>))) c3) (\<lambda>c4.
     tryM (liftE (validate_risk_params c4)) (\<lambda>_.
     let c5 = c4\<lparr>rp_last_update := now h\<rparr> in
     writes (\<lambda>s. s\<lparr>RiskParamsConfig := Some c5\<rparr>) (
     writes (core_publish (RiskParamsUpdated c5))
     (ret ())))))))))"

definition hw_get_max_liquidatable_amount :: "i128 \<Rightarrow> ('z, RiskParamsError, i128) core_fn" where
  "hw_get_max_liquidatable_amount debt_value =
     reads RiskParamsConfig (\<lambda>x. ok_or x RiskParamsError.InvalidParameter (\<lambda>c.
     unwrap (checked_mul debt_value (rp_close_factor c)) (\<lambda>m.
     ok_or (checked_div m BASIS_POINTS_SCALE) RiskParamsError.InvalidParameter ret)))"

definition hw_get_liquidation_incentive_amount :: "i128 \<Rightarrow> ('z, RiskParamsError, i128) core_fn" where
  "hw_get_liquidation_incentive_amount liquidated_amount =
     reads RiskParamsConfig (\<lambda>x. ok_or x RiskParamsError.InvalidParameter (\<lambda>c.
     unwrap (checked_mul liquidated_amount (rp_liquidation_incentive c)) (\<lambda>m.
     ok_or (checked_div m BASIS_POINTS_SCALE) RiskParamsError.InvalidParameter ret)))"

definition require_min_collateral_ratio :: "i128 \<Rightarrow> i128 \<Rightarrow> ('z, RiskParamsError, unit) core_fn" where
  "require_min_collateral_ratio collateral_value debt_value =
     reads RiskParamsConfig (\<lambda>x. ok_or x RiskParamsError.InvalidParameter (\<lambda>c.
     if debt_value = 0 then ret () else
     unwrap (checked_mul collateral_value BASIS_POINTS_SCALE) (\<lambda>m.
     ok_or (checked_div m debt_value) RiskParamsError.InvalidParameter (\<lambda>ratio.
     fail_if (ratio < rp_min_collateral_ratio c) RiskParamsError.InvalidCollateralRatio (ret ())))))"

definition can_be_liquidated :: "i128 \<Rightarrow> i128 \<Rightarrow> ('z, RiskParamsError, bool) core_fn" where
  "can_be_liquidated collateral_value debt_value =
     reads RiskParamsConfig (\<lambda>x. ok_or x RiskParamsError.InvalidParameter (\<lambda>c.
     if debt_value = 0 then ret False else
     unwrap (checked_mul collateral_value BASIS_POINTS_SCALE) (\<lambda>m.
     ok_or (checked_div m debt_value) RiskParamsError.InvalidParameter (\<lambda>ratio.
     ret (ratio < rp_liquidation_threshold c)))))"

section \<open>Pause switches: risk_management.rs\<close>

definition create_default_pause_switches :: "symbol \<Rightarrow> bool option" where
  "create_default_pause_switches =
     [''pause_deposit'' \<mapsto> False, ''pause_withdraw'' \<mapsto> False, ''pause_borrow'' \<mapsto> False, ''pause_repay'' \<mapsto> False,
      ''pause_liquidate'' \<mapsto> False, ''pause_flash_loan'' \<mapsto> False, ''pause_bridge_acceptance'' \<mapsto> False]"

definition initialize_risk_management :: "host \<Rightarrow> address \<Rightarrow> ('z, RiskManagementError, unit) core_fn" where
  "initialize_risk_management h admin =
     reads RiskConfigKey (\<lambda>existing.
     if existing \<noteq> None then ret () else
     writes (\<lambda>s. s\<lparr>AdminKey := Some admin\<rparr>) (
     reads (\<lambda>s. unwrap_or (RiskParamsConfig s)
       \<lparr>rp_min_collateral_ratio = 11000, rp_liquidation_threshold = 10500, rp_close_factor = 5000,
        rp_liquidation_incentive = 1000, rp_last_update = now h\<rparr>) (\<lambda>p.
     writes (\<lambda>s. s\<lparr>RiskConfigKey := Some \<lparr>pause_switches = create_default_pause_switches,
       rc_min_collateral_ratio = rp_min_collateral_ratio p, rc_liquidation_threshold = rp_liquidation_threshold p,
       rc_close_factor = rp_close_factor p, rc_liquidation_incentive = rp_liquidation_incentive p,
       rc_last_update = now h\<rparr>\<rparr>) (
     writes (\<lambda>s. s\<lparr>EmergencyPauseKey := Some False\<rparr>) (
     writes (core_publish (AdminActionEvent admin ''initialize'' (now h)))
     (ret ()))))))"

definition rm_require_admin :: "address \<Rightarrow> ('z, RiskManagementError, unit) core_fn" where
  "rm_require_admin caller = map_err (\<lambda>_. RiskManagementError.Unauthorized) (hw_require_admin caller)"

definition get_risk_config :: "'z hw_core_scheme \<Rightarrow> RiskConfig option" where
  "get_risk_config s =
     (case RiskConfigKey s of None \<Rightarrow> None
      | Some c \<Rightarrow> Some (case RiskParamsConfig s of None \<Rightarrow> c
          | Some p \<Rightarrow> c\<lparr>rc_min_collateral_ratio := rp_min_collateral_ratio p,
               rc_liquidation_threshold := rp_liquidation_threshold p, rc_close_factor := rp_close_factor p,
               rc_liquidation_incentive := rp_liquidation_incentive p, rc_last_update := rp_last_update p\<rparr>))"

definition set_pause_switch :: "host \<Rightarrow> address \<Rightarrow> symbol \<Rightarrow> bool \<Rightarrow> ('z, RiskManagementError, unit) core_fn" where
  "set_pause_switch h caller operation paused =
     tryM (rm_require_admin caller) (\<lambda>_.
     reads get_risk_config (\<lambda>x. ok_or x RiskManagementError.InvalidParameter (\<lambda>c.
     writes (\<lambda>s. s\<lparr>RiskConfigKey := Some (c\<lparr>pause_switches := (pause_switches c)(operation \<mapsto> paused), rc_last_update := now h\<rparr>)\<rparr>) (
     writes (core_publish (PauseStateChangedEvent caller operation paused (now h)))
     (ret ())))))"

text \<open>The switches to set are a host \<open>Map\<close>: entries in the order of their keys.\<close>

definition set_pause_switches :: "host \<Rightarrow> address \<Rightarrow> (symbol \<times> bool) list \<Rightarrow> ('z, RiskManagementError, unit) core_fn" where
  "set_pause_switches h caller switches =
     tryM (rm_require_admin caller) (\<lambda>_.
     reads get_risk_config (\<lambda>x. ok_or x RiskManagementError.InvalidParameter (\<lambda>c.
     writes (\<lambda>s. s\<lparr>RiskConfigKey := Some (c\<lparr>pause_switches := fold (\<lambda>(op, p) m. m(op \<mapsto> p)) switches (pause_switches c),
                                             rc_last_update := now h\<rparr>)\<rparr>) (
     writes (\<lambda>s. fold (\<lambda>(op, p). core_publish (PauseStateChangedEvent caller op p (now h))) switches s)
     (ret ())))))"

definition is_operation_paused :: "'z hw_core_scheme \<Rightarrow> symbol \<Rightarrow> bool" where
  "is_operation_paused s operation =
     (case get_risk_config s of Some c \<Rightarrow> unwrap_or (pause_switches c operation) False | None \<Rightarrow> False)"

definition require_operation_not_paused :: "symbol \<Rightarrow> ('z, RiskManagementError, unit) core_fn" where
  "require_operation_not_paused operation =
     reads (\<lambda>s. is_operation_paused s operation) (\<lambda>p. fail_if p RiskManagementError.OperationPaused (ret ()))"

definition is_emergency_paused :: "'z hw_core_scheme \<Rightarrow> bool" where
  "is_emergency_paused s = unwrap_or (EmergencyPauseKey s) False"

definition check_operation_paused :: "'z hw_core_scheme \<Rightarrow> symbol \<Rightarrow> bool" where
  "check_operation_paused s operation = (if is_emergency_paused s then True else is_operation_paused s operation)"

definition set_emergency_pause :: "host \<Rightarrow> address \<Rightarrow> bool \<Rightarrow> ('z, RiskManagementError, unit) core_fn" where
  "set_emergency_pause h caller paused =
     tryM (rm_require_admin caller) (\<lambda>_.
     writes (\<lambda>s. s\<lparr>EmergencyPauseKey := Some paused\<rparr>) (
     writes (core_publish (PauseStateChangedEvent caller ''emergency'' paused (now h)))
     (ret ())))"

definition check_emergency_pause :: "('z, RiskManagementError, unit) core_fn" where
  "check_emergency_pause = reads is_emergency_paused (\<lambda>p. fail_if p RiskManagementError.EmergencyPaused (ret ()))"

section \<open>The interest rate model: interest_rate.rs\<close>

definition INDEX_SCALE :: i128 where "INDEX_SCALE = 1000000000000"
definition HW_SECONDS_PER_YEAR :: i128 where "HW_SECONDS_PER_YEAR = 31536000"

definition get_default_config :: InterestRateConfig where
  "get_default_config = \<lparr>hc_base_rate_bps = 100, hc_kink_utilization_bps = 8000, hc_multiplier_bps = 2000,
     hc_jump_multiplier_bps = 10000, hc_rate_floor_bps = 50, hc_rate_ceiling_bps = 10000, hc_spread_bps = 200,
     hc_emergency_adjustment_bps = 0, hc_last_update = 0\<rparr>"

definition initialize_interest_rate_config :: "address \<Rightarrow> ('z, InterestRateError, unit) core_fn" where
  "initialize_interest_rate_config admin =
     reads InterestRateConfigKey (\<lambda>x.
     fail_if (x \<noteq> None) InterestRateError.AlreadyInitialized (
     writes (\<lambda>s. s\<lparr>InterestRateConfigKey := Some get_default_config\<rparr>)
     (ret ())))"

definition calculate_utilization :: "('z, InterestRateError, i128) core_fn" where
  "calculate_utilization =
     reads (\<lambda>s. unwrap_or (ProtocolAnalyticsKey s) \<lparr>pa_total_deposits = 0, pa_total_borrows = 0, pa_total_value_locked = 0\<rparr>) (\<lambda>a.
     if pa_total_deposits a = 0 then ret 0 else
     ok_or (checked_mul (pa_total_borrows a) BASIS_POINTS_SCALE) InterestRateError.Overflow (\<lambda>m.
     ok_or (checked_div m (pa_total_deposits a)) InterestRateError.DivisionByZero (\<lambda>u.
     ret (min u BASIS_POINTS_SCALE))))"

definition calculate_borrow_rate :: "('z, InterestRateError, i128) core_fn" where
  "calculate_borrow_rate =
     reads InterestRateConfigKey (\<lambda>x. ok_or x InterestRateError.InvalidParameter (\<lambda>c.
     tryM calculate_utilization (\<lambda>u.
     tryM (if u \<le> hc_kink_utilization_bps c then
             if hc_kink_utilization_bps c > 0 then
               ok_or (checked_mul u (hc_multiplier_bps c)) InterestRateError.Overflow (\<lambda>m.
               ok_or (checked_div m (hc_kink_utilization_bps c)) InterestRateError.DivisionByZero (\<lambda>inc.
               ok_or (checked_add (hc_base_rate_bps c) inc) InterestRateError.Overflow ret))
             else ret (hc_base_rate_bps c)
           else
             ok_or (checked_add (hc_base_rate_bps c) (hc_multiplier_bps c)) InterestRateError.Overflow (\<lambda>rate_at_kink.
             ok_or (checked_sub u (hc_kink_utilization_bps c)) InterestRateError.Overflow (\<lambda>above.
             ok_or (checked_sub BASIS_POINTS_SCALE (hc_kink_utilization_bps c)) InterestRateError.Overflow (\<lambda>max_above.
             if max_above > 0 then
               ok_or (checked_mul above (hc_jump_multiplier_bps c)) InterestRateError.Overflow (\<lambda>m.
               ok_or (checked_div m max_above) InterestRateError.DivisionByZero (\<lambda>additional.
               ok_or (checked_add rate_at_kink additional) InterestRateError.Overflow ret))
             else ret rate_at_kink)))) (\<lambda>rate.
     ok_or (checked_add rate (hc_emergency_adjustment_bps c)) InterestRateError.Overflow (\<lambda>adjusted.
     ret (min (max adjusted (hc_rate_floor_bps c)) (hc_rate_ceiling_bps c)))))))"

definition calculate_supply_rate :: "('z, InterestRateError, i128) core_fn" where
  "calculate_supply_rate =
     reads InterestRateConfigKey (\<lambda>x. ok_or x InterestRateError.InvalidParameter (\<lambda>c.
     tryM calculate_borrow_rate (\<lambda>rate.
     ok_or (checked_sub rate (hc_spread_bps c)) InterestRateError.Overflow (\<lambda>supply.
     ret (max supply (hc_rate_floor_bps c))))))"

definition calculate_accrued_interest :: "i128 \<Rightarrow> u64 \<Rightarrow> u64 \<Rightarrow> i128 \<Rightarrow> ('s, InterestRateError, i128) contract_fn" where
  "calculate_accrued_interest prin last_accrual_time current_time rate_bps =
     (if prin = 0 then ret 0
      else if current_time \<le> last_accrual_time then ret 0
      else
        let elapsed = current_time - last_accrual_time in
        ok_or (checked_mul BASIS_POINTS_SCALE HW_SECONDS_PER_YEAR) InterestRateError.Overflow (\<lambda>denominator.
        ok_or (checked_mul prin rate_bps) InterestRateError.Overflow (\<lambda>n.
        ok_or (checked_mul n (int elapsed)) InterestRateError.Overflow (\<lambda>numerator.
        ok_or (checked_div numerator denominator) InterestRateError.DivisionByZero ret))))"

definition check_param :: "bool \<Rightarrow> 'c \<Rightarrow> ('s, InterestRateError, 'c) contract_fn" where
  "check_param ok c = (if ok then ret c else fail InterestRateError.InvalidParameter)"

definition update_interest_rate_config :: "host \<Rightarrow> address \<Rightarrow> InterestRateParams \<Rightarrow> ('z, InterestRateError, unit) core_fn" where
  "update_interest_rate_config h caller p =
     tryM (map_err (\<lambda>_. InterestRateError.Unauthorized) (hw_require_admin caller)) (\<lambda>_.
     reads InterestRateConfigKey (\<lambda>x. ok_or x InterestRateError.InvalidParameter (\<lambda>c0.
     tryM (when_some (ip_base_rate_bps p) (\<lambda>v c. check_param (0 \<le> v \<and> v \<le> BASIS_POINTS_SCALE) (c\<lparr>hc_base_rate_bps := v\<rparr>)) c0) (\<lambda>c1.
     tryM (when_some (ip_kink_utilization_bps p) (\<lambda>v c. check_param (0 < v \<and> v < BASIS_POINTS_SCALE) (c\<lparr>hc_kink_utilization_bps := v\<rparr>)) c1) (\<lambda>c2.
     tryM (when_some (ip_multiplier_bps p) (\<lambda>v c. check_param (0 \<le> v) (c\<lparr>hc_multiplier_bps := v\<rparr>)) c2) (\<lambda>c3.
     tryM (when_some (ip_jump_multiplier_bps p) (\<lambda>v c. check_param (0 \<le> v) (c\<lparr>hc_jump_multiplier_bps := v\<rparr>)) c3) (\<lambda>c4.
     tryM (when_some (ip_rate_floor_bps p) (\<lambda>v c. check_param (0 \<le> v \<and> v \<le> BASIS_POINTS_SCALE \<and> v \<le> hc_rate_ceiling_bps c)
             (c\<lparr>hc_rate_floor_bps := v\<rparr>)) c4) (\<lambda>c5.
     tryM (when_some (ip_rate_ceiling_bps p) (\<lambda>v c. check_param (0 \<le> v \<and> v \<le> BASIS_POINTS_SCALE \<and> hc_rate_floor_bps c \<le> v)
             (c\<lparr>hc_rate_ceiling_bps := v\<rparr>)) c5) (\<lambda>c6.
     tryM (when_some (ip_spread_bps p) (\<lambda>v c. check_param (0 \<le> v \<and> v \<le> BASIS_POINTS_SCALE) (c\<lparr>hc_spread_bps := v\<rparr>)) c6) (\<lambda>c7.
     writes (\<lambda>s. s\<lparr>InterestRateConfigKey := Some (c7\<lparr>hc_last_update := now h\<rparr>)\<rparr>)
     (ret ())))))))))))"

definition set_emergency_rate_adjustment :: "host \<Rightarrow> address \<Rightarrow> i128 \<Rightarrow> ('z, InterestRateError, unit) core_fn" where
  "set_emergency_rate_adjustment h caller adjustment_bps =
     tryM (map_err (\<lambda>_. InterestRateError.Unauthorized) (hw_require_admin caller)) (\<lambda>_.
     unwrap (to_i128 \<bar>adjustment_bps\<bar>) (\<lambda>magnitude.
     fail_if (magnitude > BASIS_POINTS_SCALE) InterestRateError.InvalidParameter (
     reads InterestRateConfigKey (\<lambda>x. ok_or x InterestRateError.InvalidParameter (\<lambda>c.
     writes (\<lambda>s. s\<lparr>InterestRateConfigKey := Some (c\<lparr>hc_emergency_adjustment_bps := adjustment_bps, hc_last_update := now h\<rparr>)\<rparr>)
     (ret ()))))))"

definition get_lending_index :: "host \<Rightarrow> 'z hw_core_scheme \<Rightarrow> LendingIndex" where
  "get_lending_index h s =
     unwrap_or (LendingIndexKey s) \<lparr>borrow_index = INDEX_SCALE, supply_index = INDEX_SCALE, li_last_update = now h\<rparr>"

definition update_lending_index :: "host \<Rightarrow> ('z, InterestRateError, LendingIndex) core_fn" where
  "update_lending_index h =
     reads (get_lending_index h) (\<lambda>idx.
     if now h \<le> li_last_update idx then ret idx
     else
       let elapsed = int (now h - li_last_update idx) in
       tryM (or_default calculate_borrow_rate 0) (\<lambda>borrow_rate.
       tryM (or_default calculate_supply_rate 0) (\<lambda>supply_rate.
       ok_or (checked_mul BASIS_POINTS_SCALE HW_SECONDS_PER_YEAR) InterestRateError.Overflow (\<lambda>denom.
       ok_or (checked_mul (borrow_index idx) borrow_rate) InterestRateError.Overflow (\<lambda>b1.
       ok_or (checked_mul b1 elapsed) InterestRateError.Overflow (\<lambda>b2.
       ok_or (checked_mul (supply_index idx) supply_rate) InterestRateError.Overflow (\<lambda>s1.
       ok_or (checked_mul s1 elapsed) InterestRateError.Overflow (\<lambda>s2.
       ok_or (checked_add (borrow_index idx) (unwrap_or (checked_div b2 denom) 0)) InterestRateError.Overflow (\<lambda>bi.
       ok_or (checked_add (supply_index idx) (unwrap_or (checked_div s2 denom) 0)) InterestRateError.Overflow (\<lambda>si.
       let idx' = \<lparr>borrow_index = bi, supply_index = si, li_last_update = now h\<rparr> in
       writes (\<lambda>s. s\<lparr>LendingIndexKey := Some idx'\<rparr>)
       (ret idx')))))))))))"

definition compute_index_interest :: "i128 \<Rightarrow> i128 \<Rightarrow> i128 \<Rightarrow> ('s, InterestRateError, i128) contract_fn" where
  "compute_index_interest prin user_index current_index =
     (if prin = 0 \<or> user_index = 0 \<or> current_index \<le> user_index then ret 0
      else
        ok_or (checked_sub current_index user_index) InterestRateError.Overflow (\<lambda>delta.
        ok_or (checked_mul prin delta) InterestRateError.Overflow (\<lambda>m.
        ok_or (checked_div m user_index) InterestRateError.DivisionByZero ret)))"

section \<open>Entry points: lib.rs\<close>

text \<open>None of them asks for a signature: \<open>caller\<close> is an argument that is compared with the stored admin.\<close>

definition hw_initialize :: "host \<Rightarrow> address \<Rightarrow> ('z, LendingError, unit) core_fn" where
  "hw_initialize h admin =
     reads has_admin (\<lambda>ex.
     fail_if ex LendingError.Unauthorized (
     tryM (map_err (\<lambda>_. of_RiskManagementError RiskManagementError.Unauthorized) (hw_set_admin admin None)) (\<lambda>_.
     tryM (map_err of_RiskManagementError (initialize_risk_management h admin)) (\<lambda>_.
     tryM (map_err (\<lambda>_. of_RiskManagementError RiskManagementError.InvalidParameter) (initialize_risk_params h)) (\<lambda>_.
     tryM (map_err (\<lambda>e. if e = InterestRateError.AlreadyInitialized
                      then of_RiskManagementError RiskManagementError.AlreadyInitialized
                      else of_RiskManagementError RiskManagementError.Unauthorized)
             (initialize_interest_rate_config admin)) (\<lambda>_.
     ret ()))))))"

definition hw_transfer_admin :: "address \<Rightarrow> address \<Rightarrow> ('z, LendingError, unit) core_fn" where
  "hw_transfer_admin caller new_admin = map_err of_AdminError (hw_set_admin new_admin (Some caller))"

definition entry_set_risk_params ::
    "host \<Rightarrow> address \<Rightarrow> i128 option \<Rightarrow> i128 option \<Rightarrow> i128 option \<Rightarrow> i128 option \<Rightarrow> ('z, LendingError, unit) core_fn" where
  "entry_set_risk_params h caller mcr lt cf li =
     tryM (map_err of_RiskManagementError (rm_require_admin caller)) (\<lambda>_.
     tryM (map_err (\<lambda>_. of_RiskManagementError RiskManagementError.InvalidParameter) (set_risk_params h mcr lt cf li)) (\<lambda>_.
     ret ()))"

definition entry_set_emergency_pause :: "host \<Rightarrow> address \<Rightarrow> bool \<Rightarrow> ('z, LendingError, unit) core_fn" where
  "entry_set_emergency_pause h caller paused =
     tryM (map_err of_RiskManagementError (rm_require_admin caller)) (\<lambda>_.
     map_err of_RiskManagementError (set_emergency_pause h caller paused))"

definition hw_update_interest_rate_config :: "host \<Rightarrow> address \<Rightarrow> InterestRateParams \<Rightarrow> ('z, LendingError, unit) core_fn" where
  "hw_update_interest_rate_config h caller p = map_err of_InterestRateError (update_interest_rate_config h caller p)"

definition get_borrow_rate :: "('z, LendingError, i128) core_fn" where
  "get_borrow_rate = or_default calculate_borrow_rate 0"

definition get_supply_rate :: "('z, LendingError, i128) core_fn" where
  "get_supply_rate = or_default calculate_supply_rate 0"

definition get_utilization_rate :: "('z, LendingError, i128) core_fn" where
  "get_utilization_rate = or_default calculate_utilization 0"

end
