(* ===== verification/SL_Frames.thy ===== *)
theory SL_Frames
  imports SL_Prelude
begin

text \<open>
  Frames: relations between the storage before and after a successful call. A relation that is reflexive and
  transitive is carried through every construct of a contract function, so that "this operation leaves
  these entries alone" and "this operation keeps that invariant" are proved by the shape of the code.
\<close>

definition leads :: "('s \<Rightarrow> 's \<Rightarrow> bool) \<Rightarrow> ('s, 'e, 'a) contract_fn \<Rightarrow> bool" where
  "leads R m \<longleftrightarrow> (\<forall>s a t. m s = (Ok a, t) \<longrightarrow> R s t)"

lemma leadsI: "(\<And>s a t. m s = (Ok a, t) \<Longrightarrow> R s t) \<Longrightarrow> leads R m"
  by (auto simp: leads_def)

lemma leadsD: "leads R m \<Longrightarrow> m s = (Ok a, t) \<Longrightarrow> R s t"
  by (auto simp: leads_def)

lemma leads_ret_tryM:
  assumes "leads R m"
  shows "leads R (tryM m (\<lambda>x. ret (g x)))"
  using assms by (auto simp: leads_def ok_simps)

lemma leads_after:
  assumes "leads R m" and "R s s"
  shows "R s (snd (invoke m s))"
  using assms by (auto simp: leads_def invoke_def split: prod.splits res.splits)

lemma leads_mono: "leads R m \<Longrightarrow> (\<And>s t. R s t \<Longrightarrow> R' s t) \<Longrightarrow> leads R' m"
  by (auto simp: leads_def)

locale frame_relation =
  fixes R :: "'s \<Rightarrow> 's \<Rightarrow> bool"
  assumes unchanged: "R s s"
    and step_trans: "R s t \<Longrightarrow> R t u \<Longrightarrow> R s u"
begin

lemma leads_ret: "leads R (ret a)"
  by (auto simp: leads_def ok_simps intro: unchanged)

lemma leads_fail: "leads R (fail e)"
  by (simp add: leads_def ok_simps)

lemma leads_panic: "leads R panic"
  by (simp add: leads_def ok_simps)

lemma leads_reads: "(\<And>x. leads R (k x)) \<Longrightarrow> leads R (reads f k)"
  by (auto simp: leads_def)

lemma leads_writes: "(\<And>s. R s (f s)) \<Longrightarrow> leads R k \<Longrightarrow> leads R (writes f k)"
  unfolding leads_def by (metis step_trans writes_run)

lemma leads_fail_if: "leads R k \<Longrightarrow> leads R (fail_if c e k)"
  by (auto simp: leads_def ok_simps)

lemma leads_ok_or: "(\<And>x. leads R (k x)) \<Longrightarrow> leads R (ok_or x e k)"
  by (auto simp: leads_def ok_simps)

lemma leads_unwrap: "(\<And>x. leads R (k x)) \<Longrightarrow> leads R (unwrap x k)"
  by (auto simp: leads_def ok_simps)

lemma leads_tryM: "leads R m \<Longrightarrow> (\<And>x. leads R (k x)) \<Longrightarrow> leads R (tryM m k)"
  unfolding leads_def tryM_Ok by (metis step_trans)

lemma leads_map_err: "leads R m \<Longrightarrow> leads R (map_err g m)"
  by (auto simp: leads_def ok_simps)

lemma leads_if: "(c \<Longrightarrow> leads R m) \<Longrightarrow> (\<not> c \<Longrightarrow> leads R m') \<Longrightarrow> leads R (if c then m else m')"
  by simp

lemma leads_case_option:
  "(\<And>y. x = Some y \<Longrightarrow> leads R (k y)) \<Longrightarrow> (x = None \<Longrightarrow> leads R m) \<Longrightarrow> leads R (case x of None \<Rightarrow> m | Some y \<Rightarrow> k y)"
  by (cases x) simp_all

lemma leads_case_prod: "(\<And>a b. leads R (k a b)) \<Longrightarrow> leads R (case x of (a, b) \<Rightarrow> k a b)"
  by (cases x) simp

lemma leads_let: "(\<And>y. leads R (k y)) \<Longrightarrow> leads R (let y = x in k y)"
  by (simp add: Let_def)

lemma leads_liftE: "leads R (liftE x)"
  by (auto simp: leads_def ok_simps intro: unchanged)

lemmas frame_rules = leads_ret leads_fail leads_panic leads_reads leads_writes leads_fail_if leads_ok_or leads_unwrap
  leads_tryM leads_map_err leads_if leads_case_option leads_case_prod leads_let leads_liftE

text \<open>The host's rollback makes the frame total: a refused call changes nothing.\<close>

lemma leads_invoke:
  assumes "leads R m"
  shows "R s (snd (invoke m s))"
  using assms unchanged by (rule leads_after)

end

text \<open>Keeping an invariant is such a relation.\<close>

definition keeps :: "('s \<Rightarrow> bool) \<Rightarrow> 's \<Rightarrow> 's \<Rightarrow> bool" where
  "keeps I s t \<longleftrightarrow> (I s \<longrightarrow> I t)"

lemma keeps_frame: "frame_relation (keeps I)"
  by unfold_locales (auto simp: keeps_def)

text \<open>So is keeping what a function of the storage reads.\<close>

definition same_on :: "('s \<Rightarrow> 'v) \<Rightarrow> 's \<Rightarrow> 's \<Rightarrow> bool" where
  "same_on f s t \<longleftrightarrow> f t = f s"

lemma same_on_frame: "frame_relation (same_on f)"
  by unfold_locales (auto simp: same_on_def)

interpretation keeping: frame_relation "keeps I" for I
  by (rule keeps_frame)

interpretation reading: frame_relation "same_on f" for f
  by (rule same_on_frame)

end
