(* ===== verification/HW_Oracle.thy ===== *)
theory HW_Oracle
  imports HW_Core SL_Frames
begin

text \<open>
  The protocol contract's price oracle (\<open>hello-world/src/oracle.rs\<close>): price feeds per asset and source, their aggregation
  by a median, the time-weighted average over recent observations, the cache and the circuit breaker. Its entries extend
  the core's storage. \<open>PauseSwitches\<close> is one entry for every module whose key enum has a variant of that name.
\<close>

section \<open>Data\<close>

datatype OracleError = InvalidPrice | StalePrice | PriceDeviationExceeded | InvalidOracle | OraclePaused | Overflow
  | Unauthorized | AssetNotSupported | FallbackNotConfigured | CircuitBreakerOpen | NotEnoughSources

record PriceFeed =
  pf_price :: i128
  pf_last_updated :: u64
  pf_oracle :: address
  pf_decimals :: u32

record CachedPrice =
  cp_price :: i128
  cached_at :: u64
  ttl :: u64

record OracleConfig =
  max_deviation_bps :: i128
  max_staleness_seconds :: u64
  cache_ttl_seconds :: u64
  min_price :: i128
  max_price :: i128
  twap_window_seconds :: u64
  max_observations :: u32
  min_sources :: u32
  outlier_deviation_bps :: i128
  breaker_deviation_bps :: i128
  breaker_cooldown_seconds :: u64

definition DEFAULT_MAX_DEVIATION_BPS :: i128 where "DEFAULT_MAX_DEVIATION_BPS = 500"
definition DEFAULT_MAX_STALENESS_SECONDS :: u64 where "DEFAULT_MAX_STALENESS_SECONDS = 3600"
definition DEFAULT_CACHE_TTL_SECONDS :: u64 where "DEFAULT_CACHE_TTL_SECONDS = 300"
definition DEFAULT_MIN_PRICE :: i128 where "DEFAULT_MIN_PRICE = 1"
definition DEFAULT_MAX_PRICE :: i128 where "DEFAULT_MAX_PRICE = i128_max"
definition DEFAULT_TWAP_WINDOW_SECONDS :: u64 where "DEFAULT_TWAP_WINDOW_SECONDS = 900"
definition DEFAULT_MAX_OBSERVATIONS :: u32 where "DEFAULT_MAX_OBSERVATIONS = 64"
definition DEFAULT_MIN_SOURCES :: u32 where "DEFAULT_MIN_SOURCES = 1"
definition DEFAULT_OUTLIER_DEVIATION_BPS :: i128 where "DEFAULT_OUTLIER_DEVIATION_BPS = 1000"
definition DEFAULT_BREAKER_DEVIATION_BPS :: i128 where "DEFAULT_BREAKER_DEVIATION_BPS = 2500"
definition DEFAULT_BREAKER_COOLDOWN_SECONDS :: u64 where "DEFAULT_BREAKER_COOLDOWN_SECONDS = 600"

definition oracle_default_config :: OracleConfig where
  "oracle_default_config = \<lparr>max_deviation_bps = DEFAULT_MAX_DEVIATION_BPS, max_staleness_seconds = DEFAULT_MAX_STALENESS_SECONDS,
     cache_ttl_seconds = DEFAULT_CACHE_TTL_SECONDS, min_price = DEFAULT_MIN_PRICE, max_price = DEFAULT_MAX_PRICE,
     twap_window_seconds = DEFAULT_TWAP_WINDOW_SECONDS, max_observations = DEFAULT_MAX_OBSERVATIONS,
     min_sources = DEFAULT_MIN_SOURCES, outlier_deviation_bps = DEFAULT_OUTLIER_DEVIATION_BPS,
     breaker_deviation_bps = DEFAULT_BREAKER_DEVIATION_BPS, breaker_cooldown_seconds = DEFAULT_BREAKER_COOLDOWN_SECONDS\<rparr>"

record PriceObservation =
  obs_price :: i128
  obs_timestamp :: u64

record BreakerState =
  open_until :: u64
  last_safe_price :: i128
  last_trip_timestamp :: u64

datatype oracle_event = PriceUpdatedEvent address address i128 u32 address u64

record hw_oracle = hw_core +
  PriceFeedKey :: "address \<Rightarrow> PriceFeed option"
  FallbackOracleKey :: "address \<Rightarrow> address option"
  PrimaryOracleKey :: "address \<Rightarrow> address option"
  FallbackFeedKey :: "address \<Rightarrow> PriceFeed option"
  PriceCacheKey :: "address \<Rightarrow> CachedPrice option"
  OracleConfigKey :: "OracleConfig option"
  PauseSwitchesKey :: "(symbol \<Rightarrow> bool option) option"
  OracleSourcesKey :: "address \<Rightarrow> address list option"
  SourceFeedKey :: "address \<times> address \<Rightarrow> PriceFeed option"
  PriceHistoryKey :: "address \<Rightarrow> PriceObservation list option"
  BreakerKey :: "address \<Rightarrow> BreakerState option"
  oracle_log :: "oracle_event list"

type_synonym ('z, 'e, 'a) oracle_fn = "('z hw_oracle_scheme, 'e, 'a) contract_fn"

definition legacy_pause :: "'z hw_oracle_scheme \<Rightarrow> symbol \<Rightarrow> bool" where
  "legacy_pause s op = (case PauseSwitchesKey s of None \<Rightarrow> False | Some m \<Rightarrow> unwrap_or (m op) False)"

section \<open>Reading the settings\<close>

definition get_oracle_config :: "'z hw_oracle_scheme \<Rightarrow> OracleConfig" where
  "get_oracle_config s = unwrap_or (OracleConfigKey s) oracle_default_config"

definition get_primary_oracle :: "'z hw_oracle_scheme \<Rightarrow> address \<Rightarrow> address option" where
  "get_primary_oracle s asset = PrimaryOracleKey s asset"

definition get_fallback_oracle :: "'z hw_oracle_scheme \<Rightarrow> address \<Rightarrow> address option" where
  "get_fallback_oracle s asset = FallbackOracleKey s asset"

definition validate_price :: "i128 \<Rightarrow> ('z, OracleError, unit) oracle_fn" where
  "validate_price price =
     fail_if (price \<le> 0) InvalidPrice (
     reads get_oracle_config (\<lambda>c.
     fail_if (price < min_price c \<or> price > max_price c) InvalidPrice (ret ())))"

definition is_price_stale :: "host \<Rightarrow> 'z hw_oracle_scheme \<Rightarrow> u64 \<Rightarrow> bool" where
  "is_price_stale h s last_updated =
     (if now h < last_updated then True
      else now h - last_updated > max_staleness_seconds (get_oracle_config s))"

text \<open>\<open>|new - old| / old\<close> in basis points.\<close>

definition deviation :: "i128 \<Rightarrow> i128 \<Rightarrow> ('s, OracleError, i128) contract_fn" where
  "deviation new_price old_price =
     ok_or (if new_price > old_price then checked_sub new_price old_price else checked_sub old_price new_price) Overflow (\<lambda>diff.
     ok_or (checked_mul diff 10000) Overflow (\<lambda>m.
     ok_or (checked_div m old_price) Overflow ret))"

definition check_price_deviation :: "i128 \<Rightarrow> i128 \<Rightarrow> ('z, OracleError, unit) oracle_fn" where
  "check_price_deviation new_price old_price =
     (if old_price = 0 then ret () else
      reads get_oracle_config (\<lambda>c.
      tryM (deviation new_price old_price) (\<lambda>d.
      fail_if (d > max_deviation_bps c) PriceDeviationExceeded (ret ()))))"

section \<open>The circuit breaker\<close>

definition get_breaker_state :: "'z hw_oracle_scheme \<Rightarrow> address \<Rightarrow> BreakerState" where
  "get_breaker_state s asset =
     unwrap_or (BreakerKey s asset) \<lparr>open_until = 0, last_safe_price = 0, last_trip_timestamp = 0\<rparr>"

definition set_breaker_state :: "address \<Rightarrow> BreakerState \<Rightarrow> 'z hw_oracle_scheme \<Rightarrow> 'z hw_oracle_scheme" where
  "set_breaker_state asset b s = s\<lparr>BreakerKey := (BreakerKey s)(asset \<mapsto> b)\<rparr>"

definition is_breaker_open :: "host \<Rightarrow> 'z hw_oracle_scheme \<Rightarrow> address \<Rightarrow> bool" where
  "is_breaker_open h s asset \<longleftrightarrow> now h < open_until (get_breaker_state s asset)"

definition maybe_trip_breaker :: "host \<Rightarrow> address \<Rightarrow> i128 \<Rightarrow> ('z, OracleError, unit) oracle_fn" where
  "maybe_trip_breaker h asset candidate_price =
     reads get_oracle_config (\<lambda>c.
     if breaker_deviation_bps c \<le> 0 then ret () else
     reads (\<lambda>s. get_breaker_state s asset) (\<lambda>b.
     if last_safe_price b \<le> 0 then
       writes (set_breaker_state asset (b\<lparr>last_safe_price := candidate_price, open_until := 0, last_trip_timestamp := 0\<rparr>))
       (ret ())
     else
       tryM (deviation candidate_price (last_safe_price b)) (\<lambda>d.
       if d > breaker_deviation_bps c then
         writes (set_breaker_state asset (b\<lparr>open_until := saturating_add_u64 (now h) (breaker_cooldown_seconds c),
                                            last_trip_timestamp := now h\<rparr>))
         (fail CircuitBreakerOpen)
       else ret ())))"

definition record_safe_price :: "address \<Rightarrow> i128 \<Rightarrow> 'z hw_oracle_scheme \<Rightarrow> 'z hw_oracle_scheme" where
  "record_safe_price asset safe_price s =
     set_breaker_state asset ((get_breaker_state s asset)\<lparr>last_safe_price := safe_price\<rparr>) s"

section \<open>Sources and history\<close>

definition get_oracle_sources :: "'z hw_oracle_scheme \<Rightarrow> address \<Rightarrow> address list" where
  "get_oracle_sources s asset = unwrap_or (OracleSourcesKey s asset) []"

definition set_oracle_sources_internal :: "address \<Rightarrow> address list \<Rightarrow> 'z hw_oracle_scheme \<Rightarrow> 'z hw_oracle_scheme" where
  "set_oracle_sources_internal asset sources s = s\<lparr>OracleSourcesKey := (OracleSourcesKey s)(asset \<mapsto> sources)\<rparr>"

definition get_source_feed :: "'z hw_oracle_scheme \<Rightarrow> address \<Rightarrow> address \<Rightarrow> PriceFeed option" where
  "get_source_feed s asset source = SourceFeedKey s (asset, source)"

definition write_source_feed :: "address \<Rightarrow> address \<Rightarrow> PriceFeed \<Rightarrow> 'z hw_oracle_scheme \<Rightarrow> 'z hw_oracle_scheme" where
  "write_source_feed asset source feed s = s\<lparr>SourceFeedKey := (SourceFeedKey s)((asset, source) \<mapsto> feed)\<rparr>"

definition load_history :: "'z hw_oracle_scheme \<Rightarrow> address \<Rightarrow> PriceObservation list" where
  "load_history s asset = unwrap_or (PriceHistoryKey s asset) []"

definition save_history :: "address \<Rightarrow> PriceObservation list \<Rightarrow> 'z hw_oracle_scheme \<Rightarrow> 'z hw_oracle_scheme" where
  "save_history asset hist s = s\<lparr>PriceHistoryKey := (PriceHistoryKey s)(asset \<mapsto> hist)\<rparr>"

text \<open>\<open>while history.len() > max_observations { history.pop_front(); }\<close>\<close>

fun trim_history :: "u32 \<Rightarrow> PriceObservation list \<Rightarrow> PriceObservation list" where
  "trim_history n [] = []"
| "trim_history n (x # xs) = (if length (x # xs) > n then trim_history n xs else x # xs)"

definition append_observation :: "host \<Rightarrow> address \<Rightarrow> i128 \<Rightarrow> 'z hw_oracle_scheme \<Rightarrow> 'z hw_oracle_scheme" where
  "append_observation h asset price s =
     (if max_observations (get_oracle_config s) = 0 then s
      else save_history asset
        (trim_history (max_observations (get_oracle_config s)) (load_history s asset @ [\<lparr>obs_price = price, obs_timestamp = now h\<rparr>])) s)"

section \<open>The median\<close>

text \<open>The inner loop of the insertion sort, with the vector updated in place: \<open>values.set(j, prev); j -= 1\<close>.\<close>

fun sift :: "i128 \<Rightarrow> nat \<Rightarrow> i128 list \<Rightarrow> i128 list" where
  "sift key 0 vs = vs[0 := key]"
| "sift key (Suc j) vs = (if vs ! j \<le> key then vs[Suc j := key] else sift key j (vs[Suc j := vs ! j]))"

lemma length_sift [simp]: "length (sift key j vs) = length vs"
  by (induction j arbitrary: vs) simp_all

function sort_from :: "nat \<Rightarrow> i128 list \<Rightarrow> i128 list" where
  "sort_from i vs = (if i < length vs then sort_from (i + 1) (sift (vs ! i) i vs) else vs)"
  by auto
termination by (relation "measure (\<lambda>(i, vs). length vs - i)") auto

declare sort_from.simps [simp del]

definition median_i128 :: "i128 list \<Rightarrow> ('s, OracleError, i128) contract_fn" where
  "median_i128 values =
     (if length values = 0 then fail NotEnoughSources
      else ret (sort_from 1 values ! (length values div 2)))"

text \<open>The loop of \<open>filter_outliers\<close>.\<close>

fun keep_close :: "i128 \<Rightarrow> i128 \<Rightarrow> i128 list \<Rightarrow> i128 list \<Rightarrow> ('s, OracleError, i128 list) contract_fn" where
  "keep_close limit median kept [] = ret kept"
| "keep_close limit median kept (p # ps) =
     (if p \<le> 0 then keep_close limit median kept ps
      else tryM (deviation p median) (\<lambda>d. keep_close limit median (if d \<le> limit then kept @ [p] else kept) ps))"

definition filter_outliers :: "i128 \<Rightarrow> i128 list \<Rightarrow> ('z, OracleError, i128 list) oracle_fn" where
  "filter_outliers median prices =
     reads get_oracle_config (\<lambda>c.
     fail_if (median \<le> 0) InvalidPrice (
     if outlier_deviation_bps c \<le> 0 then ret prices
     else keep_close (outlier_deviation_bps c) median [] prices))"

section \<open>Aggregation\<close>

text \<open>The candidates, whether a feed was seen, and whether a stale one was.\<close>

type_synonym seen = "i128 list \<times> bool \<times> bool"

definition see_feed :: "host \<Rightarrow> 'z hw_oracle_scheme \<Rightarrow> PriceFeed option \<Rightarrow> seen \<Rightarrow> seen" where
  "see_feed h s feed acc =
     (case (feed, acc) of
        (None, _) \<Rightarrow> acc
      | (Some f, cs, any, stale) \<Rightarrow>
          if \<not> is_price_stale h s (pf_last_updated f) then (cs @ [pf_price f], True, stale) else (cs, True, True))"

definition see_fallback :: "host \<Rightarrow> 'z hw_oracle_scheme \<Rightarrow> address \<Rightarrow> seen \<Rightarrow> seen" where
  "see_fallback h s asset acc =
     (case (get_fallback_oracle s asset, FallbackFeedKey s asset, acc) of
        (Some fo, Some f, cs, any, stale) \<Rightarrow>
          if pf_oracle f = fo \<and> \<not> is_price_stale h s (pf_last_updated f) then (cs @ [pf_price f], True, stale)
          else if is_price_stale h s (pf_last_updated f) then (cs, True, True)
          else (cs, True, stale)
      | _ \<Rightarrow> acc)"

definition collect_prices :: "host \<Rightarrow> 'z hw_oracle_scheme \<Rightarrow> address \<Rightarrow> seen" where
  "collect_prices h s asset =
     fold (\<lambda>src. see_feed h s (get_source_feed s asset src)) (get_oracle_sources s asset)
       (see_fallback h s asset (see_feed h s (PriceFeedKey s asset) ([], False, False)))"

definition aggregate_spot_price :: "host \<Rightarrow> address \<Rightarrow> ('z, OracleError, i128) oracle_fn" where
  "aggregate_spot_price h asset =
     reads get_oracle_config (\<lambda>c.
     reads (\<lambda>s. collect_prices h s asset) (\<lambda>(candidates, saw_any_feed, saw_stale_feed).
     if candidates = [] then
       if saw_any_feed \<and> saw_stale_feed then fail StalePrice else fail FallbackNotConfigured
     else
       tryM (median_i128 candidates) (\<lambda>med.
       tryM (filter_outliers med candidates) (\<lambda>filtered.
       fail_if (length filtered < min_sources c) NotEnoughSources (
       median_i128 filtered)))))"

section \<open>The time-weighted average\<close>

text \<open>The index of the observation before the first one in the window; 0 if none is in it.\<close>

fun start_index :: "u64 \<Rightarrow> nat \<Rightarrow> PriceObservation list \<Rightarrow> nat" where
  "start_index w i [] = 0"
| "start_index w i (ob # obs) = (if w \<le> obs_timestamp ob then (if i = 0 then 0 else i - 1) else start_index w (i + 1) obs)"

text \<open>One segment: \<open>prev\<close>'s price for \<open>dt\<close> seconds, added to the weighted sum and the total time.\<close>

definition add_segment :: "i128 \<Rightarrow> u64 \<Rightarrow> i128 \<times> u64 \<Rightarrow> ('s, OracleError, i128 \<times> u64) contract_fn" where
  "add_segment price dt acc =
     ok_or (checked_mul price (int dt)) Overflow (\<lambda>m.
     ok_or (checked_add (fst acc) m) Overflow (\<lambda>sum.
     ret (sum, saturating_add_u64 (snd acc) dt)))"

fun twap_loop :: "host \<Rightarrow> u64 \<Rightarrow> PriceObservation \<Rightarrow> u64 \<Rightarrow> i128 \<times> u64 \<Rightarrow> PriceObservation list \<Rightarrow>
    ('s, OracleError, PriceObservation \<times> u64 \<times> i128 \<times> u64) contract_fn" where
  "twap_loop h w prev prev_t acc [] = ret (prev, prev_t, acc)"
| "twap_loop h w prev prev_t acc (cur # rest) =
     (if obs_timestamp cur \<le> w then twap_loop h w prev prev_t acc rest
      else if obs_timestamp cur > now h then ret (prev, prev_t, acc)
      else if obs_timestamp cur > prev_t then
        tryM (add_segment (obs_price prev) (obs_timestamp cur - prev_t) acc) (\<lambda>acc.
        twap_loop h w cur (obs_timestamp cur) acc rest)
      else twap_loop h w cur (obs_timestamp cur) acc rest)"

definition compute_twap :: "host \<Rightarrow> address \<Rightarrow> i128 \<Rightarrow> ('z, OracleError, i128) oracle_fn" where
  "compute_twap h asset spot_price =
     reads get_oracle_config (\<lambda>c.
     if twap_window_seconds c = 0 then ret spot_price else
     let w = now h - twap_window_seconds c in
     reads (\<lambda>s. load_history s asset) (\<lambda>hist.
     if hist = [] then ret spot_price else
     let start = start_index w 0 hist;
         prev = hist ! start;
         prev_t = (if obs_timestamp prev < w then w else obs_timestamp prev) in
     tryM (twap_loop h w prev prev_t (0, 0) (drop (start + 1) hist)) (\<lambda>(prev, prev_t, acc).
     let last_price = (if obs_timestamp prev = 0 then spot_price else obs_price prev) in
     tryM (if now h > prev_t then add_segment last_price (now h - prev_t) acc else ret acc) (\<lambda>(weighted_sum, total_time).
     if total_time = 0 then ret spot_price
     else ok_or (checked_div weighted_sum (int total_time)) Overflow ret))))"

section \<open>The cache\<close>

definition get_cached_price :: "host \<Rightarrow> 'z hw_oracle_scheme \<Rightarrow> address \<Rightarrow> i128 option" where
  "get_cached_price h s asset =
     (case PriceCacheKey s asset of
        None \<Rightarrow> None
      | Some c \<Rightarrow> if cached_at c \<le> now h \<and> now h \<le> saturating_add_u64 (cached_at c) (ttl c) then Some (cp_price c) else None)"

definition cache_price :: "host \<Rightarrow> address \<Rightarrow> i128 \<Rightarrow> 'z hw_oracle_scheme \<Rightarrow> 'z hw_oracle_scheme" where
  "cache_price h asset price s =
     s\<lparr>PriceCacheKey := (PriceCacheKey s)(asset \<mapsto> \<lparr>cp_price = price, cached_at = now h,
        ttl = cache_ttl_seconds (get_oracle_config s)\<rparr>)\<rparr>"

section \<open>Operations\<close>

definition set_feed :: "bool \<Rightarrow> address \<Rightarrow> PriceFeed \<Rightarrow> 'z hw_oracle_scheme \<Rightarrow> 'z hw_oracle_scheme" where
  "set_feed fallback asset f s =
     (if fallback then s\<lparr>FallbackFeedKey := (FallbackFeedKey s)(asset \<mapsto> f)\<rparr>
      else s\<lparr>PriceFeedKey := (PriceFeedKey s)(asset \<mapsto> f)\<rparr>)"

definition update_price_feed :: "host \<Rightarrow> address \<Rightarrow> address \<Rightarrow> i128 \<Rightarrow> u32 \<Rightarrow> address \<Rightarrow> ('z, OracleError, i128) oracle_fn" where
  "update_price_feed h caller asset price decimals oracle =
     reads (\<lambda>s. legacy_pause s ''pause_oracle'') (\<lambda>paused.
     fail_if paused OraclePaused (
     reads (\<lambda>s. AdminKey s = Some caller) (\<lambda>is_admin.
     reads (\<lambda>s. get_primary_oracle s asset = Some caller) (\<lambda>is_primary.
     reads (\<lambda>s. get_fallback_oracle s asset = Some caller) (\<lambda>is_fallback.
     fail_if (\<not> is_admin \<and> \<not> is_primary \<and> \<not> is_fallback) Unauthorized (
     fail_if (\<not> is_admin \<and> caller \<noteq> oracle) Unauthorized (
     tryM (validate_price price) (\<lambda>_.
     let fallback = is_fallback \<and> \<not> is_primary \<and> \<not> is_admin in
     reads (\<lambda>s. if fallback then FallbackFeedKey s asset else PriceFeedKey s asset) (\<lambda>current.
     tryM (case current of Some f \<Rightarrow> check_price_deviation price (pf_price f) | None \<Rightarrow> ret ()) (\<lambda>_.
     let feed = \<lparr>pf_price = price, pf_last_updated = now h, pf_oracle = oracle, pf_decimals = decimals\<rparr> in
     writes (set_feed fallback asset feed) (
     writes (write_source_feed asset oracle feed) (
     writes (\<lambda>s. if is_admin then s\<lparr>PrimaryOracleKey := (PrimaryOracleKey s)(asset \<mapsto> oracle)\<rparr> else s) (
     writes (cache_price h asset price) (
     writes (\<lambda>s. s\<lparr>oracle_log := oracle_log s @ [PriceUpdatedEvent caller asset price decimals oracle (now h)]\<rparr>)
     (ret price)))))))))))))))"

definition get_price :: "host \<Rightarrow> address \<Rightarrow> ('z, OracleError, i128) oracle_fn" where
  "get_price h asset =
     reads (\<lambda>s. is_breaker_open h s asset) (\<lambda>open.
     fail_if open CircuitBreakerOpen (
     reads (\<lambda>s. get_cached_price h s asset) (\<lambda>cached.
     case cached of
       Some p \<Rightarrow> ret p
     | None \<Rightarrow>
         tryM (aggregate_spot_price h asset) (\<lambda>spot.
         tryM (maybe_trip_breaker h asset spot) (\<lambda>_.
         writes (append_observation h asset spot) (
         tryM (compute_twap h asset spot) (\<lambda>twap.
         tryM (maybe_trip_breaker h asset twap) (\<lambda>_.
         writes (cache_price h asset twap) (
         writes (record_safe_price asset twap)
         (ret twap)))))))))) "

definition get_fallback_price :: "host \<Rightarrow> address \<Rightarrow> ('z, OracleError, i128) oracle_fn" where
  "get_fallback_price h asset =
     reads (\<lambda>s. (FallbackOracleKey s asset, FallbackFeedKey s asset)) (\<lambda>x.
     case x of
       (Some fo, Some f) \<Rightarrow>
         reads (\<lambda>s. is_price_stale h s (pf_last_updated f)) (\<lambda>stale.
         if pf_oracle f = fo \<and> \<not> stale then writes (cache_price h asset (pf_price f)) (ret (pf_price f))
         else fail FallbackNotConfigured)
     | _ \<Rightarrow> fail FallbackNotConfigured)"

definition set_primary_oracle :: "address \<Rightarrow> address \<Rightarrow> address \<Rightarrow> ('z, OracleError, unit) oracle_fn" where
  "set_primary_oracle caller asset primary_oracle =
     reads AdminKey (\<lambda>x. ok_or x Unauthorized (\<lambda>admin.
     fail_if (caller \<noteq> admin) Unauthorized (
     writes (\<lambda>s. s\<lparr>PrimaryOracleKey := (PrimaryOracleKey s)(asset \<mapsto> primary_oracle)\<rparr>)
     (ret ()))))"

definition oracle_require_admin :: "address \<Rightarrow> ('z, OracleError, unit) oracle_fn" where
  "oracle_require_admin caller = map_err (\<lambda>_. Unauthorized) (hw_require_admin caller)"

definition set_fallback_oracle :: "address \<Rightarrow> address \<Rightarrow> address \<Rightarrow> address \<Rightarrow> ('z, OracleError, unit) oracle_fn" where
  "set_fallback_oracle self caller asset fallback_oracle =
     tryM (oracle_require_admin caller) (\<lambda>_.
     fail_if (fallback_oracle = self) InvalidOracle (
     writes (\<lambda>s. s\<lparr>FallbackOracleKey := (FallbackOracleKey s)(asset \<mapsto> fallback_oracle)\<rparr>)
     (ret ())))"

definition configure_oracle :: "address \<Rightarrow> OracleConfig \<Rightarrow> ('z, OracleError, unit) oracle_fn" where
  "configure_oracle caller c =
     tryM (oracle_require_admin caller) (\<lambda>_.
     fail_if (max_deviation_bps c \<le> 0 \<or> max_deviation_bps c > 10000) InvalidPrice (
     fail_if (max_staleness_seconds c = 0) InvalidPrice (
     fail_if (min_sources c = 0) InvalidPrice (
     fail_if (max_observations c > 256) InvalidPrice (
     fail_if (outlier_deviation_bps c \<le> 0 \<or> outlier_deviation_bps c > 10000) InvalidPrice (
     fail_if (breaker_deviation_bps c \<le> 0 \<or> breaker_deviation_bps c > 10000) InvalidPrice (
     writes (\<lambda>s. s\<lparr>OracleConfigKey := Some c\<rparr>)
     (ret ()))))))))"

definition set_oracle_sources :: "address \<Rightarrow> address \<Rightarrow> address list \<Rightarrow> ('z, OracleError, unit) oracle_fn" where
  "set_oracle_sources caller asset sources =
     tryM (oracle_require_admin caller) (\<lambda>_.
     writes (set_oracle_sources_internal asset sources)
     (ret ()))"

definition emergency_pause_asset_oracle :: "host \<Rightarrow> address \<Rightarrow> address \<Rightarrow> u64 \<Rightarrow> ('z, OracleError, unit) oracle_fn" where
  "emergency_pause_asset_oracle h caller asset pause_seconds =
     tryM (oracle_require_admin caller) (\<lambda>_.
     reads (\<lambda>s. get_breaker_state s asset) (\<lambda>b.
     writes (set_breaker_state asset (b\<lparr>open_until := saturating_add_u64 (now h) pause_seconds, last_trip_timestamp := now h\<rparr>))
     (ret ())))"

end
