(* ===== verification/HW_Guards.thy ===== *)
theory HW_Guards
  imports HW_Oracle
begin

text \<open>
  What guards the protocol contract's lending operations: the reentrancy lock (\<open>reentrancy.rs\<close>), the token-bucket rate
  limiter (\<open>rate_limiter.rs\<close>), signed intents (\<open>intents.rs\<close>), the liquidation circuit breaker
  (\<open>circuit_breaker.rs\<close>) and the credit scores (\<open>credit_score.rs\<close>). Token contracts are other code: \<open>tokens\<close>
  says what they answer after the calls made so far, and the calls are kept in order in \<open>token_calls\<close>, undone with the
  rest of the storage when an invocation fails.
\<close>

section \<open>Data\<close>

datatype RateLimitError = RateLimited | InvalidConfig | Unauthorized | Overflow

record RateLimitConfig =
  window_seconds :: u64
  max_calls_per_window :: u32
  burst_calls :: u32
  grace_burst_calls :: u32

record BucketState =
  bucket_tokens :: i128
  last_refill :: u64

record RateLimitStatus =
  rls_config :: RateLimitConfig
  rls_bucket :: BucketState
  rls_capacity_tokens :: i128
  rls_refill_per_second :: i128
  rls_grace_enabled :: bool

datatype IntentError = BadNonce | Expired

text \<open>The values an intent's payload is made of.\<close>

datatype val = V_address address | V_asset "address option" | V_i128 i128 | V_u64 u64 | V_symbol symbol

datatype CircuitBreakerStatus = CB_Active | CB_Paused | CB_Emergency

datatype CircuitBreakerReason = OracleFailure | FlashCrash | ExcessiveLiquidations | ManualActivation | SystemMaintenance

record CircuitBreakerState =
  cb_status :: CircuitBreakerStatus
  activated_at :: u64
  activated_by :: address
  cb_cooldown_period :: u64
  auto_deactivate_at :: "u64 option"
  cb_reason :: CircuitBreakerReason

record CircuitBreakerConfig =
  cooldown_period :: u64
  auto_deactivate_enabled :: bool
  whitelist_enabled :: bool

datatype CreditScoreChangeReason = OnTimeRepayment | LateRepayment | Liquidation | HealthyPosition | NewUser

record CreditScoreSnapshot =
  css_score :: i128
  css_timestamp :: u64
  css_reason :: CreditScoreChangeReason

record CreditScore =
  cs_user :: address
  cs_score :: i128
  on_time_repayments :: u32
  late_repayments :: u32
  liquidations :: u32
  total_borrowed :: i128
  total_repaid :: i128
  cs_last_updated :: u64
  cs_history :: "CreditScoreSnapshot list"

datatype token_call =
  TransferFrom address address address address i128
| Transfer address address address i128

record tokens =
  tok_balance :: "token_call list \<Rightarrow> address \<Rightarrow> address \<Rightarrow> i128 option"
  tok_accepts :: "token_call list \<Rightarrow> token_call \<Rightarrow> bool"

datatype guard_event =
  CircuitBreakerActivatedEvent address bool u64
| CircuitBreakerDeactivatedEvent address u64
| WhitelistAddedEvent address address u64
| WhitelistRemovedEvent address address u64

record hw_guards = hw_oracle +
  ReentrancyLock :: bool
  token_calls :: "token_call list"
  OpConfig :: "symbol \<Rightarrow> RateLimitConfig option"
  OpPoolConfig :: "symbol \<times> address \<Rightarrow> RateLimitConfig option"
  UserBucket :: "address \<times> symbol \<times> address \<Rightarrow> BucketState option"
  GlobalBucket :: "symbol \<times> address \<Rightarrow> BucketState option"
  UserGrace :: "address \<times> symbol \<Rightarrow> bool option"
  NextNonce :: "address \<times> symbol \<Rightarrow> u64 option"
  CreditScoreKey :: "address \<Rightarrow> CreditScore option"
  CircuitBreakerConfigKey :: "CircuitBreakerConfig option"
  CircuitBreakerStateKey :: "CircuitBreakerState option"
  CircuitBreakerWhitelist :: "address list option"
  guard_log :: "guard_event list"

type_synonym ('z, 'e, 'a) guard_fn = "('z hw_guards_scheme, 'e, 'a) contract_fn"

definition guard_publish :: "guard_event \<Rightarrow> 'z hw_guards_scheme \<Rightarrow> 'z hw_guards_scheme" where
  "guard_publish e s = s\<lparr>guard_log := guard_log s @ [e]\<rparr>"

section \<open>Token contracts\<close>

definition balance_of :: "tokens \<Rightarrow> address \<Rightarrow> address \<Rightarrow> (i128 \<Rightarrow> ('z, 'e, 'a) guard_fn) \<Rightarrow> ('z, 'e, 'a) guard_fn" where
  "balance_of tk token holder k = reads (\<lambda>s. tok_balance tk (token_calls s) token holder) (\<lambda>b. unwrap b k)"

definition call_token :: "tokens \<Rightarrow> token_call \<Rightarrow> ('z, 'e, unit) guard_fn" where
  "call_token tk c =
     reads (\<lambda>s. tok_accepts tk (token_calls s) c) (\<lambda>ok.
     if ok then writes (\<lambda>s. s\<lparr>token_calls := token_calls s @ [c]\<rparr>) (ret ()) else panic)"

section \<open>The reentrancy lock: reentrancy.rs\<close>

definition guard_new :: "('z, u32, unit) guard_fn" where
  "guard_new = reads ReentrancyLock (\<lambda>locked. fail_if locked 7 (writes (\<lambda>s. s\<lparr>ReentrancyLock := True\<rparr>) (ret ())))"

definition guard_drop :: "'z hw_guards_scheme \<Rightarrow> 'z hw_guards_scheme" where
  "guard_drop s = s\<lparr>ReentrancyLock := False\<rparr>"

text \<open>\<open>let _guard = ReentrancyGuard::new(env).map_err(..)?\<close>: the guard is dropped where the function returns.\<close>

definition with_guard :: "'e \<Rightarrow> ('z, 'e, 'a) guard_fn \<Rightarrow> ('z, 'e, 'a) guard_fn" where
  "with_guard e m = tryM (map_err (\<lambda>_. e) guard_new) (\<lambda>_ s. (fst (m s), guard_drop (snd (m s))))"

section \<open>The rate limiter: rate_limiter.rs\<close>

definition TOKEN_SCALE :: i128 where "TOKEN_SCALE = 1000000"

definition rate_default_config :: "symbol \<Rightarrow> RateLimitConfig" where
  "rate_default_config op =
     (if op = ''borrow'' then \<lparr>window_seconds = 60, max_calls_per_window = 5, burst_calls = 3, grace_burst_calls = 10\<rparr>
      else if op = ''liquidate'' then \<lparr>window_seconds = 60, max_calls_per_window = 10, burst_calls = 5, grace_burst_calls = 20\<rparr>
      else \<lparr>window_seconds = 60, max_calls_per_window = 30, burst_calls = 10, grace_burst_calls = 0\<rparr>)"

definition get_op_config :: "'z hw_guards_scheme \<Rightarrow> symbol \<Rightarrow> RateLimitConfig" where
  "get_op_config s op = unwrap_or (OpConfig s op) (rate_default_config op)"

definition get_pool_config :: "'z hw_guards_scheme \<Rightarrow> symbol \<Rightarrow> address \<Rightarrow> RateLimitConfig" where
  "get_pool_config s op pool = unwrap_or (OpPoolConfig s (op, pool)) (get_op_config s op)"

definition is_grace_enabled :: "'z hw_guards_scheme \<Rightarrow> address \<Rightarrow> symbol \<Rightarrow> bool" where
  "is_grace_enabled s user op = unwrap_or (UserGrace s (user, op)) False"

definition capacity_tokens :: "RateLimitConfig \<Rightarrow> bool \<Rightarrow> i128" where
  "capacity_tokens c grace =
     (let base = unwrap_or (checked_add (int (max_calls_per_window c)) (int (burst_calls c))) i128_max;
          extra = (if grace then int (grace_burst_calls c) else 0) in
      unwrap_or (Option.bind (checked_add base extra) (\<lambda>v. checked_mul v TOKEN_SCALE)) i128_max)"

definition refill_per_second :: "RateLimitConfig \<Rightarrow> ('s, RateLimitError, i128) contract_fn" where
  "refill_per_second c =
     fail_if (window_seconds c = 0 \<or> max_calls_per_window c = 0) InvalidConfig (
     ok_or (checked_mul (int (max_calls_per_window c)) TOKEN_SCALE) Overflow (\<lambda>per_window_tokens.
     ok_or (checked_div per_window_tokens (int (window_seconds c))) Overflow ret))"

definition refill_bucket :: "host \<Rightarrow> BucketState \<Rightarrow> RateLimitConfig \<Rightarrow> i128 \<Rightarrow> ('s, RateLimitError, BucketState) contract_fn" where
  "refill_bucket h b c cap_tokens =
     (if now h \<le> last_refill b then ret b else
      let dt = now h - last_refill b in
      tryM (refill_per_second c) (\<lambda>rate.
      ok_or (checked_mul rate (int dt)) Overflow (\<lambda>add.
      ok_or (checked_add (bucket_tokens b) add) Overflow (\<lambda>sum.
      ret (b\<lparr>bucket_tokens := min sum cap_tokens, last_refill := now h\<rparr>)))))"

definition get_or_init_bucket :: "host \<Rightarrow> BucketState option \<Rightarrow> i128 \<Rightarrow> BucketState" where
  "get_or_init_bucket h b cap_tokens = unwrap_or b \<lparr>bucket_tokens = cap_tokens, last_refill = now h\<rparr>"

definition is_bypassed :: "'z hw_guards_scheme \<Rightarrow> address \<Rightarrow> bool" where
  "is_bypassed s caller =
     (if AdminKey s = Some caller then True else has_role s ''rate_limit_bypass'' caller)"

definition rate_require_admin :: "address \<Rightarrow> ('z, RateLimitError, unit) guard_fn" where
  "rate_require_admin caller = map_err (\<lambda>_. Unauthorized) (hw_require_admin caller)"

definition rate_validate_config :: "RateLimitConfig \<Rightarrow> ('s, RateLimitError, unit) contract_fn" where
  "rate_validate_config c =
     fail_if (window_seconds c = 0) InvalidConfig (
     fail_if (max_calls_per_window c = 0) InvalidConfig (ret ()))"

definition configure_operation_limit :: "address \<Rightarrow> symbol \<Rightarrow> RateLimitConfig \<Rightarrow> ('z, RateLimitError, unit) guard_fn" where
  "configure_operation_limit caller op c =
     tryM (rate_require_admin caller) (\<lambda>_.
     tryM (rate_validate_config c) (\<lambda>_.
     writes (\<lambda>s. s\<lparr>OpConfig := (OpConfig s)(op \<mapsto> c)\<rparr>)
     (ret ())))"

definition configure_pool_limit :: "address \<Rightarrow> symbol \<Rightarrow> address \<Rightarrow> RateLimitConfig \<Rightarrow> ('z, RateLimitError, unit) guard_fn" where
  "configure_pool_limit caller op pool c =
     tryM (rate_require_admin caller) (\<lambda>_.
     tryM (rate_validate_config c) (\<lambda>_.
     writes (\<lambda>s. s\<lparr>OpPoolConfig := (OpPoolConfig s)((op, pool) \<mapsto> c)\<rparr>)
     (ret ())))"

definition set_user_grace :: "address \<Rightarrow> address \<Rightarrow> symbol \<Rightarrow> bool \<Rightarrow> ('z, RateLimitError, unit) guard_fn" where
  "set_user_grace caller user op enabled =
     tryM (rate_require_admin caller) (\<lambda>_.
     writes (\<lambda>s. s\<lparr>UserGrace := (UserGrace s)((user, op) \<mapsto> enabled)\<rparr>)
     (ret ()))"

text \<open>Take one call from a bucket.\<close>

definition take_token :: "host \<Rightarrow> RateLimitConfig \<Rightarrow> i128 \<Rightarrow> BucketState option \<Rightarrow> ('s, RateLimitError, BucketState) contract_fn" where
  "take_token h c cap b =
     tryM (refill_bucket h (get_or_init_bucket h b cap) c cap) (\<lambda>bucket.
     fail_if (bucket_tokens bucket < TOKEN_SCALE) RateLimited (
     ok_or (checked_sub (bucket_tokens bucket) TOKEN_SCALE) Overflow (\<lambda>n.
     ret (bucket\<lparr>bucket_tokens := n\<rparr>))))"

definition consume :: "host \<Rightarrow> address \<Rightarrow> address \<Rightarrow> symbol \<Rightarrow> address \<Rightarrow> ('z, RateLimitError, unit) guard_fn" where
  "consume h caller user op pool =
     reads (\<lambda>s. is_bypassed s caller) (\<lambda>bypassed.
     if bypassed then ret () else
     reads (\<lambda>s. (get_pool_config s op pool, is_grace_enabled s user op)) (\<lambda>(c, grace).
     let cap = capacity_tokens c grace in
     reads (\<lambda>s. UserBucket s (user, op, pool)) (\<lambda>ub.
     tryM (take_token h c cap ub) (\<lambda>user_bucket.
     writes (\<lambda>s. s\<lparr>UserBucket := (UserBucket s)((user, op, pool) \<mapsto> user_bucket)\<rparr>) (
     reads (\<lambda>s. GlobalBucket s (op, pool)) (\<lambda>gb.
     tryM (take_token h c cap gb) (\<lambda>global_bucket.
     writes (\<lambda>s. s\<lparr>GlobalBucket := (GlobalBucket s)((op, pool) \<mapsto> global_bucket)\<rparr>)
     (ret ()))))))))"

definition get_user_status :: "host \<Rightarrow> address \<Rightarrow> symbol \<Rightarrow> address \<Rightarrow> ('z, RateLimitError, RateLimitStatus) guard_fn" where
  "get_user_status h user op pool =
     reads (\<lambda>s. (get_pool_config s op pool, is_grace_enabled s user op)) (\<lambda>(c, grace).
     let cap = capacity_tokens c grace in
     reads (\<lambda>s. get_or_init_bucket h (UserBucket s (user, op, pool)) cap) (\<lambda>bucket.
     tryM (or_default (refill_per_second c) 0) (\<lambda>refill.
     ret \<lparr>rls_config = c, rls_bucket = bucket, rls_capacity_tokens = cap, rls_refill_per_second = refill, rls_grace_enabled = grace\<rparr>)))"

definition get_global_status :: "host \<Rightarrow> symbol \<Rightarrow> address \<Rightarrow> ('z, RateLimitError, RateLimitStatus) guard_fn" where
  "get_global_status h op pool =
     reads (\<lambda>s. get_pool_config s op pool) (\<lambda>c.
     let cap = capacity_tokens c False in
     reads (\<lambda>s. get_or_init_bucket h (GlobalBucket s (op, pool)) cap) (\<lambda>bucket.
     tryM (or_default (refill_per_second c) 0) (\<lambda>refill.
     ret \<lparr>rls_config = c, rls_bucket = bucket, rls_capacity_tokens = cap, rls_refill_per_second = refill, rls_grace_enabled = False\<rparr>)))"

section \<open>Signed intents: intents.rs\<close>

definition next_nonce :: "'z hw_guards_scheme \<Rightarrow> address \<Rightarrow> symbol \<Rightarrow> u64" where
  "next_nonce s user op = unwrap_or (NextNonce s (user, op)) 0"

definition set_next_nonce :: "address \<Rightarrow> symbol \<Rightarrow> u64 \<Rightarrow> 'z hw_guards_scheme \<Rightarrow> 'z hw_guards_scheme" where
  "set_next_nonce user op nonce s = s\<lparr>NextNonce := (NextNonce s)((user, op) \<mapsto> nonce)\<rparr>"

text \<open>\<open>user.require_auth_for_args(auth_args)\<close>: \<open>authorised\<close> says which payloads the user signed.\<close>

definition require_intent_auth :: "host \<Rightarrow> (address \<Rightarrow> val list \<Rightarrow> bool) \<Rightarrow> address \<Rightarrow> address \<Rightarrow> symbol \<Rightarrow> u64 \<Rightarrow> u64 \<Rightarrow> val list \<Rightarrow>
    ('z, IntentError, unit) guard_fn" where
  "require_intent_auth h authorised self user op nonce expires_at args =
     fail_if (now h > expires_at) Expired (
     reads (\<lambda>s. next_nonce s user op) (\<lambda>expected.
     fail_if (nonce \<noteq> expected) BadNonce (
     tryM (if authorised user ([V_address self, V_symbol op, V_u64 nonce, V_u64 expires_at] @ args) then ret () else panic) (\<lambda>_.
     writes (set_next_nonce user op (saturating_add_u64 expected 1))
     (ret ())))))"

section \<open>The liquidation circuit breaker: circuit_breaker.rs\<close>

definition DEFAULT_COOLDOWN_PERIOD :: u64 where "DEFAULT_COOLDOWN_PERIOD = 3600"
definition MAX_COOLDOWN_PERIOD :: u64 where "MAX_COOLDOWN_PERIOD = 86400"

definition default_circuit_breaker_config :: CircuitBreakerConfig where
  "default_circuit_breaker_config =
     \<lparr>cooldown_period = DEFAULT_COOLDOWN_PERIOD, auto_deactivate_enabled = True, whitelist_enabled = True\<rparr>"

definition initialize_circuit_breaker :: "host \<Rightarrow> address \<Rightarrow> CircuitBreakerConfig \<Rightarrow> ('z, LendingError, unit) guard_fn" where
  "initialize_circuit_breaker h self c =
     fail_if (cooldown_period c > MAX_COOLDOWN_PERIOD) LendingError.InvalidParameter (
     writes (\<lambda>s. s\<lparr>CircuitBreakerConfigKey := Some c\<rparr>) (
     writes (\<lambda>s. s\<lparr>CircuitBreakerStateKey := Some \<lparr>cb_status = CB_Active, activated_at = now h, activated_by = self,
        cb_cooldown_period = cooldown_period c, auto_deactivate_at = None, cb_reason = SystemMaintenance\<rparr>\<rparr>) (
     writes (\<lambda>s. s\<lparr>CircuitBreakerWhitelist := Some []\<rparr>)
     (ret ()))))"

definition get_circuit_breaker_config :: "'z hw_guards_scheme \<Rightarrow> CircuitBreakerConfig" where
  "get_circuit_breaker_config s = unwrap_or (CircuitBreakerConfigKey s) default_circuit_breaker_config"

definition get_circuit_breaker_state :: "('z, LendingError, CircuitBreakerState) guard_fn" where
  "get_circuit_breaker_state = reads CircuitBreakerStateKey (\<lambda>x. ok_or x LendingError.NotFound ret)"

text \<open>\<open>caller.require_auth()\<close> and the comparison with the stored admin.\<close>

definition breaker_admin :: "host \<Rightarrow> address \<Rightarrow> ('z, LendingError, unit) guard_fn" where
  "breaker_admin h caller =
     tryM (require_auth h caller) (\<lambda>_.
     reads AdminKey (\<lambda>x. ok_or x LendingError.Unauthorized (\<lambda>admin.
     fail_if (caller \<noteq> admin) LendingError.Unauthorized (ret ()))))"

definition activate_circuit_breaker :: "host \<Rightarrow> address \<Rightarrow> CircuitBreakerReason \<Rightarrow> bool \<Rightarrow> ('z, LendingError, unit) guard_fn" where
  "activate_circuit_breaker h caller reason emergency_mode =
     tryM (breaker_admin h caller) (\<lambda>_.
     reads get_circuit_breaker_config (\<lambda>c.
     tryM (if auto_deactivate_enabled c then unwrap (checked_add_u64 (now h) (cooldown_period c)) (\<lambda>at. ret (Some at)) else ret None) (\<lambda>at.
     writes (\<lambda>s. s\<lparr>CircuitBreakerStateKey := Some \<lparr>cb_status = (if emergency_mode then CB_Emergency else CB_Paused),
        activated_at = now h, activated_by = caller, cb_cooldown_period = cooldown_period c, auto_deactivate_at = at,
        cb_reason = reason\<rparr>\<rparr>) (
     writes (guard_publish (CircuitBreakerActivatedEvent caller emergency_mode (now h)))
     (ret ())))))"

definition deactivate_circuit_breaker :: "host \<Rightarrow> address \<Rightarrow> ('z, LendingError, unit) guard_fn" where
  "deactivate_circuit_breaker h caller =
     tryM (breaker_admin h caller) (\<lambda>_.
     tryM get_circuit_breaker_state (\<lambda>b.
     fail_if (cb_status b = CB_Active) LendingError.InvalidState (
     writes (\<lambda>s. s\<lparr>CircuitBreakerStateKey := Some (b\<lparr>cb_status := CB_Active, auto_deactivate_at := None\<rparr>)\<rparr>) (
     writes (guard_publish (CircuitBreakerDeactivatedEvent caller (now h)))
     (ret ())))))"

definition get_whitelist :: "'z hw_guards_scheme \<Rightarrow> address list" where
  "get_whitelist s = unwrap_or (CircuitBreakerWhitelist s) []"

definition is_whitelisted :: "'z hw_guards_scheme \<Rightarrow> address \<Rightarrow> bool" where
  "is_whitelisted s liquidator \<longleftrightarrow> liquidator \<in> set (get_whitelist s)"

definition is_liquidation_allowed :: "host \<Rightarrow> address \<Rightarrow> ('z, LendingError, bool) guard_fn" where
  "is_liquidation_allowed h liquidator =
     tryM get_circuit_breaker_state (\<lambda>b.
     if (case auto_deactivate_at b of Some at \<Rightarrow> at \<le> now h | None \<Rightarrow> False) then
       writes (\<lambda>s. s\<lparr>CircuitBreakerStateKey := Some (b\<lparr>cb_status := CB_Active, auto_deactivate_at := None\<rparr>)\<rparr>)
       (ret True)
     else
       (case cb_status b of
          CB_Active \<Rightarrow> ret True
        | CB_Paused \<Rightarrow> ret False
        | CB_Emergency \<Rightarrow> reads (\<lambda>s. is_whitelisted s liquidator) ret))"

definition add_to_whitelist :: "host \<Rightarrow> address \<Rightarrow> address \<Rightarrow> ('z, LendingError, unit) guard_fn" where
  "add_to_whitelist h admin liquidator =
     tryM (breaker_admin h admin) (\<lambda>_.
     reads get_whitelist (\<lambda>whitelist.
     fail_if (liquidator \<in> set whitelist) LendingError.AlreadyExists (
     writes (\<lambda>s. s\<lparr>CircuitBreakerWhitelist := Some (whitelist @ [liquidator])\<rparr>) (
     writes (guard_publish (WhitelistAddedEvent liquidator admin (now h)))
     (ret ())))))"

definition remove_from_whitelist :: "host \<Rightarrow> address \<Rightarrow> address \<Rightarrow> ('z, LendingError, unit) guard_fn" where
  "remove_from_whitelist h admin liquidator =
     tryM (breaker_admin h admin) (\<lambda>_.
     reads CircuitBreakerWhitelist (\<lambda>x. ok_or x LendingError.NotFound (\<lambda>whitelist.
     fail_if (liquidator \<notin> set whitelist) LendingError.NotFound (
     writes (\<lambda>s. s\<lparr>CircuitBreakerWhitelist := Some (filter (\<lambda>a. a \<noteq> liquidator) whitelist)\<rparr>) (
     writes (guard_publish (WhitelistRemovedEvent liquidator admin (now h)))
     (ret ()))))))"

definition update_circuit_breaker_config :: "host \<Rightarrow> address \<Rightarrow> CircuitBreakerConfig \<Rightarrow> ('z, LendingError, unit) guard_fn" where
  "update_circuit_breaker_config h admin c =
     tryM (breaker_admin h admin) (\<lambda>_.
     fail_if (cooldown_period c > MAX_COOLDOWN_PERIOD) LendingError.InvalidParameter (
     writes (\<lambda>s. s\<lparr>CircuitBreakerConfigKey := Some c\<rparr>)
     (ret ())))"

section \<open>Credit scores: credit_score.rs\<close>

definition MIN_CREDIT_SCORE :: i128 where "MIN_CREDIT_SCORE = 0"
definition MAX_CREDIT_SCORE :: i128 where "MAX_CREDIT_SCORE = 1000"
definition DEFAULT_CREDIT_SCORE :: i128 where "DEFAULT_CREDIT_SCORE = 500"
definition ON_TIME_REPAYMENT_BONUS :: i128 where "ON_TIME_REPAYMENT_BONUS = 10"
definition LATE_REPAYMENT_PENALTY :: i128 where "LATE_REPAYMENT_PENALTY = 50"
definition LIQUIDATION_PENALTY :: i128 where "LIQUIDATION_PENALTY = 100"
definition HEALTHY_POSITION_BONUS :: i128 where "HEALTHY_POSITION_BONUS = 5"
definition BASE_LTV_BPS :: i128 where "BASE_LTV_BPS = 7000"
definition MAX_LTV_BONUS_BPS :: i128 where "MAX_LTV_BONUS_BPS = 1500"
definition MAX_LTV_PENALTY_BPS :: i128 where "MAX_LTV_PENALTY_BPS = 2000"
definition BASE_RATE_ADJUSTMENT_BPS :: i128 where "BASE_RATE_ADJUSTMENT_BPS = 500"

definition save_score :: "address \<Rightarrow> CreditScore \<Rightarrow> 'z hw_guards_scheme \<Rightarrow> 'z hw_guards_scheme" where
  "save_score user c s = s\<lparr>CreditScoreKey := (CreditScoreKey s)(user \<mapsto> c)\<rparr>"

definition initialize_credit_score :: "host \<Rightarrow> address \<Rightarrow> ('z, LendingError, unit) guard_fn" where
  "initialize_credit_score h user =
     reads (\<lambda>s. CreditScoreKey s user \<noteq> None) (\<lambda>ex.
     if ex then ret () else
     writes (save_score user \<lparr>cs_user = user, cs_score = DEFAULT_CREDIT_SCORE, on_time_repayments = 0, late_repayments = 0,
        liquidations = 0, total_borrowed = 0, total_repaid = 0, cs_last_updated = now h,
        cs_history = [\<lparr>css_score = DEFAULT_CREDIT_SCORE, css_timestamp = now h, css_reason = NewUser\<rparr>]\<rparr>)
     (ret ()))"

definition get_credit_score :: "address \<Rightarrow> ('z, LendingError, CreditScore) guard_fn" where
  "get_credit_score user = reads (\<lambda>s. CreditScoreKey s user) (\<lambda>x. ok_or x LendingError.NotFound ret)"

text \<open>The score after a change, with its entry in the history.\<close>

definition rescored :: "host \<Rightarrow> i128 \<Rightarrow> CreditScoreChangeReason \<Rightarrow> CreditScore \<Rightarrow> CreditScore" where
  "rescored h score reason c = c\<lparr>cs_score := score, cs_last_updated := now h,
     cs_history := cs_history c @ [\<lparr>css_score = score, css_timestamp = now h, css_reason = reason\<rparr>]\<rparr>"

definition update_score_on_repayment :: "host \<Rightarrow> address \<Rightarrow> i128 \<Rightarrow> bool \<Rightarrow> ('z, LendingError, unit) guard_fn" where
  "update_score_on_repayment h user amount is_on_time =
     tryM (initialize_credit_score h user) (\<lambda>_.
     tryM (get_credit_score user) (\<lambda>c.
     unwrap (checked_add (total_repaid c) amount) (\<lambda>repaid.
     tryM (if is_on_time then
             unwrap (checked_add_u32 (on_time_repayments c) 1) (\<lambda>n.
             ret (c\<lparr>total_repaid := repaid, on_time_repayments := n\<rparr>, ON_TIME_REPAYMENT_BONUS, OnTimeRepayment))
           else
             unwrap (checked_add_u32 (late_repayments c) 1) (\<lambda>n.
             ret (c\<lparr>total_repaid := repaid, late_repayments := n\<rparr>, - LATE_REPAYMENT_PENALTY, LateRepayment))) (\<lambda>(c, change, reason).
     unwrap (checked_add (cs_score c) change) (\<lambda>sum.
     writes (save_score user (rescored h (min (max sum MIN_CREDIT_SCORE) MAX_CREDIT_SCORE) reason c))
     (ret ()))))))"

definition update_score_on_liquidation :: "host \<Rightarrow> address \<Rightarrow> ('z, LendingError, unit) guard_fn" where
  "update_score_on_liquidation h user =
     tryM (initialize_credit_score h user) (\<lambda>_.
     tryM (get_credit_score user) (\<lambda>c.
     unwrap (checked_add_u32 (liquidations c) 1) (\<lambda>n.
     unwrap (checked_sub (cs_score c) LIQUIDATION_PENALTY) (\<lambda>diff.
     writes (save_score user (rescored h (max diff MIN_CREDIT_SCORE) Liquidation (c\<lparr>liquidations := n\<rparr>)))
     (ret ())))))"

definition update_score_on_healthy_position :: "host \<Rightarrow> address \<Rightarrow> ('z, LendingError, unit) guard_fn" where
  "update_score_on_healthy_position h user =
     tryM (initialize_credit_score h user) (\<lambda>_.
     tryM (get_credit_score user) (\<lambda>c.
     unwrap (checked_add (cs_score c) HEALTHY_POSITION_BONUS) (\<lambda>sum.
     writes (save_score user (rescored h (min sum MAX_CREDIT_SCORE) HealthyPosition c))
     (ret ()))))"

definition score_or_default :: "'z hw_guards_scheme \<Rightarrow> address \<Rightarrow> i128" where
  "score_or_default s user = (case CreditScoreKey s user of Some c \<Rightarrow> cs_score c | None \<Rightarrow> DEFAULT_CREDIT_SCORE)"

text \<open>\<open>((score - a) * b) / c\<close> with checked operators.\<close>

definition scaled :: "i128 \<Rightarrow> i128 \<Rightarrow> i128 \<Rightarrow> ('s, LendingError, i128) contract_fn" where
  "scaled d b c = unwrap (checked_mul d b) (\<lambda>m. unwrap (checked_div m c) ret)"

definition calculate_adjusted_ltv :: "address \<Rightarrow> ('z, LendingError, i128) guard_fn" where
  "calculate_adjusted_ltv user =
     reads (\<lambda>s. score_or_default s user) (\<lambda>score.
     tryM (if score \<ge> 800 then ret MAX_LTV_BONUS_BPS
           else if score \<ge> 600 then scaled (score - 600) MAX_LTV_BONUS_BPS 200
           else if score \<ge> 300 then scaled (score - 450) MAX_LTV_BONUS_BPS 150
           else tryM (scaled score (MAX_LTV_PENALTY_BPS - 500) 300) (\<lambda>x. unwrap (checked_add (- MAX_LTV_PENALTY_BPS) x) ret)) (\<lambda>adjustment.
     unwrap (checked_add BASE_LTV_BPS adjustment) ret))"

definition calculate_adjusted_interest_rate :: "address \<Rightarrow> i128 \<Rightarrow> ('z, LendingError, i128) guard_fn" where
  "calculate_adjusted_interest_rate user base_rate =
     reads (\<lambda>s. score_or_default s user) (\<lambda>score.
     unwrap (checked_sub 500 score) (\<lambda>d.
     tryM (scaled d BASE_RATE_ADJUSTMENT_BPS 500) (\<lambda>adjustment.
     unwrap (checked_add base_rate adjustment) ret)))"

definition record_borrow :: "host \<Rightarrow> address \<Rightarrow> i128 \<Rightarrow> ('z, LendingError, unit) guard_fn" where
  "record_borrow h user amount =
     tryM (initialize_credit_score h user) (\<lambda>_.
     tryM (get_credit_score user) (\<lambda>c.
     unwrap (checked_add (total_borrowed c) amount) (\<lambda>n.
     writes (save_score user (c\<lparr>total_borrowed := n\<rparr>))
     (ret ()))))"

end
