(* ===== verification/HW_Book.thy ===== *)
theory HW_Book
  imports HW_Guards
begin

text \<open>
  The books of the protocol contract: collateral deposits (\<open>deposit.rs\<close>), the value of a user's collateral over all its
  assets (\<open>multi_collateral.rs\<close>) and the treasury with its fees and reserves (\<open>treasury.rs\<close>). \<open>CollateralBalance\<close>,
  \<open>Position\<close> and \<open>UserAssetCollateral\<close> are three records of the same collateral. \<open>self\<close> is the contract's own address;
  \<open>None\<close> as an asset is the native one, whose transfers the code leaves out.
\<close>

section \<open>Data\<close>

datatype DepositError = InvalidAmount | InvalidAsset | InsufficientBalance | DepositPaused | AssetNotEnabled | Overflow
  | Reentrancy | Unauthorized

datatype TreasuryError = Unauthorized | InvalidAmount | InsufficientReserve | Overflow | TreasuryNotSet | InvalidFee

datatype MultiCollateralError = Overflow | AssetNotFound

record AssetParams =
  ap_deposit_enabled :: bool
  ap_collateral_factor :: i128
  ap_max_deposit :: i128
  ap_borrow_fee_bps :: i128

record Position =
  hp_collateral :: i128
  hp_debt :: i128
  hp_borrow_interest :: i128
  hp_last_accrual_time :: u64

record Activity =
  act_user :: address
  act_type :: symbol
  act_amount :: i128
  act_asset :: "address option"
  act_timestamp :: u64
  act_metadata :: "symbol \<Rightarrow> symbol option"

record UserAnalytics =
  ua_total_deposits :: i128
  ua_total_borrows :: i128
  ua_total_withdrawals :: i128
  ua_total_repayments :: i128
  ua_collateral_value :: i128
  ua_debt_value :: i128
  ua_collateralization_ratio :: i128
  ua_activity_score :: i128
  ua_transaction_count :: u64
  ua_first_interaction :: u64
  ua_last_activity :: u64
  ua_risk_level :: i128
  ua_loyalty_tier :: u32

record TreasuryFeeConfig =
  interest_fee_bps :: i128
  liquidation_fee_bps :: i128

datatype book_event =
  DepositEvent address "address option" i128 u64
| WithdrawalEvent address "address option" i128 u64
| BorrowEvent address "address option" i128 u64
| RepayEvent address "address option" i128 u64
| LiquidationEvent address address "address option" "address option" i128 i128 i128 u64
| LiquidationFeeCollectedEvent "address option" i128 u64
| PositionUpdatedEvent address i128 i128
| AnalyticsUpdatedEvent address symbol i128 u64
| UserActivityTrackedEvent address symbol i128 u64
| TreasurySetEvent address address u64
| ReservesClaimedEvent address "address option" address i128 u64
| FeeConfigUpdatedEvent address i128 i128 u64

record hw_book = hw_guards +
  CollateralBalance :: "address \<Rightarrow> i128 option"
  AssetParamsKey :: "address \<Rightarrow> AssetParams option"
  PositionKey :: "address \<Rightarrow> Position option"
  UserAnalyticsKey :: "address \<Rightarrow> UserAnalytics option"
  ActivityLog :: "Activity list option"
  ProtocolReserve :: "address option \<Rightarrow> i128 option"
  NativeAssetAddress :: "address option"
  UserAssetCollateral :: "address \<times> address \<Rightarrow> i128 option"
  UserAssetList :: "address \<Rightarrow> address list option"
  UserBorrowIndex :: "address \<Rightarrow> i128 option"
  TreasuryAddress :: "address option"
  FeeConfig :: "TreasuryFeeConfig option"
  book_log :: "book_event list"

type_synonym ('z, 'e, 'a) book_fn = "('z hw_book_scheme, 'e, 'a) contract_fn"

definition book_publish :: "book_event \<Rightarrow> 'z hw_book_scheme \<Rightarrow> 'z hw_book_scheme" where
  "book_publish e s = s\<lparr>book_log := book_log s @ [e]\<rparr>"

section \<open>Reads and records\<close>

definition collateral_of :: "'z hw_book_scheme \<Rightarrow> address \<Rightarrow> i128" where
  "collateral_of s user = unwrap_or (CollateralBalance s user) 0"

definition set_collateral :: "address \<Rightarrow> i128 \<Rightarrow> 'z hw_book_scheme \<Rightarrow> 'z hw_book_scheme" where
  "set_collateral user n s = s\<lparr>CollateralBalance := (CollateralBalance s)(user \<mapsto> n)\<rparr>"

definition set_position :: "address \<Rightarrow> Position \<Rightarrow> 'z hw_book_scheme \<Rightarrow> 'z hw_book_scheme" where
  "set_position user p s = s\<lparr>PositionKey := (PositionKey s)(user \<mapsto> p)\<rparr>"

definition position_or_new :: "u64 \<Rightarrow> 'z hw_book_scheme \<Rightarrow> address \<Rightarrow> Position" where
  "position_or_new t s user =
     unwrap_or (PositionKey s user) \<lparr>hp_collateral = 0, hp_debt = 0, hp_borrow_interest = 0, hp_last_accrual_time = t\<rparr>"

definition new_user_analytics :: "u64 \<Rightarrow> UserAnalytics" where
  "new_user_analytics t = \<lparr>ua_total_deposits = 0, ua_total_borrows = 0, ua_total_withdrawals = 0, ua_total_repayments = 0,
     ua_collateral_value = 0, ua_debt_value = 0, ua_collateralization_ratio = 0, ua_activity_score = 0, ua_transaction_count = 0,
     ua_first_interaction = t, ua_last_activity = t, ua_risk_level = 0, ua_loyalty_tier = 0\<rparr>"

definition user_analytics :: "u64 \<Rightarrow> 'z hw_book_scheme \<Rightarrow> address \<Rightarrow> UserAnalytics" where
  "user_analytics t s user = unwrap_or (UserAnalyticsKey s user) (new_user_analytics t)"

text \<open>What every update of a user's analytics ends with: count the transaction, note the time, store.\<close>

definition save_user_analytics :: "address \<Rightarrow> u64 \<Rightarrow> UserAnalytics \<Rightarrow> 'z hw_book_scheme \<Rightarrow> 'z hw_book_scheme" where
  "save_user_analytics user t a s = s\<lparr>UserAnalyticsKey := (UserAnalyticsKey s)(user \<mapsto>
     a\<lparr>ua_transaction_count := saturating_add_u64 (ua_transaction_count a) 1, ua_last_activity := t\<rparr>)\<rparr>"

definition protocol_analytics :: "'z hw_book_scheme \<Rightarrow> ProtocolAnalytics" where
  "protocol_analytics s =
     unwrap_or (ProtocolAnalyticsKey s) \<lparr>pa_total_deposits = 0, pa_total_borrows = 0, pa_total_value_locked = 0\<rparr>"

section \<open>Deposits: deposit.rs\<close>

definition set_asset_params :: "address \<Rightarrow> address \<Rightarrow> AssetParams \<Rightarrow> ('z, DepositError, unit) book_fn" where
  "set_asset_params caller asset p = writes (\<lambda>s. s\<lparr>AssetParamsKey := (AssetParamsKey s)(asset \<mapsto> p)\<rparr>) (ret ())"

definition check_risk_management_pause :: "('z, DepositError, unit) book_fn" where
  "check_risk_management_pause =
     reads EmergencyPauseKey (\<lambda>e.
     case e of Some True \<Rightarrow> fail DepositPaused | _ \<Rightarrow> ret ())"

definition record_asset_deposit :: "address \<Rightarrow> address \<Rightarrow> i128 \<Rightarrow> ('z, DepositError, unit) book_fn" where
  "record_asset_deposit user asset amount =
     reads (\<lambda>s. unwrap_or (UserAssetCollateral s (user, asset)) 0) (\<lambda>current.
     ok_or (checked_add current amount) DepositError.Overflow (\<lambda>new_balance.
     writes (\<lambda>s. s\<lparr>UserAssetCollateral := (UserAssetCollateral s)((user, asset) \<mapsto> new_balance)\<rparr>) (
     reads (\<lambda>s. unwrap_or (UserAssetList s user) []) (\<lambda>asset_list.
     if asset \<in> set asset_list then ret ()
     else writes (\<lambda>s. s\<lparr>UserAssetList := (UserAssetList s)(user \<mapsto> asset_list @ [asset])\<rparr>) (ret ())))))"

definition record_asset_withdrawal :: "address \<Rightarrow> address \<Rightarrow> i128 \<Rightarrow> ('z, DepositError, unit) book_fn" where
  "record_asset_withdrawal user asset amount =
     reads (\<lambda>s. unwrap_or (UserAssetCollateral s (user, asset)) 0) (\<lambda>current.
     let new_balance = unwrap_or (checked_sub current amount) 0 in
     writes (\<lambda>s. s\<lparr>UserAssetCollateral := (UserAssetCollateral s)((user, asset) \<mapsto> new_balance)\<rparr>) (
     if new_balance = 0 then
       reads (\<lambda>s. unwrap_or (UserAssetList s user) []) (\<lambda>asset_list.
       writes (\<lambda>s. s\<lparr>UserAssetList := (UserAssetList s)(user \<mapsto> filter (\<lambda>a. a \<noteq> asset) asset_list)\<rparr>) (ret ()))
     else ret ()))"

definition set_native_asset_address :: "host \<Rightarrow> address \<Rightarrow> address \<Rightarrow> address \<Rightarrow> ('z, DepositError, unit) book_fn" where
  "set_native_asset_address h self caller native_asset =
     reads AdminKey (\<lambda>x. ok_or x DepositError.InvalidAsset (\<lambda>admin.
     fail_if (caller \<noteq> admin) DepositError.InvalidAsset (
     tryM (require_auth h caller) (\<lambda>_.
     fail_if (native_asset = self) DepositError.InvalidAsset (
     writes (\<lambda>s. s\<lparr>NativeAssetAddress := Some native_asset\<rparr>)
     (ret ()))))))"

definition update_user_analytics :: "address \<Rightarrow> i128 \<Rightarrow> u64 \<Rightarrow> bool \<Rightarrow> ('z, DepositError, unit) book_fn" where
  "update_user_analytics user amount t is_deposit =
     reads (\<lambda>s. user_analytics t s user) (\<lambda>a.
     tryM (if is_deposit then
             ok_or (checked_add (ua_total_deposits a) amount) DepositError.Overflow (\<lambda>d.
             ok_or (checked_add (ua_collateral_value a) amount) DepositError.Overflow (\<lambda>v.
             ret (a\<lparr>ua_total_deposits := d, ua_collateral_value := v\<rparr>)))
           else ret a) (\<lambda>a.
     writes (save_user_analytics user t a)
     (ret ())))"

definition update_protocol_analytics :: "i128 \<Rightarrow> bool \<Rightarrow> ('z, DepositError, unit) book_fn" where
  "update_protocol_analytics amount is_deposit =
     reads protocol_analytics (\<lambda>a.
     tryM (if is_deposit then
             ok_or (checked_add (pa_total_deposits a) amount) DepositError.Overflow (\<lambda>d.
             ok_or (checked_add (pa_total_value_locked a) amount) DepositError.Overflow (\<lambda>v.
             ret (a\<lparr>pa_total_deposits := d, pa_total_value_locked := v\<rparr>)))
           else ret a) (\<lambda>a.
     writes (\<lambda>s. s\<lparr>ProtocolAnalyticsKey := Some a\<rparr>)
     (ret ())))"

definition add_activity_log :: "address \<Rightarrow> symbol \<Rightarrow> i128 \<Rightarrow> address option \<Rightarrow> u64 \<Rightarrow> ('z, DepositError, unit) book_fn" where
  "add_activity_log user activity_type amount asset t =
     reads (\<lambda>s. unwrap_or (ActivityLog s) []) (\<lambda>log.
     let log1 = log @ [\<lparr>act_user = user, act_type = activity_type, act_amount = amount, act_asset = asset, act_timestamp = t,
                        act_metadata = (\<lambda>_. None)\<rparr>];
         log2 = (if length log1 > 1000 then tl log1 else log1) in
     writes (\<lambda>s. s\<lparr>ActivityLog := Some log2\<rparr>)
     (ret ()))"

definition emit_position_updated_event :: "address \<Rightarrow> Position \<Rightarrow> 'z hw_book_scheme \<Rightarrow> 'z hw_book_scheme" where
  "emit_position_updated_event user p = book_publish (PositionUpdatedEvent user (hp_collateral p) (hp_debt p))"

definition emit_analytics_updated_event :: "address \<Rightarrow> symbol \<Rightarrow> i128 \<Rightarrow> u64 \<Rightarrow> 'z hw_book_scheme \<Rightarrow> 'z hw_book_scheme" where
  "emit_analytics_updated_event user activity_type amount t = book_publish (AnalyticsUpdatedEvent user activity_type amount t)"

definition emit_user_activity_tracked_event :: "address \<Rightarrow> symbol \<Rightarrow> i128 \<Rightarrow> u64 \<Rightarrow> 'z hw_book_scheme \<Rightarrow> 'z hw_book_scheme" where
  "emit_user_activity_tracked_event user operation amount t = book_publish (UserActivityTrackedEvent user operation amount t)"

text \<open>The events every operation ends with.\<close>

definition emit_closing_events :: "address \<Rightarrow> Position \<Rightarrow> symbol \<Rightarrow> i128 \<Rightarrow> u64 \<Rightarrow> 'z hw_book_scheme \<Rightarrow> 'z hw_book_scheme" where
  "emit_closing_events user p operation amount t s =
     emit_user_activity_tracked_event user operation amount t (
     emit_analytics_updated_event user operation amount t (
     emit_position_updated_event user p s))"

text \<open>Check the asset and fetch the tokens.\<close>

definition receive_deposit :: "tokens \<Rightarrow> address \<Rightarrow> address \<Rightarrow> address option \<Rightarrow> i128 \<Rightarrow> ('z, DepositError, unit) book_fn" where
  "receive_deposit tk self user asset amount =
     (case asset of
        None \<Rightarrow> ret ()
      | Some a \<Rightarrow>
          fail_if (a = self) DepositError.InvalidAsset (
          reads (\<lambda>s. AssetParamsKey s a) (\<lambda>params.
          tryM (case params of
                  None \<Rightarrow> ret ()
                | Some p \<Rightarrow>
                    fail_if (\<not> ap_deposit_enabled p) DepositError.AssetNotEnabled (
                    fail_if (ap_max_deposit p > 0 \<and> amount > ap_max_deposit p) DepositError.InvalidAmount (ret ()))) (\<lambda>_.
          balance_of tk a user (\<lambda>user_balance.
          fail_if (user_balance < amount) DepositError.InsufficientBalance (
          call_token tk (TransferFrom a self user self amount)))))))"

definition deposit_collateral :: "host \<Rightarrow> tokens \<Rightarrow> address \<Rightarrow> address \<Rightarrow> address option \<Rightarrow> i128 \<Rightarrow> ('z, DepositError, i128) book_fn" where
  "deposit_collateral h tk self user asset amount =
     fail_if (amount \<le> 0) DepositError.InvalidAmount (
     with_guard DepositError.Reentrancy (
     reads (\<lambda>s. legacy_pause s ''pause_deposit'') (\<lambda>paused.
     fail_if paused DepositPaused (
     tryM check_risk_management_pause (\<lambda>_.
     tryM (receive_deposit tk self user asset amount) (\<lambda>_.
     reads (\<lambda>s. position_or_new (now h) s user) (\<lambda>pos.
     reads (\<lambda>s. collateral_of s user) (\<lambda>current_collateral.
     ok_or (checked_add current_collateral amount) DepositError.Overflow (\<lambda>new_collateral.
     writes (set_collateral user new_collateral) (
     tryM (case asset of Some a \<Rightarrow> record_asset_deposit user a amount | None \<Rightarrow> ret ()) (\<lambda>_.
     let pos' = pos\<lparr>hp_collateral := new_collateral, hp_last_accrual_time := now h\<rparr> in
     writes (set_position user pos') (
     tryM (update_user_analytics user amount (now h) True) (\<lambda>_.
     tryM (update_protocol_analytics amount True) (\<lambda>_.
     tryM (add_activity_log user ''deposit'' amount asset (now h)) (\<lambda>_.
     writes (book_publish (DepositEvent user asset amount (now h))) (
     writes (emit_closing_events user pos' ''deposit'' amount (now h))
     (ret new_collateral)))))))))))))))))"

section \<open>Collateral over several assets: multi_collateral.rs\<close>

definition PRICE_DECIMALS :: i128 where "PRICE_DECIMALS = 100000000"
definition BPS_SCALE :: i128 where "BPS_SCALE = 10000"

definition get_user_asset_collateral :: "'z hw_book_scheme \<Rightarrow> address \<Rightarrow> address \<Rightarrow> i128" where
  "get_user_asset_collateral s user asset = unwrap_or (UserAssetCollateral s (user, asset)) 0"

definition get_user_asset_list :: "'z hw_book_scheme \<Rightarrow> address \<Rightarrow> address list" where
  "get_user_asset_list s user = unwrap_or (UserAssetList s user) []"

definition get_collateral_factor :: "'z hw_book_scheme \<Rightarrow> address \<Rightarrow> i128" where
  "get_collateral_factor s asset = (case AssetParamsKey s asset of Some p \<Rightarrow> ap_collateral_factor p | None \<Rightarrow> BPS_SCALE)"

definition get_oracle_price :: "host \<Rightarrow> address \<Rightarrow> ('z, 'e, i128) book_fn" where
  "get_oracle_price h asset = or_default (get_price h asset) PRICE_DECIMALS"

text \<open>The loop over the user's assets.\<close>

fun add_asset_values :: "host \<Rightarrow> address \<Rightarrow> i128 \<Rightarrow> address list \<Rightarrow> ('z, MultiCollateralError, i128) book_fn" where
  "add_asset_values h user acc [] = ret acc"
| "add_asset_values h user acc (asset # assets) =
     reads (\<lambda>s. get_user_asset_collateral s user asset) (\<lambda>amount.
     if amount = 0 then add_asset_values h user acc assets else
     tryM (get_oracle_price h asset) (\<lambda>price.
     reads (\<lambda>s. get_collateral_factor s asset) (\<lambda>factor.
     ok_or (checked_mul amount price) MultiCollateralError.Overflow (\<lambda>value_with_price.
     ok_or (checked_div value_with_price PRICE_DECIMALS) MultiCollateralError.Overflow (\<lambda>value_in_base.
     ok_or (checked_mul value_in_base factor) MultiCollateralError.Overflow (\<lambda>weighted.
     ok_or (checked_div weighted BPS_SCALE) MultiCollateralError.Overflow (\<lambda>weighted_value.
     ok_or (checked_add acc weighted_value) MultiCollateralError.Overflow (\<lambda>acc'.
     add_asset_values h user acc' assets))))))))"

definition calculate_total_collateral_value :: "host \<Rightarrow> address \<Rightarrow> ('z, MultiCollateralError, i128) book_fn" where
  "calculate_total_collateral_value h user = reads (\<lambda>s. get_user_asset_list s user) (add_asset_values h user 0)"

definition has_multi_asset_collateral :: "'z hw_book_scheme \<Rightarrow> address \<Rightarrow> bool" where
  "has_multi_asset_collateral s user \<longleftrightarrow> get_user_asset_list s user \<noteq> []"

section \<open>Treasury: treasury.rs\<close>

definition DEFAULT_INTEREST_FEE_BPS :: i128 where "DEFAULT_INTEREST_FEE_BPS = 1000"
definition DEFAULT_LIQUIDATION_FEE_BPS :: i128 where "DEFAULT_LIQUIDATION_FEE_BPS = 1000"

definition default_fee_config :: TreasuryFeeConfig where
  "default_fee_config = \<lparr>interest_fee_bps = DEFAULT_INTEREST_FEE_BPS, liquidation_fee_bps = DEFAULT_LIQUIDATION_FEE_BPS\<rparr>"

definition treasury_admin :: "host \<Rightarrow> address \<Rightarrow> ('z, TreasuryError, unit) book_fn" where
  "treasury_admin h caller =
     tryM (require_auth h caller) (\<lambda>_. map_err (\<lambda>_. TreasuryError.Unauthorized) (hw_require_admin caller))"

definition set_treasury :: "host \<Rightarrow> address \<Rightarrow> address \<Rightarrow> ('z, TreasuryError, unit) book_fn" where
  "set_treasury h caller treasury =
     tryM (treasury_admin h caller) (\<lambda>_.
     writes (\<lambda>s. s\<lparr>TreasuryAddress := Some treasury\<rparr>) (
     writes (book_publish (TreasurySetEvent caller treasury (now h)))
     (ret ())))"

definition get_fee_config :: "'z hw_book_scheme \<Rightarrow> TreasuryFeeConfig" where
  "get_fee_config s = unwrap_or (FeeConfig s) default_fee_config"

definition set_fee_config :: "host \<Rightarrow> address \<Rightarrow> TreasuryFeeConfig \<Rightarrow> ('z, TreasuryError, unit) book_fn" where
  "set_fee_config h caller c =
     tryM (treasury_admin h caller) (\<lambda>_.
     fail_if (interest_fee_bps c < 0 \<or> interest_fee_bps c > 10000) InvalidFee (
     fail_if (liquidation_fee_bps c < 0 \<or> liquidation_fee_bps c > 10000) InvalidFee (
     writes (\<lambda>s. s\<lparr>FeeConfig := Some c\<rparr>) (
     writes (book_publish (FeeConfigUpdatedEvent caller (interest_fee_bps c) (liquidation_fee_bps c) (now h)))
     (ret ())))))"

definition get_reserve_balance :: "'z hw_book_scheme \<Rightarrow> address option \<Rightarrow> i128" where
  "get_reserve_balance s asset = unwrap_or (ProtocolReserve s asset) 0"

definition set_reserve :: "address option \<Rightarrow> i128 \<Rightarrow> 'z hw_book_scheme \<Rightarrow> 'z hw_book_scheme" where
  "set_reserve asset n s = s\<lparr>ProtocolReserve := (ProtocolReserve s)(asset \<mapsto> n)\<rparr>"

definition claim_reserves :: "host \<Rightarrow> tokens \<Rightarrow> address \<Rightarrow> address \<Rightarrow> address option \<Rightarrow> address \<Rightarrow> i128 \<Rightarrow> ('z, TreasuryError, unit) book_fn" where
  "claim_reserves h tk self caller asset recipient amount =
     tryM (treasury_admin h caller) (\<lambda>_.
     fail_if (amount \<le> 0) TreasuryError.InvalidAmount (
     reads (\<lambda>s. get_reserve_balance s asset) (\<lambda>current_reserve.
     fail_if (amount > current_reserve) InsufficientReserve (
     ok_or (checked_sub current_reserve amount) TreasuryError.Overflow (\<lambda>new_reserve.
     writes (set_reserve asset new_reserve) (
     tryM (case asset of Some a \<Rightarrow> call_token tk (Transfer a self recipient amount) | None \<Rightarrow> ret ()) (\<lambda>_.
     writes (book_publish (ReservesClaimedEvent caller asset recipient amount (now h)))
     (ret ()))))))))"

end
