(* ===== verification/HW_Loans.thy ===== *)
theory HW_Loans
  imports HW_Book
begin

text \<open>
  The loans of the protocol contract: borrowing (\<open>borrow.rs\<close>), repayment (\<open>repay.rs\<close>), withdrawal of collateral
  (\<open>withdraw.rs\<close>) and liquidation (\<open>liquidate.rs\<close>). The three copies of \<open>accrue_interest\<close> differ in their error type only.
\<close>

section \<open>Data\<close>

datatype BorrowError = InvalidAmount | InvalidAsset | InsufficientCollateral | BorrowPaused | InsufficientCollateralRatio
  | Overflow | Reentrancy | MaxBorrowExceeded | AssetNotEnabled

datatype RepayError = InvalidAmount | InvalidAsset | InsufficientBalance | RepayPaused | NoDebt | Overflow | Reentrancy

datatype WithdrawError = InvalidAmount | InvalidAsset | InsufficientCollateral | WithdrawPaused | InsufficientCollateralRatio
  | Overflow | Reentrancy | Undercollateralized

datatype LiquidationError = InvalidAmount | InvalidAsset | NotLiquidatable | LiquidationPaused | ExceedsCloseFactor
  | InsufficientBalance | Overflow | InvalidCollateralAsset | InvalidDebtAsset | PriceNotAvailable
  | InsufficientLiquidation | Reentrancy

section \<open>Interest and collateral\<close>

definition set_user_index :: "address \<Rightarrow> i128 \<Rightarrow> 'z hw_book_scheme \<Rightarrow> 'z hw_book_scheme" where
  "set_user_index user n s = s\<lparr>UserBorrowIndex := (UserBorrowIndex s)(user \<mapsto> n)\<rparr>"

definition accrue_interest :: "host \<Rightarrow> 'e \<Rightarrow> address \<Rightarrow> Position \<Rightarrow> ('z, 'e, Position) book_fn" where
  "accrue_interest h overflow user p =
     (if hp_debt p = 0 then
        tryM (map_err (\<lambda>_. overflow) (update_lending_index h)) (\<lambda>idx.
        writes (set_user_index user (borrow_index idx))
        (ret (p\<lparr>hp_borrow_interest := 0, hp_last_accrual_time := now h\<rparr>)))
      else
        tryM (map_err (\<lambda>_. overflow) (update_lending_index h)) (\<lambda>idx.
        reads (\<lambda>s. unwrap_or (UserBorrowIndex s user) (borrow_index idx)) (\<lambda>user_index.
        tryM (map_err (\<lambda>_. overflow) (compute_index_interest (hp_debt p) user_index (borrow_index idx))) (\<lambda>new_interest.
        ok_or (checked_add (hp_borrow_interest p) new_interest) overflow (\<lambda>interest.
        writes (set_user_index user (borrow_index idx))
        (ret (p\<lparr>hp_borrow_interest := interest, hp_last_accrual_time := now h\<rparr>)))))))"

text \<open>A parameter of the asset, or its default for the native and for unconfigured assets.\<close>

definition asset_param :: "(AssetParams \<Rightarrow> 'v) \<Rightarrow> 'v \<Rightarrow> address option \<Rightarrow> 'z hw_book_scheme \<Rightarrow> 'v" where
  "asset_param f d asset s =
     (case asset of None \<Rightarrow> d | Some a \<Rightarrow> (case AssetParamsKey s a of Some p \<Rightarrow> f p | None \<Rightarrow> d))"

definition min_ratio :: "'z hw_book_scheme \<Rightarrow> i128" where
  "min_ratio s = (case RiskParamsConfig s of Some c \<Rightarrow> rp_min_collateral_ratio c | None \<Rightarrow> 15000)"

text \<open>The collateral that counts, and whether the asset's factor is still to be applied.\<close>

definition effective_collateral :: "host \<Rightarrow> 'e \<Rightarrow> address \<Rightarrow> ('z, 'e, i128 \<times> bool) book_fn" where
  "effective_collateral h overflow user =
     reads (\<lambda>s. has_multi_asset_collateral s user) (\<lambda>multi.
     if multi then
       tryM (map_err (\<lambda>_. overflow) (calculate_total_collateral_value h user)) (\<lambda>v. ret (v, False))
     else reads (\<lambda>s. collateral_of s user) (\<lambda>b. ret (b, True)))"

section \<open>Borrowing: borrow.rs\<close>

definition calculate_max_borrowable :: "i128 \<Rightarrow> i128 \<Rightarrow> i128 \<Rightarrow> i128 \<Rightarrow> i128 \<Rightarrow> ('s, BorrowError, i128) contract_fn" where
  "calculate_max_borrowable collateral current_debt current_interest factor ratio =
     ok_or (checked_mul collateral factor) BorrowError.Overflow (\<lambda>m.
     ok_or (checked_div m 10000) BorrowError.Overflow (\<lambda>collateral_value.
     ok_or (checked_add current_debt current_interest) BorrowError.Overflow (\<lambda>current_total_debt.
     ok_or (checked_mul collateral_value 10000) BorrowError.Overflow (\<lambda>m2.
     ok_or (checked_div m2 ratio) BorrowError.Overflow (\<lambda>max_debt.
     if max_debt > current_total_debt then ok_or (checked_sub max_debt current_total_debt) BorrowError.Overflow ret
     else ret 0)))))"

definition validate_collateral_ratio_after_borrow :: "host \<Rightarrow> address \<Rightarrow> i128 \<Rightarrow> i128 \<Rightarrow> ('z, BorrowError, unit) book_fn" where
  "validate_collateral_ratio_after_borrow h user added factor =
     reads (\<lambda>s. PositionKey s user) (\<lambda>x. ok_or x BorrowError.InsufficientCollateral (\<lambda>p.
     tryM (effective_collateral h BorrowError.Overflow user) (\<lambda>(collateral, apply_factor).
     fail_if (collateral = 0) BorrowError.InsufficientCollateral (
     ok_or (checked_add (hp_debt p) added) BorrowError.Overflow (\<lambda>new_debt.
     ok_or (checked_add new_debt (hp_borrow_interest p)) BorrowError.Overflow (\<lambda>total_debt.
     if total_debt = 0 then ret () else
     tryM (if apply_factor then
             ok_or (checked_mul collateral factor) BorrowError.Overflow (\<lambda>m.
             ok_or (checked_div m 10000) BorrowError.Overflow ret)
           else ret collateral) (\<lambda>collateral_value.
     ok_or (checked_mul collateral_value 10000) BorrowError.Overflow (\<lambda>m.
     ok_or (checked_div m total_debt) BorrowError.Overflow (\<lambda>ratio.
     reads min_ratio (\<lambda>least.
     fail_if (ratio < least) BorrowError.InsufficientCollateralRatio (ret ())))))))))))"

definition validate_borrow_asset :: "address \<Rightarrow> address option \<Rightarrow> ('z, BorrowError, unit) book_fn" where
  "validate_borrow_asset self asset =
     (case asset of
        None \<Rightarrow> ret ()
      | Some a \<Rightarrow>
          fail_if (a = self) BorrowError.InvalidAsset (
          reads (asset_param ap_deposit_enabled True asset) (\<lambda>enabled.
          fail_if (\<not> enabled) BorrowError.AssetNotEnabled (ret ()))))"

definition update_user_analytics_borrow :: "address \<Rightarrow> i128 \<Rightarrow> u64 \<Rightarrow> ('z, BorrowError, unit) book_fn" where
  "update_user_analytics_borrow user amount t =
     reads (\<lambda>s. user_analytics t s user) (\<lambda>a.
     ok_or (checked_add (ua_total_borrows a) amount) BorrowError.Overflow (\<lambda>b.
     ok_or (checked_add (ua_debt_value a) amount) BorrowError.Overflow (\<lambda>d.
     let ratio = (if d > 0 \<and> ua_collateral_value a > 0
                  then unwrap_or (Option.bind (checked_mul (ua_collateral_value a) 10000) (\<lambda>v. checked_div v d)) 0 else 0) in
     writes (save_user_analytics user t (a\<lparr>ua_total_borrows := b, ua_debt_value := d, ua_collateralization_ratio := ratio\<rparr>))
     (ret ()))))"

definition update_protocol_analytics_borrow :: "i128 \<Rightarrow> ('z, BorrowError, unit) book_fn" where
  "update_protocol_analytics_borrow amount =
     reads protocol_analytics (\<lambda>a.
     ok_or (checked_add (pa_total_borrows a) amount) BorrowError.Overflow (\<lambda>b.
     writes (\<lambda>s. s\<lparr>ProtocolAnalyticsKey := Some (a\<lparr>pa_total_borrows := b\<rparr>)\<rparr>)
     (ret ())))"

text \<open>Pay out, and credit the fee to the reserve of the asset.\<close>

definition pay_borrower :: "tokens \<Rightarrow> address \<Rightarrow> address \<Rightarrow> address option \<Rightarrow> i128 \<Rightarrow> i128 \<Rightarrow> i128 \<Rightarrow> ('z, BorrowError, unit) book_fn" where
  "pay_borrower tk self user asset amount receive_amount fee_amount =
     (case asset of
        None \<Rightarrow> ret ()
      | Some a \<Rightarrow>
          balance_of tk a self (\<lambda>contract_balance.
          fail_if (contract_balance < amount) BorrowError.InsufficientCollateral (
          tryM (call_token tk (Transfer a self user receive_amount)) (\<lambda>_.
          if fee_amount > 0 then
            reads (\<lambda>s. get_reserve_balance s asset) (\<lambda>current_reserve.
            ok_or (checked_add current_reserve fee_amount) BorrowError.Overflow (\<lambda>n.
            writes (set_reserve asset n) (ret ())))
          else ret ()))))"

definition borrow_asset :: "host \<Rightarrow> tokens \<Rightarrow> address \<Rightarrow> address \<Rightarrow> address option \<Rightarrow> i128 \<Rightarrow> ('z, BorrowError, i128) book_fn" where
  "borrow_asset h tk self user asset amount =
     fail_if (amount \<le> 0) BorrowError.InvalidAmount (
     with_guard BorrowError.Reentrancy (
     reads (\<lambda>s. legacy_pause s ''pause_borrow'') (\<lambda>paused.
     fail_if paused BorrowPaused (
     tryM (validate_borrow_asset self asset) (\<lambda>_.
     reads (\<lambda>s. position_or_new (now h) s user) (\<lambda>pos0.
     tryM (accrue_interest h BorrowError.Overflow user pos0) (\<lambda>pos.
     tryM (effective_collateral h BorrowError.Overflow user) (\<lambda>(current_collateral, use_raw_factor).
     fail_if (current_collateral = 0) BorrowError.InsufficientCollateral (
     reads (asset_param ap_collateral_factor 10000 asset) (\<lambda>factor.
     reads (asset_param ap_borrow_fee_bps 0 asset) (\<lambda>fee_bps.
     reads min_ratio (\<lambda>ratio.
     tryM (calculate_max_borrowable current_collateral (hp_debt pos) (hp_borrow_interest pos)
             (if use_raw_factor then factor else 10000) ratio) (\<lambda>max_borrowable.
     fail_if (amount > max_borrowable) MaxBorrowExceeded (
     tryM (validate_collateral_ratio_after_borrow h user amount factor) (\<lambda>_.
     ok_or (checked_add (hp_debt pos) amount) BorrowError.Overflow (\<lambda>new_debt.
     ok_or (checked_mul amount fee_bps) BorrowError.Overflow (\<lambda>m.
     ok_or (checked_div m 10000) BorrowError.Overflow (\<lambda>fee_amount.
     ok_or (checked_sub amount fee_amount) BorrowError.Overflow (\<lambda>receive_amount.
     fail_if (receive_amount \<le> 0) BorrowError.InvalidAmount (
     let pos' = pos\<lparr>hp_debt := new_debt, hp_last_accrual_time := now h\<rparr> in
     writes (set_position user pos') (
     tryM (pay_borrower tk self user asset amount receive_amount fee_amount) (\<lambda>_.
     tryM (update_user_analytics_borrow user amount (now h)) (\<lambda>_.
     tryM (update_protocol_analytics_borrow amount) (\<lambda>_.
     tryM (map_err (\<lambda>_. BorrowError.Overflow) (add_activity_log user ''borrow'' amount asset (now h))) (\<lambda>_.
     writes (book_publish (BorrowEvent user asset amount (now h))) (
     writes (emit_closing_events user pos' ''borrow'' amount (now h)) (
     ok_or (checked_add (hp_debt pos') (hp_borrow_interest pos')) BorrowError.Overflow ret)))))))))))))))))))))))))))"

section \<open>Repayment: repay.rs\<close>

definition get_native_asset_address :: "(address \<Rightarrow> ('z, RepayError, 'a) book_fn) \<Rightarrow> ('z, RepayError, 'a) book_fn" where
  "get_native_asset_address k = reads NativeAssetAddress (\<lambda>x. ok_or x RepayError.InvalidAsset k)"

definition fetch_repayment :: "tokens \<Rightarrow> address \<Rightarrow> address \<Rightarrow> address \<Rightarrow> i128 \<Rightarrow> ('z, RepayError, unit) book_fn" where
  "fetch_repayment tk self user a repay_amount =
     balance_of tk a user (\<lambda>user_balance.
     fail_if (user_balance < repay_amount) RepayError.InsufficientBalance (
     call_token tk (TransferFrom a self user self repay_amount)))"

definition update_user_analytics_repay :: "address \<Rightarrow> i128 \<Rightarrow> u64 \<Rightarrow> ('z, RepayError, unit) book_fn" where
  "update_user_analytics_repay user amount t =
     reads (\<lambda>s. user_analytics t s user) (\<lambda>a.
     ok_or (checked_add (ua_total_repayments a) amount) RepayError.Overflow (\<lambda>r.
     let d = unwrap_or (checked_sub (ua_debt_value a) amount) 0;
         ratio = (if d > 0 \<and> ua_collateral_value a > 0
                  then unwrap_or (Option.bind (checked_mul (ua_collateral_value a) 10000) (\<lambda>v. checked_div v d)) 0 else 0) in
     writes (save_user_analytics user t (a\<lparr>ua_total_repayments := r, ua_debt_value := d, ua_collateralization_ratio := ratio\<rparr>))
     (ret ())))"

definition update_protocol_analytics_repay :: "i128 \<Rightarrow> ('z, RepayError, unit) book_fn" where
  "update_protocol_analytics_repay amount =
     reads protocol_analytics (\<lambda>a.
     writes (\<lambda>s. s\<lparr>ProtocolAnalyticsKey := Some (a\<lparr>pa_total_borrows := unwrap_or (checked_sub (pa_total_borrows a) amount) 0\<rparr>)\<rparr>)
     (ret ()))"

definition credit_interest_fee :: "address option \<Rightarrow> i128 \<Rightarrow> i128 \<Rightarrow> ('z, RepayError, unit) book_fn" where
  "credit_interest_fee asset interest_paid reserve_factor =
     (if interest_paid > 0 then
        ok_or (checked_mul interest_paid reserve_factor) RepayError.Overflow (\<lambda>m.
        ok_or (checked_div m 10000) RepayError.Overflow (\<lambda>reserve_amount.
        if reserve_amount > 0 then
          reads (\<lambda>s. get_reserve_balance s asset) (\<lambda>current_reserve.
          ok_or (checked_add current_reserve reserve_amount) RepayError.Overflow (\<lambda>n.
          writes (set_reserve asset n) (ret ())))
        else ret ()))
      else ret ())"

definition repay_amount_of :: "i128 \<Rightarrow> i128 \<Rightarrow> i128" where
  "repay_amount_of amount total_debt = (if amount \<ge> total_debt then total_debt else amount)"

definition interest_part :: "i128 \<Rightarrow> Position \<Rightarrow> i128" where
  "interest_part n p = (if n \<le> hp_borrow_interest p then n else hp_borrow_interest p)"

text \<open>Interest and principal are subtracted twice, and the tokens of a token repayment are fetched twice.\<close>

definition repaid_position :: "Position \<Rightarrow> i128 \<Rightarrow> i128 \<Rightarrow> u64 \<Rightarrow> Position" where
  "repaid_position p interest_paid principal_paid t =
     (let i1 = unwrap_or (checked_sub (hp_borrow_interest p) interest_paid) 0;
          d1 = unwrap_or (checked_sub (hp_debt p) principal_paid) 0;
          i2 = unwrap_or (checked_sub i1 interest_paid) 0;
          d2 = unwrap_or (checked_sub d1 principal_paid) 0 in
      p\<lparr>hp_borrow_interest := i2, hp_debt := d2, hp_last_accrual_time := t\<rparr>)"

text \<open>Analytics, the log and the event (both twice), and the credit score, whose errors are ignored.\<close>

definition log_repayment :: "host \<Rightarrow> address \<Rightarrow> address option \<Rightarrow> Position \<Rightarrow> i128 \<Rightarrow> i128 \<Rightarrow> i128 \<Rightarrow> ('z, RepayError, unit) book_fn" where
  "log_repayment h user asset p repay_amount total_debt principal_paid =
     tryM (update_user_analytics_repay user repay_amount (now h)) (\<lambda>_.
     tryM (update_protocol_analytics_repay repay_amount) (\<lambda>_.
     tryM (map_err (\<lambda>_. RepayError.Overflow) (add_activity_log user ''repay'' repay_amount asset (now h))) (\<lambda>_.
     writes (book_publish (RepayEvent user asset repay_amount (now h))) (
     tryM (map_err (\<lambda>_. RepayError.Overflow) (add_activity_log user ''repay'' repay_amount asset (now h))) (\<lambda>_.
     writes (book_publish (RepayEvent user asset repay_amount (now h))) (
     tryM (or_default (update_score_on_repayment h user repay_amount (principal_paid > 0 \<or> repay_amount = total_debt)) ()) (\<lambda>_.
     tryM (or_default (record_borrow h user 0) ()) (\<lambda>_.
     writes (emit_closing_events user p ''repay'' repay_amount (now h))
     (ret ())))))))))"

definition repay_debt :: "host \<Rightarrow> tokens \<Rightarrow> address \<Rightarrow> address \<Rightarrow> address option \<Rightarrow> i128 \<Rightarrow> ('z, RepayError, i128 \<times> i128 \<times> i128) book_fn" where
  "repay_debt h tk self user asset amount =
     fail_if (amount \<le> 0) RepayError.InvalidAmount (
     with_guard RepayError.Reentrancy (
     reads (\<lambda>s. legacy_pause s ''pause_repay'') (\<lambda>paused.
     fail_if paused RepayPaused (
     fail_if (asset = Some self) RepayError.InvalidAsset (
     (case asset of Some a \<Rightarrow> (\<lambda>k. k a) | None \<Rightarrow> get_native_asset_address) (\<lambda>asset_addr.
     reads get_fee_config (\<lambda>fees.
     reads (\<lambda>s. PositionKey s user) (\<lambda>x. ok_or x RepayError.NoDebt (\<lambda>pos0.
     fail_if (hp_debt pos0 = 0 \<and> hp_borrow_interest pos0 = 0) RepayError.NoDebt (
     tryM (accrue_interest h RepayError.Overflow user pos0) (\<lambda>pos.
     ok_or (checked_add (hp_debt pos) (hp_borrow_interest pos)) RepayError.Overflow (\<lambda>total_debt.
     let repay_amount = repay_amount_of amount total_debt in
     tryM (case asset of Some a \<Rightarrow> fetch_repayment tk self user a repay_amount | None \<Rightarrow> ret ()) (\<lambda>_.
     let interest_paid = interest_part repay_amount pos in
     ok_or (checked_sub repay_amount interest_paid) RepayError.Overflow (\<lambda>principal_paid.
     tryM (fetch_repayment tk self user asset_addr repay_amount) (\<lambda>_.
     let pos' = repaid_position pos interest_paid principal_paid (now h) in
     writes (set_position user pos') (
     tryM (credit_interest_fee asset interest_paid (interest_fee_bps fees)) (\<lambda>_.
     tryM (log_repayment h user asset pos' repay_amount total_debt principal_paid) (\<lambda>_.
     ret (unwrap_or (checked_add (hp_debt pos') (hp_borrow_interest pos')) 0, interest_paid, principal_paid)))))))))))))))))))"

section \<open>Withdrawal: withdraw.rs\<close>

definition calculate_collateral_ratio :: "i128 \<Rightarrow> i128 \<Rightarrow> i128 \<Rightarrow> i128 \<Rightarrow> i128 option" where
  "calculate_collateral_ratio collateral debt interest factor =
     Option.bind (checked_add debt interest) (\<lambda>total_debt.
     if total_debt = 0 then None else
     Option.bind (checked_mul collateral factor) (\<lambda>m.
     Option.bind (checked_div m 10000) (\<lambda>collateral_value.
     Option.bind (checked_mul collateral_value 10000) (\<lambda>m2. checked_div m2 total_debt))))"

definition validate_collateral_ratio_after_withdraw :: "address \<Rightarrow> i128 \<Rightarrow> address option \<Rightarrow> ('z, WithdrawError, unit) book_fn" where
  "validate_collateral_ratio_after_withdraw user withdraw_amount asset =
     reads (\<lambda>s. PositionKey s user) (\<lambda>x. ok_or x WithdrawError.InsufficientCollateral (\<lambda>p.
     if hp_debt p = 0 \<and> hp_borrow_interest p = 0 then ret () else
     reads (\<lambda>s. collateral_of s user) (\<lambda>current_collateral.
     ok_or (checked_sub current_collateral withdraw_amount) WithdrawError.InsufficientCollateral (\<lambda>new_collateral.
     reads (asset_param ap_collateral_factor 10000 asset) (\<lambda>factor.
     ok_or (checked_add (hp_debt p) (hp_borrow_interest p)) WithdrawError.Overflow (\<lambda>_.
     case calculate_collateral_ratio new_collateral (hp_debt p) (hp_borrow_interest p) factor of
       None \<Rightarrow> ret ()
     | Some new_ratio \<Rightarrow>
         reads min_ratio (\<lambda>least.
         fail_if (new_ratio < least) WithdrawError.InsufficientCollateralRatio (ret ()))))))))"

definition update_user_analytics_withdraw :: "address \<Rightarrow> i128 \<Rightarrow> u64 \<Rightarrow> ('z, WithdrawError, unit) book_fn" where
  "update_user_analytics_withdraw user amount t =
     reads (\<lambda>s. user_analytics t s user) (\<lambda>a.
     ok_or (checked_add (ua_total_withdrawals a) amount) WithdrawError.Overflow (\<lambda>w.
     let v = unwrap_or (checked_sub (ua_collateral_value a) amount) 0;
         ratio = (if ua_debt_value a > 0
                  then unwrap_or (Option.bind (checked_mul v 10000) (\<lambda>x. checked_div x (ua_debt_value a))) 0 else 0) in
     writes (save_user_analytics user t (a\<lparr>ua_total_withdrawals := w, ua_collateral_value := v, ua_collateralization_ratio := ratio\<rparr>))
     (ret ())))"

definition lower_locked_value :: "i128 \<Rightarrow> 'z hw_book_scheme \<Rightarrow> 'z hw_book_scheme" where
  "lower_locked_value amount s =
     (let a = protocol_analytics s in
      s\<lparr>ProtocolAnalyticsKey := Some (a\<lparr>pa_total_value_locked := unwrap_or (checked_sub (pa_total_value_locked a) amount) 0\<rparr>)\<rparr>)"

definition withdraw_collateral :: "host \<Rightarrow> tokens \<Rightarrow> address \<Rightarrow> address \<Rightarrow> address option \<Rightarrow> i128 \<Rightarrow> ('z, WithdrawError, i128) book_fn" where
  "withdraw_collateral h tk self user asset amount =
     fail_if (amount \<le> 0) WithdrawError.InvalidAmount (
     with_guard WithdrawError.Reentrancy (
     reads (\<lambda>s. legacy_pause s ''pause_withdraw'') (\<lambda>paused.
     fail_if paused WithdrawPaused (
     fail_if (asset = Some self) WithdrawError.InvalidAsset (
     reads (\<lambda>s. collateral_of s user) (\<lambda>current_collateral.
     fail_if (current_collateral < amount) WithdrawError.InsufficientCollateral (
     tryM (validate_collateral_ratio_after_withdraw user amount asset) (\<lambda>_.
     ok_or (checked_sub current_collateral amount) WithdrawError.Overflow (\<lambda>new_collateral.
     writes (set_collateral user new_collateral) (
     tryM (case asset of Some a \<Rightarrow> map_err (\<lambda>_. WithdrawError.Overflow) (record_asset_withdrawal user a amount) | None \<Rightarrow> ret ()) (\<lambda>_.
     reads (\<lambda>s. position_or_new (now h) s user) (\<lambda>pos.
     let pos' = pos\<lparr>hp_collateral := new_collateral, hp_last_accrual_time := now h\<rparr> in
     writes (set_position user pos') (
     tryM (case asset of Some a \<Rightarrow> call_token tk (Transfer a self user amount) | None \<Rightarrow> ret ()) (\<lambda>_.
     tryM (update_user_analytics_withdraw user amount (now h)) (\<lambda>_.
     writes (lower_locked_value amount) (
     tryM (map_err (\<lambda>_. WithdrawError.Overflow) (add_activity_log user ''withdraw'' amount asset (now h))) (\<lambda>_.
     writes (book_publish (WithdrawalEvent user asset amount (now h))) (
     writes (emit_closing_events user pos' ''withdraw'' amount (now h))
     (ret new_collateral)))))))))))))))))))"

section \<open>Liquidation: liquidate.rs\<close>

definition MAX_PENALTY_BPS :: i128 where "MAX_PENALTY_BPS = 2000"

definition calculate_dynamic_penalty :: "i128 \<Rightarrow> i128 \<Rightarrow> ('z, LiquidationError, i128) book_fn" where
  "calculate_dynamic_penalty collateral_value total_debt =
     reads RiskParamsConfig (\<lambda>x. ok_or x LiquidationError.Overflow (\<lambda>params.
     if total_debt = 0 then ret (rp_liquidation_incentive params) else
     ok_or (checked_mul collateral_value 10000) LiquidationError.Overflow (\<lambda>m.
     ok_or (checked_div m total_debt) LiquidationError.Overflow (\<lambda>health.
     if health \<ge> rp_liquidation_threshold params then ret (rp_liquidation_incentive params) else
     unwrap (checked_sub (rp_liquidation_threshold params) health) (\<lambda>severity.
     unwrap (checked_sub MAX_PENALTY_BPS (rp_liquidation_incentive params)) (\<lambda>penalty_range.
     ok_or (checked_mul severity penalty_range) LiquidationError.Overflow (\<lambda>m2.
     ok_or (checked_div m2 (rp_liquidation_threshold params)) LiquidationError.Overflow (\<lambda>extra.
     ok_or (checked_add (rp_liquidation_incentive params) extra) LiquidationError.Overflow (\<lambda>penalty.
     ret (min penalty MAX_PENALTY_BPS))))))))))"

definition get_asset_price :: "host \<Rightarrow> address \<Rightarrow> ('z, 'e, i128) book_fn" where
  "get_asset_price h asset = or_default (get_price h asset) 100000000"

definition price_or_one :: "host \<Rightarrow> address option \<Rightarrow> ('z, 'e, i128) book_fn" where
  "price_or_one h asset = (case asset of Some a \<Rightarrow> get_asset_price h a | None \<Rightarrow> ret 1)"

definition hw_calculate_collateral_value :: "i128 \<Rightarrow> i128 \<Rightarrow> i128 \<Rightarrow> ('s, LiquidationError, i128) contract_fn" where
  "hw_calculate_collateral_value collateral_amount collateral_price debt_price =
     fail_if (debt_price = 0) PriceNotAvailable (
     ok_or (checked_mul collateral_amount collateral_price) LiquidationError.Overflow (\<lambda>m.
     ok_or (checked_div m debt_price) LiquidationError.Overflow ret))"

definition calculate_debt_value :: "i128 \<Rightarrow> i128 \<Rightarrow> (i128 \<Rightarrow> ('s, LiquidationError, 'a) contract_fn) \<Rightarrow> ('s, LiquidationError, 'a) contract_fn" where
  "calculate_debt_value debt interest k = ok_or (checked_add debt interest) LiquidationError.Overflow k"

text \<open>The collateral balance a liquidation of that asset draws on, the value that decides whether it is allowed, and the
  debt in units of the collateral.\<close>

definition target_balance :: "'z hw_book_scheme \<Rightarrow> address \<Rightarrow> address option \<Rightarrow> i128" where
  "target_balance s borrower collateral_asset =
     (case collateral_asset of
        Some a \<Rightarrow> if has_multi_asset_collateral s borrower then get_user_asset_collateral s borrower a else collateral_of s borrower
      | None \<Rightarrow> collateral_of s borrower)"

definition value_for_check :: "host \<Rightarrow> address \<Rightarrow> address option \<Rightarrow> address option \<Rightarrow> i128 \<Rightarrow> ('z, LiquidationError, i128) book_fn" where
  "value_for_check h borrower owed_asset collateral_asset collateral_balance =
     reads (\<lambda>s. has_multi_asset_collateral s borrower) (\<lambda>multi.
     if multi then map_err (\<lambda>_. LiquidationError.Overflow) (calculate_total_collateral_value h borrower)
     else if owed_asset = None \<and> collateral_asset = None then ret collateral_balance
     else
       tryM (price_or_one h owed_asset) (\<lambda>debt_price.
       tryM (price_or_one h collateral_asset) (\<lambda>collateral_price.
       hw_calculate_collateral_value collateral_balance collateral_price debt_price)))"

definition debt_in_collateral :: "host \<Rightarrow> address option \<Rightarrow> address option \<Rightarrow> i128 \<Rightarrow> ('z, LiquidationError, i128) book_fn" where
  "debt_in_collateral h owed_asset collateral_asset debt =
     (if owed_asset = None \<and> collateral_asset = None then ret debt
      else
        tryM (price_or_one h owed_asset) (\<lambda>debt_price.
        tryM (price_or_one h collateral_asset) (\<lambda>collateral_price.
        ok_or (checked_mul debt debt_price) LiquidationError.Overflow (\<lambda>m.
        ok_or (checked_div m collateral_price) LiquidationError.Overflow ret))))"

definition check_liquidation_pause :: "host \<Rightarrow> address \<Rightarrow> ('z, LiquidationError, unit) book_fn" where
  "check_liquidation_pause h liquidator =
     tryM (or_default (is_liquidation_allowed h liquidator) True) (\<lambda>allowed.
     fail_if (\<not> allowed) LiquidationPaused (
     reads is_emergency_paused (\<lambda>e.
     fail_if e LiquidationPaused (
     map_err (\<lambda>_. LiquidationPaused) (require_operation_not_paused ''pause_liquidate'')))))"

definition fetch_liquidation :: "tokens \<Rightarrow> address \<Rightarrow> address \<Rightarrow> address option \<Rightarrow> i128 \<Rightarrow> ('z, LiquidationError, unit) book_fn" where
  "fetch_liquidation tk self liquidator owed_asset debt =
     (case owed_asset of
        None \<Rightarrow> ret ()
      | Some a \<Rightarrow>
          balance_of tk a liquidator (\<lambda>b.
          fail_if (b < debt) LiquidationError.InsufficientBalance (
          call_token tk (TransferFrom a self liquidator self debt))))"

definition pay_liquidator :: "tokens \<Rightarrow> address \<Rightarrow> address \<Rightarrow> address option \<Rightarrow> i128 \<Rightarrow> i128 \<Rightarrow> ('z, LiquidationError, unit) book_fn" where
  "pay_liquidator tk self liquidator collateral_asset seized amount =
     (case collateral_asset of
        None \<Rightarrow> ret ()
      | Some a \<Rightarrow>
          balance_of tk a self (\<lambda>b.
          fail_if (b < seized) LiquidationError.InsufficientBalance (
          call_token tk (Transfer a self liquidator amount))))"

definition credit_liquidation_fee :: "host \<Rightarrow> address option \<Rightarrow> i128 \<Rightarrow> ('z, LiquidationError, unit) book_fn" where
  "credit_liquidation_fee h collateral_asset fee =
     (if fee > 0 then
        reads (\<lambda>s. get_reserve_balance s collateral_asset) (\<lambda>current_reserve.
        ok_or (checked_add current_reserve fee) LiquidationError.Overflow (\<lambda>n.
        writes (set_reserve collateral_asset n) (
        writes (book_publish (LiquidationFeeCollectedEvent collateral_asset fee (now h)))
        (ret ()))))
      else ret ())"

definition update_liquidation_analytics :: "address \<Rightarrow> i128 \<Rightarrow> i128 \<Rightarrow> u64 \<Rightarrow> ('z, LiquidationError, unit) book_fn" where
  "update_liquidation_analytics borrower debt_liquidated seized t =
     reads (\<lambda>s. user_analytics t s borrower) (\<lambda>a.
     let d = unwrap_or (checked_sub (ua_debt_value a) debt_liquidated) 0;
         v = unwrap_or (checked_sub (ua_collateral_value a) seized) 0;
         ratio = (if d > 0 \<and> v > 0 then unwrap_or (Option.bind (checked_mul v 10000) (\<lambda>x. checked_div x d)) 0 else 0) in
     writes (save_user_analytics borrower t (a\<lparr>ua_debt_value := d, ua_collateral_value := v, ua_collateralization_ratio := ratio\<rparr>)) (
     writes (lower_locked_value seized)
     (ret ())))"

text \<open>The borrower's records after the liquidation: interest first, then principal.\<close>

definition liquidated_position :: "Position \<Rightarrow> i128 \<Rightarrow> i128 \<Rightarrow> i128 \<Rightarrow> u64 \<Rightarrow> Position" where
  "liquidated_position p interest_to_pay principal_to_pay new_collateral t =
     p\<lparr>hp_borrow_interest := unwrap_or (checked_sub (hp_borrow_interest p) interest_to_pay) 0,
       hp_debt := unwrap_or (checked_sub (hp_debt p) principal_to_pay) 0,
       hp_last_accrual_time := t, hp_collateral := new_collateral\<rparr>"

definition liquidate_borrower :: "host \<Rightarrow> address \<Rightarrow> Position \<Rightarrow> address option \<Rightarrow> i128 \<Rightarrow> i128 \<Rightarrow> ('z, LiquidationError, Position) book_fn" where
  "liquidate_borrower h borrower pos collateral_asset debt seized =
     (let interest_to_pay = interest_part debt pos in
      ok_or (checked_sub debt interest_to_pay) LiquidationError.Overflow (\<lambda>principal_to_pay.
      reads (\<lambda>s. unwrap_or (checked_sub (collateral_of s borrower) seized) 0) (\<lambda>new_collateral.
      writes (set_collateral borrower new_collateral) (
      tryM (case collateral_asset of
              None \<Rightarrow> ret ()
            | Some a \<Rightarrow>
                reads (\<lambda>s. has_multi_asset_collateral s borrower) (\<lambda>multi.
                if multi then map_err (\<lambda>_. LiquidationError.Overflow) (record_asset_withdrawal borrower a seized) else ret ())) (\<lambda>_.
      let pos' = liquidated_position pos interest_to_pay principal_to_pay new_collateral (now h) in
      writes (set_position borrower pos')
      (ret pos'))))))"

text \<open>Analytics, log, events and the credit score, whose error is ignored.\<close>

definition log_liquidation :: "host \<Rightarrow> address \<Rightarrow> address \<Rightarrow> address option \<Rightarrow> address option \<Rightarrow> Position \<Rightarrow> i128 \<Rightarrow> i128 \<Rightarrow> i128 \<Rightarrow>
    ('z, LiquidationError, unit) book_fn" where
  "log_liquidation h liquidator borrower owed_asset collateral_asset p debt seized incentive_amount =
     tryM (update_liquidation_analytics borrower debt seized (now h)) (\<lambda>_.
     tryM (map_err (\<lambda>_. LiquidationError.Overflow) (add_activity_log borrower ''liquidate'' debt owed_asset (now h))) (\<lambda>_.
     writes (book_publish (LiquidationEvent liquidator borrower owed_asset collateral_asset debt seized incentive_amount (now h))) (
     tryM (or_default (update_score_on_liquidation h borrower) ()) (\<lambda>_.
     writes (emit_closing_events borrower p ''liquidate'' debt (now h))
     (ret ())))))"

definition at_most :: "i128 \<Rightarrow> i128 \<Rightarrow> i128" where
  "at_most n bound = (if n > bound then bound else n)"

definition liquidate :: "host \<Rightarrow> tokens \<Rightarrow> address \<Rightarrow> address \<Rightarrow> address \<Rightarrow> address option \<Rightarrow> address option \<Rightarrow> i128 \<Rightarrow>
    ('z, LiquidationError, i128 \<times> i128 \<times> i128) book_fn" where
  "liquidate h tk self liquidator borrower owed_asset collateral_asset debt_amount =
     fail_if (debt_amount \<le> 0) LiquidationError.InvalidAmount (
     with_guard LiquidationError.Reentrancy (
     tryM (check_liquidation_pause h liquidator) (\<lambda>_.
     fail_if (owed_asset = Some self) InvalidDebtAsset (
     fail_if (collateral_asset = Some self) InvalidCollateralAsset (
     reads (\<lambda>s. PositionKey s borrower) (\<lambda>x. ok_or x NotLiquidatable (\<lambda>pos0.
     tryM (accrue_interest h LiquidationError.Overflow borrower pos0) (\<lambda>pos.
     reads (\<lambda>s. target_balance s borrower collateral_asset) (\<lambda>collateral_balance.
     calculate_debt_value (hp_debt pos) (hp_borrow_interest pos) (\<lambda>total_debt.
     tryM (value_for_check h borrower owed_asset collateral_asset collateral_balance) (\<lambda>checked_value.
     tryM (map_err (\<lambda>_. NotLiquidatable) (can_be_liquidated checked_value total_debt)) (\<lambda>can_liquidate.
     fail_if (\<not> can_liquidate) NotLiquidatable (
     tryM (map_err (\<lambda>_. LiquidationError.Overflow) (hw_get_max_liquidatable_amount total_debt)) (\<lambda>max_liquidatable.
     fail_if (debt_amount > max_liquidatable) ExceedsCloseFactor (
     let debt = at_most debt_amount total_debt in
     tryM (calculate_dynamic_penalty checked_value total_debt) (\<lambda>incentive_bps.
     ok_or (checked_mul debt incentive_bps) LiquidationError.Overflow (\<lambda>m1.
     ok_or (checked_div m1 10000) LiquidationError.Overflow (\<lambda>incentive_amount.
     tryM (debt_in_collateral h owed_asset collateral_asset debt) (\<lambda>converted.
     unwrap (checked_add 10000 incentive_bps) (\<lambda>with_bonus.
     ok_or (checked_mul converted with_bonus) LiquidationError.Overflow (\<lambda>m2.
     ok_or (checked_div m2 10000) LiquidationError.Overflow (\<lambda>wanted.
     let seized = at_most wanted collateral_balance in
     reads get_fee_config (\<lambda>fees.
     ok_or (checked_mul incentive_amount (liquidation_fee_bps fees)) LiquidationError.Overflow (\<lambda>m3.
     ok_or (checked_div m3 10000) LiquidationError.Overflow (\<lambda>fee.
     ok_or (checked_sub seized fee) LiquidationError.Overflow (\<lambda>liquidator_collateral.
     tryM (fetch_liquidation tk self liquidator owed_asset debt) (\<lambda>_.
     tryM (pay_liquidator tk self liquidator collateral_asset seized liquidator_collateral) (\<lambda>_.
     tryM (credit_liquidation_fee h collateral_asset fee) (\<lambda>_.
     tryM (liquidate_borrower h borrower pos collateral_asset debt seized) (\<lambda>pos'.
     tryM (log_liquidation h liquidator borrower owed_asset collateral_asset pos' debt seized incentive_amount) (\<lambda>_.
     ret (debt, seized, incentive_amount))))))))))))))))))))))))))))))))"

end
