(* ===== verification/HW_Entries.thy ===== *)
theory HW_Entries
  imports HW_Loans
begin

text \<open>
  The entry points of the lending operations (\<open>lib.rs\<close>) with the error codes they return (\<open>errors.rs\<close>). None of
  \<open>deposit_collateral\<close>, \<open>borrow_asset\<close>, \<open>repay_debt\<close> and \<open>withdraw_collateral\<close> asks the user for a signature.
\<close>

section \<open>Error codes: errors.rs\<close>

fun of_DepositError :: "DepositError \<Rightarrow> LendingError" where
  "of_DepositError DepositError.InvalidAmount = LendingError.InvalidAmount"
| "of_DepositError DepositError.InvalidAsset = LendingError.InvalidAsset"
| "of_DepositError DepositError.InsufficientBalance = LendingError.InsufficientBalance"
| "of_DepositError DepositPaused = LendingError.ProtocolPaused"
| "of_DepositError DepositError.AssetNotEnabled = LendingError.AssetNotEnabled"
| "of_DepositError DepositError.Overflow = LendingError.Overflow"
| "of_DepositError DepositError.Reentrancy = LendingError.Reentrancy"
| "of_DepositError DepositError.Unauthorized = LendingError.Unauthorized"

fun of_BorrowError :: "BorrowError \<Rightarrow> LendingError" where
  "of_BorrowError BorrowError.InvalidAmount = LendingError.InvalidAmount"
| "of_BorrowError BorrowError.InvalidAsset = LendingError.InvalidAsset"
| "of_BorrowError BorrowError.InsufficientCollateral = LendingError.InsufficientCollateral"
| "of_BorrowError BorrowPaused = LendingError.ProtocolPaused"
| "of_BorrowError BorrowError.InsufficientCollateralRatio = LendingError.InsufficientCollateralRatio"
| "of_BorrowError BorrowError.Overflow = LendingError.Overflow"
| "of_BorrowError BorrowError.Reentrancy = LendingError.Reentrancy"
| "of_BorrowError MaxBorrowExceeded = LendingError.LimitExceeded"
| "of_BorrowError BorrowError.AssetNotEnabled = LendingError.AssetNotEnabled"

fun of_RepayError :: "RepayError \<Rightarrow> LendingError" where
  "of_RepayError RepayError.InvalidAmount = LendingError.InvalidAmount"
| "of_RepayError RepayError.InvalidAsset = LendingError.InvalidAsset"
| "of_RepayError RepayError.InsufficientBalance = LendingError.InsufficientBalance"
| "of_RepayError RepayPaused = LendingError.ProtocolPaused"
| "of_RepayError RepayError.NoDebt = LendingError.NoDebt"
| "of_RepayError RepayError.Overflow = LendingError.Overflow"
| "of_RepayError RepayError.Reentrancy = LendingError.Reentrancy"

fun of_WithdrawError :: "WithdrawError \<Rightarrow> LendingError" where
  "of_WithdrawError WithdrawError.InvalidAmount = LendingError.InvalidAmount"
| "of_WithdrawError WithdrawError.InvalidAsset = LendingError.InvalidAsset"
| "of_WithdrawError WithdrawError.InsufficientCollateral = LendingError.InsufficientCollateral"
| "of_WithdrawError WithdrawPaused = LendingError.ProtocolPaused"
| "of_WithdrawError WithdrawError.InsufficientCollateralRatio = LendingError.InsufficientCollateralRatio"
| "of_WithdrawError WithdrawError.Overflow = LendingError.Overflow"
| "of_WithdrawError WithdrawError.Reentrancy = LendingError.Reentrancy"
| "of_WithdrawError Undercollateralized = LendingError.InvalidState"

fun of_LiquidationError :: "LiquidationError \<Rightarrow> LendingError" where
  "of_LiquidationError LiquidationError.InvalidAmount = LendingError.InvalidAmount"
| "of_LiquidationError LiquidationError.InvalidAsset = LendingError.InvalidAsset"
| "of_LiquidationError NotLiquidatable = LendingError.InvalidState"
| "of_LiquidationError LiquidationPaused = LendingError.ProtocolPaused"
| "of_LiquidationError ExceedsCloseFactor = LendingError.LimitExceeded"
| "of_LiquidationError LiquidationError.InsufficientBalance = LendingError.InsufficientBalance"
| "of_LiquidationError LiquidationError.Overflow = LendingError.Overflow"
| "of_LiquidationError InvalidCollateralAsset = LendingError.InvalidAsset"
| "of_LiquidationError InvalidDebtAsset = LendingError.InvalidAsset"
| "of_LiquidationError PriceNotAvailable = LendingError.PriceUnavailable"
| "of_LiquidationError InsufficientLiquidation = LendingError.InvalidState"
| "of_LiquidationError LiquidationError.Reentrancy = LendingError.Reentrancy"

fun of_TreasuryError :: "TreasuryError \<Rightarrow> LendingError" where
  "of_TreasuryError TreasuryError.Unauthorized = LendingError.Unauthorized"
| "of_TreasuryError TreasuryError.InvalidAmount = LendingError.InvalidAmount"
| "of_TreasuryError InsufficientReserve = LendingError.InsufficientReserve"
| "of_TreasuryError TreasuryError.Overflow = LendingError.Overflow"
| "of_TreasuryError TreasuryError.TreasuryNotSet = LendingError.TreasuryNotSet"
| "of_TreasuryError InvalidFee = LendingError.InvalidFee"

section \<open>Entry points: lib.rs\<close>

definition entry_deposit_collateral :: "host \<Rightarrow> tokens \<Rightarrow> address \<Rightarrow> address \<Rightarrow> address option \<Rightarrow> i128 \<Rightarrow> ('z, LendingError, i128) book_fn" where
  "entry_deposit_collateral h tk self user asset amount = map_err of_DepositError (deposit_collateral h tk self user asset amount)"

definition pool_of :: "address \<Rightarrow> address option \<Rightarrow> address" where
  "pool_of self asset = unwrap_or asset self"

definition entry_borrow_asset :: "host \<Rightarrow> tokens \<Rightarrow> address \<Rightarrow> address \<Rightarrow> address option \<Rightarrow> i128 \<Rightarrow> ('z, LendingError, i128) book_fn" where
  "entry_borrow_asset h tk self user asset amount =
     tryM (map_err (\<lambda>_. LendingError.LimitExceeded) (consume h user user ''borrow'' (pool_of self asset))) (\<lambda>_.
     map_err of_BorrowError (borrow_asset h tk self user asset amount))"

definition borrow_asset_intent :: "host \<Rightarrow> tokens \<Rightarrow> (address \<Rightarrow> val list \<Rightarrow> bool) \<Rightarrow> address \<Rightarrow> address \<Rightarrow> address \<Rightarrow> address option \<Rightarrow>
    i128 \<Rightarrow> u64 \<Rightarrow> u64 \<Rightarrow> ('z, LendingError, i128) book_fn" where
  "borrow_asset_intent h tk authorised self relayer user asset amount nonce expires_at =
     tryM (require_auth h relayer) (\<lambda>_.
     tryM (map_err (\<lambda>_. LendingError.Unauthorized)
             (require_intent_auth h authorised self user ''borrow'' nonce expires_at [V_address user, V_asset asset, V_i128 amount])) (\<lambda>_.
     tryM (map_err (\<lambda>_. LendingError.LimitExceeded) (consume h relayer user ''borrow'' (pool_of self asset))) (\<lambda>_.
     map_err of_BorrowError (borrow_asset h tk self user asset amount))))"

definition entry_repay_debt :: "host \<Rightarrow> tokens \<Rightarrow> address \<Rightarrow> address \<Rightarrow> address option \<Rightarrow> i128 \<Rightarrow>
    ('z, LendingError, i128 \<times> i128 \<times> i128) book_fn" where
  "entry_repay_debt h tk self user asset amount = map_err of_RepayError (repay_debt h tk self user asset amount)"

definition entry_withdraw_collateral :: "host \<Rightarrow> tokens \<Rightarrow> address \<Rightarrow> address \<Rightarrow> address option \<Rightarrow> i128 \<Rightarrow> ('z, LendingError, i128) book_fn" where
  "entry_withdraw_collateral h tk self user asset amount = map_err of_WithdrawError (withdraw_collateral h tk self user asset amount)"

definition entry_hw_liquidate :: "host \<Rightarrow> tokens \<Rightarrow> address \<Rightarrow> address \<Rightarrow> address \<Rightarrow> address option \<Rightarrow> address option \<Rightarrow> i128 \<Rightarrow>
    ('z, LendingError, i128 \<times> i128 \<times> i128) book_fn" where
  "entry_hw_liquidate h tk self liquidator borrower owed_asset collateral_asset debt_amount =
     tryM (require_auth h liquidator) (\<lambda>_.
     tryM (map_err (\<lambda>_. LendingError.LimitExceeded) (consume h liquidator liquidator ''liquidate'' (pool_of self owed_asset))) (\<lambda>_.
     map_err of_LiquidationError (liquidate h tk self liquidator borrower owed_asset collateral_asset debt_amount)))"

definition liquidate_intent :: "host \<Rightarrow> tokens \<Rightarrow> (address \<Rightarrow> val list \<Rightarrow> bool) \<Rightarrow> address \<Rightarrow> address \<Rightarrow> address \<Rightarrow> address \<Rightarrow>
    address option \<Rightarrow> address option \<Rightarrow> i128 \<Rightarrow> u64 \<Rightarrow> u64 \<Rightarrow> ('z, LendingError, i128 \<times> i128 \<times> i128) book_fn" where
  "liquidate_intent h tk authorised self relayer liquidator borrower owed_asset collateral_asset debt_amount nonce expires_at =
     tryM (require_auth h relayer) (\<lambda>_.
     tryM (map_err (\<lambda>_. LendingError.Unauthorized)
             (require_intent_auth h authorised self liquidator ''liquidate'' nonce expires_at
                [V_address liquidator, V_address borrower, V_asset owed_asset, V_asset collateral_asset, V_i128 debt_amount])) (\<lambda>_.
     tryM (map_err (\<lambda>_. LendingError.LimitExceeded) (consume h relayer liquidator ''liquidate'' (pool_of self owed_asset))) (\<lambda>_.
     map_err of_LiquidationError (liquidate h tk self liquidator borrower owed_asset collateral_asset debt_amount))))"

definition entry_set_treasury :: "host \<Rightarrow> address \<Rightarrow> address \<Rightarrow> ('z, LendingError, unit) book_fn" where
  "entry_set_treasury h caller treasury = map_err of_TreasuryError (set_treasury h caller treasury)"

definition entry_claim_reserves :: "host \<Rightarrow> tokens \<Rightarrow> address \<Rightarrow> address \<Rightarrow> address option \<Rightarrow> address \<Rightarrow> i128 \<Rightarrow> ('z, LendingError, unit) book_fn" where
  "entry_claim_reserves h tk self caller asset recipient amount =
     map_err of_TreasuryError (claim_reserves h tk self caller asset recipient amount)"

definition entry_set_fee_config :: "host \<Rightarrow> address \<Rightarrow> i128 \<Rightarrow> i128 \<Rightarrow> ('z, LendingError, unit) book_fn" where
  "entry_set_fee_config h caller interest_fee liquidation_fee =
     map_err of_TreasuryError (set_fee_config h caller \<lparr>interest_fee_bps = interest_fee, liquidation_fee_bps = liquidation_fee\<rparr>)"

definition get_user_total_collateral_value :: "host \<Rightarrow> address \<Rightarrow> ('z, LendingError, i128) book_fn" where
  "get_user_total_collateral_value h user = or_default (calculate_total_collateral_value h user) 0"

definition update_asset_config :: "host \<Rightarrow> address \<Rightarrow> AssetParams \<Rightarrow> ('z, LendingError, unit) book_fn" where
  "update_asset_config h asset p =
     reads AdminKey (\<lambda>x. ok_or x LendingError.Unauthorized (\<lambda>admin.
     tryM (require_auth h admin) (\<lambda>_.
     map_err of_DepositError (set_asset_params admin asset p))))"

fun of_limit_config_error :: "RateLimitError \<Rightarrow> LendingError" where
  "of_limit_config_error RateLimitError.Unauthorized = LendingError.Unauthorized"
| "of_limit_config_error InvalidConfig = LendingError.InvalidParameter"
| "of_limit_config_error _ = LendingError.InvalidParameter"

definition configure_rate_limit_operation :: "address \<Rightarrow> symbol \<Rightarrow> RateLimitConfig \<Rightarrow> ('z, LendingError, unit) book_fn" where
  "configure_rate_limit_operation caller op c = map_err of_limit_config_error (configure_operation_limit caller op c)"

definition configure_rate_limit_pool :: "address \<Rightarrow> symbol \<Rightarrow> address \<Rightarrow> RateLimitConfig \<Rightarrow> ('z, LendingError, unit) book_fn" where
  "configure_rate_limit_pool caller op pool c = map_err of_limit_config_error (configure_pool_limit caller op pool c)"

definition set_user_rate_limit_grace :: "address \<Rightarrow> address \<Rightarrow> symbol \<Rightarrow> bool \<Rightarrow> ('z, LendingError, unit) book_fn" where
  "set_user_rate_limit_grace caller user op enabled = map_err of_limit_config_error (set_user_grace caller user op enabled)"

end
