(* ===== verification/HW_Analytics.thy ===== *)
theory HW_Analytics
  imports HW_Entries
begin

text \<open>
  The analytics queries of the protocol contract (\<open>analytics.rs\<close>) with their entry points (\<open>lib.rs\<close>): protocol metrics,
  health factors and risk levels of users, and the activity feed. They read what the lending operations recorded; the
  activity log is the one of \<open>deposit.rs\<close>, under the same storage key.
\<close>

section \<open>Data\<close>

datatype AnalyticsError = NotInitialized | InvalidParameter | Overflow | DataNotFound

record ProtocolMetrics =
  pm_total_value_locked :: i128
  pm_total_deposits :: i128
  pm_total_borrows :: i128
  pm_utilization_rate :: i128
  pm_average_borrow_rate :: i128
  pm_total_users :: u64
  pm_total_transactions :: u64
  pm_last_update :: u64

record UserMetrics =
  um_collateral :: i128
  um_debt :: i128
  um_health_factor :: i128
  um_total_deposits :: i128
  um_total_borrows :: i128
  um_total_withdrawals :: i128
  um_total_repayments :: i128
  um_activity_score :: i128
  um_risk_level :: i128
  um_transaction_count :: u64

record ProtocolReport =
  pr_metrics :: ProtocolMetrics
  pr_timestamp :: u64

record UserReport =
  ur_user :: address
  ur_metrics :: UserMetrics
  ur_position :: Position
  ur_recent_activities :: "Activity list"
  ur_timestamp :: u64

record hw_analytics = hw_book +
  ProtocolMetricsKey :: "ProtocolMetrics option"
  UserMetricsKey :: "address \<Rightarrow> UserMetrics option"
  TotalUsers :: "u64 option"
  TotalTransactions :: "u64 option"

type_synonym ('z, 'e, 'a) analytics_fn = "('z hw_analytics_scheme, 'e, 'a) contract_fn"

definition BASIS_POINTS :: i128 where "BASIS_POINTS = 10000"
definition MAX_ACTIVITY_LOG_SIZE :: u32 where "MAX_ACTIVITY_LOG_SIZE = 10000"

section \<open>The protocol\<close>

definition get_total_value_locked :: "('z, AnalyticsError, i128) analytics_fn" where
  "get_total_value_locked = reads protocol_analytics (\<lambda>a. ret (pa_total_value_locked a))"

definition get_protocol_utilization :: "('z, AnalyticsError, i128) analytics_fn" where
  "get_protocol_utilization =
     reads protocol_analytics (\<lambda>a.
     if pa_total_deposits a = 0 then ret 0 else
     unwrap (checked_mul (pa_total_borrows a) BASIS_POINTS) (\<lambda>m.
     ok_or (checked_div m (pa_total_deposits a)) AnalyticsError.Overflow ret))"

definition calculate_weighted_avg_interest_rate :: "('z, AnalyticsError, i128) analytics_fn" where
  "calculate_weighted_avg_interest_rate =
     reads protocol_analytics (\<lambda>a.
     if pa_total_borrows a = 0 then ret 0 else
     tryM get_protocol_utilization (\<lambda>utilization.
     unwrap (checked_mul utilization 10) (\<lambda>m.
     unwrap (checked_add 200 (m sdiv BASIS_POINTS)) ret)))"

definition update_protocol_metrics :: "host \<Rightarrow> ('z, AnalyticsError, ProtocolMetrics) analytics_fn" where
  "update_protocol_metrics h =
     tryM get_total_value_locked (\<lambda>tvl.
     tryM get_protocol_utilization (\<lambda>utilization.
     tryM calculate_weighted_avg_interest_rate (\<lambda>avg_rate.
     reads protocol_analytics (\<lambda>a.
     reads (\<lambda>s. unwrap_or (TotalUsers s) 0) (\<lambda>users.
     reads (\<lambda>s. unwrap_or (TotalTransactions s) 0) (\<lambda>transactions.
     let metrics = \<lparr>pm_total_value_locked = tvl, pm_total_deposits = pa_total_deposits a, pm_total_borrows = pa_total_borrows a,
           pm_utilization_rate = utilization, pm_average_borrow_rate = avg_rate, pm_total_users = users,
           pm_total_transactions = transactions, pm_last_update = now h\<rparr> in
     writes (\<lambda>s. s\<lparr>ProtocolMetricsKey := Some metrics\<rparr>)
     (ret metrics)))))))"

definition get_protocol_stats :: "host \<Rightarrow> ('z, AnalyticsError, ProtocolMetrics) analytics_fn" where
  "get_protocol_stats h = reads ProtocolMetricsKey (\<lambda>x. case x of Some metrics \<Rightarrow> ret metrics | None \<Rightarrow> update_protocol_metrics h)"

definition generate_protocol_report :: "host \<Rightarrow> ('z, AnalyticsError, ProtocolReport) analytics_fn" where
  "generate_protocol_report h = tryM (update_protocol_metrics h) (\<lambda>m. ret \<lparr>pr_metrics = m, pr_timestamp = now h\<rparr>)"

section \<open>Users\<close>

definition get_user_position_summary :: "address \<Rightarrow> ('z, AnalyticsError, Position) analytics_fn" where
  "get_user_position_summary user = reads (\<lambda>s. PositionKey s user) (\<lambda>x. ok_or x AnalyticsError.DataNotFound ret)"

definition calculate_health_factor :: "address \<Rightarrow> ('z, AnalyticsError, i128) analytics_fn" where
  "calculate_health_factor user =
     tryM (get_user_position_summary user) (\<lambda>p.
     if hp_debt p = 0 then ret i128_max else
     unwrap (checked_mul (hp_collateral p) BASIS_POINTS) (\<lambda>m.
     ok_or (checked_div m (hp_debt p)) AnalyticsError.Overflow ret))"

definition calculate_user_risk_level :: "i128 \<Rightarrow> i128" where
  "calculate_user_risk_level health_factor =
     (if health_factor \<ge> 15000 then 1 else if health_factor \<ge> 12000 then 2 else if health_factor \<ge> 11000 then 3
      else if health_factor \<ge> 10500 then 4 else 5)"

definition get_user_activity_summary :: "address \<Rightarrow> ('z, AnalyticsError, UserMetrics) analytics_fn" where
  "get_user_activity_summary user =
     reads (\<lambda>s. UserAnalyticsKey s user) (\<lambda>x. ok_or x AnalyticsError.DataNotFound (\<lambda>a.
     tryM (or_default (get_user_position_summary user) \<lparr>hp_collateral = 0, hp_debt = 0, hp_borrow_interest = 0, hp_last_accrual_time = 0\<rparr>) (\<lambda>p.
     tryM (or_default (calculate_health_factor user) i128_max) (\<lambda>health_factor.
     ret \<lparr>um_collateral = hp_collateral p, um_debt = hp_debt p, um_health_factor = health_factor, um_total_deposits = ua_total_deposits a,
          um_total_borrows = ua_total_borrows a, um_total_withdrawals = ua_total_withdrawals a,
          um_total_repayments = ua_total_repayments a,
          um_activity_score = saturating_add (saturating_mul (int (ua_transaction_count a)) 100) (ua_total_deposits a sdiv 1000),
          um_risk_level = calculate_user_risk_level health_factor, um_transaction_count = ua_transaction_count a\<rparr>))))"

definition update_user_metrics :: "address \<Rightarrow> ('z, AnalyticsError, UserMetrics) analytics_fn" where
  "update_user_metrics user =
     tryM (get_user_activity_summary user) (\<lambda>m.
     writes (\<lambda>s. s\<lparr>UserMetricsKey := (UserMetricsKey s)(user \<mapsto> m)\<rparr>)
     (ret m))"

section \<open>The activity feed\<close>

definition activity_log :: "'z hw_book_scheme \<Rightarrow> Activity list" where
  "activity_log s = unwrap_or (ActivityLog s) []"

definition record_activity :: "host \<Rightarrow> address \<Rightarrow> symbol \<Rightarrow> i128 \<Rightarrow> address option \<Rightarrow> ('z, AnalyticsError, unit) analytics_fn" where
  "record_activity h user activity_type amount asset =
     reads activity_log (\<lambda>log.
     let log1 = log @ [\<lparr>act_user = user, act_type = activity_type, act_amount = amount, act_asset = asset, act_timestamp = now h,
                        act_metadata = (\<lambda>_. None)\<rparr>];
         log2 = (if length log1 > MAX_ACTIVITY_LOG_SIZE then tl log1 else log1) in
     writes (\<lambda>s. s\<lparr>ActivityLog := Some log2\<rparr>) (
     reads (\<lambda>s. unwrap_or (TotalTransactions s) 0) (\<lambda>transactions.
     unwrap (checked_add_u64 transactions 1) (\<lambda>n.
     writes (\<lambda>s. s\<lparr>TotalTransactions := Some n\<rparr>)
     (ret ())))))"

text \<open>The elements at \<open>start..end\<close> of a vector.\<close>

definition slice :: "nat \<Rightarrow> nat \<Rightarrow> 'a list \<Rightarrow> 'a list" where
  "slice start stop xs = drop start (take stop xs)"

definition get_recent_activity :: "u32 \<Rightarrow> u32 \<Rightarrow> ('z, AnalyticsError, Activity list) analytics_fn" where
  "get_recent_activity limit offset =
     reads activity_log (\<lambda>log.
     if offset \<ge> length log then ret [] else
     unwrap (checked_add_u32 offset limit) (\<lambda>n.
     ret (rev (slice (length log - n) (length log - offset) log))))"

definition get_user_activity_feed :: "address \<Rightarrow> u32 \<Rightarrow> u32 \<Rightarrow> ('z, AnalyticsError, Activity list) analytics_fn" where
  "get_user_activity_feed user limit offset =
     reads activity_log (\<lambda>log.
     let user_activities = filter (\<lambda>e. act_user e = user) (rev log);
         stop = length user_activities - offset in
     if offset \<ge> length user_activities then ret [] else ret (slice (stop - limit) stop user_activities))"

definition get_activity_by_type :: "symbol \<Rightarrow> u32 \<Rightarrow> ('z, AnalyticsError, Activity list) analytics_fn" where
  "get_activity_by_type activity_type limit =
     reads activity_log (\<lambda>log. ret (take limit (filter (\<lambda>e. act_type e = activity_type) (rev log))))"

definition generate_user_report :: "host \<Rightarrow> address \<Rightarrow> ('z, AnalyticsError, UserReport) analytics_fn" where
  "generate_user_report h user =
     tryM (get_user_activity_summary user) (\<lambda>metrics.
     tryM (get_user_position_summary user) (\<lambda>p.
     tryM (get_user_activity_feed user 10 0) (\<lambda>recent.
     ret \<lparr>ur_user = user, ur_metrics = metrics, ur_position = p, ur_recent_activities = recent, ur_timestamp = now h\<rparr>)))"

section \<open>Entry points\<close>

fun of_AnalyticsError :: "AnalyticsError \<Rightarrow> LendingError" where
  "of_AnalyticsError AnalyticsError.NotInitialized = LendingError.NotInitialized"
| "of_AnalyticsError AnalyticsError.InvalidParameter = LendingError.InvalidParameter"
| "of_AnalyticsError AnalyticsError.Overflow = LendingError.Overflow"
| "of_AnalyticsError AnalyticsError.DataNotFound = LendingError.DataNotFound"

definition entry_get_health_factor :: "address \<Rightarrow> ('z, LendingError, i128) analytics_fn" where
  "entry_get_health_factor user = map_err of_AnalyticsError (calculate_health_factor user)"

definition entry_get_protocol_stats :: "host \<Rightarrow> ('z, LendingError, ProtocolMetrics) analytics_fn" where
  "entry_get_protocol_stats h = map_err of_AnalyticsError (get_protocol_stats h)"

definition get_protocol_report :: "host \<Rightarrow> ('z, LendingError, ProtocolReport) analytics_fn" where
  "get_protocol_report h = map_err of_AnalyticsError (generate_protocol_report h)"

definition get_user_position :: "address \<Rightarrow> ('z, LendingError, Position) analytics_fn" where
  "get_user_position user = map_err of_AnalyticsError (get_user_position_summary user)"

definition get_user_report :: "host \<Rightarrow> address \<Rightarrow> ('z, LendingError, UserReport) analytics_fn" where
  "get_user_report h user = map_err of_AnalyticsError (generate_user_report h user)"

definition entry_get_recent_activity :: "u32 \<Rightarrow> u32 \<Rightarrow> ('z, LendingError, Activity list) analytics_fn" where
  "entry_get_recent_activity limit offset = map_err of_AnalyticsError (get_recent_activity limit offset)"

end
