(* ===== verification/HW_Reserve.thy ===== *)
theory HW_Reserve
  imports HW_Analytics
begin

text \<open>
  Two bookkeeping modules of the protocol contract beside its lending operations: the reserves per asset with their factor
  and the treasury (\<open>reserve.rs\<close>), and the debt tokens (\<open>debt_token.rs\<close>), with their entry points (\<open>lib.rs\<close>).
  \<open>TreasuryAddress\<close> is the entry the treasury module uses too.
\<close>

section \<open>Data\<close>

datatype ReserveError = Unauthorized | InvalidReserveFactor | InsufficientReserve | InvalidAsset | InvalidTreasury | InvalidAmount
  | Overflow | TreasuryNotSet

datatype DebtTokenError = TokenNotFound | Unauthorized | TransferPaused | TransferBlocked | LiquidationInProgress | InvalidTokenId
  | Undercollateralized | Overflow | ZeroAddress | AlreadyTokenized | PositionNotFound

record DebtPosition =
  dt_borrower :: address
  dt_principal :: i128
  dt_accrued_interest :: i128
  dt_collateral_asset :: "address option"
  dt_collateral_amount :: i128
  dt_interest_rate_bps :: i128
  dt_last_accrual_time :: u64
  dt_is_liquidatable :: bool
  dt_created_at :: u64
  dt_updated_at :: u64

datatype reserve_event =
  ReserveInitialized "address option" i128
| ReserveFactorUpdated address "address option" i128
| ReserveAmmTargetSet address "address option" address
| ReserveDeployedToAmm address "address option" i128 i128 i128
| ReserveAccrued "address option" i128 i128
| TreasuryAddressSet address address
| ReserveWithdrawn address "address option" address i128 i128
| DebtTokenMintedEvent u64 address i128 "address option" u64
| DebtTokenTransferredEvent u64 address address u64
| DebtTokenBurnedEvent u64 address symbol u64

record hw_reserve = hw_analytics +
  ReserveBalance :: "address option \<Rightarrow> i128 option"
  ReserveFactor :: "address option \<Rightarrow> i128 option"
  ReserveAmmTarget :: "address option \<Rightarrow> address option"
  ReserveAmmLpBalance :: "address option \<Rightarrow> i128 option"
  NextTokenId :: "u64 option"
  TokenPosition :: "u64 \<Rightarrow> DebtPosition option"
  OwnerTokens :: "address \<Rightarrow> u64 list option"
  TransferPausedKey :: "bool option"
  BlockedAddress :: "address \<Rightarrow> bool option"
  TotalSupply :: "u64 option"
  reserve_log :: "reserve_event list"

type_synonym ('z, 'e, 'a) reserve_fn = "('z hw_reserve_scheme, 'e, 'a) contract_fn"

definition reserve_publish :: "reserve_event \<Rightarrow> 'z hw_reserve_scheme \<Rightarrow> 'z hw_reserve_scheme" where
  "reserve_publish e s = s\<lparr>reserve_log := reserve_log s @ [e]\<rparr>"

section \<open>Reserves: reserve.rs\<close>

definition MAX_RESERVE_FACTOR_BPS :: i128 where "MAX_RESERVE_FACTOR_BPS = 5000"
definition DEFAULT_RESERVE_FACTOR_BPS :: i128 where "DEFAULT_RESERVE_FACTOR_BPS = 1000"

definition reserve_admin :: "host \<Rightarrow> address \<Rightarrow> ('z, ReserveError, unit) reserve_fn" where
  "reserve_admin h caller =
     tryM (require_auth h caller) (\<lambda>_.
     reads AdminKey (\<lambda>x. ok_or x ReserveError.Unauthorized (\<lambda>admin.
     fail_if (caller \<noteq> admin) ReserveError.Unauthorized (ret ()))))"

definition reserve_of :: "'z hw_reserve_scheme \<Rightarrow> address option \<Rightarrow> i128" where
  "reserve_of s asset = unwrap_or (ReserveBalance s asset) 0"

definition set_reserve_balance :: "address option \<Rightarrow> i128 \<Rightarrow> 'z hw_reserve_scheme \<Rightarrow> 'z hw_reserve_scheme" where
  "set_reserve_balance asset n s = s\<lparr>ReserveBalance := (ReserveBalance s)(asset \<mapsto> n)\<rparr>"

definition initialize_reserve_config :: "address option \<Rightarrow> i128 \<Rightarrow> ('z, ReserveError, unit) reserve_fn" where
  "initialize_reserve_config asset bps =
     fail_if (bps < 0 \<or> bps > MAX_RESERVE_FACTOR_BPS) InvalidReserveFactor (
     writes (\<lambda>s. s\<lparr>ReserveFactor := (ReserveFactor s)(asset \<mapsto> bps)\<rparr>) (
     writes (set_reserve_balance asset 0) (
     writes (reserve_publish (ReserveInitialized asset bps))
     (ret ()))))"

definition set_reserve_factor :: "host \<Rightarrow> address \<Rightarrow> address option \<Rightarrow> i128 \<Rightarrow> ('z, ReserveError, unit) reserve_fn" where
  "set_reserve_factor h caller asset bps =
     tryM (reserve_admin h caller) (\<lambda>_.
     fail_if (bps < 0 \<or> bps > MAX_RESERVE_FACTOR_BPS) InvalidReserveFactor (
     writes (\<lambda>s. s\<lparr>ReserveFactor := (ReserveFactor s)(asset \<mapsto> bps)\<rparr>) (
     writes (reserve_publish (ReserveFactorUpdated caller asset bps))
     (ret ()))))"

definition get_reserve_factor :: "'z hw_reserve_scheme \<Rightarrow> address option \<Rightarrow> i128" where
  "get_reserve_factor s asset = unwrap_or (ReserveFactor s asset) DEFAULT_RESERVE_FACTOR_BPS"

definition set_reserve_amm_target :: "host \<Rightarrow> address \<Rightarrow> address option \<Rightarrow> address \<Rightarrow> ('z, ReserveError, unit) reserve_fn" where
  "set_reserve_amm_target h caller asset amm =
     tryM (reserve_admin h caller) (\<lambda>_.
     writes (\<lambda>s. s\<lparr>ReserveAmmTarget := (ReserveAmmTarget s)(asset \<mapsto> amm)\<rparr>) (
     writes (reserve_publish (ReserveAmmTargetSet caller asset amm))
     (ret ())))"

definition get_reserve_amm_lp_balance :: "'z hw_reserve_scheme \<Rightarrow> address option \<Rightarrow> i128" where
  "get_reserve_amm_lp_balance s asset = unwrap_or (ReserveAmmLpBalance s asset) 0"

definition record_reserve_deploy_to_amm :: "host \<Rightarrow> address \<Rightarrow> address option \<Rightarrow> i128 \<Rightarrow> i128 \<Rightarrow> ('z, ReserveError, unit) reserve_fn" where
  "record_reserve_deploy_to_amm h caller asset reserve_amount lp_tokens_received =
     tryM (reserve_admin h caller) (\<lambda>_.
     fail_if (reserve_amount \<le> 0 \<or> lp_tokens_received \<le> 0) ReserveError.InvalidAmount (
     reads (\<lambda>s. reserve_of s asset) (\<lambda>current_reserve.
     fail_if (reserve_amount > current_reserve) ReserveError.InsufficientReserve (
     unwrap (checked_sub current_reserve reserve_amount) (\<lambda>left.
     writes (set_reserve_balance asset left) (
     reads (\<lambda>s. get_reserve_amm_lp_balance s asset) (\<lambda>current_lp.
     ok_or (checked_add current_lp lp_tokens_received) ReserveError.Overflow (\<lambda>new_lp.
     writes (\<lambda>s. s\<lparr>ReserveAmmLpBalance := (ReserveAmmLpBalance s)(asset \<mapsto> new_lp)\<rparr>) (
     writes (reserve_publish (ReserveDeployedToAmm caller asset reserve_amount lp_tokens_received new_lp))
     (ret ()))))))))))"

definition accrue_reserve :: "address option \<Rightarrow> i128 \<Rightarrow> ('z, ReserveError, i128 \<times> i128) reserve_fn" where
  "accrue_reserve asset interest_amount =
     (if interest_amount \<le> 0 then ret (0, 0) else
      reads (\<lambda>s. get_reserve_factor s asset) (\<lambda>reserve_factor.
      ok_or (checked_mul interest_amount reserve_factor) ReserveError.Overflow (\<lambda>m.
      ok_or (checked_div m BASIS_POINTS_SCALE) ReserveError.Overflow (\<lambda>reserve_amount.
      ok_or (checked_sub interest_amount reserve_amount) ReserveError.Overflow (\<lambda>lender_amount.
      reads (\<lambda>s. reserve_of s asset) (\<lambda>current_balance.
      ok_or (checked_add current_balance reserve_amount) ReserveError.Overflow (\<lambda>new_balance.
      writes (set_reserve_balance asset new_balance) (
      writes (reserve_publish (ReserveAccrued asset reserve_amount new_balance))
      (ret (reserve_amount, lender_amount))))))))))"

definition set_treasury_address :: "host \<Rightarrow> address \<Rightarrow> address \<Rightarrow> address \<Rightarrow> ('z, ReserveError, unit) reserve_fn" where
  "set_treasury_address h self caller treasury =
     tryM (reserve_admin h caller) (\<lambda>_.
     fail_if (treasury = self) InvalidTreasury (
     writes (\<lambda>s. s\<lparr>TreasuryAddress := Some treasury\<rparr>) (
     writes (reserve_publish (TreasuryAddressSet caller treasury))
     (ret ()))))"

definition withdraw_reserve_funds :: "host \<Rightarrow> tokens \<Rightarrow> address \<Rightarrow> address \<Rightarrow> address option \<Rightarrow> i128 \<Rightarrow> ('z, ReserveError, i128) reserve_fn" where
  "withdraw_reserve_funds h tk self caller asset amount =
     tryM (reserve_admin h caller) (\<lambda>_.
     fail_if (amount \<le> 0) ReserveError.InvalidAmount (
     reads TreasuryAddress (\<lambda>x. ok_or x ReserveError.TreasuryNotSet (\<lambda>treasury.
     reads (\<lambda>s. reserve_of s asset) (\<lambda>current_balance.
     fail_if (amount > current_balance) ReserveError.InsufficientReserve (
     ok_or (checked_sub current_balance amount) ReserveError.Overflow (\<lambda>new_balance.
     writes (set_reserve_balance asset new_balance) (
     writes (reserve_publish (ReserveWithdrawn caller asset treasury amount new_balance)) (
     tryM (case asset of Some a \<Rightarrow> call_token tk (Transfer a self treasury amount) | None \<Rightarrow> ret ()) (\<lambda>_.
     ret amount))))))))))"

definition get_reserve_stats :: "'z hw_reserve_scheme \<Rightarrow> address option \<Rightarrow> i128 \<times> i128 \<times> address option" where
  "get_reserve_stats s asset = (reserve_of s asset, get_reserve_factor s asset, TreasuryAddress s)"

section \<open>Debt tokens: debt_token.rs\<close>

definition get_user_debt_tokens :: "'z hw_reserve_scheme \<Rightarrow> address \<Rightarrow> u64 list" where
  "get_user_debt_tokens s user = unwrap_or (OwnerTokens s user) []"

definition set_owner_tokens :: "address \<Rightarrow> u64 list \<Rightarrow> 'z hw_reserve_scheme \<Rightarrow> 'z hw_reserve_scheme" where
  "set_owner_tokens user l s = s\<lparr>OwnerTokens := (OwnerTokens s)(user \<mapsto> l)\<rparr>"

definition get_total_supply :: "'z hw_reserve_scheme \<Rightarrow> u64" where
  "get_total_supply s = unwrap_or (TotalSupply s) 0"

definition get_next_token_id :: "'z hw_reserve_scheme \<Rightarrow> u64" where
  "get_next_token_id s = unwrap_or (NextTokenId s) 1"

definition is_transfer_paused :: "'z hw_reserve_scheme \<Rightarrow> bool" where
  "is_transfer_paused s = unwrap_or (TransferPausedKey s) False"

definition is_address_blocked :: "'z hw_reserve_scheme \<Rightarrow> address \<Rightarrow> bool" where
  "is_address_blocked s a = unwrap_or (BlockedAddress s a) False"

text \<open>Unsigned arithmetic that overflows panics.\<close>

definition update_total_supply :: "int \<Rightarrow> ('z, DebtTokenError, unit) reserve_fn" where
  "update_total_supply delta =
     reads get_total_supply (\<lambda>current_supply.
     let n = int current_supply + delta in
     if n < 0 \<or> n > int u64_max then panic
     else writes (\<lambda>s. s\<lparr>TotalSupply := Some (nat n)\<rparr>) (ret ()))"

text \<open>The loop over the user's tokens: one of them stands for the same position.\<close>

definition already_tokenized :: "'z hw_reserve_scheme \<Rightarrow> address \<Rightarrow> address option \<Rightarrow> bool" where
  "already_tokenized s user asset \<longleftrightarrow>
     (\<exists>i \<in> set (get_user_debt_tokens s user). case TokenPosition s i of
        Some p \<Rightarrow> dt_borrower p = user \<and> dt_collateral_asset p = asset | None \<Rightarrow> False)"

definition mint_debt_token :: "host \<Rightarrow> address \<Rightarrow> address option \<Rightarrow> i128 \<Rightarrow> i128 \<Rightarrow> ('z, DebtTokenError, u64) reserve_fn" where
  "mint_debt_token h user asset amount rate =
     tryM (require_auth h user) (\<lambda>_.
     reads is_transfer_paused (\<lambda>paused.
     fail_if paused TransferPaused (
     reads (\<lambda>s. already_tokenized s user asset) (\<lambda>ex.
     fail_if ex AlreadyTokenized (
     fail_if (amount \<le> 0) PositionNotFound (
     reads get_next_token_id (\<lambda>token_id.
     let p = \<lparr>dt_borrower = user, dt_principal = amount, dt_accrued_interest = 0, dt_collateral_asset = asset,
              dt_collateral_amount = 0, dt_interest_rate_bps = rate, dt_last_accrual_time = now h,
              dt_is_liquidatable = False, dt_created_at = now h, dt_updated_at = now h\<rparr> in
     writes (\<lambda>s. s\<lparr>TokenPosition := (TokenPosition s)(token_id \<mapsto> p)\<rparr>) (
     reads (\<lambda>s. get_user_debt_tokens s user) (\<lambda>owner_tokens.
     writes (set_owner_tokens user (owner_tokens @ [token_id])) (
     unwrap (checked_add_u64 token_id 1) (\<lambda>next_id.
     writes (\<lambda>s. s\<lparr>NextTokenId := Some next_id\<rparr>) (
     tryM (update_total_supply 1) (\<lambda>_.
     writes (reserve_publish (DebtTokenMintedEvent token_id user amount asset (now h)))
     (ret token_id))))))))))))))"

text \<open>\<open>zero\<close> is the address the code calls \<open>Address::zero()\<close>.\<close>

definition transfer_debt_token :: "host \<Rightarrow> address \<Rightarrow> address \<Rightarrow> address \<Rightarrow> u64 \<Rightarrow> ('z, DebtTokenError, unit) reserve_fn" where
  "transfer_debt_token h zero sender receiver token_id =
     tryM (require_auth h sender) (\<lambda>_.
     fail_if (receiver = zero) ZeroAddress (
     reads is_transfer_paused (\<lambda>paused.
     fail_if paused TransferPaused (
     reads (\<lambda>s. is_address_blocked s receiver) (\<lambda>blocked.
     fail_if blocked TransferBlocked (
     reads (\<lambda>s. TokenPosition s token_id) (\<lambda>x. ok_or x TokenNotFound (\<lambda>p.
     fail_if (dt_is_liquidatable p) LiquidationInProgress (
     reads (\<lambda>s. get_user_debt_tokens s sender) (\<lambda>owner_tokens.
     fail_if (token_id \<notin> set owner_tokens) DebtTokenError.Unauthorized (
     writes (set_owner_tokens sender (remove1 token_id owner_tokens)) (
     reads (\<lambda>s. get_user_debt_tokens s receiver) (\<lambda>to_tokens.
     writes (set_owner_tokens receiver (to_tokens @ [token_id])) (
     writes (\<lambda>s. s\<lparr>TokenPosition := (TokenPosition s)(token_id \<mapsto> p\<lparr>dt_updated_at := now h\<rparr>)\<rparr>) (
     writes (reserve_publish (DebtTokenTransferredEvent token_id sender receiver (now h)))
     (ret ()))))))))))))))))"

definition burn_debt_token :: "host \<Rightarrow> address \<Rightarrow> u64 \<Rightarrow> symbol \<Rightarrow> ('z, DebtTokenError, unit) reserve_fn" where
  "burn_debt_token h user token_id reason =
     tryM (require_auth h user) (\<lambda>_.
     reads (\<lambda>s. TokenPosition s token_id) (\<lambda>x. ok_or x TokenNotFound (\<lambda>p.
     reads (\<lambda>s. get_user_debt_tokens s user) (\<lambda>owner_tokens.
     fail_if (token_id \<notin> set owner_tokens) DebtTokenError.Unauthorized (
     writes (set_owner_tokens user (remove1 token_id owner_tokens)) (
     writes (\<lambda>s. s\<lparr>TokenPosition := (TokenPosition s)(token_id := None)\<rparr>) (
     tryM (update_total_supply (- 1)) (\<lambda>_.
     writes (reserve_publish (DebtTokenBurnedEvent token_id user reason (now h)))
     (ret ())))))))))"

definition token_admin :: "host \<Rightarrow> address \<Rightarrow> ('z, DebtTokenError, unit) reserve_fn" where
  "token_admin h admin =
     reads AdminKey (\<lambda>x. ok_or x DebtTokenError.Unauthorized (\<lambda>stored_admin.
     fail_if (admin \<noteq> stored_admin) DebtTokenError.Unauthorized (
     require_auth h admin)))"

definition set_transfer_pause :: "host \<Rightarrow> address \<Rightarrow> bool \<Rightarrow> ('z, DebtTokenError, unit) reserve_fn" where
  "set_transfer_pause h admin paused =
     tryM (token_admin h admin) (\<lambda>_.
     writes (\<lambda>s. s\<lparr>TransferPausedKey := Some paused\<rparr>)
     (ret ()))"

definition set_address_blocked :: "host \<Rightarrow> address \<Rightarrow> address \<Rightarrow> bool \<Rightarrow> ('z, DebtTokenError, unit) reserve_fn" where
  "set_address_blocked h admin a blocked =
     tryM (token_admin h admin) (\<lambda>_.
     writes (\<lambda>s. s\<lparr>BlockedAddress := (BlockedAddress s)(a := (if blocked then Some True else None))\<rparr>)
     (ret ()))"

section \<open>Error codes and entry points\<close>

fun of_ReserveError :: "ReserveError \<Rightarrow> LendingError" where
  "of_ReserveError ReserveError.Unauthorized = LendingError.Unauthorized"
| "of_ReserveError InvalidReserveFactor = LendingError.InvalidParameter"
| "of_ReserveError ReserveError.InsufficientReserve = LendingError.InsufficientReserve"
| "of_ReserveError ReserveError.InvalidAsset = LendingError.InvalidAsset"
| "of_ReserveError InvalidTreasury = LendingError.InvalidParameter"
| "of_ReserveError ReserveError.InvalidAmount = LendingError.InvalidAmount"
| "of_ReserveError ReserveError.Overflow = LendingError.Overflow"
| "of_ReserveError ReserveError.TreasuryNotSet = LendingError.TreasuryNotSet"

fun of_DebtTokenError :: "DebtTokenError \<Rightarrow> LendingError" where
  "of_DebtTokenError TokenNotFound = LendingError.DataNotFound"
| "of_DebtTokenError DebtTokenError.Unauthorized = LendingError.Unauthorized"
| "of_DebtTokenError TransferPaused = LendingError.ProtocolPaused"
| "of_DebtTokenError TransferBlocked = LendingError.Unauthorized"
| "of_DebtTokenError LiquidationInProgress = LendingError.InvalidState"
| "of_DebtTokenError InvalidTokenId = LendingError.InvalidParameter"
| "of_DebtTokenError DebtTokenError.Undercollateralized = LendingError.InsufficientCollateralRatio"
| "of_DebtTokenError DebtTokenError.Overflow = LendingError.Overflow"
| "of_DebtTokenError ZeroAddress = LendingError.InvalidParameter"
| "of_DebtTokenError AlreadyTokenized = LendingError.AlreadyExists"
| "of_DebtTokenError PositionNotFound = LendingError.DataNotFound"

definition entry_set_reserve_factor :: "host \<Rightarrow> address \<Rightarrow> address option \<Rightarrow> i128 \<Rightarrow> ('z, LendingError, unit) reserve_fn" where
  "entry_set_reserve_factor h caller asset bps = map_err of_ReserveError (set_reserve_factor h caller asset bps)"

definition entry_set_treasury_address :: "host \<Rightarrow> address \<Rightarrow> address \<Rightarrow> address \<Rightarrow> ('z, LendingError, unit) reserve_fn" where
  "entry_set_treasury_address h self caller treasury = map_err of_ReserveError (set_treasury_address h self caller treasury)"

definition entry_withdraw_reserve_funds :: "host \<Rightarrow> tokens \<Rightarrow> address \<Rightarrow> address \<Rightarrow> address option \<Rightarrow> i128 \<Rightarrow> ('z, LendingError, i128) reserve_fn" where
  "entry_withdraw_reserve_funds h tk self caller asset amount =
     map_err of_ReserveError (withdraw_reserve_funds h tk self caller asset amount)"

definition entry_set_reserve_amm_target :: "host \<Rightarrow> address \<Rightarrow> address option \<Rightarrow> address \<Rightarrow> ('z, LendingError, unit) reserve_fn" where
  "entry_set_reserve_amm_target h caller asset amm = map_err of_ReserveError (set_reserve_amm_target h caller asset amm)"

definition entry_record_reserve_deploy_to_amm :: "host \<Rightarrow> address \<Rightarrow> address option \<Rightarrow> i128 \<Rightarrow> i128 \<Rightarrow> ('z, LendingError, unit) reserve_fn" where
  "entry_record_reserve_deploy_to_amm h caller asset n lp = map_err of_ReserveError (record_reserve_deploy_to_amm h caller asset n lp)"

definition entry_mint_debt_token :: "host \<Rightarrow> address \<Rightarrow> address option \<Rightarrow> i128 \<Rightarrow> i128 \<Rightarrow> ('z, LendingError, u64) reserve_fn" where
  "entry_mint_debt_token h user asset amount rate = map_err of_DebtTokenError (mint_debt_token h user asset amount rate)"

definition entry_transfer_debt_token :: "host \<Rightarrow> address \<Rightarrow> address \<Rightarrow> address \<Rightarrow> u64 \<Rightarrow> ('z, LendingError, unit) reserve_fn" where
  "entry_transfer_debt_token h zero sender receiver i = map_err of_DebtTokenError (transfer_debt_token h zero sender receiver i)"

definition entry_burn_debt_token :: "host \<Rightarrow> address \<Rightarrow> u64 \<Rightarrow> symbol \<Rightarrow> ('z, LendingError, unit) reserve_fn" where
  "entry_burn_debt_token h user i reason = map_err of_DebtTokenError (burn_debt_token h user i reason)"

definition set_debt_token_transfer_pause :: "host \<Rightarrow> address \<Rightarrow> bool \<Rightarrow> ('z, LendingError, unit) reserve_fn" where
  "set_debt_token_transfer_pause h admin paused = map_err of_DebtTokenError (set_transfer_pause h admin paused)"

definition set_debt_token_address_blocked :: "host \<Rightarrow> address \<Rightarrow> address \<Rightarrow> bool \<Rightarrow> ('z, LendingError, unit) reserve_fn" where
  "set_debt_token_address_blocked h admin a blocked = map_err of_DebtTokenError (set_address_blocked h admin a blocked)"

end
