(* ===== verification/HW_Queue.thy ===== *)
theory HW_Queue
  imports HW_Reserve
begin

text \<open>
  Two ways of ordering operations of the protocol contract: commitments that are revealed after a delay, against front
  running (\<open>mev_protection.rs\<close>), and the priority queue of liquidations (\<open>liquidation_queue.rs\<close>), with their entry points
  (\<open>lib.rs\<close>). The ledger's sequence number is an argument of the commitment.
\<close>

section \<open>Data\<close>

datatype MevProtectionError = InvalidConfig | CommitNotFound | CommitNotReady | CommitExpired | Unauthorized | FeeCapExceeded
  | InvalidAmount | InvalidOperation

datatype SensitiveOperation = Borrow | Withdraw | Liquidate
datatype TxOrderingHint = Default | PrivateMempool | BatchAuction | DelayedReveal

record MevProtectionConfig =
  commit_delay_secs :: u64
  commit_expiry_secs :: u64
  suspicious_window_secs :: u64
  fee_smoothing_bps :: i128
  base_protection_fee_bps :: i128
  surge_protection_fee_bps :: i128
  sandwich_threshold_bps :: i128
  private_mempool_enabled :: bool
  batching_enabled :: bool

record PendingCommit =
  pc_id :: u64
  pc_owner :: address
  pc_operation :: SensitiveOperation
  pc_asset :: "address option"
  pc_secondary_asset :: "address option"
  pc_borrower :: "address option"
  pc_amount :: i128
  pc_max_fee_bps :: i128
  pc_hint :: TxOrderingHint
  pc_committed_at :: u64
  pc_reveal_after :: u64
  pc_expires_at :: u64
  pc_commit_ledger :: u32

record OrderingObservation =
  oo_actor :: address
  oo_amount :: i128
  oo_timestamp :: u64

record OrderingStats =
  suspicious_sequences :: u64
  sandwich_alerts :: u64
  last_alert_timestamp :: u64
  last_effective_fee_bps :: i128

datatype QueueEntryStatus = QPending | QProcessing | QCompleted | QExpired | QCancelled

record LiquidationQueueEntry =
  qe_id :: u64
  qe_borrower :: address
  qe_liquidator :: address
  qe_health_factor :: i128
  qe_priority_score :: i128
  qe_queued_at :: u64
  qe_expires_at :: u64
  qe_status :: QueueEntryStatus
  qe_debt_value :: i128
  qe_collateral_value :: i128

record QueueConfig =
  max_queue_size :: u32
  entry_expiration :: u64
  fifo_enabled :: bool
  priority_enabled :: bool

record QueueStats =
  qs_total_entries :: u64
  qs_pending :: u32
  qs_processing :: u32
  qs_completed :: u32
  qs_expired :: u32
  qs_cancelled :: u32

datatype queue_event =
  LiquidationQueuedEvent u64 address address i128 i128 u64
| LiquidationProcessedEvent u64 address address address u64
| LiquidationCancelledEvent u64 address u64

record hw_queue = hw_reserve +
  MevConfig :: "MevProtectionConfig option"
  NextCommitId :: "u64 option"
  Commit :: "u64 \<Rightarrow> PendingCommit option"
  OrderingStatsKey :: "OrderingStats option"
  LatestObservation :: "symbol \<times> address option \<Rightarrow> OrderingObservation option"
  PreviousObservation :: "symbol \<times> address option \<Rightarrow> OrderingObservation option"
  SmoothedFee :: "symbol \<times> address option \<Rightarrow> i128 option"
  LiquidationQueueConfigKey :: "QueueConfig option"
  NextLiquidationQueueId :: "u64 option"
  LiquidationQueueEntryKey :: "u64 \<Rightarrow> LiquidationQueueEntry option"
  queue_log :: "queue_event list"

type_synonym ('z, 'e, 'a) queue_fn = "('z hw_queue_scheme, 'e, 'a) contract_fn"

section \<open>Commit and reveal: mev_protection.rs\<close>

definition MAX_BPS :: i128 where "MAX_BPS = 10000"

definition mev_default_config :: MevProtectionConfig where
  "mev_default_config = \<lparr>commit_delay_secs = 30, commit_expiry_secs = 300, suspicious_window_secs = 45, fee_smoothing_bps = 2500,
     base_protection_fee_bps = 10, surge_protection_fee_bps = 60, sandwich_threshold_bps = 500, private_mempool_enabled = True,
     batching_enabled = True\<rparr>"

definition bps_ok :: "i128 \<Rightarrow> bool" where
  "bps_ok n \<longleftrightarrow> 0 \<le> n \<and> n \<le> MAX_BPS"

definition mev_validate_config :: "MevProtectionConfig \<Rightarrow> ('s, MevProtectionError, unit) contract_fn" where
  "mev_validate_config c =
     fail_if (commit_delay_secs c = 0 \<or> commit_expiry_secs c \<le> commit_delay_secs c \<or> suspicious_window_secs c = 0 \<or>
       \<not> bps_ok (fee_smoothing_bps c) \<or> \<not> bps_ok (base_protection_fee_bps c) \<or> \<not> bps_ok (surge_protection_fee_bps c) \<or>
       \<not> bps_ok (sandwich_threshold_bps c)) MevProtectionError.InvalidConfig (ret ())"

definition configure_mev :: "address \<Rightarrow> MevProtectionConfig \<Rightarrow> ('z, MevProtectionError, unit) queue_fn" where
  "configure_mev caller c =
     tryM (map_err (\<lambda>_. MevProtectionError.Unauthorized) (rm_require_admin caller)) (\<lambda>_.
     tryM (mev_validate_config c) (\<lambda>_.
     writes (\<lambda>s. s\<lparr>MevConfig := Some c\<rparr>)
     (ret ())))"

definition get_mev_config :: "'z hw_queue_scheme \<Rightarrow> MevProtectionConfig" where
  "get_mev_config s = unwrap_or (MevConfig s) mev_default_config"

definition next_commit_id :: "(u64 \<Rightarrow> ('z, 'e, 'a) queue_fn) \<Rightarrow> ('z, 'e, 'a) queue_fn" where
  "next_commit_id k =
     reads (\<lambda>s. unwrap_or (NextCommitId s) 1) (\<lambda>i.
     writes (\<lambda>s. s\<lparr>NextCommitId := Some (saturating_add_u64 i 1)\<rparr>) (k i))"

definition create_commit :: "host \<Rightarrow> u32 \<Rightarrow> address \<Rightarrow> SensitiveOperation \<Rightarrow> address option \<Rightarrow> address option \<Rightarrow> address option \<Rightarrow>
    i128 \<Rightarrow> i128 \<Rightarrow> TxOrderingHint \<Rightarrow> ('z, MevProtectionError, u64) queue_fn" where
  "create_commit h sequence who op asset secondary borrower amount max_fee_bps hint =
     tryM (require_auth h who) (\<lambda>_.
     fail_if (amount \<le> 0) MevProtectionError.InvalidAmount (
     fail_if (\<not> bps_ok max_fee_bps) MevProtectionError.InvalidConfig (
     reads get_mev_config (\<lambda>cfg.
     next_commit_id (\<lambda>i.
     let c = \<lparr>pc_id = i, pc_owner = who, pc_operation = op, pc_asset = asset, pc_secondary_asset = secondary, pc_borrower = borrower,
              pc_amount = amount, pc_max_fee_bps = max_fee_bps, pc_hint = hint, pc_committed_at = now h,
              pc_reveal_after = saturating_add_u64 (now h) (commit_delay_secs cfg),
              pc_expires_at = saturating_add_u64 (now h) (commit_expiry_secs cfg), pc_commit_ledger = sequence\<rparr> in
     writes (\<lambda>s. s\<lparr>Commit := (Commit s)(i \<mapsto> c)\<rparr>)
     (ret i))))))"

definition load_commit :: "u64 \<Rightarrow> ('z, MevProtectionError, PendingCommit) queue_fn" where
  "load_commit i = reads (\<lambda>s. Commit s i) (\<lambda>x. ok_or x CommitNotFound ret)"

definition remove_commit :: "u64 \<Rightarrow> 'z hw_queue_scheme \<Rightarrow> 'z hw_queue_scheme" where
  "remove_commit i s = s\<lparr>Commit := (Commit s)(i := None)\<rparr>"

definition cancel_commit :: "host \<Rightarrow> address \<Rightarrow> u64 \<Rightarrow> ('z, MevProtectionError, unit) queue_fn" where
  "cancel_commit h who i =
     tryM (require_auth h who) (\<lambda>_.
     tryM (load_commit i) (\<lambda>c.
     fail_if (pc_owner c \<noteq> who) MevProtectionError.Unauthorized (
     writes (remove_commit i)
     (ret ()))))"

definition checked_abs :: "i128 \<Rightarrow> i128 option" where
  "checked_abs n = to_i128 \<bar>n\<bar>"

definition amounts_close :: "i128 \<Rightarrow> i128 \<Rightarrow> i128 \<Rightarrow> ('s, 'e, bool) contract_fn" where
  "amounts_close a b threshold_bps =
     (if a = 0 \<and> b = 0 then ret True else
      unwrap (checked_abs a) (\<lambda>x. unwrap (checked_abs b) (\<lambda>y.
      if max x y = 0 then ret True else
      unwrap (checked_sub a b) (\<lambda>d. unwrap (checked_abs d) (\<lambda>diff.
      ret (saturating_mul diff MAX_BPS \<le> saturating_mul (max x y) threshold_bps))))))"

fun operation_symbol :: "SensitiveOperation \<Rightarrow> symbol" where
  "operation_symbol Borrow = ''borrow''"
| "operation_symbol Withdraw = ''withdraw''"
| "operation_symbol Liquidate = ''liquidate''"

definition smoothed_fee :: "i128 \<Rightarrow> i128 \<Rightarrow> i128 \<Rightarrow> i128" where
  "smoothed_fee prior target smoothing =
     min (max (saturating_div (saturating_add (saturating_mul prior (saturating_sub MAX_BPS smoothing)) (saturating_mul target smoothing)) MAX_BPS) 0)
       MAX_BPS"

definition preview_fee_bps :: "host \<Rightarrow> SensitiveOperation \<Rightarrow> address option \<Rightarrow> i128 \<Rightarrow> ('z, 'e, i128) queue_fn" where
  "preview_fee_bps h op asset amount =
     reads get_mev_config (\<lambda>cfg.
     reads (\<lambda>s. LatestObservation s (operation_symbol op, asset)) (\<lambda>latest.
     reads (\<lambda>s. unwrap_or (SmoothedFee s (operation_symbol op, asset)) (base_protection_fee_bps cfg)) (\<lambda>prior.
     tryM (case latest of
             None \<Rightarrow> ret (base_protection_fee_bps cfg)
           | Some o1 \<Rightarrow>
               if now h - oo_timestamp o1 \<le> suspicious_window_secs cfg then
                 tryM (amounts_close (oo_amount o1) amount (sandwich_threshold_bps cfg)) (\<lambda>c.
                 ret (if c then saturating_add (surge_protection_fee_bps cfg) (base_protection_fee_bps cfg) else surge_protection_fee_bps cfg))
               else ret (base_protection_fee_bps cfg)) (\<lambda>target.
     ret (smoothed_fee prior target (fee_smoothing_bps cfg))))))"

fun hint_for :: "TxOrderingHint \<Rightarrow> bool \<Rightarrow> bool \<Rightarrow> TxOrderingHint" where
  "hint_for PrivateMempool private batch = (if private then PrivateMempool else DelayedReveal)"
| "hint_for BatchAuction private batch = (if batch then BatchAuction else DelayedReveal)"
| "hint_for Default private batch = (if private then PrivateMempool else if batch then BatchAuction else DelayedReveal)"
| "hint_for DelayedReveal private batch = DelayedReveal"

definition execution_hint :: "'z hw_queue_scheme \<Rightarrow> TxOrderingHint \<Rightarrow> TxOrderingHint" where
  "execution_hint s requested =
     hint_for requested (private_mempool_enabled (get_mev_config s)) (batching_enabled (get_mev_config s))"

definition user_guidance :: "'z hw_queue_scheme \<Rightarrow> SensitiveOperation \<Rightarrow> string" where
  "user_guidance s op =
     (case execution_hint s Default of
        PrivateMempool \<Rightarrow>
          (case op of
             Borrow \<Rightarrow> ''Commit borrow, wait for the reveal delay, then use a private mempool route.''
           | Withdraw \<Rightarrow> ''Commit withdrawal, wait for the reveal delay, then use a private mempool route.''
           | Liquidate \<Rightarrow> ''Commit liquidation, wait for the reveal delay, then use a private mempool route.'')
      | BatchAuction \<Rightarrow> ''Use commit/reveal and prefer batched execution during congested periods.''
      | _ \<Rightarrow> ''Use commit/reveal and avoid revealing during short bursts of ordering activity.'')"

definition get_ordering_stats :: "'z hw_queue_scheme \<Rightarrow> OrderingStats" where
  "get_ordering_stats s = unwrap_or (OrderingStatsKey s)
     \<lparr>suspicious_sequences = 0, sandwich_alerts = 0, last_alert_timestamp = 0, last_effective_fee_bps = 0\<rparr>"

definition validate_reveal :: "host \<Rightarrow> address \<Rightarrow> u64 \<Rightarrow> SensitiveOperation \<Rightarrow> ('z, MevProtectionError, PendingCommit) queue_fn" where
  "validate_reveal h who i expected =
     tryM (load_commit i) (\<lambda>c.
     fail_if (pc_owner c \<noteq> who) MevProtectionError.Unauthorized (
     fail_if (pc_operation c \<noteq> expected) InvalidOperation (
     fail_if (now h < pc_reveal_after c) CommitNotReady (
     fail_if (now h > pc_expires_at c) CommitExpired (ret c)))))"

definition is_recent :: "host \<Rightarrow> MevProtectionConfig \<Rightarrow> OrderingObservation \<Rightarrow> bool" where
  "is_recent h cfg ob \<longleftrightarrow> now h - oo_timestamp ob \<le> suspicious_window_secs cfg"

definition record_ordering_signal :: "host \<Rightarrow> address \<Rightarrow> SensitiveOperation \<Rightarrow> address option \<Rightarrow> i128 \<Rightarrow> i128 \<Rightarrow> ('z, 'e, unit) queue_fn" where
  "record_ordering_signal h actor op asset amount effective_fee_bps =
     (let key = (operation_symbol op, asset) in
      reads get_mev_config (\<lambda>cfg.
      reads (\<lambda>s. LatestObservation s key) (\<lambda>latest.
      reads (\<lambda>s. PreviousObservation s key) (\<lambda>previous.
      reads get_ordering_stats (\<lambda>stats0.
      let stats1 = (case latest of
            Some o1 \<Rightarrow> if is_recent h cfg o1 \<and> oo_actor o1 \<noteq> actor
                       then stats0\<lparr>suspicious_sequences := saturating_add_u64 (suspicious_sequences stats0) 1\<rparr> else stats0
          | None \<Rightarrow> stats0) in
      tryM (case (previous, latest) of
              (Some o0, Some o1) \<Rightarrow>
                if is_recent h cfg o0 \<and> is_recent h cfg o1 \<and> oo_actor o0 = actor \<and> oo_actor o1 \<noteq> actor
                then tryM (amounts_close (oo_amount o0) amount (sandwich_threshold_bps cfg)) (\<lambda>c.
                  ret (if c then stats1\<lparr>sandwich_alerts := saturating_add_u64 (sandwich_alerts stats1) 1, last_alert_timestamp := now h\<rparr>
                       else stats1))
                else ret stats1
            | _ \<Rightarrow> ret stats1) (\<lambda>stats2.
      writes (\<lambda>s. s\<lparr>OrderingStatsKey := Some (stats2\<lparr>last_effective_fee_bps := effective_fee_bps\<rparr>)\<rparr>) (
      writes (\<lambda>s. case latest of Some o1 \<Rightarrow> s\<lparr>PreviousObservation := (PreviousObservation s)(key \<mapsto> o1)\<rparr> | None \<Rightarrow> s) (
      writes (\<lambda>s. s\<lparr>LatestObservation := (LatestObservation s)(key \<mapsto> \<lparr>oo_actor = actor, oo_amount = amount, oo_timestamp = now h\<rparr>)\<rparr>) (
      writes (\<lambda>s. s\<lparr>SmoothedFee := (SmoothedFee s)(key \<mapsto> effective_fee_bps)\<rparr>)
      (ret ()))))))))))"

text \<open>The three reveals share their steps; a liquidation also needs its borrower.\<close>

definition reveal :: "host \<Rightarrow> address \<Rightarrow> u64 \<Rightarrow> SensitiveOperation \<Rightarrow> (PendingCommit \<Rightarrow> MevProtectionError option) \<Rightarrow>
    ('z, MevProtectionError, PendingCommit \<times> i128) queue_fn" where
  "reveal h who i op refuse =
     tryM (require_auth h who) (\<lambda>_.
     tryM (validate_reveal h who i op) (\<lambda>c.
     tryM (preview_fee_bps h op (pc_asset c) (pc_amount c)) (\<lambda>fee.
     fail_if (fee > pc_max_fee_bps c) FeeCapExceeded (
     case refuse c of
       Some e \<Rightarrow> fail e
     | None \<Rightarrow>
         tryM (record_ordering_signal h who op (pc_asset c) (pc_amount c) fee) (\<lambda>_.
         writes (remove_commit i)
         (ret (c, fee)))))))"

definition reveal_borrow :: "host \<Rightarrow> address \<Rightarrow> u64 \<Rightarrow> ('z, MevProtectionError, address option \<times> i128 \<times> i128) queue_fn" where
  "reveal_borrow h who i = tryM (reveal h who i Borrow (\<lambda>_. None)) (\<lambda>(c, fee). ret (pc_asset c, pc_amount c, fee))"

definition reveal_withdraw :: "host \<Rightarrow> address \<Rightarrow> u64 \<Rightarrow> ('z, MevProtectionError, address option \<times> i128) queue_fn" where
  "reveal_withdraw h who i = tryM (reveal h who i Withdraw (\<lambda>_. None)) (\<lambda>(c, fee). ret (pc_asset c, pc_amount c))"

definition reveal_liquidation :: "host \<Rightarrow> address \<Rightarrow> u64 \<Rightarrow>
    ('z, MevProtectionError, address \<times> address option \<times> address option \<times> i128) queue_fn" where
  "reveal_liquidation h who i =
     tryM (reveal h who i Liquidate (\<lambda>c. if pc_borrower c = None then Some InvalidOperation else None)) (\<lambda>(c, fee).
     ok_or (pc_borrower c) InvalidOperation (\<lambda>b. ret (b, pc_asset c, pc_secondary_asset c, pc_amount c)))"

fun of_MevProtectionError :: "MevProtectionError \<Rightarrow> LendingError" where
  "of_MevProtectionError MevProtectionError.InvalidConfig = LendingError.InvalidParameter"
| "of_MevProtectionError CommitNotFound = LendingError.CommitNotFound"
| "of_MevProtectionError CommitNotReady = LendingError.CommitNotReady"
| "of_MevProtectionError CommitExpired = LendingError.CommitExpired"
| "of_MevProtectionError MevProtectionError.Unauthorized = LendingError.Unauthorized"
| "of_MevProtectionError FeeCapExceeded = LendingError.FeeCapExceeded"
| "of_MevProtectionError MevProtectionError.InvalidAmount = LendingError.InvalidAmount"
| "of_MevProtectionError InvalidOperation = LendingError.InvalidState"

definition configure_mev_protection :: "address \<Rightarrow> MevProtectionConfig \<Rightarrow> ('z, LendingError, unit) queue_fn" where
  "configure_mev_protection caller c = map_err of_MevProtectionError (configure_mev caller c)"

definition commit_borrow_protected :: "host \<Rightarrow> u32 \<Rightarrow> address \<Rightarrow> address option \<Rightarrow> i128 \<Rightarrow> i128 \<Rightarrow> TxOrderingHint \<Rightarrow> ('z, LendingError, u64) queue_fn" where
  "commit_borrow_protected h sequence user asset amount max_fee_bps hint =
     map_err of_MevProtectionError (create_commit h sequence user Borrow asset None None amount max_fee_bps hint)"

definition commit_withdraw_protected :: "host \<Rightarrow> u32 \<Rightarrow> address \<Rightarrow> address option \<Rightarrow> i128 \<Rightarrow> i128 \<Rightarrow> TxOrderingHint \<Rightarrow> ('z, LendingError, u64) queue_fn" where
  "commit_withdraw_protected h sequence user asset amount max_fee_bps hint =
     map_err of_MevProtectionError (create_commit h sequence user Withdraw asset None None amount max_fee_bps hint)"

definition commit_liquidation_protected :: "host \<Rightarrow> u32 \<Rightarrow> address \<Rightarrow> address \<Rightarrow> address option \<Rightarrow> address option \<Rightarrow> i128 \<Rightarrow> i128 \<Rightarrow>
    TxOrderingHint \<Rightarrow> ('z, LendingError, u64) queue_fn" where
  "commit_liquidation_protected h sequence liquidator borrower owed_asset collateral_asset debt_amount max_fee_bps hint =
     map_err of_MevProtectionError (create_commit h sequence liquidator Liquidate owed_asset collateral_asset (Some borrower) debt_amount max_fee_bps hint)"

definition reveal_borrow_protected :: "host \<Rightarrow> tokens \<Rightarrow> address \<Rightarrow> address \<Rightarrow> u64 \<Rightarrow> ('z, LendingError, i128) queue_fn" where
  "reveal_borrow_protected h tk self user i =
     tryM (map_err of_MevProtectionError (reveal_borrow h user i)) (\<lambda>(asset, amount, fee).
     map_err of_BorrowError (borrow_asset h tk self user asset amount))"

definition reveal_withdraw_protected :: "host \<Rightarrow> tokens \<Rightarrow> address \<Rightarrow> address \<Rightarrow> u64 \<Rightarrow> ('z, LendingError, i128) queue_fn" where
  "reveal_withdraw_protected h tk self user i =
     tryM (map_err of_MevProtectionError (reveal_withdraw h user i)) (\<lambda>(asset, amount).
     map_err of_WithdrawError (withdraw_collateral h tk self user asset amount))"

definition reveal_liquidation_protected :: "host \<Rightarrow> tokens \<Rightarrow> address \<Rightarrow> address \<Rightarrow> u64 \<Rightarrow> ('z, LendingError, i128 \<times> i128 \<times> i128) queue_fn" where
  "reveal_liquidation_protected h tk self liquidator i =
     tryM (map_err of_MevProtectionError (reveal_liquidation h liquidator i)) (\<lambda>(borrower, owed_asset, collateral_asset, amount).
     map_err of_LiquidationError (liquidate h tk self liquidator borrower owed_asset collateral_asset amount))"

definition cancel_mev_commit :: "host \<Rightarrow> address \<Rightarrow> u64 \<Rightarrow> ('z, LendingError, unit) queue_fn" where
  "cancel_mev_commit h user i = map_err of_MevProtectionError (cancel_commit h user i)"

section \<open>The liquidation queue: liquidation_queue.rs\<close>

definition LIQUIDATION_THRESHOLD_BPS :: i128 where "LIQUIDATION_THRESHOLD_BPS = 10000"
definition SEVERE_HEALTH_MULTIPLIER :: i128 where "SEVERE_HEALTH_MULTIPLIER = 2"
definition CRITICAL_HEALTH_MULTIPLIER :: i128 where "CRITICAL_HEALTH_MULTIPLIER = 3"
definition SEVERE_HEALTH_THRESHOLD_BPS :: i128 where "SEVERE_HEALTH_THRESHOLD_BPS = 8000"
definition CRITICAL_HEALTH_THRESHOLD_BPS :: i128 where "CRITICAL_HEALTH_THRESHOLD_BPS = 5000"
definition MAX_QUEUE_SIZE :: u32 where "MAX_QUEUE_SIZE = 1000"
definition QUEUE_ENTRY_EXPIRATION :: u64 where "QUEUE_ENTRY_EXPIRATION = 86400"

definition queue_default_config :: QueueConfig where
  "queue_default_config = \<lparr>max_queue_size = MAX_QUEUE_SIZE, entry_expiration = QUEUE_ENTRY_EXPIRATION, fifo_enabled = True, priority_enabled = True\<rparr>"

definition initialize_queue :: "QueueConfig \<Rightarrow> ('z, LendingError, unit) queue_fn" where
  "initialize_queue c =
     writes (\<lambda>s. s\<lparr>LiquidationQueueConfigKey := Some c\<rparr>) (
     writes (\<lambda>s. s\<lparr>NextLiquidationQueueId := Some 0\<rparr>)
     (ret ()))"

definition get_queue_config :: "'z hw_queue_scheme \<Rightarrow> QueueConfig" where
  "get_queue_config s = unwrap_or (LiquidationQueueConfigKey s) queue_default_config"

definition next_queue_id :: "'z hw_queue_scheme \<Rightarrow> u64" where
  "next_queue_id s = unwrap_or (NextLiquidationQueueId s) 0"

definition save_entry :: "u64 \<Rightarrow> LiquidationQueueEntry \<Rightarrow> 'z hw_queue_scheme \<Rightarrow> 'z hw_queue_scheme" where
  "save_entry i e s = s\<lparr>LiquidationQueueEntryKey := (LiquidationQueueEntryKey s)(i \<mapsto> e)\<rparr>"

definition queue_publish :: "queue_event \<Rightarrow> 'z hw_queue_scheme \<Rightarrow> 'z hw_queue_scheme" where
  "queue_publish e s = s\<lparr>queue_log := queue_log s @ [e]\<rparr>"

definition get_pending_queue_entries :: "'z hw_queue_scheme \<Rightarrow> LiquidationQueueEntry list" where
  "get_pending_queue_entries s =
     filter (\<lambda>e. qe_status e = QPending) (List.map_filter (LiquidationQueueEntryKey s) [0..<next_queue_id s])"

definition calculate_priority_score :: "i128 \<Rightarrow> i128 \<Rightarrow> ('s, LendingError, i128) contract_fn" where
  "calculate_priority_score health_factor debt =
     unwrap (checked_sub 10000 health_factor) (\<lambda>base_score.
     let multiplier = (if health_factor \<le> CRITICAL_HEALTH_THRESHOLD_BPS then CRITICAL_HEALTH_MULTIPLIER
                       else if health_factor \<le> SEVERE_HEALTH_THRESHOLD_BPS then SEVERE_HEALTH_MULTIPLIER else 1);
         debt_bonus = min (debt sdiv 1000000) 1000 in
     unwrap (checked_mul base_score multiplier) (\<lambda>m.
     unwrap (checked_add m debt_bonus) ret))"

definition register_liquidation_interest :: "host \<Rightarrow> address \<Rightarrow> address \<Rightarrow> ('z, LendingError, u64) queue_fn" where
  "register_liquidation_interest h liquidator borrower =
     tryM (require_auth h liquidator) (\<lambda>_.
     tryM (map_err (\<lambda>_. LendingError.InvalidState) (calculate_health_factor borrower)) (\<lambda>health_factor.
     fail_if (health_factor \<ge> LIQUIDATION_THRESHOLD_BPS) LendingError.InvalidState (
     reads get_queue_config (\<lambda>cfg.
     reads get_pending_queue_entries (\<lambda>queue.
     fail_if (length queue \<ge> max_queue_size cfg) LendingError.LimitExceeded (
     tryM (map_err (\<lambda>_. LendingError.DataNotFound) (get_user_position_summary borrower)) (\<lambda>p.
     tryM (calculate_priority_score health_factor (hp_debt p)) (\<lambda>priority_score.
     reads next_queue_id (\<lambda>i.
     unwrap (checked_add_u64 (now h) (entry_expiration cfg)) (\<lambda>expires_at.
     let e = \<lparr>qe_id = i, qe_borrower = borrower, qe_liquidator = liquidator, qe_health_factor = health_factor,
              qe_priority_score = priority_score, qe_queued_at = now h, qe_expires_at = expires_at, qe_status = QPending,
              qe_debt_value = hp_debt p, qe_collateral_value = hp_collateral p\<rparr> in
     writes (save_entry i e) (
     unwrap (checked_add_u64 i 1) (\<lambda>next_id.
     writes (\<lambda>s. s\<lparr>NextLiquidationQueueId := Some next_id\<rparr>) (
     writes (queue_publish (LiquidationQueuedEvent i borrower liquidator health_factor priority_score (now h)))
     (ret i))))))))))))))"

fun cleanup_loop :: "host \<Rightarrow> u64 list \<Rightarrow> u32 \<Rightarrow> ('z, 'e, u32) queue_fn" where
  "cleanup_loop h [] cleaned = ret cleaned"
| "cleanup_loop h (i # is) cleaned =
     reads (\<lambda>s. LiquidationQueueEntryKey s i) (\<lambda>x.
     case x of
       None \<Rightarrow> cleanup_loop h is cleaned
     | Some e \<Rightarrow>
         if qe_status e = QPending \<and> now h > qe_expires_at e then
           writes (save_entry i (e\<lparr>qe_status := QExpired\<rparr>)) (
           unwrap (checked_add_u32 cleaned 1) (cleanup_loop h is))
         else cleanup_loop h is cleaned)"

definition cleanup_expired_entries :: "host \<Rightarrow> ('z, 'e, u32) queue_fn" where
  "cleanup_expired_entries h = reads next_queue_id (\<lambda>n. cleanup_loop h [0..<n] 0)"

fun best_entry :: "LiquidationQueueEntry option \<Rightarrow> i128 \<Rightarrow> LiquidationQueueEntry list \<Rightarrow> LiquidationQueueEntry option" where
  "best_entry best best_score [] = best"
| "best_entry best best_score (e # es) =
     (if qe_priority_score e > best_score then best_entry (Some e) (qe_priority_score e) es else best_entry best best_score es)"

fun oldest_entry :: "LiquidationQueueEntry option \<Rightarrow> u64 \<Rightarrow> LiquidationQueueEntry list \<Rightarrow> LiquidationQueueEntry option" where
  "oldest_entry oldest oldest_time [] = oldest"
| "oldest_entry oldest oldest_time (e # es) =
     (if qe_queued_at e < oldest_time then oldest_entry (Some e) (qe_queued_at e) es else oldest_entry oldest oldest_time es)"

definition get_next_liquidation :: "host \<Rightarrow> ('z, LendingError, LiquidationQueueEntry option) queue_fn" where
  "get_next_liquidation h =
     reads get_queue_config (\<lambda>cfg.
     reads get_pending_queue_entries (\<lambda>queue0.
     if queue0 = [] then ret None else
     tryM (cleanup_expired_entries h) (\<lambda>_.
     reads get_pending_queue_entries (\<lambda>queue.
     if queue = [] then ret None
     else if priority_enabled cfg then ret (best_entry None i128_min queue)
     else ret (oldest_entry None u64_max queue)))))"

definition process_queue_liquidation :: "host \<Rightarrow> u64 \<Rightarrow> address \<Rightarrow> ('z, LendingError, unit) queue_fn" where
  "process_queue_liquidation h i executor =
     tryM (require_auth h executor) (\<lambda>_.
     reads (\<lambda>s. LiquidationQueueEntryKey s i) (\<lambda>x. ok_or x LendingError.DataNotFound (\<lambda>e.
     fail_if (qe_status e \<noteq> QPending) LendingError.InvalidState (
     if now h > qe_expires_at e then
       writes (save_entry i (e\<lparr>qe_status := QExpired\<rparr>)) (fail LendingError.InvalidState)
     else
       tryM (map_err (\<lambda>_. LendingError.InvalidState) (calculate_health_factor (qe_borrower e))) (\<lambda>current_health.
       if current_health \<ge> LIQUIDATION_THRESHOLD_BPS then
         writes (save_entry i (e\<lparr>qe_status := QCancelled\<rparr>)) (fail LendingError.InvalidState)
       else
         writes (save_entry i (e\<lparr>qe_status := QProcessing\<rparr>)) (
         writes (save_entry i (e\<lparr>qe_status := QCompleted\<rparr>)) (
         writes (queue_publish (LiquidationProcessedEvent i (qe_borrower e) (qe_liquidator e) executor (now h)))
         (ret ()))))))))"

definition cancel_queue_entry :: "host \<Rightarrow> u64 \<Rightarrow> address \<Rightarrow> ('z, LendingError, unit) queue_fn" where
  "cancel_queue_entry h i caller =
     tryM (require_auth h caller) (\<lambda>_.
     reads (\<lambda>s. LiquidationQueueEntryKey s i) (\<lambda>x. ok_or x LendingError.DataNotFound (\<lambda>e.
     reads AdminKey (\<lambda>y. ok_or y LendingError.Unauthorized (\<lambda>admin.
     fail_if (caller \<noteq> qe_liquidator e \<and> caller \<noteq> admin) LendingError.Unauthorized (
     fail_if (qe_status e \<noteq> QPending) LendingError.InvalidState (
     writes (save_entry i (e\<lparr>qe_status := QCancelled\<rparr>)) (
     writes (queue_publish (LiquidationCancelledEvent i caller (now h)))
     (ret ())))))))))"

definition count_status :: "'z hw_queue_scheme \<Rightarrow> QueueEntryStatus \<Rightarrow> nat" where
  "count_status s st = length (filter (\<lambda>e. qe_status e = st) (List.map_filter (LiquidationQueueEntryKey s) [0..<next_queue_id s]))"

definition get_queue_stats :: "('z, LendingError, QueueStats) queue_fn" where
  "get_queue_stats =
     reads (\<lambda>s. \<lparr>qs_total_entries = next_queue_id s, qs_pending = count_status s QPending, qs_processing = count_status s QProcessing,
       qs_completed = count_status s QCompleted, qs_expired = count_status s QExpired, qs_cancelled = count_status s QCancelled\<rparr>) (\<lambda>q.
     if qs_pending q > u32_max \<or> qs_processing q > u32_max \<or> qs_completed q > u32_max \<or> qs_expired q > u32_max \<or> qs_cancelled q > u32_max
     then panic else ret q)"

end
