(* ===== verification/HW_Valuation.thy ===== *)
theory HW_Valuation
  imports HW_Entries
begin

text \<open>
  What the value of a user's collateral depends on. A price that is read may be cached, may extend the price history and
  may trip the price breaker, so the value is a run of the code on a storage. It is the same on any two storages with the
  same collateral, prices and price caches: the rest of the storage does not matter, and is left alone.
\<close>

section \<open>Whatever the outcome\<close>

text \<open>Where the code swallows an error, what was written before it stays; then the relation has to hold for every outcome.\<close>

definition stays :: "('s \<Rightarrow> 's \<Rightarrow> bool) \<Rightarrow> ('s, 'e, 'a) contract_fn \<Rightarrow> bool" where
  "stays R m \<longleftrightarrow> (\<forall>s. R s (snd (m s)))"

lemma stays_leads: "stays R m \<Longrightarrow> leads R m"
  unfolding stays_def leads_def by (metis snd_conv)

lemma staysD: "stays R m \<Longrightarrow> m s = (r, t) \<Longrightarrow> R s t"
  unfolding stays_def by (metis snd_conv)

lemma stays_or_default: "stays R m \<Longrightarrow> stays R (or_default m d)"
  unfolding stays_def or_default_def by (auto split: res.splits prod.splits) (metis snd_conv)+

lemma stays_map_err: "stays R m \<Longrightarrow> stays R (map_err g m)"
  unfolding stays_def map_err_def by (auto split: res.splits prod.splits) (metis snd_conv)+

context frame_relation
begin

lemma stays_ends: "stays R (ret a)" "stays R (fail e)" "stays R panic" "stays R (Pair r)"
  by (simp_all add: stays_def unchanged)

lemma stays_reads: "(\<And>x. stays R (k x)) \<Longrightarrow> stays R (reads f k)"
  by (simp add: stays_def)

lemma stays_writes: "(\<And>s. R s (f s)) \<Longrightarrow> stays R k \<Longrightarrow> stays R (writes f k)"
  unfolding stays_def writes_run by (meson step_trans)

lemma stays_fail_if: "stays R k \<Longrightarrow> stays R (fail_if c e k)"
  by (simp add: stays_def fail_if_run unchanged)

lemma stays_ok_or: "(\<And>x. stays R (k x)) \<Longrightarrow> stays R (ok_or y e k)"
  by (cases y) (simp_all add: stays_def ok_or_run unchanged)

lemma stays_unwrap: "(\<And>x. stays R (k x)) \<Longrightarrow> stays R (unwrap y k)"
  by (cases y) (simp_all add: stays_def unwrap_run unchanged)

lemma stays_tryM:
  assumes "stays R m" and "\<And>x. stays R (k x)"
  shows "stays R (tryM m k)"
  unfolding stays_def
proof
  fix s
  obtain r t where m: "m s = (r, t)" by (cases "m s")
  with assms(1) have "R s t" by (rule staysD)
  moreover have "R t (snd (k a t))" for a using assms(2) by (simp add: stays_def)
  ultimately show "R s (snd (tryM m k s))" using m by (cases r) (auto simp: tryM_run intro: step_trans)
qed

lemma stays_if: "stays R m \<Longrightarrow> stays R m' \<Longrightarrow> stays R (if c then m else m')"
  by simp

lemma stays_case_option: "(\<And>y. stays R (k y)) \<Longrightarrow> stays R m \<Longrightarrow> stays R (case x of None \<Rightarrow> m | Some y \<Rightarrow> k y)"
  by (cases x) simp_all

lemma stays_case_prod: "(\<And>a b. stays R (k a b)) \<Longrightarrow> stays R (case x of (a, b) \<Rightarrow> k a b)"
  by (cases x) simp

lemma stays_case_bool: "stays R m \<Longrightarrow> stays R m' \<Longrightarrow> stays R (case x of True \<Rightarrow> m | False \<Rightarrow> m')"
  by (cases x) simp_all

lemma stays_let: "(\<And>y. stays R (k y)) \<Longrightarrow> stays R (let y = x in k y)"
  by (simp add: Let_def)

lemmas stay_rules = stays_ends stays_reads stays_writes stays_fail_if stays_ok_or stays_unwrap stays_tryM stays_map_err
  stays_or_default stays_if stays_case_option stays_case_prod stays_case_bool stays_let

end

section \<open>What the rest does not matter to\<close>

text \<open>From related storages the function gives the same result, and related storages again.\<close>

definition heeds :: "('s \<Rightarrow> 's \<Rightarrow> bool) \<Rightarrow> ('s, 'e, 'a) contract_fn \<Rightarrow> bool" where
  "heeds R m \<longleftrightarrow> (\<forall>s t. R s t \<longrightarrow> fst (m t) = fst (m s) \<and> R (snd (m s)) (snd (m t)))"

lemma heedsD: "heeds R m \<Longrightarrow> R s t \<Longrightarrow> m s = (r, s') \<Longrightarrow> \<exists>t'. m t = (r, t') \<and> R s' t'"
  unfolding heeds_def by (metis fst_conv snd_conv surjective_pairing)

lemma heeds_fst: "heeds R m \<Longrightarrow> R s t \<Longrightarrow> fst (m t) = fst (m s)"
  by (simp add: heeds_def)

lemma heeds_ends: "heeds R (ret a)" "heeds R (fail e)" "heeds R panic" "heeds R (Pair r)"
  by (simp_all add: heeds_def)

lemma heeds_reads: "(\<And>s t. R s t \<Longrightarrow> f t = f s) \<Longrightarrow> (\<And>x. heeds R (k x)) \<Longrightarrow> heeds R (reads f k)"
  by (simp add: heeds_def)

lemma heeds_writes: "(\<And>s t. R s t \<Longrightarrow> R (f s) (f t)) \<Longrightarrow> heeds R k \<Longrightarrow> heeds R (writes f k)"
  by (simp add: heeds_def)

lemma heeds_fail_if: "heeds R k \<Longrightarrow> heeds R (fail_if c e k)"
  by (simp add: heeds_def fail_if_run)

lemma heeds_ok_or: "(\<And>x. heeds R (k x)) \<Longrightarrow> heeds R (ok_or y e k)"
  by (cases y) (simp_all add: heeds_def ok_or_run)

lemma heeds_tryM:
  assumes "heeds R m" and "\<And>x. heeds R (k x)"
  shows "heeds R (tryM m k)"
  unfolding heeds_def
proof (intro allI impI)
  fix s t assume "R s t"
  obtain r s' where m: "m s = (r, s')" by (cases "m s")
  from heedsD [OF assms(1) \<open>R s t\<close> m] obtain t' where t': "m t = (r, t')" "R s' t'" by blast
  show "fst (tryM m k t) = fst (tryM m k s) \<and> R (snd (tryM m k s)) (snd (tryM m k t))"
    using m t' assms(2) by (cases r) (auto simp: tryM_run heeds_def)
qed

lemma heeds_map_err: "heeds R m \<Longrightarrow> heeds R (map_err g m)"
  unfolding heeds_def map_err_def by (auto split: res.splits prod.splits) (metis fst_conv snd_conv res.inject res.distinct)+

lemma heeds_or_default: "heeds R m \<Longrightarrow> heeds R (or_default m d)"
  unfolding heeds_def or_default_def by (auto split: res.splits prod.splits) (metis fst_conv snd_conv res.inject res.distinct)+

lemma heeds_if: "heeds R m \<Longrightarrow> heeds R m' \<Longrightarrow> heeds R (if c then m else m')"
  by simp

lemma heeds_case_option: "(\<And>y. heeds R (k y)) \<Longrightarrow> heeds R m \<Longrightarrow> heeds R (case x of None \<Rightarrow> m | Some y \<Rightarrow> k y)"
  by (cases x) simp_all

lemma heeds_case_prod: "(\<And>a b. heeds R (k a b)) \<Longrightarrow> heeds R (case x of (a, b) \<Rightarrow> k a b)"
  by (cases x) simp

lemma heeds_let: "(\<And>y. heeds R (k y)) \<Longrightarrow> heeds R (let y = x in k y)"
  by (simp add: Let_def)

lemmas heed_rules = heeds_ends heeds_reads heeds_writes heeds_fail_if heeds_ok_or heeds_tryM heeds_map_err
  heeds_or_default heeds_if heeds_case_option heeds_case_prod heeds_let

section \<open>What the value is computed from\<close>

definition same_worth :: "'z hw_book_scheme \<Rightarrow> 'z hw_book_scheme \<Rightarrow> bool" where
  "same_worth s t \<longleftrightarrow>
     CollateralBalance t = CollateralBalance s \<and> UserAssetCollateral t = UserAssetCollateral s \<and> UserAssetList t = UserAssetList s \<and>
     AssetParamsKey t = AssetParamsKey s \<and>
     PriceFeedKey t = PriceFeedKey s \<and> FallbackOracleKey t = FallbackOracleKey s \<and> FallbackFeedKey t = FallbackFeedKey s \<and>
     OracleConfigKey t = OracleConfigKey s \<and> OracleSourcesKey t = OracleSourcesKey s \<and> SourceFeedKey t = SourceFeedKey s \<and>
     PriceCacheKey t = PriceCacheKey s \<and> PriceHistoryKey t = PriceHistoryKey s \<and> BreakerKey t = BreakerKey s"

interpretation worth: frame_relation same_worth
  by unfold_locales (auto simp: same_worth_def)

lemma same_worth_sym: "same_worth s t \<Longrightarrow> same_worth t s"
  by (simp add: same_worth_def)

lemma same_worth_reads:
  assumes "same_worth s t"
  shows "get_oracle_config t = get_oracle_config s" "get_breaker_state t = get_breaker_state s" "load_history t = load_history s"
    "is_breaker_open h t = is_breaker_open h s" "get_cached_price h t = get_cached_price h s" "collect_prices h t = collect_prices h s"
    "get_user_asset_collateral t = get_user_asset_collateral s" "get_user_asset_list t = get_user_asset_list s"
    "get_collateral_factor t = get_collateral_factor s" "has_multi_asset_collateral t = has_multi_asset_collateral s"
    "collateral_of t = collateral_of s" "asset_param f d asset t = asset_param f d asset s" "target_balance t = target_balance s"
proof -
  note eq = assms [unfolded same_worth_def]
  show c: "get_oracle_config t = get_oracle_config s" using eq by (simp add: get_oracle_config_def)
  have stale: "is_price_stale h t n = is_price_stale h s n" for h n by (simp add: is_price_stale_def c)
  have see: "see_feed h t f = see_feed h s f" for h f unfolding see_feed_def stale ..
  have fallback: "see_fallback h t a acc = see_fallback h s a acc" for h a acc
    using eq unfolding see_fallback_def stale get_fallback_oracle_def by simp
  show "collect_prices h t = collect_prices h s"
    using eq by (intro ext) (simp add: collect_prices_def see fallback get_source_feed_def get_oracle_sources_def)
  show "get_breaker_state t = get_breaker_state s" "load_history t = load_history s" "is_breaker_open h t = is_breaker_open h s"
    "get_cached_price h t = get_cached_price h s" "get_user_asset_collateral t = get_user_asset_collateral s"
    "get_user_asset_list t = get_user_asset_list s" "get_collateral_factor t = get_collateral_factor s"
    "has_multi_asset_collateral t = has_multi_asset_collateral s" "collateral_of t = collateral_of s" "asset_param f d asset t = asset_param f d asset s"
    "target_balance t = target_balance s"
    using eq by (auto simp: get_breaker_state_def load_history_def is_breaker_open_def get_cached_price_def get_user_asset_collateral_def
        get_user_asset_list_def get_collateral_factor_def has_multi_asset_collateral_def collateral_of_def asset_param_def target_balance_def
        fun_eq_iff split: option.splits)
qed

lemma price_writes_worth:
  assumes "same_worth s t"
  shows "same_worth (set_breaker_state a b s) (set_breaker_state a b t)" "same_worth (append_observation h a p s) (append_observation h a p t)"
    "same_worth (cache_price h a p s) (cache_price h a p t)" "same_worth (record_safe_price a p s) (record_safe_price a p t)"
  using assms same_worth_reads(1-3) [OF assms]
  by (simp_all add: same_worth_def set_breaker_state_def append_observation_def save_history_def cache_price_def record_safe_price_def)

lemma price_heeds:
  "heeds same_worth (deviation a b)" "heeds same_worth (maybe_trip_breaker h x p)" "heeds same_worth (median_i128 vs)"
  "heeds same_worth (compute_twap h x p)" "heeds same_worth (aggregate_spot_price h x)" "heeds same_worth (get_price h x)"
proof -
  show dev: "heeds same_worth (deviation a b)" for a b
    unfolding deviation_def by (intro heed_rules)
  show trip: "heeds same_worth (maybe_trip_breaker h x p)" for h x p
    unfolding maybe_trip_breaker_def by (intro heed_rules dev; simp add: same_worth_reads price_writes_worth)
  show med: "heeds same_worth (median_i128 vs)" for vs
    unfolding median_i128_def by (intro heed_rules)
  have seg: "heeds same_worth (add_segment x dt acc)" for x dt acc
    unfolding add_segment_def by (intro heed_rules)
  have loop: "heeds same_worth (twap_loop h w prev prev_t acc obs)" for h w prev prev_t acc obs
    by (induction h w prev prev_t acc obs rule: twap_loop.induct) (auto intro!: heed_rules seg)
  show twap: "heeds same_worth (compute_twap h x p)" for h x p
    unfolding compute_twap_def by (intro heed_rules loop seg; simp add: same_worth_reads)
  have keep: "heeds same_worth (keep_close l m kept ps)" for l m kept ps
    by (induction l m kept ps rule: keep_close.induct) (auto intro!: heed_rules dev)
  have flt: "heeds same_worth (filter_outliers m ps)" for m ps
    unfolding filter_outliers_def by (intro heed_rules keep; simp add: same_worth_reads)
  show agg: "heeds same_worth (aggregate_spot_price h x)" for h x
    unfolding aggregate_spot_price_def by (intro heed_rules flt med; simp add: same_worth_reads)
  show "heeds same_worth (get_price h x)"
    unfolding get_price_def by (intro heed_rules agg trip twap; simp add: same_worth_reads price_writes_worth)
qed

lemma worth_heeds:
  "heeds same_worth (add_asset_values h user acc assets)" "heeds same_worth (calculate_total_collateral_value h user)"
  "heeds same_worth (effective_collateral h e user)" "heeds same_worth (value_for_check h user oa ca n)"
proof -
  have price: "heeds same_worth (get_oracle_price h x)" "heeds same_worth (get_asset_price h x)" for h x
    unfolding get_oracle_price_def get_asset_price_def by (intro heed_rules price_heeds)+
  have one: "heeds same_worth (price_or_one h y)" for h y
    unfolding price_or_one_def by (intro heed_rules price)
  show add: "heeds same_worth (add_asset_values h user acc assets)" for h user acc assets
    by (induction assets arbitrary: acc) (auto intro!: heed_rules price simp: same_worth_reads)
  show total: "heeds same_worth (calculate_total_collateral_value h user)" for h user
    unfolding calculate_total_collateral_value_def by (intro heed_rules add; simp add: same_worth_reads)
  show "heeds same_worth (effective_collateral h e user)"
    unfolding effective_collateral_def by (intro heed_rules total; simp add: same_worth_reads)
  have conv: "heeds same_worth (hw_calculate_collateral_value a b c)" for a b c
    unfolding hw_calculate_collateral_value_def by (intro heed_rules)
  show "heeds same_worth (value_for_check h user oa ca n)"
    unfolding value_for_check_def by (intro heed_rules total one conv; simp add: same_worth_reads)
qed

section \<open>What leaves the worth alone\<close>

lemma guard_keeps_worth:
  "stays same_worth (consume h caller user op pool)" "stays same_worth (require_intent_auth h au self user op nonce at xs)"
  "stays same_worth (is_liquidation_allowed h user)" "stays same_worth (check_liquidation_pause h user)"
proof -
  have rate: "stays same_worth (refill_per_second c)" for c
    unfolding refill_per_second_def by (intro worth.stay_rules)
  have refill: "stays same_worth (refill_bucket h b c cap)" for h b c cap
    unfolding refill_bucket_def by (intro worth.stay_rules rate)
  have take: "stays same_worth (take_token h c cap b)" for h c cap b
    unfolding take_token_def by (intro worth.stay_rules refill)
  show "stays same_worth (consume h caller user op pool)"
    unfolding consume_def by (intro worth.stay_rules take; simp add: same_worth_def)
  show "stays same_worth (require_intent_auth h au self user op nonce at xs)"
    unfolding require_intent_auth_def by (intro worth.stay_rules; simp add: same_worth_def set_next_nonce_def)
  show allowed: "stays same_worth (is_liquidation_allowed h user)" for user
    unfolding is_liquidation_allowed_def get_circuit_breaker_state_def
    by (intro worth.stay_rules; simp add: same_worth_def guard_publish_def split: CircuitBreakerStatus.split; intro conjI impI worth.stay_rules)
  show "stays same_worth (check_liquidation_pause h user)"
    unfolding check_liquidation_pause_def require_operation_not_paused_def by (intro worth.stay_rules allowed)
qed

lemma small_writes_worth: "same_worth s (s\<lparr>ReentrancyLock := b\<rparr>)" "same_worth s (set_user_index user n s)"
  by (simp_all add: same_worth_def set_user_index_def)

section \<open>The value a loan is measured with\<close>

text \<open>
  The contract values the collateral twice on the way to a loan: for the most that may be borrowed, and again for the ratio
  after the loan, on the storage that the first valuation left. This is the second value, from the storage before the call,
  with the asset's factor applied where the user has no recorded tokens.
\<close>

definition borrowing_value :: "host \<Rightarrow> address \<Rightarrow> address option \<Rightarrow> 'z hw_book_scheme \<Rightarrow> i128 option" where
  "borrowing_value h user asset s =
     (case effective_collateral h BorrowError.Overflow user s of
        (Ok _, s1) \<Rightarrow>
          (case fst (effective_collateral h BorrowError.Overflow user s1) of
             Ok (v, raw) \<Rightarrow> Some (if raw then v * asset_param ap_collateral_factor 10000 asset s sdiv 10000 else v)
           | _ \<Rightarrow> None)
      | _ \<Rightarrow> None)"

lemma borrowing_value_same:
  assumes "same_worth s t"
  shows "borrowing_value h user asset t = borrowing_value h user asset s"
proof -
  let ?e = "effective_collateral h BorrowError.Overflow user"
  obtain r s1 where s1: "?e s = (r, s1)" by (cases "?e s")
  from heedsD [OF worth_heeds(3) assms s1] obtain t1 where t1: "?e t = (r, t1)" "same_worth s1 t1" by blast
  then have "fst (?e t1) = fst (?e s1)" by (intro heeds_fst [OF worth_heeds(3)])
  then show ?thesis unfolding borrowing_value_def s1 t1(1) prod.case same_worth_reads(12) [OF assms] by (cases r) simp_all
qed

lemma borrowing_value_run:
  assumes "effective_collateral h BorrowError.Overflow user s = (Ok x, s1)"
    and "effective_collateral h BorrowError.Overflow user s1 = (Ok (v, raw), s2)"
  shows "borrowing_value h user asset s = Some (if raw then v * asset_param ap_collateral_factor 10000 asset s sdiv 10000 else v)"
  using assms by (simp add: borrowing_value_def)

lemma value_for_check_same:
  "same_worth s t \<Longrightarrow> fst (value_for_check h user oa ca n t) = fst (value_for_check h user oa ca n s)"
  by (rule heeds_fst [OF worth_heeds(4)])

end
