(* ===== verification/HW_Oracle_Properties.thy ===== *)
theory HW_Oracle_Properties
  imports HW_Oracle "HOL-Library.Multiset"
begin

text \<open>
  What the oracle promises: the hand-written insertion sort is a sort, so the median is the middle element, and a minority
  of the sources cannot move it; the time-weighted average stays between the observed prices; the circuit breaker limits
  how far an aggregated price moves. And what it does not: an accepted update is cached and answers every query until the
  cache expires, whatever the other sources say.
\<close>

section \<open>The sort\<close>

text \<open>Sifting puts the key at its place in the sorted prefix.\<close>

lemma sift_prefix:
  "sorted xs \<Longrightarrow> \<exists>zs. sift key (length xs) (xs @ y # ys) = zs @ ys \<and> mset zs = add_mset key (mset xs) \<and> sorted zs"
proof (induction xs arbitrary: y ys rule: rev_induct)
  case Nil
  show ?case by (rule exI [of _ "[key]"]) simp
next
  case (snoc x xs)
  have nth: "(xs @ [x] @ y # ys) ! length xs = x" by (simp add: nth_append)
  show ?case
  proof (cases "x \<le> key")
    case True
    then have "sift key (length (xs @ [x])) ((xs @ [x]) @ y # ys) = (xs @ [x, key]) @ ys"
      using nth by (simp add: list_update_append)
    moreover have "sorted (xs @ [x, key])" using snoc.prems True by (auto simp: sorted_append)
    ultimately show ?thesis by (intro exI [of _ "xs @ [x, key]"]) simp
  next
    case False
    have "sift key (length (xs @ [x])) ((xs @ [x]) @ y # ys) = sift key (length xs) (xs @ x # (x # ys))"
      using False nth by (simp add: list_update_append)
    moreover from snoc.IH [of x "x # ys"] snoc.prems obtain zs where zs:
      "sift key (length xs) (xs @ x # (x # ys)) = zs @ (x # ys)" "mset zs = add_mset key (mset xs)" "sorted zs"
      by (auto simp: sorted_append)
    moreover have "sorted (zs @ [x])"
    proof -
      have "set zs = insert key (set xs)" by (rule mset_eq_setD [of _ "key # xs", simplified]) (simp add: zs(2))
      then show ?thesis using zs(3) False snoc.prems by (auto simp: sorted_append)
    qed
    ultimately show ?thesis by (intro exI [of _ "zs @ [x]"]) (simp add: ac_simps)
  qed
qed

lemma sort_from_sorts:
  assumes "i \<le> length vs" and "sorted (take i vs)"
  shows "mset (sort_from i vs) = mset vs \<and> sorted (sort_from i vs)"
  using assms
proof (induction i vs rule: sort_from.induct)
  case (1 i vs)
  show ?case
  proof (cases "i < length vs")
    case True
    have split: "vs = take i vs @ vs ! i # drop (Suc i) vs" using True by (simp add: id_take_nth_drop)
    have len: "length (take i vs) = i" using True by simp
    from sift_prefix [OF 1(3), of "vs ! i" "vs ! i" "drop (Suc i) vs"] obtain zs where zs:
      "sift (vs ! i) i vs = zs @ drop (Suc i) vs" "mset zs = add_mset (vs ! i) (mset (take i vs))" "sorted zs"
      using split len by metis
    have "size (mset zs) = Suc i" using zs(2) len by (simp flip: size_mset)
    then have lz: "length zs = Suc i" by simp
    have "mset (sift (vs ! i) i vs) = mset (take i vs @ vs ! i # drop (Suc i) vs)" by (simp add: zs)
    then have m: "mset (sift (vs ! i) i vs) = mset vs" using split by simp
    have "mset (sort_from (i + 1) (sift (vs ! i) i vs)) = mset (sift (vs ! i) i vs) \<and> sorted (sort_from (i + 1) (sift (vs ! i) i vs))"
      by (rule 1(1) [OF True]) (use True zs lz in \<open>simp_all add: Suc_leI\<close>)
    then show ?thesis using True m by (simp add: sort_from.simps [of i vs])
  qed (use 1(2,3) in \<open>subst (1 2) sort_from.simps, simp\<close>)
qed

lemma sort_from_sort [simp]: "sort_from (Suc 0) vs = sort vs"
proof (cases vs)
  case (Cons x xs)
  have "sorted (take 1 vs)" by (simp add: Cons)
  then have "mset (sort_from 1 vs) = mset vs" "sorted (sort_from 1 vs)" using sort_from_sorts [of 1 vs] by (auto simp: Cons)
  then show ?thesis by (simp add: properties_for_sort)
qed (simp add: sort_from.simps)

text \<open>C25: The insertion sort over the vector, which updates it in place by index, is a sort: for every non-empty list of prices
  it terminates without an out-of-range access, and the median is the middle element of the sorted list.\<close>

theorem median_is_middle_of_sorted:
  "median_i128 vs s = (if vs = [] then (Err NotEnoughSources, s) else (Ok (sort vs ! (length vs div 2)), s)) \<and>
   length (sort_from 1 vs) = length vs"
  by (simp add: median_i128_def run_simps)

text \<open>A strict majority decides the median.\<close>

lemma sorted_middle_in:
  fixes xs :: "int list"
  assumes "sorted xs" and "length xs < 2 * length (filter (\<lambda>p. lo \<le> p \<and> p \<le> hi) xs)"
  shows "lo \<le> xs ! (length xs div 2) \<and> xs ! (length xs div 2) \<le> hi"
proof -
  let ?n = "length xs" and ?P = "\<lambda>p. lo \<le> p \<and> p \<le> hi"
  have card: "length (filter ?P xs) = card {i. i < ?n \<and> ?P (xs ! i)}" by (rule length_filter_conv_card)
  have ne: "0 < ?n" using assms(2) by (cases xs) auto
  have "lo \<le> xs ! (?n div 2)"
  proof (rule ccontr)
    assume "\<not> lo \<le> xs ! (?n div 2)"
    then have "\<not> ?P (xs ! i)" if "i \<le> ?n div 2" for i
      using sorted_nth_mono [OF assms(1), of i "?n div 2"] that ne by auto
    then have "{i. i < ?n \<and> ?P (xs ! i)} \<subseteq> {Suc (?n div 2)..<?n}" by (force simp: not_less_eq_eq)
    then have "card {i. i < ?n \<and> ?P (xs ! i)} \<le> ?n - Suc (?n div 2)" by (metis card_atLeastLessThan card_mono finite_atLeastLessThan)
    then show False using assms(2) card ne by linarith
  qed
  moreover have "xs ! (?n div 2) \<le> hi"
  proof (rule ccontr)
    assume "\<not> xs ! (?n div 2) \<le> hi"
    then have "\<not> ?P (xs ! i)" if "?n div 2 \<le> i" "i < ?n" for i
      using sorted_nth_mono [OF assms(1), of "?n div 2" i] that by auto
    then have "{i. i < ?n \<and> ?P (xs ! i)} \<subseteq> {..<?n div 2}" by (auto simp: not_le [symmetric])
    then have "card {i. i < ?n \<and> ?P (xs ! i)} \<le> ?n div 2" by (metis card_lessThan card_mono finite_lessThan)
    then show False using assms(2) card by linarith
  qed
  ultimately show ?thesis ..
qed

lemma median_Ok [ok_simps]: "median_i128 vs s = (Ok m, t) \<longleftrightarrow> vs \<noteq> [] \<and> m = sort vs ! (length vs div 2) \<and> t = s"
  by (auto simp: median_i128_def ok_simps)

lemma middle_in_set: "vs \<noteq> [] \<Longrightarrow> sort vs ! (length vs div 2) \<in> set vs"
  by (metis div_less_dividend length_greater_0_conv length_sort nth_mem one_less_numeral_iff semiring_norm(76) set_sort)

section \<open>Deviations and outliers\<close>

lemma deviation_Ok [ok_simps]:
  "deviation p q s = (Ok d, t) \<longleftrightarrow> t = s \<and> q \<noteq> 0 \<and> in_i128 (\<bar>p - q\<bar>) \<and> in_i128 (\<bar>p - q\<bar> * 10000) \<and>
     in_i128 (\<bar>p - q\<bar> * 10000 sdiv q) \<and> d = \<bar>p - q\<bar> * 10000 sdiv q"
  by (auto simp: deviation_def ok_simps checked_div_def abs_if)

lemma keep_close_Ok:
  "keep_close l m kept ps s = (Ok r, t) \<Longrightarrow>
     \<exists>qs. r = kept @ qs \<and> set qs \<subseteq> set ps \<and> (\<forall>q\<in>set qs. 0 < q \<and> \<bar>q - m\<bar> * 10000 sdiv m \<le> l) \<and> t = s"
proof (induction l m kept ps arbitrary: s rule: keep_close.induct)
  case (2 l m kept p ps)
  show ?case
  proof (cases "p \<le> 0")
    case True
    with 2 obtain qs where "r = kept @ qs" "set qs \<subseteq> set ps" "\<forall>q\<in>set qs. 0 < q \<and> \<bar>q - m\<bar> * 10000 sdiv m \<le> l" "t = s" by auto
    then show ?thesis by (intro exI [of _ qs]) auto
  next
    case False
    let ?d = "\<bar>p - m\<bar> * 10000 sdiv m"
    let ?k = "if ?d \<le> l then kept @ [p] else kept"
    from False 2(3) have "keep_close l m ?k ps s = (Ok r, t)" by (auto simp: ok_simps)
    from 2(2) [OF False this] obtain qs where qs: "r = ?k @ qs" "set qs \<subseteq> set ps"
        "\<forall>q\<in>set qs. 0 < q \<and> \<bar>q - m\<bar> * 10000 sdiv m \<le> l" "t = s" by auto
    then show ?thesis using False
      by (intro exI [of _ "(if ?d \<le> l then [p] else []) @ qs"]) auto
  qed
qed (auto simp: ok_simps)

lemma filter_outliers_Ok:
  assumes "filter_outliers m ps s = (Ok r, t)"
  shows "0 < m \<and> set r \<subseteq> set ps \<and> t = s \<and>
     (0 < outlier_deviation_bps (get_oracle_config s) \<longrightarrow>
       (\<forall>q\<in>set r. 0 < q \<and> \<bar>q - m\<bar> * 10000 sdiv m \<le> outlier_deviation_bps (get_oracle_config s)))"
  using assms by (auto simp: filter_outliers_def ok_simps not_le not_less dest!: keep_close_Ok split: if_splits)

lemma aggregate_Ok:
  assumes "aggregate_spot_price h a s = (Ok p, t)"
  obtains cs fs m where "fst (collect_prices h s a) = cs" "cs \<noteq> []" "m = sort cs ! (length cs div 2)"
    "filter_outliers m cs s = (Ok fs, s)" "min_sources (get_oracle_config s) \<le> length fs" "p \<in> set fs" "t = s"
  using assms
  by (auto simp: aggregate_spot_price_def ok_simps not_less split: prod.splits if_splits dest: filter_outliers_Ok
      intro!: that middle_in_set)

text \<open>C26: A minority of the sources cannot move the aggregated price: if more than half of the fresh prices lie in an interval,
  the price is one of the fresh prices and within the outlier band (in basis points) around a value of that interval.\<close>

theorem aggregation_resists_minority:
  assumes "aggregate_spot_price h a s = (Ok p, t)" and "cs = fst (collect_prices h s a)"
    and "length cs < 2 * length (filter (\<lambda>q. lo \<le> q \<and> q \<le> hi) cs)" and "0 < outlier_deviation_bps (get_oracle_config s)"
  shows "p \<in> set cs \<and> (\<exists>m. lo \<le> m \<and> m \<le> hi \<and> 0 < m \<and> \<bar>p - m\<bar> * 10000 div m \<le> outlier_deviation_bps (get_oracle_config s))"
proof -
  from assms(1) obtain fs m where m: "m = sort cs ! (length cs div 2)" and fs: "filter_outliers m cs s = (Ok fs, s)" and p: "p \<in> set fs"
    by (rule aggregate_Ok) (simp add: assms(2))
  have "length (sort cs) < 2 * length (filter (\<lambda>q. lo \<le> q \<and> q \<le> hi) (sort cs))"
    using assms(3) by (simp flip: size_mset add: mset_filter)
  from sorted_middle_in [OF _ this] have "lo \<le> m" "m \<le> hi" by (simp_all add: m)
  moreover from filter_outliers_Ok [OF fs] p assms(4) have "0 < m" "p \<in> set cs"
    "\<bar>p - m\<bar> * 10000 sdiv m \<le> outlier_deviation_bps (get_oracle_config s)" by auto
  ultimately show ?thesis by (auto simp: sdiv_nonneg_eq)
qed

section \<open>The time-weighted average\<close>

definition between :: "int \<Rightarrow> int \<Rightarrow> int \<Rightarrow> bool" where
  "between lo hi x \<longleftrightarrow> lo \<le> x \<and> x \<le> hi"

text \<open>A weighted sum of prices between \<open>lo\<close> and \<open>hi\<close>, no longer than the time \<open>t\<close>.\<close>

definition weighted :: "int \<Rightarrow> int \<Rightarrow> u64 \<Rightarrow> i128 \<times> u64 \<Rightarrow> bool" where
  "weighted lo hi t acc \<longleftrightarrow> lo * int (snd acc) \<le> fst acc \<and> fst acc \<le> hi * int (snd acc) \<and> snd acc \<le> t"

lemma add_segment_weighted:
  assumes "add_segment p dt acc s = (Ok r, s')" and "weighted lo hi t acc" and "between lo hi p" and "t + dt \<le> u64_max"
  shows "weighted lo hi (t + dt) r \<and> s' = s"
proof -
  have "snd acc + dt \<le> u64_max" using assms(2,4) by (simp add: weighted_def)
  then have r: "r = (fst acc + p * int dt, snd acc + dt)" "s' = s"
    using assms(1) by (auto simp: add_segment_def ok_simps saturating_add_u64_def)
  have "lo * int dt \<le> p * int dt" "p * int dt \<le> hi * int dt"
    using assms(3) by (simp_all add: between_def mult_right_mono)
  then show ?thesis using assms(2) by (simp add: r weighted_def algebra_simps)
qed

lemma twap_loop_weighted:
  "twap_loop h w prev prev_t acc obs s = (Ok (prev', t', acc'), s') \<Longrightarrow> weighted lo hi prev_t acc \<Longrightarrow>
     between lo hi (obs_price prev) \<Longrightarrow> \<forall>ob\<in>set obs. between lo hi (obs_price ob) \<Longrightarrow> sorted (map obs_timestamp obs) \<Longrightarrow>
     \<forall>ob\<in>set obs. w < obs_timestamp ob \<longrightarrow> prev_t \<le> obs_timestamp ob \<Longrightarrow> now h \<le> u64_max \<Longrightarrow>
     weighted lo hi t' acc' \<and> between lo hi (obs_price prev') \<and> s' = s"
proof (induction h w prev prev_t acc obs arbitrary: s rule: twap_loop.induct)
  case (2 h w prev prev_t acc cur rest)
  consider (skip) "obs_timestamp cur \<le> w" | (future) "w < obs_timestamp cur" "now h < obs_timestamp cur"
    | (seg) "w < obs_timestamp cur" "obs_timestamp cur \<le> now h" "prev_t < obs_timestamp cur"
    | (same) "w < obs_timestamp cur" "obs_timestamp cur \<le> now h" "obs_timestamp cur \<le> prev_t" by linarith
  then show ?case
  proof cases
    case skip
    with 2 show ?thesis by simp
  next
    case future
    with 2 show ?thesis by (simp add: ok_simps)
  next
    case seg
    let ?dt = "obs_timestamp cur - prev_t"
    from 2(4) seg obtain acc1 s1 where a: "add_segment (obs_price prev) ?dt acc s = (Ok acc1, s1)"
      and l: "twap_loop h w cur (obs_timestamp cur) acc1 rest s1 = (Ok (prev', t', acc'), s')" by (auto simp: ok_simps)
    have "prev_t + ?dt \<le> u64_max" using seg 2(10) by simp
    from add_segment_weighted [OF a 2(5,6) this] seg have "weighted lo hi (obs_timestamp cur) acc1" "s1 = s" by auto
    with 2(2) [OF _ _ _ l] seg 2(7-10) show ?thesis by auto
  next
    case same
    then have "prev_t = obs_timestamp cur" using 2(9) by auto
    with 2(3) [of s] 2(4-10) same show ?thesis by auto
  qed
qed (auto simp: ok_simps)

lemma start_index_bound: "start_index w i obs \<le> i + length obs - 1"
  by (induction w i obs rule: start_index.induct) auto

text \<open>C27: The time-weighted average never leaves the range of what was observed: if the recorded prices (in the order of time) and
  the current aggregate lie in an interval, so does the average, whatever the window, and no step overflows the total time.\<close>

theorem twap_between_observations:
  assumes "compute_twap h a spot s = (Ok p, t)" and "\<forall>ob\<in>set (load_history s a). lo \<le> obs_price ob \<and> obs_price ob \<le> hi"
    and "sorted (map obs_timestamp (load_history s a))" and "0 \<le> lo" and "lo \<le> spot" and "spot \<le> hi" and "now h \<le> u64_max"
  shows "lo \<le> p \<and> p \<le> hi \<and> t = s"
proof (cases "twap_window_seconds (get_oracle_config s) = 0 \<or> load_history s a = []")
  case True
  with assms(1,5,6) show ?thesis by (auto simp: compute_twap_def Let_def ok_simps)
next
  case False
  let ?hist = "load_history s a"
  define w where "w = now h - twap_window_seconds (get_oracle_config s)"
  define i where "i = start_index w 0 ?hist"
  define prev where "prev = ?hist ! i"
  define prev_t where "prev_t = (if obs_timestamp prev < w then w else obs_timestamp prev)"
  have i: "i < length ?hist" using start_index_bound [of w 0 ?hist] False by (cases ?hist) (auto simp: i_def)
  have "tryM (twap_loop h w prev prev_t (0, 0) (drop (i + 1) ?hist)) (\<lambda>(prev, prev_t, acc).
     tryM (if now h > prev_t then add_segment (if obs_timestamp prev = 0 then spot else obs_price prev) (now h - prev_t) acc else ret acc)
       (\<lambda>acc. if snd acc = 0 then ret spot else ok_or (checked_div (fst acc) (int (snd acc))) Overflow ret)) s = (Ok p, t)"
    using assms(1) False by (simp add: compute_twap_def Let_def w_def i_def prev_def prev_t_def case_prod_unfold cong: if_cong)
  then obtain prev' t' acc' s1 acc s2 where loop: "twap_loop h w prev prev_t (0, 0) (drop (i + 1) ?hist) s = (Ok (prev', t', acc'), s1)"
    and last: "(if now h > t' then add_segment (if obs_timestamp prev' = 0 then spot else obs_price prev') (now h - t') acc' else ret acc') s1
       = (Ok acc, s2)"
    and p: "(if snd acc = 0 then ret spot else ok_or (checked_div (fst acc) (int (snd acc))) Overflow ret) s2 = (Ok p, t)"
    unfolding tryM_Ok case_prod_unfold by (metis prod.collapse)
  have mono: "obs_timestamp prev \<le> obs_timestamp (?hist ! j)" if "i \<le> j" "j < length ?hist" for j
    using sorted_nth_mono [OF assms(3), of i j] that by (simp add: prev_def)
  have later: "\<forall>ob\<in>set (drop (i + 1) ?hist). w < obs_timestamp ob \<longrightarrow> prev_t \<le> obs_timestamp ob"
    using mono by (auto simp: in_set_conv_nth prev_t_def)
  have ins: "between lo hi (obs_price prev)" "\<forall>ob\<in>set (drop (i + 1) ?hist). between lo hi (obs_price ob)"
    using assms(2) i by (auto simp: between_def prev_def dest!: in_set_dropD)
  have "sorted (map obs_timestamp (drop (i + 1) ?hist))" using assms(3) by (simp flip: drop_map add: sorted_wrt_drop)
  from twap_loop_weighted [OF loop _ ins this later assms(7), unfolded weighted_def]
  have w': "weighted lo hi t' acc'" "between lo hi (obs_price prev')" "s1 = s" by (auto simp: weighted_def)
  have "between lo hi (if obs_timestamp prev' = 0 then spot else obs_price prev')"
    using w'(2) assms(5,6) by (simp add: between_def)
  with last w' add_segment_weighted [of _ "now h - t'" acc' s1 acc s2 lo hi t'] assms(7)
  have acc: "\<exists>x. weighted lo hi x acc" "s2 = s" by (auto simp: ok_simps max_def split: if_splits intro!: exI [of _ "max t' (now h)"])
  show ?thesis
  proof (cases "snd acc = 0")
    case False
    then have n: "0 < int (snd acc)" by simp
    have b: "lo * int (snd acc) \<le> fst acc" "fst acc \<le> hi * int (snd acc)" using acc by (auto simp: weighted_def)
    moreover have "0 \<le> lo * int (snd acc)" using assms(4) by simp
    ultimately have "0 \<le> fst acc" by linarith
    with p False n have "p = fst acc div int (snd acc)" "t = s" by (auto simp: ok_simps checked_div_def sdiv_nonneg_eq acc)
    moreover have "lo \<le> fst acc div int (snd acc)" using zdiv_mono1 [OF b(1) n] n by simp
    moreover have "fst acc div int (snd acc) \<le> hi" using zdiv_mono1 [OF b(2) n] n by simp
    ultimately show ?thesis by simp
  qed (use p assms(5,6) acc in \<open>simp add: ok_simps\<close>)
qed

section \<open>The circuit breaker\<close>

lemma maybe_trip_Ok:
  assumes "maybe_trip_breaker h a p s = (Ok u, t)" and "0 < breaker_deviation_bps (get_oracle_config s)"
    and "0 < last_safe_price (get_breaker_state s a)"
  shows "t = s \<and> \<bar>p - last_safe_price (get_breaker_state s a)\<bar> * 10000 div last_safe_price (get_breaker_state s a)
     \<le> breaker_deviation_bps (get_oracle_config s)"
  using assms by (auto simp: maybe_trip_breaker_def ok_simps sdiv_nonneg_eq not_less)

lemma compute_twap_state: "compute_twap h a p s = (Ok q, t) \<Longrightarrow> t = s"
proof -
  have seg: "add_segment x dt acc s = (Ok r, s') \<Longrightarrow> s' = s" for x dt acc r s s'
    by (auto simp: add_segment_def ok_simps)
  have loop: "twap_loop h w prev prev_t acc obs s = (Ok r, s') \<Longrightarrow> s' = s" for w prev prev_t acc obs r s s'
    by (induction h w prev prev_t acc obs arbitrary: s rule: twap_loop.induct) (auto simp: ok_simps dest: seg split: if_splits)
  show "compute_twap h a p s = (Ok q, t) \<Longrightarrow> t = s"
    by (auto simp: compute_twap_def Let_def ok_simps dest!: seg loop split: if_splits)
qed

lemma breaker_kept:
  "get_breaker_state (append_observation h a p s) = get_breaker_state s"
  "get_oracle_config (append_observation h a p s) = get_oracle_config s"
  "get_breaker_state (cache_price h a p s) = get_breaker_state s"
  by (simp_all add: append_observation_def save_history_def get_breaker_state_def get_oracle_config_def cache_price_def fun_eq_iff)

text \<open>The circuit breaker limits every aggregated price: while it is configured, a price that does not come from the cache is
  within the breaker's band around the last safe price, and becomes the next safe price; when the aggregate leaves the band the
  query fails, the breaker opens for the cooldown, and every query fails until then.\<close>

theorem breaker_limits_prices:
  assumes "get_cached_price h s a = None" and "0 < breaker_deviation_bps (get_oracle_config s)"
    and "0 < last_safe_price (get_breaker_state s a)"
  shows "(get_price h a s = (Ok p, t) \<longrightarrow>
      \<bar>p - last_safe_price (get_breaker_state s a)\<bar> * 10000 div last_safe_price (get_breaker_state s a)
         \<le> breaker_deviation_bps (get_oracle_config s) \<and> last_safe_price (get_breaker_state t a) = p) \<and>
    (is_breaker_open h' s a \<longrightarrow> get_price h' a s = (Err CircuitBreakerOpen, s))"
proof -
  have "get_price h' a s = (Err CircuitBreakerOpen, s)" if "is_breaker_open h' s a"
    using that by (simp add: get_price_def run_simps)
  moreover have "\<bar>p - last_safe_price (get_breaker_state s a)\<bar> * 10000 div last_safe_price (get_breaker_state s a)
         \<le> breaker_deviation_bps (get_oracle_config s) \<and> last_safe_price (get_breaker_state t a) = p"
    if "get_price h a s = (Ok p, t)"
  proof -
    from that assms(1) obtain spot s1 s2 s3 s4 where a: "aggregate_spot_price h a s = (Ok spot, s1)"
      and b: "maybe_trip_breaker h a spot s1 = (Ok (), s2)"
      and c: "compute_twap h a spot (append_observation h a spot s2) = (Ok p, s3)"
      and d: "maybe_trip_breaker h a p s3 = (Ok (), s4)" and t: "t = record_safe_price a p (cache_price h a p s4)"
      by (auto simp: get_price_def ok_simps)
    from a have s1: "s1 = s" by (rule aggregate_Ok)
    with maybe_trip_Ok [OF b] assms(2,3) have s2: "s2 = s" by simp
    with compute_twap_state [OF c] have s3: "s3 = append_observation h a spot s" by simp
    from maybe_trip_Ok [OF d] assms(2,3) show ?thesis
      by (simp add: s3 breaker_kept t record_safe_price_def set_breaker_state_def get_breaker_state_def)
  qed
  ultimately show ?thesis by blast
qed

text \<open>C28: One source sets the price: an accepted update is written to the cache, which answers before the sources are compared. So
  the first price of a configured fallback oracle, any price in the admissible range, is the price of the asset until
  the cache expires or another update arrives, whatever the primary and the other sources report.\<close>

theorem one_source_sets_the_price:
  assumes "get_fallback_oracle s a = Some f" and "AdminKey s \<noteq> Some f" and "get_primary_oracle s a \<noteq> Some f"
    and "FallbackFeedKey s a = None" and "\<not> legacy_pause s ''pause_oracle''"
    and "0 < p" and "min_price (get_oracle_config s) \<le> p" and "p \<le> max_price (get_oracle_config s)"
    and "now h \<le> now h'" and "now h' \<le> now h + cache_ttl_seconds (get_oracle_config s)" and "now h' \<le> u64_max"
    and "\<not> is_breaker_open h' s a"
  shows "\<exists>t. update_price_feed h f a p d f s = (Ok p, t) \<and> get_price h' a t = (Ok p, t)"
  using assms
  by (simp add: update_price_feed_def run_simps validate_price_def set_feed_def write_source_feed_def cache_price_def
      get_price_def is_breaker_open_def get_breaker_state_def get_cached_price_def get_oracle_config_def saturating_add_u64_def Let_def)

section \<open>A sample\<close>

text \<open>Asset 7: the primary oracle 3 reported 100, the sources 4 and 5 reported 101 and 900, and 6 is the fallback oracle.\<close>

definition sample_feed :: "address \<Rightarrow> i128 \<Rightarrow> PriceFeed" where
  "sample_feed f p = \<lparr>pf_price = p, pf_last_updated = 1000, pf_oracle = f, pf_decimals = 8\<rparr>"

definition empty_oracle :: hw_oracle where
  "empty_oracle = \<lparr>AdminKey = Some 9, RoleKey = (\<lambda>_. None), RiskConfigKey = None, EmergencyPauseKey = None, RiskParamsConfig = None,
     InterestRateConfigKey = None, LendingIndexKey = None, ProtocolAnalyticsKey = None, core_log = [],
     PriceFeedKey = (\<lambda>_. None), FallbackOracleKey = (\<lambda>_. None), PrimaryOracleKey = (\<lambda>_. None), FallbackFeedKey = (\<lambda>_. None),
     PriceCacheKey = (\<lambda>_. None), OracleConfigKey = None, PauseSwitchesKey = None, OracleSourcesKey = (\<lambda>_. None),
     SourceFeedKey = (\<lambda>_. None), PriceHistoryKey = (\<lambda>_. None), BreakerKey = (\<lambda>_. None), oracle_log = []\<rparr>"

definition oracle_sample :: hw_oracle where
  "oracle_sample = empty_oracle\<lparr>PrimaryOracleKey := [7 \<mapsto> 3], FallbackOracleKey := [7 \<mapsto> 6], PriceFeedKey := [7 \<mapsto> sample_feed 3 100],
     OracleSourcesKey := [7 \<mapsto> [4, 5]], SourceFeedKey := [(7, 4) \<mapsto> sample_feed 4 101, (7, 5) \<mapsto> sample_feed 5 900],
     PriceHistoryKey := [7 \<mapsto> [\<lparr>obs_price = 90, obs_timestamp = 500\<rparr>]],
     BreakerKey := [7 \<mapsto> \<lparr>open_until = 0, last_safe_price = 95, last_trip_timestamp = 0\<rparr>]\<rparr>"

lemmas oracle_consts = DEFAULT_MAX_DEVIATION_BPS_def DEFAULT_MAX_STALENESS_SECONDS_def DEFAULT_CACHE_TTL_SECONDS_def
  DEFAULT_MIN_PRICE_def DEFAULT_MAX_PRICE_def DEFAULT_TWAP_WINDOW_SECONDS_def DEFAULT_MAX_OBSERVATIONS_def
  DEFAULT_MIN_SOURCES_def DEFAULT_OUTLIER_DEVIATION_BPS_def DEFAULT_BREAKER_DEVIATION_BPS_def DEFAULT_BREAKER_COOLDOWN_SECONDS_def

lemmas oracle_eval = oracle_consts oracle_sample_def empty_oracle_def sample_feed_def sample_host_def run_simps Let_def checked_defs
  i128_defs u64_max_def sdiv_nonneg_eq get_oracle_config_def oracle_default_config_def get_fallback_oracle_def
  get_primary_oracle_def is_price_stale_def deviation_def get_breaker_state_def set_breaker_state_def is_breaker_open_def
  maybe_trip_breaker_def record_safe_price_def get_oracle_sources_def get_source_feed_def load_history_def save_history_def
  append_observation_def median_i128_def filter_outliers_def see_feed_def see_fallback_def collect_prices_def
  aggregate_spot_price_def add_segment_def compute_twap_def get_cached_price_def cache_price_def get_price_def
  saturating_add_u64_def legacy_pause_def

lemma oracle_sample_candidates: "fst (collect_prices (sample_host 1200) oracle_sample 7) = [100, 101, 900]"
  by (simp add: oracle_eval)

lemma oracle_sample_aggregates: "aggregate_spot_price (sample_host 1200) 7 oracle_sample = (Ok 101, oracle_sample)"
  by (simp add: oracle_eval)

theorem aggregation_resists_minority_witness:
  "(101::int) \<in> set [100, 101, 900] \<and> (\<exists>m. 100 \<le> m \<and> m \<le> 101 \<and> \<bar>101 - m\<bar> * 10000 div m \<le> (1000::int))"
proof -
  have "0 < outlier_deviation_bps (get_oracle_config oracle_sample)"
    "outlier_deviation_bps (get_oracle_config oracle_sample) = 1000" by (simp_all add: oracle_eval)
  with aggregation_resists_minority [OF oracle_sample_aggregates oracle_sample_candidates [symmetric], of 100 101]
  show ?thesis by auto
qed

lemma oracle_sample_twap: "fst (compute_twap (sample_host 1200) 7 101 oracle_sample) = Ok 90"
  by (simp add: oracle_eval)

theorem twap_between_observations_witness: "(90::int) \<le> 90 \<and> (90::int) \<le> 101"
proof -
  have "load_history oracle_sample 7 = [\<lparr>obs_price = 90, obs_timestamp = 500\<rparr>]" "now (sample_host 1200) \<le> u64_max"
    by (simp_all add: oracle_eval)
  with twap_between_observations [OF run_pair [OF oracle_sample_twap], of 90 101] show ?thesis by simp
qed

lemma oracle_sample_price: "fst (get_price (sample_host 1200) 7 oracle_sample) = Ok 90"
  by (simp add: oracle_eval)

theorem breaker_limits_prices_witness:
  "\<exists>t. get_price (sample_host 1200) 7 oracle_sample = (Ok 90, t) \<and> last_safe_price (get_breaker_state t 7) = 90 \<and>
     \<bar>90 - 95\<bar> * 10000 div 95 \<le> (2500::int)"
proof -
  have "get_cached_price (sample_host 1200) oracle_sample 7 = None" "last_safe_price (get_breaker_state oracle_sample 7) = 95"
    "breaker_deviation_bps (get_oracle_config oracle_sample) = 2500" by (simp_all add: oracle_eval)
  with breaker_limits_prices [of "sample_host 1200" oracle_sample 7 90 _ "sample_host 1200"] run_pair [OF oracle_sample_price]
  show ?thesis by fastforce
qed

theorem one_source_sets_the_price_witness:
  "\<exists>t. update_price_feed (sample_host 1000) 6 7 5000000 8 6 oracle_sample = (Ok 5000000, t) \<and>
     get_price (sample_host 1200) 7 t = (Ok 5000000, t)"
  by (rule one_source_sets_the_price) (simp_all add: oracle_eval)

end
