(* ===== verification/HW_Guards_Properties.thy ===== *)
theory HW_Guards_Properties
  imports HW_Guards HW_Oracle_Properties
begin

text \<open>
  What the guards promise: the rate limiter accepts no more calls than its configuration allows for the elapsed time,
  an intent is used once, and a credit score stays in its range and agrees with its history. And what they do not: a
  better credit score can lower the loan-to-value ratio.
\<close>

section \<open>The lock and the token calls\<close>

lemma with_guard_Ok [ok_simps]:
  "with_guard e m s = (Ok a, t) \<longleftrightarrow> \<not> ReentrancyLock s \<and>
     (\<exists>s2. m (s\<lparr>ReentrancyLock := True\<rparr>) = (Ok a, s2) \<and> t = guard_drop s2)"
  by (cases "m (s\<lparr>ReentrancyLock := True\<rparr>)") (auto simp: with_guard_def guard_new_def ok_simps)

lemma balance_of_Ok [ok_simps]:
  "balance_of tk token holder k s = (Ok a, t) \<longleftrightarrow> (\<exists>b. tok_balance tk (token_calls s) token holder = Some b \<and> k b s = (Ok a, t))"
  by (auto simp: balance_of_def ok_simps)

lemma made_token_call_Ok [ok_simps]:
  "call_token tk c s = (Ok u, t) \<longleftrightarrow> tok_accepts tk (token_calls s) c \<and> t = s\<lparr>token_calls := token_calls s @ [c]\<rparr>"
  by (auto simp: call_token_def ok_simps)

section \<open>The rate limiter\<close>

text \<open>The refill rate of a valid configuration, and its capacity, without the checks.\<close>

definition valid_limit :: "RateLimitConfig \<Rightarrow> bool" where
  "valid_limit c \<longleftrightarrow> 0 < window_seconds c \<and> 0 < max_calls_per_window c \<and> max_calls_per_window c \<le> u32_max \<and>
     burst_calls c \<le> u32_max \<and> grace_burst_calls c \<le> u32_max"

definition rate_of :: "RateLimitConfig \<Rightarrow> int" where
  "rate_of c = int (max_calls_per_window c) * TOKEN_SCALE div int (window_seconds c)"

definition allowance :: "RateLimitConfig \<Rightarrow> bool \<Rightarrow> nat" where
  "allowance c grace = max_calls_per_window c + burst_calls c + (if grace then grace_burst_calls c else 0)"

lemma u32_sums_fit: "a \<le> u32_max \<Longrightarrow> b \<le> u32_max \<Longrightarrow> c \<le> u32_max \<Longrightarrow> in_i128 ((int a + int b + int c) * 1000000)"
proof -
  assume "a \<le> u32_max" "b \<le> u32_max" "c \<le> u32_max"
  then have "int a \<le> 4294967295" "int b \<le> 4294967295" "int c \<le> 4294967295" by (auto simp: u32_max_def)
  then show ?thesis by (auto simp: i128_defs)
qed

lemma capacity_value: "valid_limit c \<Longrightarrow> capacity_tokens c grace = int (allowance c grace) * TOKEN_SCALE"
  using u32_sums_fit [of "max_calls_per_window c" "burst_calls c" "grace_burst_calls c"]
    u32_sums_fit [of "max_calls_per_window c" "burst_calls c" 0]
  by (auto simp: capacity_tokens_def valid_limit_def allowance_def checked_defs TOKEN_SCALE_def i128_defs)

lemma refill_per_second_Ok [ok_simps]:
  "refill_per_second c s = (Ok r, t) \<longleftrightarrow> t = s \<and> 0 < window_seconds c \<and> 0 < max_calls_per_window c \<and>
     in_i128 (int (max_calls_per_window c) * TOKEN_SCALE) \<and> in_i128 (int (max_calls_per_window c) * TOKEN_SCALE sdiv int (window_seconds c)) \<and>
     r = int (max_calls_per_window c) * TOKEN_SCALE sdiv int (window_seconds c)"
  by (auto simp: refill_per_second_def ok_simps checked_div_def)

lemma refill_rate: "refill_per_second c s = (Ok r, t) \<Longrightarrow> r = rate_of c"
  by (auto simp: ok_simps rate_of_def sdiv_nonneg_eq TOKEN_SCALE_def)

lemma rate_of_nonneg: "0 \<le> rate_of c"
  by (simp add: rate_of_def TOKEN_SCALE_def div_int_pos_iff)

text \<open>Taking a token pays for it from the bucket, which was refilled at most at the rate.\<close>

lemma take_token_Ok:
  assumes "take_token h c cap b s = (Ok b', t)"
  shows "t = s \<and> 0 \<le> bucket_tokens b' \<and> last_refill b' = max (now h) (last_refill (get_or_init_bucket h b cap)) \<and>
     bucket_tokens b' + TOKEN_SCALE \<le> bucket_tokens (get_or_init_bucket h b cap) +
       rate_of c * int (last_refill b' - last_refill (get_or_init_bucket h b cap))"
proof -
  let ?b = "get_or_init_bucket h b cap"
  from assms obtain r where r: "refill_bucket h ?b c cap s = (Ok r, t)" and t: "TOKEN_SCALE \<le> bucket_tokens r"
    "b' = r\<lparr>bucket_tokens := bucket_tokens r - TOKEN_SCALE\<rparr>" "t = s"
    by (auto simp: take_token_def ok_simps not_less refill_bucket_def Let_def split: if_splits)
  have "last_refill r = max (now h) (last_refill ?b) \<and>
      bucket_tokens r \<le> bucket_tokens ?b + rate_of c * int (last_refill r - last_refill ?b)"
    using r by (auto simp: refill_bucket_def Let_def tryM_Ok ok_or_Ok ret_Ok dest!: refill_rate split: if_splits)
  with t show ?thesis by auto
qed

text \<open>Calls of one user on one pool by a caller without the bypass; refused ones are rolled back.\<close>

fun count_accepted :: "address \<Rightarrow> address \<Rightarrow> symbol \<Rightarrow> address \<Rightarrow> host list \<Rightarrow> 'z hw_guards_scheme \<Rightarrow> nat" where
  "count_accepted caller user op pool [] s = 0"
| "count_accepted caller user op pool (h # hs) s =
     (case invoke (consume h caller user op pool) s of
        (Ok _, t) \<Rightarrow> Suc (count_accepted caller user op pool hs t)
      | (_, t) \<Rightarrow> count_accepted caller user op pool hs t)"

lemma consume_run:
  assumes "consume h caller user op pool s = (Ok u, t)"
  shows "is_bypassed s caller \<and> t = s \<or> \<not> is_bypassed s caller \<and>
    (\<exists>b g. take_token h (get_pool_config s op pool) (capacity_tokens (get_pool_config s op pool) (is_grace_enabled s user op))
        (UserBucket s (user, op, pool)) s = (Ok b, s) \<and>
      t = s\<lparr>UserBucket := (UserBucket s)((user, op, pool) \<mapsto> b), GlobalBucket := (GlobalBucket s)((op, pool) \<mapsto> g)\<rparr>)"
proof (cases "is_bypassed s caller")
  case True
  with assms show ?thesis by (auto simp: consume_def ok_simps)
next
  case False
  let ?c = "get_pool_config s op pool"
  let ?cap = "capacity_tokens ?c (is_grace_enabled s user op)"
  from assms False obtain b u where b0: "take_token h ?c ?cap (UserBucket s (user, op, pool)) s = (Ok b, u)"
    and r: "tryM (take_token h ?c ?cap (GlobalBucket u (op, pool))) (\<lambda>g. writes (\<lambda>s. s\<lparr>GlobalBucket := (GlobalBucket s)((op, pool) \<mapsto> g)\<rparr>) (ret ()))
      (u\<lparr>UserBucket := (UserBucket u)((user, op, pool) \<mapsto> b)\<rparr>) = (Ok (), t)"
    by (auto simp: consume_def ok_simps Let_def)
  from take_token_Ok [OF b0] have u: "u = s" by simp
  from r obtain g where "t = s\<lparr>UserBucket := (UserBucket s)((user, op, pool) \<mapsto> b), GlobalBucket := (GlobalBucket s)((op, pool) \<mapsto> g)\<rparr>"
    by (auto simp: ok_simps u dest!: take_token_Ok)
  with b0 u False show ?thesis by blast
qed

text \<open>A call of the limiter changes buckets only, not what the limits are computed from.\<close>

definition same_limits :: "'z hw_guards_scheme \<Rightarrow> 'z hw_guards_scheme \<Rightarrow> bool" where
  "same_limits s t \<longleftrightarrow> (\<forall>a. is_bypassed t a = is_bypassed s a) \<and> (\<forall>o' p. get_pool_config t o' p = get_pool_config s o' p) \<and>
     (\<forall>u o'. is_grace_enabled t u o' = is_grace_enabled s u o')"

lemma bucket_writes_same_limits: "same_limits s (s\<lparr>UserBucket := f, GlobalBucket := g\<rparr>)"
  by (simp add: same_limits_def is_bypassed_def has_role_def get_pool_config_def get_op_config_def is_grace_enabled_def)

lemma consume_same_limits: "consume h caller user op pool s = (Ok u, t) \<Longrightarrow> same_limits s t"
  by (drule consume_run) (auto simp: bucket_writes_same_limits, simp add: same_limits_def)

lemma consume_Ok:
  assumes "consume h caller user op pool s = (Ok u, t)" and "\<not> is_bypassed s caller"
  obtains b where "take_token h (get_pool_config s op pool) (capacity_tokens (get_pool_config s op pool) (is_grace_enabled s user op))
      (UserBucket s (user, op, pool)) s = (Ok b, s)"
    "UserBucket t (user, op, pool) = Some b" "is_bypassed t caller = is_bypassed s caller"
    "get_pool_config t op pool = get_pool_config s op pool" "is_grace_enabled t user op = is_grace_enabled s user op"
  using consume_run [OF assms(1)] assms(2) consume_same_limits [OF assms(1)] that by (auto simp: same_limits_def)

lemma accepted_within_bucket:
  assumes "\<not> is_bypassed s caller" and "UserBucket s (user, op, pool) = Some b" and "0 \<le> bucket_tokens b"
    and "\<forall>h\<in>set hs. now h \<le> stop" and "last_refill b \<le> stop"
  shows "int (count_accepted caller user op pool hs s) * TOKEN_SCALE
     \<le> bucket_tokens b + rate_of (get_pool_config s op pool) * int (stop - last_refill b)"
  using assms
proof (induction hs arbitrary: s b)
  case Nil
  then show ?case using rate_of_nonneg [of "get_pool_config s op pool"] by simp
next
  case (Cons h hs)
  show ?case
  proof (cases rule: invoke_cases [of "consume h caller user op pool" s])
    case (committed a t)
    let ?c = "get_pool_config s op pool"
    from consume_Ok [OF committed(1) Cons.prems(1)] obtain b' where b': "take_token h ?c (capacity_tokens ?c (is_grace_enabled s user op))
      (Some b) s = (Ok b', s)" "UserBucket t (user, op, pool) = Some b'" "\<not> is_bypassed t caller" "get_pool_config t op pool = ?c"
      using Cons.prems(1,2) by metis
    from take_token_Ok [OF b'(1)] have k: "0 \<le> bucket_tokens b'" "last_refill b' = max (now h) (last_refill b)"
      "bucket_tokens b' + TOKEN_SCALE \<le> bucket_tokens b + rate_of ?c * int (last_refill b' - last_refill b)"
      by (auto simp: get_or_init_bucket_def)
    from Cons.IH [OF b'(3,2) k(1)] Cons.prems(4,5) k(2) b'(4)
    have "int (count_accepted caller user op pool hs t) * TOKEN_SCALE \<le> bucket_tokens b' + rate_of ?c * int (stop - last_refill b')"
      by simp
    moreover have "int (last_refill b' - last_refill b) + int (stop - last_refill b') = int (stop - last_refill b)"
      using k(2) Cons.prems(4,5) by auto
    then have "rate_of ?c * int (last_refill b' - last_refill b) + rate_of ?c * int (stop - last_refill b') = rate_of ?c * int (stop - last_refill b)"
      by (metis distrib_left)
    ultimately show ?thesis using k(3) committed by (simp add: algebra_simps)
  next
    case rolled_back
    have "count_accepted caller user op pool (h # hs) s = count_accepted caller user op pool hs s"
      using rolled_back by (cases "consume h caller user op pool s"; cases "fst (consume h caller user op pool s)") (auto simp: invoke_def)
    with Cons show ?thesis by simp
  qed
qed

lemma scaled_bound:
  assumes "int n * TOKEN_SCALE \<le> int k * TOKEN_SCALE + rate_of c * int d" and "0 < window_seconds c"
  shows "n \<le> k + max_calls_per_window c * d div window_seconds c"
proof -
  let ?m = "int (max_calls_per_window c)" and ?w = "int (window_seconds c)"
  have w: "0 < ?w" using assms(2) by simp
  have "rate_of c * ?w \<le> ?m * TOKEN_SCALE" unfolding rate_of_def by (metis div_mult_mod_eq le_add_same_cancel1 pos_mod_sign w)
  then have "rate_of c * ?w * int d \<le> ?m * TOKEN_SCALE * int d" by (rule mult_right_mono) simp
  moreover have "(int n - int k) * TOKEN_SCALE * ?w \<le> rate_of c * int d * ?w"
    using assms(1) w by (intro mult_right_mono) (auto simp: algebra_simps)
  ultimately have "(int n - int k) * ?w * TOKEN_SCALE \<le> ?m * int d * TOKEN_SCALE" by (simp add: algebra_simps)
  then have "(int n - int k) * ?w \<le> ?m * int d" by (simp add: TOKEN_SCALE_def)
  then have "(int n - int k) * ?w div ?w \<le> ?m * int d div ?w" using w by (rule zdiv_mono1)
  then have "int n - int k \<le> ?m * int d div ?w" using w by simp
  then have "int n \<le> int (k + max_calls_per_window c * d div window_seconds c)" by (simp add: zdiv_int)
  then show ?thesis by (rule of_nat_le_iff [THEN iffD1])
qed

text \<open>Before the period: any calls of the limiter, by anyone, on any operation and pool, not later than \<open>start\<close>. They leave
  the bucket at most full, however long it was idle.\<close>

type_synonym limited_call = "host \<times> address \<times> address \<times> symbol \<times> address"

fun limited_step :: "limited_call \<Rightarrow> 'z hw_guards_scheme \<Rightarrow> 'z hw_guards_scheme" where
  "limited_step (h, caller, user, op, pool) s = snd (invoke (consume h caller user op pool) s)"

definition limited_run :: "limited_call list \<Rightarrow> 'z hw_guards_scheme \<Rightarrow> 'z hw_guards_scheme" where
  "limited_run calls s = fold limited_step calls s"

definition bucket_at_most_full :: "u64 \<Rightarrow> address \<times> symbol \<times> address \<Rightarrow> 'z hw_guards_scheme \<Rightarrow> bool" where
  "bucket_at_most_full start k s \<longleftrightarrow> (\<forall>b. UserBucket s k = Some b \<longrightarrow> 0 \<le> bucket_tokens b \<and> last_refill b \<le> start \<and>
     bucket_tokens b \<le> capacity_tokens (get_pool_config s (fst (snd k)) (snd (snd k))) (is_grace_enabled s (fst k) (fst (snd k))))"

lemma take_token_below:
  assumes "take_token h c cap b s = (Ok b', t)" and "\<And>x. b = Some x \<Longrightarrow> bucket_tokens x \<le> cap"
  shows "bucket_tokens b' + TOKEN_SCALE \<le> cap"
  using assms
  by (cases b) (auto simp: take_token_def refill_bucket_def get_or_init_bucket_def Let_def ok_simps min_def split: if_splits)

lemma limited_step_full:
  assumes "bucket_at_most_full start k s" and "now h \<le> start"
  shows "bucket_at_most_full start k (limited_step (h, caller, user, op, pool) s) \<and>
    same_limits s (limited_step (h, caller, user, op, pool) s)"
proof (cases rule: invoke_cases [of "consume h caller user op pool" s])
  case (committed a t)
  note lim = consume_same_limits [OF committed(1)]
  have "bucket_at_most_full start k t"
  proof (cases "is_bypassed s caller \<or> k \<noteq> (user, op, pool)")
    case True
    then have "UserBucket t k = UserBucket s k" using consume_run [OF committed(1)] by auto
    then show ?thesis using assms(1) lim by (simp add: bucket_at_most_full_def same_limits_def)
  next
    case False
    then obtain b where b: "take_token h (get_pool_config s op pool) (capacity_tokens (get_pool_config s op pool) (is_grace_enabled s user op))
        (UserBucket s (user, op, pool)) s = (Ok b, s)" "UserBucket t (user, op, pool) = Some b" and k: "k = (user, op, pool)"
      using consume_run [OF committed(1)] by auto
    have "last_refill (get_or_init_bucket h (UserBucket s (user, op, pool)) n) \<le> start" for n
      using assms k by (cases "UserBucket s (user, op, pool)") (auto simp: bucket_at_most_full_def get_or_init_bucket_def)
    then have "0 \<le> bucket_tokens b \<and> last_refill b \<le> start" using take_token_Ok [OF b(1)] assms(2) by simp
    moreover have "bucket_tokens b \<le> capacity_tokens (get_pool_config s op pool) (is_grace_enabled s user op)"
      using take_token_below [OF b(1)] assms(1) k by (auto simp: bucket_at_most_full_def TOKEN_SCALE_def)
    ultimately show ?thesis using b(2) lim by (simp add: bucket_at_most_full_def same_limits_def k)
  qed
  with lim committed(2) show ?thesis by simp
next
  case rolled_back
  with assms(1) show ?thesis by (simp add: same_limits_def)
qed

lemma same_limits_trans: "same_limits s t \<Longrightarrow> same_limits t u \<Longrightarrow> same_limits s u"
  by (simp add: same_limits_def)

lemma limited_run_full:
  "bucket_at_most_full start k s \<Longrightarrow> \<forall>c\<in>set calls. now (fst c) \<le> start \<Longrightarrow>
     bucket_at_most_full start k (limited_run calls s) \<and> same_limits s (limited_run calls s)"
proof (induction calls arbitrary: s)
  case Nil
  then show ?case by (simp add: limited_run_def same_limits_def)
next
  case (Cons c calls)
  obtain h caller user op pool where c: "c = (h, caller, user, op, pool)" by (cases c)
  then have now: "now h \<le> start" using Cons.prems(2) by simp
  note step = limited_step_full [OF Cons.prems(1) now, of caller user op pool]
  have "bucket_at_most_full start k (limited_run calls (limited_step c s)) \<and> same_limits (limited_step c s) (limited_run calls (limited_step c s))"
    using step Cons.prems(2) unfolding c by (intro Cons.IH) simp_all
  with step show ?case unfolding c by (auto simp: limited_run_def intro: same_limits_trans)
qed

text \<open>From a bucket that is at most full, in any period.\<close>

lemma accepted_in_period:
  assumes "\<not> is_bypassed s caller" and "bucket_at_most_full start (user, op, pool) s" and "valid_limit (get_pool_config s op pool)"
    and "\<forall>h\<in>set hs. start \<le> now h \<and> now h \<le> stop"
  shows "count_accepted caller user op pool hs s \<le> allowance (get_pool_config s op pool) (is_grace_enabled s user op) +
     max_calls_per_window (get_pool_config s op pool) * (stop - start) div window_seconds (get_pool_config s op pool)"
  using assms(4)
proof (induction hs)
  case (Cons h hs)
  let ?c = "get_pool_config s op pool" and ?g = "is_grace_enabled s user op" and ?ub = "UserBucket s (user, op, pool)"
  show ?case
  proof (cases rule: invoke_cases [of "consume h caller user op pool" s])
    case (committed a t)
    from consume_Ok [OF committed(1) assms(1)] obtain b where b: "take_token h ?c (capacity_tokens ?c ?g) ?ub s = (Ok b, s)"
      "UserBucket t (user, op, pool) = Some b" "\<not> is_bypassed t caller" "get_pool_config t op pool = ?c"
      using assms(1) by metis
    have times: "start \<le> now h" "now h \<le> stop" "\<forall>h\<in>set hs. now h \<le> stop" using Cons.prems by auto
    have "last_refill (get_or_init_bucket h ?ub n) \<le> now h" for n
      using assms(2) times(1) by (cases ?ub) (auto simp: bucket_at_most_full_def get_or_init_bucket_def)
    then have k: "0 \<le> bucket_tokens b" "last_refill b = now h" using take_token_Ok [OF b(1)] by (simp_all add: max_absorb1)
    have cap: "bucket_tokens b + TOKEN_SCALE \<le> capacity_tokens ?c ?g"
      using assms(2) by (intro take_token_below [OF b(1)]) (auto simp: bucket_at_most_full_def)
    have "int (stop - now h) \<le> int (stop - start)" using times by simp
    then have "rate_of ?c * int (stop - now h) \<le> rate_of ?c * int (stop - start)" by (rule mult_left_mono) (rule rate_of_nonneg)
    with accepted_within_bucket [OF b(3,2) k(1) times(3)] k cap times b(4)
    have "int (Suc (count_accepted caller user op pool hs t)) * TOKEN_SCALE \<le> int (allowance ?c ?g) * TOKEN_SCALE + rate_of ?c * int (stop - start)"
      by (simp add: capacity_value [OF assms(3)] algebra_simps)
    from scaled_bound [OF this] assms(3) committed show ?thesis by (simp add: valid_limit_def)
  next
    case rolled_back
    have "count_accepted caller user op pool (h # hs) s = count_accepted caller user op pool hs s"
      using rolled_back by (cases "consume h caller user op pool s"; cases "fst (consume h caller user op pool s)") (auto simp: invoke_def)
    with Cons show ?thesis by simp
  qed
qed simp

text \<open>C29: The rate limiter keeps its promise in every period. Take a storage without a bucket for a user on a pool, then any calls
  of the limiter, by anyone on anything, up to the time \<open>start\<close>, and then any calls for the user on the pool between \<open>start\<close> and \<open>stop\<close>
  by a caller without the bypass. Of these at most the configured burst plus the configured number per window for the time
  from \<open>start\<close> to \<open>stop\<close> is accepted, however long the user was idle before: the bucket is refilled at the rate of the
  window and never above its capacity. The limits themselves are those of the first storage.\<close>

theorem rate_limit_is_enforced:
  assumes "UserBucket s0 (user, op, pool) = None" and "\<not> is_bypassed s0 caller" and "valid_limit (get_pool_config s0 op pool)"
    and "\<forall>c\<in>set earlier. now (fst c) \<le> start" and "\<forall>h\<in>set hs. start \<le> now h \<and> now h \<le> stop"
  shows "count_accepted caller user op pool hs (limited_run earlier s0) \<le> allowance (get_pool_config s0 op pool) (is_grace_enabled s0 user op) +
     max_calls_per_window (get_pool_config s0 op pool) * (stop - start) div window_seconds (get_pool_config s0 op pool)"
proof -
  have "bucket_at_most_full start (user, op, pool) s0" using assms(1) by (simp add: bucket_at_most_full_def)
  note run = limited_run_full [OF this assms(4)]
  then have "get_pool_config (limited_run earlier s0) op pool = get_pool_config s0 op pool"
    "is_grace_enabled (limited_run earlier s0) user op = is_grace_enabled s0 user op" "\<not> is_bypassed (limited_run earlier s0) caller"
    using assms(2) by (simp_all add: same_limits_def)
  with accepted_in_period [of "limited_run earlier s0" caller start user op pool hs stop] run assms(3,5) show ?thesis by simp
qed

section \<open>Intents\<close>

text \<open>Any intents accepted one after the other, of any users and operations.\<close>

inductive after_intents :: "'z hw_guards_scheme \<Rightarrow> 'z hw_guards_scheme \<Rightarrow> bool" where
  after_none: "after_intents s s"
| after_more: "after_intents s t \<Longrightarrow> require_intent_auth h authorised self u o' nonce at args t = (Ok (), t') \<Longrightarrow> after_intents s t'"

lemma intent_Ok:
  "require_intent_auth h authorised self u o' nonce at args s = (Ok r, t) \<longleftrightarrow>
     now h \<le> at \<and> nonce = next_nonce s u o' \<and> authorised u ([V_address self, V_symbol o', V_u64 nonce, V_u64 at] @ args) \<and>
     t = set_next_nonce u o' (saturating_add_u64 nonce 1) s"
  by (auto simp: require_intent_auth_def ok_simps)

lemma next_nonce_set: "next_nonce (set_next_nonce u o' n s) user op = (if user = u \<and> op = o' then n else next_nonce s user op)"
  by (auto simp: next_nonce_def set_next_nonce_def)

lemma after_intents_nonce:
  assumes "after_intents s t" and "next_nonce s user op \<le> u64_max"
  shows "next_nonce s user op \<le> next_nonce t user op \<and> next_nonce t user op \<le> u64_max"
  using assms by induction (auto simp: intent_Ok next_nonce_set saturating_add_u64_def)

text \<open>C30: An accepted intent carried the user's next nonce, had not expired and was signed by the user for exactly this contract,
  operation, nonce, deadline and payload; below the end of the counter it is never accepted a second time, whatever
  other intents are accepted in between.\<close>

theorem intent_used_once:
  assumes "require_intent_auth h authorised self user op nonce at args s = (Ok (), t)" and "nonce < u64_max" and "after_intents t t'"
  shows "now h \<le> at \<and> nonce = next_nonce s user op \<and>
     authorised user ([V_address self, V_symbol op, V_u64 nonce, V_u64 at] @ args) \<and>
     require_intent_auth h' authorised' self user op nonce at' args' t' \<noteq> (Ok (), t'')"
proof -
  from assms(1,2) have "next_nonce t user op = Suc nonce" by (auto simp: intent_Ok next_nonce_set saturating_add_u64_def)
  with after_intents_nonce [OF assms(3), of user op] assms(2) have "nonce < next_nonce t' user op" by simp
  with assms(1) show ?thesis by (auto simp: intent_Ok)
qed

lemma u64_max_pos: "0 < u64_max"
  by (simp add: u64_max_def)

section \<open>Credit scores\<close>

text \<open>The score is the one of the last history entry, in its range, and the counters count the history.\<close>

definition reason_count :: "CreditScoreChangeReason \<Rightarrow> CreditScore \<Rightarrow> nat" where
  "reason_count r c = length (filter (\<lambda>e. css_reason e = r) (cs_history c))"

definition credit_score_ok :: "CreditScore \<Rightarrow> bool" where
  "credit_score_ok c \<longleftrightarrow> MIN_CREDIT_SCORE \<le> cs_score c \<and> cs_score c \<le> MAX_CREDIT_SCORE \<and> cs_history c \<noteq> [] \<and>
     css_score (last (cs_history c)) = cs_score c \<and> css_reason (hd (cs_history c)) = NewUser \<and>
     on_time_repayments c = reason_count OnTimeRepayment c \<and> late_repayments c = reason_count LateRepayment c \<and>
     liquidations c = reason_count Liquidation c"

datatype score_op = Score_Start | Score_Repaid i128 bool | Score_Liquidated | Score_Healthy | Score_Borrowed i128

fun score_step :: "host \<Rightarrow> address \<Rightarrow> score_op \<Rightarrow> ('z, LendingError, unit) guard_fn" where
  "score_step h user Score_Start = initialize_credit_score h user"
| "score_step h user (Score_Repaid amount is_on_time) = update_score_on_repayment h user amount is_on_time"
| "score_step h user Score_Liquidated = update_score_on_liquidation h user"
| "score_step h user Score_Healthy = update_score_on_healthy_position h user"
| "score_step h user (Score_Borrowed amount) = record_borrow h user amount"

fun score_run :: "(host \<times> address \<times> score_op) list \<Rightarrow> 'z hw_guards_scheme \<Rightarrow> 'z hw_guards_scheme" where
  "score_run [] s = s"
| "score_run ((h, user, op) # ops) s = score_run ops (snd (invoke (score_step h user op) s))"

definition scores_ok :: "'z hw_guards_scheme \<Rightarrow> bool" where
  "scores_ok s \<longleftrightarrow> (\<forall>user c. CreditScoreKey s user = Some c \<longrightarrow> cs_user c = user \<and> credit_score_ok c)"

lemma initialize_credit_score_Ok:
  "scores_ok s \<Longrightarrow> initialize_credit_score h user s = (Ok u, t) \<Longrightarrow> scores_ok t \<and> (\<exists>c. CreditScoreKey t user = Some c)"
  by (auto simp: initialize_credit_score_def ok_simps save_score_def scores_ok_def credit_score_ok_def reason_count_def
      DEFAULT_CREDIT_SCORE_def MIN_CREDIT_SCORE_def MAX_CREDIT_SCORE_def split: if_splits)

lemma save_score_ok: "scores_ok s \<Longrightarrow> credit_score_ok c \<Longrightarrow> cs_user c = user \<Longrightarrow> scores_ok (save_score user c s)"
  by (simp add: scores_ok_def save_score_def)

lemma get_credit_score_Ok [ok_simps]: "get_credit_score user s = (Ok c, t) \<longleftrightarrow> t = s \<and> CreditScoreKey s user = Some c"
  by (auto simp: get_credit_score_def ok_simps)

lemmas score_consts = MIN_CREDIT_SCORE_def MAX_CREDIT_SCORE_def LIQUIDATION_PENALTY_def HEALTHY_POSITION_BONUS_def
  ON_TIME_REPAYMENT_BONUS_def LATE_REPAYMENT_PENALTY_def DEFAULT_CREDIT_SCORE_def
lemmas score_facts = credit_score_ok_def rescored_def reason_count_def score_consts

lemma rescored_ok:
  assumes "credit_score_ok c" and "MIN_CREDIT_SCORE \<le> n" and "n \<le> MAX_CREDIT_SCORE" and "cs_history d = cs_history c"
    and "on_time_repayments d = on_time_repayments c + (if r = OnTimeRepayment then 1 else 0)"
    and "late_repayments d = late_repayments c + (if r = LateRepayment then 1 else 0)"
    and "liquidations d = liquidations c + (if r = Liquidation then 1 else 0)"
  shows "credit_score_ok (rescored h n r d)"
  using assms by (auto simp: credit_score_ok_def rescored_def reason_count_def)

lemma rescored_user: "cs_user (rescored h n r d) = cs_user d"
  by (simp add: rescored_def)

text \<open>The score after a repayment.\<close>

definition repaid_score :: "host \<Rightarrow> i128 \<Rightarrow> bool \<Rightarrow> CreditScore \<Rightarrow> CreditScore" where
  "repaid_score h amount is_on_time c =
     (if is_on_time
      then rescored h (min (max (cs_score c + ON_TIME_REPAYMENT_BONUS) MIN_CREDIT_SCORE) MAX_CREDIT_SCORE) OnTimeRepayment
             (c\<lparr>total_repaid := total_repaid c + amount, on_time_repayments := on_time_repayments c + 1\<rparr>)
      else rescored h (min (max (cs_score c - LATE_REPAYMENT_PENALTY) MIN_CREDIT_SCORE) MAX_CREDIT_SCORE) LateRepayment
             (c\<lparr>total_repaid := total_repaid c + amount, late_repayments := late_repayments c + 1\<rparr>))"

lemma clamped_score: "MIN_CREDIT_SCORE \<le> min (max n MIN_CREDIT_SCORE) MAX_CREDIT_SCORE \<and> min (max n MIN_CREDIT_SCORE) MAX_CREDIT_SCORE \<le> MAX_CREDIT_SCORE"
  by (simp add: MIN_CREDIT_SCORE_def MAX_CREDIT_SCORE_def)

lemma repaid_score_ok:
  assumes "credit_score_ok c"
  shows "credit_score_ok (repaid_score h amount is_on_time c) \<and> cs_user (repaid_score h amount is_on_time c) = cs_user c"
  using rescored_ok [OF assms conjunct1 [OF clamped_score] conjunct2 [OF clamped_score]] by (simp add: repaid_score_def rescored_user)

lemma update_score_on_repayment_Ok:
  assumes "update_score_on_repayment h user amount is_on_time s = (Ok u, t)"
  obtains s2 c where "initialize_credit_score h user s = (Ok (), s2)" "CreditScoreKey s2 user = Some c"
    "t = save_score user (repaid_score h amount is_on_time c) s2"
  using assms that
  by (cases is_on_time) (force simp: update_score_on_repayment_def ok_simps checked_add_u32_def repaid_score_def split: if_splits)+

lemma score_step_ok:
  assumes "scores_ok s" and "score_step h user op s = (Ok u, t)"
  shows "scores_ok t"
proof -
  have started: "scores_ok s2 \<and> cs_user c = user \<and> credit_score_ok c"
    if "initialize_credit_score h user s = (Ok u2, s2)" "CreditScoreKey s2 user = Some c" for u2 s2 c
    using initialize_credit_score_Ok [OF assms(1) that(1)] that(2) by (auto simp: scores_ok_def)
  show ?thesis
  proof (cases op)
    case Score_Start
    then show ?thesis using initialize_credit_score_Ok [OF assms(1)] assms(2) by auto
  next
    case Score_Healthy
    then show ?thesis using assms(2)
      by (auto simp: update_score_on_healthy_position_def ok_simps dest!: started intro!: save_score_ok) (auto simp: score_facts)
  next
    case Score_Liquidated
    then show ?thesis using assms(2)
      by (auto simp: update_score_on_liquidation_def ok_simps checked_add_u32_def dest!: started intro!: save_score_ok split: if_splits)
        (auto simp: score_facts)
  next
    case (Score_Borrowed amount)
    then show ?thesis using assms(2)
      by (auto simp: record_borrow_def ok_simps dest!: started intro!: save_score_ok) (auto simp: score_facts)
  next
    case (Score_Repaid amount is_on_time)
    from assms(2) Score_Repaid have "update_score_on_repayment h user amount is_on_time s = (Ok (), t)" by simp
    then obtain s2 c where c: "initialize_credit_score h user s = (Ok (), s2)" "CreditScoreKey s2 user = Some c"
      and t: "t = save_score user (repaid_score h amount is_on_time c) s2" by (rule update_score_on_repayment_Ok)
    from started [OF c] repaid_score_ok [of c] show ?thesis unfolding t by (simp add: save_score_ok)
  qed
qed

lemma score_run_ok: "scores_ok s \<Longrightarrow> scores_ok (score_run ops s)"
proof (induction ops arbitrary: s)
  case (Cons x ops)
  obtain h user op where x: "x = (h, user, op)" by (cases x)
  have "scores_ok (snd (invoke (score_step h user op) s))" using Cons.prems by (rule invoke_preserves) (rule score_step_ok [OF Cons.prems])
  from Cons.IH [OF this] show ?case by (simp add: x)
qed simp

text \<open>C31: Whatever initialisations, borrowings, repayments, liquidations and rewards are applied to whichever users, every
  credit score stays between 0 and 1000, is the score of the user's last history entry, and the counters of on-time
  and late repayments and of liquidations count the entries of the history, which starts with the user's first score.\<close>

theorem credit_scores_follow_history:
  assumes "scores_ok s" and "CreditScoreKey (score_run ops s) user = Some c"
  shows "0 \<le> cs_score c \<and> cs_score c \<le> 1000 \<and> cs_history c \<noteq> [] \<and> css_score (last (cs_history c)) = cs_score c \<and>
     css_reason (hd (cs_history c)) = NewUser \<and> on_time_repayments c = reason_count OnTimeRepayment c \<and>
     late_repayments c = reason_count LateRepayment c \<and> liquidations c = reason_count Liquidation c"
proof -
  from score_run_ok [OF assms(1)] assms(2) have "credit_score_ok c" unfolding scores_ok_def by blast
  then show ?thesis by (simp add: credit_score_ok_def MIN_CREDIT_SCORE_def MAX_CREDIT_SCORE_def)
qed

section \<open>Loan-to-value ratios\<close>

lemma scaled_Ok [ok_simps]: "scaled d b c s = (Ok r, t) \<longleftrightarrow> t = s \<and> in_i128 (d * b) \<and> c \<noteq> 0 \<and> in_i128 (d * b sdiv c) \<and> r = d * b sdiv c"
  by (auto simp: scaled_def ok_simps)

text \<open>The ratio for each score.\<close>

definition ltv_of :: "int \<Rightarrow> int" where
  "ltv_of n = (if 800 \<le> n then 8500 else if 600 \<le> n then 7000 + (n - 600) * 15 div 2 else if 300 \<le> n then 7000 + (n - 450) * 10 else 5000 + 5 * n)"

lemma sdiv_scales: "(n * 1500) sdiv 150 = n * 10" "0 \<le> n \<Longrightarrow> (n * 1500) sdiv 300 = 5 * n" "0 \<le> n \<Longrightarrow> (n * 1500) sdiv 200 = n * 15 div 2"
  for n :: int
proof -
  show "(n * 1500) sdiv 150 = n * 10" using nonzero_mult_div_cancel_right [of 150 "n * 10"]
    by (cases "0 \<le> n") (auto simp: signed_divide_int_def sgn_mult abs_mult sgn_if)
  show "0 \<le> n \<Longrightarrow> (n * 1500) sdiv 300 = 5 * n" by (simp add: sdiv_nonneg_eq)
  show "0 \<le> n \<Longrightarrow> (n * 1500) sdiv 200 = n * 15 div 2"
    using div_mult_mult1 [of 100 "n * 15" 2] by (simp add: sdiv_nonneg_eq)
qed

text \<open>The loan-to-value ratio that a credit score in the range gives is always computed and between 50 and 85 percent, but it
  falls where the score crosses 300 and 600: the user with score 299 may borrow 64.95 percent, the one with 300 only
  55 percent; 599 gives 84.9 percent and 600 gives 70 percent.\<close>

theorem better_score_lowers_ltv:
  assumes "0 \<le> score_or_default s user" and "score_or_default s user \<le> 1000"
  shows "calculate_adjusted_ltv user s = (Ok (ltv_of (score_or_default s user)), s) \<and>
     5000 \<le> ltv_of (score_or_default s user) \<and> ltv_of (score_or_default s user) \<le> 8500 \<and>
     ltv_of 300 < ltv_of 299 \<and> ltv_of 600 < ltv_of 599"
proof -
  let ?n = "score_or_default s user"
  have "calculate_adjusted_ltv user s = (Ok (ltv_of ?n), s)"
    using assms by (auto simp: calculate_adjusted_ltv_def ltv_of_def ok_simps sdiv_scales i128_defs not_le BASE_LTV_BPS_def
      MAX_LTV_BONUS_BPS_def MAX_LTV_PENALTY_BPS_def simp del: left_diff_distrib_numeral) auto
  with assms show ?thesis by (auto simp: ltv_of_def)
qed

section \<open>A sample\<close>

text \<open>The oracle's sample with empty guard entries: operation limits are the defaults.\<close>

definition guards_sample :: hw_guards where
  "guards_sample = hw_oracle.extend oracle_sample (hw_guards.fields False [] (\<lambda>_. None) (\<lambda>_. None) (\<lambda>_. None) (\<lambda>_. None)
     (\<lambda>_. None) (\<lambda>_. None) (\<lambda>_. None) None None None [])"

lemmas guards_eval = oracle_eval guards_sample_def hw_oracle.defs hw_guards.defs

text \<open>Two calls, an idle hour of a window of a minute, and a burst of twelve: at most eight are accepted at once.\<close>

theorem rate_limit_is_enforced_witness:
  "count_accepted 2 2 ''borrow'' 3 (replicate 12 (sample_host 3700))
     (limited_run [(sample_host 100, 2, 2, ''borrow'', 3), (sample_host 100, 4, 4, ''repay'', 3)] guards_sample) \<le> 8"
proof -
  have "get_pool_config guards_sample ''borrow'' 3 = \<lparr>window_seconds = 60, max_calls_per_window = 5, burst_calls = 3, grace_burst_calls = 10\<rparr>"
    "is_grace_enabled guards_sample 2 ''borrow'' = False" "\<not> is_bypassed guards_sample 2" "UserBucket guards_sample (2, ''borrow'', 3) = None"
    by (simp_all add: get_pool_config_def get_op_config_def rate_default_config_def is_grace_enabled_def is_bypassed_def has_role_def guards_eval)
  with rate_limit_is_enforced [of guards_sample 2 "''borrow''" 3 2
    "[(sample_host 100, 2, 2, ''borrow'', 3), (sample_host 100, 4, 4, ''repay'', 3)]" 3700 "replicate 12 (sample_host 3700)" 3700]
  show ?thesis by (simp add: valid_limit_def u32_max_def allowance_def sample_host_def)
qed

theorem intent_used_once_witness:
  "\<exists>t. require_intent_auth (sample_host 100) (\<lambda>_ _. True) 3 2 ''deposit'' 0 200 [V_i128 5] guards_sample = (Ok (), t) \<and>
     require_intent_auth (sample_host 100) (\<lambda>_ _. True) 3 2 ''deposit'' 0 200 [V_i128 5] t \<noteq> (Ok (), t)"
proof -
  have "fst (require_intent_auth (sample_host 100) (\<lambda>_ _. True) 3 2 ''deposit'' 0 200 [V_i128 5] guards_sample) = Ok ()"
    by (simp add: require_intent_auth_def next_nonce_def guards_eval)
  from intent_used_once [OF run_pair [OF this] _ after_none] run_pair [OF this] show ?thesis using u64_max_pos by blast
qed

theorem credit_scores_follow_history_witness:
  "0 \<le> cs_score (the (CreditScoreKey (score_run [(sample_host 100, 2, Score_Repaid 50 False)] guards_sample) 2)) \<and>
     reason_count LateRepayment (the (CreditScoreKey (score_run [(sample_host 100, 2, Score_Repaid 50 False)] guards_sample) 2)) = 1"
proof -
  let ?s = "score_run [(sample_host 100, 2, Score_Repaid 50 False)] guards_sample"
  obtain c where c: "CreditScoreKey ?s 2 = Some c" "late_repayments c = 1"
    by (simp add: update_score_on_repayment_def initialize_credit_score_def get_credit_score_def save_score_def rescored_def
      invoke_code checked_add_u32_code score_consts guards_eval)
  have "scores_ok guards_sample" by (simp add: scores_ok_def guards_eval)
  from credit_scores_follow_history [OF this c(1)] c show ?thesis by simp
qed

theorem better_score_lowers_ltv_witness: "calculate_adjusted_ltv 2 guards_sample = (Ok (ltv_of 500), guards_sample)"
proof -
  have "score_or_default guards_sample 2 = 500" by (simp add: score_or_default_def DEFAULT_CREDIT_SCORE_def guards_eval)
  with better_score_lowers_ltv [of guards_sample 2] show ?thesis by simp
qed

end
