(* ===== verification/HW_Governance.thy ===== *)
theory HW_Governance
  imports HW_Core
begin

text \<open>
  Governance of the protocol contract: src/stellar-lend/contracts/hello-world/src/governance.rs with the types of
  types.rs and the storage keys of storage.rs. Proposals are created, voted on with token balances, queued
  after the vote and executed after a delay; admins and guardians have shorter ways. The vote token is code
  outside the repository: \<open>bal token holder\<close> is the balance it reports, \<open>None\<close> if the call traps.
\<close>

section \<open>Data\<close>

datatype GovernanceError = ProposalNotFound | ProposalNotActive | NotInVotingPeriod | AlreadyVoted | NoVotingPower
  | InsufficientProposalPower | VotingNotEnded | InvalidProposalStatus | ProposalExpired | NotQueued
  | InvalidExecutionTime | ExecutionTooEarly | AlreadyExecuted | InvalidQuorum | InvalidVotingPeriod | CannotExecute
  | QuorumNotMet | ProposalDefeated | InvalidAction | ThresholdNotMet | ProposalAlreadyFailed | ProposalNotReady
  | ExecutionFailed | InvalidMultisigConfig | InsufficientApprovals | InvalidProposalType | GuardianAlreadyExists
  | GuardianNotFound | InvalidGuardianConfig | RecoveryInProgress | NoRecoveryInProgress | Unauthorized
  | AlreadyInitialized | NotInitialized | InvalidProposal | InputTooLong | SelfDelegation | VotesLocked
  | AlreadyDelegated | DelegationDepthExceeded | ProposalRateLimitExceeded | TimelockNotFound | TimelockNotReady
  | TimelockExpired | InvalidTimelockStatus | InvalidTimelockConfig | InvalidTimelockDelay

datatype ProposalStatus = Pending | Active | Succeeded | Defeated | Expired | Queued | Executed | Cancelled

datatype VoteType = For | Against | Abstain

record Action =
  target :: address
  method_name :: symbol
  args :: "string list"
  action_value :: i128

datatype ProposalType =
  MinCollateralRatio i128
| RiskParamsChange "i128 option" "i128 option" "i128 option" "i128 option"
| PauseSwitch symbol bool
| EmergencyPause bool
| GenericAction Action
| InterestRateChange InterestRateParams

record Proposal =
  prop_id :: u64
  prop_proposer :: address
  prop_type :: ProposalType
  description :: string
  prop_status :: ProposalStatus
  start_time :: u64
  end_time :: u64
  execution_time :: "u64 option"
  voting_threshold :: i128
  for_votes :: i128
  against_votes :: i128
  abstain_votes :: i128
  total_voting_power :: i128
  created_at :: u64

record VoteInfo =
  vi_voter :: address
  vi_proposal_id :: u64
  vi_vote_type :: VoteType
  vi_voting_power :: i128
  vi_timestamp :: u64

record VotePowerSnapshot =
  vps_proposal_id :: u64
  vps_voter :: address
  vps_balance :: i128
  vps_snapshot_time :: u64

record VoteLock =
  vl_voter :: address
  locked_until :: u64
  locked_amount :: i128
  vl_proposal_id :: u64

record DelegationRecord =
  dr_delegator :: address
  dr_delegatee :: address
  delegated_at :: u64
  depth :: u32

record GovernanceAnalytics =
  total_proposals :: u64
  total_votes :: u64
  suspicious_proposals :: u64
  last_suspicious_at :: u64
  max_single_voter_power :: i128

record ProposalOutcome =
  po_proposal_id :: u64
  succeeded :: bool
  po_for_votes :: i128
  po_against_votes :: i128
  po_abstain_votes :: i128
  quorum_reached :: bool
  quorum_required :: i128

record ProposalSimulationResult =
  sim_proposal_id :: u64
  sim_now :: u64
  would_succeed :: bool
  sim_quorum_required :: i128
  sim_quorum_reached :: bool
  sim_threshold_votes :: i128
  sim_threshold_met :: bool
  sim_for_votes :: i128
  sim_against_votes :: i128
  sim_abstain_votes :: i128
  sim_total_voting_power :: i128
  sim_note :: string

record ParameterOptimizationRecommendation =
  generated_at :: u64
  suggested_quorum_bps :: u32
  suggested_vote_threshold :: i128
  suggested_voting_period :: u64
  transparency_note :: string

record GovernanceConfig =
  voting_period :: u64
  execution_delay :: u64
  quorum_bps :: u32
  proposal_threshold :: i128
  vote_token :: address
  timelock_duration :: u64
  default_voting_threshold :: i128

record MultisigConfig =
  ms_admins :: "address list"
  ms_threshold :: u32

record GuardianConfig =
  guardians :: "address list"
  guardian_threshold :: u32

record RecoveryRequest =
  old_admin :: address
  new_admin :: address
  initiator :: address
  initiated_at :: u64
  expires_at :: u64

definition DEFAULT_VOTING_PERIOD :: u64 where "DEFAULT_VOTING_PERIOD = 7 * 24 * 60 * 60"
definition DEFAULT_EXECUTION_DELAY :: u64 where "DEFAULT_EXECUTION_DELAY = 2 * 24 * 60 * 60"
definition DEFAULT_QUORUM_BPS :: u32 where "DEFAULT_QUORUM_BPS = 4000"
definition DEFAULT_VOTING_THRESHOLD :: i128 where "DEFAULT_VOTING_THRESHOLD = 5000"
definition DEFAULT_TIMELOCK_DURATION :: u64 where "DEFAULT_TIMELOCK_DURATION = 7 * 24 * 60 * 60"
definition DEFAULT_RECOVERY_PERIOD :: u64 where "DEFAULT_RECOVERY_PERIOD = 3 * 24 * 60 * 60"
definition MIN_TIMELOCK_DELAY :: u64 where "MIN_TIMELOCK_DELAY = 24 * 60 * 60"
definition DELEGATION_DEADLINE :: u64 where "DELEGATION_DEADLINE = 24 * 60 * 60"
definition MAX_DELEGATION_DEPTH :: u32 where "MAX_DELEGATION_DEPTH = 3"
definition MAX_DESCRIPTION_LEN :: u32 where "MAX_DESCRIPTION_LEN = 256"

text \<open>The key \<open>GovernanceDataKey::DelegationRecord(a)\<close> is written with two types: the delegation that \<open>a\<close> made, and the
  list of those who delegated to \<open>a\<close>. The host refuses to read an entry at another type than it has.\<close>

datatype delegation_entry = Made DelegationRecord | Received "address list"

datatype gov_event =
  GovernanceInitializedEvent address address u64 u32 u64
| ProposalCreatedEvent u64 address ProposalType string u64 u64 u64
| proposal_created u64 address
| proposal_queued u64 u64
| proposal_executed u64 address
| VoteCastEvent u64 address VoteType i128 u64
| ProposalQueuedEvent u64 u64 i128 i128 bool bool
| ProposalFailedEvent u64 i128 i128 bool bool
| ProposalExecutedEvent u64 address u64
| ProposalCancelledEvent u64 address u64
| ProposalApprovedEvent u64 address u64
| GuardianAddedEvent address address u64
| GuardianRemovedEvent address address u64
| RecoveryStartedEvent address address address u64 u64
| RecoveryApprovedEvent address u32 u32 u64
| RecoveryExecutedEvent address address address u64
| VotePowerSnapshotTakenEvent u64 address i128 u64
| VoteDelegatedEvent address address u64
| VoteDelegationRevokedEvent address u64

record gov_state = hw_core +
  GovAdmin :: "address option"
  GovConfig :: "GovernanceConfig option"
  NextProposalId :: "u64 option"
  MultisigConfigKey :: "MultisigConfig option"
  GuardianConfigKey :: "GuardianConfig option"
  GovProposal :: "u64 \<Rightarrow> Proposal option"
  Vote :: "u64 \<times> address \<Rightarrow> VoteInfo option"
  VotePowerSnapshotKey :: "u64 \<times> address \<Rightarrow> VotePowerSnapshot option"
  VoteLockKey :: "address \<Rightarrow> VoteLock option"
  DelegationRecordKey :: "address \<Rightarrow> delegation_entry option"
  GovernanceAnalyticsKey :: "GovernanceAnalytics option"
  ProposalApprovals :: "u64 \<Rightarrow> address list option"
  UserProposals :: "address \<times> u64 \<Rightarrow> bool option"
  ProposalSimulationCache :: "u64 \<Rightarrow> ProposalSimulationResult option"
  ParameterOptimizationCache :: "ParameterOptimizationRecommendation option"
  RecoveryRequestKey :: "RecoveryRequest option"
  RecoveryApprovals :: "address list option"
  gov_log :: "gov_event list"

type_synonym 'a gov_fn = "(gov_state, GovernanceError, 'a) contract_fn"
type_synonym balances = "address \<Rightarrow> address \<Rightarrow> i128 option"

definition gov_publish :: "gov_event \<Rightarrow> gov_state \<Rightarrow> gov_state" where
  "gov_publish e s = s\<lparr>gov_log := gov_log s @ [e]\<rparr>"

definition save_proposal :: "u64 \<Rightarrow> Proposal \<Rightarrow> gov_state \<Rightarrow> gov_state" where
  "save_proposal i p s = s\<lparr>GovProposal := (GovProposal s)(i \<mapsto> p)\<rparr>"

definition load_config :: "GovernanceConfig gov_fn" where
  "load_config = reads GovConfig (\<lambda>x. ok_or x GovernanceError.NotInitialized ret)"

definition load_proposal :: "u64 \<Rightarrow> Proposal gov_fn" where
  "load_proposal i = reads (\<lambda>s. GovProposal s i) (\<lambda>x. ok_or x ProposalNotFound ret)"

definition gov_require_admin :: "address \<Rightarrow> unit gov_fn" where
  "gov_require_admin caller =
     reads GovAdmin (\<lambda>x. ok_or x GovernanceError.NotInitialized (\<lambda>admin.
     fail_if (caller \<noteq> admin) GovernanceError.Unauthorized (ret ())))"

section \<open>Initialization and proposals\<close>

definition gov_initialize ::
    "host \<Rightarrow> address \<Rightarrow> address \<Rightarrow> u64 option \<Rightarrow> u64 option \<Rightarrow> u32 option \<Rightarrow> i128 option \<Rightarrow> u64 option \<Rightarrow> i128 option \<Rightarrow> unit gov_fn" where
  "gov_initialize h admin token vp ed qb pt td dvt =
     reads GovAdmin (\<lambda>a.
     fail_if (a \<noteq> None) GovernanceError.AlreadyInitialized (
     tryM (require_auth h admin) (\<lambda>_.
     let c = \<lparr>voting_period = unwrap_or vp DEFAULT_VOTING_PERIOD, execution_delay = unwrap_or ed DEFAULT_EXECUTION_DELAY,
              quorum_bps = unwrap_or qb DEFAULT_QUORUM_BPS, proposal_threshold = unwrap_or pt 0, vote_token = token,
              timelock_duration = unwrap_or td DEFAULT_TIMELOCK_DURATION,
              default_voting_threshold = unwrap_or dvt DEFAULT_VOTING_THRESHOLD\<rparr> in
     fail_if (quorum_bps c > 10000) InvalidQuorum (
     fail_if (voting_period c = 0) InvalidVotingPeriod (
     writes (\<lambda>s. s\<lparr>GovAdmin := Some admin\<rparr>) (
     writes (\<lambda>s. s\<lparr>GovConfig := Some c\<rparr>) (
     writes (\<lambda>s. s\<lparr>NextProposalId := Some 0\<rparr>) (
     writes (\<lambda>s. s\<lparr>MultisigConfigKey := Some \<lparr>ms_admins = [admin], ms_threshold = 1\<rparr>\<rparr>) (
     writes (\<lambda>s. s\<lparr>GuardianConfigKey := Some \<lparr>guardians = [], guardian_threshold = 1\<rparr>\<rparr>) (
     writes (gov_publish (GovernanceInitializedEvent admin token (voting_period c) (quorum_bps c) (now h)))
     (ret ())))))))))))"

definition create_proposal ::
    "host \<Rightarrow> balances \<Rightarrow> address \<Rightarrow> ProposalType \<Rightarrow> string \<Rightarrow> i128 option \<Rightarrow> u64 gov_fn" where
  "create_proposal h bal proposer ptype descr threshold =
     tryM (require_auth h proposer) (\<lambda>_.
     fail_if (length descr > MAX_DESCRIPTION_LEN) InputTooLong (
     tryM load_config (\<lambda>c.
     tryM (if proposal_threshold c > 0 then
             unwrap (bal (vote_token c) proposer) (\<lambda>balance.
             fail_if (balance < proposal_threshold c) InsufficientProposalPower (ret ()))
           else ret ()) (\<lambda>_.
     reads (\<lambda>s. unwrap_or (NextProposalId s) 0) (\<lambda>next_id.
     unwrap (checked_add_u64 (now h) (voting_period c)) (\<lambda>stop.
     let p = \<lparr>prop_id = next_id, prop_proposer = proposer, prop_type = ptype, description = descr, prop_status = Pending,
              start_time = now h, end_time = stop, execution_time = None,
              voting_threshold = unwrap_or threshold (default_voting_threshold c), for_votes = 0, against_votes = 0,
              abstain_votes = 0, total_voting_power = 0, created_at = now h\<rparr> in
     writes (save_proposal next_id p) (
     writes (\<lambda>s. s\<lparr>UserProposals := (UserProposals s)((proposer, next_id) \<mapsto> True)\<rparr>) (
     writes (\<lambda>s. s\<lparr>ProposalApprovals := (ProposalApprovals s)(next_id \<mapsto> [])\<rparr>) (
     unwrap (checked_add_u64 next_id 1) (\<lambda>succ_id.
     writes (\<lambda>s. s\<lparr>NextProposalId := Some succ_id\<rparr>) (
     writes (gov_publish (ProposalCreatedEvent next_id proposer ptype descr (start_time p) (end_time p) (now h)))
     (ret next_id))))))))))))"

section \<open>Voting power and delegation\<close>

definition read_made :: "address \<Rightarrow> (DelegationRecord option \<Rightarrow> 'a gov_fn) \<Rightarrow> 'a gov_fn" where
  "read_made a k = reads (\<lambda>s. DelegationRecordKey s a) (\<lambda>x.
     case x of None \<Rightarrow> k None | Some (Made r) \<Rightarrow> k (Some r) | Some (Received ds) \<Rightarrow> panic)"

definition read_received :: "address \<Rightarrow> (address list \<Rightarrow> 'a gov_fn) \<Rightarrow> 'a gov_fn" where
  "read_received a k = reads (\<lambda>s. DelegationRecordKey s a) (\<lambda>x.
     case x of None \<Rightarrow> k [] | Some (Received ds) \<Rightarrow> k ds | Some (Made r) \<Rightarrow> panic)"

definition take_vote_power_snapshot :: "host \<Rightarrow> balances \<Rightarrow> u64 \<Rightarrow> address \<Rightarrow> address \<Rightarrow> unit gov_fn" where
  "take_vote_power_snapshot h bal proposal_id voter token =
     unwrap (bal token voter) (\<lambda>balance.
     writes (\<lambda>s. s\<lparr>VotePowerSnapshotKey := (VotePowerSnapshotKey s)((proposal_id, voter) \<mapsto>
        \<lparr>vps_proposal_id = proposal_id, vps_voter = voter, vps_balance = balance, vps_snapshot_time = now h\<rparr>)\<rparr>) (
     writes (gov_publish (VotePowerSnapshotTakenEvent proposal_id voter balance (now h)))
     (ret ())))"

definition get_snapshotted_vote_power :: "balances \<Rightarrow> u64 \<Rightarrow> address \<Rightarrow> address \<Rightarrow> i128 gov_fn" where
  "get_snapshotted_vote_power bal proposal_id voter token =
     reads (\<lambda>s. VotePowerSnapshotKey s (proposal_id, voter)) (\<lambda>x.
     case x of Some snap \<Rightarrow> ret (vps_balance snap) | None \<Rightarrow> unwrap (bal token voter) ret)"

fun sum_delegated :: "u64 \<Rightarrow> address \<Rightarrow> u64 \<Rightarrow> address list \<Rightarrow> i128 \<Rightarrow> i128 gov_fn" where
  "sum_delegated proposal_id delegatee deadline [] tot = ret tot"
| "sum_delegated proposal_id delegatee deadline (d # ds) tot =
     read_made d (\<lambda>rec.
     case rec of None \<Rightarrow> sum_delegated proposal_id delegatee deadline ds tot
     | Some r \<Rightarrow>
         if dr_delegatee r = delegatee \<and> delegated_at r \<le> deadline then
           reads (\<lambda>s. VotePowerSnapshotKey s (proposal_id, d)) (\<lambda>x.
           case x of None \<Rightarrow> sum_delegated proposal_id delegatee deadline ds tot
           | Some snap \<Rightarrow> unwrap (checked_add tot (vps_balance snap)) (sum_delegated proposal_id delegatee deadline ds))
         else sum_delegated proposal_id delegatee deadline ds tot)"

definition get_delegated_power_for_voter :: "u64 \<Rightarrow> address \<Rightarrow> Proposal \<Rightarrow> i128 gov_fn" where
  "get_delegated_power_for_voter proposal_id delegatee p =
     read_received delegatee (\<lambda>delegators.
     sum_delegated proposal_id delegatee (created_at p - DELEGATION_DEADLINE) delegators 0)"

definition get_vote_power_with_delegation :: "balances \<Rightarrow> u64 \<Rightarrow> address \<Rightarrow> address \<Rightarrow> i128 gov_fn" where
  "get_vote_power_with_delegation bal proposal_id voter token =
     tryM (load_proposal proposal_id) (\<lambda>p.
     tryM (get_snapshotted_vote_power bal proposal_id voter token) (\<lambda>own_power.
     tryM (get_delegated_power_for_voter proposal_id voter p) (\<lambda>delegated_extra.
     unwrap (checked_add own_power delegated_extra) ret)))"

definition is_vote_locked :: "host \<Rightarrow> gov_state \<Rightarrow> address \<Rightarrow> bool" where
  "is_vote_locked h s voter = (case VoteLockKey s voter of Some l \<Rightarrow> now h < locked_until l | None \<Rightarrow> False)"

definition get_delegation_depth :: "address \<Rightarrow> u32 gov_fn" where
  "get_delegation_depth a = read_made a (\<lambda>x. case x of Some r \<Rightarrow> ret (depth r) | None \<Rightarrow> ret 0)"

definition delegate_vote :: "host \<Rightarrow> address \<Rightarrow> address \<Rightarrow> unit gov_fn" where
  "delegate_vote h delegator delegatee =
     tryM (require_auth h delegator) (\<lambda>_.
     fail_if (delegator = delegatee) SelfDelegation (
     reads (\<lambda>s. is_vote_locked h s delegator) (\<lambda>locked.
     fail_if locked VotesLocked (
     reads (\<lambda>s. DelegationRecordKey s delegator \<noteq> None) (\<lambda>ex.
     fail_if ex AlreadyDelegated (
     tryM (get_delegation_depth delegatee) (\<lambda>dep.
     fail_if (dep \<ge> MAX_DELEGATION_DEPTH) DelegationDepthExceeded (
     unwrap (checked_add_u32 dep 1) (\<lambda>dep1.
     writes (\<lambda>s. s\<lparr>DelegationRecordKey := (DelegationRecordKey s)(delegator \<mapsto>
        Made \<lparr>dr_delegator = delegator, dr_delegatee = delegatee, delegated_at = now h, depth = dep1\<rparr>)\<rparr>) (
     read_received delegatee (\<lambda>delegators.
     writes (\<lambda>s. s\<lparr>DelegationRecordKey := (DelegationRecordKey s)(delegatee \<mapsto> Received (delegators @ [delegator]))\<rparr>) (
     writes (gov_publish (VoteDelegatedEvent delegator delegatee (now h)))
     (ret ())))))))))))))"

definition revoke_delegation :: "host \<Rightarrow> address \<Rightarrow> unit gov_fn" where
  "revoke_delegation h delegator =
     tryM (require_auth h delegator) (\<lambda>_.
     read_made delegator (\<lambda>x. ok_or x GovernanceError.NotInitialized (\<lambda>r.
     read_received (dr_delegatee r) (\<lambda>delegators.
     writes (\<lambda>s. s\<lparr>DelegationRecordKey := (DelegationRecordKey s)(dr_delegatee r \<mapsto> Received (filter (\<lambda>d. d \<noteq> delegator) delegators))\<rparr>) (
     writes (\<lambda>s. s\<lparr>DelegationRecordKey := (DelegationRecordKey s)(delegator := None)\<rparr>) (
     writes (gov_publish (VoteDelegationRevokedEvent delegator (now h)))
     (ret ())))))))"

section \<open>Voting, queueing, execution\<close>

text \<open>The power with delegation is computed and then shadowed by the live balance.\<close>

definition vote :: "host \<Rightarrow> balances \<Rightarrow> address \<Rightarrow> u64 \<Rightarrow> VoteType \<Rightarrow> unit gov_fn" where
  "vote h bal voter proposal_id vtype =
     tryM (require_auth h voter) (\<lambda>_.
     tryM load_config (\<lambda>c.
     tryM (load_proposal proposal_id) (\<lambda>p0.
     let p = (if prop_status p0 = Pending \<and> start_time p0 \<le> now h then p0\<lparr>prop_status := Active\<rparr> else p0) in
     fail_if (prop_status p \<noteq> Active) ProposalNotActive (
     reads (\<lambda>s. Vote s (proposal_id, voter) \<noteq> None) (\<lambda>voted.
     fail_if voted AlreadyVoted (
     tryM (get_vote_power_with_delegation bal proposal_id voter (vote_token c)) (\<lambda>_.
     unwrap (bal (vote_token c) voter) (\<lambda>power.
     fail_if (power = 0) NoVotingPower (
     tryM (case vtype of
             For \<Rightarrow> unwrap (checked_add (for_votes p) power) (\<lambda>n. ret (p\<lparr>for_votes := n\<rparr>))
           | Against \<Rightarrow> unwrap (checked_add (against_votes p) power) (\<lambda>n. ret (p\<lparr>against_votes := n\<rparr>))
           | Abstain \<Rightarrow> unwrap (checked_add (abstain_votes p) power) (\<lambda>n. ret (p\<lparr>abstain_votes := n\<rparr>))) (\<lambda>p1.
     unwrap (checked_add (total_voting_power p1) power) (\<lambda>tot.
     writes (save_proposal proposal_id (p1\<lparr>total_voting_power := tot\<rparr>)) (
     writes (\<lambda>s. s\<lparr>Vote := (Vote s)((proposal_id, voter) \<mapsto> \<lparr>vi_voter = voter, vi_proposal_id = proposal_id,
               vi_vote_type = vtype, vi_voting_power = power, vi_timestamp = now h\<rparr>)\<rparr>) (
     writes (gov_publish (VoteCastEvent proposal_id voter vtype power (now h)))
     (ret ()))))))))))))))"

text \<open>The arithmetic that \<open>queue_proposal\<close> and the simulation share: quorum and threshold.\<close>

definition tally :: "Proposal \<Rightarrow> GovernanceConfig \<Rightarrow> (i128 \<times> bool \<times> i128 \<times> bool) gov_fn" where
  "tally p c =
     unwrap (checked_add (for_votes p) (against_votes p)) (\<lambda>t1.
     unwrap (checked_add t1 (abstain_votes p)) (\<lambda>total_votes.
     unwrap (checked_mul total_votes (int (quorum_bps c))) (\<lambda>q.
     let quorum = q sdiv BASIS_POINTS_SCALE; reached = total_votes \<ge> quorum in
     unwrap (checked_mul (total_voting_power p) (voting_threshold p)) (\<lambda>m.
     let threshold_votes = m sdiv BASIS_POINTS_SCALE in
     ret (quorum, reached, threshold_votes, for_votes p \<ge> threshold_votes)))))"

text \<open>The outcome of the tally is written back.\<close>

definition finish_queue :: "host \<Rightarrow> u64 \<Rightarrow> Proposal \<Rightarrow> GovernanceConfig \<Rightarrow> i128 \<times> bool \<times> i128 \<times> bool \<Rightarrow> ProposalOutcome gov_fn" where
  "finish_queue h proposal_id p c = (\<lambda>(quorum, reached, threshold_votes, threshold_met).
     let ok = reached \<and> threshold_met;
         outcome = \<lparr>po_proposal_id = proposal_id, succeeded = ok, po_for_votes = for_votes p,
                    po_against_votes = against_votes p, po_abstain_votes = abstain_votes p, quorum_reached = reached,
                    quorum_required = quorum\<rparr> in
     if ok then
       unwrap (checked_add_u64 (now h) (execution_delay c)) (\<lambda>at.
       writes (save_proposal proposal_id (p\<lparr>execution_time := Some at, prop_status := Queued\<rparr>)) (
       writes (gov_publish (ProposalQueuedEvent proposal_id at (for_votes p) (against_votes p) reached (ok \<and> reached)))
       (ret outcome)))
     else
       writes (save_proposal proposal_id (p\<lparr>prop_status := Defeated\<rparr>)) (
       writes (gov_publish (ProposalFailedEvent proposal_id (for_votes p) (against_votes p) reached (\<not> ok \<and> reached)))
       (ret outcome)))"

definition queue_proposal :: "host \<Rightarrow> address \<Rightarrow> u64 \<Rightarrow> ProposalOutcome gov_fn" where
  "queue_proposal h caller proposal_id =
     tryM (require_auth h caller) (\<lambda>_.
     tryM load_config (\<lambda>c.
     tryM (load_proposal proposal_id) (\<lambda>p.
     fail_if (now h \<le> end_time p) VotingNotEnded (
     fail_if (prop_status p \<in> {Executed, Cancelled, Expired, Queued}) InvalidProposalStatus (
     unwrap (checked_add_u64 (end_time p) DEFAULT_TIMELOCK_DURATION) (\<lambda>last.
     if now h > last then
       writes (save_proposal proposal_id (p\<lparr>prop_status := Expired\<rparr>)) (fail ProposalExpired)
     else
       tryM (tally p c) (finish_queue h proposal_id p c)))))))"

definition compute_simulation :: "host \<Rightarrow> Proposal \<Rightarrow> GovernanceConfig \<Rightarrow> ProposalSimulationResult gov_fn" where
  "compute_simulation h p c =
     tryM (tally p c) (\<lambda>(quorum, reached, threshold_votes, threshold_met).
     let ok = reached \<and> threshold_met in
     ret \<lparr>sim_proposal_id = prop_id p, sim_now = now h, would_succeed = ok, sim_quorum_required = quorum,
          sim_quorum_reached = reached, sim_threshold_votes = threshold_votes, sim_threshold_met = threshold_met,
          sim_for_votes = for_votes p, sim_against_votes = against_votes p, sim_abstain_votes = abstain_votes p,
          sim_total_voting_power = total_voting_power p,
          sim_note = (if ok then ''simulation: would succeed with current votes''
                      else ''simulation: would fail with current votes'')\<rparr>)"

definition simulate_proposal :: "host \<Rightarrow> u64 \<Rightarrow> ProposalSimulationResult gov_fn" where
  "simulate_proposal h proposal_id =
     tryM load_config (\<lambda>c.
     tryM (load_proposal proposal_id) (\<lambda>p.
     tryM (compute_simulation h p c) (\<lambda>r.
     writes (\<lambda>s. s\<lparr>ProposalSimulationCache := (ProposalSimulationCache s)(proposal_id \<mapsto> r)\<rparr>)
     (ret r))))"

definition get_governance_analytics :: "gov_state \<Rightarrow> GovernanceAnalytics" where
  "get_governance_analytics s = unwrap_or (GovernanceAnalyticsKey s)
     \<lparr>total_proposals = 0, total_votes = 0, suspicious_proposals = 0, last_suspicious_at = 0, max_single_voter_power = 0\<rparr>"

definition get_parameter_optimization_recommendation :: "host \<Rightarrow> ParameterOptimizationRecommendation gov_fn" where
  "get_parameter_optimization_recommendation h =
     reads ParameterOptimizationCache (\<lambda>cached.
     case cached of Some r \<Rightarrow> ret r
     | None \<Rightarrow>
       tryM load_config (\<lambda>c.
       reads get_governance_analytics (\<lambda>a.
       let per = (if total_proposals a = 0 then 0 else total_votes a div total_proposals a);
           q1 = (if per < 10 \<and> quorum_bps c > 2000 then quorum_bps c - 500 else quorum_bps c);
           q2 = (if suspicious_proposals a > 0 then min (min (q1 + 250) u32_max) 9000 else q1) in
       tryM (if suspicious_proposals a > 0 then
               unwrap (checked_add (default_voting_threshold c) 250) (\<lambda>t. ret (min t BASIS_POINTS_SCALE))
             else ret (default_voting_threshold c)) (\<lambda>t.
       let r = \<lparr>generated_at = now h, suggested_quorum_bps = q2, suggested_vote_threshold = t,
                suggested_voting_period = voting_period c,
                transparency_note = ''recommendation derived from on-chain analytics; governance may override''\<rparr> in
       writes (\<lambda>s. s\<lparr>ParameterOptimizationCache := Some r\<rparr>)
       (ret r)))))"

definition gov_get_admin :: "address gov_fn" where
  "gov_get_admin = reads GovAdmin (\<lambda>x. ok_or x GovernanceError.NotInitialized ret)"

definition execute_proposal_type :: "host \<Rightarrow> ProposalType \<Rightarrow> unit gov_fn" where
  "execute_proposal_type h ptype =
     (case ptype of
        MinCollateralRatio ratio \<Rightarrow> map_err (\<lambda>_. ExecutionFailed) (set_risk_params h (Some ratio) None None None)
      | RiskParamsChange mcr lt cf li \<Rightarrow> map_err (\<lambda>_. ExecutionFailed) (set_risk_params h mcr lt cf li)
      | InterestRateChange p \<Rightarrow>
          tryM gov_get_admin (\<lambda>admin. map_err (\<lambda>_. ExecutionFailed) (update_interest_rate_config h admin p))
      | PauseSwitch op paused \<Rightarrow>
          tryM gov_get_admin (\<lambda>admin. map_err (\<lambda>_. ExecutionFailed) (set_pause_switch h admin op paused))
      | EmergencyPause paused \<Rightarrow>
          tryM gov_get_admin (\<lambda>admin. map_err (\<lambda>_. ExecutionFailed) (set_emergency_pause h admin paused))
      | GenericAction _ \<Rightarrow> fail InvalidProposalType)"

definition execute_proposal :: "host \<Rightarrow> address \<Rightarrow> u64 \<Rightarrow> unit gov_fn" where
  "execute_proposal h executor proposal_id =
     tryM (require_auth h executor) (\<lambda>_.
     tryM load_config (\<lambda>c.
     tryM (load_proposal proposal_id) (\<lambda>p.
     fail_if (prop_status p \<noteq> Queued) NotQueued (
     ok_or (execution_time p) InvalidExecutionTime (\<lambda>at.
     fail_if (now h < at) ExecutionTooEarly (
     unwrap (checked_add_u64 at (timelock_duration c)) (\<lambda>last.
     if now h > last then
       writes (save_proposal proposal_id (p\<lparr>prop_status := Expired\<rparr>)) (fail ProposalExpired)
     else
     tryM (execute_proposal_type h (prop_type p)) (\<lambda>_.
     writes (save_proposal proposal_id (p\<lparr>prop_status := Executed\<rparr>)) (
     writes (gov_publish (ProposalExecutedEvent proposal_id executor (now h)))
     (ret ()))))))))))"

text \<open>The two ways around the vote.\<close>

definition queued_proposal :: "host \<Rightarrow> u64 \<Rightarrow> address \<Rightarrow> ProposalType \<Rightarrow> string \<Rightarrow> u64 \<Rightarrow> Proposal" where
  "queued_proposal h i proposer ptype descr at =
     \<lparr>prop_id = i, prop_proposer = proposer, prop_type = ptype, description = descr, prop_status = Queued,
      start_time = now h, end_time = now h, execution_time = Some at, voting_threshold = 0, for_votes = 0,
      against_votes = 0, abstain_votes = 0, total_voting_power = 0, created_at = now h\<rparr>"

definition create_admin_proposal :: "host \<Rightarrow> address \<Rightarrow> ProposalType \<Rightarrow> string \<Rightarrow> u64 gov_fn" where
  "create_admin_proposal h admin ptype descr =
     tryM (require_auth h admin) (\<lambda>_.
     fail_if (length descr > MAX_DESCRIPTION_LEN) InputTooLong (
     tryM (gov_require_admin admin) (\<lambda>_.
     tryM load_config (\<lambda>c.
     reads (\<lambda>s. unwrap_or (NextProposalId s) 0) (\<lambda>i.
     unwrap (checked_add_u64 (now h) (max (execution_delay c) MIN_TIMELOCK_DELAY)) (\<lambda>at.
     writes (save_proposal i (queued_proposal h i admin ptype descr at)) (
     unwrap (checked_add_u64 i 1) (\<lambda>succ_id.
     writes (\<lambda>s. s\<lparr>NextProposalId := Some succ_id\<rparr>) (
     writes (gov_publish (proposal_created i admin)) (
     writes (gov_publish (proposal_queued i at))
     (ret i)))))))))))"

definition create_emergency_proposal :: "host \<Rightarrow> address \<Rightarrow> ProposalType \<Rightarrow> string \<Rightarrow> u64 gov_fn" where
  "create_emergency_proposal h caller ptype descr =
     tryM (require_auth h caller) (\<lambda>_.
     fail_if (length descr > MAX_DESCRIPTION_LEN) InputTooLong (
     reads MultisigConfigKey (\<lambda>x. ok_or x GovernanceError.NotInitialized (\<lambda>m.
     fail_if (caller \<notin> set (ms_admins m)) GovernanceError.Unauthorized (
     reads (\<lambda>s. unwrap_or (NextProposalId s) 0) (\<lambda>i.
     writes (save_proposal i (queued_proposal h i caller ptype descr (now h))) (
     unwrap (checked_add_u64 i 1) (\<lambda>succ_id.
     writes (\<lambda>s. s\<lparr>NextProposalId := Some succ_id\<rparr>) (
     writes (gov_publish (proposal_created i caller))
     (ret i))))))))))"

definition cancel_proposal :: "host \<Rightarrow> address \<Rightarrow> u64 \<Rightarrow> unit gov_fn" where
  "cancel_proposal h caller proposal_id =
     tryM (require_auth h caller) (\<lambda>_.
     tryM gov_get_admin (\<lambda>admin.
     tryM (load_proposal proposal_id) (\<lambda>p.
     fail_if (caller \<noteq> prop_proposer p \<and> caller \<noteq> admin) GovernanceError.Unauthorized (
     fail_if (prop_status p \<in> {Executed, Queued}) InvalidProposalStatus (
     writes (save_proposal proposal_id (p\<lparr>prop_status := Cancelled\<rparr>)) (
     writes (gov_publish (ProposalCancelledEvent proposal_id caller (now h)))
     (ret ())))))))"

section \<open>The multisig\<close>

definition approve_proposal :: "host \<Rightarrow> address \<Rightarrow> u64 \<Rightarrow> unit gov_fn" where
  "approve_proposal h approver proposal_id =
     tryM (require_auth h approver) (\<lambda>_.
     reads MultisigConfigKey (\<lambda>x. ok_or x GovernanceError.NotInitialized (\<lambda>m.
     fail_if (approver \<notin> set (ms_admins m)) GovernanceError.Unauthorized (
     reads (\<lambda>s. GovProposal s proposal_id) (\<lambda>p.
     fail_if (p = None) ProposalNotFound (
     reads (\<lambda>s. unwrap_or (ProposalApprovals s proposal_id) []) (\<lambda>approvals.
     fail_if (approver \<in> set approvals) AlreadyVoted (
     writes (\<lambda>s. s\<lparr>ProposalApprovals := (ProposalApprovals s)(proposal_id \<mapsto> approvals @ [approver])\<rparr>) (
     writes (gov_publish (ProposalApprovedEvent proposal_id approver (now h)))
     (ret ()))))))))))"

definition set_multisig_config :: "host \<Rightarrow> address \<Rightarrow> address list \<Rightarrow> u32 \<Rightarrow> unit gov_fn" where
  "set_multisig_config h caller admins threshold =
     tryM (require_auth h caller) (\<lambda>_.
     tryM (gov_require_admin caller) (\<lambda>_.
     fail_if (admins = [] \<or> threshold = 0 \<or> threshold > length admins) InvalidMultisigConfig (
     writes (\<lambda>s. s\<lparr>MultisigConfigKey := Some \<lparr>ms_admins = admins, ms_threshold = threshold\<rparr>\<rparr>)
     (ret ()))))"

definition set_multisig_admins :: "host \<Rightarrow> address \<Rightarrow> address list \<Rightarrow> unit gov_fn" where
  "set_multisig_admins h caller admins =
     reads MultisigConfigKey (\<lambda>x. ok_or x GovernanceError.NotInitialized (\<lambda>m.
     set_multisig_config h caller admins (ms_threshold m)))"

definition set_multisig_threshold :: "host \<Rightarrow> address \<Rightarrow> u32 \<Rightarrow> unit gov_fn" where
  "set_multisig_threshold h caller threshold =
     reads MultisigConfigKey (\<lambda>x. ok_or x GovernanceError.NotInitialized (\<lambda>m.
     set_multisig_config h caller (ms_admins m) threshold))"

definition propose_set_min_collateral_ratio :: "host \<Rightarrow> balances \<Rightarrow> address \<Rightarrow> i128 \<Rightarrow> u64 gov_fn" where
  "propose_set_min_collateral_ratio h bal proposer new_ratio =
     create_proposal h bal proposer (MinCollateralRatio new_ratio) ''Update min collateral ratio'' None"

definition execute_multisig_proposal :: "host \<Rightarrow> address \<Rightarrow> u64 \<Rightarrow> unit gov_fn" where
  "execute_multisig_proposal h executor proposal_id =
     tryM (require_auth h executor) (\<lambda>_.
     reads MultisigConfigKey (\<lambda>x. ok_or x GovernanceError.NotInitialized (\<lambda>m.
     fail_if (executor \<notin> set (ms_admins m)) GovernanceError.Unauthorized (
     tryM (load_proposal proposal_id) (\<lambda>p.
     fail_if (prop_status p \<noteq> Pending) InvalidProposalStatus (
     reads (\<lambda>s. unwrap_or (ProposalApprovals s proposal_id) []) (\<lambda>approvals.
     fail_if (length approvals < ms_threshold m) InsufficientApprovals (
     tryM (execute_proposal_type h (prop_type p)) (\<lambda>_.
     writes (save_proposal proposal_id (p\<lparr>prop_status := Executed\<rparr>)) (
     writes (gov_publish (proposal_executed proposal_id executor))
     (ret ())))))))))))"

section \<open>Guardians and recovery\<close>

definition load_guardians :: "GuardianConfig gov_fn" where
  "load_guardians = reads GuardianConfigKey (\<lambda>x. ok_or x GuardianNotFound ret)"

definition add_guardian :: "host \<Rightarrow> address \<Rightarrow> address \<Rightarrow> unit gov_fn" where
  "add_guardian h caller guardian =
     tryM (require_auth h caller) (\<lambda>_.
     tryM (gov_require_admin caller) (\<lambda>_.
     reads (\<lambda>s. unwrap_or (GuardianConfigKey s) \<lparr>guardians = [], guardian_threshold = 1\<rparr>) (\<lambda>g.
     fail_if (guardian \<in> set (guardians g)) GuardianAlreadyExists (
     writes (\<lambda>s. s\<lparr>GuardianConfigKey := Some (g\<lparr>guardians := guardians g @ [guardian]\<rparr>)\<rparr>) (
     writes (gov_publish (GuardianAddedEvent guardian caller (now h)))
     (ret ()))))))"

definition remove_guardian :: "host \<Rightarrow> address \<Rightarrow> address \<Rightarrow> unit gov_fn" where
  "remove_guardian h caller guardian =
     tryM (require_auth h caller) (\<lambda>_.
     tryM (gov_require_admin caller) (\<lambda>_.
     tryM load_guardians (\<lambda>g.
     fail_if (guardian \<notin> set (guardians g)) GuardianNotFound (
     let gs = filter (\<lambda>x. x \<noteq> guardian) (guardians g);
         g1 = g\<lparr>guardians := gs\<rparr>;
         g2 = (if guardian_threshold g1 > length gs then g1\<lparr>guardian_threshold := length gs\<rparr> else g1) in
     writes (\<lambda>s. s\<lparr>GuardianConfigKey := Some g2\<rparr>) (
     writes (gov_publish (GuardianRemovedEvent guardian caller (now h)))
     (ret ()))))))"

definition set_guardian_threshold :: "host \<Rightarrow> address \<Rightarrow> u32 \<Rightarrow> unit gov_fn" where
  "set_guardian_threshold h caller threshold =
     tryM (require_auth h caller) (\<lambda>_.
     tryM (gov_require_admin caller) (\<lambda>_.
     tryM load_guardians (\<lambda>g.
     fail_if (threshold = 0 \<or> threshold > length (guardians g)) InvalidGuardianConfig (
     writes (\<lambda>s. s\<lparr>GuardianConfigKey := Some (g\<lparr>guardian_threshold := threshold\<rparr>)\<rparr>)
     (ret ())))))"

definition start_recovery :: "host \<Rightarrow> address \<Rightarrow> address \<Rightarrow> address \<Rightarrow> unit gov_fn" where
  "start_recovery h who old new =
     tryM (require_auth h who) (\<lambda>_.
     tryM load_guardians (\<lambda>g.
     fail_if (who \<notin> set (guardians g)) GovernanceError.Unauthorized (
     reads RecoveryRequestKey (\<lambda>r.
     fail_if (r \<noteq> None) RecoveryInProgress (
     unwrap (checked_add_u64 (now h) DEFAULT_RECOVERY_PERIOD) (\<lambda>stop.
     writes (\<lambda>s. s\<lparr>RecoveryRequestKey := Some \<lparr>old_admin = old, new_admin = new, initiator = who, initiated_at = now h, expires_at = stop\<rparr>\<rparr>) (
     writes (\<lambda>s. s\<lparr>RecoveryApprovals := Some [who]\<rparr>) (
     writes (gov_publish (RecoveryStartedEvent old new who stop (now h)))
     (ret ())))))))))"

definition approve_recovery :: "host \<Rightarrow> address \<Rightarrow> unit gov_fn" where
  "approve_recovery h approver =
     tryM (require_auth h approver) (\<lambda>_.
     tryM load_guardians (\<lambda>g.
     fail_if (approver \<notin> set (guardians g)) GovernanceError.Unauthorized (
     reads RecoveryRequestKey (\<lambda>r.
     fail_if (r = None) NoRecoveryInProgress (
     reads (\<lambda>s. unwrap_or (RecoveryApprovals s) []) (\<lambda>approvals.
     fail_if (approver \<in> set approvals) AlreadyVoted (
     let approvals1 = approvals @ [approver] in
     writes (\<lambda>s. s\<lparr>RecoveryApprovals := Some approvals1\<rparr>) (
     writes (gov_publish (RecoveryApprovedEvent approver (length approvals1) (guardian_threshold g) (now h)))
     (ret ())))))))))"

definition execute_recovery :: "host \<Rightarrow> address \<Rightarrow> unit gov_fn" where
  "execute_recovery h executor =
     tryM (require_auth h executor) (\<lambda>_.
     tryM load_guardians (\<lambda>g.
     reads RecoveryRequestKey (\<lambda>x. ok_or x NoRecoveryInProgress (\<lambda>r.
     if now h > expires_at r then
       writes (\<lambda>s. s\<lparr>RecoveryRequestKey := None\<rparr>) (fail ProposalExpired)
     else
     reads (\<lambda>s. unwrap_or (RecoveryApprovals s) []) (\<lambda>approvals.
     fail_if (length approvals < guardian_threshold g) InsufficientApprovals (
     reads MultisigConfigKey (\<lambda>y. ok_or y GovernanceError.NotInitialized (\<lambda>m.
     writes (\<lambda>s. s\<lparr>MultisigConfigKey := Some (m\<lparr>ms_admins := filter (\<lambda>a. a \<noteq> old_admin r) (ms_admins m) @ [new_admin r]\<rparr>)\<rparr>) (
     writes (\<lambda>s. s\<lparr>RecoveryRequestKey := None\<rparr>) (
     writes (\<lambda>s. s\<lparr>RecoveryApprovals := None\<rparr>) (
     writes (gov_publish (RecoveryExecutedEvent (old_admin r) (new_admin r) executor (now h)))
     (ret ()))))))))))))"

end
