(* ===== verification/HW_Facts.thy ===== *)
theory HW_Facts
  imports HW_Governance
begin

text \<open>
  What the successful calls of the protocol contract's core and governance did: the inversion rules the
  properties rest on, and the frame of each operation.
\<close>

section \<open>The core\<close>

lemma when_some_Ok [ok_simps]:
  "when_some x f c s = (Ok c', t) \<longleftrightarrow> (x = None \<and> c' = c \<and> t = s) \<or> (\<exists>v. x = Some v \<and> f v c s = (Ok c', t))"
  by (cases x) (auto simp: when_some_def)

lemma or_default_Ok [ok_simps]:
  "or_default m d s = (Ok a, t) \<longleftrightarrow> m s = (Ok a, t) \<or> (\<exists>e. m s = (Err e, t) \<and> a = d)"
  by (auto simp: or_default_def split: res.splits prod.splits)

lemma hw_require_admin_Ok [ok_simps]:
  "hw_require_admin c s = (Ok u, t) \<longleftrightarrow> AdminKey s = Some c \<and> t = s"
  "rm_require_admin c s = (Ok u, t) \<longleftrightarrow> AdminKey s = Some c \<and> t = s"
  by (auto simp: hw_require_admin_def rm_require_admin_def ok_simps)

lemma hw_set_admin_Ok [ok_simps]:
  "hw_set_admin a c s = (Ok u, t) \<longleftrightarrow>
     (AdminKey s = None \<or> c = AdminKey s) \<and> t = core_publish (AdminChanged a c) (s\<lparr>AdminKey := Some a\<rparr>)"
  by (auto simp: hw_set_admin_def ok_simps)

lemma check_param_Ok [ok_simps]: "check_param ok c s = (Ok c', t) \<longleftrightarrow> ok \<and> c' = c \<and> t = s"
  by (auto simp: check_param_def)

text \<open>A change of at most a tenth.\<close>

definition small_change :: "i128 \<Rightarrow> i128 \<Rightarrow> bool" where
  "small_change old new \<longleftrightarrow> 10 * \<bar>new - old\<bar> \<le> \<bar>old\<bar>"

lemma validate_parameter_change_Ok [ok_simps]:
  "validate_parameter_change old new s = (Ok u, t) \<longleftrightarrow> t = s \<and> in_i128 \<bar>new - old\<bar> \<and> in_i128 (old * 1000) \<and> \<bar>new - old\<bar> \<le> old * 1000 sdiv 10000"
  by (auto simp: validate_parameter_change_def ok_simps MAX_PARAMETER_CHANGE_BPS_def BASIS_POINTS_SCALE_def not_less abs_if
      split: if_splits)

lemma tenth_bound: "d \<le> a * 1000 div 10000 \<Longrightarrow> 10 * d \<le> a" for a d :: int
proof -
  assume "d \<le> a * 1000 div 10000"
  also have "a * 1000 div 10000 = a div 10" using div_mult_mult2 [of 1000 a 10] by simp
  finally show "10 * d \<le> a" by linarith
qed

lemma tenth_small_change:
  assumes "\<bar>new - old\<bar> \<le> old * 1000 sdiv 10000"
  shows "small_change old new"
proof (cases "0 \<le> old")
  case True
  then have "old * 1000 sdiv 10000 = old * 1000 div 10000" by (simp add: sdiv_nonneg_eq)
  with assms have "\<bar>new - old\<bar> \<le> old * 1000 div 10000" by simp
  then have "10 * \<bar>new - old\<bar> \<le> old" by (rule tenth_bound)
  with True show ?thesis by (simp add: small_change_def)
next
  case False
  then have "old * 1000 sdiv 10000 \<le> 0"
    by (simp add: signed_divide_int_def sgn_if)
  with assms show ?thesis by (simp add: small_change_def)
qed

lemma changed_parameter:
  assumes "when_some x (\<lambda>v c. tryM (validate_parameter_change (g c) v) (\<lambda>_. ret (upd v c))) c s = (Ok c', t)"
  shows "t = s \<and> (x = None \<and> c' = c \<or> (\<exists>v. x = Some v \<and> small_change (g c) v \<and> c' = upd v c))"
  using assms by (auto simp: ok_simps intro: tenth_small_change)

definition kept :: "('v \<Rightarrow> 'c \<Rightarrow> bool) \<Rightarrow> ('v \<Rightarrow> 'c \<Rightarrow> 'c) \<Rightarrow> 'c \<Rightarrow> 'c \<Rightarrow> bool" where
  "kept ok upd c c' \<longleftrightarrow> c' = c \<or> (\<exists>v. ok v c \<and> c' = upd v c)"

lemma kept_parameter:
  assumes "when_some x (\<lambda>v c. check_param (ok v c) (upd v c)) c s = (Ok c', t)"
  shows "t = s \<and> kept ok upd c c'"
  using assms by (auto simp: ok_simps kept_def)

lemma set_risk_params_Ok:
  assumes "set_risk_params h mcr lt cf li s = (Ok u, t)"
  obtains c c' where "RiskParamsConfig s = Some c" "validate_risk_params c' = Inr ()"
    "rp_min_collateral_ratio c' = unwrap_or mcr (rp_min_collateral_ratio c)"
    "rp_liquidation_threshold c' = unwrap_or lt (rp_liquidation_threshold c)"
    "rp_close_factor c' = unwrap_or cf (rp_close_factor c)"
    "rp_liquidation_incentive c' = unwrap_or li (rp_liquidation_incentive c)"
    "small_change (rp_min_collateral_ratio c) (rp_min_collateral_ratio c')"
    "small_change (rp_liquidation_threshold c) (rp_liquidation_threshold c')"
    "small_change (rp_close_factor c) (rp_close_factor c')"
    "small_change (rp_liquidation_incentive c) (rp_liquidation_incentive c')"
    "t = core_publish (RiskParamsUpdated (c'\<lparr>rp_last_update := now h\<rparr>)) (s\<lparr>RiskParamsConfig := Some (c'\<lparr>rp_last_update := now h\<rparr>)\<rparr>)"
proof -
  have keep: "small_change x x" for x by (simp add: small_change_def)
  from assms obtain c c1 c2 c3 c4 where c: "RiskParamsConfig s = Some c"
    and c1: "mcr = None \<and> c1 = c \<or> (\<exists>v. mcr = Some v \<and> small_change (rp_min_collateral_ratio c) v \<and> c1 = c\<lparr>rp_min_collateral_ratio := v\<rparr>)"
    and c2: "lt = None \<and> c2 = c1 \<or> (\<exists>v. lt = Some v \<and> small_change (rp_liquidation_threshold c1) v \<and> c2 = c1\<lparr>rp_liquidation_threshold := v\<rparr>)"
    and c3: "cf = None \<and> c3 = c2 \<or> (\<exists>v. cf = Some v \<and> small_change (rp_close_factor c2) v \<and> c3 = c2\<lparr>rp_close_factor := v\<rparr>)"
    and c4: "li = None \<and> c4 = c3 \<or> (\<exists>v. li = Some v \<and> small_change (rp_liquidation_incentive c3) v \<and> c4 = c3\<lparr>rp_liquidation_incentive := v\<rparr>)"
    and t: "validate_risk_params c4 = Inr ()"
      "t = core_publish (RiskParamsUpdated (c4\<lparr>rp_last_update := now h\<rparr>)) (s\<lparr>RiskParamsConfig := Some (c4\<lparr>rp_last_update := now h\<rparr>)\<rparr>)"
    by (auto simp: set_risk_params_def tryM_Ok ok_or_Ok liftE_Ok Let_def dest!: changed_parameter)
  show ?thesis
    by (rule that [OF c t(1) _ _ _ _ _ _ _ _ t(2)]) (use c1 c2 c3 c4 keep in auto)
qed


text \<open>The parts of the storage outside the core: an operation of the core leaves every extension alone.\<close>

lemma set_pause_switch_Ok:
  assumes "set_pause_switch h c op p s = (Ok u, t)"
  obtains k where "AdminKey s = Some c" "get_risk_config s = Some k"
    "t = core_publish (PauseStateChangedEvent c op p (now h))
      (s\<lparr>RiskConfigKey := Some (k\<lparr>pause_switches := (pause_switches k)(op \<mapsto> p), rc_last_update := now h\<rparr>)\<rparr>)"
  using assms by (auto simp: set_pause_switch_def ok_simps)

lemma set_emergency_pause_Ok [ok_simps]:
  "set_emergency_pause h c p s = (Ok u, t) \<longleftrightarrow> AdminKey s = Some c \<and>
     t = core_publish (PauseStateChangedEvent c ''emergency'' p (now h)) (s\<lparr>EmergencyPauseKey := Some p\<rparr>)"
  by (auto simp: set_emergency_pause_def ok_simps)

lemma update_interest_rate_config_Ok:
  assumes "update_interest_rate_config h c p s = (Ok u, t)"
  obtains k where "AdminKey s = Some c" "t = s\<lparr>InterestRateConfigKey := Some k\<rparr>"
  using assms unfolding update_interest_rate_config_def
  by (auto simp: tryM_Ok ok_or_Ok map_err_Ok hw_require_admin_Ok dest!: kept_parameter intro!: that)

text \<open>A configuration of the rate model that every update keeps.\<close>

definition rates_ok :: "InterestRateConfig \<Rightarrow> bool" where
  "rates_ok c \<longleftrightarrow> 0 \<le> hc_base_rate_bps c \<and> hc_base_rate_bps c \<le> 10000 \<and> 0 < hc_kink_utilization_bps c \<and>
     hc_kink_utilization_bps c < 10000 \<and> 0 \<le> hc_multiplier_bps c \<and> 0 \<le> hc_jump_multiplier_bps c \<and>
     0 \<le> hc_rate_floor_bps c \<and> hc_rate_floor_bps c \<le> hc_rate_ceiling_bps c \<and> hc_rate_ceiling_bps c \<le> 10000 \<and>
     0 \<le> hc_spread_bps c \<and> hc_spread_bps c \<le> 10000"

lemma update_interest_rate_config_rates:
  assumes "update_interest_rate_config h c p s = (Ok u, t)" "InterestRateConfigKey s = Some k" "rates_ok k"
  obtains k' where "InterestRateConfigKey t = Some k'" "rates_ok k'"
proof -
  from assms(1,2) obtain k1 k2 k3 k4 k5 k6 k7 where
    k: "kept (\<lambda>v c. 0 \<le> v \<and> v \<le> BASIS_POINTS_SCALE) (\<lambda>v c. c\<lparr>hc_base_rate_bps := v\<rparr>) k k1"
      "kept (\<lambda>v c. 0 < v \<and> v < BASIS_POINTS_SCALE) (\<lambda>v c. c\<lparr>hc_kink_utilization_bps := v\<rparr>) k1 k2"
      "kept (\<lambda>v c. 0 \<le> v) (\<lambda>v c. c\<lparr>hc_multiplier_bps := v\<rparr>) k2 k3"
      "kept (\<lambda>v c. 0 \<le> v) (\<lambda>v c. c\<lparr>hc_jump_multiplier_bps := v\<rparr>) k3 k4"
      "kept (\<lambda>v c. 0 \<le> v \<and> v \<le> BASIS_POINTS_SCALE \<and> v \<le> hc_rate_ceiling_bps c) (\<lambda>v c. c\<lparr>hc_rate_floor_bps := v\<rparr>) k4 k5"
      "kept (\<lambda>v c. 0 \<le> v \<and> v \<le> BASIS_POINTS_SCALE \<and> hc_rate_floor_bps c \<le> v) (\<lambda>v c. c\<lparr>hc_rate_ceiling_bps := v\<rparr>) k5 k6"
      "kept (\<lambda>v c. 0 \<le> v \<and> v \<le> BASIS_POINTS_SCALE) (\<lambda>v c. c\<lparr>hc_spread_bps := v\<rparr>) k6 k7" and
    t: "InterestRateConfigKey t = Some (k7\<lparr>hc_last_update := now h\<rparr>)"
    unfolding update_interest_rate_config_def
    by (auto simp: tryM_Ok ok_or_Ok map_err_Ok hw_require_admin_Ok dest!: kept_parameter)
  note rates = rates_ok_def kept_def BASIS_POINTS_SCALE_def
  have "rates_ok k1" using assms(3) k(1) by (auto simp: rates)
  then have "rates_ok k2" using k(2) by (auto simp: rates)
  then have "rates_ok k3" using k(3) by (auto simp: rates)
  then have "rates_ok k4" using k(4) by (auto simp: rates)
  then have "rates_ok k5" using k(5) by (auto simp: rates)
  then have "rates_ok k6" using k(6) by (auto simp: rates)
  then have "rates_ok k7" using k(7) by (auto simp: rates)
  then have "rates_ok (k7\<lparr>hc_last_update := now h\<rparr>)" by (simp add: rates_ok_def)
  with t show ?thesis by (rule that)
qed

section \<open>The core's invariant\<close>

text \<open>Risk parameters and the rate model are valid, and the compound index was never stored.\<close>

definition core_ok :: "'z hw_core_scheme \<Rightarrow> bool" where
  "core_ok s \<longleftrightarrow> (\<forall>p. RiskParamsConfig s = Some p \<longrightarrow> validate_risk_params p = Inr ()) \<and>
     (\<forall>c. InterestRateConfigKey s = Some c \<longrightarrow> rates_ok c) \<and> LendingIndexKey s = None"

lemma core_ok_cong:
  assumes "RiskParamsConfig t = RiskParamsConfig s" "InterestRateConfigKey t = InterestRateConfigKey s"
    "LendingIndexKey t = LendingIndexKey s"
  shows "core_ok t = core_ok s"
  using assms by (simp add: core_ok_def)

lemma core_publish_fields [simp]:
  "AdminKey (core_publish e s) = AdminKey s" "RoleKey (core_publish e s) = RoleKey s"
  "RiskConfigKey (core_publish e s) = RiskConfigKey s" "EmergencyPauseKey (core_publish e s) = EmergencyPauseKey s"
  "RiskParamsConfig (core_publish e s) = RiskParamsConfig s"
  "InterestRateConfigKey (core_publish e s) = InterestRateConfigKey s"
  "LendingIndexKey (core_publish e s) = LendingIndexKey s"
  "ProtocolAnalyticsKey (core_publish e s) = ProtocolAnalyticsKey s"
  by (simp_all add: core_publish_def)

lemma validated_time [simp]: "validate_risk_params (p\<lparr>rp_last_update := n\<rparr>) = validate_risk_params p"
  by (simp add: validate_risk_params_def)

lemma set_risk_params_core_ok: "core_ok s \<Longrightarrow> set_risk_params h mcr lt cf li s = (Ok u, t) \<Longrightarrow> core_ok t"
  by (erule set_risk_params_Ok) (auto simp: core_ok_def)

lemma default_rates_ok: "rates_ok get_default_config"
  by (simp add: rates_ok_def get_default_config_def)

lemma update_rates_core_ok: "core_ok s \<Longrightarrow> update_interest_rate_config h c p s = (Ok u, t) \<Longrightarrow> core_ok t"
proof -
  assume s: "core_ok s" and up: "update_interest_rate_config h c p s = (Ok u, t)"
  from up obtain k where k: "InterestRateConfigKey s = Some k"
    by (auto simp: update_interest_rate_config_def tryM_Ok ok_or_Ok map_err_Ok hw_require_admin_Ok)
  from s k have "rates_ok k" by (simp add: core_ok_def)
  with up k obtain k' where "InterestRateConfigKey t = Some k'" "rates_ok k'"
    by (rule update_interest_rate_config_rates)
  moreover from up obtain k1 where "t = s\<lparr>InterestRateConfigKey := Some k1\<rparr>"
    by (rule update_interest_rate_config_Ok)
  ultimately show "core_ok t" using s by (simp add: core_ok_def)
qed

text \<open>The rates are computed without changing the storage.\<close>

lemma rate_reads_state:
  "calculate_utilization s = (r, t) \<Longrightarrow> t = s"
  "calculate_borrow_rate s = (r', t) \<Longrightarrow> t = s"
  "calculate_supply_rate s = (r'', t) \<Longrightarrow> t = s"
proof -
  show u: "calculate_utilization s = (r, t) \<Longrightarrow> t = s" for s :: "'z hw_core_scheme" and r t
    by (auto simp: calculate_utilization_def run_simps split: if_splits option.splits)
  show b: "calculate_borrow_rate s = (r', t) \<Longrightarrow> t = s" for s :: "'z hw_core_scheme" and r' t
    by (auto simp: calculate_borrow_rate_def run_simps Let_def dest!: u split: if_splits option.splits res.splits prod.splits)
  show "calculate_supply_rate s = (r'', t) \<Longrightarrow> t = s"
    by (auto simp: calculate_supply_rate_def run_simps dest!: b split: if_splits option.splits res.splits prod.splits)
qed

text \<open>Without a stored index the update returns the start value and stores nothing.\<close>

lemma update_lending_index_unset:
  "LendingIndexKey s = None \<Longrightarrow>
     update_lending_index h s = (Ok \<lparr>borrow_index = INDEX_SCALE, supply_index = INDEX_SCALE, li_last_update = now h\<rparr>, s)"
  by (simp add: update_lending_index_def get_lending_index_def)

lemma core_ops_ok:
  assumes "core_ok s"
  shows "hw_initialize h a s = (Ok u, t) \<Longrightarrow> core_ok t"
    "hw_transfer_admin c a s = (Ok u, t) \<Longrightarrow> core_ok t"
    "entry_set_risk_params h c m l f i s = (Ok u, t) \<Longrightarrow> core_ok t"
    "entry_set_emergency_pause h c p s = (Ok u, t) \<Longrightarrow> core_ok t"
    "hw_update_interest_rate_config h c ip s = (Ok u, t) \<Longrightarrow> core_ok t"
    "set_pause_switch h c op p s = (Ok u', t) \<Longrightarrow> core_ok t"
    "update_lending_index h s = (Ok idx, t) \<Longrightarrow> core_ok t"
proof -
  show "hw_initialize h a s = (Ok u, t) \<Longrightarrow> core_ok t"
    using assms default_rates_ok
    by (auto simp: hw_initialize_def initialize_risk_management_def initialize_risk_params_def initialize_interest_rate_config_def
        ok_simps core_ok_def Let_def)
  show "hw_transfer_admin c a s = (Ok u, t) \<Longrightarrow> core_ok t"
    using assms by (auto simp: hw_transfer_admin_def ok_simps core_ok_def)
  show "entry_set_risk_params h c m l f i s = (Ok u, t) \<Longrightarrow> core_ok t"
    using assms by (auto simp: entry_set_risk_params_def ok_simps intro: set_risk_params_core_ok)
  show "entry_set_emergency_pause h c p s = (Ok u, t) \<Longrightarrow> core_ok t"
    using assms by (auto simp: entry_set_emergency_pause_def ok_simps core_ok_def)
  show "hw_update_interest_rate_config h c ip s = (Ok u, t) \<Longrightarrow> core_ok t"
    using assms by (auto simp: hw_update_interest_rate_config_def ok_simps intro: update_rates_core_ok)
  show "set_pause_switch h c op p s = (Ok u', t) \<Longrightarrow> core_ok t"
    by (erule set_pause_switch_Ok) (use assms in \<open>simp add: core_ok_def\<close>)
  show "update_lending_index h s = (Ok idx, t) \<Longrightarrow> core_ok t"
    using assms update_lending_index_unset [of s h] by (simp add: core_ok_def)
qed

end
