(* ===== verification/HW_Book_Facts.thy ===== *)
theory HW_Book_Facts
  imports HW_Valuation HW_Guards_Properties HW_Facts
begin

text \<open>
  What the lending operations of the protocol contract do to its books, as inversion lemmas: each successful operation
  leaves behind exactly the stated balances, positions, reserves and token calls.
\<close>

section \<open>What leaves the books alone\<close>

text \<open>Two storages with the same books, settings and price submissions; prices already served may be cached in one of them only.\<close>

definition same_books :: "'z hw_book_scheme \<Rightarrow> 'z hw_book_scheme \<Rightarrow> bool" where
  "same_books s t \<longleftrightarrow>
     CollateralBalance t = CollateralBalance s \<and> PositionKey t = PositionKey s \<and>
     UserAssetCollateral t = UserAssetCollateral s \<and> UserAssetList t = UserAssetList s \<and>
     ProtocolReserve t = ProtocolReserve s \<and> token_calls t = token_calls s \<and>
     LendingIndexKey t = LendingIndexKey s \<and> UserBorrowIndex t = UserBorrowIndex s \<and>
     AssetParamsKey t = AssetParamsKey s \<and> RiskParamsConfig t = RiskParamsConfig s \<and> FeeConfig t = FeeConfig s \<and>
     NativeAssetAddress t = NativeAssetAddress s \<and> AdminKey t = AdminKey s \<and>
     RiskConfigKey t = RiskConfigKey s \<and> EmergencyPauseKey t = EmergencyPauseKey s \<and> PauseSwitchesKey t = PauseSwitchesKey s \<and>
     PriceFeedKey t = PriceFeedKey s \<and> PrimaryOracleKey t = PrimaryOracleKey s \<and> FallbackOracleKey t = FallbackOracleKey s \<and> FallbackFeedKey t = FallbackFeedKey s \<and>
     OracleConfigKey t = OracleConfigKey s \<and> OracleSourcesKey t = OracleSourcesKey s \<and> SourceFeedKey t = SourceFeedKey s"

interpretation books: frame_relation same_books
  by unfold_locales (auto simp: same_books_def)

lemmas small_writes = same_books_def book_publish_def guard_publish_def core_publish_def save_user_analytics_def
  emit_closing_events_def emit_position_updated_event_def emit_analytics_updated_event_def emit_user_activity_tracked_event_def
  lower_locked_value_def Let_def set_breaker_state_def save_history_def append_observation_def cache_price_def record_safe_price_def
  save_score_def

lemma price_stays:
  "stays same_books (deviation a b)" "stays same_books (maybe_trip_breaker h x p)" "stays same_books (median_i128 vs)"
  "stays same_books (compute_twap h x p)" "stays same_books (aggregate_spot_price h x)" "stays same_books (get_price h x)"
proof -
  show dev: "stays same_books (deviation a b)" for a b
    unfolding deviation_def by (intro books.stay_rules)
  show trip: "stays same_books (maybe_trip_breaker h x p)" for h x p
    unfolding maybe_trip_breaker_def by (intro books.stay_rules dev; simp add: small_writes)
  show med: "stays same_books (median_i128 vs)" for vs
    unfolding median_i128_def by (intro books.stay_rules)
  have seg: "stays same_books (add_segment x dt acc)" for x dt acc
    unfolding add_segment_def by (intro books.stay_rules)
  have loop: "stays same_books (twap_loop h w prev prev_t acc obs)" for h w prev prev_t acc obs
    by (induction h w prev prev_t acc obs rule: twap_loop.induct) (auto intro!: books.stay_rules seg)
  show twap: "stays same_books (compute_twap h x p)" for h x p
    unfolding compute_twap_def by (intro books.stay_rules loop seg)
  have keep: "stays same_books (keep_close l m kept ps)" for l m kept ps
    by (induction l m kept ps rule: keep_close.induct) (auto intro!: books.stay_rules dev)
  have flt: "stays same_books (filter_outliers m ps)" for m ps
    unfolding filter_outliers_def by (intro books.stay_rules keep)
  show agg: "stays same_books (aggregate_spot_price h x)" for h x
    unfolding aggregate_spot_price_def by (intro books.stay_rules flt med)
  show "stays same_books (get_price h x)"
    unfolding get_price_def by (intro books.stay_rules agg trip twap; simp add: small_writes)
qed

lemma value_stays:
  "stays same_books (get_oracle_price h x)" "stays same_books (get_asset_price h x)" "stays same_books (price_or_one h y)"
  "stays same_books (add_asset_values h user acc assets)" "stays same_books (calculate_total_collateral_value h user)"
  "stays same_books (effective_collateral h e user)" "stays same_books (value_for_check h user oa ca n)"
  "stays same_books (debt_in_collateral h oa ca n)"
proof -
  show price: "stays same_books (get_oracle_price h x)" "stays same_books (get_asset_price h x)" for h x
    unfolding get_oracle_price_def get_asset_price_def by (intro books.stay_rules price_stays)+
  show one: "stays same_books (price_or_one h y)" for h y
    unfolding price_or_one_def by (intro books.stay_rules price)
  show add: "stays same_books (add_asset_values h user acc assets)" for h user acc assets
    by (induction assets arbitrary: acc) (auto intro!: books.stay_rules price)
  show total: "stays same_books (calculate_total_collateral_value h user)" for h user
    unfolding calculate_total_collateral_value_def by (intro books.stay_rules add)
  show "stays same_books (effective_collateral h e user)"
    unfolding effective_collateral_def by (intro books.stay_rules total)
  have conv: "stays same_books (hw_calculate_collateral_value a b c)" for a b c
    unfolding hw_calculate_collateral_value_def by (intro books.stay_rules)
  show "stays same_books (value_for_check h user oa ca n)"
    unfolding value_for_check_def by (intro books.stay_rules total one conv)
  show "stays same_books (debt_in_collateral h oa ca n)"
    unfolding debt_in_collateral_def by (intro books.stay_rules one)
qed

text \<open>Records beside the books: analytics, the activity log, scores, limits, intents and the liquidation breaker.\<close>

lemma side_stays:
  "stays same_books (update_user_analytics user n t d)" "stays same_books (update_protocol_analytics n d)"
  "stays same_books (add_activity_log user op n asset t)" "stays same_books (update_user_analytics_borrow user n t)"
  "stays same_books (update_protocol_analytics_borrow n)" "stays same_books (update_user_analytics_repay user n t)"
  "stays same_books (update_protocol_analytics_repay n)" "stays same_books (update_user_analytics_withdraw user n t)"
  "stays same_books (update_liquidation_analytics user n v t)" "stays same_books (check_risk_management_pause)"
  unfolding update_user_analytics_def update_protocol_analytics_def add_activity_log_def update_user_analytics_borrow_def
    update_protocol_analytics_borrow_def update_user_analytics_repay_def update_protocol_analytics_repay_def
    update_user_analytics_withdraw_def update_liquidation_analytics_def check_risk_management_pause_def
  by (intro books.stay_rules; simp add: small_writes)+

lemma score_stays:
  "stays same_books (update_score_on_repayment h user n b)" "stays same_books (update_score_on_liquidation h user)"
  "stays same_books (record_borrow h user n)"
proof -
  have start: "stays same_books (initialize_credit_score h user)" "stays same_books (get_credit_score user)" for h user
    unfolding initialize_credit_score_def get_credit_score_def by (intro books.stay_rules; simp add: small_writes)+
  show "stays same_books (update_score_on_repayment h user n b)" "stays same_books (update_score_on_liquidation h user)"
    "stays same_books (record_borrow h user n)"
    unfolding update_score_on_repayment_def update_score_on_liquidation_def record_borrow_def
    by (intro books.stay_rules start; simp add: small_writes)+
qed

lemma guard_stays:
  "stays same_books (consume h caller user op pool)" "stays same_books (require_intent_auth h au self user op nonce at xs)"
  "stays same_books (is_liquidation_allowed h user)" "stays same_books (check_liquidation_pause h user)"
  "stays same_books (require_auth h user)"
proof -
  have rate: "stays same_books (refill_per_second c)" for c
    unfolding refill_per_second_def by (intro books.stay_rules)
  have refill: "stays same_books (refill_bucket h b c cap)" for h b c cap
    unfolding refill_bucket_def by (intro books.stay_rules rate)
  have take: "stays same_books (take_token h c cap b)" for h c cap b
    unfolding take_token_def by (intro books.stay_rules refill)
  show "stays same_books (consume h caller user op pool)"
    unfolding consume_def by (intro books.stay_rules take; simp add: small_writes)
  show "stays same_books (require_intent_auth h au self user op nonce at xs)"
    unfolding require_intent_auth_def by (intro books.stay_rules; simp add: small_writes set_next_nonce_def)
  show allowed: "stays same_books (is_liquidation_allowed h user)" for user
    unfolding is_liquidation_allowed_def get_circuit_breaker_state_def
    by (intro books.stay_rules; simp add: small_writes split: CircuitBreakerStatus.split; intro conjI impI books.stay_rules)
  show "stays same_books (check_liquidation_pause h user)"
    unfolding check_liquidation_pause_def require_operation_not_paused_def by (intro books.stay_rules allowed)
  show "stays same_books (require_auth h user)"
    unfolding require_auth_def by (intro books.stay_rules)
qed

lemma log_stays:
  "stays same_books (log_repayment h user asset p n m k)" "stays same_books (log_liquidation h l user oa ca p n m k)"
  unfolding log_repayment_def log_liquidation_def
  by (intro books.stay_rules side_stays score_stays; simp add: small_writes)+

lemmas kept_books = log_stays value_stays side_stays score_stays guard_stays
lemmas same_booksD = kept_books [THEN staysD]

lemma same_books_trans: "same_books s t \<Longrightarrow> same_books t u \<Longrightarrow> same_books s u"
  by (rule books.step_trans)

section \<open>Deposits\<close>

definition asset_calls :: "(address \<Rightarrow> token_call) \<Rightarrow> address option \<Rightarrow> token_call list" where
  "asset_calls f asset = (case asset of None \<Rightarrow> [] | Some a \<Rightarrow> [f a])"

text \<open>Everything but the named records is as in \<open>s\<close>.\<close>

definition same_terms :: "'z hw_book_scheme \<Rightarrow> 'z hw_book_scheme \<Rightarrow> bool" where
  "same_terms s t \<longleftrightarrow> LendingIndexKey t = LendingIndexKey s \<and> AssetParamsKey t = AssetParamsKey s \<and>
     RiskParamsConfig t = RiskParamsConfig s \<and> FeeConfig t = FeeConfig s \<and> NativeAssetAddress t = NativeAssetAddress s \<and>
     AdminKey t = AdminKey s \<and> RiskConfigKey t = RiskConfigKey s \<and> EmergencyPauseKey t = EmergencyPauseKey s \<and>
     PauseSwitchesKey t = PauseSwitchesKey s"

lemmas book_writes = set_collateral_def set_position_def set_reserve_def set_user_index_def book_publish_def guard_drop_def
  emit_closing_events_def emit_position_updated_event_def emit_analytics_updated_event_def emit_user_activity_tracked_event_def
  lower_locked_value_def Let_def

lemmas book_reads = collateral_of_def position_or_new_def get_reserve_balance_def get_user_asset_collateral_def
  get_user_asset_list_def has_multi_asset_collateral_def

lemma receive_deposit_Ok:
  assumes "receive_deposit tk self user asset amount s = (Ok u, t)"
  shows "t = s\<lparr>token_calls := token_calls s @ asset_calls (\<lambda>a. TransferFrom a self user self amount) asset\<rparr> \<and> asset \<noteq> Some self"
  using assms by (auto simp: receive_deposit_def asset_calls_def ok_simps split: option.splits)

definition asset_balance_after :: "address \<Rightarrow> address option \<Rightarrow> int \<Rightarrow> 'z hw_book_scheme \<Rightarrow> address \<times> address \<Rightarrow> i128 option" where
  "asset_balance_after user asset d s =
     (case asset of None \<Rightarrow> UserAssetCollateral s
      | Some a \<Rightarrow> (UserAssetCollateral s)((user, a) \<mapsto> get_user_asset_collateral s user a + d))"

lemma record_asset_deposit_Ok:
  assumes "record_asset_deposit user a amount s = (Ok u, t)"
  shows "\<exists>l. t = s\<lparr>UserAssetCollateral := asset_balance_after user (Some a) amount s, UserAssetList := (UserAssetList s)(user := l)\<rparr> \<and>
     l = (if a \<in> set (get_user_asset_list s user) then UserAssetList s user else Some (get_user_asset_list s user @ [a]))"
  using assms by (auto simp: record_asset_deposit_def ok_simps asset_balance_after_def book_reads)

lemma deposit_Ok:
  assumes "deposit_collateral h tk self user asset amount s = (Ok n, t)"
  shows "0 < amount \<and> \<not> ReentrancyLock s \<and> EmergencyPauseKey s \<noteq> Some True \<and> asset \<noteq> Some self \<and> n = collateral_of s user + amount \<and>
     CollateralBalance t = (CollateralBalance s)(user \<mapsto> n) \<and>
     PositionKey t = (PositionKey s)(user \<mapsto> (position_or_new (now h) s user)\<lparr>hp_collateral := n, hp_last_accrual_time := now h\<rparr>) \<and>
     UserAssetCollateral t = asset_balance_after user asset amount s \<and> ProtocolReserve t = ProtocolReserve s \<and>
     UserBorrowIndex t = UserBorrowIndex s \<and> same_terms s t \<and> \<not> ReentrancyLock t \<and>
     token_calls t = token_calls s @ asset_calls (\<lambda>a. TransferFrom a self user self amount) asset"
proof -
  let ?s0 = "s\<lparr>ReentrancyLock := True\<rparr>"
  let ?s1 = "?s0\<lparr>token_calls := token_calls s @ asset_calls (\<lambda>a. TransferFrom a self user self amount) asset\<rparr>"
  from assms obtain u1 u2 u3 s1 s2 s3 s4 s5 s6 where
    g: "0 < amount" "\<not> ReentrancyLock s" "check_risk_management_pause ?s0 = (Ok u1, s1)"
    and r: "receive_deposit tk self user asset amount s1 = (Ok u2, s2)"
    and n: "n = collateral_of s2 user + amount"
    and a: "(case asset of Some a \<Rightarrow> record_asset_deposit user a amount | None \<Rightarrow> ret ()) (set_collateral user n s2) = (Ok u3, s3)"
    and rest: "update_user_analytics user amount (now h) True
        (set_position user ((position_or_new (now h) s2 user)\<lparr>hp_collateral := n, hp_last_accrual_time := now h\<rparr>) s3) = (Ok (), s4)"
      "update_protocol_analytics amount True s4 = (Ok (), s5)" "add_activity_log user ''deposit'' amount asset (now h) s5 = (Ok (), s6)"
    and t: "t = guard_drop (emit_closing_events user ((position_or_new (now h) s2 user)\<lparr>hp_collateral := n, hp_last_accrual_time := now h\<rparr>)
        ''deposit'' amount (now h) (book_publish (DepositEvent user asset amount (now h)) s6))"
    by (auto simp: deposit_collateral_def ok_simps Let_def not_le)
  have e: "s1 = ?s0 \<and> EmergencyPauseKey s \<noteq> Some True"
    using g(3) by (auto simp: check_risk_management_pause_def ok_simps split: option.splits bool.splits)
  with receive_deposit_Ok [OF r] have s2: "s2 = ?s1" "asset \<noteq> Some self" by auto
  have s3: "\<exists>l. s3 = (set_collateral user n s2)\<lparr>UserAssetCollateral := asset_balance_after user asset amount s,
      UserAssetList := (UserAssetList s)(user := l)\<rparr>"
    using a record_asset_deposit_Ok [of user _ amount "set_collateral user n s2" u3 s3]
    by (cases asset) (auto simp: ok_simps asset_balance_after_def s2 set_collateral_def book_reads intro: exI [of _ "UserAssetList s user"])
  then obtain l where s3: "s3 = (set_collateral user n s2)\<lparr>UserAssetCollateral := asset_balance_after user asset amount s,
      UserAssetList := (UserAssetList s)(user := l)\<rparr>" ..
  let ?p = "(position_or_new (now h) s user)\<lparr>hp_collateral := n, hp_last_accrual_time := now h\<rparr>"
  have p: "(position_or_new (now h) s2 user)\<lparr>hp_collateral := n, hp_last_accrual_time := now h\<rparr> = ?p" by (simp add: s2 book_reads)
  have "same_books (set_position user ?p s3) s6"
    using staysD [OF side_stays(1) rest(1)] staysD [OF side_stays(2) rest(2)] staysD [OF side_stays(3) rest(3)] unfolding p
    by (rule same_books_trans [OF same_books_trans])
  then show ?thesis using g n e s2 unfolding t p s3
    by (simp add: same_books_def same_terms_def book_writes collateral_of_def)
qed

section \<open>Interest\<close>

text \<open>The index is never stored, so no interest accrues: a user's index is the start of the scale.\<close>

definition index_unmoved :: "'z hw_book_scheme \<Rightarrow> bool" where
  "index_unmoved s \<longleftrightarrow> LendingIndexKey s = None \<and> (\<forall>user n. UserBorrowIndex s user = Some n \<longrightarrow> n = INDEX_SCALE)"

definition accrued :: "host \<Rightarrow> Position \<Rightarrow> Position" where
  "accrued h p = p\<lparr>hp_borrow_interest := (if hp_debt p = 0 then 0 else hp_borrow_interest p), hp_last_accrual_time := now h\<rparr>"

lemma accrue_interest_Ok:
  assumes "accrue_interest h e user p s = (Ok p', t)" and "index_unmoved s"
  shows "p' = accrued h p \<and> t = set_user_index user INDEX_SCALE s"
proof -
  have idx: "update_lending_index h s = (Ok \<lparr>borrow_index = INDEX_SCALE, supply_index = INDEX_SCALE, li_last_update = now h\<rparr>, s)"
    using assms(2) by (simp add: index_unmoved_def update_lending_index_unset)
  have "unwrap_or (UserBorrowIndex s user) INDEX_SCALE = INDEX_SCALE"
    using assms(2) by (cases "UserBorrowIndex s user") (auto simp: index_unmoved_def)
  then show ?thesis using assms(1)
    by (auto simp: accrue_interest_def ok_simps idx compute_index_interest_def accrued_def split: if_splits)
qed

section \<open>Borrowing\<close>

text \<open>The same collateral, and the same submitted prices to value it.\<close>

definition same_collateral :: "'z hw_book_scheme \<Rightarrow> 'z hw_book_scheme \<Rightarrow> bool" where
  "same_collateral s t \<longleftrightarrow> CollateralBalance t = CollateralBalance s \<and> UserAssetCollateral t = UserAssetCollateral s \<and>
     UserAssetList t = UserAssetList s \<and> AssetParamsKey t = AssetParamsKey s \<and>
     PriceFeedKey t = PriceFeedKey s \<and> PrimaryOracleKey t = PrimaryOracleKey s \<and> FallbackOracleKey t = FallbackOracleKey s \<and> FallbackFeedKey t = FallbackFeedKey s \<and>
     OracleConfigKey t = OracleConfigKey s \<and> OracleSourcesKey t = OracleSourcesKey s \<and> SourceFeedKey t = SourceFeedKey s"

lemma effective_collateral_Ok:
  assumes "effective_collateral h e user s = (Ok (c, raw), t)"
  shows "raw = (\<not> has_multi_asset_collateral s user) \<and> same_books s t \<and>
     (if raw then c = collateral_of s user else fst (calculate_total_collateral_value h user s) = Ok c)"
  using assms staysD [OF value_stays(6) assms] by (auto simp: effective_collateral_def ok_simps)

lemma validate_borrow_Ok:
  assumes "validate_collateral_ratio_after_borrow h user n factor s = (Ok u, t)"
  shows "same_books s t \<and> (\<exists>p v raw. PositionKey s user = Some p \<and> effective_collateral h BorrowError.Overflow user s = (Ok (v, raw), t) \<and>
     (hp_debt p + n + hp_borrow_interest p \<noteq> 0 \<longrightarrow>
        min_ratio s \<le> (if raw then v * factor sdiv 10000 else v) * 10000 sdiv (hp_debt p + n + hp_borrow_interest p)))"
proof -
  from assms obtain p v raw where p: "PositionKey s user = Some p" and c: "effective_collateral h BorrowError.Overflow user s = (Ok (v, raw), t)"
    and r: "hp_debt p + n + hp_borrow_interest p \<noteq> 0 \<longrightarrow>
        min_ratio t \<le> (if raw then v * factor sdiv 10000 else v) * 10000 sdiv (hp_debt p + n + hp_borrow_interest p)"
    by (auto simp: validate_collateral_ratio_after_borrow_def ok_simps not_less split: if_splits prod.splits)
  have sb: "same_books s t" using effective_collateral_Ok [OF c] by simp
  then have "min_ratio t = min_ratio s" by (simp add: same_books_def min_ratio_def)
  with sb p c r show ?thesis by auto
qed

definition fee_of :: "int \<Rightarrow> address option \<Rightarrow> 'z hw_book_scheme \<Rightarrow> int" where
  "fee_of amount asset s = amount * asset_param ap_borrow_fee_bps 0 asset s sdiv 10000"

definition reserve_after :: "address option \<Rightarrow> int \<Rightarrow> 'z hw_book_scheme \<Rightarrow> address option \<Rightarrow> i128 option" where
  "reserve_after asset n s =
     (if 0 < n then (ProtocolReserve s)(asset \<mapsto> get_reserve_balance s asset + n) else ProtocolReserve s)"

lemma pay_borrower_Ok:
  assumes "pay_borrower tk self user asset amount n fee s = (Ok u, t)"
  shows "t = s\<lparr>token_calls := token_calls s @ asset_calls (\<lambda>a. Transfer a self user n) asset,
     ProtocolReserve := (if asset = None then ProtocolReserve s else reserve_after asset fee s)\<rparr>"
  using assms by (auto simp: pay_borrower_def asset_calls_def ok_simps reserve_after_def set_reserve_def get_reserve_balance_def
    split: option.splits if_splits)

lemma collateral_moves:
  "same_books s t \<Longrightarrow> same_collateral s t" "same_collateral s s" "same_collateral s (set_user_index user n s)"
  "same_collateral s (s\<lparr>ReentrancyLock := b\<rparr>)" "same_collateral s t \<Longrightarrow> same_collateral t u \<Longrightarrow> same_collateral s u"
  by (simp_all add: same_books_def same_collateral_def set_user_index_def)

lemma same_collateral_reads:
  assumes "same_collateral s t"
  shows "has_multi_asset_collateral t = has_multi_asset_collateral s" "collateral_of t = collateral_of s"
    "asset_param f d asset t = asset_param f d asset s" "get_user_asset_list t = get_user_asset_list s"
    "get_user_asset_collateral t = get_user_asset_collateral s"
  using assms by (auto simp: same_collateral_def book_reads asset_param_def fun_eq_iff split: option.splits)

lemma borrow_Ok:
  assumes "borrow_asset h tk self user asset amount s = (Ok r, t)" and "index_unmoved s"
  obtains p0 p v where "0 < amount" "\<not> ReentrancyLock s" "\<not> legacy_pause s ''pause_borrow''" "asset \<noteq> Some self"
    "PositionKey s user = Some p0" "p = accrued h p0" "borrowing_value h user asset s = Some v" "0 < amount - fee_of amount asset s"
    "hp_debt p0 + amount + hp_borrow_interest p0 \<noteq> 0 \<longrightarrow>
       min_ratio s \<le> v * 10000 sdiv (hp_debt p0 + amount + hp_borrow_interest p0)"
    "PositionKey t = (PositionKey s)(user \<mapsto> p\<lparr>hp_debt := hp_debt p0 + amount\<rparr>)"
    "same_collateral s t" "same_terms s t" "UserBorrowIndex t = (UserBorrowIndex s)(user \<mapsto> INDEX_SCALE)" "\<not> ReentrancyLock t"
    "ProtocolReserve t = (if asset = None then ProtocolReserve s else reserve_after asset (fee_of amount asset s) s)"
    "token_calls t = token_calls s @ asset_calls (\<lambda>a. Transfer a self user (amount - fee_of amount asset s)) asset"
proof -
  let ?s0 = "s\<lparr>ReentrancyLock := True\<rparr>"
  let ?fee = "fee_of amount asset s" and ?now = "now h"
  from assms obtain u1 u2 u3 p0 p c raw mb s1 s2 s3 s4 s5 s6 s7 s8 where
    g: "0 < amount" "\<not> ReentrancyLock s" "\<not> legacy_pause ?s0 ''pause_borrow''" "validate_borrow_asset self asset ?s0 = (Ok u1, s1)"
    and p0: "p0 = position_or_new ?now s1 user" and acc: "accrue_interest h BorrowError.Overflow user p0 s1 = (Ok p, s2)"
    and c: "effective_collateral h BorrowError.Overflow user s2 = (Ok (c, raw), s3)"
    and v: "validate_collateral_ratio_after_borrow h user amount (asset_param ap_collateral_factor 10000 asset s3) s4 = (Ok u2, s5)"
    and s34: "calculate_max_borrowable c (hp_debt p) (hp_borrow_interest p) (if raw then asset_param ap_collateral_factor 10000 asset s3 else 10000)
        (min_ratio s3) s3 = (Ok mb, s4)"
    and pos: "0 < amount - amount * asset_param ap_borrow_fee_bps 0 asset s3 sdiv 10000"
    and pay: "pay_borrower tk self user asset amount (amount - amount * asset_param ap_borrow_fee_bps 0 asset s3 sdiv 10000)
        (amount * asset_param ap_borrow_fee_bps 0 asset s3 sdiv 10000)
        (set_position user (p\<lparr>hp_debt := hp_debt p + amount, hp_last_accrual_time := ?now\<rparr>) s5) = (Ok u3, s6)"
    and rest: "update_user_analytics_borrow user amount ?now s6 = (Ok (), s7)" "update_protocol_analytics_borrow amount s7 = (Ok (), s8)"
    and t: "\<exists>s9. add_activity_log user ''borrow'' amount asset ?now s8 = (Ok (), s9) \<and>
        t = guard_drop (emit_closing_events user (p\<lparr>hp_debt := hp_debt p + amount, hp_last_accrual_time := ?now\<rparr>)
        ''borrow'' amount ?now (book_publish (BorrowEvent user asset amount ?now) s9))"
    by (auto simp: borrow_asset_def ok_simps Let_def not_le)
  have s1: "s1 = ?s0" "asset \<noteq> Some self"
    using g(4) by (auto simp: validate_borrow_asset_def ok_simps split: option.splits)
  have "index_unmoved s1" using assms(2) by (simp add: index_unmoved_def s1)
  from accrue_interest_Ok [OF acc this] have p: "p = accrued h p0" and s2: "s2 = set_user_index user INDEX_SCALE ?s0" by (simp_all add: s1)
  from effective_collateral_Ok [OF c] have s23: "same_books s2 s3" by simp
  have s4: "s4 = s3" using s34 by (auto simp: calculate_max_borrowable_def ok_simps split: if_splits)
  from validate_borrow_Ok [OF v] have s35: "same_books s3 s5" by (simp add: s4)
  from validate_borrow_Ok [OF v] obtain q w raw' where q: "PositionKey s3 user = Some q"
    and w: "effective_collateral h BorrowError.Overflow user s3 = (Ok (w, raw'), s5)"
    "hp_debt q + amount + hp_borrow_interest q \<noteq> 0 \<longrightarrow> min_ratio s3 \<le> (if raw'
        then w * asset_param ap_collateral_factor 10000 asset s3 sdiv 10000 else w) * 10000 sdiv (hp_debt q + amount + hp_borrow_interest q)"
    unfolding s4 by blast
  have s03: "same_collateral s s3"
    using s2 collateral_moves(1) [OF s23] by (simp add: same_collateral_def set_user_index_def)
  note reads = same_collateral_reads [OF s03]
  have more: "PositionKey s3 = PositionKey s" "min_ratio s3 = min_ratio s"
    using s23 by (simp_all add: s2 set_user_index_def same_books_def min_ratio_def)
  have q0: "PositionKey s user = Some q" "p0 = q" using q more p0 by (simp_all add: s1 position_or_new_def)
  let ?v = "if raw' then w * asset_param ap_collateral_factor 10000 asset s sdiv 10000 else w"
  have s02: "same_worth s s2" unfolding s2 by (rule worth.step_trans [OF small_writes_worth])
  have val: "borrowing_value h user asset s = Some ?v"
    using borrowing_value_run [OF c w(1), of asset] borrowing_value_same [OF s02, of h user asset] unfolding same_worth_reads(12) [OF s02] by simp
  have fee: "amount * asset_param ap_borrow_fee_bps 0 asset s3 sdiv 10000 = ?fee" by (simp add: fee_of_def reads)
  let ?p = "p\<lparr>hp_debt := hp_debt p + amount, hp_last_accrual_time := ?now\<rparr>"
  have pp: "?p = (accrued h q)\<lparr>hp_debt := hp_debt q + amount\<rparr>" by (simp add: p q0 accrued_def)
  from t obtain s9 where s9: "add_activity_log user ''borrow'' amount asset ?now s8 = (Ok (), s9)"
    and t9: "t = guard_drop (emit_closing_events user ?p ''borrow'' amount ?now (book_publish (BorrowEvent user asset amount ?now) s9))" by blast
  have s69: "same_books s6 s9"
    by (rule same_books_trans [OF same_books_trans [OF staysD [OF side_stays(4) rest(1)] staysD [OF side_stays(5) rest(2)]] staysD [OF side_stays(3) s9]])
  note s6 = pay_borrower_Ok [OF pay, unfolded fee pp]
  note facts = t9 [unfolded pp] s69 s6 s35 s23 s2
  have res: "reserve_after asset ?fee (set_position user ((accrued h q)\<lparr>hp_debt := hp_debt q + amount\<rparr>) s5) = reserve_after asset ?fee s"
    using s35 s23 by (simp add: s2 reserve_after_def get_reserve_balance_def set_position_def same_books_def set_user_index_def)
  show thesis
  proof (rule that [of q "accrued h q" ?v])
    show "\<not> legacy_pause s ''pause_borrow''" using g(3) by (simp add: legacy_pause_def)
    show "hp_debt q + amount + hp_borrow_interest q \<noteq> 0 \<longrightarrow> min_ratio s \<le> ?v * 10000 sdiv (hp_debt q + amount + hp_borrow_interest q)"
      using w(2) by (simp add: reads more cong: if_cong)
    show "0 < amount - ?fee" using pos fee by simp
    show "ProtocolReserve t = (if asset = None then ProtocolReserve s else reserve_after asset ?fee s)"
      using facts res by (simp add: same_books_def book_writes)
    show "PositionKey t = (PositionKey s)(user \<mapsto> (accrued h q)\<lparr>hp_debt := hp_debt q + amount\<rparr>)" "same_collateral s t" "same_terms s t"
      "UserBorrowIndex t = (UserBorrowIndex s)(user \<mapsto> INDEX_SCALE)" "\<not> ReentrancyLock t"
      "token_calls t = token_calls s @ asset_calls (\<lambda>a. Transfer a self user (amount - ?fee)) asset"
      using facts by (simp_all add: same_books_def same_collateral_def same_terms_def book_writes)
  qed (use g s1 q0 val in simp_all)
qed

section \<open>Withdrawal\<close>

lemma record_asset_withdrawal_Ok:
  assumes "record_asset_withdrawal user a amount s = (Ok u, t)"
  shows "\<exists>n l. t = s\<lparr>UserAssetCollateral := (UserAssetCollateral s)((user, a) \<mapsto> n), UserAssetList := (UserAssetList s)(user := l)\<rparr> \<and>
     n = unwrap_or (checked_sub (get_user_asset_collateral s user a) amount) 0"
proof -
  let ?n = "unwrap_or (checked_sub (get_user_asset_collateral s user a) amount) 0"
  show ?thesis
  proof (cases "?n = 0")
    case True
    then show ?thesis using assms
      by (simp add: record_asset_withdrawal_def Let_def get_user_asset_collateral_def) blast
  next
    case False
    then have "t = s\<lparr>UserAssetCollateral := (UserAssetCollateral s)((user, a) \<mapsto> ?n)\<rparr>"
      using assms by (simp add: record_asset_withdrawal_def Let_def get_user_asset_collateral_def)
    then show ?thesis by (intro exI [of _ ?n] exI [of _ "UserAssetList s user"]) simp
  qed
qed

lemma validate_withdraw_Ok:
  assumes "validate_collateral_ratio_after_withdraw user amount asset s = (Ok u, t)"
  shows "t = s \<and> (\<exists>p. PositionKey s user = Some p \<and> (\<forall>r. (hp_debt p \<noteq> 0 \<or> hp_borrow_interest p \<noteq> 0) \<and>
     calculate_collateral_ratio (collateral_of s user - amount) (hp_debt p) (hp_borrow_interest p) (asset_param ap_collateral_factor 10000 asset s) = Some r
     \<longrightarrow> min_ratio s \<le> r))"
proof (cases "PositionKey s user")
  case None
  with assms show ?thesis by (simp add: validate_collateral_ratio_after_withdraw_def ok_or_run)
next
  case (Some p)
  let ?r = "calculate_collateral_ratio (collateral_of s user - amount) (hp_debt p) (hp_borrow_interest p) (asset_param ap_collateral_factor 10000 asset s)"
  show ?thesis
  proof (cases "hp_debt p = 0 \<and> hp_borrow_interest p = 0")
    case True
    with Some assms show ?thesis by (simp add: validate_collateral_ratio_after_withdraw_def ok_or_run)
  next
    case False
    then have "(case ?r of None \<Rightarrow> ret () | Some r \<Rightarrow> reads min_ratio (\<lambda>least. fail_if (r < least) WithdrawError.InsufficientCollateralRatio (ret ()))) s
        = (Ok u, t)"
      using Some assms by (simp add: validate_collateral_ratio_after_withdraw_def ok_or_Ok if_not_P [OF False])
    then show ?thesis using Some by (cases ?r) (auto simp: fail_if_Ok not_less)
  qed
qed

lemma withdraw_Ok:
  assumes "withdraw_collateral h tk self user asset amount s = (Ok n, t)"
  obtains p where "0 < amount" "\<not> ReentrancyLock s" "\<not> legacy_pause s ''pause_withdraw''" "asset \<noteq> Some self"
    "amount \<le> collateral_of s user" "n = collateral_of s user - amount" "PositionKey s user = Some p"
    "\<forall>r. hp_debt p \<noteq> 0 \<or> hp_borrow_interest p \<noteq> 0 \<longrightarrow>
       calculate_collateral_ratio n (hp_debt p) (hp_borrow_interest p) (asset_param ap_collateral_factor 10000 asset s) = Some r \<longrightarrow> min_ratio s \<le> r"
    "CollateralBalance t = (CollateralBalance s)(user \<mapsto> n)"
    "PositionKey t = (PositionKey s)(user \<mapsto> p\<lparr>hp_collateral := n, hp_last_accrual_time := now h\<rparr>)"
    "UserAssetCollateral t = (case asset of None \<Rightarrow> UserAssetCollateral s
      | Some a \<Rightarrow> (UserAssetCollateral s)((user, a) \<mapsto> unwrap_or (checked_sub (get_user_asset_collateral s user a) amount) 0))"
    "asset = None \<longrightarrow> UserAssetList t = UserAssetList s" "ProtocolReserve t = ProtocolReserve s" "UserBorrowIndex t = UserBorrowIndex s"
    "same_terms s t" "\<not> ReentrancyLock t"
    "token_calls t = token_calls s @ asset_calls (\<lambda>a. Transfer a self user amount) asset"
proof -
  let ?s0 = "s\<lparr>ReentrancyLock := True\<rparr>" and ?now = "now h"
  from assms obtain u1 u2 u3 s1 s2 s3 s4 where
    g: "0 < amount" "\<not> ReentrancyLock s" "\<not> legacy_pause ?s0 ''pause_withdraw''" "asset \<noteq> Some self" "amount \<le> collateral_of ?s0 user"
      "validate_collateral_ratio_after_withdraw user amount asset ?s0 = (Ok u1, s1)" and n: "n = collateral_of ?s0 user - amount"
    and a: "(case asset of Some a \<Rightarrow> map_err (\<lambda>_. WithdrawError.Overflow) (record_asset_withdrawal user a amount) | None \<Rightarrow> ret ())
      (set_collateral user n s1) = (Ok u2, s2)"
    and c: "(case asset of Some a \<Rightarrow> call_token tk (Transfer a self user amount) | None \<Rightarrow> ret ())
      (set_position user ((position_or_new ?now s2 user)\<lparr>hp_collateral := n, hp_last_accrual_time := ?now\<rparr>) s2) = (Ok u3 :: (WithdrawError, unit) res, s3)"
    and rest0: "update_user_analytics_withdraw user amount ?now s3 = (Ok (), s4)"
    and ex: "\<exists>s5. add_activity_log user ''withdraw'' amount asset ?now (lower_locked_value amount s4) = (Ok (), s5) \<and>
        t = guard_drop (emit_closing_events user ((position_or_new ?now s2 user)\<lparr>hp_collateral := n, hp_last_accrual_time := ?now\<rparr>)
        ''withdraw'' amount ?now (book_publish (WithdrawalEvent user asset amount ?now) s5))"
    by (auto simp: withdraw_collateral_def ok_simps Let_def not_le not_less)
  from ex obtain s5 where rest1: "add_activity_log user ''withdraw'' amount asset ?now (lower_locked_value amount s4) = (Ok (), s5)"
    and t: "t = guard_drop (emit_closing_events user ((position_or_new ?now s2 user)\<lparr>hp_collateral := n, hp_last_accrual_time := ?now\<rparr>)
        ''withdraw'' amount ?now (book_publish (WithdrawalEvent user asset amount ?now) s5))" by blast
  note rest = rest0 rest1
  from validate_withdraw_Ok [OF g(6)] obtain p where s1: "s1 = ?s0" and p: "PositionKey s user = Some p"
    and r: "\<And>r. hp_debt p \<noteq> 0 \<or> hp_borrow_interest p \<noteq> 0 \<Longrightarrow> calculate_collateral_ratio (collateral_of ?s0 user - amount) (hp_debt p) (hp_borrow_interest p)
      (asset_param ap_collateral_factor 10000 asset ?s0) = Some r \<Longrightarrow> min_ratio ?s0 \<le> r" by auto
  have lk: "collateral_of ?s0 = collateral_of s" "asset_param f d asset ?s0 = asset_param f d asset s" "min_ratio ?s0 = min_ratio s"
    "legacy_pause ?s0 = legacy_pause s" "get_user_asset_collateral (set_collateral user n ?s0) = get_user_asset_collateral s" for f d
    by (auto simp: book_reads asset_param_def min_ratio_def legacy_pause_def set_collateral_def fun_eq_iff split: option.splits)
  have "\<exists>l. s2 = (set_collateral user n ?s0)\<lparr>UserAssetCollateral := (case asset of None \<Rightarrow> UserAssetCollateral s
      | Some a \<Rightarrow> (UserAssetCollateral s)((user, a) \<mapsto> unwrap_or (checked_sub (get_user_asset_collateral s user a) amount) 0)),
      UserAssetList := l\<rparr> \<and> (asset = None \<longrightarrow> l = UserAssetList s)"
    using a record_asset_withdrawal_Ok [of user _ amount "set_collateral user n ?s0" u2 s2] unfolding s1 lk
    by (cases asset) (auto simp: ok_simps set_collateral_def)
  then obtain l where s2: "s2 = (set_collateral user n ?s0)\<lparr>UserAssetCollateral := (case asset of None \<Rightarrow> UserAssetCollateral s
      | Some a \<Rightarrow> (UserAssetCollateral s)((user, a) \<mapsto> unwrap_or (checked_sub (get_user_asset_collateral s user a) amount) 0)),
      UserAssetList := l\<rparr>" "asset = None \<longrightarrow> l = UserAssetList s" by blast
  have pos: "position_or_new ?now s2 user = p" using p by (simp add: s2 set_collateral_def position_or_new_def)
  have s3: "s3 = (set_position user (p\<lparr>hp_collateral := n, hp_last_accrual_time := ?now\<rparr>) s2)\<lparr>token_calls := token_calls s @ asset_calls (\<lambda>a. Transfer a self user amount) asset\<rparr>"
    using c unfolding pos by (cases asset) (auto simp: ok_simps asset_calls_def s2 book_writes)
  have s34: "same_books s3 (lower_locked_value amount s4)"
    using staysD [OF side_stays(8) rest(1)] by (simp add: same_books_def lower_locked_value_def Let_def)
  note s35 = same_books_trans [OF s34 staysD [OF side_stays(3) rest(2)]]
  show thesis
  proof (rule that [of p])
    show "CollateralBalance t = (CollateralBalance s)(user \<mapsto> n)"
      "PositionKey t = (PositionKey s)(user \<mapsto> p\<lparr>hp_collateral := n, hp_last_accrual_time := ?now\<rparr>)"
      "UserAssetCollateral t = (case asset of None \<Rightarrow> UserAssetCollateral s
        | Some a \<Rightarrow> (UserAssetCollateral s)((user, a) \<mapsto> unwrap_or (checked_sub (get_user_asset_collateral s user a) amount) 0))"
      "asset = None \<longrightarrow> UserAssetList t = UserAssetList s" "ProtocolReserve t = ProtocolReserve s" "UserBorrowIndex t = UserBorrowIndex s"
      "same_terms s t" "\<not> ReentrancyLock t" "token_calls t = token_calls s @ asset_calls (\<lambda>a. Transfer a self user amount) asset"
      using s35 s2 by (simp_all add: t same_books_def s3 same_terms_def book_writes)
  qed (use g n p r in \<open>simp_all add: lk\<close>)
qed

section \<open>Repayment\<close>

lemma fetch_repayment_Ok:
  assumes "fetch_repayment tk self user a n s = (Ok u, t)"
  shows "t = s\<lparr>token_calls := token_calls s @ [TransferFrom a self user self n]\<rparr>"
  using assms by (auto simp: fetch_repayment_def ok_simps)

lemma credit_interest_fee_Ok:
  assumes "credit_interest_fee asset paid factor s = (Ok u, t)"
  shows "\<exists>n. t = s\<lparr>ProtocolReserve := reserve_after asset n s\<rparr> \<and> n = (if 0 < paid then paid * factor sdiv 10000 else 0)"
  using assms by (auto simp: credit_interest_fee_def ok_simps reserve_after_def set_reserve_def split: if_splits)

definition repay_asset :: "address option \<Rightarrow> 'z hw_book_scheme \<Rightarrow> address \<Rightarrow> bool" where
  "repay_asset asset s a \<longleftrightarrow> asset = Some a \<or> asset = None \<and> NativeAssetAddress s = Some a"

lemma repay_asset_Ok:
  "(case asset of Some a \<Rightarrow> (\<lambda>k. k a) | None \<Rightarrow> get_native_asset_address) k s = (Ok r, t) \<longleftrightarrow>
     (\<exists>a. repay_asset asset s a \<and> k a s = (Ok r, t))"
  by (cases asset) (auto simp: get_native_asset_address_def ok_simps repay_asset_def)

text \<open>A repayment by a debtor without interest: it pays the principal once and takes it off twice.\<close>

lemma repay_Ok:
  assumes "repay_debt h tk self user asset amount s = (Ok (left, ip, pp), t)" and "index_unmoved s"
    and "PositionKey s user = Some p" and "hp_borrow_interest p = 0" and "0 \<le> hp_debt p"
  defines "r \<equiv> repay_amount_of amount (hp_debt p)"
  obtains a where "0 < amount" "\<not> ReentrancyLock s" "\<not> legacy_pause s ''pause_repay''" "asset \<noteq> Some self" "0 < hp_debt p" "0 < r"
    "ip = 0" "pp = r" "repay_asset asset s a"
    "PositionKey t = (PositionKey s)(user \<mapsto> repaid_position p 0 r (now h))"
    "same_collateral s t" "same_terms s t" "UserBorrowIndex t = (UserBorrowIndex s)(user \<mapsto> INDEX_SCALE)" "\<not> ReentrancyLock t"
    "ProtocolReserve t = ProtocolReserve s"
    "token_calls t = token_calls s @ asset_calls (\<lambda>a. TransferFrom a self user self r) asset @ [TransferFrom a self user self r]"
proof -
  let ?s0 = "s\<lparr>ReentrancyLock := True\<rparr>" and ?now = "now h"
  have g: "0 < amount" "\<not> ReentrancyLock s" "\<not> legacy_pause ?s0 ''pause_repay''" "asset \<noteq> Some self"
    "\<not> (hp_debt p = 0 \<and> hp_borrow_interest p = 0)"
    using assms(1,3) by (auto simp: repay_debt_def with_guard_Ok fail_if_Ok repay_asset_Ok ok_or_Ok tryM_Ok)
  from assms(1,3) obtain a q u1 u2 u3 s1 s2 s3 s4 where
    a: "repay_asset asset ?s0 a" and acc: "accrue_interest h RepayError.Overflow user p ?s0 = (Ok q, s1)"
    and f1: "(case asset of None \<Rightarrow> ret () | Some a \<Rightarrow> fetch_repayment tk self user a (repay_amount_of amount (hp_debt q + hp_borrow_interest q))) s1
        = (Ok u1, s2)"
    and f2: "fetch_repayment tk self user a (repay_amount_of amount (hp_debt q + hp_borrow_interest q)) s2 = (Ok u2, s3)"
    and ip: "ip = interest_part (repay_amount_of amount (hp_debt q + hp_borrow_interest q)) q"
    and pp: "pp = repay_amount_of amount (hp_debt q + hp_borrow_interest q) - ip"
    and cr: "credit_interest_fee asset ip (interest_fee_bps (get_fee_config ?s0)) (set_position user (repaid_position q ip pp ?now) s3) = (Ok u3, s4)"
    and log: "\<exists>s5 u4. log_repayment h user asset (repaid_position q ip pp ?now) (repay_amount_of amount (hp_debt q + hp_borrow_interest q))
        (hp_debt q + hp_borrow_interest q) pp s4 = (Ok u4, s5) \<and> t = guard_drop s5"
    by (auto simp: repay_debt_def repay_asset_Ok with_guard_Ok fail_if_Ok ok_or_Ok tryM_Ok map_err_Ok ret_Ok Let_def not_le)
  have "index_unmoved ?s0" using assms(2) by (simp add: index_unmoved_def)
  from accrue_interest_Ok [OF acc this] have q: "q = p\<lparr>hp_last_accrual_time := ?now\<rparr>" and s1: "s1 = set_user_index user INDEX_SCALE ?s0"
    using assms(4) by (simp_all add: accrued_def)
  have r: "repay_amount_of amount (hp_debt q + hp_borrow_interest q) = r" using assms(4) by (simp add: q r_def)
  have pos: "0 < hp_debt p" "0 < r" using g assms(4,5) by (auto simp: r_def repay_amount_of_def)
  have ip0: "ip = 0" using pos assms(4) unfolding ip r by (simp add: interest_part_def q)
  then have ppr: "pp = r" using pp r by simp
  have p': "repaid_position q ip pp ?now = repaid_position p 0 r ?now" by (simp add: repaid_position_def q ip0 ppr Let_def)
  have s2: "s2 = s1\<lparr>token_calls := token_calls s @ asset_calls (\<lambda>a. TransferFrom a self user self r) asset\<rparr>"
    using f1 unfolding r by (cases asset) (auto simp: ret_Ok asset_calls_def s1 set_user_index_def dest!: fetch_repayment_Ok)
  from fetch_repayment_Ok [OF f2] have s3: "s3 = s1\<lparr>token_calls := token_calls s @ asset_calls (\<lambda>a. TransferFrom a self user self r) asset @
      [TransferFrom a self user self r]\<rparr>" unfolding r by (simp add: s2)
  have s4: "s4 = set_position user (repaid_position p 0 r ?now) s3"
    using credit_interest_fee_Ok [OF cr] unfolding p' by (simp add: ip0 reserve_after_def)
  from log obtain s5 where s45: "same_books s4 s5" and t: "t = guard_drop s5" by (blast dest: staysD [OF log_stays(1)])
  note facts = s45 [unfolded s4 s3 s1]
  show thesis
  proof (rule that [of a])
    show "PositionKey t = (PositionKey s)(user \<mapsto> repaid_position p 0 r ?now)" "same_collateral s t" "same_terms s t"
      "UserBorrowIndex t = (UserBorrowIndex s)(user \<mapsto> INDEX_SCALE)" "\<not> ReentrancyLock t" "ProtocolReserve t = ProtocolReserve s"
      "token_calls t = token_calls s @ asset_calls (\<lambda>a. TransferFrom a self user self r) asset @ [TransferFrom a self user self r]"
      using facts by (simp_all add: t same_books_def same_collateral_def same_terms_def book_writes)
    show "repay_asset asset s a" using a by (simp add: repay_asset_def)
    show "\<not> legacy_pause s ''pause_repay''" using g(3) by (simp add: legacy_pause_def)
  qed (use g pos ip0 ppr in simp_all)
qed

section \<open>Liquidation\<close>

lemma liquidate_borrower_Ok:
  assumes "liquidate_borrower h borrower p collateral_asset debt seized s = (Ok p', t)"
  shows "\<exists>n l c. n = unwrap_or (checked_sub (collateral_of s borrower) seized) 0 \<and>
     p' = liquidated_position p (interest_part debt p) (debt - interest_part debt p) n (now h) \<and>
     t = s\<lparr>CollateralBalance := (CollateralBalance s)(borrower \<mapsto> n), UserAssetCollateral := c, UserAssetList := l,
           PositionKey := (PositionKey s)(borrower \<mapsto> p')\<rparr>"
proof -
  let ?n = "unwrap_or (checked_sub (collateral_of s borrower) seized) 0"
  let ?u = "set_collateral borrower ?n s"
  from assms obtain u2 where a: "(case collateral_asset of None \<Rightarrow> ret ()
      | Some a \<Rightarrow> reads (\<lambda>s. has_multi_asset_collateral s borrower) (\<lambda>multi.
          if multi then map_err (\<lambda>_. LiquidationError.Overflow) (record_asset_withdrawal borrower a seized) else ret ())) ?u = (Ok (), u2)"
    and p': "p' = liquidated_position p (interest_part debt p) (debt - interest_part debt p) ?n (now h)" "t = set_position borrower p' u2"
    by (auto simp: liquidate_borrower_def ok_simps Let_def)
  have "\<exists>l c. u2 = ?u\<lparr>UserAssetCollateral := c, UserAssetList := l\<rparr>"
  proof (cases "collateral_asset = None \<or> \<not> has_multi_asset_collateral ?u borrower")
    case True
    then have "u2 = ?u" using a by (cases collateral_asset) auto
    then have "u2 = ?u\<lparr>UserAssetCollateral := UserAssetCollateral ?u, UserAssetList := UserAssetList ?u\<rparr>" by simp
    then show ?thesis by blast
  next
    case False
    then obtain x where "record_asset_withdrawal borrower x seized ?u = (Ok (), u2)" using a by (auto simp: map_err_Ok)
    from record_asset_withdrawal_Ok [OF this] show ?thesis by auto
  qed
  then obtain l c where u2: "u2 = ?u\<lparr>UserAssetCollateral := c, UserAssetList := l\<rparr>" by blast
  show ?thesis
    by (rule exI [of _ ?n], rule exI [of _ l], rule exI [of _ c]) (simp add: p' u2 set_collateral_def set_position_def)
qed

lemma fetch_liquidation_Ok:
  assumes "fetch_liquidation tk self user asset n s = (Ok u, t)"
  shows "t = s\<lparr>token_calls := token_calls s @ asset_calls (\<lambda>a. TransferFrom a self user self n) asset\<rparr>"
  using assms by (cases asset) (auto simp: fetch_liquidation_def asset_calls_def ok_simps)

lemma pay_liquidator_Ok:
  assumes "pay_liquidator tk self user asset seized n s = (Ok u, t)"
  shows "t = s\<lparr>token_calls := token_calls s @ asset_calls (\<lambda>a. Transfer a self user n) asset\<rparr>"
  using assms by (cases asset) (auto simp: pay_liquidator_def asset_calls_def ok_simps)

lemma credit_liquidation_fee_Ok:
  assumes "credit_liquidation_fee h asset fee s = (Ok u, t)"
  shows "\<exists>l. t = s\<lparr>ProtocolReserve := reserve_after asset fee s, book_log := l\<rparr>"
proof (cases "0 < fee")
  case True
  with assms show ?thesis by (auto simp: credit_liquidation_fee_def ok_simps reserve_after_def set_reserve_def book_publish_def)
next
  case False
  with assms have "t = s" by (simp add: credit_liquidation_fee_def ret_Ok)
  then have "t = s\<lparr>ProtocolReserve := reserve_after asset fee s, book_log := book_log s\<rparr>" using False by (simp add: reserve_after_def)
  then show ?thesis ..
qed

text \<open>What decides about a liquidation: the value the code found for the collateral, below the threshold of the debt.\<close>

definition liquidation_limits :: "'z hw_book_scheme \<Rightarrow> int \<Rightarrow> int \<Rightarrow> int \<Rightarrow> bool" where
  "liquidation_limits s v owed n \<longleftrightarrow>
     (\<exists>c. RiskParamsConfig s = Some c \<and> owed \<noteq> 0 \<and> v * 10000 sdiv owed < rp_liquidation_threshold c \<and>
        n \<le> owed * rp_close_factor c sdiv 10000)"

lemma liquidation_checks_Ok:
  "can_be_liquidated v owed s = (Ok True, t) \<Longrightarrow> t = s \<and> (\<exists>c. RiskParamsConfig s = Some c \<and> owed \<noteq> 0 \<and> v * 10000 sdiv owed < rp_liquidation_threshold c)"
  "hw_get_max_liquidatable_amount owed s = (Ok n, t) \<Longrightarrow> t = s \<and> (\<exists>c. RiskParamsConfig s = Some c \<and> n = owed * rp_close_factor c sdiv 10000)"
  "calculate_dynamic_penalty v owed s = (Ok b, t) \<Longrightarrow> t = s"
  by (auto simp: can_be_liquidated_def hw_get_max_liquidatable_amount_def calculate_dynamic_penalty_def ok_simps BASIS_POINTS_SCALE_def split: if_splits)

text \<open>The run of a successful liquidation.\<close>

lemma liquidate_run:
  assumes "liquidate h tk self liquidator borrower oa ca n s = (Ok (debt, seized, incentive), t)"
  obtains p0 p v b m w q s1 s2 s3 s4 s5 s6 s7 s8 s9 s10 s11 s12 where "0 < n" "\<not> ReentrancyLock s" "t = guard_drop s12"
    "check_liquidation_pause h liquidator (s\<lparr>ReentrancyLock := True\<rparr>) = (Ok (), s1)" "PositionKey s1 borrower = Some p0"
    "accrue_interest h LiquidationError.Overflow borrower p0 s1 = (Ok p, s2)"
    "value_for_check h borrower oa ca (target_balance s2 borrower ca) s2 = (Ok v, s3)"
    "can_be_liquidated v (hp_debt p + hp_borrow_interest p) s3 = (Ok True, s4)"
    "hw_get_max_liquidatable_amount (hp_debt p + hp_borrow_interest p) s4 = (Ok m, s5)" "n \<le> m"
    "calculate_dynamic_penalty v (hp_debt p + hp_borrow_interest p) s5 = (Ok b, s6)"
    "debt_in_collateral h oa ca debt s6 = (Ok w, s7)"
    "debt = at_most n (hp_debt p + hp_borrow_interest p)"
    "seized = at_most (w * (10000 + b) sdiv 10000) (target_balance s2 borrower ca)"
    "incentive = debt * b sdiv 10000"
    "fetch_liquidation tk self liquidator oa debt s7 = (Ok (), s8)"
    "pay_liquidator tk self liquidator ca seized (seized - incentive * liquidation_fee_bps (get_fee_config s7) sdiv 10000) s8 = (Ok (), s9)"
    "credit_liquidation_fee h ca (incentive * liquidation_fee_bps (get_fee_config s7) sdiv 10000) s9 = (Ok (), s10)"
    "liquidate_borrower h borrower p ca debt seized s10 = (Ok q, s11)"
    "log_liquidation h liquidator borrower oa ca q debt seized incentive s11 = (Ok (), s12)"
  using assms
  by (clarsimp simp: liquidate_def with_guard_Ok fail_if_Ok ok_or_Ok unwrap_Ok tryM_Ok map_err_Ok ret_Ok Let_def not_le not_less
        calculate_debt_value_def)

lemma check_liquidation_pause_Ok:
  assumes "check_liquidation_pause h user s = (Ok u, t)"
  shows "same_books s t \<and> EmergencyPauseKey s \<noteq> Some True"
proof -
  from assms obtain s1 where "or_default (is_liquidation_allowed h user) True s = (Ok True :: (LiquidationError, bool) res, s1)" "\<not> unwrap_or (EmergencyPauseKey s1) False"
    by (auto simp: check_liquidation_pause_def tryM_Ok fail_if_Ok is_emergency_paused_def)
  then have "EmergencyPauseKey s \<noteq> Some True"
    using staysD [OF stays_or_default [OF guard_stays(3)], of h user True s "Ok True :: (LiquidationError, bool) res" s1] by (auto simp: same_books_def)
  with staysD [OF guard_stays(4) assms] show ?thesis by simp
qed

text \<open>A successful liquidation: the borrower's value lies below the threshold, the repaid part within the close factor.\<close>

lemma liquidate_Ok:
  assumes "liquidate h tk self liquidator borrower oa ca n s = (Ok (debt, seized, incentive), t)" and "index_unmoved s"
  obtains p0 p v owed fee left where "0 < n" "\<not> ReentrancyLock s" "EmergencyPauseKey s \<noteq> Some True" "PositionKey s borrower = Some p0"
    "p = accrued h p0" "owed = hp_debt p + hp_borrow_interest p" "fst (value_for_check h borrower oa ca (target_balance s borrower ca) s) = Ok v" "liquidation_limits s v owed n" "debt = at_most n owed"
    "seized \<le> target_balance s borrower ca" "left = unwrap_or (checked_sub (collateral_of s borrower) seized) 0"
    "CollateralBalance t = (CollateralBalance s)(borrower \<mapsto> left)"
    "PositionKey t = (PositionKey s)(borrower \<mapsto> liquidated_position p (interest_part debt p) (debt - interest_part debt p) left (now h))"
    "same_terms s t" "UserBorrowIndex t = (UserBorrowIndex s)(borrower \<mapsto> INDEX_SCALE)" "\<not> ReentrancyLock t"
    "ProtocolReserve t = reserve_after ca fee s"
    "token_calls t = token_calls s @ asset_calls (\<lambda>a. TransferFrom a self liquidator self debt) oa @ asset_calls (\<lambda>a. Transfer a self liquidator (seized - fee)) ca"
proof -
  let ?s0 = "s\<lparr>ReentrancyLock := True\<rparr>"
  from assms(1) obtain p0 p v b m w q s1 s2 s3 s4 s5 s6 s7 s8 s9 s10 s11 s12 where
    g: "0 < n" "\<not> ReentrancyLock s" and t: "t = guard_drop s12"
    and pause: "check_liquidation_pause h liquidator ?s0 = (Ok (), s1)" and p0: "PositionKey s1 borrower = Some p0"
    and acc: "accrue_interest h LiquidationError.Overflow borrower p0 s1 = (Ok p, s2)"
    and val: "value_for_check h borrower oa ca (target_balance s2 borrower ca) s2 = (Ok v, s3)"
    and can: "can_be_liquidated v (hp_debt p + hp_borrow_interest p) s3 = (Ok True, s4)"
    and max: "hw_get_max_liquidatable_amount (hp_debt p + hp_borrow_interest p) s4 = (Ok m, s5)" "n \<le> m"
    and pen: "calculate_dynamic_penalty v (hp_debt p + hp_borrow_interest p) s5 = (Ok b, s6)"
    and conv: "debt_in_collateral h oa ca debt s6 = (Ok w, s7)"
    and debt: "debt = at_most n (hp_debt p + hp_borrow_interest p)"
    and seized: "seized = at_most (w * (10000 + b) sdiv 10000) (target_balance s2 borrower ca)"
    and fetch: "fetch_liquidation tk self liquidator oa debt s7 = (Ok (), s8)"
    and pay: "pay_liquidator tk self liquidator ca seized (seized - incentive * liquidation_fee_bps (get_fee_config s7) sdiv 10000) s8 = (Ok (), s9)"
    and credit: "credit_liquidation_fee h ca (incentive * liquidation_fee_bps (get_fee_config s7) sdiv 10000) s9 = (Ok (), s10)"
    and move: "liquidate_borrower h borrower p ca debt seized s10 = (Ok q, s11)"
    and log: "log_liquidation h liquidator borrower oa ca q debt seized incentive s11 = (Ok (), s12)"
    by (rule liquidate_run)
  define fee where "fee = incentive * liquidation_fee_bps (get_fee_config s7) sdiv 10000"
  from check_liquidation_pause_Ok [OF pause] have s1: "same_books ?s0 s1" and e: "EmergencyPauseKey s \<noteq> Some True" by simp_all
  have "index_unmoved s1" using assms(2) s1 by (simp add: index_unmoved_def same_books_def)
  from accrue_interest_Ok [OF acc this] have p: "p = accrued h p0" and s2: "s2 = set_user_index borrower INDEX_SCALE s1" by simp_all
  have steps: "s3 = s4" "s4 = s5" "s5 = s6" using liquidation_checks_Ok(1) [OF can] liquidation_checks_Ok(2) [OF max(1)] liquidation_checks_Ok(3) [OF pen]
    by simp_all
  have s7: "same_books s2 s7"
    using staysD [OF value_stays(7) val] staysD [OF value_stays(8) conv] unfolding steps by (rule same_books_trans)
  note s9 = pay_liquidator_Ok [OF pay, folded fee_def, unfolded fetch_liquidation_Ok [OF fetch]]
  from credit_liquidation_fee_Ok [OF credit, folded fee_def] obtain l where s10: "s10 = s9\<lparr>ProtocolReserve := reserve_after ca fee s9, book_log := l\<rparr>" ..
  from liquidate_borrower_Ok [OF move] obtain left l' c where left: "left = unwrap_or (checked_sub (collateral_of s10 borrower) seized) 0"
    and q: "q = liquidated_position p (interest_part debt p) (debt - interest_part debt p) left (now h)"
    and s11: "s11 = s10\<lparr>CollateralBalance := (CollateralBalance s10)(borrower \<mapsto> left), UserAssetCollateral := c, UserAssetList := l',
        PositionKey := (PositionKey s10)(borrower \<mapsto> q)\<rparr>" by blast
  have s12: "same_books s11 s12" using log by (rule staysD [OF log_stays(2)])
  note facts = s12 [unfolded s11 s10 s9] s7 s1 s2
  have lim: "liquidation_limits s v (hp_debt p + hp_borrow_interest p) n"
    using liquidation_checks_Ok(1) [OF can] liquidation_checks_Ok(2) [OF max(1)] max(2) staysD [OF value_stays(7) val] facts
    by (auto simp: liquidation_limits_def same_books_def set_user_index_def)
  have target: "target_balance s2 borrower ca = target_balance s borrower ca"
    using s1 by (simp add: s2 set_user_index_def same_books_def target_balance_def book_reads split: option.splits)
  have "same_worth ?s0 s1" using guard_keeps_worth(4) pause by (rule staysD)
  then have "same_worth s s2" unfolding s2 by (rule worth.step_trans [OF worth.step_trans [OF small_writes_worth(1)] small_writes_worth(2)])
  from value_for_check_same [OF this, of h borrower oa ca "target_balance s borrower ca"] val
  have cv: "fst (value_for_check h borrower oa ca (target_balance s borrower ca) s) = Ok v" by (simp add: target)
  show thesis
  proof (rule that [of p0 p "hp_debt p + hp_borrow_interest p" v left fee])
    show "PositionKey s borrower = Some p0" using p0 s1 by (simp add: same_books_def)
    show "seized \<le> target_balance s borrower ca"
      by (simp add: seized at_most_def target)
    show "left = unwrap_or (checked_sub (collateral_of s borrower) seized) 0"
      "CollateralBalance t = (CollateralBalance s)(borrower \<mapsto> left)"
      "PositionKey t = (PositionKey s)(borrower \<mapsto> liquidated_position p (interest_part debt p) (debt - interest_part debt p) left (now h))"
      "same_terms s t" "UserBorrowIndex t = (UserBorrowIndex s)(borrower \<mapsto> INDEX_SCALE)" "\<not> ReentrancyLock t"
      "ProtocolReserve t = reserve_after ca fee s"
      "token_calls t = token_calls s @ asset_calls (\<lambda>a. TransferFrom a self liquidator self debt) oa @ asset_calls (\<lambda>a. Transfer a self liquidator (seized - fee)) ca"
      using facts by (simp_all add: t q left s10 s9 same_books_def same_terms_def book_writes collateral_of_def reserve_after_def get_reserve_balance_def)
  qed (use g e p debt lim cv in simp_all)
qed

end
