(* ===== verification/HW_Book_Machine.thy ===== *)
theory HW_Book_Machine
  imports HW_Book_Facts
begin

text \<open>
  Runs of the lending entry points of the protocol contract: every call is made through the host, which rolls a refused
  call back, and the invariant of its books that every such run keeps.
\<close>

section \<open>Calls\<close>

datatype book_call =
  K_initialize address
| K_transfer_admin address address
| K_set_risk_params address "i128 option" "i128 option" "i128 option" "i128 option"
| K_set_emergency_pause address bool
| K_update_asset_config address AssetParams
| K_deposit address "address option" i128
| K_borrow address "address option" i128
| K_borrow_intent address address "address option" i128 u64 u64
| K_repay address "address option" i128
| K_withdraw address "address option" i128
| K_liquidate address address "address option" "address option" i128
| K_liquidate_intent address address address "address option" "address option" i128 u64 u64
| K_set_treasury address address
| K_set_fee_config address i128 i128
| K_claim_reserves address "address option" address i128

text \<open>What a call meets: the ledger, the token contracts and who signed which intent. \<open>self\<close> is the contract.\<close>

record book_env =
  env_host :: host
  env_tokens :: tokens
  env_authorised :: "address \<Rightarrow> val list \<Rightarrow> bool"
  env_self :: address

definition book_after :: "(hw_book, 'e, 'a) contract_fn \<Rightarrow> hw_book \<Rightarrow> hw_book" where
  "book_after m s = snd (invoke m s)"

fun exec_book :: "book_env \<Rightarrow> book_call \<Rightarrow> hw_book \<Rightarrow> hw_book" where
  "exec_book e (K_initialize a) = book_after (hw_initialize (env_host e) a)"
| "exec_book e (K_transfer_admin c a) = book_after (hw_transfer_admin c a)"
| "exec_book e (K_set_risk_params c m l f i) = book_after (entry_set_risk_params (env_host e) c m l f i)"
| "exec_book e (K_set_emergency_pause c p) = book_after (entry_set_emergency_pause (env_host e) c p)"
| "exec_book e (K_update_asset_config a p) = book_after (update_asset_config (env_host e) a p)"
| "exec_book e (K_deposit u a n) = book_after (entry_deposit_collateral (env_host e) (env_tokens e) (env_self e) u a n)"
| "exec_book e (K_borrow u a n) = book_after (entry_borrow_asset (env_host e) (env_tokens e) (env_self e) u a n)"
| "exec_book e (K_borrow_intent r u a n c x) =
     book_after (borrow_asset_intent (env_host e) (env_tokens e) (env_authorised e) (env_self e) r u a n c x)"
| "exec_book e (K_repay u a n) = book_after (entry_repay_debt (env_host e) (env_tokens e) (env_self e) u a n)"
| "exec_book e (K_withdraw u a n) = book_after (entry_withdraw_collateral (env_host e) (env_tokens e) (env_self e) u a n)"
| "exec_book e (K_liquidate l b oa ca n) = book_after (entry_hw_liquidate (env_host e) (env_tokens e) (env_self e) l b oa ca n)"
| "exec_book e (K_liquidate_intent r l b oa ca n c x) =
     book_after (liquidate_intent (env_host e) (env_tokens e) (env_authorised e) (env_self e) r l b oa ca n c x)"
| "exec_book e (K_set_treasury c a) = book_after (entry_set_treasury (env_host e) c a)"
| "exec_book e (K_set_fee_config c i l) = book_after (entry_set_fee_config (env_host e) c i l)"
| "exec_book e (K_claim_reserves c a r n) = book_after (entry_claim_reserves (env_host e) (env_tokens e) (env_self e) c a r n)"

definition run_book :: "(book_env \<times> book_call) list \<Rightarrow> hw_book \<Rightarrow> hw_book" where
  "run_book calls s = fold (\<lambda>(e, c). exec_book e c) calls s"

text \<open>The storage of a newly deployed contract.\<close>

definition empty_book :: hw_book where
  "empty_book = hw_guards.extend (hw_oracle.extend empty_oracle (hw_guards.fields False [] (\<lambda>_. None) (\<lambda>_. None) (\<lambda>_. None) (\<lambda>_. None)
     (\<lambda>_. None) (\<lambda>_. None) (\<lambda>_. None) None None None []))
     (hw_book.fields (\<lambda>_. None) (\<lambda>_. None) (\<lambda>_. None) (\<lambda>_. None) None (\<lambda>_. None) None (\<lambda>_. None) (\<lambda>_. None) (\<lambda>_. None) None None [])"

lemmas book_state_defs = empty_book_def empty_oracle_def hw_oracle.defs hw_guards.defs hw_book.defs

text \<open>A token contract refuses transfers of negative amounts.\<close>

fun call_amount :: "token_call \<Rightarrow> i128" where
  "call_amount (Transfer _ _ _ n) = n"
| "call_amount (TransferFrom _ _ _ _ n) = n"

definition refuses_negative :: "tokens \<Rightarrow> bool" where
  "refuses_negative tk \<longleftrightarrow> (\<forall>cs c. call_amount c < 0 \<longrightarrow> \<not> tok_accepts tk cs c)"

section \<open>The invariant\<close>

definition params_ok :: "'z hw_core_scheme \<Rightarrow> bool" where
  "params_ok s \<longleftrightarrow> (\<forall>p. RiskParamsConfig s = Some p \<longrightarrow> validate_risk_params p = Inr ())"

definition book_ok :: "'z hw_book_scheme \<Rightarrow> bool" where
  "book_ok s \<longleftrightarrow> params_ok s \<and> index_unmoved s \<and> NativeAssetAddress s = None \<and>
     (\<forall>u. hp_collateral (position_or_new 0 s u) = collateral_of s u) \<and>
     (\<forall>u p. PositionKey s u = Some p \<longrightarrow> hp_borrow_interest p = 0) \<and>
     (\<forall>a. 0 \<le> get_reserve_balance s a)"

lemma new_position_collateral: "hp_collateral (position_or_new t s u) = hp_collateral (position_or_new 0 s u)"
  by (cases "PositionKey s u") (simp_all add: position_or_new_def)

lemma new_position_interest:
  "book_ok s \<Longrightarrow> hp_borrow_interest (position_or_new t s u) = 0"
  by (cases "PositionKey s u") (simp_all add: position_or_new_def book_ok_def)

lemma book_ok_same: "same_books s t \<Longrightarrow> book_ok s \<Longrightarrow> book_ok t"
  by (simp add: book_ok_def same_books_def params_ok_def index_unmoved_def book_reads)

text \<open>What an operation may do to one user: replace collateral and position, without interest, and not lower a reserve below zero.\<close>

lemma book_ok_step:
  assumes "book_ok s" and "same_terms s t"
    and "CollateralBalance t = (CollateralBalance s)(u \<mapsto> n)" and "PositionKey t = (PositionKey s)(u \<mapsto> p)"
    and "hp_collateral p = n" and "hp_borrow_interest p = 0"
    and "\<And>x m. UserBorrowIndex t x = Some m \<Longrightarrow> m = INDEX_SCALE" and "\<And>a. 0 \<le> get_reserve_balance t a"
  shows "book_ok t"
  using assms by (auto simp: book_ok_def same_terms_def params_ok_def index_unmoved_def position_or_new_def collateral_of_def)

lemma index_scale: "book_ok s \<Longrightarrow> UserBorrowIndex t = (UserBorrowIndex s)(u \<mapsto> INDEX_SCALE) \<Longrightarrow> UserBorrowIndex t x = Some m \<Longrightarrow> m = INDEX_SCALE"
  "book_ok s \<Longrightarrow> UserBorrowIndex s x = Some m \<Longrightarrow> m = INDEX_SCALE"
  by (auto simp: book_ok_def index_unmoved_def split: if_splits)

lemma reserves_grow:
  "book_ok s \<Longrightarrow> ProtocolReserve t = reserve_after asset n s \<Longrightarrow> 0 \<le> get_reserve_balance t a"
  "book_ok s \<Longrightarrow> ProtocolReserve t = ProtocolReserve s \<Longrightarrow> 0 \<le> get_reserve_balance t a"
  by (auto simp: book_ok_def get_reserve_balance_def reserve_after_def add_nonneg_nonneg intro: order_trans)

lemma deposit_book_ok:
  assumes "deposit_collateral h tk self user asset amount s = (Ok n, t)" and "book_ok s"
  shows "book_ok t"
proof -
  note d = deposit_Ok [OF assms(1)]
  show ?thesis
    by (rule book_ok_step [OF assms(2), of t user n "(position_or_new (now h) s user)\<lparr>hp_collateral := n, hp_last_accrual_time := now h\<rparr>"])
      (use d assms(2) in \<open>simp_all add: new_position_interest index_scale(2) reserves_grow(2)\<close>)
qed

lemma borrow_book_ok:
  assumes "borrow_asset h tk self user asset amount s = (Ok r, t)" and "book_ok s"
  shows "book_ok t"
proof -
  have "index_unmoved s" using assms(2) by (simp add: book_ok_def)
  from borrow_Ok [OF assms(1) this] obtain p0 p where
    p: "PositionKey s user = Some p0" "p = accrued h p0" "PositionKey t = (PositionKey s)(user \<mapsto> p\<lparr>hp_debt := hp_debt p0 + amount\<rparr>)"
    "same_collateral s t" "same_terms s t" "UserBorrowIndex t = (UserBorrowIndex s)(user \<mapsto> INDEX_SCALE)"
    "ProtocolReserve t = (if asset = None then ProtocolReserve s else reserve_after asset (fee_of amount asset s) s)"
    by metis
  have r: "0 \<le> get_reserve_balance t a" for a
    using p(7) assms(2) by (cases "asset = None") (auto intro: reserves_grow)
  show ?thesis
    using p r index_scale(1) [OF assms(2) p(6)] assms(2)
    by (auto simp: book_ok_def same_terms_def same_collateral_def params_ok_def index_unmoved_def position_or_new_def collateral_of_def accrued_def
        dest: spec [of _ user])
qed

lemma withdraw_book_ok:
  assumes "withdraw_collateral h tk self user asset amount s = (Ok n, t)" and "book_ok s"
  shows "book_ok t"
proof -
  from withdraw_Ok [OF assms(1)] obtain p where p: "PositionKey s user = Some p" "CollateralBalance t = (CollateralBalance s)(user \<mapsto> n)"
    "PositionKey t = (PositionKey s)(user \<mapsto> p\<lparr>hp_collateral := n, hp_last_accrual_time := now h\<rparr>)"
    "ProtocolReserve t = ProtocolReserve s" "UserBorrowIndex t = UserBorrowIndex s" "same_terms s t"
    by metis
  then have "hp_borrow_interest p = 0" using assms(2) by (simp add: book_ok_def)
  then show ?thesis
    by (intro book_ok_step [OF assms(2) p(6) p(2,3)])
      (use p assms(2) in \<open>auto intro: index_scale(2) reserves_grow(2)\<close>)
qed

lemma nothing_subtracted: "checked_sub 0 0 = Some 0"
  by simp

lemma sdiv_nonpos: "a \<le> 0 \<Longrightarrow> 0 < b \<Longrightarrow> a sdiv b \<le> 0" for a b :: int
  by (cases "a = 0") (simp_all add: signed_divide_int_def pos_imp_zdiv_nonneg_iff)

text \<open>A position whose debt went below zero cannot be repaid: the tokens of a negative amount are refused.\<close>

lemma repay_needs_debt:
  fixes s :: "'z hw_book_scheme"
  assumes "repay_debt h tk self user asset amount s = (Ok (left, ip, pp), t)" and "index_unmoved s" and "refuses_negative tk"
    and "PositionKey s user = Some p" and "hp_borrow_interest p = 0"
  shows "0 \<le> hp_debt p"
proof (rule ccontr)
  let ?s0 = "s\<lparr>ReentrancyLock := True\<rparr>"
  assume neg: "\<not> 0 \<le> hp_debt p"
  from assms(1,4) obtain a q u2 s1 and s2 s3 :: "'z hw_book_scheme" where pos: "0 < amount"
    and acc: "accrue_interest h RepayError.Overflow user p ?s0 = (Ok q, s1)"
    and f2: "fetch_repayment tk self user a (repay_amount_of amount (hp_debt q + hp_borrow_interest q)) s2 = (Ok u2, s3)"
    by (clarsimp simp: repay_debt_def repay_asset_Ok with_guard_Ok fail_if_Ok ok_or_Ok tryM_Ok map_err_Ok ret_Ok Let_def not_le)
  have "index_unmoved ?s0" using assms(2) by (simp add: index_unmoved_def)
  from accrue_interest_Ok [OF acc this] have "q = p\<lparr>hp_last_accrual_time := now h\<rparr>" using assms(5) neg by (simp add: accrued_def)
  with f2 assms(5) neg pos have "fetch_repayment tk self user a (hp_debt p) s2 = (Ok u2, s3)" by (simp add: repay_amount_of_def)
  then have "tok_accepts tk (token_calls s2) (TransferFrom a self user self (hp_debt p))"
    by (auto simp: fetch_repayment_def balance_of_def call_token_def ok_simps split: if_splits)
  with assms(3) neg show False by (simp add: refuses_negative_def)
qed

lemma repay_book_ok:
  assumes "repay_debt h tk self user asset amount s = (Ok (left, ip, pp), t)" and "book_ok s" and "refuses_negative tk"
  shows "book_ok t"
proof -
  have i: "index_unmoved s" using assms(2) by (simp add: book_ok_def)
  from assms(1) obtain p where p: "PositionKey s user = Some p"
    by (auto simp: repay_debt_def repay_asset_Ok with_guard_Ok fail_if_Ok ok_or_Ok tryM_Ok)
  have z: "hp_borrow_interest p = 0" using p assms(2) by (simp add: book_ok_def)
  have n: "0 \<le> hp_debt p" by (rule repay_needs_debt [OF assms(1) i assms(3) p z])
  let ?r = "repay_amount_of amount (hp_debt p)" and ?q = "repaid_position p 0 (repay_amount_of amount (hp_debt p)) (now h)"
  from repay_Ok [OF assms(1) i p z n] have r: "PositionKey t = (PositionKey s)(user \<mapsto> ?q)" "same_collateral s t" "same_terms s t"
    "UserBorrowIndex t = (UserBorrowIndex s)(user \<mapsto> INDEX_SCALE)" "ProtocolReserve t = ProtocolReserve s" by metis+
  have q: "hp_collateral ?q = hp_collateral p" "hp_borrow_interest ?q = 0"
    using z by (simp_all add: repaid_position_def Let_def nothing_subtracted)
  have c: "CollateralBalance t = CollateralBalance s" using r(2) by (simp add: same_collateral_def)
  have "CollateralBalance t u = CollateralBalance s u" for u using c by simp
  then have hp: "hp_collateral (position_or_new 0 t u) = collateral_of t u" for u
    using assms(2) r(1) q(1) p by (auto simp: book_ok_def position_or_new_def collateral_of_def dest: spec [of _ user])
  show ?thesis
    using assms(2) r q hp index_scale(1) [OF assms(2) r(4)] reserves_grow(2) [OF assms(2) r(5)]
    by (auto simp: book_ok_def same_terms_def params_ok_def index_unmoved_def split: if_splits)
qed

lemma liquidation_needs_debt:
  assumes "liquidation_limits s v owed n" and "0 < n" and "params_ok s"
  shows "0 < owed"
proof (rule ccontr)
  assume neg: "\<not> 0 < owed"
  from assms(1) obtain c where c: "RiskParamsConfig s = Some c" "n \<le> owed * rp_close_factor c sdiv 10000" by (auto simp: liquidation_limits_def)
  have "0 \<le> rp_close_factor c"
    using assms(3) c(1) by (auto simp: params_ok_def validate_risk_params_def CLOSE_FACTOR_MIN_def not_less split: if_splits)
  then have "owed * rp_close_factor c \<le> 0" using neg by (simp add: mult_nonpos_nonneg)
  then have "owed * rp_close_factor c sdiv 10000 \<le> 0" by (rule sdiv_nonpos) simp
  with c(2) assms(2) show False by simp
qed

lemma liquidate_book_ok:
  assumes "liquidate h tk self liquidator borrower oa ca n s = (Ok (debt, seized, incentive), t)" and "book_ok s"
  shows "book_ok t"
proof -
  have i: "index_unmoved s" using assms(2) by (simp add: book_ok_def)
  from liquidate_Ok [OF assms(1) i] obtain p0 p v owed fee left where
    g: "0 < n" "PositionKey s borrower = Some p0" "p = accrued h p0" "owed = hp_debt p + hp_borrow_interest p"
      "liquidation_limits s v owed n" "debt = at_most n owed"
    and t: "CollateralBalance t = (CollateralBalance s)(borrower \<mapsto> left)"
      "PositionKey t = (PositionKey s)(borrower \<mapsto> liquidated_position p (interest_part debt p) (debt - interest_part debt p) left (now h))"
      "same_terms s t" "UserBorrowIndex t = (UserBorrowIndex s)(borrower \<mapsto> INDEX_SCALE)" "ProtocolReserve t = reserve_after ca fee s"
    by metis
  have z: "hp_borrow_interest p = 0" using g(2,3) assms(2) by (simp add: book_ok_def accrued_def)
  have "params_ok s" using assms(2) by (simp add: book_ok_def)
  then have "0 < owed" by (rule liquidation_needs_debt [OF g(5,1)])
  then have "interest_part debt p = 0" using g(1,6) z by (simp add: interest_part_def at_most_def)
  then show ?thesis
    by (intro book_ok_step [OF assms(2) t(3) t(1,2)])
      (use t z assms(2) in \<open>auto simp: liquidated_position_def nothing_subtracted intro: index_scale(1) reserves_grow(1)\<close>)
qed

lemma claim_book_ok:
  assumes "claim_reserves h tk self caller asset recipient amount s = (Ok u, t)" and "book_ok s"
  shows "book_ok t"
  using assms
  by (auto simp: claim_reserves_def treasury_admin_def require_auth_def ok_simps book_ok_def params_ok_def index_unmoved_def
      book_writes book_reads not_less split: option.splits)

section \<open>Runs\<close>

lemma book_afterI: "book_ok s \<Longrightarrow> (\<And>a t. m s = (Ok a, t) \<Longrightarrow> book_ok t) \<Longrightarrow> book_ok (book_after m s)"
  by (auto simp: book_after_def invoke_def split: prod.splits res.splits)

lemma guards_keep_book_ok:
  "consume h c u op x s = (r1, t) \<Longrightarrow> book_ok s \<Longrightarrow> book_ok t"
  "require_auth h u s = (r2, t) \<Longrightarrow> book_ok s \<Longrightarrow> book_ok t"
  "require_intent_auth h au self u op n at xs s = (r3, t) \<Longrightarrow> book_ok s \<Longrightarrow> book_ok t"
  by (blast intro: book_ok_same staysD [OF guard_stays(1)] staysD [OF guard_stays(2)] staysD [OF guard_stays(5)])+

text \<open>The administrative calls leave the books alone.\<close>

definition same_users :: "'z hw_book_scheme \<Rightarrow> 'z hw_book_scheme \<Rightarrow> bool" where
  "same_users s t \<longleftrightarrow> UserBorrowIndex t = UserBorrowIndex s \<and> NativeAssetAddress t = NativeAssetAddress s \<and>
     PositionKey t = PositionKey s \<and> CollateralBalance t = CollateralBalance s \<and> ProtocolReserve t = ProtocolReserve s \<and>
     LendingIndexKey t = LendingIndexKey s"

lemma book_ok_core: "book_ok s \<Longrightarrow> same_users s t \<Longrightarrow> params_ok t \<Longrightarrow> book_ok t"
  by (simp add: book_ok_def same_users_def index_unmoved_def book_reads)

lemma core_frame: "same_users s t \<Longrightarrow> same_users s (core_publish ev t)" "params_ok (core_publish ev t) = params_ok t"
  by (simp_all add: same_users_def core_publish_def params_ok_def)

lemmas core_entry_defs = hw_initialize_def initialize_risk_management_def initialize_risk_params_def initialize_interest_rate_config_def
  hw_transfer_admin_def entry_set_emergency_pause_def

lemma core_keeps_users:
  "hw_initialize h a s = (Ok u, t) \<Longrightarrow> params_ok s \<Longrightarrow> same_users s t \<and> params_ok t"
  "hw_transfer_admin c a s = (Ok u, t) \<Longrightarrow> params_ok s \<Longrightarrow> same_users s t \<and> params_ok t"
  "entry_set_emergency_pause h c p s = (Ok u, t) \<Longrightarrow> params_ok s \<Longrightarrow> same_users s t \<and> params_ok t"
  "set_risk_params h m l f i s = (Ok u', t) \<Longrightarrow> same_users s t \<and> params_ok t"
  by (auto simp: core_entry_defs ok_simps same_users_def params_ok_def core_publish_def Let_def elim!: set_risk_params_Ok)

lemma core_keeps_books:
  assumes "book_ok s"
  shows "hw_initialize h a s = (Ok u, t) \<Longrightarrow> book_ok t"
    "hw_transfer_admin c a s = (Ok u, t) \<Longrightarrow> book_ok t"
    "entry_set_risk_params h c m l f i s = (Ok u, t) \<Longrightarrow> book_ok t"
    "entry_set_emergency_pause h c p s = (Ok u, t) \<Longrightarrow> book_ok t"
proof -
  have "params_ok s" using assms by (simp add: book_ok_def)
  then show "hw_initialize h a s = (Ok u, t) \<Longrightarrow> book_ok t" "hw_transfer_admin c a s = (Ok u, t) \<Longrightarrow> book_ok t"
    "entry_set_emergency_pause h c p s = (Ok u, t) \<Longrightarrow> book_ok t"
    using book_ok_core [OF assms] core_keeps_users(1-3) by blast+
  show "entry_set_risk_params h c m l f i s = (Ok u, t) \<Longrightarrow> book_ok t"
    using book_ok_core [OF assms] core_keeps_users(4) by (fastforce simp: entry_set_risk_params_def ok_simps)
qed

lemma settings_keep_books:
  assumes "book_ok s"
  shows "entry_set_treasury h c a s = (Ok u, t) \<Longrightarrow> book_ok t"
    "entry_set_fee_config h c i l s = (Ok u, t) \<Longrightarrow> book_ok t"
    "update_asset_config h a p s = (Ok u, t) \<Longrightarrow> book_ok t"
  using assms
  by (auto simp: entry_set_treasury_def set_treasury_def entry_set_fee_config_def set_fee_config_def update_asset_config_def
      set_asset_params_def treasury_admin_def require_auth_def ok_simps book_ok_def params_ok_def index_unmoved_def book_reads
      book_publish_def)

lemma entries_keep_books:
  assumes "book_ok s"
  shows "entry_deposit_collateral h tk self u a n s = (Ok r, t) \<Longrightarrow> book_ok t"
    "entry_borrow_asset h tk self u a n s = (Ok r, t) \<Longrightarrow> book_ok t"
    "borrow_asset_intent h tk au self rl u a n c x s = (Ok r, t) \<Longrightarrow> book_ok t"
    "refuses_negative tk \<Longrightarrow> entry_repay_debt h tk self u a n s = (Ok x3, t) \<Longrightarrow> book_ok t"
    "entry_withdraw_collateral h tk self u a n s = (Ok r, t) \<Longrightarrow> book_ok t"
    "entry_hw_liquidate h tk self lq b oa ca n s = (Ok x3, t) \<Longrightarrow> book_ok t"
    "liquidate_intent h tk au self rl lq b oa ca n c x s = (Ok x3, t) \<Longrightarrow> book_ok t"
    "entry_claim_reserves h tk self cl a rc n s = (Ok v, t) \<Longrightarrow> book_ok t"
proof -
  show "entry_deposit_collateral h tk self u a n s = (Ok r, t) \<Longrightarrow> book_ok t"
    using assms by (auto simp: entry_deposit_collateral_def ok_simps intro: deposit_book_ok)
  show "entry_borrow_asset h tk self u a n s = (Ok r, t) \<Longrightarrow> book_ok t"
    using assms by (auto simp: entry_borrow_asset_def tryM_Ok map_err_Ok intro: borrow_book_ok dest!: guards_keep_book_ok)
  show "borrow_asset_intent h tk au self rl u a n c x s = (Ok r, t) \<Longrightarrow> book_ok t"
    using assms by (auto simp: borrow_asset_intent_def tryM_Ok map_err_Ok intro: borrow_book_ok dest!: guards_keep_book_ok)
  show "refuses_negative tk \<Longrightarrow> entry_repay_debt h tk self u a n s = (Ok x3, t) \<Longrightarrow> book_ok t"
    using assms by (cases x3) (auto simp: entry_repay_debt_def ok_simps intro: repay_book_ok)
  show "entry_withdraw_collateral h tk self u a n s = (Ok r, t) \<Longrightarrow> book_ok t"
    using assms by (auto simp: entry_withdraw_collateral_def ok_simps intro: withdraw_book_ok)
  show "entry_hw_liquidate h tk self lq b oa ca n s = (Ok x3, t) \<Longrightarrow> book_ok t"
    using assms by (cases x3) (auto simp: entry_hw_liquidate_def tryM_Ok map_err_Ok intro: liquidate_book_ok dest!: guards_keep_book_ok)
  show "liquidate_intent h tk au self rl lq b oa ca n c x s = (Ok x3, t) \<Longrightarrow> book_ok t"
    using assms by (cases x3) (auto simp: liquidate_intent_def tryM_Ok map_err_Ok intro: liquidate_book_ok dest!: guards_keep_book_ok)
  show "entry_claim_reserves h tk self cl a rc n s = (Ok v, t) \<Longrightarrow> book_ok t"
    using assms by (auto simp: entry_claim_reserves_def ok_simps intro: claim_book_ok)
qed

lemma exec_book_ok:
  assumes "book_ok s" and "refuses_negative (env_tokens e)"
  shows "book_ok (exec_book e c s)"
  by (cases c; simp; rule book_afterI [OF assms(1)];
     drule core_keeps_books [OF assms(1)] settings_keep_books [OF assms(1)] entries_keep_books [OF assms(1)]
       entries_keep_books(4) [OF assms(1,2)]; assumption)

lemma run_book_ok:
  assumes "book_ok s" and "\<And>e c. (e, c) \<in> set calls \<Longrightarrow> refuses_negative (env_tokens e)"
  shows "book_ok (run_book calls s)"
  unfolding run_book_def by (rule fold_invariant [where Q = "\<lambda>l. l \<in> set calls"]) (use assms exec_book_ok in auto)

lemma empty_book_ok: "book_ok empty_book"
  by (simp add: book_ok_def params_ok_def index_unmoved_def book_reads book_state_defs)

end
