(* ===== verification/HW_Loans_Properties.thy ===== *)
theory HW_Loans_Properties
  imports HW_Book_Machine
begin

text \<open>Properties of the lending operations of the protocol contract, at its entry points.\<close>

section \<open>The books\<close>

text \<open>C35: Take any run of the contract's lending and administrative entry points from deployment, over token contracts
  that refuse negative amounts. Then every stored position carries the same collateral as the user's collateral balance,
  no interest was ever charged (every position's interest is zero and every user's index is still the start of the scale),
  no reserve is negative, the risk parameters are in range, and a repayment in the native asset is impossible because
  nothing ever sets its address.\<close>

theorem books_stay_consistent:
  assumes "\<And>e c. (e, c) \<in> set calls \<Longrightarrow> refuses_negative (env_tokens e)"
  defines "s \<equiv> run_book calls empty_book"
  shows "(\<forall>u p. PositionKey s u = Some p \<longrightarrow> hp_collateral p = collateral_of s u \<and> hp_borrow_interest p = 0) \<and>
     (\<forall>u n. UserBorrowIndex s u = Some n \<longrightarrow> n = INDEX_SCALE) \<and> LendingIndexKey s = None \<and>
     (\<forall>a. 0 \<le> get_reserve_balance s a) \<and>
     (\<forall>c. RiskParamsConfig s = Some c \<longrightarrow> validate_risk_params c = Inr ()) \<and>
     (\<forall>h tk self user n r. fst (entry_repay_debt h tk self user None n s) \<noteq> Ok r)"
proof (intro conjI allI impI)
  have ok: "book_ok s" unfolding s_def by (rule run_book_ok [OF empty_book_ok assms(1)])
  then have i: "index_unmoved s" and native: "NativeAssetAddress s = None" by (simp_all add: book_ok_def)
  show "hp_collateral p = collateral_of s u" "hp_borrow_interest p = 0" if "PositionKey s u = Some p" for u p
    using ok that by (auto simp: book_ok_def position_or_new_def dest: spec [of _ u])
  show "n = INDEX_SCALE" if "UserBorrowIndex s u = Some n" for u n using i that by (simp add: index_unmoved_def)
  show "LendingIndexKey s = None" using i by (simp add: index_unmoved_def)
  show "0 \<le> get_reserve_balance s a" for a using ok by (simp add: book_ok_def)
  show "validate_risk_params c = Inr ()" if "RiskParamsConfig s = Some c" for c using ok that by (simp add: book_ok_def params_ok_def)
  show "fst (entry_repay_debt h tk self user None n s) \<noteq> Ok r" for h tk self user n r
  proof
    assume "fst (entry_repay_debt h tk self user None n s) = Ok r"
    then obtain t where "entry_repay_debt h tk self user None n s = (Ok r, t)" by (cases "entry_repay_debt h tk self user None n s") simp
    then show False using native
      by (auto simp: entry_repay_debt_def repay_debt_def map_err_Ok with_guard_Ok fail_if_Ok get_native_asset_address_def ok_or_Ok)
  qed
qed

section \<open>Borrowing\<close>

text \<open>C36: A loan is granted only against the asset's and the protocol's terms: the amount is positive and the token not
  the contract itself, and the value of the user's collateral covers the new debt at the required ratio. That value is what the contract's
  valuation gives on the very storage the call finds, with its prices, price caches, history and breaker: over the user's
  recorded tokens, or the balance times the asset's factor for a user without any. The debt grows by the full amount while
  the borrower is sent the amount less the fee, once, and the fee is added to the reserve of the asset. Nobody else's
  position changes, and no collateral.\<close>

theorem hw_borrow_keeps_ratio:
  assumes "entry_borrow_asset h tk self user (Some a) amount s = (Ok r, t)" and "index_unmoved s"
    and "PositionKey s user = Some p" and "hp_borrow_interest p = 0"
  shows "0 < amount \<and> a \<noteq> self \<and> fee_of amount (Some a) s < amount \<and>
     (\<exists>v. borrowing_value h user (Some a) s = Some v \<and> (hp_debt p + amount \<noteq> 0 \<longrightarrow> min_ratio s \<le> v * 10000 sdiv (hp_debt p + amount))) \<and>
     (\<exists>q. PositionKey t = (PositionKey s)(user \<mapsto> q) \<and> hp_debt q = hp_debt p + amount \<and> hp_collateral q = hp_collateral p) \<and>
     same_collateral s t \<and> ProtocolReserve t = reserve_after (Some a) (fee_of amount (Some a) s) s \<and>
     token_calls t = token_calls s @ [Transfer a self user (amount - fee_of amount (Some a) s)]"
proof -
  from assms(1) obtain u where u: "same_books s u" and w: "same_worth s u" and b: "borrow_asset h tk self user (Some a) amount u = (Ok r, t)"
    by (auto simp: entry_borrow_asset_def tryM_Ok map_err_Ok dest: staysD [OF guard_stays(1)] staysD [OF guard_keeps_worth(1)])
  have "index_unmoved u" using assms(2) u by (simp add: same_books_def index_unmoved_def)
  then obtain p0 q v where f: "0 < amount" "\<not> ReentrancyLock u" "\<not> legacy_pause u ''pause_borrow''" "Some a \<noteq> Some self"
    "PositionKey u user = Some p0" "q = accrued h p0" "borrowing_value h user (Some a) u = Some v" "0 < amount - fee_of amount (Some a) u"
    "hp_debt p0 + amount + hp_borrow_interest p0 \<noteq> 0 \<longrightarrow> min_ratio u \<le> v * 10000 sdiv (hp_debt p0 + amount + hp_borrow_interest p0)"
    "PositionKey t = (PositionKey u)(user \<mapsto> q\<lparr>hp_debt := hp_debt p0 + amount\<rparr>)"
    "same_collateral u t" "same_terms u t" "UserBorrowIndex t = (UserBorrowIndex u)(user \<mapsto> INDEX_SCALE)" "\<not> ReentrancyLock t"
    "ProtocolReserve t = (if Some a = None then ProtocolReserve u else reserve_after (Some a) (fee_of amount (Some a) u) u)"
    "token_calls t = token_calls u @ asset_calls (\<lambda>x. Transfer x self user (amount - fee_of amount (Some a) u)) (Some a)"
    by (rule borrow_Ok [OF b])
  have eq: "fee_of amount (Some a) u = fee_of amount (Some a) s" "min_ratio u = min_ratio s" "PositionKey u = PositionKey s"
    "ProtocolReserve u = ProtocolReserve s" "token_calls u = token_calls s" "same_collateral s u"
    using u by (auto simp: same_books_def fee_of_def min_ratio_def asset_param_def same_collateral_def split: option.splits)
  have sc: "same_collateral s w" if "same_collateral u w" for w using eq(6) that by (rule collateral_moves(5))
  have "p0 = p" using f(5) assms(3) eq(3) by simp
  moreover have "borrowing_value h user (Some a) s = Some v" using f(7) borrowing_value_same [OF w] by simp
  ultimately show ?thesis using f eq sc assms(4)
    by (auto simp: accrued_def asset_calls_def reserve_after_def get_reserve_balance_def)
qed

section \<open>Repayment\<close>

text \<open>C37: A repayment counts twice. A user who owes \<open>debt\<close> without interest and repays \<open>amount\<close> of a token pays the smaller of
  the two to the contract two times over, and the position's debt falls by twice that number: it is still the wrong way
  round after a full repayment, namely minus the old debt. The reported payment is the single one; no collateral moves.\<close>

theorem repay_counts_twice:
  assumes "entry_repay_debt h tk self user (Some a) amount s = (Ok (left, ip, pp), t)" and "index_unmoved s"
    and "PositionKey s user = Some p" and "hp_borrow_interest p = 0" and "0 \<le> hp_debt p" and "in_i128 (hp_debt p)"
  defines "r \<equiv> min amount (hp_debt p)"
  shows "0 < r \<and> ip = 0 \<and> pp = r \<and>
     (\<exists>q. PositionKey t = (PositionKey s)(user \<mapsto> q) \<and> hp_debt q = hp_debt p - 2 * r \<and> hp_collateral q = hp_collateral p) \<and>
     same_collateral s t \<and>
     token_calls t = token_calls s @ [TransferFrom a self user self r, TransferFrom a self user self r]"
proof -
  from assms(1) have b: "repay_debt h tk self user (Some a) amount s = (Ok (left, ip, pp), t)" by (simp add: entry_repay_debt_def map_err_Ok)
  let ?r = "repay_amount_of amount (hp_debt p)"
  have r: "?r = r" by (simp add: r_def repay_amount_of_def min_def)
  note f = repay_Ok [OF b assms(2-5)]
  have d: "0 \<le> hp_debt p - r" "r \<le> hp_debt p" by (simp_all add: r_def)
  have pos: "0 < r" using f r by metis
  have in1: "in_i128 (hp_debt p - r)" "in_i128 (hp_debt p - r - r)" using assms(6) d pos by (auto simp: in_i128_def i128_max_def i128_min_def)
  have q: "hp_debt (repaid_position p 0 r (now h)) = hp_debt p - 2 * r" "hp_collateral (repaid_position p 0 r (now h)) = hp_collateral p"
    using in1 by (simp_all add: repaid_position_def Let_def checked_sub_def to_i128_def)
  show ?thesis
  proof (rule f)
    fix x
    assume x: "ip = 0" "pp = ?r" "repay_asset (Some a) s x" "PositionKey t = (PositionKey s)(user \<mapsto> repaid_position p 0 ?r (now h))"
      "same_collateral s t"
      "token_calls t = token_calls s @ asset_calls (\<lambda>a. TransferFrom a self user self ?r) (Some a) @ [TransferFrom x self user self ?r]"
    then have "x = a" by (simp add: repay_asset_def)
    with x q pos show ?thesis unfolding r by (auto simp: asset_calls_def)
  qed
qed

section \<open>Withdrawal\<close>

lemma record_asset_withdrawal_runs:
  "\<exists>l. record_asset_withdrawal user a amount s = (Ok (), s\<lparr>UserAssetCollateral := (UserAssetCollateral s)((user, a) \<mapsto>
     unwrap_or (checked_sub (get_user_asset_collateral s user a) amount) 0), UserAssetList := l\<rparr>)"
proof (cases "unwrap_or (checked_sub (get_user_asset_collateral s user a) amount) 0 = 0")
  case True
  then show ?thesis by (simp add: record_asset_withdrawal_def get_user_asset_collateral_def Let_def) blast
next
  case False
  then show ?thesis
    by (intro exI [of _ "UserAssetList s"]) (simp add: record_asset_withdrawal_def get_user_asset_collateral_def Let_def)
qed

text \<open>C38: Whoever has collateral and no debt can be paid out in any token of the contract, whatever was deposited: with
  the contract unlocked and the legacy pause off, a withdrawal of up to the user's aggregate collateral in any token that
  accepts the transfer succeeds, with no signature and whether or not the emergency pause is on. It lowers the aggregate,
  pays the user, and leaves the records of every other token as they are, so that they still count as collateral.\<close>

theorem withdrawal_pays_any_asset:
  assumes "0 < amount" and "amount \<le> collateral_of s user" and "in_i128 (collateral_of s user)" and "a \<noteq> self"
    and "\<not> ReentrancyLock s" and "\<not> legacy_pause s ''pause_withdraw''"
    and "PositionKey s user = Some p" and "hp_debt p = 0" and "hp_borrow_interest p = 0"
    and "tok_accepts tk (token_calls s) (Transfer a self user amount)"
    and "in_i128 (ua_total_withdrawals (user_analytics (now h) s user) + amount)"
  shows "\<exists>t. entry_withdraw_collateral h tk self user (Some a) amount s = (Ok (collateral_of s user - amount), t) \<and>
     token_calls t = token_calls s @ [Transfer a self user amount] \<and> collateral_of t user = collateral_of s user - amount \<and>
     (\<forall>b. b \<noteq> a \<longrightarrow> get_user_asset_collateral t user b = get_user_asset_collateral s user b)"
proof -
  have in1: "in_i128 (collateral_of s user - amount)" using assms(1-3) by (auto simp: in_i128_def i128_max_def i128_min_def)
  have "fst (withdraw_collateral h tk self user (Some a) amount s) = Ok (collateral_of s user - amount)"
  proof -
    let ?s0 = "s\<lparr>ReentrancyLock := True\<rparr>" and ?n = "collateral_of s user - amount"
    obtain l where l: "record_asset_withdrawal user a amount (set_collateral user ?n ?s0) = (Ok (), (set_collateral user ?n ?s0)\<lparr>UserAssetCollateral :=
        (UserAssetCollateral (set_collateral user ?n ?s0))((user, a) \<mapsto> unwrap_or (checked_sub (get_user_asset_collateral (set_collateral user ?n ?s0) user a) amount) 0),
        UserAssetList := l\<rparr>)"
      using record_asset_withdrawal_runs by blast
    have n: "checked_sub (collateral_of s user) amount = Some ?n" "checked_add (ua_total_withdrawals (user_analytics (now h) s user)) amount =
        Some (ua_total_withdrawals (user_analytics (now h) s user) + amount)"
      using in1 assms(11) by simp_all
    have reads: "collateral_of ?s0 user = collateral_of s user" "legacy_pause ?s0 op = legacy_pause s op" for op
      by (simp_all add: collateral_of_def legacy_pause_def)
    have check: "validate_collateral_ratio_after_withdraw user amount (Some a) ?s0 = (Ok (), ?s0)"
      using assms(7-9) by (simp add: validate_collateral_ratio_after_withdraw_def ok_or_run)
    show ?thesis
      using assms(1,2,4-7,10) l
      by (simp add: withdraw_collateral_def with_guard_def guard_new_def run_simps reads check map_err_def n [unfolded user_analytics_def]
          call_token_def update_user_analytics_withdraw_def user_analytics_def add_activity_log_def book_writes)
  qed
  from run_pair [OF this] obtain t where w: "withdraw_collateral h tk self user (Some a) amount s = (Ok (collateral_of s user - amount), t)" by blast
  show ?thesis
  proof (rule withdraw_Ok [OF w])
    assume "CollateralBalance t = (CollateralBalance s)(user \<mapsto> collateral_of s user - amount)"
      and "UserAssetCollateral t = (case Some a of None \<Rightarrow> UserAssetCollateral s
      | Some a \<Rightarrow> (UserAssetCollateral s)((user, a) \<mapsto> unwrap_or (checked_sub (get_user_asset_collateral s user a) amount) 0))"
      and "token_calls t = token_calls s @ asset_calls (\<lambda>a. Transfer a self user amount) (Some a)"
    then show ?thesis using w
      by (intro exI [of _ t]) (simp add: entry_withdraw_collateral_def map_err_Ok asset_calls_def collateral_of_def get_user_asset_collateral_def)
  qed
qed

section \<open>Deposit and withdrawal\<close>

text \<open>C39: A deposit that is withdrawn again, by a user without debt who names the same token, restores the user's balance, the
  collateral of the position and the record of the token, and moves the same tokens in and out.\<close>

theorem deposit_withdraw_restores:
  assumes "entry_deposit_collateral h tk self user (Some a) amount s = (Ok n, t)"
    and "entry_withdraw_collateral h' tk' self user (Some a) amount t = (Ok m, u)"
    and "in_i128 (get_user_asset_collateral s user a)"
  shows "n = collateral_of s user + amount \<and> m = collateral_of s user \<and> collateral_of u user = collateral_of s user \<and>
     hp_collateral (the (PositionKey u user)) = collateral_of s user \<and>
     hp_debt (the (PositionKey u user)) = hp_debt (position_or_new 0 s user) \<and>
     (\<forall>b. get_user_asset_collateral u user b = get_user_asset_collateral s user b) \<and>
     (\<forall>v. v \<noteq> user \<longrightarrow> collateral_of u v = collateral_of s v \<and> PositionKey u v = PositionKey s v) \<and>
     token_calls u = token_calls s @ [TransferFrom a self user self amount, Transfer a self user amount]"
proof -
  from assms(1) have d: "deposit_collateral h tk self user (Some a) amount s = (Ok n, t)" by (simp add: entry_deposit_collateral_def map_err_Ok)
  from assms(2) have w: "withdraw_collateral h' tk' self user (Some a) amount t = (Ok m, u)" by (simp add: entry_withdraw_collateral_def map_err_Ok)
  note f = deposit_Ok [OF d]
  have "in_i128 (get_user_asset_collateral s user a + amount - amount)" using assms(3) by simp
  show ?thesis
  proof (rule withdraw_Ok [OF w])
    fix p
    assume x: "m = collateral_of t user - amount" "PositionKey t user = Some p"
      "CollateralBalance u = (CollateralBalance t)(user \<mapsto> m)"
      "PositionKey u = (PositionKey t)(user \<mapsto> p\<lparr>hp_collateral := m, hp_last_accrual_time := now h'\<rparr>)"
      "UserAssetCollateral u = (case Some a of None \<Rightarrow> UserAssetCollateral t
        | Some a \<Rightarrow> (UserAssetCollateral t)((user, a) \<mapsto> unwrap_or (checked_sub (get_user_asset_collateral t user a) amount) 0))"
      "token_calls u = token_calls t @ asset_calls (\<lambda>a. Transfer a self user amount) (Some a)"
    have m: "m = collateral_of s user" using x(1) f by (simp add: collateral_of_def)
    have p: "hp_debt p = hp_debt (position_or_new 0 s user)"
      using x(2) f by (cases "PositionKey s user") (auto simp: position_or_new_def)
    show ?thesis using f x m p assms(3)
      by (auto simp: asset_calls_def asset_balance_after_def collateral_of_def get_user_asset_collateral_def checked_sub_def to_i128_def)
  qed
qed

section \<open>Liquidation\<close>

text \<open>C40: A liquidation is signed by the liquidator, never runs under the emergency pause, and needs a debt above what the
  collateral covers: the value that the contract's valuation gives on the very storage the call finds, for any mix of
  recorded tokens or for the balance of a user without any, lies below the liquidation threshold. It repays no more than the
  close factor allows, takes no more than the borrower's balance of the named collateral, lowers the borrower's debt and
  collateral by exactly these two amounts, and fetches the repayment from the liquidator before paying out the collateral
  less the fee, which goes to the reserve. Nobody else's position changes.\<close>

theorem liquidation_within_limits:
  assumes "entry_hw_liquidate h tk self liquidator borrower oa ca n s = (Ok (debt, seized, incentive), t)" and "index_unmoved s"
    and "PositionKey s borrower = Some p" and "hp_borrow_interest p = 0" and "params_ok s"
    and "in_i128 (hp_debt p)" and "in_i128 (collateral_of s borrower - seized)"
  shows "signed h liquidator \<and> EmergencyPauseKey s \<noteq> Some True \<and>
     (\<exists>v. fst (value_for_check h borrower oa ca (target_balance s borrower ca) s) = Ok v \<and> liquidation_limits s v (hp_debt p) n) \<and>
     0 < debt \<and> debt = min n (hp_debt p) \<and> seized \<le> target_balance s borrower ca \<and>
     (\<exists>q. PositionKey t = (PositionKey s)(borrower \<mapsto> q) \<and> hp_debt q = hp_debt p - debt \<and> hp_borrow_interest q = 0 \<and>
        hp_collateral q = collateral_of s borrower - seized) \<and>
     collateral_of t borrower = collateral_of s borrower - seized \<and>
     (\<exists>fee. ProtocolReserve t = reserve_after ca fee s \<and> token_calls t = token_calls s @
        asset_calls (\<lambda>a. TransferFrom a self liquidator self debt) oa @ asset_calls (\<lambda>a. Transfer a self liquidator (seized - fee)) ca)"
proof -
  from assms(1) obtain u where sg: "signed h liquidator" and u: "same_books s u" and w: "same_worth s u"
    and b: "liquidate h tk self liquidator borrower oa ca n u = (Ok (debt, seized, incentive), t)"
    by (auto simp: entry_hw_liquidate_def tryM_Ok map_err_Ok require_auth_def fail_if_Ok ok_simps dest: staysD [OF guard_stays(1)] staysD [OF guard_keeps_worth(1)]
      split: if_splits)
  have "index_unmoved u" using assms(2) u by (simp add: same_books_def index_unmoved_def)
  then obtain p0 q v owed fee left where f: "0 < n" "\<not> ReentrancyLock u" "EmergencyPauseKey u \<noteq> Some True"
    "PositionKey u borrower = Some p0" "q = accrued h p0" "owed = hp_debt q + hp_borrow_interest q" "fst (value_for_check h borrower oa ca (target_balance u borrower ca) u) = Ok v"
    "liquidation_limits u v owed n" "debt = at_most n owed" "seized \<le> target_balance u borrower ca"
    "left = unwrap_or (checked_sub (collateral_of u borrower) seized) 0" "CollateralBalance t = (CollateralBalance u)(borrower \<mapsto> left)"
    "PositionKey t = (PositionKey u)(borrower \<mapsto> liquidated_position q (interest_part debt q) (debt - interest_part debt q) left (now h))"
    "same_terms u t" "UserBorrowIndex t = (UserBorrowIndex u)(borrower \<mapsto> INDEX_SCALE)" "\<not> ReentrancyLock t"
    "ProtocolReserve t = reserve_after ca fee u"
    "token_calls t = token_calls u @ asset_calls (\<lambda>a. TransferFrom a self liquidator self debt) oa @ asset_calls (\<lambda>a. Transfer a self liquidator (seized - fee)) ca"
    by (rule liquidate_Ok [OF b])
  have sc: "same_collateral s u" using u by (rule collateral_moves(1))
  have eq: "PositionKey u = PositionKey s" "collateral_of u = collateral_of s" "target_balance u = target_balance s" "RiskParamsConfig u = RiskParamsConfig s"
    "EmergencyPauseKey u = EmergencyPauseKey s" "reserve_after ca fee u = reserve_after ca fee s" "token_calls u = token_calls s"
    using u by (auto simp: same_books_def target_balance_def book_reads reserve_after_def fun_eq_iff split: option.splits)
  have p0: "p0 = p" using f(4) assms(3) eq(1) by simp
  then have q: "hp_borrow_interest q = 0" "hp_debt q = hp_debt p" "owed = hp_debt p" using f(5,6) assms(4) by (simp_all add: accrued_def)
  have lim: "liquidation_limits s v (hp_debt p) n" using f(8) q(3) eq(4) by (simp add: liquidation_limits_def)
  have owes: "0 < hp_debt p" using liquidation_needs_debt [OF lim f(1) assms(5)] .
  have cv: "fst (value_for_check h borrower oa ca (target_balance s borrower ca) s) = Ok v"
    using f(7) value_for_check_same [OF w] eq(3) by simp
  have debt: "debt = min n (hp_debt p)" "0 < debt" "debt \<le> hp_debt p" using f(1,9) q(3) owes by (auto simp: at_most_def)
  have ip: "interest_part debt q = 0" using debt(2) q(1) by (simp add: interest_part_def)
  have "in_i128 (hp_debt p - debt)" using assms(6) debt by (auto simp: in_i128_def i128_min_def i128_max_def)
  then have pos: "hp_debt (liquidated_position q 0 debt left (now h)) = hp_debt p - debt" "hp_borrow_interest (liquidated_position q 0 debt left (now h)) = 0"
    "hp_collateral (liquidated_position q 0 debt left (now h)) = left"
    using q by (simp_all add: liquidated_position_def checked_sub_def to_i128_def nothing_subtracted)
  have left: "left = collateral_of s borrower - seized" using f(11) eq(2) assms(7) by (simp add: checked_sub_def to_i128_def)
  show ?thesis using sg f(3,10,12,13,17,18) cv lim debt pos left unfolding eq ip
    by (intro conjI exI [of _ v] exI [of _ fee] exI [of _ "liquidated_position q 0 debt left (now h)"]) (simp_all add: collateral_of_def)
qed

section \<open>Samples\<close>

definition sample_tokens :: tokens where
  "sample_tokens = \<lparr>tok_balance = (\<lambda>_ _ _. Some 1000000), tok_accepts = (\<lambda>_ c. 0 \<le> call_amount c)\<rparr>"

text \<open>User 2 owes 1000 against a collateral of 1040; contract 3 exempts it from the rate limit; the emergency pause is \<open>e\<close>.\<close>

definition sample_position :: "i128 \<Rightarrow> i128 \<Rightarrow> Position" where
  "sample_position c d = \<lparr>hp_collateral = c, hp_debt = d, hp_borrow_interest = 0, hp_last_accrual_time = 0\<rparr>"

definition book_sample :: "bool \<Rightarrow> i128 \<Rightarrow> i128 \<Rightarrow> hw_book" where
  "book_sample e c d = empty_book\<lparr>AdminKey := Some 2, EmergencyPauseKey := Some e,
     RiskParamsConfig := Some \<lparr>rp_min_collateral_ratio = 11000, rp_liquidation_threshold = 10500, rp_close_factor = 5000,
       rp_liquidation_incentive = 1000, rp_last_update = 0\<rparr>,
     CollateralBalance := [2 \<mapsto> c], PositionKey := [2 \<mapsto> sample_position c d]\<rparr>"

lemmas sample_defs = book_sample_def sample_position_def sample_tokens_def sample_host_def book_state_defs

lemma book_sample_reads [simp]:
  "index_unmoved (book_sample e c d)" "params_ok (book_sample e c d)" "PositionKey (book_sample e c d) 2 = Some (sample_position c d)"
  "collateral_of (book_sample e c d) 2 = c" "\<not> ReentrancyLock (book_sample e c d)" "\<not> legacy_pause (book_sample e c d) op"
  "token_calls (book_sample e c d) = []" "get_user_asset_collateral (book_sample e c d) u a = 0"
  by (simp_all add: sample_defs index_unmoved_def params_ok_def book_reads legacy_pause_def validate_risk_params_def MIN_COLLATERAL_RATIO_MIN_def
      MIN_COLLATERAL_RATIO_MAX_def LIQUIDATION_THRESHOLD_MIN_def LIQUIDATION_THRESHOLD_MAX_def CLOSE_FACTOR_MIN_def CLOSE_FACTOR_MAX_def
      LIQUIDATION_INCENTIVE_MIN_def LIQUIDATION_INCENTIVE_MAX_def BASIS_POINTS_SCALE_def)

theorem withdrawal_pays_any_asset_witness:
  "\<exists>t. entry_withdraw_collateral (sample_host 100) sample_tokens 3 2 (Some 7) 40 (book_sample True 100 0) = (Ok 60, t) \<and>
     token_calls t = [Transfer 7 3 2 40]"
proof -
  have "user_analytics n (book_sample True 100 0) 2 = new_user_analytics n" for n by (simp add: user_analytics_def sample_defs)
  with withdrawal_pays_any_asset [of 40 "book_sample True 100 0" 2 7 3 "sample_position 100 0" sample_tokens "sample_host 100"]
  show ?thesis by (auto simp: sample_position_def sample_tokens_def new_user_analytics_def in_i128_def i128_max_def i128_min_def)
qed

lemmas book_eval = sample_defs run_simps Let_def checked_defs i128_defs sdiv_nonneg_eq book_reads guard_drop_def with_guard_def guard_new_def
  legacy_pause_def map_err_def set_collateral_def set_position_def set_user_index_def set_reserve_def
  call_token_def balance_of_def user_analytics_def new_user_analytics_def save_user_analytics_def protocol_analytics_def
  saturating_add_u64_def u64_max_def emit_closing_events_def emit_position_updated_event_def emit_analytics_updated_event_def
  emit_user_activity_tracked_event_def book_publish_def lower_locked_value_def add_activity_log_def

lemmas score_eval = or_default_def update_score_on_repayment_def record_borrow_def update_score_on_liquidation_def initialize_credit_score_def
  get_credit_score_def save_score_def rescored_def score_consts checked_add_u32_code

lemma sample_repays: "fst (entry_repay_debt (sample_host 100) sample_tokens 3 2 (Some 7) 400 (book_sample False 1040 1000)) = Ok (200, 0, 400)"
  by (simp add: entry_repay_debt_def repay_debt_def fetch_repayment_def accrue_interest_def update_lending_index_unset compute_index_interest_def
      repay_amount_of_def interest_part_def repaid_position_def credit_interest_fee_def log_repayment_def update_user_analytics_repay_def
      update_protocol_analytics_repay_def score_eval book_eval)

theorem repay_counts_twice_witness:
  "\<exists>t q. entry_repay_debt (sample_host 100) sample_tokens 3 2 (Some 7) 400 (book_sample False 1040 1000) = (Ok (200, 0, 400), t) \<and>
     PositionKey t 2 = Some q \<and> hp_debt q = 200 \<and> token_calls t = [TransferFrom 7 3 2 3 400, TransferFrom 7 3 2 3 400]"
  using repay_counts_twice [OF run_pair [OF sample_repays]] run_pair [OF sample_repays]
  by (fastforce simp: sample_position_def in_i128_def i128_max_def i128_min_def)

text \<open>The same user, with all collateral in token 7, worth half a unit each by the cached price.\<close>

definition token_sample :: "i128 \<Rightarrow> i128 \<Rightarrow> hw_book" where
  "token_sample c d = (book_sample False c d)\<lparr>UserAssetList := [2 \<mapsto> [7]], UserAssetCollateral := [(2, 7) \<mapsto> c],
     PriceCacheKey := [7 \<mapsto> \<lparr>cp_price = 50000000, cached_at = 50, ttl = 300\<rparr>]\<rparr>"

lemma token_sample_reads [simp]:
  "index_unmoved (token_sample c d)" "params_ok (token_sample c d)" "PositionKey (token_sample c d) 2 = Some (sample_position c d)"
  "collateral_of (token_sample c d) 2 = c"
  using book_sample_reads(1,2) [of False c d]
  by (simp_all add: token_sample_def index_unmoved_def params_ok_def, simp_all add: sample_defs collateral_of_def)

lemmas price_eval = calculate_total_collateral_value_def get_oracle_price_def get_price_def is_breaker_open_def get_breaker_state_def
  get_cached_price_def get_collateral_factor_def PRICE_DECIMALS_def BPS_SCALE_def or_default_def

lemma sample_borrows: "fst (entry_borrow_asset (sample_host 100) sample_tokens 3 2 (Some 7) 100 (token_sample 4000 1000)) = Ok 1100"
  by (simp add: entry_borrow_asset_def consume_def is_bypassed_def borrow_asset_def validate_borrow_asset_def asset_param_def min_ratio_def
      effective_collateral_def calculate_max_borrowable_def validate_collateral_ratio_after_borrow_def pay_borrower_def
      update_user_analytics_borrow_def update_protocol_analytics_borrow_def accrue_interest_def update_lending_index_unset
      compute_index_interest_def token_sample_def price_eval book_eval)

theorem hw_borrow_keeps_ratio_witness:
  "\<exists>t. entry_borrow_asset (sample_host 100) sample_tokens 3 2 (Some 7) 100 (token_sample 4000 1000) = (Ok 1100, t) \<and>
     token_calls t = [Transfer 7 3 2 100] \<and>
     (\<exists>v. borrowing_value (sample_host 100) 2 (Some 7) (token_sample 4000 1000) = Some v \<and> 11000 \<le> v * 10000 sdiv 1100)"
proof -
  have "fee_of 100 (Some 7) (token_sample 4000 1000) = 0" "min_ratio (token_sample 4000 1000) = 11000" "token_calls (token_sample 4000 1000) = []"
    by (simp_all add: fee_of_def asset_param_def min_ratio_def token_sample_def sample_defs)
  with hw_borrow_keeps_ratio [OF run_pair [OF sample_borrows]] run_pair [OF sample_borrows]
  show ?thesis by (fastforce simp: sample_position_def)
qed

lemma sample_value: "borrowing_value (sample_host 100) 2 (Some 7) (token_sample 4000 1000) = Some 2000"
  by (simp add: borrowing_value_def effective_collateral_def token_sample_def price_eval book_eval)

lemma sample_liquidates:
  "fst (entry_hw_liquidate (sample_host 100) sample_tokens 3 2 2 None None 100 (token_sample 2080 1000)) = Ok (100, 110, 10)"
  by (simp add: entry_hw_liquidate_def require_auth_def consume_def is_bypassed_def liquidate_def check_liquidation_pause_def is_liquidation_allowed_def
      get_circuit_breaker_state_def require_operation_not_paused_def is_operation_paused_def get_risk_config_def is_emergency_paused_def target_balance_def calculate_debt_value_def value_for_check_def
      can_be_liquidated_def hw_get_max_liquidatable_amount_def calculate_dynamic_penalty_def debt_in_collateral_def get_fee_config_def at_most_def
      fetch_liquidation_def pay_liquidator_def credit_liquidation_fee_def liquidate_borrower_def liquidated_position_def interest_part_def
      log_liquidation_def update_liquidation_analytics_def accrue_interest_def update_lending_index_unset compute_index_interest_def
      BASIS_POINTS_SCALE_def MAX_PENALTY_BPS_def default_fee_config_def DEFAULT_LIQUIDATION_FEE_BPS_def DEFAULT_INTEREST_FEE_BPS_def
      token_sample_def price_eval score_eval book_eval)

theorem liquidation_within_limits_witness:
  "\<exists>t. entry_hw_liquidate (sample_host 100) sample_tokens 3 2 2 None None 100 (token_sample 2080 1000) = (Ok (100, 110, 10), t) \<and>
     collateral_of t 2 = 1970 \<and>
     (\<exists>v. fst (value_for_check (sample_host 100) 2 None None (target_balance (token_sample 2080 1000) 2 None) (token_sample 2080 1000)) = Ok v \<and>
        liquidation_limits (token_sample 2080 1000) v 1000 100)"
  using liquidation_within_limits [OF run_pair [OF sample_liquidates]] run_pair [OF sample_liquidates]
  by (fastforce simp: sample_position_def in_i128_def i128_max_def i128_min_def)

text \<open>A deposit and its withdrawal on a new contract.\<close>

lemma sample_deposits: "fst (entry_deposit_collateral (sample_host 100) sample_tokens 3 2 (Some 7) 50 empty_book) = Ok 50"
  by (simp add: entry_deposit_collateral_def deposit_collateral_def check_risk_management_pause_def receive_deposit_def record_asset_deposit_def
      update_user_analytics_def update_protocol_analytics_def book_eval)

definition deposited :: hw_book where
  "deposited = snd (entry_deposit_collateral (sample_host 100) sample_tokens 3 2 (Some 7) 50 empty_book)"

lemma sample_withdraws: "fst (entry_withdraw_collateral (sample_host 200) sample_tokens 3 2 (Some 7) 50 deposited) = Ok 0"
  unfolding deposited_def
  by (simp add: entry_deposit_collateral_def deposit_collateral_def check_risk_management_pause_def receive_deposit_def record_asset_deposit_def
      update_user_analytics_def update_protocol_analytics_def entry_withdraw_collateral_def withdraw_collateral_def
      validate_collateral_ratio_after_withdraw_def record_asset_withdrawal_def update_user_analytics_withdraw_def book_eval)

theorem deposit_withdraw_restores_witness:
  "token_calls (snd (entry_withdraw_collateral (sample_host 200) sample_tokens 3 2 (Some 7) 50 deposited)) =
     [TransferFrom 7 3 2 3 50, Transfer 7 3 2 50]"
proof -
  have "token_calls empty_book = []" "get_user_asset_collateral empty_book 2 7 = 0"
    by (simp_all add: book_state_defs get_user_asset_collateral_def)
  with deposit_withdraw_restores [OF run_pair [OF sample_deposits] run_pair [OF sample_withdraws [unfolded deposited_def]]]
  show ?thesis by (simp add: deposited_def)
qed

theorem books_stay_consistent_witness:
  defines "e \<equiv> \<lparr>env_host = sample_host 100, env_tokens = sample_tokens, env_authorised = (\<lambda>_ _. True), env_self = 3\<rparr>"
  shows "\<exists>p. PositionKey (run_book [(e, K_deposit 2 (Some 7) 50)] empty_book) 2 = Some p \<and> hp_collateral p = 50 \<and> hp_borrow_interest p = 0"
proof -
  let ?s = "run_book [(e, K_deposit 2 (Some 7) 50)] empty_book"
  have "entry_deposit_collateral (sample_host 100) sample_tokens 3 2 (Some 7) 50 empty_book = (Ok 50, deposited)"
    using run_pair [OF sample_deposits] by (simp add: deposited_def)
  then have s: "?s = deposited" by (simp add: run_book_def e_def book_after_def invoke_def)
  have d: "deposit_collateral (sample_host 100) sample_tokens 3 2 (Some 7) 50 empty_book = (Ok 50, deposited)"
    using run_pair [OF sample_deposits] by (simp add: entry_deposit_collateral_def map_err_Ok deposited_def)
  from deposit_Ok [OF d] obtain p where p: "PositionKey ?s 2 = Some p" "collateral_of ?s 2 = 50" unfolding s by (auto simp: collateral_of_def)
  have "refuses_negative sample_tokens" by (simp add: refuses_negative_def sample_tokens_def)
  with books_stay_consistent [of "[(e, K_deposit 2 (Some 7) 50)]"] p show ?thesis by (simp add: e_def)
qed

end
