(* ===== verification/HW_Side_Properties.thy ===== *)
theory HW_Side_Properties
  imports HW_Queue HW_Loans_Properties
begin

text \<open>
  What the side modules of the protocol contract promise: a debt token has exactly one owner, a commitment is revealed at
  most once and only inside its window, and the queue answers with the most urgent liquidation that has not expired.
\<close>

section \<open>The storage of a newly deployed contract\<close>

definition empty_queue :: hw_queue where
  "empty_queue = hw_reserve.extend (hw_analytics.extend (hw_book.extend empty_book (hw_analytics.fields None (\<lambda>_. None) None None))
     (hw_reserve.fields (\<lambda>_. None) (\<lambda>_. None) (\<lambda>_. None) (\<lambda>_. None) None (\<lambda>_. None) (\<lambda>_. None) None (\<lambda>_. None) None []))
     (hw_queue.fields None None (\<lambda>_. None) None (\<lambda>_. None) (\<lambda>_. None) (\<lambda>_. None) None None (\<lambda>_. None) [])"

lemmas queue_state_defs = empty_queue_def hw_analytics.defs hw_reserve.defs hw_queue.defs book_state_defs

section \<open>Debt tokens\<close>

datatype token_op =
  D_mint address "address option" i128 i128
| D_transfer address address u64
| D_burn address u64 symbol
| D_pause address bool
| D_block address address bool

definition token_after :: "('z hw_reserve_scheme, 'e, 'a) contract_fn \<Rightarrow> 'z hw_reserve_scheme \<Rightarrow> 'z hw_reserve_scheme" where
  "token_after m s = snd (invoke m s)"

fun exec_token :: "address \<Rightarrow> host \<Rightarrow> token_op \<Rightarrow> 'z hw_reserve_scheme \<Rightarrow> 'z hw_reserve_scheme" where
  "exec_token zero h (D_mint u a n r) = token_after (entry_mint_debt_token h u a n r)"
| "exec_token zero h (D_transfer u v i) = token_after (entry_transfer_debt_token h zero u v i)"
| "exec_token zero h (D_burn u i r) = token_after (entry_burn_debt_token h u i r)"
| "exec_token zero h (D_pause a p) = token_after (set_debt_token_transfer_pause h a p)"
| "exec_token zero h (D_block a u b) = token_after (set_debt_token_address_blocked h a u b)"

definition run_tokens :: "address \<Rightarrow> (host \<times> token_op) list \<Rightarrow> 'z hw_reserve_scheme \<Rightarrow> 'z hw_reserve_scheme" where
  "run_tokens zero calls s = fold (\<lambda>(h, c). exec_token zero h c) calls s"

text \<open>Lists of tokens without repetition or overlap that hold exactly the live tokens.\<close>

definition holds :: "(address \<Rightarrow> u64 list) \<Rightarrow> u64 set \<Rightarrow> bool" where
  "holds tok live \<longleftrightarrow> (\<forall>u. distinct (tok u)) \<and> (\<forall>u v i. i \<in> set (tok u) \<longrightarrow> i \<in> set (tok v) \<longrightarrow> u = v) \<and> (\<Union>u. set (tok u)) = live"

lemma holds_add:
  assumes "holds tok live" and "i \<notin> live"
  shows "holds (tok(u := tok u @ [i])) (insert i live)"
proof -
  have "i \<notin> set (tok v)" for v using assms by (auto simp: holds_def)
  then show ?thesis using assms(1) by (auto simp: holds_def split: if_splits)
qed

lemma holds_drop:
  assumes "holds tok live" and "i \<in> set (tok u)"
  shows "holds (tok(u := remove1 i (tok u))) (live - {i})"
proof -
  have d: "distinct (tok v)" and l: "(\<Union>v. set (tok v)) = live" for v using assms(1) by (auto simp: holds_def)
  have o: "a = b" if "j \<in> set (tok a)" and "j \<in> set (tok b)" for j a b using assms(1) that by (simp add: holds_def)
  have e: "set ((tok(u := remove1 i (tok u))) v) = set (tok v) - {i}" for v
    using d o [OF assms(2), of v] by (auto simp: set_remove1_eq)
  have "(\<Union>v. set ((tok(u := remove1 i (tok u))) v)) = live - {i}" unfolding e l [symmetric] by blast
  moreover have "distinct ((tok(u := remove1 i (tok u))) v)" for v using d by simp
  moreover have "a = b" if "j \<in> set ((tok(u := remove1 i (tok u))) a)" and "j \<in> set ((tok(u := remove1 i (tok u))) b)" for j a b
    using that o unfolding e by blast
  ultimately show ?thesis unfolding holds_def by blast
qed

definition tokens_ok :: "'z hw_reserve_scheme \<Rightarrow> bool" where
  "tokens_ok s \<longleftrightarrow> holds (get_user_debt_tokens s) (dom (TokenPosition s)) \<and> dom (TokenPosition s) \<subseteq> {..<get_next_token_id s} \<and>
     get_total_supply s = card (dom (TokenPosition s))"

lemmas token_reads = get_user_debt_tokens_def get_next_token_id_def get_total_supply_def

lemma live_tokens_finite: "tokens_ok s \<Longrightarrow> finite (dom (TokenPosition s))"
  by (rule finite_subset [of _ "{..<get_next_token_id s}"]) (auto simp: tokens_ok_def)

lemma held_token_lives: "tokens_ok s \<Longrightarrow> i \<in> set (get_user_debt_tokens s u) \<Longrightarrow> i \<in> dom (TokenPosition s)"
  by (auto simp: tokens_ok_def holds_def)

text \<open>The lists after a token was added to one of them, and after the lists of two users were rewritten.\<close>

lemma set_owner_tokens_reads [simp]:
  "get_user_debt_tokens (set_owner_tokens u l s) = (get_user_debt_tokens s)(u := l)"
  "TokenPosition (set_owner_tokens u l s) = TokenPosition s"
  "get_next_token_id (set_owner_tokens u l s) = get_next_token_id s"
  "get_total_supply (set_owner_tokens u l s) = get_total_supply s"
  by (auto simp: set_owner_tokens_def token_reads)

lemma reserve_publish_reads [simp]:
  "get_user_debt_tokens (reserve_publish e s) = get_user_debt_tokens s"
  "TokenPosition (reserve_publish e s) = TokenPosition s"
  "get_next_token_id (reserve_publish e s) = get_next_token_id s"
  "get_total_supply (reserve_publish e s) = get_total_supply s"
  by (auto simp: reserve_publish_def token_reads)

lemma token_field_reads [simp]:
  "get_user_debt_tokens (s\<lparr>TokenPosition := f\<rparr>) = get_user_debt_tokens s"
  "get_next_token_id (s\<lparr>TokenPosition := f\<rparr>) = get_next_token_id s"
  "get_total_supply (s\<lparr>TokenPosition := f\<rparr>) = get_total_supply s"
  "get_user_debt_tokens (s\<lparr>NextTokenId := n\<rparr>) = get_user_debt_tokens s"
  "get_next_token_id (s\<lparr>NextTokenId := Some m\<rparr>) = m"
  "get_total_supply (s\<lparr>NextTokenId := n\<rparr>) = get_total_supply s"
  "get_user_debt_tokens (s\<lparr>TotalSupply := n\<rparr>) = get_user_debt_tokens s"
  "get_next_token_id (s\<lparr>TotalSupply := n\<rparr>) = get_next_token_id s"
  "get_total_supply (s\<lparr>TotalSupply := Some m\<rparr>) = m"
  by (simp_all add: token_reads fun_eq_iff)

lemma hw_require_auth_Ok [ok_simps]: "require_auth h u s = (Ok x, t) \<longleftrightarrow> signed h u \<and> t = s"
  by (auto simp: require_auth_def ok_simps)

lemma update_total_supply_Ok [ok_simps]:
  "update_total_supply d s = (Ok x, t) \<longleftrightarrow> 0 \<le> int (get_total_supply s) + d \<and> int (get_total_supply s) + d \<le> int u64_max \<and>
     t = s\<lparr>TotalSupply := Some (nat (int (get_total_supply s) + d))\<rparr>"
  by (auto simp: update_total_supply_def ok_simps Let_def)

lemma checked_add_u64_Some: "checked_add_u64 a b = Some c \<longleftrightarrow> c = a + b \<and> a + b \<le> u64_max"
  by (auto simp: checked_add_u64_def)

lemma debt_token_mint_Ok:
  assumes "mint_debt_token h user asset amount rate s = (Ok i, t)"
  shows "signed h user \<and> i = get_next_token_id s \<and> get_next_token_id t = Suc i \<and> get_total_supply t = Suc (get_total_supply s) \<and>
    (\<exists>p. TokenPosition t = (TokenPosition s)(i \<mapsto> p)) \<and>
    get_user_debt_tokens t = (get_user_debt_tokens s)(user := get_user_debt_tokens s user @ [i])"
  using assms by (auto simp: mint_debt_token_def ok_simps Let_def checked_add_u64_Some)

lemma transfer_Ok:
  assumes "transfer_debt_token h zero u v i s = (Ok x, t)"
  shows "signed h u \<and> i \<in> set (get_user_debt_tokens s u) \<and> get_next_token_id t = get_next_token_id s \<and> get_total_supply t = get_total_supply s \<and>
    dom (TokenPosition t) = dom (TokenPosition s) \<and>
    get_user_debt_tokens t =
      (let g = (get_user_debt_tokens s)(u := remove1 i (get_user_debt_tokens s u)) in g(v := g v @ [i]))"
  using assms by (auto simp: transfer_debt_token_def ok_simps Let_def split: if_splits)

lemma burn_Ok:
  assumes "burn_debt_token h u i r s = (Ok x, t)"
  shows "signed h u \<and> i \<in> set (get_user_debt_tokens s u) \<and> get_next_token_id t = get_next_token_id s \<and>
    int (get_total_supply t) = int (get_total_supply s) - 1 \<and> TokenPosition t = (TokenPosition s)(i := None) \<and>
    get_user_debt_tokens t = (get_user_debt_tokens s)(u := remove1 i (get_user_debt_tokens s u))"
  using assms by (auto simp: burn_debt_token_def ok_simps Let_def)

lemma mint_tokens_ok:
  assumes "mint_debt_token h user asset amount rate s = (Ok i, t)" and "tokens_ok s"
  shows "tokens_ok t"
proof -
  note m = debt_token_mint_Ok [OF assms(1)]
  have new: "i \<notin> dom (TokenPosition s)" using assms(2) m by (auto simp: tokens_ok_def)
  have d: "dom (TokenPosition t) = insert i (dom (TokenPosition s))" using m by auto
  have "holds (get_user_debt_tokens t) (dom (TokenPosition t))"
    unfolding d using m holds_add [OF _ new] assms(2) by (simp add: tokens_ok_def)
  moreover have "card (dom (TokenPosition t)) = get_total_supply t"
    unfolding d using new m live_tokens_finite [OF assms(2)] assms(2) by (simp add: tokens_ok_def)
  ultimately show ?thesis using m assms(2) d by (force simp: tokens_ok_def)
qed

lemma transfer_tokens_ok:
  assumes "transfer_debt_token h zero u v i s = (Ok x, t)" and "tokens_ok s"
  shows "tokens_ok t"
proof -
  note m = transfer_Ok [OF assms(1)]
  let ?g = "(get_user_debt_tokens s)(u := remove1 i (get_user_debt_tokens s u))"
  have "holds ?g (dom (TokenPosition s) - {i})" using m assms(2) by (intro holds_drop) (simp_all add: tokens_ok_def)
  then have "holds (?g(v := ?g v @ [i])) (insert i (dom (TokenPosition s) - {i}))" by (rule holds_add) simp
  moreover have "insert i (dom (TokenPosition s) - {i}) = dom (TokenPosition s)" using held_token_lives [OF assms(2)] m by blast
  ultimately show ?thesis using m assms(2) by (simp add: tokens_ok_def Let_def)
qed

lemma burn_tokens_ok:
  assumes "burn_debt_token h u i r s = (Ok x, t)" and "tokens_ok s"
  shows "tokens_ok t"
proof -
  note m = burn_Ok [OF assms(1)]
  have i: "i \<in> dom (TokenPosition s)" using held_token_lives [OF assms(2)] m by blast
  have d: "dom (TokenPosition t) = dom (TokenPosition s) - {i}" using m by auto
  have "holds (get_user_debt_tokens t) (dom (TokenPosition t))"
    unfolding d using m holds_drop [of _ _ i u] assms(2) by (simp add: tokens_ok_def)
  moreover have "get_total_supply t = card (dom (TokenPosition t))"
    unfolding d using i m live_tokens_finite [OF assms(2)] assms(2) card_gt_0_iff [of "dom (TokenPosition s)"]
    by (auto simp: tokens_ok_def)
  ultimately show ?thesis using m assms(2) d by (auto simp: tokens_ok_def)
qed

lemma switch_tokens_ok:
  "set_transfer_pause h a p s = (Ok x, t) \<Longrightarrow> tokens_ok s \<Longrightarrow> tokens_ok t"
  "set_address_blocked h a u b s = (Ok x, t) \<Longrightarrow> tokens_ok s \<Longrightarrow> tokens_ok t"
proof -
  have f: "tokens_ok (s\<lparr>TransferPausedKey := y\<rparr>) = tokens_ok s" "tokens_ok (s\<lparr>BlockedAddress := f\<rparr>) = tokens_ok s" for y f
  proof -
    have "get_user_debt_tokens (s\<lparr>TransferPausedKey := y\<rparr>) = get_user_debt_tokens s"
      "get_user_debt_tokens (s\<lparr>BlockedAddress := f\<rparr>) = get_user_debt_tokens s"
      by (simp_all add: get_user_debt_tokens_def fun_eq_iff)
    then show "tokens_ok (s\<lparr>TransferPausedKey := y\<rparr>) = tokens_ok s" "tokens_ok (s\<lparr>BlockedAddress := f\<rparr>) = tokens_ok s"
      by (simp_all add: tokens_ok_def get_next_token_id_def get_total_supply_def)
  qed
  show "set_transfer_pause h a p s = (Ok x, t) \<Longrightarrow> tokens_ok s \<Longrightarrow> tokens_ok t"
    by (auto simp: set_transfer_pause_def token_admin_def ok_simps f)
  show "set_address_blocked h a u b s = (Ok x, t) \<Longrightarrow> tokens_ok s \<Longrightarrow> tokens_ok t"
    by (clarsimp simp: set_address_blocked_def token_admin_def ok_simps f simp del: if_split)
qed

lemmas token_entries = entry_mint_debt_token_def entry_transfer_debt_token_def entry_burn_debt_token_def
  set_debt_token_transfer_pause_def set_debt_token_address_blocked_def

lemma token_after_ok:
  assumes "\<And>a t. m s = (Ok a, t) \<Longrightarrow> tokens_ok s \<Longrightarrow> tokens_ok t" and "tokens_ok s"
  shows "tokens_ok (token_after (map_err f m) s)"
  unfolding token_after_def by (rule invoke_preserves) (use assms in \<open>simp_all add: map_err_Ok\<close>)

lemma exec_token_ok: "tokens_ok s \<Longrightarrow> tokens_ok (exec_token zero h c s)"
  by (cases c) (simp_all only: exec_token.simps token_entries token_after_ok mint_tokens_ok transfer_tokens_ok burn_tokens_ok switch_tokens_ok)

lemma run_tokens_ok: "tokens_ok s \<Longrightarrow> tokens_ok (run_tokens zero calls s)"
  by (induction calls arbitrary: s) (auto simp: run_tokens_def intro: exec_token_ok)

lemma empty_tokens_ok: "tokens_ok empty_queue"
  by (simp add: tokens_ok_def holds_def token_reads queue_state_defs)

lemma count_distinct: "distinct xs \<Longrightarrow> i \<in> set xs \<Longrightarrow> count_list xs i = 1"
  by (induction xs) auto

text \<open>From deployment on, after any run of the debt-token entry points, every live token is in the list of exactly one
  owner, and once; the lists hold no other tokens; every token was numbered below the next id; and the total supply is the
  number of live tokens. And only a signing owner moves a token: an accepted transfer hands a token of the sender's list to
  the receiver and no accepted transfer or burn touches a list without its owner's signature.\<close>

theorem debt_tokens_have_one_owner:
  "let s = run_tokens zero calls empty_queue in
     (\<forall>i p. TokenPosition s i = Some p \<longrightarrow> i < get_next_token_id s \<and>
        (\<exists>u. count_list (get_user_debt_tokens s u) i = 1 \<and> (\<forall>v. v \<noteq> u \<longrightarrow> i \<notin> set (get_user_debt_tokens s v)))) \<and>
     (\<forall>u. \<forall>i \<in> set (get_user_debt_tokens s u). TokenPosition s i \<noteq> None) \<and>
     get_total_supply s = card {i. TokenPosition s i \<noteq> None} \<and>
     (\<forall>h u v i x t. entry_transfer_debt_token h zero u v i s = (Ok x, t) \<longrightarrow> signed h u \<and> i \<in> set (get_user_debt_tokens s u) \<and>
        i \<in> set (get_user_debt_tokens t v) \<and> (u \<noteq> v \<longrightarrow> i \<notin> set (get_user_debt_tokens t u)))"
proof -
  let ?s = "run_tokens zero calls empty_queue"
  have ok: "tokens_ok ?s" by (rule run_tokens_ok [OF empty_tokens_ok])
  note p = ok [unfolded tokens_ok_def holds_def]
  have uniq: "v = u" if "i \<in> set (get_user_debt_tokens ?s u)" and "i \<in> set (get_user_debt_tokens ?s v)" for i u v
    using p that by metis
  have one: "\<exists>u. count_list (get_user_debt_tokens ?s u) i = 1 \<and> (\<forall>v. v \<noteq> u \<longrightarrow> i \<notin> set (get_user_debt_tokens ?s v))"
    if "TokenPosition ?s i = Some q" for i q
  proof -
    from that have "i \<in> (\<Union>u. set (get_user_debt_tokens ?s u))" using p by (simp add: domI)
    then obtain u where u: "i \<in> set (get_user_debt_tokens ?s u)" by blast
    then have "count_list (get_user_debt_tokens ?s u) i = 1" using p by (simp add: count_distinct)
    then show ?thesis using u uniq by blast
  qed
  have moved: "signed h u \<and> i \<in> set (get_user_debt_tokens ?s u) \<and> i \<in> set (get_user_debt_tokens t v) \<and>
      (u \<noteq> v \<longrightarrow> i \<notin> set (get_user_debt_tokens t u))"
    if "entry_transfer_debt_token h zero u v i ?s = (Ok x, t)" for h u v i x t
    using transfer_Ok [of h zero u v i ?s x t] that p by (auto simp: entry_transfer_debt_token_def ok_simps Let_def)
  have d: "dom (TokenPosition ?s) = {i. TokenPosition ?s i \<noteq> None}" by (simp add: dom_def)
  have n: "i < get_next_token_id ?s" if "TokenPosition ?s i = Some q" for i q using p that by blast
  have l: "TokenPosition ?s i \<noteq> None" if "i \<in> set (get_user_debt_tokens ?s u)" for i u
    using held_token_lives [OF ok that] by (simp add: domIff)
  have c: "get_total_supply ?s = card {i. TokenPosition ?s i \<noteq> None}" using p unfolding d by blast
  show ?thesis unfolding Let_def using one n l c moved by blast
qed

section \<open>The liquidation queue\<close>

definition expire_entry :: "host \<Rightarrow> LiquidationQueueEntry \<Rightarrow> LiquidationQueueEntry" where
  "expire_entry h e = (if qe_status e = QPending \<and> now h > qe_expires_at e then e\<lparr>qe_status := QExpired\<rparr> else e)"

definition expire_ids :: "host \<Rightarrow> u64 set \<Rightarrow> 'z hw_queue_scheme \<Rightarrow> 'z hw_queue_scheme" where
  "expire_ids h I s = s\<lparr>LiquidationQueueEntryKey :=
     (\<lambda>i. if i \<in> I then map_option (expire_entry h) (LiquidationQueueEntryKey s i) else LiquidationQueueEntryKey s i)\<rparr>"

lemma expire_entry_twice [simp]: "expire_entry h (expire_entry h e) = expire_entry h e"
  by (simp add: expire_entry_def)

lemma expire_none: "LiquidationQueueEntryKey s i = None \<Longrightarrow> expire_ids h (insert i I) s = expire_ids h I s"
  by (auto simp: expire_ids_def fun_eq_iff intro!: arg_cong [of _ _ "\<lambda>f. s\<lparr>LiquidationQueueEntryKey := f\<rparr>"])

lemma expire_one:
  assumes "LiquidationQueueEntryKey s i = Some e"
  shows "expire_ids h (insert i I) s = expire_ids h I (save_entry i (expire_entry h e) s)"
proof -
  have "(\<lambda>j. if j \<in> insert i I then map_option (expire_entry h) (LiquidationQueueEntryKey s j) else LiquidationQueueEntryKey s j) =
      (\<lambda>j. if j \<in> I then map_option (expire_entry h) (((LiquidationQueueEntryKey s)(i \<mapsto> expire_entry h e)) j)
           else ((LiquidationQueueEntryKey s)(i \<mapsto> expire_entry h e)) j)"
    using assms by (auto simp: fun_eq_iff)
  then show ?thesis by (simp add: expire_ids_def save_entry_def cong: if_cong)
qed

lemma save_same: "LiquidationQueueEntryKey s i = Some e \<Longrightarrow> save_entry i e s = s"
  by (simp add: save_entry_def fun_upd_idem)

text \<open>The loop always ends with \<open>Ok\<close> while its counter fits, and marks exactly the pending entries that have expired.\<close>

lemma cleanup_loop_run:
  "n + length is \<le> u32_max \<Longrightarrow> \<exists>k. cleanup_loop h is n s = (Ok k, expire_ids h (set is) s)"
proof (induction "is" arbitrary: n s)
  case Nil
  then show ?case by (simp add: expire_ids_def)
next
  case (Cons i "is")
  show ?case
  proof (cases "LiquidationQueueEntryKey s i")
    case None
    then show ?thesis using Cons.IH [of n s] Cons.prems by (simp add: expire_none)
  next
    case (Some e)
    then show ?thesis
      using Cons.IH [of "Suc n" "save_entry i (expire_entry h e) s"] Cons.IH [of n s] Cons.prems
      by (auto simp: expire_one run_simps checked_add_u32_def expire_entry_def save_same)
  qed
qed

lemma cleanup_run:
  "next_queue_id s \<le> u32_max \<Longrightarrow> \<exists>k. cleanup_expired_entries h s = (Ok k, expire_ids h {..<next_queue_id s} s)"
  using cleanup_loop_run [of 0 "[0..<next_queue_id s]" h s] by (simp add: cleanup_expired_entries_def atLeast0LessThan)

lemma pending_after_cleanup:
  "get_pending_queue_entries (expire_ids h {..<next_queue_id s} s) = filter (\<lambda>e. now h \<le> qe_expires_at e) (get_pending_queue_entries s)"
proof -
  have "filter (\<lambda>e. qe_status e = QPending) (List.map_filter
        (\<lambda>i. if i \<in> I then map_option (expire_entry h) (f i) else f i) xs) =
      filter (\<lambda>e. now h \<le> qe_expires_at e) (filter (\<lambda>e. qe_status e = QPending) (List.map_filter f xs))"
    if "set xs \<subseteq> I" for xs f and I :: "nat set"
    using that by (induction xs) (auto simp: map_filter_simps expire_entry_def split: option.splits)
  note g = this
  have "set [0..<next_queue_id s] \<subseteq> {..<next_queue_id s}" by auto
  from g [OF this, of "LiquidationQueueEntryKey s"]
  have "filter (\<lambda>e. qe_status e = QPending) (List.map_filter (\<lambda>i. if i \<in> {..<next_queue_id s}
        then map_option (expire_entry h) (LiquidationQueueEntryKey s i) else LiquidationQueueEntryKey s i) [0..<next_queue_id s]) =
      filter (\<lambda>e. now h \<le> qe_expires_at e) (get_pending_queue_entries s)"
    unfolding get_pending_queue_entries_def .
  then show ?thesis by (simp add: get_pending_queue_entries_def expire_ids_def next_queue_id_def cong: if_cong)
qed

text \<open>The two searches give the first entry that no other one beats.\<close>

lemma best_entry_char:
  "(\<forall>e\<in>set es. qe_priority_score e \<le> sc) \<and> best_entry b sc es = b \<or>
   (\<exists>xs e ys. es = xs @ e # ys \<and> best_entry b sc es = Some e \<and> sc < qe_priority_score e \<and>
      (\<forall>x\<in>set xs. qe_priority_score x < qe_priority_score e) \<and> (\<forall>y\<in>set ys. qe_priority_score y \<le> qe_priority_score e))"
proof (induction es arbitrary: b sc)
  case (Cons a es)
  show ?case
  proof (cases "sc < qe_priority_score a")
    case True
    from Cons.IH [of "qe_priority_score a" "Some a"] show ?thesis
    proof (elim disjE exE conjE)
      assume "\<forall>e\<in>set es. qe_priority_score e \<le> qe_priority_score a" "best_entry (Some a) (qe_priority_score a) es = Some a"
      then show ?thesis using True by (intro disjI2 exI [of _ "[]"] exI [of _ a] exI [of _ es]) simp
    next
      fix xs e ys
      assume "es = xs @ e # ys" "best_entry (Some a) (qe_priority_score a) es = Some e" "qe_priority_score a < qe_priority_score e"
        "\<forall>x\<in>set xs. qe_priority_score x < qe_priority_score e" "\<forall>y\<in>set ys. qe_priority_score y \<le> qe_priority_score e"
      then show ?thesis using True by (intro disjI2 exI [of _ "a # xs"] exI [of _ e] exI [of _ ys]) simp
    qed
  next
    case False
    from Cons.IH [of sc b] show ?thesis
    proof (elim disjE exE conjE)
      fix xs e ys
      assume "es = xs @ e # ys" "best_entry b sc es = Some e" "sc < qe_priority_score e"
        "\<forall>x\<in>set xs. qe_priority_score x < qe_priority_score e" "\<forall>y\<in>set ys. qe_priority_score y \<le> qe_priority_score e"
      then show ?thesis using False by (intro disjI2 exI [of _ "a # xs"] exI [of _ e] exI [of _ ys]) simp
    qed (use False in simp)
  qed
qed simp

lemma oldest_entry_char:
  "(\<forall>e\<in>set es. t0 \<le> qe_queued_at e) \<and> oldest_entry b t0 es = b \<or>
   (\<exists>xs e ys. es = xs @ e # ys \<and> oldest_entry b t0 es = Some e \<and> qe_queued_at e < t0 \<and>
      (\<forall>x\<in>set xs. qe_queued_at e < qe_queued_at x) \<and> (\<forall>y\<in>set ys. qe_queued_at e \<le> qe_queued_at y))"
proof (induction es arbitrary: b t0)
  case (Cons a es)
  show ?case
  proof (cases "qe_queued_at a < t0")
    case True
    from Cons.IH [of "qe_queued_at a" "Some a"] show ?thesis
    proof (elim disjE exE conjE)
      assume "\<forall>e\<in>set es. qe_queued_at a \<le> qe_queued_at e" "oldest_entry (Some a) (qe_queued_at a) es = Some a"
      then show ?thesis using True by (intro disjI2 exI [of _ "[]"] exI [of _ a] exI [of _ es]) simp
    next
      fix xs e ys
      assume "es = xs @ e # ys" "oldest_entry (Some a) (qe_queued_at a) es = Some e" "qe_queued_at e < qe_queued_at a"
        "\<forall>x\<in>set xs. qe_queued_at e < qe_queued_at x" "\<forall>y\<in>set ys. qe_queued_at e \<le> qe_queued_at y"
      then show ?thesis using True by (intro disjI2 exI [of _ "a # xs"] exI [of _ e] exI [of _ ys]) simp
    qed
  next
    case False
    from Cons.IH [of t0 b] show ?thesis
    proof (elim disjE exE conjE)
      fix xs e ys
      assume "es = xs @ e # ys" "oldest_entry b t0 es = Some e" "qe_queued_at e < t0"
        "\<forall>x\<in>set xs. qe_queued_at e < qe_queued_at x" "\<forall>y\<in>set ys. qe_queued_at e \<le> qe_queued_at y"
      then show ?thesis using False by (intro disjI2 exI [of _ "a # xs"] exI [of _ e] exI [of _ ys]) simp
    qed (use False in simp)
  qed
qed simp

definition beats :: "bool \<Rightarrow> LiquidationQueueEntry \<Rightarrow> LiquidationQueueEntry \<Rightarrow> bool" where
  "beats priority e f \<longleftrightarrow> (if priority then qe_priority_score f < qe_priority_score e else qe_queued_at e < qe_queued_at f)"

lemma best_entry_answer:
  assumes "q \<noteq> []" and "\<forall>e\<in>set q. i128_min < qe_priority_score e"
  shows "\<exists>e xs ys. best_entry None i128_min q = Some e \<and> q = xs @ e # ys \<and> (\<forall>x\<in>set xs. beats True e x) \<and> (\<forall>y\<in>set ys. \<not> beats True y e)"
proof -
  obtain a where "a \<in> set q" using assms(1) by (cases q) auto
  then have "\<not> (\<forall>e\<in>set q. qe_priority_score e \<le> i128_min)" using assms(2) by (meson not_less)
  then show ?thesis using best_entry_char [of q i128_min None] unfolding beats_def by (auto simp: not_less)
qed

lemma oldest_entry_answer:
  assumes "q \<noteq> []" and "\<forall>e\<in>set q. qe_queued_at e < u64_max"
  shows "\<exists>e xs ys. oldest_entry None u64_max q = Some e \<and> q = xs @ e # ys \<and> (\<forall>x\<in>set xs. beats False e x) \<and> (\<forall>y\<in>set ys. \<not> beats False y e)"
proof -
  obtain a where "a \<in> set q" using assms(1) by (cases q) auto
  then have "\<not> (\<forall>e\<in>set q. u64_max \<le> qe_queued_at e)" using assms(2) by (meson not_less)
  then show ?thesis using oldest_entry_char [of q u64_max None] unfolding beats_def by (auto simp: not_less)
qed

text \<open>The queue always answers: it first drops the pending entries that have expired, and only those, and then names the
  first of the remaining entries, in the order of their ids, that no remaining entry beats, by priority score or, when
  priorities are off, by age. It answers with nothing only when no unexpired entry is pending.\<close>

theorem next_liquidation_is_most_urgent:
  assumes "next_queue_id s \<le> u32_max"
    and "\<forall>e\<in>set (get_pending_queue_entries s). i128_min < qe_priority_score e \<and> qe_queued_at e < u64_max"
  shows "\<exists>r t. get_next_liquidation h s = (Ok r, t) \<and>
    get_pending_queue_entries t = filter (\<lambda>e. now h \<le> qe_expires_at e) (get_pending_queue_entries s) \<and>
    (case r of None \<Rightarrow> get_pending_queue_entries t = []
     | Some e \<Rightarrow> \<exists>xs ys. get_pending_queue_entries t = xs @ e # ys \<and>
         (\<forall>x\<in>set xs. beats (priority_enabled (get_queue_config s)) e x) \<and>
         (\<forall>y\<in>set ys. \<not> beats (priority_enabled (get_queue_config s)) y e))"
proof (cases "get_pending_queue_entries s = []")
  case True
  then show ?thesis by (simp add: get_next_liquidation_def)
next
  case False
  let ?t = "expire_ids h {..<next_queue_id s} s"
  let ?q = "get_pending_queue_entries ?t"
  obtain k where k: "cleanup_expired_entries h s = ((Ok k, ?t) :: (LendingError, u32) res \<times> _)" using cleanup_run [OF assms(1)] by blast
  have pending: "?q = filter (\<lambda>e. now h \<le> qe_expires_at e) (get_pending_queue_entries s)" by (rule pending_after_cleanup)
  let ?r = "if ?q = [] then None else if priority_enabled (get_queue_config s) then best_entry None i128_min ?q
            else oldest_entry None u64_max ?q"
  have run: "get_next_liquidation h s = (Ok ?r, ?t)"
    using False by (simp add: get_next_liquidation_def tryM_run k if_run)
  have bounded: "\<forall>e\<in>set ?q. i128_min < qe_priority_score e \<and> qe_queued_at e < u64_max" using assms(2) by (simp add: pending)
  have answer: "case ?r of None \<Rightarrow> ?q = []
     | Some e \<Rightarrow> \<exists>xs ys. ?q = xs @ e # ys \<and>
         (\<forall>x\<in>set xs. beats (priority_enabled (get_queue_config s)) e x) \<and>
         (\<forall>y\<in>set ys. \<not> beats (priority_enabled (get_queue_config s)) y e)"
  proof (cases "?q = []")
    case False
    show ?thesis
    proof (cases "priority_enabled (get_queue_config s)")
      case True
      have "\<forall>e\<in>set ?q. i128_min < qe_priority_score e" using bounded by blast
      from best_entry_answer [OF False this] obtain e xs ys where e: "best_entry None i128_min ?q = Some e"
        "?q = xs @ e # ys \<and> (\<forall>x\<in>set xs. beats True e x) \<and> (\<forall>y\<in>set ys. \<not> beats True y e)" by blast
      show ?thesis unfolding e(1) eqTrueI [OF True] using False e(2) by (simp only: if_False if_True option.case) blast
    next
      case fifo: False
      have "\<forall>e\<in>set ?q. qe_queued_at e < u64_max" using bounded by blast
      from oldest_entry_answer [OF False this] obtain e xs ys where e: "oldest_entry None u64_max ?q = Some e"
        "?q = xs @ e # ys \<and> (\<forall>x\<in>set xs. beats False e x) \<and> (\<forall>y\<in>set ys. \<not> beats False y e)" by blast
      show ?thesis unfolding e(1) Eq_FalseI [OF fifo] using False e(2) by (simp only: if_False if_True option.case) blast
    qed
  qed simp
  show ?thesis using run pending answer by blast
qed

definition sample_entry :: "u64 \<Rightarrow> i128 \<Rightarrow> u64 \<Rightarrow> LiquidationQueueEntry" where
  "sample_entry i score expires = \<lparr>qe_id = i, qe_borrower = 7, qe_liquidator = 8, qe_health_factor = 9000, qe_priority_score = score,
     qe_queued_at = i, qe_expires_at = expires, qe_status = QPending, qe_debt_value = 10, qe_collateral_value = 9\<rparr>"

text \<open>Three entries, the most urgent of which has expired.\<close>

definition sample_queue :: hw_queue where
  "sample_queue = empty_queue\<lparr>NextLiquidationQueueId := Some 3,
     LiquidationQueueEntryKey := [0 \<mapsto> sample_entry 0 1000 200, 1 \<mapsto> sample_entry 1 9000 50, 2 \<mapsto> sample_entry 2 3000 200]\<rparr>"

lemma sample_pending: "get_pending_queue_entries sample_queue = [sample_entry 0 1000 200, sample_entry 1 9000 50, sample_entry 2 3000 200]"
  by (simp add: get_pending_queue_entries_def next_queue_id_def sample_queue_def sample_entry_def upt_rec map_filter_simps)

theorem next_liquidation_is_most_urgent_witness:
  "\<exists>r t. get_next_liquidation (sample_host 100) sample_queue = (Ok r, t) \<and>
     get_pending_queue_entries t = [sample_entry 0 1000 200, sample_entry 2 3000 200] \<and> r \<noteq> None"
proof -
  have "next_queue_id sample_queue \<le> u32_max" by (simp add: next_queue_id_def sample_queue_def u32_max_def)
  moreover have "\<forall>e\<in>set (get_pending_queue_entries sample_queue). i128_min < qe_priority_score e \<and> qe_queued_at e < u64_max"
    by (simp add: sample_pending sample_entry_def i128_min_def u64_max_def)
  ultimately obtain r t where rt: "get_next_liquidation (sample_host 100) sample_queue = (Ok r, t)"
    "get_pending_queue_entries t = filter (\<lambda>e. now (sample_host 100) \<le> qe_expires_at e) (get_pending_queue_entries sample_queue)"
    "case r of None \<Rightarrow> get_pending_queue_entries t = [] | Some e \<Rightarrow> \<exists>xs ys. get_pending_queue_entries t = xs @ e # ys \<and>
         (\<forall>x\<in>set xs. beats (priority_enabled (get_queue_config sample_queue)) e x) \<and>
         (\<forall>y\<in>set ys. \<not> beats (priority_enabled (get_queue_config sample_queue)) y e)"
    using next_liquidation_is_most_urgent [of sample_queue "sample_host 100"] by blast
  have "get_pending_queue_entries t = [sample_entry 0 1000 200, sample_entry 2 3000 200]"
    unfolding rt(2) by (simp add: sample_pending sample_entry_def sample_host_def)
  then show ?thesis using rt(1,3) by (intro exI conjI) (auto split: option.splits)
qed

section \<open>Commitments\<close>

datatype mev_call =
  V_configure address MevProtectionConfig
| V_commit u32 address SensitiveOperation "address option" "address option" "address option" i128 i128 TxOrderingHint
| V_cancel address u64
| V_reveal address u64 SensitiveOperation

text \<open>An accepted reveal gives the storage it leaves.\<close>

definition accepted :: "('z hw_queue_scheme, 'e, 'a) contract_fn \<Rightarrow> 'z hw_queue_scheme \<Rightarrow> 'z hw_queue_scheme option" where
  "accepted m s = (case m s of (Ok _, t) \<Rightarrow> Some t | _ \<Rightarrow> None)"

fun reveals :: "host \<Rightarrow> address \<Rightarrow> u64 \<Rightarrow> SensitiveOperation \<Rightarrow> 'z hw_queue_scheme \<Rightarrow> 'z hw_queue_scheme option" where
  "reveals h who i Borrow = accepted (reveal_borrow h who i)"
| "reveals h who i Withdraw = accepted (reveal_withdraw h who i)"
| "reveals h who i Liquidate = accepted (reveal_liquidation h who i)"

fun exec_mev :: "host \<Rightarrow> mev_call \<Rightarrow> 'z hw_queue_scheme \<Rightarrow> 'z hw_queue_scheme" where
  "exec_mev h (V_configure a c) s = unwrap_or (accepted (configure_mev a c) s) s"
| "exec_mev h (V_commit n w op a b c amount fee hint) s = unwrap_or (accepted (create_commit h n w op a b c amount fee hint) s) s"
| "exec_mev h (V_cancel w i) s = unwrap_or (accepted (cancel_commit h w i) s) s"
| "exec_mev h (V_reveal w i op) s = unwrap_or (reveals h w i op s) s"

definition run_mev :: "(host \<times> mev_call) list \<Rightarrow> 'z hw_queue_scheme \<Rightarrow> 'z hw_queue_scheme" where
  "run_mev calls s = fold (\<lambda>(h, c). exec_mev h c) calls s"

definition upcoming_id :: "'z hw_queue_scheme \<Rightarrow> u64" where
  "upcoming_id s = unwrap_or (NextCommitId s) 1"

text \<open>Every stored commitment was filed under an id already given out, and can only be revealed after the second it was made in.\<close>

definition commits_ok :: "'z hw_queue_scheme \<Rightarrow> bool" where
  "commits_ok s \<longleftrightarrow> 0 < commit_delay_secs (get_mev_config s) \<and>
     (\<forall>i c. Commit s i = Some c \<longrightarrow> i < upcoming_id s \<and> (pc_committed_at c < pc_reveal_after c \<or> u64_max \<le> pc_reveal_after c) \<and>
        0 < pc_amount c \<and> bps_ok (pc_max_fee_bps c))"

definition mev_same :: "'z hw_queue_scheme \<Rightarrow> 'z hw_queue_scheme \<Rightarrow> bool" where
  "mev_same s t \<longleftrightarrow> MevConfig t = MevConfig s \<and> NextCommitId t = NextCommitId s \<and> Commit t = Commit s"

lemma amounts_close_pure: "amounts_close a b n s = (Ok c, t) \<Longrightarrow> t = s"
  by (auto simp: amounts_close_def ok_simps)

lemma preview_fee_pure: "preview_fee_bps h op asset amount s = (Ok fee, t) \<Longrightarrow> t = s"
  by (auto simp: preview_fee_bps_def ok_simps dest!: amounts_close_pure split: option.splits if_splits)

lemma record_ordering_signal_same: "record_ordering_signal h a op asset amount fee s = (Ok x, t) \<Longrightarrow> mev_same s t"
  by (auto simp: record_ordering_signal_def Let_def ok_simps mev_same_def dest!: amounts_close_pure split: option.splits if_splits)

lemma reveal_Ok:
  assumes "reveal h who i op refuse s = (Ok (c, fee), t)"
  shows "signed h who \<and> Commit s i = Some c \<and> pc_owner c = who \<and> pc_operation c = op \<and> pc_reveal_after c \<le> now h \<and> now h \<le> pc_expires_at c \<and>
    (preview_fee_bps h op (pc_asset c) (pc_amount c) s :: (MevProtectionError, i128) res \<times> _) = (Ok fee, s) \<and> fee \<le> pc_max_fee_bps c \<and>
    MevConfig t = MevConfig s \<and> NextCommitId t = NextCommitId s \<and> Commit t = (Commit s)(i := None)"
  using assms
  by (clarsimp simp: reveal_def validate_reveal_def load_commit_def remove_commit_def ok_simps not_less split: option.splits)
    (frule preview_fee_pure, drule record_ordering_signal_same, simp add: mev_same_def)

lemma reveals_Ok:
  assumes "reveals h who i op s = Some t"
  shows "\<exists>c fee. signed h who \<and> Commit s i = Some c \<and> pc_owner c = who \<and> pc_operation c = op \<and>
    pc_reveal_after c \<le> now h \<and> now h \<le> pc_expires_at c \<and>
    (preview_fee_bps h op (pc_asset c) (pc_amount c) s :: (MevProtectionError, i128) res \<times> _) = (Ok fee, s) \<and> fee \<le> pc_max_fee_bps c \<and>
    MevConfig t = MevConfig s \<and> NextCommitId t = NextCommitId s \<and> Commit t = (Commit s)(i := None)"
proof -
  have "\<exists>c fee refuse. reveal h who i op refuse s = (Ok (c, fee), t)"
    using assms
    by (cases op) (auto simp: accepted_def reveal_borrow_def reveal_withdraw_def reveal_liquidation_def tryM_def ok_or_def
        split: res.splits prod.splits option.splits)
  then show ?thesis using reveal_Ok by metis
qed

lemma accepted_Some: "accepted m s = Some t \<longleftrightarrow> (\<exists>a. m s = (Ok a, t))"
  by (auto simp: accepted_def split: res.splits prod.splits)

lemma create_Ok:
  assumes "create_commit h n who op a b d amount fee hint s = (Ok i, t)"
  shows "i = upcoming_id s \<and> upcoming_id t = saturating_add_u64 i 1 \<and> MevConfig t = MevConfig s \<and>
    (\<exists>c. Commit t = (Commit s)(i \<mapsto> c) \<and> pc_committed_at c = now h \<and> 0 < pc_amount c \<and> bps_ok (pc_max_fee_bps c) \<and>
       pc_reveal_after c = saturating_add_u64 (now h) (commit_delay_secs (get_mev_config s)))"
  using assms by (auto simp: create_commit_def next_commit_id_def Let_def ok_simps upcoming_id_def)

lemma get_mev_config_cong: "MevConfig t = MevConfig s \<Longrightarrow> get_mev_config t = get_mev_config s"
  by (simp add: get_mev_config_def)

lemma upcoming_id_cong: "NextCommitId t = NextCommitId s \<Longrightarrow> upcoming_id t = upcoming_id s"
  by (simp add: upcoming_id_def)

text \<open>What one accepted call does: new ids are fresh, and removed commitments stay removed.\<close>

definition mev_advances :: "'z hw_queue_scheme \<Rightarrow> 'z hw_queue_scheme \<Rightarrow> bool" where
  "mev_advances s t \<longleftrightarrow> commits_ok t \<and> upcoming_id s \<le> upcoming_id t \<and> upcoming_id t \<le> Suc (upcoming_id s) \<and>
     (\<forall>i. i < upcoming_id s \<and> Commit s i = None \<longrightarrow> Commit t i = None)"

lemma removed_advances:
  assumes "commits_ok s" and "MevConfig t = MevConfig s" and "NextCommitId t = NextCommitId s" and "Commit t = (Commit s)(i := None)"
  shows "mev_advances s t"
  using assms by (auto simp: mev_advances_def commits_ok_def get_mev_config_cong [OF assms(2)] upcoming_id_cong [OF assms(3)])

lemma create_advances:
  assumes "create_commit h n who op a b d amount fee hint s = (Ok i, t)" and "commits_ok s" and "upcoming_id s < u64_max"
  shows "mev_advances s t"
proof -
  note c = create_Ok [OF assms(1)]
  have u: "upcoming_id t = Suc (upcoming_id s)" using c assms(3) by (simp add: saturating_add_u64_def)
  have g: "get_mev_config t = get_mev_config s" using c get_mev_config_cong by blast
  from c obtain m where m: "Commit t = (Commit s)(upcoming_id s \<mapsto> m)" "pc_committed_at m = now h" "0 < pc_amount m" "bps_ok (pc_max_fee_bps m)"
    "pc_reveal_after m = saturating_add_u64 (now h) (commit_delay_secs (get_mev_config s))" by auto
  have "pc_committed_at m < pc_reveal_after m \<or> u64_max \<le> pc_reveal_after m"
    using m(2,5) assms(2) by (auto simp: commits_ok_def saturating_add_u64_def min_def)
  then show ?thesis using m assms(2) by (auto simp: mev_advances_def commits_ok_def u g less_Suc_eq)
qed

lemma configure_advances:
  assumes "configure_mev a c s = (Ok x, t)" and "commits_ok s"
  shows "mev_advances s t"
proof -
  have t: "t = s\<lparr>MevConfig := Some c\<rparr>" and d: "commit_delay_secs c \<noteq> 0"
    using assms(1) by (auto simp: configure_mev_def mev_validate_config_def ok_simps rm_require_admin_def)
  show ?thesis using assms(2) d by (auto simp: t mev_advances_def commits_ok_def get_mev_config_def upcoming_id_def)
qed

lemma cancel_advances:
  assumes "cancel_commit h who i s = (Ok x, t)" and "commits_ok s"
  shows "mev_advances s t"
  by (rule removed_advances [of s t i]) (use assms in \<open>auto simp: cancel_commit_def load_commit_def remove_commit_def ok_simps\<close>)

lemma reveals_advances:
  assumes "reveals h who i op s = Some t" and "commits_ok s"
  shows "mev_advances s t"
  using reveals_Ok [OF assms(1)] removed_advances [OF assms(2), of t i] by blast

lemma mev_advances_refl: "commits_ok s \<Longrightarrow> mev_advances s s"
  by (simp add: mev_advances_def)

lemma accepted_or_same: "(\<And>t. o1 = Some t \<Longrightarrow> mev_advances s t) \<Longrightarrow> commits_ok s \<Longrightarrow> mev_advances s (unwrap_or o1 s)"
  by (cases o1) (simp_all add: mev_advances_refl)

lemma exec_mev_advances:
  assumes "commits_ok s" and "upcoming_id s < u64_max"
  shows "mev_advances s (exec_mev h c s)"
proof (cases c)
  case (V_configure a m)
  show ?thesis unfolding V_configure exec_mev.simps
    by (rule accepted_or_same [OF _ assms(1)]) (auto simp: accepted_Some intro: configure_advances [OF _ assms(1)])
next
  case (V_commit n w op a b d amount fee hint)
  show ?thesis unfolding V_commit exec_mev.simps
    by (rule accepted_or_same [OF _ assms(1)]) (auto simp: accepted_Some intro: create_advances [OF _ assms])
next
  case (V_cancel w i)
  show ?thesis unfolding V_cancel exec_mev.simps
    by (rule accepted_or_same [OF _ assms(1)]) (auto simp: accepted_Some intro: cancel_advances [OF _ assms(1)])
next
  case (V_reveal w i op)
  show ?thesis unfolding V_reveal exec_mev.simps
    by (rule accepted_or_same [OF _ assms(1)]) (rule reveals_advances [OF _ assms(1)])
qed

lemma run_mev_invariant:
  assumes "commits_ok s" and "upcoming_id s + length calls \<le> u64_max"
  shows "commits_ok (run_mev calls s) \<and> upcoming_id (run_mev calls s) \<le> upcoming_id s + length calls \<and>
    (\<forall>i. i < upcoming_id s \<and> Commit s i = None \<longrightarrow> Commit (run_mev calls s) i = None)"
  using assms
proof (induction calls arbitrary: s)
  case Nil
  then show ?case by (simp add: run_mev_def)
next
  case (Cons a calls)
  obtain h c where a: "a = (h, c)" by (cases a)
  let ?t = "exec_mev h c s"
  have adv: "mev_advances s ?t" using Cons.prems by (intro exec_mev_advances) simp_all
  then have t: "commits_ok ?t" "upcoming_id ?t + length calls \<le> u64_max" using Cons.prems by (auto simp: mev_advances_def)
  from Cons.IH [OF t] adv show ?case unfolding a by (auto simp: run_mev_def mev_advances_def)
qed

lemma empty_commits_ok: "commits_ok empty_queue \<and> upcoming_id empty_queue = 1"
  by (simp add: commits_ok_def upcoming_id_def get_mev_config_def mev_default_config_def queue_state_defs)

text \<open>From deployment on, in any run of the commitment operations shorter than the range of the ids, a reveal is accepted
  only if its owner signed it, for the operation it was committed to, at a protection fee within its cap, after its delay and
  before it expires, and so never in the second it was committed in. After that the commitment is used up: whatever
  follows, no one reveals it again.\<close>

theorem commitment_is_revealed_once:
  assumes "length before + length after < u64_max" and "reveals h who i op (run_mev before empty_queue) = Some t"
  shows "let s = run_mev before empty_queue in \<exists>c fee.
    Commit s i = Some c \<and> signed h who \<and> pc_owner c = who \<and> pc_operation c = op \<and>
    pc_reveal_after c \<le> now h \<and> now h \<le> pc_expires_at c \<and> (pc_committed_at c < now h \<or> u64_max \<le> now h) \<and>
    (preview_fee_bps h op (pc_asset c) (pc_amount c) s :: (MevProtectionError, i128) res \<times> _) = (Ok fee, s) \<and> fee \<le> pc_max_fee_bps c \<and>
    (\<forall>h' who' op'. reveals h' who' i op' (run_mev after t) = None)"
proof -
  let ?s = "run_mev before empty_queue"
  have s: "commits_ok ?s" "upcoming_id ?s \<le> Suc (length before)"
    using run_mev_invariant [of empty_queue before] empty_commits_ok assms(1) by auto
  from reveals_Ok [OF assms(2)] obtain c fee where c: "signed h who" "Commit ?s i = Some c" "pc_owner c = who" "pc_operation c = op"
    "pc_reveal_after c \<le> now h" "now h \<le> pc_expires_at c"
    "(preview_fee_bps h op (pc_asset c) (pc_amount c) ?s :: (MevProtectionError, i128) res \<times> _) = (Ok fee, ?s)" "fee \<le> pc_max_fee_bps c"
    "NextCommitId t = NextCommitId ?s" "Commit t = (Commit ?s)(i := None)" by metis
  have i: "i < upcoming_id ?s" "pc_committed_at c < pc_reveal_after c \<or> u64_max \<le> pc_reveal_after c"
    using s(1) c(2) by (auto simp: commits_ok_def)
  have t: "commits_ok t" "upcoming_id t = upcoming_id ?s"
    using reveals_advances [OF assms(2) s(1)] upcoming_id_cong [OF c(9)] by (auto simp: mev_advances_def)
  have "upcoming_id t + length after \<le> u64_max" using s(2) t(2) assms(1) by simp
  then have "Commit (run_mev after t) i = None" using run_mev_invariant [OF t(1)] i(1) t(2) c(10) by auto
  then have "reveals h' who' i op' (run_mev after t) = None" for h' who' op'
    using reveals_Ok [of h' who' i op' "run_mev after t"] by (cases "reveals h' who' i op' (run_mev after t)") auto
  moreover have "pc_committed_at c < now h \<or> u64_max \<le> now h" using i(2) c(5) by linarith
  ultimately show ?thesis unfolding Let_def using c(1-8) by blast
qed

text \<open>Address 2 commits to a loan at time 100 and reveals it at time 150.\<close>

definition sample_commit_run :: "(host \<times> mev_call) list" where
  "sample_commit_run = [(sample_host 100, V_commit 5 2 Borrow (Some 7) None None 1000 50 Default)]"

lemma sample_fee: "smoothed_fee (base_protection_fee_bps mev_default_config) (base_protection_fee_bps mev_default_config) (fee_smoothing_bps mev_default_config) \<le> 50"
  by code_simp

lemma sample_committed:
  assumes "MevConfig s = None" "NextCommitId s = None"
  shows "run_mev sample_commit_run s = s\<lparr>NextCommitId := Some 2, Commit := (Commit s)(1 \<mapsto>
     \<lparr>pc_id = 1, pc_owner = 2, pc_operation = Borrow, pc_asset = Some 7, pc_secondary_asset = None, pc_borrower = None,
      pc_amount = 1000, pc_max_fee_bps = 50, pc_hint = Default, pc_committed_at = 100,
      pc_reveal_after = 100 + commit_delay_secs mev_default_config, pc_expires_at = 100 + commit_expiry_secs mev_default_config, pc_commit_ledger = 5\<rparr>)\<rparr>"
  using assms
  by (simp add: sample_commit_run_def run_mev_def accepted_def create_commit_def next_commit_id_def Let_def run_simps
      get_mev_config_def mev_default_config_def bps_ok_def MAX_BPS_def saturating_add_u64_def u64_max_def sample_host_def)

lemma sample_reveal: "reveals (sample_host 150) 2 1 Borrow (run_mev sample_commit_run empty_queue) \<noteq> None"
proof -
  have e: "MevConfig empty_queue = None" "NextCommitId empty_queue = None" "LatestObservation empty_queue k = None"
    "PreviousObservation empty_queue k = None" "SmoothedFee empty_queue k = None" for k
    by (simp_all add: queue_state_defs)
  show ?thesis
    using sample_fee unfolding sample_committed [OF e(1,2)]
    by (simp add: accepted_def reveal_borrow_def reveal_def validate_reveal_def load_commit_def preview_fee_bps_def record_ordering_signal_def
      get_mev_config_def e run_simps Let_def sample_host_def not_less mev_default_config_def)
qed

theorem commitment_is_revealed_once_witness:
  "\<exists>t. reveals (sample_host 150) 2 1 Borrow (run_mev sample_commit_run empty_queue) = Some t \<and>
     reveals (sample_host 160) 2 1 Borrow (run_mev [] t) = None"
proof -
  obtain t where t: "reveals (sample_host 150) 2 1 Borrow (run_mev sample_commit_run empty_queue) = Some t"
    using sample_reveal by blast
  have "length sample_commit_run + length ([] :: (host \<times> mev_call) list) < u64_max" by (simp add: sample_commit_run_def u64_max_def)
  from commitment_is_revealed_once [OF this t] have "reveals (sample_host 160) 2 1 Borrow (run_mev [] t) = None" unfolding Let_def by blast
  with t show ?thesis by blast
qed

end
