(* ===== verification/Wallet.thy ===== *)
theory Wallet
  imports SL_Interfaces SL_Frames Sample
begin

text \<open>
  The institutional wallet (\<open>institutional-wallet/src\<close>): a multisig over batches of contract calls, with guardians who
  can replace its admins. The contracts a batch calls are other code: \<open>externals\<close> says whether a call returns or
  traps after the calls made so far. The host forbids re-entry, so such a call cannot change this contract's
  storage; the calls are kept in order in \<open>invocations\<close>.
\<close>

section \<open>Data\<close>

datatype WalletError = NotInitialized | AlreadyInitialized | Unauthorized | InvalidThreshold | InvalidAdmins
  | ProposalNotFound | AlreadyVoted | ProposalNotActive | InsufficientApprovals | ExecutionFailed | InvalidBatch

record RecoveryRequest =
  new_admins :: "address list"
  new_threshold :: u32
  initiated_at :: u64

record MultisigConfig =
  threshold :: u32

record Transaction =
  tx_contract :: address
  tx_function :: symbol
  tx_args :: "nat list"

datatype ProposalStatus = Active | Executed | Cancelled

record Proposal =
  wp_id :: u64
  wp_proposer :: address
  wp_description :: string
  wp_batch :: "Transaction list"
  wp_status :: ProposalStatus
  wp_created_at :: u64

record AuditEntry =
  actor :: address
  audit_action :: symbol
  timestamp :: u64

record wallet_state =
  Config :: "MultisigConfig option"
  Admins :: "address list option"
  NextProposalId :: "u64 option"
  WalletProposal :: "u64 \<Rightarrow> Proposal option"
  Approvals :: "u64 \<Rightarrow> address list option"
  AuditTrail :: "u64 \<Rightarrow> AuditEntry list option"
  Guardians :: "address list option"
  GuardianThreshold :: "u32 option"
  RecoveryRequestKey :: "RecoveryRequest option"
  invocations :: "Transaction list"

type_synonym externals = "Transaction list \<Rightarrow> Transaction \<Rightarrow> bool"
type_synonym 'a wallet_fn = "(wallet_state, WalletError, 'a) contract_fn"

section \<open>The storage: storage.rs\<close>

definition get_config :: "MultisigConfig wallet_fn" where
  "get_config = reads Config (\<lambda>x. ok_or x NotInitialized ret)"

definition set_config :: "MultisigConfig \<Rightarrow> wallet_state \<Rightarrow> wallet_state" where
  "set_config c s = s\<lparr>Config := Some c\<rparr>"

definition get_admins :: "wallet_state \<Rightarrow> address list" where
  "get_admins s = unwrap_or (Admins s) []"

definition set_admins :: "address list \<Rightarrow> wallet_state \<Rightarrow> wallet_state" where
  "set_admins as s = s\<lparr>Admins := Some as\<rparr>"

definition get_next_proposal_id :: "wallet_state \<Rightarrow> u64" where
  "get_next_proposal_id s = unwrap_or (NextProposalId s) 0"

definition increment_proposal_id :: "u64 wallet_fn" where
  "increment_proposal_id =
     reads get_next_proposal_id (\<lambda>i.
     unwrap (checked_add_u64 i 1) (\<lambda>n.
     writes (\<lambda>s. s\<lparr>NextProposalId := Some n\<rparr>) (ret i)))"

definition get_proposal :: "u64 \<Rightarrow> wallet_state \<Rightarrow> Proposal option" where
  "get_proposal i s = WalletProposal s i"

definition set_proposal :: "u64 \<Rightarrow> Proposal \<Rightarrow> wallet_state \<Rightarrow> wallet_state" where
  "set_proposal i p s = s\<lparr>WalletProposal := (WalletProposal s)(i \<mapsto> p)\<rparr>"

definition get_approvals :: "u64 \<Rightarrow> wallet_state \<Rightarrow> address list" where
  "get_approvals i s = unwrap_or (Approvals s i) []"

definition set_approvals :: "u64 \<Rightarrow> address list \<Rightarrow> wallet_state \<Rightarrow> wallet_state" where
  "set_approvals i as s = s\<lparr>Approvals := (Approvals s)(i \<mapsto> as)\<rparr>"

definition get_audit_trail :: "u64 \<Rightarrow> wallet_state \<Rightarrow> AuditEntry list" where
  "get_audit_trail i s = unwrap_or (AuditTrail s i) []"

definition add_audit_entry :: "u64 \<Rightarrow> AuditEntry \<Rightarrow> wallet_state \<Rightarrow> wallet_state" where
  "add_audit_entry i e s = s\<lparr>AuditTrail := (AuditTrail s)(i \<mapsto> get_audit_trail i s @ [e])\<rparr>"

definition get_guardians :: "wallet_state \<Rightarrow> address list" where
  "get_guardians s = unwrap_or (Guardians s) []"

definition get_guardian_threshold :: "wallet_state \<Rightarrow> u32" where
  "get_guardian_threshold s = unwrap_or (GuardianThreshold s) 0"

section \<open>Operations: lib.rs\<close>

definition w_initialize :: "address list \<Rightarrow> u32 \<Rightarrow> unit wallet_fn" where
  "w_initialize admins n =
     reads Config (\<lambda>x.
     fail_if (x \<noteq> None) AlreadyInitialized (
     fail_if (admins = []) InvalidAdmins (
     fail_if (n = 0 \<or> n > length admins) InvalidThreshold (
     writes (set_config \<lparr>threshold = n\<rparr>) (
     writes (set_admins admins) (ret ()))))))"

definition propose :: "host \<Rightarrow> address \<Rightarrow> string \<Rightarrow> Transaction list \<Rightarrow> u64 wallet_fn" where
  "propose h proposer descr batch =
     tryM (require_auth h proposer) (\<lambda>_.
     reads get_admins (\<lambda>admins.
     fail_if (proposer \<notin> set admins) Unauthorized (
     fail_if (batch = []) InvalidBatch (
     tryM increment_proposal_id (\<lambda>i.
     writes (set_proposal i \<lparr>wp_id = i, wp_proposer = proposer, wp_description = descr, wp_batch = batch,
                             wp_status = Active, wp_created_at = now h\<rparr>) (
     writes (set_approvals i [proposer]) (
     writes (add_audit_entry i \<lparr>actor = proposer, audit_action = ''propose'', timestamp = now h\<rparr>)
     (ret i))))))))"

definition approve :: "host \<Rightarrow> address \<Rightarrow> u64 \<Rightarrow> unit wallet_fn" where
  "approve h approver proposal_id =
     tryM (require_auth h approver) (\<lambda>_.
     reads get_admins (\<lambda>admins.
     fail_if (approver \<notin> set admins) Unauthorized (
     reads (get_proposal proposal_id) (\<lambda>x. ok_or x ProposalNotFound (\<lambda>p.
     fail_if (wp_status p \<noteq> Active) ProposalNotActive (
     reads (get_approvals proposal_id) (\<lambda>approvals.
     fail_if (approver \<in> set approvals) AlreadyVoted (
     writes (set_approvals proposal_id (approvals @ [approver])) (
     writes (add_audit_entry proposal_id \<lparr>actor = approver, audit_action = ''approve'', timestamp = now h\<rparr>)
     (ret ()))))))))))"

text \<open>\<open>for tx in batch { env.invoke_contract(..) }\<close>\<close>

fun run_batch :: "externals \<Rightarrow> Transaction list \<Rightarrow> unit wallet_fn" where
  "run_batch ext [] = ret ()"
| "run_batch ext (tx # txs) =
     reads invocations (\<lambda>past.
     if ext past tx then writes (\<lambda>s. s\<lparr>invocations := invocations s @ [tx]\<rparr>) (run_batch ext txs) else panic)"

definition execute :: "host \<Rightarrow> externals \<Rightarrow> address \<Rightarrow> u64 \<Rightarrow> unit wallet_fn" where
  "execute h ext executor proposal_id =
     tryM (require_auth h executor) (\<lambda>_.
     reads get_admins (\<lambda>admins.
     fail_if (executor \<notin> set admins) Unauthorized (
     reads (get_proposal proposal_id) (\<lambda>x. ok_or x ProposalNotFound (\<lambda>p.
     fail_if (wp_status p \<noteq> Active) ProposalNotActive (
     tryM get_config (\<lambda>c.
     reads (get_approvals proposal_id) (\<lambda>approvals.
     fail_if (length approvals < threshold c) InsufficientApprovals (
     tryM (run_batch ext (wp_batch p)) (\<lambda>_.
     writes (set_proposal proposal_id (p\<lparr>wp_status := Executed\<rparr>)) (
     writes (add_audit_entry proposal_id \<lparr>actor = executor, audit_action = ''execute'', timestamp = now h\<rparr>)
     (ret ()))))))))))))"

text \<open>\<open>env.current_contract_address().require_auth()\<close>: the contract itself must have authorised the call.\<close>

definition add_admin :: "host \<Rightarrow> address \<Rightarrow> address \<Rightarrow> unit wallet_fn" where
  "add_admin h self new_admin =
     tryM (require_auth h self) (\<lambda>_.
     reads get_admins (\<lambda>admins.
     fail_if (new_admin \<in> set admins) InvalidAdmins (
     writes (set_admins (admins @ [new_admin])) (ret ()))))"

definition remove_admin :: "host \<Rightarrow> address \<Rightarrow> address \<Rightarrow> unit wallet_fn" where
  "remove_admin h self admin =
     tryM (require_auth h self) (\<lambda>_.
     reads get_admins (\<lambda>admins.
     let rest = filter (\<lambda>a. a \<noteq> admin) admins in
     fail_if (admin \<notin> set admins) InvalidAdmins (
     tryM get_config (\<lambda>c.
     fail_if (length rest < threshold c) InvalidThreshold (
     writes (set_admins rest) (ret ()))))))"

definition set_threshold :: "host \<Rightarrow> address \<Rightarrow> u32 \<Rightarrow> unit wallet_fn" where
  "set_threshold h self n =
     tryM (require_auth h self) (\<lambda>_.
     reads get_admins (\<lambda>admins.
     fail_if (n = 0 \<or> n > length admins) InvalidThreshold (
     tryM get_config (\<lambda>c.
     writes (set_config (c\<lparr>threshold := n\<rparr>)) (ret ())))))"

definition w_set_guardians :: "host \<Rightarrow> address \<Rightarrow> address list \<Rightarrow> u32 \<Rightarrow> unit wallet_fn" where
  "w_set_guardians h self gs n =
     tryM (require_auth h self) (\<lambda>_.
     fail_if (gs = [] \<or> n = 0 \<or> n > length gs) InvalidThreshold (
     writes (\<lambda>s. s\<lparr>Guardians := Some gs\<rparr>) (
     writes (\<lambda>s. s\<lparr>GuardianThreshold := Some n\<rparr>) (ret ()))))"

definition w_start_recovery :: "host \<Rightarrow> address \<Rightarrow> address list \<Rightarrow> u32 \<Rightarrow> unit wallet_fn" where
  "w_start_recovery h guardian admins n =
     tryM (require_auth h guardian) (\<lambda>_.
     reads get_guardians (\<lambda>gs.
     fail_if (guardian \<notin> set gs) Unauthorized (
     fail_if (admins = [] \<or> n = 0 \<or> n > length admins) InvalidThreshold (
     writes (\<lambda>s. s\<lparr>RecoveryRequestKey := Some \<lparr>new_admins = admins, new_threshold = n, initiated_at = now h\<rparr>\<rparr>) (ret ())))))"

definition w_execute_recovery :: "host \<Rightarrow> address \<Rightarrow> unit wallet_fn" where
  "w_execute_recovery h guardian =
     tryM (require_auth h guardian) (\<lambda>_.
     reads get_guardians (\<lambda>gs.
     fail_if (guardian \<notin> set gs) Unauthorized (
     reads RecoveryRequestKey (\<lambda>x. ok_or x ProposalNotFound (\<lambda>r.
     unwrap (checked_add_u64 (initiated_at r) 86400) (\<lambda>due.
     fail_if (now h < due) ExecutionFailed (
     writes (set_admins (new_admins r)) (
     writes (set_config \<lparr>threshold = new_threshold r\<rparr>) (
     writes (\<lambda>s. s\<lparr>RecoveryRequestKey := None\<rparr>) (ret ()))))))))))"

definition get_threshold :: "wallet_state \<Rightarrow> u32" where
  "get_threshold s = (case Config s of Some c \<Rightarrow> threshold c | None \<Rightarrow> 0)"

section \<open>The contract as a machine\<close>

datatype wallet_call =
  W_initialize "address list" u32
| W_propose address string "Transaction list"
| W_approve address u64
| W_execute address u64
| W_add_admin address
| W_remove_admin address
| W_set_threshold u32
| W_set_guardians "address list" u32
| W_start_recovery address "address list" u32
| W_execute_recovery address

fun exec_wallet :: "address \<Rightarrow> host \<Rightarrow> externals \<Rightarrow> wallet_call \<Rightarrow> wallet_state \<Rightarrow> wallet_state" where
  "exec_wallet self h ext (W_initialize as n) s = snd (invoke (w_initialize as n) s)"
| "exec_wallet self h ext (W_propose a d b) s = snd (invoke (propose h a d b) s)"
| "exec_wallet self h ext (W_approve a i) s = snd (invoke (approve h a i) s)"
| "exec_wallet self h ext (W_execute a i) s = snd (invoke (execute h ext a i) s)"
| "exec_wallet self h ext (W_add_admin a) s = snd (invoke (add_admin h self a) s)"
| "exec_wallet self h ext (W_remove_admin a) s = snd (invoke (remove_admin h self a) s)"
| "exec_wallet self h ext (W_set_threshold n) s = snd (invoke (set_threshold h self n) s)"
| "exec_wallet self h ext (W_set_guardians gs n) s = snd (invoke (w_set_guardians h self gs n) s)"
| "exec_wallet self h ext (W_start_recovery g as n) s = snd (invoke (w_start_recovery h g as n) s)"
| "exec_wallet self h ext (W_execute_recovery g) s = snd (invoke (w_execute_recovery h g) s)"

type_synonym wallet_label = "(host \<times> externals) \<times> wallet_call"

definition wallet_step :: "address \<Rightarrow> wallet_label \<Rightarrow> wallet_state \<Rightarrow> wallet_state" where
  "wallet_step self l s = exec_wallet self (fst (fst l)) (snd (fst l)) (snd l) s"

definition empty_wallet :: wallet_state where
  "empty_wallet = \<lparr>Config = None, Admins = None, NextProposalId = None, WalletProposal = (\<lambda>_. None), Approvals = (\<lambda>_. None),
     AuditTrail = (\<lambda>_. None), Guardians = None, GuardianThreshold = None, RecoveryRequestKey = None, invocations = []\<rparr>"

section \<open>What the operations do\<close>

lemma get_config_Ok [ok_simps]: "get_config s = (Ok c, t) \<longleftrightarrow> Config s = Some c \<and> t = s"
  by (auto simp: get_config_def ok_simps)

lemma increment_Ok [ok_simps]:
  "increment_proposal_id s = (Ok i, t) \<longleftrightarrow> i = get_next_proposal_id s \<and> i + 1 \<le> u64_max \<and> t = s\<lparr>NextProposalId := Some (i + 1)\<rparr>"
  by (auto simp: increment_proposal_id_def ok_simps checked_add_u64_def split: if_splits)

lemma run_batch_Ok: "run_batch ext txs s = (Ok u, t) \<Longrightarrow> t = s\<lparr>invocations := invocations s @ txs\<rparr>"
proof (induction txs arbitrary: s)
  case (Cons tx txs)
  from Cons.prems have "run_batch ext txs (s\<lparr>invocations := invocations s @ [tx]\<rparr>) = (Ok u, t)"
    by (simp add: ok_simps split: if_splits)
  from Cons.IH [OF this] show ?case by simp
qed (simp add: ok_simps)

lemma wallet_propose_Ok:
  assumes "propose h a d b s = (Ok i, t)"
  obtains "signed h a" "a \<in> set (get_admins s)" "b \<noteq> []" "i = get_next_proposal_id s"
    "t = add_audit_entry i \<lparr>actor = a, audit_action = ''propose'', timestamp = now h\<rparr> (set_approvals i [a]
       (set_proposal i \<lparr>wp_id = i, wp_proposer = a, wp_description = d, wp_batch = b, wp_status = Active, wp_created_at = now h\<rparr>
         (s\<lparr>NextProposalId := Some (i + 1)\<rparr>)))"
  using assms by (auto simp: propose_def ok_simps)

lemma wallet_approve_Ok:
  assumes "approve h a i s = (Ok u, t)"
  obtains p where "signed h a" "a \<in> set (get_admins s)" "WalletProposal s i = Some p" "wp_status p = Active"
    "a \<notin> set (get_approvals i s)"
    "t = add_audit_entry i \<lparr>actor = a, audit_action = ''approve'', timestamp = now h\<rparr> (set_approvals i (get_approvals i s @ [a]) s)"
  using assms by (auto simp: approve_def get_proposal_def ok_simps)

lemma wallet_execute_Ok:
  assumes "execute h ext a i s = (Ok u, t)"
  obtains p c where "signed h a" "a \<in> set (get_admins s)" "WalletProposal s i = Some p" "wp_status p = Active" "Config s = Some c"
    "threshold c \<le> length (get_approvals i s)"
    "t = add_audit_entry i \<lparr>actor = a, audit_action = ''execute'', timestamp = now h\<rparr>
       (set_proposal i (p\<lparr>wp_status := Executed\<rparr>) (s\<lparr>invocations := invocations s @ wp_batch p\<rparr>))"
  using assms by (auto simp: execute_def get_proposal_def ok_simps not_less dest!: run_batch_Ok intro: that)

section \<open>The invariant\<close>

text \<open>The audit trail of a proposal lists its approvals in order, and then its execution.\<close>

definition trail_ok :: "Proposal \<Rightarrow> address list \<Rightarrow> AuditEntry list \<Rightarrow> bool" where
  "trail_ok p as es \<longleftrightarrow> distinct as \<and> as \<noteq> [] \<and> hd as = wp_proposer p \<and>
     (\<exists>vs xs. es = vs @ xs \<and> map actor vs = as \<and> (\<forall>e\<in>set vs. audit_action e \<noteq> ''execute'') \<and>
        (wp_status p = Active \<and> xs = [] \<or> wp_status p = Executed \<and> map audit_action xs = [''execute'']))"

definition slot_ok :: "wallet_state \<Rightarrow> u64 \<Rightarrow> bool" where
  "slot_ok s i \<longleftrightarrow> (case WalletProposal s i of
       None \<Rightarrow> Approvals s i = None \<and> AuditTrail s i = None
     | Some p \<Rightarrow> wp_id p = i \<and> i < get_next_proposal_id s \<and> trail_ok p (get_approvals i s) (get_audit_trail i s))"

definition wallet_inv :: "wallet_state \<Rightarrow> bool" where
  "wallet_inv s \<longleftrightarrow> (\<forall>i. slot_ok s i) \<and> (\<forall>c. Config s = Some c \<longrightarrow> 0 < threshold c) \<and>
     (\<forall>r. RecoveryRequestKey s = Some r \<longrightarrow> 0 < new_threshold r)"

lemma wallet_inv_proposal:
  "wallet_inv s \<Longrightarrow> WalletProposal s i = Some p \<Longrightarrow>
     wp_id p = i \<and> i < get_next_proposal_id s \<and> trail_ok p (get_approvals i s) (get_audit_trail i s)"
  unfolding wallet_inv_def slot_ok_def by (auto dest: spec [of _ i])

lemmas wallet_writes = add_audit_entry_def set_approvals_def set_proposal_def set_admins_def set_config_def
lemmas wallet_reads = get_approvals_def get_audit_trail_def get_next_proposal_id_def get_admins_def

lemma wallet_inv_unused:
  assumes "wallet_inv s" and "get_next_proposal_id s \<le> i"
  shows "WalletProposal s i = None \<and> AuditTrail s i = None"
proof -
  from assms(1) have "slot_ok s i" by (simp add: wallet_inv_def)
  with assms(2) show ?thesis by (simp add: slot_ok_def split: option.splits)
qed

lemma wallet_inv_update:
  assumes "wallet_inv s" and "slot_ok t i"
    and "\<And>j. j \<noteq> i \<Longrightarrow> WalletProposal t j = WalletProposal s j \<and> Approvals t j = Approvals s j \<and> AuditTrail t j = AuditTrail s j"
    and "get_next_proposal_id s \<le> get_next_proposal_id t" and "Config t = Config s" and "RecoveryRequestKey t = RecoveryRequestKey s"
  shows "wallet_inv t"
proof -
  have "slot_ok t j" for j
  proof (cases "j = i")
    case False
    moreover have "slot_ok s j" using assms(1) by (simp add: wallet_inv_def)
    ultimately show ?thesis using assms(3) [OF False] assms(4)
      by (auto simp: slot_ok_def get_approvals_def get_audit_trail_def split: option.splits)
  qed (simp add: assms(2))
  with assms(1,5,6) show ?thesis by (simp add: wallet_inv_def)
qed

lemma wallet_propose_inv:
  assumes "wallet_inv s" and "propose h a d b s = (Ok i, t)"
  shows "wallet_inv t"
proof -
  let ?p = "\<lparr>wp_id = i, wp_proposer = a, wp_description = d, wp_batch = b, wp_status = Active, wp_created_at = now h\<rparr>"
  let ?e = "\<lparr>actor = a, audit_action = ''propose'', timestamp = now h\<rparr>"
  from assms(2) have i: "i = get_next_proposal_id s"
    and t: "t = add_audit_entry i ?e (set_approvals i [a] (set_proposal i ?p (s\<lparr>NextProposalId := Some (i + 1)\<rparr>)))"
    by (auto elim: wallet_propose_Ok)
  have "get_audit_trail i s = []" using wallet_inv_unused [OF assms(1), of i] i by (simp add: get_audit_trail_def)
  then have "trail_ok ?p [a] (get_audit_trail i s @ [?e])" by (simp add: trail_ok_def)
  then have "slot_ok t i" by (simp add: slot_ok_def t wallet_writes wallet_reads)
  with assms(1) show ?thesis
    by (rule wallet_inv_update) (simp_all add: t i wallet_writes wallet_reads)
qed

lemma wallet_approve_inv:
  assumes "wallet_inv s" and "approve h a i s = (Ok u, t)"
  shows "wallet_inv t"
proof -
  let ?e = "\<lparr>actor = a, audit_action = ''approve'', timestamp = now h\<rparr>"
  from assms(2) obtain p where p: "WalletProposal s i = Some p" "wp_status p = Active" "a \<notin> set (get_approvals i s)"
    and t: "t = add_audit_entry i ?e (set_approvals i (get_approvals i s @ [a]) s)" by (rule wallet_approve_Ok)
  from wallet_inv_proposal [OF assms(1) p(1)] p(2,3)
  have "trail_ok p (get_approvals i s @ [a]) (get_audit_trail i s @ [?e])" by (auto simp: trail_ok_def)
  with p(1) wallet_inv_proposal [OF assms(1) p(1)] have "slot_ok t i" by (simp add: slot_ok_def t wallet_writes wallet_reads)
  with assms(1) show ?thesis
    by (rule wallet_inv_update) (simp_all add: t wallet_writes wallet_reads)
qed

lemma trail_ok_execute:
  assumes "trail_ok p as es" and "wp_status p = Active" and "audit_action e = ''execute''"
  shows "trail_ok (p\<lparr>wp_status := Executed\<rparr>) as (es @ [e])"
proof -
  from assms have "map actor es = as" "\<forall>e\<in>set es. audit_action e \<noteq> ''execute''" by (auto simp: trail_ok_def)
  with assms show ?thesis unfolding trail_ok_def
    by (intro conjI exI [of _ es] exI [of _ "[e]"]) simp_all
qed

lemma wallet_execute_inv:
  assumes "wallet_inv s" and "execute h ext a i s = (Ok u, t)"
  shows "wallet_inv t"
proof -
  let ?e = "\<lparr>actor = a, audit_action = ''execute'', timestamp = now h\<rparr>"
  from assms(2) obtain p where p: "WalletProposal s i = Some p" "wp_status p = Active"
    and t: "t = add_audit_entry i ?e (set_proposal i (p\<lparr>wp_status := Executed\<rparr>) (s\<lparr>invocations := invocations s @ wp_batch p\<rparr>))"
    by (rule wallet_execute_Ok)
  note ok = wallet_inv_proposal [OF assms(1) p(1)]
  from ok p(2) have "trail_ok (p\<lparr>wp_status := Executed\<rparr>) (get_approvals i s) (get_audit_trail i s @ [?e])"
    by (auto intro: trail_ok_execute)
  with ok have "slot_ok t i" by (simp add: slot_ok_def t wallet_writes wallet_reads)
  with assms(1) show ?thesis
    by (rule wallet_inv_update) (simp_all add: t wallet_writes wallet_reads)
qed

lemma settings_slots:
  assumes "wallet_inv s" and "WalletProposal t = WalletProposal s" and "Approvals t = Approvals s" and "AuditTrail t = AuditTrail s"
    and "NextProposalId t = NextProposalId s" and "\<forall>c. Config t = Some c \<longrightarrow> 0 < threshold c"
    and "\<forall>r. RecoveryRequestKey t = Some r \<longrightarrow> 0 < new_threshold r"
  shows "wallet_inv t"
proof -
  have "get_approvals i t = get_approvals i s" "get_audit_trail i t = get_audit_trail i s"
      "get_next_proposal_id t = get_next_proposal_id s" for i
    using assms(3,4,5) by (simp_all add: wallet_reads)
  then have "slot_ok t = slot_ok s" using assms(2-4) by (intro ext) (simp add: slot_ok_def split: option.split)
  with assms(1,6,7) show ?thesis by (simp add: wallet_inv_def)
qed

lemma settings_inv:
  "leads (keeps wallet_inv) (w_initialize as n)" "leads (keeps wallet_inv) (add_admin h self a)"
  "leads (keeps wallet_inv) (remove_admin h self a)" "leads (keeps wallet_inv) (set_threshold h self n)"
  "leads (keeps wallet_inv) (w_set_guardians h self gs n)" "leads (keeps wallet_inv) (w_start_recovery h g as n)"
  "leads (keeps wallet_inv) (w_execute_recovery h g)"
proof -
  note defs = w_initialize_def add_admin_def remove_admin_def set_threshold_def w_set_guardians_def
    w_start_recovery_def w_execute_recovery_def
  have inv: "wallet_inv s \<Longrightarrow> (\<forall>c. Config s = Some c \<longrightarrow> 0 < threshold c) \<and> (\<forall>r. RecoveryRequestKey s = Some r \<longrightarrow> 0 < new_threshold r)" for s
    by (simp add: wallet_inv_def)
  show "leads (keeps wallet_inv) (w_initialize as n)" "leads (keeps wallet_inv) (add_admin h self a)"
    "leads (keeps wallet_inv) (remove_admin h self a)" "leads (keeps wallet_inv) (set_threshold h self n)"
    "leads (keeps wallet_inv) (w_set_guardians h self gs n)" "leads (keeps wallet_inv) (w_start_recovery h g as n)"
    "leads (keeps wallet_inv) (w_execute_recovery h g)"
    unfolding keeps_def
    by (rule leadsI, rule impI, frule inv, erule settings_slots; auto simp: defs ok_simps Let_def wallet_writes)+
qed

lemma proposals_inv:
  "leads (keeps wallet_inv) (propose h a d b)" "leads (keeps wallet_inv) (approve h a i)"
  "leads (keeps wallet_inv) (execute h ext a i)"
  unfolding leads_def keeps_def using wallet_propose_inv wallet_approve_inv wallet_execute_inv by blast+

interpretation wallet_machine: invariant_machine "wallet_step self" empty_wallet "\<lambda>_ _. True" wallet_inv for self
proof unfold_locales
  show "wallet_inv empty_wallet" by (simp add: wallet_inv_def empty_wallet_def slot_ok_def)
  fix s l
  assume s: "wallet_inv s"
  have "keeps wallet_inv s (wallet_step self l s)"
    unfolding wallet_step_def by (cases "snd l") (simp_all add: keeping.leads_invoke settings_inv proposals_inv)
  with s show "wallet_inv (wallet_step self l s)" by (simp add: keeps_def)
qed

section \<open>Properties\<close>

lemma reachable_wallet: "s = run (wallet_step self) empty_wallet ls \<Longrightarrow> wallet_inv s"
  by (simp add: wallet_machine.inv_run allowed_run_always)

text \<open>C33: A batch is executed only for an admin who signed, with at least the threshold of approvals, and the threshold is
  positive; the approvals are those of distinct addresses, and the audit trail lists them in order, the proposer's first.
  The calls of the batch are then made, all of them, in their order.\<close>

theorem wallet_executes_with_quorum:
  assumes "s = run (wallet_step self) empty_wallet ls" and "execute h ext a i s = (Ok (), t)"
  shows "\<exists>p c. WalletProposal s i = Some p \<and> wp_status p = Active \<and> Config s = Some c \<and> signed h a \<and> a \<in> set (get_admins s) \<and>
     0 < threshold c \<and> threshold c \<le> length (get_approvals i s) \<and> distinct (get_approvals i s) \<and>
     hd (get_approvals i s) = wp_proposer p \<and> map actor (get_audit_trail i s) = get_approvals i s \<and>
     invocations t = invocations s @ wp_batch p"
proof -
  note inv = reachable_wallet [OF assms(1)]
  from assms(2) obtain p c where p: "signed h a" "a \<in> set (get_admins s)" "WalletProposal s i = Some p" "wp_status p = Active"
      "Config s = Some c" "threshold c \<le> length (get_approvals i s)"
    and t: "t = add_audit_entry i \<lparr>actor = a, audit_action = ''execute'', timestamp = now h\<rparr>
       (set_proposal i (p\<lparr>wp_status := Executed\<rparr>) (s\<lparr>invocations := invocations s @ wp_batch p\<rparr>))"
    by (rule wallet_execute_Ok)
  from wallet_inv_proposal [OF inv p(3)] p(4)
  have "distinct (get_approvals i s)" "hd (get_approvals i s) = wp_proposer p" "map actor (get_audit_trail i s) = get_approvals i s"
    by (auto simp: trail_ok_def)
  moreover have "0 < threshold c" using inv p(5) by (simp add: wallet_inv_def)
  moreover have "invocations t = invocations s @ wp_batch p" by (simp add: t wallet_writes)
  ultimately show ?thesis using p by blast
qed

text \<open>What was executed stays executed.\<close>

definition stays_executed :: "u64 \<Rightarrow> wallet_state \<Rightarrow> wallet_state \<Rightarrow> bool" where
  "stays_executed i s t \<longleftrightarrow> (\<forall>p. wallet_inv s \<longrightarrow> WalletProposal s i = Some p \<longrightarrow> wp_status p = Executed \<longrightarrow>
     (\<exists>p'. WalletProposal t i = Some p' \<and> wp_status p' = Executed))"

lemma wallet_ops_stay:
  "leads (stays_executed i) (propose h a d b)" "leads (stays_executed i) (approve h a j)"
  "leads (stays_executed i) (execute h ext a j)" "leads (stays_executed i) (w_initialize as n)"
  "leads (stays_executed i) (add_admin h self a)" "leads (stays_executed i) (remove_admin h self a)"
  "leads (stays_executed i) (set_threshold h self n)" "leads (stays_executed i) (w_set_guardians h self gs n)"
  "leads (stays_executed i) (w_start_recovery h g as n)" "leads (stays_executed i) (w_execute_recovery h g)"
proof -
  show "leads (stays_executed i) (propose h a d b)"
    by (rule leadsI, erule wallet_propose_Ok) (auto simp: stays_executed_def wallet_writes dest: wallet_inv_proposal)
  show "leads (stays_executed i) (approve h a j)"
    by (rule leadsI, erule wallet_approve_Ok) (simp add: stays_executed_def wallet_writes)
  show "leads (stays_executed i) (execute h ext a j)"
    by (rule leadsI, erule wallet_execute_Ok) (simp add: stays_executed_def wallet_writes)
qed (auto simp: leads_def stays_executed_def w_initialize_def add_admin_def remove_admin_def set_threshold_def w_set_guardians_def
      w_start_recovery_def w_execute_recovery_def ok_simps Let_def wallet_writes)

lemma wallet_run_stays:
  "wallet_inv s \<Longrightarrow> WalletProposal s i = Some p \<Longrightarrow> wp_status p = Executed \<Longrightarrow>
     \<exists>p'. WalletProposal (run (wallet_step self) s ls) i = Some p' \<and> wp_status p' = Executed"
proof (induction ls arbitrary: s p)
  case (Cons l ls)
  have "stays_executed i s s" by (simp add: stays_executed_def)
  then have "stays_executed i s (wallet_step self l s)"
    unfolding wallet_step_def by (cases "snd l") (simp_all add: leads_after wallet_ops_stay)
  with Cons.prems obtain q where "WalletProposal (wallet_step self l s) i = Some q" "wp_status q = Executed"
    unfolding stays_executed_def by blast
  from Cons.IH [OF wallet_machine.inv_step [OF Cons.prems(1) TrueI] this] show ?case by simp
qed simp

text \<open>A batch is executed at most once: after a successful execution every later attempt to execute or approve the
  proposal fails, whatever happens in between.\<close>

theorem wallet_executes_once:
  assumes "s = run (wallet_step self) empty_wallet ls" and "execute h ext a i s = (Ok (), t)" and "s' = run (wallet_step self) t ls'"
  shows "fst (execute h' ext' a' i s') \<noteq> Ok () \<and> fst (approve h' a' i s') \<noteq> Ok ()"
proof -
  from assms(2) obtain p where p: "WalletProposal t i = Some p" "wp_status p = Executed"
    by (rule wallet_execute_Ok) (simp add: wallet_writes)
  from wallet_execute_inv [OF reachable_wallet [OF assms(1)] assms(2)] p obtain p'
    where p': "WalletProposal s' i = Some p'" "wp_status p' = Executed"
    unfolding assms(3) by (blast dest: wallet_run_stays)
  have "fst (execute h' ext' a' i s') \<noteq> Ok ()"
    by (rule notI, drule run_pair, erule wallet_execute_Ok) (use p' in simp)
  moreover have "fst (approve h' a' i s') \<noteq> Ok ()"
    by (rule notI, drule run_pair, erule wallet_approve_Ok) (use p' in simp)
  ultimately show ?thesis ..
qed

text \<open>A single guardian replaces all admins: whatever the guardian threshold, a recovery one guardian starts can be executed
  by the same guardian a day later, and then the admins and the threshold are the ones the guardian chose.\<close>

theorem recovery_by_one_guardian:
  assumes "g \<in> set (get_guardians s)" and "signed h g" and "signed h' g" and "admins \<noteq> []" and "0 < n" and "n \<le> length admins"
    and "now h + 86400 \<le> now h'" and "now h' \<le> u64_max"
  shows "\<exists>s1 t. w_start_recovery h g admins n s = (Ok (), s1) \<and> w_execute_recovery h' g s1 = (Ok (), t) \<and>
     get_admins t = admins \<and> get_threshold t = n"
  using assms by (auto simp: w_start_recovery_def w_execute_recovery_def run_simps get_guardians_def checked_add_u64_def
      wallet_writes get_admins_def get_threshold_def)

definition quiet_externals :: externals where
  "quiet_externals past tx = True"

definition wallet_setup :: "wallet_label list" where
  "wallet_setup = [((sample_host 0, quiet_externals), W_initialize [3, 4, 5] 2),
     ((sample_host 1, quiet_externals), W_propose 3 ''pay'' [\<lparr>tx_contract = 7, tx_function = ''transfer'', tx_args = [4]\<rparr>]),
     ((sample_host 2, quiet_externals), W_approve 4 0)]"

lemmas wallet_eval = wallet_step_def invoke_def run_simps empty_wallet_def w_initialize_def propose_def approve_def execute_def
  get_config_def increment_proposal_id_def get_proposal_def wallet_writes wallet_reads checked_add_u64_code sample_host_def
  quiet_externals_def

lemma wallet_setup_executes:
  "fst (execute (sample_host 5) quiet_externals 5 0 (run (wallet_step 2) empty_wallet wallet_setup)) = Ok ()"
  by (simp add: wallet_setup_def wallet_eval)

theorem wallet_executes_with_quorum_witness:
  "\<exists>c. Config (run (wallet_step 2) empty_wallet wallet_setup) = Some c \<and>
     threshold c \<le> length (get_approvals 0 (run (wallet_step 2) empty_wallet wallet_setup))"
  using wallet_executes_with_quorum [OF refl run_pair [OF wallet_setup_executes]] by blast

theorem wallet_executes_once_witness:
  "fst (execute (sample_host 9) quiet_externals 3 0 (run (wallet_step 2)
     (snd (execute (sample_host 5) quiet_externals 5 0 (run (wallet_step 2) empty_wallet wallet_setup)))
     [((sample_host 7, quiet_externals), W_approve 5 0)])) \<noteq> Ok ()"
  using wallet_executes_once [OF refl run_pair [OF wallet_setup_executes] refl] by blast

theorem recovery_by_one_guardian_witness:
  "\<exists>s1 t. w_start_recovery (sample_host 0) 6 [6] 1 (empty_wallet\<lparr>Guardians := Some [6, 7, 8], GuardianThreshold := Some 3\<rparr>) = (Ok (), s1) \<and>
     w_execute_recovery (sample_host 86400) 6 s1 = (Ok (), t) \<and> get_admins t = [6] \<and> get_threshold t = 1"
  by (rule recovery_by_one_guardian) (simp_all add: get_guardians_def sample_host_def u64_max_def)

end
