(* ===== verification/Stablecoin.thy ===== *)
theory Stablecoin
  imports SL_Interfaces SL_Frames Sample
begin

text \<open>
  The stablecoin contract (\<open>stablecoin/src/lib.rs\<close>): collateral deposits, minting against them and redemption.
  The two tokens are other contracts: \<open>tokens\<close> says whether a call returns or traps after the calls made so far, and
  the calls themselves are kept in order in the storage's \<open>token_calls\<close>, undone with the rest when an invocation fails.
\<close>

section \<open>Data\<close>

datatype StablecoinError = Unauthorized | AlreadyInitialized | NotInitialized | InvalidAmount | InvalidParameter
  | Overflow | Shutdown | InsufficientCollateral

datatype token_call =
  Transfer address address address i128
| Mint address address i128
| Burn address address i128

type_synonym tokens = "token_call list \<Rightarrow> token_call \<Rightarrow> bool"

datatype stable_event =
  stablecoin_initialized address address address i128
| shutdown_set address bool
| reserve_ratio_set address i128
| collateral_deposited address i128
| stablecoin_minted address i128 i128
| stablecoin_redeemed address i128 i128

record stable_state =
  StAdmin :: "address option"
  StablecoinToken :: "address option"
  CollateralToken :: "address option"
  ReserveRatioBps :: "i128 option"
  StShutdown :: "bool option"
  TotalCollateral :: "i128 option"
  StUserCollateral :: "address \<Rightarrow> i128 option"
  UserMinted :: "address \<Rightarrow> i128 option"
  token_calls :: "token_call list"
  stable_log :: "stable_event list"

record FractionalReserveConfig =
  frc_reserve_ratio_bps :: i128

type_synonym 'a stable_fn = "(stable_state, StablecoinError, 'a) contract_fn"

definition BPS :: i128 where "BPS = 10000"

definition call_token :: "tokens \<Rightarrow> token_call \<Rightarrow> 'a stable_fn \<Rightarrow> 'a stable_fn" where
  "call_token tk c k = reads token_calls (\<lambda>cs. if tk cs c then writes (\<lambda>s. s\<lparr>token_calls := token_calls s @ [c]\<rparr>) k else panic)"

definition stable_publish :: "stable_event \<Rightarrow> stable_state \<Rightarrow> stable_state" where
  "stable_publish e s = s\<lparr>stable_log := stable_log s @ [e]\<rparr>"

section \<open>Reading and writing the storage\<close>

definition require_init :: "unit stable_fn" where
  "require_init = reads StAdmin (\<lambda>a. fail_if (a = None) NotInitialized (ret ()))"

definition st_require_admin :: "address \<Rightarrow> unit stable_fn" where
  "st_require_admin caller =
     tryM require_init (\<lambda>_.
     reads StAdmin (\<lambda>x. unwrap x (\<lambda>admin.
     fail_if (admin \<noteq> caller) Unauthorized (ret ()))))"

definition is_shutdown :: "stable_state \<Rightarrow> bool" where
  "is_shutdown s = unwrap_or (StShutdown s) False"

definition stablecoin_token :: "address stable_fn" where
  "stablecoin_token = tryM require_init (\<lambda>_. reads StablecoinToken (\<lambda>x. ok_or x NotInitialized ret))"

definition collateral_token :: "address stable_fn" where
  "collateral_token = tryM require_init (\<lambda>_. reads CollateralToken (\<lambda>x. ok_or x NotInitialized ret))"

definition reserve_ratio_bps :: "i128 stable_fn" where
  "reserve_ratio_bps = tryM require_init (\<lambda>_. reads (\<lambda>s. unwrap_or (ReserveRatioBps s) BPS) ret)"

definition total_collateral :: "stable_state \<Rightarrow> i128" where
  "total_collateral s = unwrap_or (TotalCollateral s) 0"

definition set_total_collateral :: "i128 \<Rightarrow> stable_state \<Rightarrow> stable_state" where
  "set_total_collateral n s = s\<lparr>TotalCollateral := Some n\<rparr>"

definition add_total_collateral :: "i128 \<Rightarrow> unit stable_fn" where
  "add_total_collateral amount =
     reads total_collateral (\<lambda>current.
     ok_or (checked_add current amount) Overflow (\<lambda>n.
     writes (set_total_collateral n) (ret ())))"

definition sub_total_collateral :: "i128 \<Rightarrow> unit stable_fn" where
  "sub_total_collateral amount =
     reads total_collateral (\<lambda>current.
     fail_if (amount > current) InsufficientCollateral (
     unwrap (checked_sub current amount) (\<lambda>n.
     writes (set_total_collateral n) (ret ()))))"

definition st_get_user_collateral :: "address \<Rightarrow> stable_state \<Rightarrow> i128" where
  "st_get_user_collateral user s = unwrap_or (StUserCollateral s user) 0"

definition st_set_user_collateral :: "address \<Rightarrow> i128 \<Rightarrow> stable_state \<Rightarrow> stable_state" where
  "st_set_user_collateral user n s = s\<lparr>StUserCollateral := (StUserCollateral s)(user \<mapsto> n)\<rparr>"

definition get_user_minted :: "address \<Rightarrow> stable_state \<Rightarrow> i128" where
  "get_user_minted user s = unwrap_or (UserMinted s user) 0"

definition set_user_minted :: "address \<Rightarrow> i128 \<Rightarrow> stable_state \<Rightarrow> stable_state" where
  "set_user_minted user n s = s\<lparr>UserMinted := (UserMinted s)(user \<mapsto> n)\<rparr>"

section \<open>Operations\<close>

definition st_initialize :: "host \<Rightarrow> address \<Rightarrow> address \<Rightarrow> address \<Rightarrow> FractionalReserveConfig \<Rightarrow> unit stable_fn" where
  "st_initialize h admin coin collateral config =
     reads StAdmin (\<lambda>a.
     fail_if (a \<noteq> None) AlreadyInitialized (
     tryM (require_auth h admin) (\<lambda>_.
     fail_if (\<not> (0 \<le> frc_reserve_ratio_bps config \<and> frc_reserve_ratio_bps config \<le> BPS)) InvalidParameter (
     writes (\<lambda>s. s\<lparr>StAdmin := Some admin\<rparr>) (
     writes (\<lambda>s. s\<lparr>StablecoinToken := Some coin\<rparr>) (
     writes (\<lambda>s. s\<lparr>CollateralToken := Some collateral\<rparr>) (
     writes (\<lambda>s. s\<lparr>ReserveRatioBps := Some (frc_reserve_ratio_bps config)\<rparr>) (
     writes (\<lambda>s. s\<lparr>StShutdown := Some False\<rparr>) (
     writes (set_total_collateral 0) (
     writes (stable_publish (stablecoin_initialized admin coin collateral (frc_reserve_ratio_bps config)))
     (ret ())))))))))))"

definition set_shutdown :: "host \<Rightarrow> address \<Rightarrow> bool \<Rightarrow> unit stable_fn" where
  "set_shutdown h caller b =
     tryM (require_auth h caller) (\<lambda>_.
     tryM (st_require_admin caller) (\<lambda>_.
     writes (\<lambda>s. s\<lparr>StShutdown := Some b\<rparr>) (
     writes (stable_publish (shutdown_set caller b))
     (ret ()))))"

definition set_reserve_ratio :: "host \<Rightarrow> address \<Rightarrow> i128 \<Rightarrow> unit stable_fn" where
  "set_reserve_ratio h caller bps =
     tryM (require_auth h caller) (\<lambda>_.
     tryM (st_require_admin caller) (\<lambda>_.
     fail_if (\<not> (0 \<le> bps \<and> bps \<le> BPS)) InvalidParameter (
     writes (\<lambda>s. s\<lparr>ReserveRatioBps := Some bps\<rparr>) (
     writes (stable_publish (reserve_ratio_set caller bps))
     (ret ())))))"

definition st_deposit_collateral :: "host \<Rightarrow> tokens \<Rightarrow> address \<Rightarrow> address \<Rightarrow> i128 \<Rightarrow> unit stable_fn" where
  "st_deposit_collateral h tk self user amount =
     tryM require_init (\<lambda>_.
     tryM (require_auth h user) (\<lambda>_.
     reads is_shutdown (\<lambda>down.
     fail_if down Shutdown (
     fail_if (amount \<le> 0) InvalidAmount (
     tryM collateral_token (\<lambda>collateral.
     call_token tk (Transfer collateral user self amount) (
     tryM (add_total_collateral amount) (\<lambda>_.
     reads (st_get_user_collateral user) (\<lambda>c.
     unwrap (checked_add c amount) (\<lambda>n.
     writes (st_set_user_collateral user n) (
     writes (stable_publish (collateral_deposited user amount))
     (ret ()))))))))))))"

definition mint_from_collateral :: "host \<Rightarrow> tokens \<Rightarrow> address \<Rightarrow> i128 \<Rightarrow> i128 stable_fn" where
  "mint_from_collateral h tk user collateral_amount =
     tryM require_init (\<lambda>_.
     tryM (require_auth h user) (\<lambda>_.
     reads is_shutdown (\<lambda>down.
     fail_if down Shutdown (
     fail_if (collateral_amount \<le> 0) InvalidAmount (
     reads (st_get_user_collateral user) (\<lambda>user_collateral.
     fail_if (user_collateral < collateral_amount) InsufficientCollateral (
     tryM reserve_ratio_bps (\<lambda>rr.
     ok_or (checked_mul collateral_amount rr) Overflow (\<lambda>m.
     let mint_amount = m sdiv BPS in
     fail_if (mint_amount \<le> 0) InvalidAmount (
     reads (get_user_minted user) (\<lambda>user_minted.
     let max_mintable = unwrap_or (checked_mul user_collateral rr) 0 sdiv BPS in
     unwrap (checked_add user_minted mint_amount) (\<lambda>after.
     fail_if (after > max_mintable) InvalidAmount (
     tryM stablecoin_token (\<lambda>coin.
     call_token tk (Mint coin user mint_amount) (
     writes (stable_publish (stablecoin_minted user collateral_amount mint_amount))
     (ret mint_amount))))))))))))))))"

definition burn_and_redeem :: "host \<Rightarrow> tokens \<Rightarrow> address \<Rightarrow> address \<Rightarrow> i128 \<Rightarrow> i128 stable_fn" where
  "burn_and_redeem h tk self user burn_amount =
     tryM require_init (\<lambda>_.
     tryM (require_auth h user) (\<lambda>_.
     reads is_shutdown (\<lambda>down.
     fail_if down Shutdown (
     fail_if (burn_amount \<le> 0) InvalidAmount (
     reads (get_user_minted user) (\<lambda>user_minted.
     fail_if (user_minted < burn_amount) InvalidAmount (
     tryM reserve_ratio_bps (\<lambda>rr.
     ok_or (checked_mul burn_amount BPS) Overflow (\<lambda>m.
     unwrap (checked_div m rr) (\<lambda>collateral_out.
     reads (st_get_user_collateral user) (\<lambda>user_collateral.
     fail_if (user_collateral < collateral_out) InsufficientCollateral (
     tryM (sub_total_collateral collateral_out) (\<lambda>_.
     unwrap (checked_sub user_collateral collateral_out) (\<lambda>n.
     writes (st_set_user_collateral user n) (
     unwrap (checked_sub user_minted burn_amount) (\<lambda>k.
     writes (set_user_minted user k) (
     tryM stablecoin_token (\<lambda>coin.
     call_token tk (Burn coin user burn_amount) (
     tryM collateral_token (\<lambda>collateral.
     call_token tk (Transfer collateral self user collateral_out) (
     writes (stable_publish (stablecoin_redeemed user burn_amount collateral_out))
     (ret collateral_out))))))))))))))))))))))"

definition st_get_config :: "FractionalReserveConfig stable_fn" where
  "st_get_config = tryM reserve_ratio_bps (\<lambda>rr. ret \<lparr>frc_reserve_ratio_bps = rr\<rparr>)"

definition get_total_collateral :: "i128 stable_fn" where
  "get_total_collateral = tryM require_init (\<lambda>_. reads total_collateral ret)"

section \<open>The contract as a machine\<close>

datatype stable_call =
  S_initialize address address address FractionalReserveConfig
| S_shutdown address bool
| S_reserve_ratio address i128
| S_deposit address i128
| S_mint address i128
| S_burn address i128

fun exec_stable :: "address \<Rightarrow> host \<Rightarrow> tokens \<Rightarrow> stable_call \<Rightarrow> stable_state \<Rightarrow> stable_state" where
  "exec_stable self h tk (S_initialize a t c r) s = snd (invoke (st_initialize h a t c r) s)"
| "exec_stable self h tk (S_shutdown a b) s = snd (invoke (set_shutdown h a b) s)"
| "exec_stable self h tk (S_reserve_ratio a r) s = snd (invoke (set_reserve_ratio h a r) s)"
| "exec_stable self h tk (S_deposit u n) s = snd (invoke (st_deposit_collateral h tk self u n) s)"
| "exec_stable self h tk (S_mint u n) s = snd (invoke (mint_from_collateral h tk u n) s)"
| "exec_stable self h tk (S_burn u n) s = snd (invoke (burn_and_redeem h tk self u n) s)"

type_synonym stable_label = "(host \<times> tokens) \<times> stable_call"

definition stable_step :: "address \<Rightarrow> stable_label \<Rightarrow> stable_state \<Rightarrow> stable_state" where
  "stable_step self l s = exec_stable self (fst (fst l)) (snd (fst l)) (snd l) s"

definition empty_stable :: stable_state where
  "empty_stable = \<lparr>StAdmin = None, StablecoinToken = None, CollateralToken = None, ReserveRatioBps = None, StShutdown = None,
     TotalCollateral = None, StUserCollateral = (\<lambda>_. None), UserMinted = (\<lambda>_. None), token_calls = [], stable_log = []\<rparr>"

interpretation stable_ledger: ledger StUserCollateral "\<lambda>n. n" total_collateral st_set_user_collateral set_total_collateral "\<lambda>_ _. True"
  by unfold_locales (simp_all add: st_set_user_collateral_def set_total_collateral_def total_collateral_def)

abbreviation collateral_balanced :: "stable_state \<Rightarrow> bool" where
  "collateral_balanced \<equiv> ledger_balanced StUserCollateral (\<lambda>n. n) total_collateral"

lemma collateral_bal: "ledger_bal StUserCollateral (\<lambda>n. n) s u = st_get_user_collateral u s"
  by (simp add: ledger_bal_def st_get_user_collateral_def unwrap_or_def)

lemma require_init_Ok [ok_simps]: "require_init s = (Ok u, t) \<longleftrightarrow> StAdmin s \<noteq> None \<and> t = s"
  by (auto simp: require_init_def ok_simps)

lemma st_require_admin_Ok [ok_simps]: "st_require_admin a s = (Ok u, t) \<longleftrightarrow> StAdmin s = Some a \<and> t = s"
  by (auto simp: st_require_admin_def ok_simps)

lemma token_reads_Ok [ok_simps]:
  "stablecoin_token s = (Ok x, t) \<longleftrightarrow> StAdmin s \<noteq> None \<and> StablecoinToken s = Some x \<and> t = s"
  "collateral_token s = (Ok x, t) \<longleftrightarrow> StAdmin s \<noteq> None \<and> CollateralToken s = Some x \<and> t = s"
  "reserve_ratio_bps s = (Ok r, t) \<longleftrightarrow> StAdmin s \<noteq> None \<and> r = unwrap_or (ReserveRatioBps s) BPS \<and> t = s"
  by (auto simp: stablecoin_token_def collateral_token_def reserve_ratio_bps_def ok_simps)

lemma call_token_Ok [ok_simps]:
  "call_token tk c k s = (Ok x, t) \<longleftrightarrow> tk (token_calls s) c \<and> k (s\<lparr>token_calls := token_calls s @ [c]\<rparr>) = (Ok x, t)"
  by (auto simp: call_token_def ok_simps)

text \<open>What a deposit and a mint do.\<close>

lemma st_deposit_Ok:
  assumes "st_deposit_collateral h tk self u n s = (Ok x, t)"
  obtains c where "CollateralToken s = Some c" "StAdmin s \<noteq> None" "signed h u" "\<not> is_shutdown s" "0 < n"
    "tk (token_calls s) (Transfer c u self n)"
    "t = stable_publish (collateral_deposited u n) (st_set_user_collateral u (st_get_user_collateral u s + n)
       (set_total_collateral (total_collateral s + n) (s\<lparr>token_calls := token_calls s @ [Transfer c u self n]\<rparr>)))"
  using assms by (auto simp: st_deposit_collateral_def add_total_collateral_def ok_simps not_le total_collateral_def
      st_get_user_collateral_def set_total_collateral_def intro: that)

lemma mint_Ok:
  assumes "mint_from_collateral h tk u n s = (Ok m, t)"
  obtains c where "StablecoinToken s = Some c" "StAdmin s \<noteq> None" "signed h u" "\<not> is_shutdown s" "0 < n" "0 < m"
    "n \<le> st_get_user_collateral u s" "m = n * unwrap_or (ReserveRatioBps s) BPS sdiv BPS"
    "in_i128 (n * unwrap_or (ReserveRatioBps s) BPS)" "in_i128 (get_user_minted u s + m)"
    "get_user_minted u s + m \<le> unwrap_or (checked_mul (st_get_user_collateral u s) (unwrap_or (ReserveRatioBps s) BPS)) 0 sdiv BPS"
    "tk (token_calls s) (Mint c u m)"
    "t = stable_publish (stablecoin_minted u n m) (s\<lparr>token_calls := token_calls s @ [Mint c u m]\<rparr>)"
  using assms by (auto simp: mint_from_collateral_def ok_simps Let_def not_le not_less intro: that)

lemma burn_needs_minted:
  assumes "burn_and_redeem h tk self u n s = (Ok m, t)"
  shows "0 < n \<and> n \<le> get_user_minted u s"
  using assms by (auto simp: burn_and_redeem_def ok_simps not_le not_less)

section \<open>The invariant\<close>

definition ratio_fine :: "stable_state \<Rightarrow> bool" where
  "ratio_fine s \<longleftrightarrow> (\<forall>r. ReserveRatioBps s = Some r \<longrightarrow> 0 \<le> r \<and> r \<le> BPS)"

definition stable_inv :: "stable_state \<Rightarrow> bool" where
  "stable_inv s \<longleftrightarrow> collateral_balanced s \<and> UserMinted s = (\<lambda>_. None) \<and> (StAdmin s = None \<longrightarrow> StUserCollateral s = (\<lambda>_. None)) \<and>
     ratio_fine s"

lemma no_redemption: "stable_inv s \<Longrightarrow> burn_and_redeem h tk self u n s \<noteq> (Ok m, t)"
  using burn_needs_minted [of h tk self u n s m t] by (auto simp: stable_inv_def get_user_minted_def)

lemma st_deposit_inv:
  assumes "stable_inv s" and "st_deposit_collateral h tk self u n s = (Ok x, t)"
  shows "stable_inv t"
proof -
  from assms(2) obtain c where c: "StAdmin s \<noteq> None" "0 < n"
    and t: "t = stable_publish (collateral_deposited u n) (st_set_user_collateral u (st_get_user_collateral u s + n)
       (set_total_collateral (total_collateral s + n) (s\<lparr>token_calls := token_calls s @ [Transfer c u self n]\<rparr>)))"
    by (rule st_deposit_Ok)
  let ?s = "s\<lparr>token_calls := token_calls s @ [Transfer c u self n]\<rparr>"
  have "collateral_balanced ?s"
    using assms(1) by (simp add: stable_inv_def ledger_balanced_def ledger_sum_def ledger_bal_def total_collateral_def)
  moreover have "0 \<le> st_get_user_collateral u s"
    using assms(1) by (simp add: stable_inv_def ledger_balanced_def collateral_bal)
  ultimately have "collateral_balanced (st_set_user_collateral u (st_get_user_collateral u s + n)
       (set_total_collateral (total_collateral ?s + n) ?s))"
    using c(2) by (intro stable_ledger.balanced_post_rev) (simp_all add: collateral_bal st_get_user_collateral_def)
  then have "collateral_balanced t"
    unfolding t by (simp add: ledger_balanced_def ledger_sum_def ledger_bal_def total_collateral_def stable_publish_def)
  with assms(1) c(1) show ?thesis
    by (auto simp: stable_inv_def t stable_publish_def st_set_user_collateral_def set_total_collateral_def ratio_fine_def)
qed

text \<open>The other operations leave collateral and minted amounts alone.\<close>

definition same_accounts :: "stable_state \<Rightarrow> stable_state \<Rightarrow> bool" where
  "same_accounts s t \<longleftrightarrow> StUserCollateral t = StUserCollateral s \<and> TotalCollateral t = TotalCollateral s \<and> UserMinted t = UserMinted s \<and>
     StAdmin t = StAdmin s \<and> (ratio_fine s \<longrightarrow> ratio_fine t)"

interpretation accounts: frame_relation same_accounts
  by unfold_locales (auto simp: same_accounts_def)

lemma same_accounts_inv:
  assumes "same_accounts s t" and "stable_inv s"
  shows "stable_inv t"
proof -
  from assms(1) have "collateral_balanced t = collateral_balanced s"
    by (intro ledger_balanced_cong) (simp_all add: same_accounts_def total_collateral_def)
  with assms show ?thesis by (simp add: same_accounts_def stable_inv_def)
qed

lemma settings_same_accounts:
  "leads same_accounts (set_shutdown h a b)" "leads same_accounts (set_reserve_ratio h a r)"
  "leads same_accounts (mint_from_collateral h tk u n)"
proof -
  show "leads same_accounts (set_shutdown h a b)"
    by (rule leadsI) (auto simp: set_shutdown_def ok_simps same_accounts_def stable_publish_def ratio_fine_def)
  show "leads same_accounts (set_reserve_ratio h a r)"
    by (rule leadsI) (auto simp: set_reserve_ratio_def ok_simps same_accounts_def stable_publish_def ratio_fine_def)
  show "leads same_accounts (mint_from_collateral h tk u n)"
    by (rule leadsI, erule mint_Ok) (simp add: same_accounts_def stable_publish_def ratio_fine_def)
qed

lemma st_initialize_inv: "stable_inv s \<Longrightarrow> st_initialize h a c t' r s = (Ok x, t) \<Longrightarrow> stable_inv t"
  by (auto simp: st_initialize_def ok_simps stable_inv_def stable_publish_def set_total_collateral_def ledger_balanced_def
      ledger_sum_def ledger_bal_def total_collateral_def BPS_def ratio_fine_def)

lemma stable_ops_keep:
  "leads (keeps stable_inv) (st_initialize h a c t' r)" "leads (keeps stable_inv) (st_deposit_collateral h tk self u n)"
  "leads (keeps stable_inv) (burn_and_redeem h tk self u n)" "leads (keeps stable_inv) (set_shutdown h a b)"
  "leads (keeps stable_inv) (set_reserve_ratio h a bps)" "leads (keeps stable_inv) (mint_from_collateral h tk u n)"
proof -
  show "leads (keeps stable_inv) (st_initialize h a c t' r)"
    by (rule leadsI) (simp add: keeps_def st_initialize_inv)
  show "leads (keeps stable_inv) (st_deposit_collateral h tk self u n)"
    unfolding leads_def keeps_def using st_deposit_inv by blast
  show "leads (keeps stable_inv) (burn_and_redeem h tk self u n)"
    unfolding leads_def keeps_def using no_redemption by blast
qed (rule settings_same_accounts [THEN leads_mono], simp add: keeps_def same_accounts_inv)+

interpretation stable_machine: invariant_machine "stable_step self" empty_stable "\<lambda>_ _. True" stable_inv for self
proof unfold_locales
  show "stable_inv empty_stable"
    by (simp add: stable_inv_def empty_stable_def ledger_balanced_def ledger_sum_def ledger_bal_def total_collateral_def ratio_fine_def)
  fix s l
  assume s: "stable_inv s"
  have "keeps stable_inv s (stable_step self l s)"
    unfolding stable_step_def by (cases "snd l") (simp_all add: keeping.leads_invoke stable_ops_keep)
  with s show "stable_inv (stable_step self l s)" by (simp add: keeps_def)
qed

section \<open>Properties\<close>

lemma st_deposit_grows:
  assumes "st_deposit_collateral h tk self u n s = (Ok x, t)"
  shows "st_get_user_collateral v s \<le> st_get_user_collateral v t" and "total_collateral s \<le> total_collateral t"
  by (rule st_deposit_Ok [OF assms]; simp add: stable_publish_def st_set_user_collateral_def set_total_collateral_def
      st_get_user_collateral_def total_collateral_def)+

definition grows_at :: "address \<Rightarrow> stable_state \<Rightarrow> stable_state \<Rightarrow> bool" where
  "grows_at v s t \<longleftrightarrow> stable_inv s \<longrightarrow> st_get_user_collateral v s \<le> st_get_user_collateral v t"

lemma same_accounts_grows: "same_accounts s t \<Longrightarrow> grows_at v s t"
  by (simp add: grows_at_def same_accounts_def st_get_user_collateral_def)

lemma stable_ops_grow:
  "leads (grows_at v) (st_initialize h a c t' r)" "leads (grows_at v) (st_deposit_collateral h tk self u n)"
  "leads (grows_at v) (burn_and_redeem h tk self u n)" "leads (grows_at v) (set_shutdown h a b)"
  "leads (grows_at v) (set_reserve_ratio h a bps)" "leads (grows_at v) (mint_from_collateral h tk u n)"
proof -
  show "leads (grows_at v) (st_initialize h a c t' r)"
    by (auto simp: leads_def grows_at_def st_initialize_def ok_simps stable_publish_def set_total_collateral_def st_get_user_collateral_def)
  show "leads (grows_at v) (st_deposit_collateral h tk self u n)"
    by (auto simp: leads_def grows_at_def intro: st_deposit_grows(1))
  show "leads (grows_at v) (burn_and_redeem h tk self u n)"
    unfolding leads_def grows_at_def using no_redemption by blast
qed (rule settings_same_accounts [THEN leads_mono], erule same_accounts_grows)+

lemma stable_step_holds: "stable_inv s \<Longrightarrow> st_get_user_collateral v s \<le> st_get_user_collateral v (stable_step self l s)"
proof -
  assume s: "stable_inv s"
  have "grows_at v s s" by (simp add: grows_at_def)
  then have "grows_at v s (stable_step self l s)"
    unfolding stable_step_def by (cases "snd l") (simp_all add: leads_after stable_ops_grow)
  with s show ?thesis by (simp add: grows_at_def)
qed

lemma stable_run_holds:
  "stable_inv s \<Longrightarrow> st_get_user_collateral v s \<le> st_get_user_collateral v (run (stable_step self) s ls)"
proof (induction ls arbitrary: s)
  case (Cons l ls)
  from stable_machine.inv_step [OF Cons.prems TrueI] have "stable_inv (stable_step self l s)" .
  from stable_step_holds [OF Cons.prems, of v self l] Cons.IH [OF this] show ?case by simp
qed simp

text \<open>C32: Collateral goes in and never comes out: what a user minted is never recorded, so no redemption ever succeeds, every
  balance only grows in any run, and the total is always the sum of the balances.\<close>

theorem stablecoin_collateral_is_locked:
  assumes "s = run (stable_step self) empty_stable ls"
  shows "fst (burn_and_redeem h tk self u n s) \<noteq> Ok m \<and> get_user_minted u s = 0 \<and>
     st_get_user_collateral u s \<le> st_get_user_collateral u (run (stable_step self) s ls') \<and>
     total_collateral s = (\<Sum>v\<in>dom (StUserCollateral s). st_get_user_collateral v s)"
proof -
  have inv: "stable_inv s" unfolding assms by (rule stable_machine.inv_run [OF allowed_run_always])
  have "fst (burn_and_redeem h tk self u n s) \<noteq> Ok m"
    by (rule notI, drule run_pair) (use no_redemption [OF inv] in blast)
  moreover have "get_user_minted u s = 0" using inv by (simp add: stable_inv_def get_user_minted_def)
  moreover have "st_get_user_collateral u s \<le> st_get_user_collateral u (run (stable_step self) s ls')"
    using inv by (rule stable_run_holds)
  moreover have "total_collateral s = (\<Sum>v\<in>dom (StUserCollateral s). st_get_user_collateral v s)"
    using inv by (simp add: stable_inv_def ledger_balanced_def ledger_sum_def collateral_bal)
  ultimately show ?thesis by blast
qed

text \<open>A mint can be repeated as it stands.\<close>

lemma mint_again:
  assumes "mint_from_collateral h tk u n s = (Ok m, t)" and "StablecoinToken s = Some c" and "\<forall>cs. tk cs (Mint c u m)"
  shows "\<exists>t'. mint_from_collateral h tk u n t = (Ok m, t') \<and> StablecoinToken t = Some c \<and>
     token_calls t = token_calls s @ [Mint c u m]"
  using assms by - (erule mint_Ok, auto simp: mint_from_collateral_def run_simps Let_def require_init_def stablecoin_token_def
      reserve_ratio_bps_def call_token_def stable_publish_def is_shutdown_def st_get_user_collateral_def get_user_minted_def
      not_le not_less checked_mul_def checked_add_def to_i128_def)

text \<open>Minting has no limit: a user who can mint an amount once can mint it any number of times against the same
  collateral, as long as the token contract accepts the calls.\<close>

theorem stablecoin_mints_without_limit:
  assumes "mint_from_collateral h tk u n s = (Ok m, t)" and "StablecoinToken s = Some c" and "\<forall>cs. tk cs (Mint c u m)"
  shows "token_calls (run (stable_step self) s (replicate k ((h, tk), S_mint u n))) = token_calls s @ replicate k (Mint c u m)"
  using assms(1,2)
proof (induction k arbitrary: s t)
  case (Suc k)
  from mint_again [OF Suc.prems assms(3)] obtain t' where
    again: "mint_from_collateral h tk u n t = (Ok m, t')" "StablecoinToken t = Some c" "token_calls t = token_calls s @ [Mint c u m]" by blast
  have "stable_step self ((h, tk), S_mint u n) s = t" using Suc.prems(1) by (simp add: stable_step_def invoke_def)
  with Suc.IH [OF again(1,2)] again(3) show ?case by simp
qed simp

definition all_tokens :: tokens where
  "all_tokens cs c = True"

definition stable_setup :: "stable_label list" where
  "stable_setup = [((sample_host 0, all_tokens), S_initialize 9 7 8 \<lparr>frc_reserve_ratio_bps = 5000\<rparr>), ((sample_host 0, all_tokens), S_deposit 3 1000)]"

lemmas stable_eval = stable_step_def invoke_def run_simps empty_stable_def st_initialize_def st_deposit_collateral_def mint_from_collateral_def
  require_init_def stablecoin_token_def collateral_token_def reserve_ratio_bps_def call_token_def stable_publish_def is_shutdown_def
  st_get_user_collateral_def get_user_minted_def add_total_collateral_def total_collateral_def set_total_collateral_def
  st_set_user_collateral_def sample_host_def all_tokens_def checked_defs i128_defs Let_def BPS_def sdiv_nonneg_eq

lemma stable_setup_mints:
  "fst (mint_from_collateral (sample_host 5) all_tokens 3 1000 (run (stable_step 2) empty_stable stable_setup)) = Ok 500"
  "StablecoinToken (run (stable_step 2) empty_stable stable_setup) = Some 7"
  by (simp_all add: stable_setup_def stable_eval)

theorem stablecoin_collateral_is_locked_witness:
  "st_get_user_collateral 3 (run (stable_step 2) empty_stable stable_setup) \<le>
     st_get_user_collateral 3 (run (stable_step 2) (run (stable_step 2) empty_stable stable_setup) [((sample_host 9, all_tokens), S_burn 3 100)])"
  using stablecoin_collateral_is_locked [OF refl] by blast

theorem stablecoin_mints_without_limit_witness:
  "length (token_calls (run (stable_step 2) (run (stable_step 2) empty_stable stable_setup)
     (replicate 100 ((sample_host 5, all_tokens), S_mint 3 1000)))) = 101"
proof -
  have "length (token_calls (run (stable_step 2) empty_stable stable_setup)) = 1"
    by (simp add: stable_setup_def stable_eval)
  moreover have "\<forall>cs. all_tokens cs (Mint 7 3 500)" by (simp add: all_tokens_def)
  ultimately show ?thesis
    using stablecoin_mints_without_limit [OF run_pair [OF stable_setup_mints(1)] stable_setup_mints(2), of 2 100] by simp
qed

end
