(* ===== verification/HW_Machine.thy ===== *)
theory HW_Machine
  imports HW_Facts SL_Frames
begin

text \<open>
  The protocol contract's core and governance as one machine: a label is a public operation with its host and
  the balances the vote token reports. The invariant counts the votes of every proposal, and what was
  executed stays executed.
\<close>

section \<open>The machine\<close>

datatype hw_call =
  H_initialize address
| H_transfer_admin address address
| H_set_risk_params address "i128 option" "i128 option" "i128 option" "i128 option"
| H_set_emergency_pause address bool
| H_update_rates address InterestRateParams
| H_update_index
| G_initialize address address "u64 option" "u64 option" "u32 option" "i128 option" "u64 option" "i128 option"
| G_create address ProposalType string "i128 option"
| G_vote address u64 VoteType
| G_queue address u64
| G_simulate u64
| G_recommend
| G_execute address u64
| G_create_admin address ProposalType string
| G_create_emergency address ProposalType string
| G_cancel address u64
| G_approve address u64
| G_set_multisig address "address list" u32
| G_execute_multisig address u64
| G_add_guardian address address
| G_remove_guardian address address
| G_set_guardian_threshold address u32
| G_start_recovery address address address
| G_approve_recovery address
| G_execute_recovery address
| G_snapshot u64 address address
| G_delegate address address
| G_revoke address

definition hw_after :: "(gov_state, 'e, 'a) contract_fn \<Rightarrow> gov_state \<Rightarrow> gov_state" where
  "hw_after m s = snd (invoke m s)"

fun exec_hw :: "host \<Rightarrow> balances \<Rightarrow> hw_call \<Rightarrow> gov_state \<Rightarrow> gov_state" where
  "exec_hw h b (H_initialize a) = hw_after (hw_initialize h a)"
| "exec_hw h b (H_transfer_admin c a) = hw_after (hw_transfer_admin c a)"
| "exec_hw h b (H_set_risk_params c m l f i) = hw_after (entry_set_risk_params h c m l f i)"
| "exec_hw h b (H_set_emergency_pause c p) = hw_after (entry_set_emergency_pause h c p)"
| "exec_hw h b (H_update_rates c p) = hw_after (hw_update_interest_rate_config h c p)"
| "exec_hw h b H_update_index = hw_after (update_lending_index h)"
| "exec_hw h b (G_initialize a tok vp ed qb pt td dvt) = hw_after (gov_initialize h a tok vp ed qb pt td dvt)"
| "exec_hw h b (G_create a ty d th) = hw_after (create_proposal h b a ty d th)"
| "exec_hw h b (G_vote v i ty) = hw_after (vote h b v i ty)"
| "exec_hw h b (G_queue c i) = hw_after (queue_proposal h c i)"
| "exec_hw h b (G_simulate i) = hw_after (simulate_proposal h i)"
| "exec_hw h b G_recommend = hw_after (get_parameter_optimization_recommendation h)"
| "exec_hw h b (G_execute c i) = hw_after (execute_proposal h c i)"
| "exec_hw h b (G_create_admin c ty d) = hw_after (create_admin_proposal h c ty d)"
| "exec_hw h b (G_create_emergency c ty d) = hw_after (create_emergency_proposal h c ty d)"
| "exec_hw h b (G_cancel c i) = hw_after (cancel_proposal h c i)"
| "exec_hw h b (G_approve c i) = hw_after (approve_proposal h c i)"
| "exec_hw h b (G_set_multisig c as n) = hw_after (set_multisig_config h c as n)"
| "exec_hw h b (G_execute_multisig c i) = hw_after (execute_multisig_proposal h c i)"
| "exec_hw h b (G_add_guardian c g) = hw_after (add_guardian h c g)"
| "exec_hw h b (G_remove_guardian c g) = hw_after (remove_guardian h c g)"
| "exec_hw h b (G_set_guardian_threshold c n) = hw_after (set_guardian_threshold h c n)"
| "exec_hw h b (G_start_recovery g old new) = hw_after (start_recovery h g old new)"
| "exec_hw h b (G_approve_recovery g) = hw_after (approve_recovery h g)"
| "exec_hw h b (G_execute_recovery c) = hw_after (execute_recovery h c)"
| "exec_hw h b (G_snapshot i v tok) = hw_after (take_vote_power_snapshot h b i v tok)"
| "exec_hw h b (G_delegate a d) = hw_after (delegate_vote h a d)"
| "exec_hw h b (G_revoke a) = hw_after (revoke_delegation h a)"

type_synonym hw_label = "(host \<times> balances) \<times> hw_call"

definition hw_step :: "hw_label \<Rightarrow> gov_state \<Rightarrow> gov_state" where
  "hw_step l s = exec_hw (fst (fst l)) (snd (fst l)) (snd l) s"

definition empty_hw :: gov_state where
  "empty_hw = \<lparr>AdminKey = None, RoleKey = (\<lambda>_. None), RiskConfigKey = None, EmergencyPauseKey = None, RiskParamsConfig = None,
     InterestRateConfigKey = None, LendingIndexKey = None, ProtocolAnalyticsKey = None, core_log = [],
     GovAdmin = None, GovConfig = None, NextProposalId = None, MultisigConfigKey = None, GuardianConfigKey = None,
     GovProposal = (\<lambda>_. None), Vote = (\<lambda>_. None), VotePowerSnapshotKey = (\<lambda>_. None), VoteLockKey = (\<lambda>_. None),
     DelegationRecordKey = (\<lambda>_. None), GovernanceAnalyticsKey = None, ProposalApprovals = (\<lambda>_. None),
     UserProposals = (\<lambda>_. None), ProposalSimulationCache = (\<lambda>_. None), ParameterOptimizationCache = None,
     RecoveryRequestKey = None, RecoveryApprovals = None, gov_log = []\<rparr>"

text \<open>The vote token never reports a negative balance.\<close>

definition no_debts :: "balances \<Rightarrow> bool" where
  "no_debts bal \<longleftrightarrow> (\<forall>tok a n. bal tok a = Some n \<longrightarrow> 0 \<le> n)"

definition hw_allowed :: "gov_state \<Rightarrow> hw_label \<Rightarrow> bool" where
  "hw_allowed s l \<longleftrightarrow> no_debts (snd (fst l))"

section \<open>Frames\<close>

lemma load_gov_Ok [ok_simps]:
  "load_config s = (Ok c, t) \<longleftrightarrow> GovConfig s = Some c \<and> t = s"
  "load_proposal i s = (Ok p, t) \<longleftrightarrow> GovProposal s i = Some p \<and> t = s"
  "gov_require_admin a s = (Ok u, t) \<longleftrightarrow> GovAdmin s = Some a \<and> t = s"
  "gov_get_admin s = (Ok a, t) \<longleftrightarrow> GovAdmin s = Some a \<and> t = s"
  "load_guardians s = (Ok g, t) \<longleftrightarrow> GuardianConfigKey s = Some g \<and> t = s"
  by (auto simp: load_config_def load_proposal_def gov_require_admin_def gov_get_admin_def load_guardians_def ok_simps)

text \<open>\<open>same_votes\<close>: proposals, votes and the settings of the votes are as before.\<close>

definition same_votes :: "gov_state \<Rightarrow> gov_state \<Rightarrow> bool" where
  "same_votes s t \<longleftrightarrow> GovProposal t = GovProposal s \<and> Vote t = Vote s \<and> GovAdmin t = GovAdmin s \<and> GovConfig t = GovConfig s \<and>
     NextProposalId t = NextProposalId s \<and> (MultisigConfigKey t \<noteq> None \<longrightarrow> MultisigConfigKey s \<noteq> None \<or> GovAdmin s \<noteq> None)"

lemma same_votes_core [simp]:
  "same_votes s (core_publish e s') = same_votes s s'"
  "same_votes s (s'\<lparr>AdminKey := a\<rparr>) = same_votes s s'" "same_votes s (s'\<lparr>RiskConfigKey := rc\<rparr>) = same_votes s s'"
  "same_votes s (s'\<lparr>EmergencyPauseKey := ep\<rparr>) = same_votes s s'" "same_votes s (s'\<lparr>RiskParamsConfig := rp\<rparr>) = same_votes s s'"
  "same_votes s (s'\<lparr>InterestRateConfigKey := ir\<rparr>) = same_votes s s'" "same_votes s (s'\<lparr>LendingIndexKey := li\<rparr>) = same_votes s s'"
  "same_votes s s"
  by (auto simp: same_votes_def core_publish_def)

lemma execute_proposal_type_same: "execute_proposal_type h ty s = (Ok u, t) \<Longrightarrow> same_votes s t"
  by (cases ty)
     (auto simp: execute_proposal_type_def ok_simps elim!: set_risk_params_Ok set_pause_switch_Ok update_interest_rate_config_Ok)

lemma execute_proposal_type_core_ok: "core_ok s \<Longrightarrow> execute_proposal_type h ty s = (Ok u, t) \<Longrightarrow> core_ok t"
proof -
  assume s: "core_ok s" and ex: "execute_proposal_type h ty s = (Ok u, t)"
  then show "core_ok t"
    by (cases ty)
       (auto simp: execute_proposal_type_def tryM_Ok map_err_Ok load_gov_Ok fail_Ok set_emergency_pause_Ok
         intro: set_risk_params_core_ok update_rates_core_ok core_ops_ok(6), simp add: core_ok_def)
qed

lemma core_ops_same:
  "hw_initialize h a s = (Ok u, t) \<Longrightarrow> same_votes s t"
  "hw_transfer_admin c a s = (Ok u, t) \<Longrightarrow> same_votes s t"
  "entry_set_risk_params h c m l f i s = (Ok u, t) \<Longrightarrow> same_votes s t"
  "entry_set_emergency_pause h c p s = (Ok u, t) \<Longrightarrow> same_votes s t"
  "hw_update_interest_rate_config h c ip s = (Ok u, t) \<Longrightarrow> same_votes s t"
  by (auto simp: ok_simps hw_initialize_def initialize_risk_management_def initialize_risk_params_def initialize_interest_rate_config_def
      hw_transfer_admin_def entry_set_risk_params_def entry_set_emergency_pause_def hw_update_interest_rate_config_def Let_def
      elim!: set_risk_params_Ok update_interest_rate_config_Ok)

lemma read_entry_Ok [ok_simps]:
  "read_made a k s = (Ok x, t) \<longleftrightarrow> (DelegationRecordKey s a = None \<and> k None s = (Ok x, t)) \<or>
     (\<exists>r. DelegationRecordKey s a = Some (Made r) \<and> k (Some r) s = (Ok x, t))"
  "read_received a k2 s = (Ok x, t) \<longleftrightarrow> (DelegationRecordKey s a = None \<and> k2 [] s = (Ok x, t)) \<or>
     (\<exists>ds. DelegationRecordKey s a = Some (Received ds) \<and> k2 ds s = (Ok x, t))"
  by (auto simp: read_made_def read_received_def split: option.splits delegation_entry.splits)

lemma sum_delegated_state: "sum_delegated i d dl ds n s = (Ok x, t) \<Longrightarrow> t = s"
  by (induction ds arbitrary: n) (auto simp: ok_simps split: if_splits option.splits)

lemma power_state: "get_vote_power_with_delegation bal i v tok s = (Ok x, t) \<Longrightarrow> t = s"
  by (auto simp: get_vote_power_with_delegation_def get_snapshotted_vote_power_def get_delegated_power_for_voter_def ok_simps
      dest: sum_delegated_state split: option.splits)

text \<open>Operations that touch neither the core nor proposals and votes.\<close>

definition same_core :: "gov_state \<Rightarrow> gov_state \<Rightarrow> bool" where
  "same_core s t \<longleftrightarrow> RiskParamsConfig t = RiskParamsConfig s \<and> InterestRateConfigKey t = InterestRateConfigKey s \<and>
     LendingIndexKey t = LendingIndexKey s \<and> AdminKey t = AdminKey s"

definition side_frame :: "gov_state \<Rightarrow> gov_state \<Rightarrow> bool" where
  "side_frame s t \<longleftrightarrow> same_votes s t \<and> same_core s t"

lemmas frame_defs = side_frame_def same_votes_def same_core_def gov_publish_def

interpretation side: frame_relation side_frame
  by unfold_locales (auto simp: frame_defs)

lemma read_entry_leads:
  "(\<And>x. leads side_frame (k x)) \<Longrightarrow> leads side_frame (read_made a k)"
  "(\<And>x. leads side_frame (k2 x)) \<Longrightarrow> leads side_frame (read_received a k2)"
  by (auto simp: leads_def ok_simps)

lemma load_leads:
  "leads side_frame load_config" "leads side_frame (load_proposal i)" "leads side_frame (gov_require_admin a)"
  "leads side_frame load_guardians" "leads side_frame (require_auth h a)" "leads side_frame (get_delegation_depth a)"
  by (auto simp: leads_def ok_simps get_delegation_depth_def side.unchanged)

lemmas side_rules = read_entry_leads load_leads side.frame_rules

lemma side_ops_frame:
  "leads side_frame (add_guardian h c g)"
  "leads side_frame (remove_guardian h c g)"
  "leads side_frame (set_guardian_threshold h c n)"
  "leads side_frame (start_recovery h g old new)"
  "leads side_frame (approve_recovery h g)"
  "leads side_frame (approve_proposal h c i)"
  "leads side_frame (take_vote_power_snapshot h b i v tok)"
  "leads side_frame (delegate_vote h a d)"
  "leads side_frame (revoke_delegation h a)"
  unfolding add_guardian_def remove_guardian_def set_guardian_threshold_def start_recovery_def approve_recovery_def
    approve_proposal_def take_vote_power_snapshot_def delegate_vote_def
    revoke_delegation_def
  by (intro side_rules; simp add: frame_defs)+

lemma signer_ops_frame:
  "leads side_frame (execute_recovery h g)"
  "leads side_frame (set_multisig_config h c as m)"
  by (auto simp: leads_def execute_recovery_def set_multisig_config_def ok_simps frame_defs)

lemma tally_state: "tally p c s = (Ok x, t) \<Longrightarrow> t = s"
  by (auto simp: tally_def ok_simps Let_def)

lemma tally_leads: "leads side_frame (tally p c)"
  unfolding tally_def by (intro side_rules)

lemma query_ops_frame:
  "leads side_frame (simulate_proposal h i)"
  "leads side_frame (get_parameter_optimization_recommendation h)"
  unfolding simulate_proposal_def compute_simulation_def get_parameter_optimization_recommendation_def
  by (intro side_rules tally_leads; simp add: frame_defs)+

section \<open>What an operation does to proposals and votes\<close>

text \<open>The moves of a proposal's status, apart from the vote.\<close>

inductive status_step :: "ProposalStatus \<Rightarrow> ProposalStatus \<Rightarrow> bool" where
  queued: "st \<notin> {Executed, Cancelled, Expired, Queued} \<Longrightarrow> status_step st Queued"
| defeated: "st \<notin> {Executed, Cancelled, Expired, Queued} \<Longrightarrow> status_step st Defeated"
| executed: "status_step Queued Executed"
| executed_by_multisig: "status_step Pending Executed"
| cancelled: "st \<notin> {Executed, Queued} \<Longrightarrow> status_step st Cancelled"

inductive_simps status_step_simps [simp]:
  "status_step Executed st" "status_step Cancelled st" "status_step Queued st"

fun weigh :: "VoteType \<Rightarrow> i128 \<Rightarrow> Proposal \<Rightarrow> Proposal" where
  "weigh For n p = p\<lparr>for_votes := for_votes p + n\<rparr>"
| "weigh Against n p = p\<lparr>against_votes := against_votes p + n\<rparr>"
| "weigh Abstain n p = p\<lparr>abstain_votes := abstain_votes p + n\<rparr>"

definition same_settings :: "gov_state \<Rightarrow> gov_state \<Rightarrow> bool" where
  "same_settings s t \<longleftrightarrow> GovAdmin t = GovAdmin s \<and> GovConfig t = GovConfig s \<and> MultisigConfigKey t = MultisigConfigKey s"

definition unvoted :: "u64 \<Rightarrow> Proposal \<Rightarrow> bool" where
  "unvoted i p \<longleftrightarrow> prop_id p = i \<and> (prop_status p = Pending \<or> prop_status p = Queued \<and> execution_time p \<noteq> None) \<and> for_votes p = 0 \<and> against_votes p = 0 \<and>
     abstain_votes p = 0 \<and> total_voting_power p = 0"

inductive gov_change :: "balances \<Rightarrow> gov_state \<Rightarrow> gov_state \<Rightarrow> bool" for bal where
  idle: "same_votes s t \<Longrightarrow> gov_change bal s t"
| opened: "\<lbrakk>GovAdmin s = None; GovAdmin t \<noteq> None; GovConfig t = Some c; quorum_bps c \<le> 10000;
     GovProposal t = GovProposal s; Vote t = Vote s\<rbrakk> \<Longrightarrow> gov_change bal s t"
| proposed: "\<lbrakk>GovConfig s \<noteq> None \<or> MultisigConfigKey s \<noteq> None; unvoted i p; i = unwrap_or (NextProposalId s) 0;
     NextProposalId t = Some (i + 1); GovProposal t = (GovProposal s)(i \<mapsto> p); Vote t = Vote s; same_settings s t\<rbrakk>
     \<Longrightarrow> gov_change bal s t"
| moved: "\<lbrakk>GovProposal s i = Some p; status_step (prop_status p) st; st = Queued \<Longrightarrow> x \<noteq> None;
     GovProposal t = (GovProposal s)(i \<mapsto> p\<lparr>prop_status := st, execution_time := x\<rparr>); Vote t = Vote s;
     NextProposalId t = NextProposalId s; same_settings s t\<rbrakk> \<Longrightarrow> gov_change bal s t"
| voted: "\<lbrakk>GovProposal s i = Some p; prop_status p \<in> {Pending, Active}; Vote s (i, v) = None; vi_voting_power w = n;
     GovProposal t = (GovProposal s)(i \<mapsto> (weigh (vi_vote_type w) n p)
        \<lparr>prop_status := Active, total_voting_power := total_voting_power p + n\<rparr>);
     Vote t = (Vote s)((i, v) \<mapsto> w); NextProposalId t = NextProposalId s; same_settings s t;
     bal tok v = Some n\<rbrakk> \<Longrightarrow> gov_change bal s t"

inductive_cases gov_changeE: "gov_change bal s t"

lemma gov_initialize_change: "leads (gov_change bal) (gov_initialize h a tok vp ed qb pt td dvt)"
  by (rule leadsI) (auto simp: gov_initialize_def ok_simps Let_def gov_publish_def not_less intro!: opened)

lemma gov_change_same: "leads side_frame m \<Longrightarrow> leads (gov_change bal) m"
  by (erule leads_mono) (auto simp: side_frame_def intro: idle)

lemma create_proposal_change: "leads (gov_change bal) (create_proposal h bal a ty d th)"
proof (rule leadsI)
  fix s i t
  assume "create_proposal h bal a ty d th s = (Ok i, t)"
  then show "gov_change bal s t"
    by (auto simp: create_proposal_def ok_simps Let_def gov_publish_def save_proposal_def unvoted_def same_settings_def
        checked_add_u64_def intro!: proposed split: if_splits)
qed

lemma queued_proposal_unvoted: "unvoted i (queued_proposal h i a ty d at)"
  by (simp add: unvoted_def queued_proposal_def)

lemma create_admin_proposal_change: "leads (gov_change bal) (create_admin_proposal h a ty d)"
  by (rule leadsI) (auto simp: create_admin_proposal_def ok_simps gov_publish_def save_proposal_def same_settings_def
        checked_add_u64_def intro!: proposed queued_proposal_unvoted split: if_splits)

lemma create_emergency_proposal_change: "leads (gov_change bal) (create_emergency_proposal h a ty d)"
  by (rule leadsI) (auto simp: create_emergency_proposal_def ok_simps gov_publish_def save_proposal_def same_settings_def
        checked_add_u64_def intro!: proposed queued_proposal_unvoted split: if_splits)

lemma cancel_proposal_change: "leads (gov_change bal) (cancel_proposal h a i)"
proof (rule leadsI)
  fix s u t
  assume "cancel_proposal h a i s = (Ok u, t)"
  then obtain p where p: "GovProposal s i = Some p" "prop_status p \<notin> {Executed, Queued}"
    and t: "t = gov_publish (ProposalCancelledEvent i a (now h)) (save_proposal i (p\<lparr>prop_status := Cancelled\<rparr>) s)"
    by (auto simp: cancel_proposal_def ok_simps)
  from p(1) status_step.cancelled [OF p(2)] show "gov_change bal s t"
    by (rule moved [where x = "execution_time p"]) (use p in \<open>simp_all add: t gov_publish_def save_proposal_def same_settings_def\<close>)
qed

lemma status_step_queue:
  assumes "prop_status p \<notin> {Executed, Cancelled, Expired, Queued}" and "GovProposal s i = Some p"
    and "st = Queued \<or> st = Defeated"
    and "GovProposal t = (GovProposal s)(i \<mapsto> p\<lparr>prop_status := st, execution_time := x\<rparr>)" and "Vote t = Vote s"
    and "NextProposalId t = NextProposalId s" and "same_settings s t" and "st = Queued \<Longrightarrow> x \<noteq> None"
  shows "gov_change bal s t"
  using assms(2) _ assms(8) assms(4-7) by (rule moved) (use assms(1,3) in \<open>auto intro: status_step.intros\<close>)

definition still_open :: "ProposalStatus \<Rightarrow> bool" where
  "still_open st \<longleftrightarrow> st \<notin> {Executed, Cancelled, Expired, Queued}"

lemma set_status_time: "p\<lparr>execution_time := x, prop_status := st\<rparr> = p\<lparr>prop_status := st, execution_time := x\<rparr>"
  by (cases p) simp

lemma queue_proposal_run:
  assumes "queue_proposal h a i s = (Ok r, t)"
  obtains c p last x where "GovConfig s = Some c" "GovProposal s i = Some p" "end_time p < now h"
    "checked_add_u64 (end_time p) DEFAULT_TIMELOCK_DURATION = Some last" "now h \<le> last"
    "prop_status p \<notin> {Executed, Cancelled, Expired, Queued}" "tally p c s = (Ok x, s)"
    "finish_queue h i p c x s = (Ok r, t)"
proof -
  from assms have "\<exists>c p last x s1. GovConfig s = Some c \<and> GovProposal s i = Some p \<and> end_time p < now h \<and>
      checked_add_u64 (end_time p) DEFAULT_TIMELOCK_DURATION = Some last \<and> now h \<le> last \<and>
      still_open (prop_status p) \<and> tally p c s = (Ok x, s1) \<and> finish_queue h i p c x s1 = (Ok r, t)"
    unfolding queue_proposal_def by (auto simp: ok_simps not_less not_le still_open_def)
  then obtain c p last x s1 where a: "GovConfig s = Some c" "GovProposal s i = Some p" "end_time p < now h"
      "checked_add_u64 (end_time p) DEFAULT_TIMELOCK_DURATION = Some last" "now h \<le> last"
      "still_open (prop_status p)" "tally p c s = (Ok x, s1)" "finish_queue h i p c x s1 = (Ok r, t)" by blast
  from a(7) have "s1 = s" by (rule tally_state)
  with a(7,8) show thesis by (intro that [OF a(1-5) a(6) [unfolded still_open_def]]) simp_all
qed

lemma finish_queue_Ok:
  assumes "finish_queue h i p c (q, reached, th, b) s = (Ok r, t)"
  shows "quorum_reached r = reached" and "succeeded r = (reached \<and> b)"
    and "succeeded r \<Longrightarrow> t = gov_publish (ProposalQueuedEvent i (now h + execution_delay c) (for_votes p) (against_votes p) True True)
           (save_proposal i (p\<lparr>prop_status := Queued, execution_time := Some (now h + execution_delay c)\<rparr>) s)"
    and "\<not> succeeded r \<Longrightarrow> GovProposal t = (GovProposal s)(i \<mapsto> p\<lparr>prop_status := Defeated, execution_time := execution_time p\<rparr>) \<and>
           Vote t = Vote s \<and> NextProposalId t = NextProposalId s \<and> same_settings s t \<and> same_core s t"
  using assms by (auto simp: finish_queue_def Let_def ok_simps checked_add_u64_def gov_publish_def save_proposal_def
      same_settings_def same_core_def set_status_time split: if_splits)

lemma queue_proposal_Ok:
  assumes "queue_proposal h a i s = (Ok r, t)"
  obtains c p q b th where "GovConfig s = Some c" and "GovProposal s i = Some p" and "end_time p < now h"
    and "now h \<le> end_time p + DEFAULT_TIMELOCK_DURATION"
    and "prop_status p \<notin> {Executed, Cancelled, Expired, Queued}" and "tally p c s = (Ok (q, quorum_reached r, th, b), s)"
    and "succeeded r = (quorum_reached r \<and> b)" and "finish_queue h i p c (q, quorum_reached r, th, b) s = (Ok r, t)"
proof -
  from assms obtain c p last x where a: "GovConfig s = Some c" "GovProposal s i = Some p" "end_time p < now h"
    "checked_add_u64 (end_time p) DEFAULT_TIMELOCK_DURATION = Some last" "now h \<le> last"
    "prop_status p \<notin> {Executed, Cancelled, Expired, Queued}" "tally p c s = (Ok x, s)"
    "finish_queue h i p c x s = (Ok r, t)"
    by (rule queue_proposal_run)
  obtain q reached th b where x: "x = (q, reached, th, b)" by (cases x) auto
  have r: "quorum_reached r = reached" "succeeded r = (reached \<and> b)"
    using finish_queue_Ok(1,2) [OF a(8) [unfolded x]] by auto
  from a(4,5) have "now h \<le> end_time p + DEFAULT_TIMELOCK_DURATION" by (auto simp: checked_add_u64_def split: if_splits)
  from that [OF a(1,2,3) this a(6), of q th b] a(7,8) r show thesis by (simp add: x)
qed

lemma queue_proposal_change: "leads (gov_change bal) (queue_proposal h a i)"
proof (rule leadsI)
  fix s r t
  assume "queue_proposal h a i s = (Ok r, t)"
  then show "gov_change bal s t"
  proof (cases rule: queue_proposal_Ok)
    case (1 c p q b th)
    note f = finish_queue_Ok [OF 1(8)]
    show ?thesis
    proof (cases "succeeded r")
      case True
      with f(3) 1(2,5) show ?thesis
        by (intro status_step_queue [where p = p and i = i and st = Queued and x = "Some (now h + execution_delay c)"])
          (simp_all add: gov_publish_def save_proposal_def same_settings_def)
    next
      case False
      with f(4) 1(2,5) show ?thesis
        by (intro status_step_queue [where p = p and i = i and st = Defeated and x = "execution_time p"]) simp_all
    qed
  qed
qed

lemma execute_proposal_Ok:
  assumes "execute_proposal h a i s = (Ok u, t)"
  obtains c p at s1 where "signed h a" and "GovConfig s = Some c" and "GovProposal s i = Some p" and "prop_status p = Queued"
    and "execution_time p = Some at" and "at \<le> now h" and "now h \<le> at + timelock_duration c"
    and "execute_proposal_type h (prop_type p) s = (Ok (), s1)"
    and "t = gov_publish (ProposalExecutedEvent i a (now h)) (save_proposal i (p\<lparr>prop_status := Executed\<rparr>) s1)"
  using assms
  by (auto simp: execute_proposal_def ok_simps checked_add_u64_def not_less intro: that split: if_splits)

lemma execute_multisig_Ok:
  assumes "execute_multisig_proposal h a i s = (Ok u, t)"
  obtains m p s1 where "signed h a" and "MultisigConfigKey s = Some m" and "a \<in> set (ms_admins m)"
    and "GovProposal s i = Some p" and "prop_status p = Pending"
    and "ms_threshold m \<le> length (unwrap_or (ProposalApprovals s i) [])"
    and "execute_proposal_type h (prop_type p) s = (Ok (), s1)"
    and "t = gov_publish (proposal_executed i a) (save_proposal i (p\<lparr>prop_status := Executed\<rparr>) s1)"
  using assms
  by (auto simp: execute_multisig_proposal_def ok_simps not_less intro: that)

lemma executed_move:
  assumes "GovProposal s i = Some p" and "status_step (prop_status p) Executed" and "same_votes s s1"
    and "MultisigConfigKey s1 = MultisigConfigKey s"
    and "t = gov_publish e (save_proposal i (p\<lparr>prop_status := Executed\<rparr>) s1)"
  shows "gov_change bal s t"
  using assms(1,2)
  by (rule moved [where x = "execution_time p"]) (use assms(3-) in \<open>simp_all add: gov_publish_def save_proposal_def same_settings_def same_votes_def\<close>)

lemma execute_proposal_type_multisig: "execute_proposal_type h ty s = (Ok u, t) \<Longrightarrow> MultisigConfigKey t = MultisigConfigKey s"
  by (cases ty)
     (auto simp: execute_proposal_type_def ok_simps core_publish_def elim!: set_risk_params_Ok set_pause_switch_Ok update_interest_rate_config_Ok)

lemma execute_proposal_change: "leads (gov_change bal) (execute_proposal h a i)"
  by (rule leadsI, erule execute_proposal_Ok, erule executed_move)
     (auto intro: status_step.intros execute_proposal_type_same execute_proposal_type_multisig)

lemma execute_multisig_change: "leads (gov_change bal) (execute_multisig_proposal h a i)"
  by (rule leadsI, erule execute_multisig_Ok, erule executed_move)
     (auto intro: status_step.intros execute_proposal_type_same dest: execute_proposal_type_multisig)

lemma vote_Ok:
  assumes "vote h bal v i ty s = (Ok u, t)"
  obtains c p n where "signed h v" and "GovConfig s = Some c" and "GovProposal s i = Some p"
    and "prop_status p = Active \<or> prop_status p = Pending \<and> start_time p \<le> now h"
    and "Vote s (i, v) = None" and "bal (vote_token c) v = Some n" and "n \<noteq> 0"
    and "t = gov_publish (VoteCastEvent i v ty n (now h)) (save_proposal i ((weigh ty n p)
        \<lparr>prop_status := Active, total_voting_power := total_voting_power p + n\<rparr>)
        (s\<lparr>Vote := (Vote s)((i, v) \<mapsto> \<lparr>vi_voter = v, vi_proposal_id = i, vi_vote_type = ty, vi_voting_power = n,
           vi_timestamp = now h\<rparr>)\<rparr>))"
proof -
  define p' where "p' p = (if prop_status p = Pending \<and> start_time p \<le> now h then p\<lparr>prop_status := Active\<rparr> else p)" for p :: Proposal
  from assms obtain c p n pw p1 tot s1 where a: "signed h v" "GovConfig s = Some c" "GovProposal s i = Some p"
    "prop_status (p' p) = Active" "Vote s (i, v) = None" "bal (vote_token c) v = Some n" "n \<noteq> 0"
    and pw: "get_vote_power_with_delegation bal i v (vote_token c) s = (Ok pw, s1)"
    and p1: "p1 = weigh ty n (p' p)" and tot: "tot = total_voting_power p1 + n"
    and t: "t = gov_publish (VoteCastEvent i v ty n (now h))
        (s1\<lparr>GovProposal := (GovProposal s1)(i \<mapsto> p1\<lparr>total_voting_power := tot\<rparr>),
          Vote := (Vote s1)((i, v) \<mapsto> \<lparr>vi_voter = v, vi_proposal_id = i, vi_vote_type = ty, vi_voting_power = n,
           vi_timestamp = now h\<rparr>)\<rparr>)"
    unfolding vote_def p'_def [symmetric] Let_def
    by (cases ty) (auto simp: ok_simps save_proposal_def)
  from pw have s1: "s1 = s" by (rule power_state)
  have st: "prop_status p = Active \<or> prop_status p = Pending \<and> start_time p \<le> now h"
    using a(4) by (auto simp: p'_def split: if_splits)
  then have "p' p = p\<lparr>prop_status := Active\<rparr>" by (auto simp: p'_def)
  then have "p1\<lparr>total_voting_power := tot\<rparr> = (weigh ty n p)\<lparr>prop_status := Active, total_voting_power := total_voting_power p + n\<rparr>"
    by (cases ty; cases p) (simp_all add: p1 tot)
  with t show thesis
    by (intro that [OF a(1-3) st a(5-7)]) (simp add: s1 save_proposal_def gov_publish_def)
qed

lemma vote_change: "leads (gov_change bal) (vote h bal v i ty)"
proof (rule leadsI)
  fix s u t
  assume "vote h bal v i ty s = (Ok u, t)"
  then show "gov_change bal s t"
  proof (cases rule: vote_Ok)
    case (1 c p n)
    from 1(3) _ 1(5) show ?thesis
      by (rule voted [where tok = "vote_token c" and n = n])
         (use 1(4,6,8) in \<open>auto simp: gov_publish_def save_proposal_def same_settings_def\<close>)
  qed
qed

lemma core_calls_change:
  "leads (gov_change bal) (hw_initialize h a)" "leads (gov_change bal) (hw_transfer_admin c a)"
  "leads (gov_change bal) (entry_set_risk_params h c m l f i)" "leads (gov_change bal) (entry_set_emergency_pause h c p)"
  "leads (gov_change bal) (hw_update_interest_rate_config h c ip)"
  by (auto simp: leads_def intro!: idle dest: core_ops_same)

interpretation votes: frame_relation same_votes
  by unfold_locales (auto simp: same_votes_def)

lemma or_default_rates: "leads same_votes (or_default calculate_borrow_rate d)" "leads same_votes (or_default calculate_supply_rate d)"
  by (auto simp: leads_def ok_simps dest: rate_reads_state)

lemma update_index_same: "leads same_votes (update_lending_index h)"
  unfolding update_lending_index_def by (intro votes.frame_rules or_default_rates; simp)

lemma update_index_change: "leads (gov_change bal) (update_lending_index h)"
  using update_index_same by (rule leads_mono) (rule idle)

lemmas change_rules = core_calls_change update_index_change gov_initialize_change create_proposal_change vote_change
  queue_proposal_change execute_proposal_change create_admin_proposal_change create_emergency_proposal_change
  cancel_proposal_change execute_multisig_change side_ops_frame [THEN gov_change_same]
  signer_ops_frame [THEN gov_change_same] query_ops_frame [THEN gov_change_same]

lemma gov_change_refl: "gov_change bal s s"
  by (simp add: idle)

lemma exec_hw_change: "gov_change bal s (exec_hw h bal c s)"
  by (cases c) (simp_all add: hw_after_def leads_after change_rules gov_change_refl)

lemma hw_step_change: "gov_change (snd (fst l)) s (hw_step l s)"
  unfolding hw_step_def by (rule exec_hw_change)

section \<open>The counts\<close>

definition voters :: "gov_state \<Rightarrow> u64 \<Rightarrow> address set" where
  "voters s i = {v. Vote s (i, v) \<noteq> None}"

definition weight_of :: "VoteType \<Rightarrow> VoteInfo option \<Rightarrow> i128" where
  "weight_of ty x = (case x of Some w \<Rightarrow> if vi_vote_type w = ty then vi_voting_power w else 0 | None \<Rightarrow> 0)"

definition votes_cast :: "gov_state \<Rightarrow> u64 \<Rightarrow> VoteType \<Rightarrow> i128" where
  "votes_cast s i ty = (\<Sum>v\<in>voters s i. weight_of ty (Vote s (i, v)))"

definition gov_ok :: "gov_state \<Rightarrow> bool" where
  "gov_ok s \<longleftrightarrow>
     (GovAdmin s = None \<longrightarrow> GovConfig s = None \<and> MultisigConfigKey s = None \<and> GovProposal s = (\<lambda>_. None)) \<and>
     (\<forall>c. GovConfig s = Some c \<longrightarrow> quorum_bps c \<le> 10000) \<and>
     (\<forall>i p. GovProposal s i = Some p \<longrightarrow> prop_id p = i \<and> i < unwrap_or (NextProposalId s) 0 \<and>
        prop_status p \<notin> {Succeeded, Expired} \<and> (prop_status p = Queued \<longrightarrow> execution_time p \<noteq> None)) \<and>
     (\<forall>i v. Vote s (i, v) \<noteq> None \<longrightarrow> GovProposal s i \<noteq> None)"

definition tallied :: "gov_state \<Rightarrow> u64 \<Rightarrow> bool" where
  "tallied s i \<longleftrightarrow> finite (voters s i) \<and> (\<forall>v w. Vote s (i, v) = Some w \<longrightarrow> 0 \<le> vi_voting_power w) \<and>
     (\<forall>p. GovProposal s i = Some p \<longrightarrow> for_votes p = votes_cast s i For \<and> against_votes p = votes_cast s i Against \<and>
        abstain_votes p = votes_cast s i Abstain \<and>
        total_voting_power p = for_votes p + against_votes p + abstain_votes p)"

lemma weigh_id [simp]: "prop_id (weigh ty n p) = prop_id p"
  by (cases ty) simp_all

lemma gov_ok_change:
  assumes "gov_change bal s t" and "gov_ok s"
  shows "gov_ok t"
  using assms(1)
proof (cases rule: gov_change.cases)
  case idle
  with assms(2) show ?thesis unfolding gov_ok_def same_votes_def by auto
next
  case (opened c)
  with assms(2) show ?thesis unfolding gov_ok_def by auto
next
  case (proposed i p)
  with assms(2) show ?thesis unfolding gov_ok_def unvoted_def same_settings_def
    by (auto simp: less_Suc_eq)
next
  case (moved i p st x)
  with assms(2) show ?thesis unfolding gov_ok_def same_settings_def by (auto elim: status_step.cases)
next
  case (voted i p v w n tok)
  with assms(2) show ?thesis unfolding gov_ok_def same_settings_def by auto
qed

lemma votes_cast_cong: "Vote t = Vote s \<Longrightarrow> votes_cast t i ty = votes_cast s i ty" "Vote t = Vote s \<Longrightarrow> voters t i = voters s i"
  by (simp_all add: votes_cast_def voters_def)

lemma tallied_cong:
  assumes "Vote t = Vote s" and "GovProposal t i = GovProposal s i" and "tallied s i"
  shows "tallied t i"
  using assms by (simp add: tallied_def votes_cast_cong [OF assms(1)])

text \<open>A new proposal has no votes yet.\<close>

lemma no_votes_yet:
  assumes "gov_ok s" and "unwrap_or (NextProposalId s) 0 \<le> i"
  shows "Vote s (i, v) = None" and "voters s i = {}" and "votes_cast s i ty = 0"
proof -
  have n: "Vote s (i, v) = None" for v
  proof (rule ccontr)
    assume "Vote s (i, v) \<noteq> None"
    with assms(1) obtain p where "GovProposal s i = Some p" unfolding gov_ok_def by blast
    with assms show False unfolding gov_ok_def by fastforce
  qed
  then show "Vote s (i, v) = None" .
  from n show "voters s i = {}" by (simp add: voters_def)
  then show "votes_cast s i ty = 0" by (simp add: votes_cast_def)
qed

lemma votes_cast_vote:
  assumes "Vote t = (Vote s)((i, v) \<mapsto> w)" and "Vote s (i, v) = None" and "finite (voters s i)"
  shows "votes_cast t i ty = votes_cast s i ty + (if vi_vote_type w = ty then vi_voting_power w else 0)"
    and "voters t i = insert v (voters s i)"
proof -
  show v: "voters t i = insert v (voters s i)" using assms(1) by (auto simp: voters_def)
  have "v \<notin> voters s i" using assms(2) by (simp add: voters_def)
  then have "votes_cast t i ty = weight_of ty (Vote t (i, v)) + (\<Sum>u\<in>voters s i. weight_of ty (Vote t (i, u)))"
    unfolding votes_cast_def v using assms(3) by simp
  also have "(\<Sum>u\<in>voters s i. weight_of ty (Vote t (i, u))) = votes_cast s i ty"
    unfolding votes_cast_def by (rule sum.cong) (use assms(1) \<open>v \<notin> voters s i\<close> in auto)
  finally show "votes_cast t i ty = votes_cast s i ty + (if vi_vote_type w = ty then vi_voting_power w else 0)"
    using assms(1) by (simp add: weight_of_def)
qed

lemma tallied_change:
  assumes "gov_change bal s t" and "gov_ok s" and "no_debts bal" and "tallied s i"
  shows "tallied t i"
  using assms(1)
proof (cases rule: gov_change.cases)
  case idle
  with assms(4) show ?thesis by (intro tallied_cong [of t s]) (simp_all add: same_votes_def)
next
  case (opened c)
  with assms(4) show ?thesis by (intro tallied_cong [of t s]) simp_all
next
  case (proposed j p)
  show ?thesis
  proof (cases "i = j")
    case True
    with proposed have n: "unwrap_or (NextProposalId s) 0 \<le> i" by simp
    note none = no_votes_yet [OF assms(2) n]
    from proposed True have p: "GovProposal t i = Some p" "unvoted i p" by simp_all
    from p(2) none show ?thesis
      by (simp add: tallied_def votes_cast_cong [OF \<open>Vote t = Vote s\<close>] p(1) unvoted_def proposed(6))
  next
    case False
    with proposed assms(4) show ?thesis by (intro tallied_cong [of t s]) simp_all
  qed
next
  case (moved j p st x)
  with assms(4) show ?thesis
    by (cases "i = j") (auto simp: tallied_def votes_cast_cong [OF \<open>Vote t = Vote s\<close>])
next
  case (voted j p v w n tok)
  show ?thesis
  proof (cases "i = j")
    case True
    from assms(3) voted(9) have "0 \<le> n" unfolding no_debts_def by blast
    from assms(4) True voted(1) have p: "finite (voters s j)" "\<forall>v w. Vote s (j, v) = Some w \<longrightarrow> 0 \<le> vi_voting_power w"
        "for_votes p = votes_cast s j For" "against_votes p = votes_cast s j Against" "abstain_votes p = votes_cast s j Abstain"
        "total_voting_power p = for_votes p + against_votes p + abstain_votes p"
      by (auto simp: tallied_def)
    note cast = votes_cast_vote [OF voted(6) voted(3) p(1)]
    have "\<forall>u x. Vote t (j, u) = Some x \<longrightarrow> 0 \<le> vi_voting_power x"
      using p(2) voted(4,6) \<open>0 \<le> n\<close> by simp
    then show ?thesis unfolding tallied_def True using voted(4,5) p
      by (cases "vi_vote_type w") (simp_all add: cast)
  next
    case False
    then have "Vote t (i, u) = Vote s (i, u)" for u using voted(6) by simp
    then have "votes_cast t i ty = votes_cast s i ty" "voters t i = voters s i" for ty
      by (simp_all add: votes_cast_def voters_def)
    with assms(4) voted(5,6) False show ?thesis by (simp add: tallied_def)
  qed
qed

section \<open>The invariant\<close>

definition hw_inv :: "gov_state \<Rightarrow> bool" where
  "hw_inv s \<longleftrightarrow> core_ok s \<and> gov_ok s \<and> (\<forall>i. tallied s i)"

text \<open>The governance operations that execute no proposal leave the core alone.\<close>

interpretation core: frame_relation same_core
  by unfold_locales (auto simp: same_core_def)

lemma side_core: "leads side_frame m \<Longrightarrow> leads same_core m"
  by (erule leads_mono) (simp add: side_frame_def)

lemma gov_writes_core:
  "same_core s (save_proposal i p s)" "same_core s (gov_publish e s)"
  "same_core s (s\<lparr>GovAdmin := x1\<rparr>)" "same_core s (s\<lparr>GovConfig := x2\<rparr>)" "same_core s (s\<lparr>NextProposalId := x3\<rparr>)"
  "same_core s (s\<lparr>MultisigConfigKey := x4\<rparr>)" "same_core s (s\<lparr>GuardianConfigKey := x5\<rparr>)"
  "same_core s (s\<lparr>UserProposals := x6\<rparr>)" "same_core s (s\<lparr>Vote := x7\<rparr>)"
  "same_core s (s\<lparr>ProposalApprovals := x8\<rparr>)"
  by (simp_all add: same_core_def save_proposal_def gov_publish_def)

lemma power_core: "leads same_core (get_vote_power_with_delegation bal i v tok)"
  by (auto simp: leads_def core.unchanged dest: power_state)

lemma gov_get_admin_leads: "leads side_frame gov_get_admin"
  by (auto simp: leads_def ok_simps side.unchanged)

lemma vote_type_core:
  assumes "\<And>p. leads same_core (k p)"
  shows "leads same_core (tryM (case ty of For \<Rightarrow> unwrap a (\<lambda>n. ret (f n)) | Against \<Rightarrow> unwrap b (\<lambda>n. ret (g n))
            | Abstain \<Rightarrow> unwrap c (\<lambda>n. ret (e n))) k)"
  using assms by (cases ty) (auto intro!: core.frame_rules)

lemmas core_rules = gov_writes_core power_core load_leads [THEN side_core]
  tally_leads [THEN side_core] gov_get_admin_leads [THEN side_core] vote_type_core core.frame_rules

lemma gov_calls_core:
  "leads same_core (gov_initialize h a tok vp ed qb pt td dvt)"
  "leads same_core (create_proposal h bal a ty d th)"
  "leads same_core (create_admin_proposal h a ty d)"
  "leads same_core (create_emergency_proposal h a ty d)"
  "leads same_core (cancel_proposal h a i)"
  "leads same_core (vote h bal a i vt)"
  "leads same_core (queue_proposal h a i)"
  unfolding gov_initialize_def create_proposal_def create_admin_proposal_def create_emergency_proposal_def
    cancel_proposal_def vote_def queue_proposal_def finish_queue_def
  by (intro core_rules)+

lemmas gov_calls_same_core = gov_calls_core side_ops_frame [THEN side_core] signer_ops_frame [THEN side_core]
  query_ops_frame [THEN side_core]

text \<open>An execution does what its proposal's type does, and then leaves the core alone.\<close>

lemma gov_log_core: "same_core s (gov_publish e (save_proposal i p s))"
  by (simp add: same_core_def save_proposal_def gov_publish_def)

lemma executions_lead:
  assumes R: "\<And>ty s u s1 t. execute_proposal_type h ty s = (Ok u, s1) \<Longrightarrow> same_core s1 t \<Longrightarrow> R s t"
  shows "leads R (execute_proposal h a i)" and "leads R (execute_multisig_proposal h a i)"
proof -
  show "leads R (execute_proposal h a i)"
    by (rule leadsI, erule execute_proposal_Ok) (auto intro: R gov_log_core)
  show "leads R (execute_multisig_proposal h a i)"
    by (rule leadsI, erule execute_multisig_Ok) (auto intro: R gov_log_core)
qed

lemma core_ok_same: "same_core s t \<Longrightarrow> core_ok t = core_ok s"
  by (simp add: same_core_def core_ok_def)

lemma core_calls_core:
  "leads (keeps core_ok) (hw_initialize h a)" "leads (keeps core_ok) (hw_transfer_admin c a)"
  "leads (keeps core_ok) (entry_set_risk_params h c m l f i)" "leads (keeps core_ok) (entry_set_emergency_pause h c p)"
  "leads (keeps core_ok) (hw_update_interest_rate_config h c ip)" "leads (keeps core_ok) (update_lending_index h)"
  by (auto simp: leads_def keeps_def dest: core_ops_ok)

lemma executions_core:
  "leads (keeps core_ok) (execute_proposal h a i)" "leads (keeps core_ok) (execute_multisig_proposal h a i)"
  by (rule executions_lead, auto simp: keeps_def core_ok_same dest: execute_proposal_type_core_ok)+

lemma same_core_keeps: "leads same_core m \<Longrightarrow> leads (keeps core_ok) m"
  by (erule leads_mono) (simp add: keeps_def core_ok_same)

lemmas exec_core_rules = core_calls_core executions_core gov_calls_same_core [THEN same_core_keeps]

lemma exec_hw_core: "core_ok s \<Longrightarrow> core_ok (exec_hw h bal c s)"
proof -
  have "keeps core_ok s (exec_hw h bal c s)"
    by (cases c) (simp_all add: hw_after_def keeping.leads_invoke exec_core_rules)
  then show "core_ok s \<Longrightarrow> core_ok (exec_hw h bal c s)" by (simp add: keeps_def)
qed

interpretation hw_machine: invariant_machine hw_step empty_hw hw_allowed hw_inv
proof unfold_locales
  show "hw_inv empty_hw"
    by (simp add: hw_inv_def empty_hw_def core_ok_def gov_ok_def tallied_def voters_def)
  fix s l
  assume s: "hw_inv s" and l: "hw_allowed s l"
  note ch = hw_step_change [of l s]
  have "core_ok (hw_step l s)" using s unfolding hw_step_def hw_inv_def by (simp add: exec_hw_core)
  moreover have "gov_ok (hw_step l s)" using gov_ok_change [OF ch] s by (simp add: hw_inv_def)
  moreover have "tallied (hw_step l s) i" for i
    using tallied_change [OF ch] s l by (simp add: hw_inv_def hw_allowed_def)
  ultimately show "hw_inv (hw_step l s)" by (simp add: hw_inv_def)
qed

end
