(* ===== verification/HW_Properties.thy ===== *)
theory HW_Properties
  imports HW_Machine Sample
begin

text \<open>
  The properties of the protocol contract's core and governance: counts, lifecycle and finality of proposals, the
  quorum, delegation, recovery, the bounds of the risk parameters, the interest index, and who may call what.
\<close>

section \<open>Votes are counted\<close>

lemma reachable_hw:
  "allowed_run hw_allowed hw_step empty_hw ls \<Longrightarrow> s = run hw_step empty_hw ls \<Longrightarrow> hw_inv s"
  by (simp add: hw_machine.inv_run)

lemma votes_cast_nonneg: "tallied s i \<Longrightarrow> 0 \<le> votes_cast s i ty"
  unfolding votes_cast_def weight_of_def tallied_def by (auto intro!: sum_nonneg split: option.splits)

text \<open>C20: After any run in which the vote token reports no negative balance, the tallies of every proposal are the
  sums of the votes recorded for it, each voter counted once under the kind of vote cast; none is negative, and the
  total is their sum.\<close>

theorem votes_are_counted:
  assumes "allowed_run hw_allowed hw_step empty_hw ls" and "s = run hw_step empty_hw ls" and "GovProposal s i = Some p"
  shows "finite (voters s i) \<and>
     for_votes p = votes_cast s i For \<and> against_votes p = votes_cast s i Against \<and> abstain_votes p = votes_cast s i Abstain \<and>
     0 \<le> for_votes p \<and> 0 \<le> against_votes p \<and> 0 \<le> abstain_votes p \<and>
     total_voting_power p = for_votes p + against_votes p + abstain_votes p"
proof -
  have "tallied s i" using reachable_hw [OF assms(1,2)] by (simp add: hw_inv_def)
  with assms(3) votes_cast_nonneg [OF this] show ?thesis by (auto simp: tallied_def)
qed

text \<open>C22: Every stored proposal is well-formed: it is filed under its own id, below the next id, a queued one has an execution
  time, and votes are recorded for existing proposals only. No proposal is ever marked as succeeded or expired: the code
  never writes the first, and writes the second only in calls that return an error.\<close>

theorem stored_proposals_well_formed:
  assumes "allowed_run hw_allowed hw_step empty_hw ls" and "s = run hw_step empty_hw ls"
  shows "(\<forall>p. GovProposal s i = Some p \<longrightarrow> prop_id p = i \<and> i < unwrap_or (NextProposalId s) 0 \<and>
       (prop_status p = Queued \<longrightarrow> execution_time p \<noteq> None) \<and> prop_status p \<noteq> Succeeded \<and> prop_status p \<noteq> Expired) \<and>
     (\<forall>v. Vote s (i, v) \<noteq> None \<longrightarrow> GovProposal s i \<noteq> None)"
  using reachable_hw [OF assms] unfolding hw_inv_def gov_ok_def by blast

text \<open>A run to instantiate the theorems on: address 9 initializes both parts, address 3 proposes and votes with
  300 of the token, address 4 votes against with 100.\<close>

definition sample_balances :: balances where
  "sample_balances tok a = Some (if a = 3 then 300 else if a = 4 then 100 else 0)"

definition hw_setup :: "hw_label list" where
  "hw_setup = [((sample_host 0, sample_balances), H_initialize 9),
     ((sample_host 0, sample_balances), G_initialize 9 7 (Some 100) (Some 50) None None None None),
     ((sample_host 10, sample_balances), G_create 3 (MinCollateralRatio 12000) ''raise'' None)]"

definition hw_votes :: "hw_label list" where
  "hw_votes = [((sample_host 20, sample_balances), G_vote 3 0 For), ((sample_host 30, sample_balances), G_vote 4 0 Against)]"

lemma sample_balances_fine: "no_debts sample_balances"
  by (simp add: no_debts_def sample_balances_def)

lemma hw_setup_allowed: "allowed_run hw_allowed hw_step s hw_setup" "allowed_run hw_allowed hw_step s (hw_setup @ hw_votes)"
  by (simp_all add: hw_setup_def hw_votes_def hw_allowed_def sample_balances_fine)

lemmas hw_consts = BASIS_POINTS_SCALE_def MIN_COLLATERAL_RATIO_MIN_def MIN_COLLATERAL_RATIO_MAX_def LIQUIDATION_THRESHOLD_MIN_def
  LIQUIDATION_THRESHOLD_MAX_def CLOSE_FACTOR_MIN_def CLOSE_FACTOR_MAX_def LIQUIDATION_INCENTIVE_MIN_def
  LIQUIDATION_INCENTIVE_MAX_def MAX_PARAMETER_CHANGE_BPS_def DEFAULT_VOTING_PERIOD_def DEFAULT_EXECUTION_DELAY_def
  DEFAULT_QUORUM_BPS_def DEFAULT_VOTING_THRESHOLD_def DEFAULT_TIMELOCK_DURATION_def DEFAULT_RECOVERY_PERIOD_def
  MIN_TIMELOCK_DELAY_def DELEGATION_DEADLINE_def MAX_DELEGATION_DEPTH_def MAX_DESCRIPTION_LEN_def

lemmas hw_run_eval = map_err_def hw_step_def hw_after_def invoke_def run_simps save_proposal_def gov_publish_def core_publish_def
  load_config_def load_proposal_def gov_require_admin_def gov_get_admin_def load_guardians_def checked_add_u64_code
  checked_add_u32_code sample_host_def sample_balances_def empty_hw_def Let_def hw_consts
  checked_defs i128_defs

lemmas hw_core_eval = hw_initialize_def initialize_risk_management_def initialize_risk_params_def
  initialize_interest_rate_config_def has_admin_def hw_set_admin_def liftE_def validate_risk_params_def

lemmas hw_gov_eval = gov_initialize_def create_proposal_def vote_def get_vote_power_with_delegation_def
  get_snapshotted_vote_power_def get_delegated_power_for_voter_def read_made_def read_received_def

lemma hw_setup_votes:
  "map_option (\<lambda>p. (for_votes p, against_votes p, total_voting_power p, prop_status p))
     (GovProposal (run hw_step empty_hw (hw_setup @ hw_votes)) 0) = Some (300, 100, 400, Active)"
  by (simp add: hw_setup_def hw_votes_def hw_run_eval hw_core_eval hw_gov_eval)

theorem stored_proposals_well_formed_witness:
  "\<exists>p. GovProposal (run hw_step empty_hw (hw_setup @ hw_votes)) 0 = Some p \<and> prop_status p \<noteq> Expired"
proof -
  obtain p where p: "GovProposal (run hw_step empty_hw (hw_setup @ hw_votes)) 0 = Some p" using hw_setup_votes by auto
  from stored_proposals_well_formed [OF hw_setup_allowed(2) refl, of 0] p show ?thesis by blast
qed

theorem votes_are_counted_witness:
  "votes_cast (run hw_step empty_hw (hw_setup @ hw_votes)) 0 For = 300"
proof -
  obtain p where "GovProposal (run hw_step empty_hw (hw_setup @ hw_votes)) 0 = Some p" and "for_votes p = 300"
    using hw_setup_votes by auto
  with votes_are_counted [OF hw_setup_allowed(2) refl this(1)] show ?thesis by simp
qed

section \<open>The lifecycle of a proposal\<close>

text \<open>The moves of a proposal, seen from outside: a vote activates it.\<close>

inductive lifecycle :: "ProposalStatus \<Rightarrow> ProposalStatus \<Rightarrow> bool" where
  rests: "lifecycle st st"
| activated: "lifecycle Pending Active"
| decided: "status_step st st' \<Longrightarrow> lifecycle st st'"

inductive_simps lifecycle_simps: "lifecycle Executed st" "lifecycle Cancelled st"

definition same_terms :: "Proposal \<Rightarrow> Proposal \<Rightarrow> bool" where
  "same_terms p p' \<longleftrightarrow> prop_id p' = prop_id p \<and> prop_proposer p' = prop_proposer p \<and> prop_type p' = prop_type p \<and>
     description p' = description p \<and> start_time p' = start_time p \<and> end_time p' = end_time p \<and>
     voting_threshold p' = voting_threshold p \<and> created_at p' = created_at p"

definition moves_on :: "Proposal \<Rightarrow> Proposal \<Rightarrow> bool" where
  "moves_on p p' \<longleftrightarrow> same_terms p p' \<and> lifecycle\<^sup>*\<^sup>* (prop_status p) (prop_status p') \<and>
     (prop_status p \<notin> {Pending, Active} \<longrightarrow> for_votes p' = for_votes p \<and> against_votes p' = against_votes p \<and>
        abstain_votes p' = abstain_votes p)"

lemma moves_on_refl: "moves_on p p"
  by (simp add: moves_on_def same_terms_def)

lemma status_step_keeps_closed: "status_step st st' \<Longrightarrow> st \<notin> {Pending, Active} \<Longrightarrow> st' \<notin> {Pending, Active}"
  by (auto elim: status_step.cases)

lemma lifecycle_keeps_closed: "lifecycle\<^sup>*\<^sup>* st st' \<Longrightarrow> st \<notin> {Pending, Active} \<Longrightarrow> st' \<notin> {Pending, Active}"
  by (induction rule: rtranclp_induct) (auto elim!: lifecycle.cases dest: status_step_keeps_closed)

lemma moves_on_trans: "moves_on p q \<Longrightarrow> moves_on q r \<Longrightarrow> moves_on p r"
  by (auto simp: moves_on_def same_terms_def dest: lifecycle_keeps_closed)

lemma weigh_terms [simp]: "same_terms p (weigh ty n p)" "prop_status (weigh ty n p) = prop_status p"
  by (cases ty; simp add: same_terms_def)+

lemma proposal_moves_on:
  assumes "gov_change bal s t" and "gov_ok s" and "GovProposal s i = Some p"
  shows "\<exists>p'. GovProposal t i = Some p' \<and> moves_on p p'"
  using assms(1)
proof (cases rule: gov_change.cases)
  case (proposed j q)
  from assms(2,3) have "i < unwrap_or (NextProposalId s) 0" by (auto simp: gov_ok_def)
  with proposed assms(3) show ?thesis by (auto intro: moves_on_refl)
next
  case (moved j q st x)
  have "lifecycle\<^sup>*\<^sup>* (prop_status q) st" using moved(2) by (blast intro: decided)
  then have "moves_on q (q\<lparr>prop_status := st, execution_time := x\<rparr>)" by (simp add: moves_on_def same_terms_def)
  with moved(1,4) assms(3) show ?thesis by (cases "i = j") (auto intro: moves_on_refl)
next
  case (voted j q v w n tok)
  have "lifecycle\<^sup>*\<^sup>* (prop_status q) Active" using voted(2) activated by (auto intro: r_into_rtranclp)
  then have "moves_on q ((weigh (vi_vote_type w) n q)\<lparr>prop_status := Active, total_voting_power := total_voting_power q + n\<rparr>)"
    using voted(2) weigh_terms(1) [of q "vi_vote_type w" n] by (auto simp: moves_on_def same_terms_def)
  with voted(1,5) assms(3) show ?thesis by (cases "i = j") (auto intro: moves_on_refl)
qed (use assms(3) in \<open>auto simp: same_votes_def intro: moves_on_refl\<close>)

lemma run_moves_on:
  assumes "hw_inv s" and "allowed_run hw_allowed hw_step s ls" and "GovProposal s i = Some p"
  shows "\<exists>p'. GovProposal (run hw_step s ls) i = Some p' \<and> moves_on p p'"
  using assms
proof (induction ls arbitrary: s p)
  case Nil
  then show ?case by (auto intro: moves_on_refl)
next
  case (Cons l ls)
  from Cons.prems(1) have "gov_ok s" by (simp add: hw_inv_def)
  from proposal_moves_on [OF hw_step_change this Cons.prems(3), of l] obtain q
    where q: "GovProposal (hw_step l s) i = Some q" "moves_on p q" by blast
  from Cons.prems(1,2) have "hw_inv (hw_step l s)" by (simp add: hw_machine.inv_step)
  from Cons.IH [OF this _ q(1)] Cons.prems(2) obtain p'
    where "GovProposal (run hw_step s (l # ls)) i = Some p'" "moves_on q p'" by auto
  with q(2) show ?case by (blast intro: moves_on_trans)
qed

lemma executed_for_good: "lifecycle\<^sup>*\<^sup>* Executed st \<Longrightarrow> st = Executed"
  by (induction rule: rtranclp_induct) (auto simp: lifecycle_simps)

lemma cancelled_for_good: "lifecycle\<^sup>*\<^sup>* Cancelled st \<Longrightarrow> st = Cancelled"
  by (induction rule: rtranclp_induct) (auto simp: lifecycle_simps)

text \<open>C21: Every proposal moves along the lifecycle: pending, active from the first vote on, then queued or
  defeated after the voting period, queued ones executed, pending ones also executed by the multisig, and all but queued
  and executed ones cancelled. Its terms never change, its tallies not after the vote, and an executed or a
  cancelled proposal stays so.\<close>

theorem proposals_follow_lifecycle:
  assumes "allowed_run hw_allowed hw_step empty_hw ls" and "s = run hw_step empty_hw ls" and "GovProposal s i = Some p"
    and "allowed_run hw_allowed hw_step s ls'"
  shows "\<exists>p'. GovProposal (run hw_step s ls') i = Some p' \<and> same_terms p p' \<and>
     lifecycle\<^sup>*\<^sup>* (prop_status p) (prop_status p') \<and>
     (prop_status p \<notin> {Pending, Active} \<longrightarrow>
        for_votes p' = for_votes p \<and> against_votes p' = against_votes p \<and> abstain_votes p' = abstain_votes p) \<and>
     (prop_status p \<in> {Executed, Cancelled} \<longrightarrow> prop_status p' = prop_status p)"
proof -
  from run_moves_on [OF reachable_hw [OF assms(1,2)] assms(4,3)] obtain p'
    where p': "GovProposal (run hw_step s ls') i = Some p'" "moves_on p p'" by blast
  then show ?thesis
    by (intro exI [of _ p']) (auto simp: moves_on_def dest: executed_for_good cancelled_for_good)
qed

text \<open>Nothing can be done with an executed proposal.\<close>

lemma executed_refuses:
  assumes "GovProposal s i = Some p" and "prop_status p = Executed"
  shows "fst (execute_proposal h a i s) \<noteq> Ok u" and "fst (execute_multisig_proposal h a i s) \<noteq> Ok u"
    and "fst (cancel_proposal h a i s) \<noteq> Ok u" and "fst (queue_proposal h a i s) \<noteq> Ok r" and "fst (vote h bal a i ty s) \<noteq> Ok u"
proof -
  show "fst (execute_proposal h a i s) \<noteq> Ok u"
    by (rule notI, drule run_pair, erule execute_proposal_Ok) (use assms in simp)
  show "fst (execute_multisig_proposal h a i s) \<noteq> Ok u"
    by (rule notI, drule run_pair, erule execute_multisig_Ok) (use assms in simp)
  show "fst (cancel_proposal h a i s) \<noteq> Ok u"
    by (rule notI, drule run_pair) (use assms in \<open>auto simp: cancel_proposal_def ok_simps\<close>)
  show "fst (queue_proposal h a i s) \<noteq> Ok r"
    by (rule notI, drule run_pair, erule queue_proposal_Ok) (use assms in simp)
  show "fst (vote h bal a i ty s) \<noteq> Ok u"
    by (rule notI, drule run_pair, erule vote_Ok) (use assms in auto)
qed

text \<open>A proposal is executed at most once: after a successful execution, by the queue or by the multisig, it
  is never executed again, nor voted on, queued or cancelled, in any later run.\<close>

theorem proposals_execute_once:
  assumes "allowed_run hw_allowed hw_step empty_hw ls" and "s = run hw_step empty_hw ls"
    and "execute_proposal h a i s = (Ok (), t) \<or> execute_multisig_proposal h a i s = (Ok (), t)"
    and "allowed_run hw_allowed hw_step t ls'" and "s' = run hw_step t ls'"
  shows "fst (execute_proposal h' a' i s') \<noteq> Ok () \<and> fst (execute_multisig_proposal h' a' i s') \<noteq> Ok () \<and>
     fst (cancel_proposal h' a' i s') \<noteq> Ok () \<and> fst (queue_proposal h' a' i s') \<noteq> Ok r \<and> fst (vote h' bal a' i ty s') \<noteq> Ok ()"
proof -
  from assms(3) obtain p where p: "GovProposal t i = Some p" "prop_status p = Executed"
    by (elim disjE execute_proposal_Ok execute_multisig_Ok) (auto simp: gov_publish_def save_proposal_def)
  from assms(3) obtain c where t: "t = hw_step ((h, \<lambda>_ _. None), c) s"
    by (elim disjE) (auto simp: hw_step_def hw_after_def invoke_def intro: that [of "G_execute a i"] that [of "G_execute_multisig a i"])
  have "hw_inv t" unfolding t
    by (rule hw_machine.inv_step [OF reachable_hw [OF assms(1,2)]]) (simp add: hw_allowed_def no_debts_def)
  from run_moves_on [OF this assms(4) p(1)] obtain p'
    where p': "GovProposal s' i = Some p'" "moves_on p p'" unfolding assms(5) by blast
  with p(2) have "prop_status p' = Executed" by (auto simp: moves_on_def dest: executed_for_good cancelled_for_good)
  from executed_refuses [OF p'(1) this] show ?thesis by blast
qed

definition hw_queue :: "hw_label list" where
  "hw_queue = hw_setup @ hw_votes @ [((sample_host 120, sample_balances), G_queue 4 0)]"

lemma hw_queue_allowed: "allowed_run hw_allowed hw_step s hw_queue"
  by (simp add: hw_queue_def hw_setup_def hw_votes_def hw_allowed_def sample_balances_fine)

lemmas hw_queue_eval = queue_proposal_def tally_def finish_queue_def sdiv_nonneg_eq
lemmas hw_execute_eval = execute_proposal_def execute_proposal_type_def set_risk_params_def when_some_def validate_parameter_change_def

lemma hw_queue_executes: "fst (execute_proposal (sample_host 180) 5 0 (run hw_step empty_hw hw_queue)) = Ok ()"
  by (simp add: hw_queue_def hw_setup_def hw_votes_def hw_run_eval hw_core_eval hw_gov_eval hw_queue_eval hw_execute_eval)

lemma hw_queue_status:
  "map_option prop_status (GovProposal (run hw_step empty_hw hw_queue) 0) = Some Queued"
  by (simp add: hw_queue_def hw_setup_def hw_votes_def hw_run_eval hw_core_eval hw_gov_eval hw_queue_eval)

lemma hw_setup_creates:
  "map_option (\<lambda>p. (prop_type p, prop_status p)) (GovProposal (run hw_step empty_hw hw_setup) 0) = Some (MinCollateralRatio 12000, Pending)"
  by (simp add: hw_setup_def hw_run_eval hw_core_eval hw_gov_eval)

theorem proposals_follow_lifecycle_witness:
  "\<exists>p. GovProposal (run hw_step (run hw_step empty_hw hw_setup) (hw_votes @ [((sample_host 120, sample_balances), G_queue 4 0)])) 0 = Some p \<and>
     prop_type p = MinCollateralRatio 12000"
proof -
  obtain p where p: "GovProposal (run hw_step empty_hw hw_setup) 0 = Some p" "prop_type p = MinCollateralRatio 12000"
    using hw_setup_creates by auto
  have "allowed_run hw_allowed hw_step s (hw_votes @ [((sample_host 120, sample_balances), G_queue 4 0)])" for s
    by (simp add: hw_votes_def hw_allowed_def sample_balances_fine)
  from proposals_follow_lifecycle [OF hw_setup_allowed(1) refl p(1) this] obtain p' where
    "GovProposal (run hw_step (run hw_step empty_hw hw_setup) (hw_votes @ [((sample_host 120, sample_balances), G_queue 4 0)])) 0 = Some p'"
    and "same_terms p p'" by blast
  moreover from this(2) p(2) have "prop_type p' = MinCollateralRatio 12000" by (simp add: same_terms_def)
  ultimately show ?thesis by blast
qed

theorem proposals_execute_once_witness:
  "let t = snd (execute_proposal (sample_host 180) 5 0 (run hw_step empty_hw hw_queue))
   in fst (execute_proposal (sample_host 190) 5 0 (run hw_step t [((sample_host 185, sample_balances), G_cancel 9 0)])) \<noteq> Ok ()"
proof -
  let ?t = "snd (execute_proposal (sample_host 180) 5 0 (run hw_step empty_hw hw_queue))"
  have "allowed_run hw_allowed hw_step ?t [((sample_host 185, sample_balances), G_cancel 9 0)]"
    by (simp add: hw_allowed_def sample_balances_fine)
  from proposals_execute_once [OF hw_queue_allowed refl disjI1 [OF run_pair [OF hw_queue_executes]] this refl]
  show ?thesis unfolding Let_def by blast
qed

section \<open>The quorum\<close>

text \<open>The quorum is a share of the votes cast, so it is always reached.\<close>

lemma tally_reached:
  assumes "tally p c s = (Ok (q, reached, th, met), t)" and "quorum_bps c \<le> 10000"
    and "0 \<le> for_votes p + against_votes p + abstain_votes p"
  shows "reached"
proof -
  let ?n = "for_votes p + against_votes p + abstain_votes p"
  have "?n * int (quorum_bps c) \<le> ?n * 10000" using assms(2,3) by (intro mult_left_mono) simp_all
  then have "?n * int (quorum_bps c) div 10000 \<le> ?n * 10000 div 10000" by (rule zdiv_mono1) simp
  then have "?n * int (quorum_bps c) div 10000 \<le> ?n" by simp
  moreover have "?n * int (quorum_bps c) sdiv 10000 = ?n * int (quorum_bps c) div 10000"
    using assms(3) by (intro sdiv_nonneg_eq) simp_all
  ultimately show ?thesis using assms(1) by (auto simp: tally_def ok_simps Let_def BASIS_POINTS_SCALE_def)
qed

text \<open>A proposal nobody voted on has no votes recorded.\<close>

lemma pending_means_unvoted:
  assumes "hw_inv s" and "GovProposal s i = Some p" and "for_votes p = 0" and "against_votes p = 0" and "abstain_votes p = 0"
  shows "total_voting_power p = 0"
  using assms by (auto simp: hw_inv_def tallied_def)

text \<open>The quorum never stops a proposal: whatever is queued reports a reached quorum. A proposal nobody voted on is
  queued for execution once its voting period has ended, at the request of anyone who signs.\<close>

theorem quorum_is_vacuous:
  assumes "allowed_run hw_allowed hw_step empty_hw ls" and "s = run hw_step empty_hw ls"
    and "GovProposal s i = Some p" and "GovConfig s = Some c"
  shows "(\<forall>r t. queue_proposal h a i s = (Ok r, t) \<longrightarrow> quorum_reached r) \<and>
    (signed h a \<and> end_time p < now h \<and> now h \<le> end_time p + DEFAULT_TIMELOCK_DURATION \<and> now h + execution_delay c \<le> u64_max \<and>
     end_time p + DEFAULT_TIMELOCK_DURATION \<le> u64_max \<and> prop_status p \<in> {Pending, Active} \<and>
     for_votes p = 0 \<and> against_votes p = 0 \<and> abstain_votes p = 0 \<longrightarrow>
     (\<exists>r t p'. queue_proposal h a i s = (Ok r, t) \<and> succeeded r \<and>
        GovProposal t i = Some p' \<and> prop_status p' = Queued \<and> execution_time p' = Some (now h + execution_delay c)))"
proof (intro conjI allI impI)
  have inv: "hw_inv s" by (rule reachable_hw [OF assms(1,2)])
  with assms(4) have c: "quorum_bps c \<le> 10000" by (auto simp: hw_inv_def gov_ok_def)
  fix r t
  assume "queue_proposal h a i s = (Ok r, t)"
  then show "quorum_reached r"
  proof (cases rule: queue_proposal_Ok)
    case (1 c' p' q b th)
    then have "p' = p" "c' = c" using assms(3,4) by simp_all
    moreover have "0 \<le> for_votes p + against_votes p + abstain_votes p"
      using inv assms(3) votes_cast_nonneg [of s i] by (auto simp: hw_inv_def tallied_def)
    ultimately show ?thesis using tally_reached [OF 1(6)] c by simp
  qed
next
  assume h: "signed h a \<and> end_time p < now h \<and> now h \<le> end_time p + DEFAULT_TIMELOCK_DURATION \<and> now h + execution_delay c \<le> u64_max \<and>
     end_time p + DEFAULT_TIMELOCK_DURATION \<le> u64_max \<and> prop_status p \<in> {Pending, Active} \<and>
     for_votes p = 0 \<and> against_votes p = 0 \<and> abstain_votes p = 0"
  have "total_voting_power p = 0"
    by (rule pending_means_unvoted [OF reachable_hw [OF assms(1,2)] assms(3)]) (use h in simp_all)
  with h have tally: "tally p c s = (Ok (0, True, 0, True), s)"
    by (simp add: tally_def run_simps checked_defs BASIS_POINTS_SCALE_def sdiv_nonneg_eq)
  show "\<exists>r t p'. queue_proposal h a i s = (Ok r, t) \<and> succeeded r \<and>
        GovProposal t i = Some p' \<and> prop_status p' = Queued \<and> execution_time p' = Some (now h + execution_delay c)"
    using h assms(3,4) by (auto simp: queue_proposal_def run_simps load_config_def load_proposal_def tally finish_queue_def
        checked_add_u64_def save_proposal_def gov_publish_def not_less not_le)
qed

lemma hw_setup_config:
  "map_option (\<lambda>c. (execution_delay c, vote_token c)) (GovConfig (run hw_step empty_hw hw_setup)) = Some (50, 7)"
  "map_option (\<lambda>p. (end_time p, for_votes p, against_votes p, abstain_votes p)) (GovProposal (run hw_step empty_hw hw_setup) 0) =
     Some (110, 0, 0, 0)"
  by (simp_all add: hw_setup_def hw_run_eval hw_core_eval hw_gov_eval)

lemma u64_fits: "n \<le> 10000000 \<Longrightarrow> n \<le> u64_max"
  by (simp add: u64_max_def)

theorem quorum_is_vacuous_witness:
  "\<exists>r t p. queue_proposal (sample_host 120) 5 0 (run hw_step empty_hw hw_setup) = (Ok r, t) \<and> succeeded r \<and>
     GovProposal t 0 = Some p \<and> prop_status p = Queued"
proof -
  obtain c where c: "GovConfig (run hw_step empty_hw hw_setup) = Some c" "execution_delay c = 50"
    using hw_setup_config(1) by auto
  obtain p where p: "GovProposal (run hw_step empty_hw hw_setup) 0 = Some p" "prop_status p = Pending"
      "end_time p = 110" "for_votes p = 0" "against_votes p = 0" "abstain_votes p = 0"
    using hw_setup_creates hw_setup_config(2) by auto
  have "signed (sample_host 120) 5" "now (sample_host 120) = 120" by (simp_all add: sample_host_def)
  with c p quorum_is_vacuous [OF hw_setup_allowed(1) refl p(1) c(1), of "sample_host 120" 5]
  show ?thesis by (auto simp: DEFAULT_TIMELOCK_DURATION_def u64_fits)
qed

section \<open>Delegation\<close>

text \<open>C23: A delegation disables both sides: it succeeds only if neither has an entry under the shared key, and from then on
  a vote by the delegator traps, and so does every delegation to a delegator, while a delegatee can take no second
  delegation because its list of delegators is read as a delegation record.\<close>

theorem delegation_disables_both_sides:
  assumes "delegate_vote h a d s = (Ok (), t)"
  shows "DelegationRecordKey s a = None \<and> DelegationRecordKey s d = None \<and> fst (vote h' bal a i ty t) \<noteq> Ok () \<and>
     fst (delegate_vote h' e a t) \<noteq> Ok () \<and> fst (delegate_vote h' e d t) \<noteq> Ok ()"
proof -
  from assms have d: "a \<noteq> d" "DelegationRecordKey s a = None" "DelegationRecordKey s d = None"
    and t: "\<exists>r. DelegationRecordKey t a = Some (Made r)" "DelegationRecordKey t d = Some (Received [a])"
    by (auto simp: delegate_vote_def get_delegation_depth_def ok_simps gov_publish_def MAX_DELEGATION_DEPTH_def
        split: if_splits option.splits)
  have "fst (vote h' bal a i ty t) \<noteq> Ok ()"
    by (rule notI, drule run_pair)
       (use t(1) in \<open>auto simp: vote_def get_vote_power_with_delegation_def get_delegated_power_for_voter_def
          get_snapshotted_vote_power_def ok_simps Let_def split: option.splits\<close>)
  moreover have "fst (delegate_vote h' e a t) \<noteq> Ok ()"
    by (rule notI, drule run_pair) (use t(1) in \<open>auto simp: delegate_vote_def get_delegation_depth_def ok_simps split: if_splits\<close>)
  moreover have "fst (delegate_vote h' e d t) \<noteq> Ok ()"
    by (rule notI, drule run_pair) (use t(2) in \<open>auto simp: delegate_vote_def get_delegation_depth_def ok_simps split: if_splits\<close>)
  ultimately show ?thesis using d by blast
qed

lemma sample_delegation: "fst (delegate_vote (sample_host 5) 3 4 empty_hw) = Ok ()"
  by (simp add: hw_run_eval delegate_vote_def is_vote_locked_def get_delegation_depth_def read_made_def read_received_def)

theorem delegation_disables_both_sides_witness:
  "fst (vote (sample_host 9) sample_balances 3 0 For (snd (delegate_vote (sample_host 5) 3 4 empty_hw))) \<noteq> Ok ()"
  using delegation_disables_both_sides [OF run_pair [OF sample_delegation]] by blast

section \<open>Emergency proposals\<close>

text \<open>One multisig admin suffices for an emergency: without approvals, votes or delay, whatever the threshold, a
  proposal this admin creates is executed at the same ledger time, provided its change is one the protocol accepts.\<close>

theorem emergency_needs_one_admin:
  assumes "signed h a" and "MultisigConfigKey s = Some m" and "a \<in> set (ms_admins m)" and "GovConfig s = Some c"
    and "length d \<le> MAX_DESCRIPTION_LEN" and "unwrap_or (NextProposalId s) 0 < u64_max" and "now h + timelock_duration c \<le> u64_max"
  shows "\<exists>i s1. create_emergency_proposal h a ty d s = (Ok i, s1) \<and>
     (fst (execute_proposal_type h ty s1) = Ok () \<longrightarrow> fst (execute_proposal h a i s1) = Ok ())"
proof -
  let ?i = "unwrap_or (NextProposalId s) 0"
  let ?p = "queued_proposal h ?i a ty d (now h)"
  define s1 where "s1 = gov_publish (proposal_created ?i a) ((save_proposal ?i ?p s)\<lparr>NextProposalId := Some (?i + 1)\<rparr>)"
  have c: "create_emergency_proposal h a ty d s = (Ok ?i, s1)"
    using assms by (simp add: create_emergency_proposal_def run_simps checked_add_u64_def s1_def save_proposal_def not_less)
  have p: "GovProposal s1 ?i = Some ?p" "GovConfig s1 = Some c"
    using assms(4) by (simp_all add: s1_def save_proposal_def gov_publish_def)
  have "fst (execute_proposal h a ?i s1) = Ok ()" if "fst (execute_proposal_type h ty s1) = Ok ()"
    using assms(1,7) p that
    by (cases "execute_proposal_type h ty s1")
      (simp add: execute_proposal_def run_simps load_config_def load_proposal_def queued_proposal_def checked_add_u64_def)
  with c show ?thesis by blast
qed

lemma hw_setup_multisig: "MultisigConfigKey (run hw_step empty_hw hw_setup) = Some \<lparr>ms_admins = [9], ms_threshold = 1\<rparr>"
  by (simp add: hw_setup_def hw_run_eval hw_core_eval hw_gov_eval)

lemma hw_setup_limits:
  "\<exists>c. GovConfig (run hw_step empty_hw hw_setup) = Some c \<and> timelock_duration c \<le> 1000000"
  "unwrap_or (NextProposalId (run hw_step empty_hw hw_setup)) 0 \<le> 1"
  by (simp_all add: hw_setup_def hw_run_eval hw_core_eval hw_gov_eval)

lemma hw_setup_stops:
  "fst (execute_proposal_type (sample_host 50) (EmergencyPause True)
     (snd (create_emergency_proposal (sample_host 50) 9 (EmergencyPause True) ''stop'' (run hw_step empty_hw hw_setup)))) = Ok ()"
  by (simp add: hw_setup_def hw_run_eval hw_core_eval hw_gov_eval create_emergency_proposal_def queued_proposal_def
      execute_proposal_type_def set_emergency_pause_def rm_require_admin_def hw_require_admin_def)

theorem emergency_needs_one_admin_witness:
  "\<exists>i s1. create_emergency_proposal (sample_host 50) 9 (EmergencyPause True) ''stop'' (run hw_step empty_hw hw_setup) = (Ok i, s1) \<and>
     fst (execute_proposal (sample_host 50) 9 i s1) = Ok ()"
proof -
  obtain c where c: "GovConfig (run hw_step empty_hw hw_setup) = Some c" "timelock_duration c \<le> 1000000"
    using hw_setup_limits(1) by blast
  have "signed (sample_host 50) 9" "now (sample_host 50) = 50" by (simp_all add: sample_host_def)
  moreover have "50 + timelock_duration c \<le> u64_max" using c(2) by (intro u64_fits) simp
  moreover have "unwrap_or (NextProposalId (run hw_step empty_hw hw_setup)) 0 < u64_max"
    using hw_setup_limits(2) u64_fits [of 2] by simp
  ultimately obtain i s1 where i: "create_emergency_proposal (sample_host 50) 9 (EmergencyPause True) ''stop''
      (run hw_step empty_hw hw_setup) = (Ok i, s1)"
    "fst (execute_proposal_type (sample_host 50) (EmergencyPause True) s1) = Ok () \<longrightarrow> fst (execute_proposal (sample_host 50) 9 i s1) = Ok ()"
    using emergency_needs_one_admin [OF _ hw_setup_multisig _ c(1), of "sample_host 50" 9 "''stop''" "EmergencyPause True"]
    by (auto simp: MAX_DESCRIPTION_LEN_def)
  with hw_setup_stops show ?thesis by auto
qed

section \<open>Guardians and recovery\<close>

text \<open>What stays of an expired recovery request.\<close>

definition recovery_kept :: "gov_state \<Rightarrow> gov_state \<Rightarrow> bool" where
  "recovery_kept s t \<longleftrightarrow> (RecoveryRequestKey s \<noteq> None \<longrightarrow> RecoveryRequestKey t = RecoveryRequestKey s)"

interpretation recovery: frame_relation recovery_kept
  by unfold_locales (auto simp: recovery_kept_def)

definition same_recovery :: "gov_state \<Rightarrow> gov_state \<Rightarrow> bool" where
  "same_recovery s t \<longleftrightarrow> RecoveryRequestKey t = RecoveryRequestKey s"

interpretation rec: frame_relation same_recovery
  by unfold_locales (auto simp: same_recovery_def)

lemma recovery_writes:
  "same_recovery s (save_proposal i p s)" "same_recovery s (gov_publish e s)" "same_recovery s (core_publish e' s)"
  by (simp_all add: same_recovery_def save_proposal_def gov_publish_def core_publish_def)

lemma recovery_loads:
  "leads same_recovery load_config" "leads same_recovery (load_proposal i)" "leads same_recovery (gov_require_admin a)"
  "leads same_recovery load_guardians" "leads same_recovery (require_auth h a)" "leads same_recovery (get_delegation_depth a)"
  "leads same_recovery gov_get_admin" "leads same_recovery (hw_require_admin a)" "leads same_recovery (rm_require_admin a)"
  "leads same_recovery (tally p c)" "leads same_recovery (get_vote_power_with_delegation bal i v tok)"
  "leads same_recovery (or_default calculate_borrow_rate d)" "leads same_recovery (or_default calculate_supply_rate d)"
  by (auto simp: leads_def ok_simps get_delegation_depth_def rec.unchanged dest: tally_state power_state rate_reads_state
      split: option.splits)

lemma recovery_reads:
  "(\<And>x. leads same_recovery (k x)) \<Longrightarrow> leads same_recovery (read_made a k)"
  "(\<And>x. leads same_recovery (k2 x)) \<Longrightarrow> leads same_recovery (read_received a k2)"
  "leads same_recovery (check_param ok c)"
  "(\<And>v c. leads same_recovery (f v c)) \<Longrightarrow> leads same_recovery (when_some x f c')"
  by (auto simp: leads_def ok_simps rec.unchanged)

lemma recovery_vote_type:
  assumes "\<And>p. leads same_recovery (k p)"
  shows "leads same_recovery (tryM (case ty of For \<Rightarrow> unwrap a (\<lambda>n. ret (f n)) | Against \<Rightarrow> unwrap b (\<lambda>n. ret (g n))
            | Abstain \<Rightarrow> unwrap c (\<lambda>n. ret (e n))) k)"
  using assms by (cases ty) (auto intro!: rec.frame_rules)

lemmas recovery_rules = recovery_writes recovery_loads recovery_reads recovery_vote_type rec.frame_rules

lemma recovery_core:
  "leads same_recovery (set_risk_params h m l f i)" "leads same_recovery (set_emergency_pause h c p)"
  "leads same_recovery (update_interest_rate_config h c ip)" "leads same_recovery (set_pause_switch h c op p)"
  "leads same_recovery (hw_set_admin a c')"
  unfolding set_risk_params_def set_emergency_pause_def update_interest_rate_config_def set_pause_switch_def
    validate_parameter_change_def hw_set_admin_def
  by (intro recovery_rules; simp add: same_recovery_def)+

lemma recovery_calls:
  "leads same_recovery (hw_initialize h a)" "leads same_recovery (hw_transfer_admin c a)"
  "leads same_recovery (entry_set_risk_params h c m l f i)" "leads same_recovery (entry_set_emergency_pause h c p)"
  "leads same_recovery (hw_update_interest_rate_config h c ip)" "leads same_recovery (update_lending_index h)"
  unfolding hw_initialize_def initialize_risk_management_def initialize_risk_params_def initialize_interest_rate_config_def
    hw_transfer_admin_def entry_set_risk_params_def entry_set_emergency_pause_def hw_update_interest_rate_config_def
    update_lending_index_def
  by (intro recovery_core recovery_rules; simp add: same_recovery_def)+

lemma recovery_execute_type: "leads same_recovery (execute_proposal_type h ty)"
  unfolding execute_proposal_type_def by (cases ty) (auto intro!: recovery_core recovery_rules)

lemma recovery_gov_calls:
  "leads same_recovery (gov_initialize h a tok vp ed qb pt td dvt)" "leads same_recovery (create_proposal h bal a ty d th)"
  "leads same_recovery (vote h bal a i vt)" "leads same_recovery (queue_proposal h a i)"
  "leads same_recovery (simulate_proposal h i)" "leads same_recovery (get_parameter_optimization_recommendation h)"
  "leads same_recovery (execute_proposal h a i)" "leads same_recovery (create_admin_proposal h a ty d)"
  "leads same_recovery (create_emergency_proposal h a ty d)" "leads same_recovery (cancel_proposal h a i)"
  "leads same_recovery (approve_proposal h a i)" "leads same_recovery (set_multisig_config h a as n)"
  "leads same_recovery (execute_multisig_proposal h a i)" "leads same_recovery (add_guardian h a g)"
  "leads same_recovery (remove_guardian h a g)" "leads same_recovery (set_guardian_threshold h a n)"
  "leads same_recovery (approve_recovery h a)" "leads same_recovery (take_vote_power_snapshot h bal i a tok)"
  "leads same_recovery (delegate_vote h a e)" "leads same_recovery (revoke_delegation h a)"
  unfolding gov_initialize_def create_proposal_def vote_def queue_proposal_def finish_queue_def simulate_proposal_def
    compute_simulation_def get_parameter_optimization_recommendation_def execute_proposal_def create_admin_proposal_def
    create_emergency_proposal_def cancel_proposal_def approve_proposal_def set_multisig_config_def execute_multisig_proposal_def
    add_guardian_def remove_guardian_def set_guardian_threshold_def approve_recovery_def take_vote_power_snapshot_def
    delegate_vote_def revoke_delegation_def
  by (intro recovery_execute_type recovery_rules; simp add: same_recovery_def)+

lemma same_recovery_kept: "leads same_recovery m \<Longrightarrow> leads recovery_kept m"
  by (erule leads_mono) (simp add: same_recovery_def recovery_kept_def)

lemma start_recovery_kept: "leads recovery_kept (start_recovery h g old new)"
  by (rule leadsI) (auto simp: start_recovery_def ok_simps recovery_kept_def)

lemma execute_recovery_late:
  "RecoveryRequestKey s = Some r \<Longrightarrow> expires_at r < now h \<Longrightarrow> fst (execute_recovery h a s) \<noteq> Ok u"
  by (rule notI, drule run_pair) (auto simp: execute_recovery_def ok_simps)

lemma not_ok_undone: "\<forall>a. fst (m s) \<noteq> Ok a \<Longrightarrow> hw_after m s = s"
  by (auto simp: hw_after_def invoke_def split: prod.splits res.splits)

lemma expired_recovery_step:
  assumes "RecoveryRequestKey s = Some r" and "expires_at r < now (fst (fst l))"
  shows "RecoveryRequestKey (hw_step l s) = Some r"
proof (cases "\<exists>a. snd l = G_execute_recovery a")
  case True
  with assms show ?thesis by (auto simp: hw_step_def not_ok_undone execute_recovery_late)
next
  case False
  then have "recovery_kept s (hw_step l s)" unfolding hw_step_def
    by (cases "snd l") (simp_all add: hw_after_def recovery.leads_invoke start_recovery_kept
        recovery_calls [THEN same_recovery_kept] recovery_gov_calls [THEN same_recovery_kept])
  with assms(1) show ?thesis by (simp add: recovery_kept_def)
qed

lemma expired_recovery_run:
  "RecoveryRequestKey s = Some r \<Longrightarrow> \<forall>l\<in>set ls. expires_at r < now (fst (fst l)) \<Longrightarrow>
     RecoveryRequestKey (run hw_step s ls) = Some r"
  by (induction ls arbitrary: s) (simp_all add: expired_recovery_step)

text \<open>A recovery request that has expired blocks the guardians for ever: no later call removes it, since the call that
  would remove it returns an error and is undone, so no recovery can be started or executed again.\<close>

theorem expired_recovery_blocks_guardians:
  assumes "RecoveryRequestKey s = Some r" and "\<forall>l\<in>set ls. expires_at r < now (fst (fst l))"
    and "expires_at r < now h" and "t = run hw_step s ls"
  shows "RecoveryRequestKey t = Some r \<and> fst (start_recovery h g old new t) \<noteq> Ok () \<and> fst (execute_recovery h a t) \<noteq> Ok ()"
proof -
  from expired_recovery_run [OF assms(1,2)] have r: "RecoveryRequestKey t = Some r" by (simp add: assms(4))
  have "fst (start_recovery h g old new t) \<noteq> Ok ()"
    by (rule notI, drule run_pair) (use r in \<open>auto simp: start_recovery_def ok_simps\<close>)
  with r execute_recovery_late [OF r assms(3)] show ?thesis by blast
qed

definition hw_recovery :: "hw_label list" where
  "hw_recovery = hw_setup @ [((sample_host 20, sample_balances), G_add_guardian 9 5),
     ((sample_host 30, sample_balances), G_start_recovery 5 9 6)]"

lemma hw_recovery_started:
  "map_option expires_at (RecoveryRequestKey (run hw_step empty_hw hw_recovery)) = Some 259230"
  by (simp add: hw_recovery_def hw_setup_def hw_run_eval hw_core_eval hw_gov_eval add_guardian_def start_recovery_def)

theorem expired_recovery_blocks_guardians_witness:
  "fst (start_recovery (sample_host 300000) 5 9 6 (run hw_step (run hw_step empty_hw hw_recovery)
     [((sample_host 260000, sample_balances), G_execute_recovery 5)])) \<noteq> Ok ()"
proof -
  obtain r where r: "RecoveryRequestKey (run hw_step empty_hw hw_recovery) = Some r" "expires_at r = 259230"
    using hw_recovery_started by auto
  from expired_recovery_blocks_guardians [OF r(1) _ _ refl, where h = "sample_host 300000"
      and ls = "[((sample_host 260000, sample_balances), G_execute_recovery 5)]"] r(2)
  show ?thesis by (simp add: sample_host_def)
qed

section \<open>Risk parameters\<close>

definition tenth_step :: "RiskParams \<Rightarrow> RiskParams \<Rightarrow> bool" where
  "tenth_step p p' \<longleftrightarrow> small_change (rp_min_collateral_ratio p) (rp_min_collateral_ratio p') \<and>
     small_change (rp_liquidation_threshold p) (rp_liquidation_threshold p') \<and>
     small_change (rp_close_factor p) (rp_close_factor p') \<and>
     small_change (rp_liquidation_incentive p) (rp_liquidation_incentive p')"

text \<open>Parameters exist only once an admin does, and move by tenths.\<close>

definition params_follow :: "gov_state \<Rightarrow> gov_state \<Rightarrow> bool" where
  "params_follow s t \<longleftrightarrow> (AdminKey s = None \<longrightarrow> RiskParamsConfig s = None) \<longrightarrow>
     (AdminKey t = None \<longrightarrow> RiskParamsConfig t = None) \<and>
     (\<forall>p. RiskParamsConfig s = Some p \<longrightarrow> (\<exists>p'. RiskParamsConfig t = Some p' \<and> tenth_step p p'))"

lemma tenth_step_refl: "tenth_step p p"
  by (simp add: tenth_step_def small_change_def)

lemma same_core_follow: "same_core s t \<Longrightarrow> params_follow s t"
  by (auto simp: same_core_def params_follow_def intro: tenth_step_refl)

lemma follow_mono: "leads same_core m \<Longrightarrow> leads params_follow m"
  by (erule leads_mono) (rule same_core_follow)

lemma params_follow_refl: "params_follow s s"
  by (simp add: same_core_follow core.unchanged)

lemma set_risk_params_follow: "set_risk_params h m l f i s = (Ok u, t) \<Longrightarrow> params_follow s t"
  by (erule set_risk_params_Ok) (auto simp: params_follow_def tenth_step_def)

lemma same_params_follow:
  "RiskParamsConfig t = RiskParamsConfig s \<Longrightarrow> AdminKey s \<noteq> None \<Longrightarrow> AdminKey t \<noteq> None \<Longrightarrow> params_follow s t"
  by (auto simp: params_follow_def intro: tenth_step_refl)

lemma core_calls_follow:
  "leads params_follow (hw_initialize h a)" "leads params_follow (hw_transfer_admin c a)"
  "leads params_follow (entry_set_risk_params h c m l f i)" "leads params_follow (entry_set_emergency_pause h c p)"
  "leads params_follow (hw_update_interest_rate_config h c ip)"
proof -
  show "leads params_follow (hw_initialize h a)"
    by (rule leadsI) (auto simp: hw_initialize_def initialize_risk_management_def initialize_risk_params_def
        initialize_interest_rate_config_def ok_simps params_follow_def Let_def has_admin_def)
  show "leads params_follow (hw_transfer_admin c a)"
    by (rule leadsI) (auto simp: hw_transfer_admin_def ok_simps params_follow_def intro: tenth_step_refl)
  show "leads params_follow (entry_set_risk_params h c m l f i)"
    by (rule leadsI) (auto simp: entry_set_risk_params_def ok_simps dest: set_risk_params_follow)
  show "leads params_follow (entry_set_emergency_pause h c p)"
    by (rule leadsI) (auto simp: entry_set_emergency_pause_def ok_simps intro!: same_params_follow)
  show "leads params_follow (hw_update_interest_rate_config h c ip)"
    by (rule leadsI) (auto simp: hw_update_interest_rate_config_def ok_simps elim!: update_interest_rate_config_Ok intro!: same_params_follow)
qed

lemma index_same_core: "core_ok s \<Longrightarrow> update_lending_index h s = (r, t) \<Longrightarrow> t = s"
  using update_lending_index_unset [of s h] by (simp add: core_ok_def)

lemma execute_type_follow: "execute_proposal_type h ty s = (Ok u, s1) \<Longrightarrow> same_core s1 t \<Longrightarrow> params_follow s t"
proof -
  assume ex: "execute_proposal_type h ty s = (Ok u, s1)" and same: "same_core s1 t"
  have "(\<exists>m l f i. set_risk_params h m l f i s = (Ok (), s1)) \<or>
      RiskParamsConfig s1 = RiskParamsConfig s \<and> AdminKey s \<noteq> None \<and> AdminKey s1 \<noteq> None"
    using ex by (cases ty)
      (auto simp: execute_proposal_type_def ok_simps elim!: set_pause_switch_Ok update_interest_rate_config_Ok)
  then have "params_follow s s1"
    by (auto intro: same_params_follow dest: set_risk_params_follow)
  moreover have "RiskParamsConfig t = RiskParamsConfig s1" "AdminKey t = AdminKey s1"
    using same by (simp_all add: same_core_def)
  ultimately show "params_follow s t" unfolding params_follow_def by (simp only:)
qed

lemma executions_follow: "leads params_follow (execute_proposal h a i)" "leads params_follow (execute_multisig_proposal h a i)"
  by (rule executions_lead, erule (1) execute_type_follow)+

lemma exec_hw_follow: "core_ok s \<Longrightarrow> params_follow s (exec_hw h bal c s)"
proof -
  assume s: "core_ok s"
  have "params_follow s (hw_after (update_lending_index h) s)"
    using s update_lending_index_unset [of s h]
    by (simp add: hw_after_def invoke_def core_ok_def params_follow_refl)
  then show ?thesis
    by (cases c) (simp_all add: hw_after_def leads_after params_follow_refl core_calls_follow
        executions_follow gov_calls_same_core [THEN follow_mono])
qed

lemma params_follow_admin:
  "AdminKey s = None \<longrightarrow> RiskParamsConfig s = None \<Longrightarrow> core_ok s \<Longrightarrow>
     AdminKey (hw_step l s) = None \<longrightarrow> RiskParamsConfig (hw_step l s) = None"
  using exec_hw_follow [of s "fst (fst l)" "snd (fst l)" "snd l"] by (simp add: hw_step_def params_follow_def)

interpretation params_machine: invariant_machine hw_step empty_hw hw_allowed
  "\<lambda>s. core_ok s \<and> (AdminKey s = None \<longrightarrow> RiskParamsConfig s = None)"
proof unfold_locales
  show "core_ok empty_hw \<and> (AdminKey empty_hw = None \<longrightarrow> RiskParamsConfig empty_hw = None)"
    using hw_machine.inv_start by (simp add: hw_inv_def empty_hw_def)
next
  fix s l
  assume "core_ok s \<and> (AdminKey s = None \<longrightarrow> RiskParamsConfig s = None)" and "hw_allowed s l"
  then show "core_ok (hw_step l s) \<and> (AdminKey (hw_step l s) = None \<longrightarrow> RiskParamsConfig (hw_step l s) = None)"
    using params_follow_admin [of s l] exec_hw_core [of s "fst (fst l)" "snd (fst l)" "snd l"] by (simp add: hw_step_def)
qed

text \<open>In every reachable storage the risk parameters are in range, the minimum ratio is at least the liquidation
  threshold, and a single call, whether by the admin, by a proposal or by the multisig, changes each parameter by at most a tenth.\<close>

theorem risk_params_stay_in_range:
  assumes "allowed_run hw_allowed hw_step empty_hw ls" and "s = run hw_step empty_hw ls" and "RiskParamsConfig s = Some p"
  shows "10000 \<le> rp_min_collateral_ratio p \<and> rp_min_collateral_ratio p \<le> 50000 \<and>
     10000 \<le> rp_liquidation_threshold p \<and> rp_liquidation_threshold p \<le> rp_min_collateral_ratio p \<and>
     0 \<le> rp_close_factor p \<and> rp_close_factor p \<le> 10000 \<and> 0 \<le> rp_liquidation_incentive p \<and> rp_liquidation_incentive p \<le> 5000 \<and>
     (\<exists>p'. RiskParamsConfig (hw_step l s) = Some p' \<and> tenth_step p p')"
proof -
  have inv: "core_ok s \<and> (AdminKey s = None \<longrightarrow> RiskParamsConfig s = None)"
    unfolding assms(2) by (rule params_machine.inv_run [OF assms(1)])
  with assms(3) have v: "validate_risk_params p = Inr ()" by (simp add: core_ok_def)
  then have "10000 \<le> rp_min_collateral_ratio p \<and> rp_min_collateral_ratio p \<le> 50000"
    and "10000 \<le> rp_liquidation_threshold p \<and> rp_liquidation_threshold p \<le> rp_min_collateral_ratio p"
    and "0 \<le> rp_close_factor p \<and> rp_close_factor p \<le> 10000 \<and> 0 \<le> rp_liquidation_incentive p \<and> rp_liquidation_incentive p \<le> 5000"
    by (auto simp: validate_risk_params_def hw_consts split: if_splits)
  moreover from inv assms(3) exec_hw_follow [of s "fst (fst l)" "snd (fst l)" "snd l"]
  have "\<exists>p'. RiskParamsConfig (hw_step l s) = Some p' \<and> tenth_step p p'"
    by (simp add: params_follow_def hw_step_def)
  ultimately show ?thesis by blast
qed

lemma hw_setup_params: "RiskParamsConfig (run hw_step empty_hw hw_setup) \<noteq> None"
  by (simp add: hw_setup_def hw_run_eval hw_core_eval hw_gov_eval)

theorem risk_params_stay_in_range_witness:
  "\<exists>p'. RiskParamsConfig (hw_step ((sample_host 5, sample_balances), H_set_risk_params 9 (Some 12100) None None None)
     (run hw_step empty_hw hw_setup)) = Some p'"
proof -
  from hw_setup_params obtain p where "RiskParamsConfig (run hw_step empty_hw hw_setup) = Some p" by auto
  from risk_params_stay_in_range [OF hw_setup_allowed(1) refl this] show ?thesis by blast
qed

section \<open>The interest index\<close>

text \<open>The compound index never moves: in every reachable storage it was never written, its update returns the start
  value and stores nothing, and interest computed from it is zero.\<close>

theorem interest_index_never_moves:
  assumes "allowed_run hw_allowed hw_step empty_hw ls" and "s = run hw_step empty_hw ls"
  shows "update_lending_index h s = (Ok \<lparr>borrow_index = INDEX_SCALE, supply_index = INDEX_SCALE, li_last_update = now h\<rparr>, s) \<and>
    get_lending_index h s = \<lparr>borrow_index = INDEX_SCALE, supply_index = INDEX_SCALE, li_last_update = now h\<rparr> \<and>
    compute_index_interest d INDEX_SCALE (borrow_index (get_lending_index h s)) s = (Ok 0, s)"
proof -
  have "LendingIndexKey s = None" using reachable_hw [OF assms] by (simp add: hw_inv_def core_ok_def)
  then show ?thesis
    by (simp add: update_lending_index_unset get_lending_index_def compute_index_interest_def)
qed

theorem interest_index_never_moves_witness:
  "borrow_index (get_lending_index (sample_host 1000) (run hw_step empty_hw (hw_setup @ [((sample_host 500, sample_balances), H_update_index)]))) = INDEX_SCALE"
proof -
  have "allowed_run hw_allowed hw_step empty_hw (hw_setup @ [((sample_host 500, sample_balances), H_update_index)])"
    by (simp add: hw_setup_def hw_allowed_def sample_balances_fine)
  from interest_index_never_moves [OF this refl, of "sample_host 1000"] show ?thesis by simp
qed

section \<open>Signatures\<close>

text \<open>C24: The calls of the core check no signature: whatever was signed, transferring the administration, setting the risk
  parameters, the emergency pause and the rate model do the same; naming the stored admin is enough to replace it.\<close>

theorem core_calls_ignore_signatures:
  "(c \<in> {H_initialize a, H_transfer_admin a n, H_set_risk_params a m l f i, H_set_emergency_pause a p, H_update_rates a ip} \<longrightarrow>
     exec_hw (h\<lparr>signed := auth\<rparr>) bal c s = exec_hw h bal c s) \<and>
   (AdminKey s = Some a \<longrightarrow> AdminKey (exec_hw h bal (H_transfer_admin a n) s) = Some n)"
proof (intro conjI impI)
  assume "c \<in> {H_initialize a, H_transfer_admin a n, H_set_risk_params a m l f i, H_set_emergency_pause a p, H_update_rates a ip}"
  then show "exec_hw (h\<lparr>signed := auth\<rparr>) bal c s = exec_hw h bal c s"
    by (auto simp: hw_initialize_def initialize_risk_management_def initialize_risk_params_def entry_set_risk_params_def
        set_risk_params_def entry_set_emergency_pause_def set_emergency_pause_def hw_update_interest_rate_config_def
        update_interest_rate_config_def cong: if_cong)
next
  assume "AdminKey s = Some a"
  then show "AdminKey (exec_hw h bal (H_transfer_admin a n) s) = Some n"
    by (simp add: hw_after_def invoke_def map_err_def hw_transfer_admin_def hw_set_admin_def run_simps)
qed

theorem core_calls_ignore_signatures_witness:
  "AdminKey (exec_hw ((sample_host 5)\<lparr>signed := \<lambda>_. False\<rparr>) sample_balances (H_transfer_admin 9 6) (empty_hw\<lparr>AdminKey := Some 9\<rparr>)) = Some 6"
  using core_calls_ignore_signatures [where a = 9 and n = 6 and h = "(sample_host 5)\<lparr>signed := \<lambda>_. False\<rparr>"
      and bal = sample_balances and s = "empty_hw\<lparr>AdminKey := Some 9\<rparr>"]
  by (simp add: empty_hw_def)

end
