(* ===== verification/HW_Timelock.thy ===== *)
theory HW_Timelock
  imports HW_Properties
begin

text \<open>
  The protocol contract's timelock (\<open>hello-world/src/timelock.rs\<close>): operations are queued with a delay, executed in a
  window after it, or cancelled. Its entries lie beside governance's.
\<close>

section \<open>Data\<close>

definition TL_MIN_DELAY :: u64 where "TL_MIN_DELAY = 7200"
definition TL_MAX_DELAY :: u64 where "TL_MAX_DELAY = 172800"
definition TL_DEFAULT_DELAY :: u64 where "TL_DEFAULT_DELAY = 86400"

datatype TimelockStatus = TLPending | TLReady | TLExecuted | TLCancelled | TLExpired

record TimelockOperation =
  op_id :: u64
  op_type :: ProposalType
  op_description :: string
  op_proposer :: address
  queued_at :: u64
  ready_at :: u64
  op_expires_at :: u64
  op_status :: TimelockStatus
  op_delay :: u64

record TimelockConfig =
  min_delay :: u64
  max_delay :: u64
  default_delay :: u64
  grace_period :: u64

definition default_timelock_config :: TimelockConfig where
  "default_timelock_config = \<lparr>min_delay = TL_MIN_DELAY, max_delay = TL_MAX_DELAY, default_delay = TL_DEFAULT_DELAY,
     grace_period = 86400\<rparr>"

datatype timelock_event =
  TimelockQueuedEvent u64 address u64 u64 u64 u64
| TimelockExecutedEvent u64 address u64
| TimelockCancelledEvent u64 address u64

record timelock_state = gov_state +
  TimelockConfigKey :: "TimelockConfig option"
  NextTimelockId :: "u64 option"
  TimelockOp :: "u64 \<Rightarrow> TimelockOperation option"
  timelock_log :: "timelock_event list"

type_synonym 'a timelock_fn = "(timelock_state, GovernanceError, 'a) contract_fn"

definition tl_publish :: "timelock_event \<Rightarrow> timelock_state \<Rightarrow> timelock_state" where
  "tl_publish e s = s\<lparr>timelock_log := timelock_log s @ [e]\<rparr>"

definition save_op :: "u64 \<Rightarrow> TimelockOperation \<Rightarrow> timelock_state \<Rightarrow> timelock_state" where
  "save_op i p s = s\<lparr>TimelockOp := (TimelockOp s)(i \<mapsto> p)\<rparr>"

section \<open>Operations\<close>

definition bad_timelock_config :: "TimelockConfig \<Rightarrow> bool" where
  "bad_timelock_config c \<longleftrightarrow> min_delay c > max_delay c \<or> default_delay c < min_delay c \<or> default_delay c > max_delay c"

definition initialize_timelock :: "TimelockConfig \<Rightarrow> unit timelock_fn" where
  "initialize_timelock c =
     fail_if (bad_timelock_config c) InvalidTimelockConfig (
     writes (\<lambda>s. s\<lparr>TimelockConfigKey := Some c\<rparr>) (
     writes (\<lambda>s. s\<lparr>NextTimelockId := Some 0\<rparr>)
     (ret ())))"

definition get_timelock_config :: "timelock_state \<Rightarrow> TimelockConfig" where
  "get_timelock_config s = unwrap_or (TimelockConfigKey s) default_timelock_config"

definition queue_timelock_operation :: "host \<Rightarrow> address \<Rightarrow> ProposalType \<Rightarrow> string \<Rightarrow> u64 option \<Rightarrow> u64 timelock_fn" where
  "queue_timelock_operation h proposer ptype descr custom_delay =
     tryM (require_auth h proposer) (\<lambda>_.
     reads get_timelock_config (\<lambda>c.
     let delay = unwrap_or custom_delay (default_delay c) in
     fail_if (delay < min_delay c \<or> delay > max_delay c) InvalidTimelockDelay (
     reads (\<lambda>s. unwrap_or (NextTimelockId s) 0) (\<lambda>i.
     unwrap (checked_add_u64 (now h) delay) (\<lambda>ready.
     unwrap (checked_add_u64 ready (grace_period c)) (\<lambda>stop.
     writes (save_op i \<lparr>op_id = i, op_type = ptype, op_description = descr, op_proposer = proposer, queued_at = now h,
                        ready_at = ready, op_expires_at = stop, op_status = TLPending, op_delay = delay\<rparr>) (
     unwrap (checked_add_u64 i 1) (\<lambda>n.
     writes (\<lambda>s. s\<lparr>NextTimelockId := Some n\<rparr>) (
     writes (tl_publish (TimelockQueuedEvent i proposer ready stop delay (now h)))
     (ret i))))))))))"

definition tl_get_admin :: "address timelock_fn" where
  "tl_get_admin = reads GovAdmin (\<lambda>x. ok_or x GovernanceError.NotInitialized ret)"

definition tl_execute_proposal_type :: "host \<Rightarrow> ProposalType \<Rightarrow> unit timelock_fn" where
  "tl_execute_proposal_type h ptype =
     (case ptype of
        MinCollateralRatio ratio \<Rightarrow> map_err (\<lambda>_. ExecutionFailed) (set_risk_params h (Some ratio) None None None)
      | RiskParamsChange mcr lt cf li \<Rightarrow> map_err (\<lambda>_. ExecutionFailed) (set_risk_params h mcr lt cf li)
      | InterestRateChange p \<Rightarrow>
          tryM tl_get_admin (\<lambda>admin. map_err (\<lambda>_. ExecutionFailed) (update_interest_rate_config h admin p))
      | PauseSwitch op paused \<Rightarrow>
          tryM tl_get_admin (\<lambda>admin. map_err (\<lambda>_. ExecutionFailed) (set_pause_switch h admin op paused))
      | EmergencyPause paused \<Rightarrow>
          tryM tl_get_admin (\<lambda>admin. map_err (\<lambda>_. ExecutionFailed) (set_emergency_pause h admin paused))
      | GenericAction _ \<Rightarrow> fail InvalidProposalType)"

definition load_op :: "u64 \<Rightarrow> TimelockOperation timelock_fn" where
  "load_op i = reads (\<lambda>s. TimelockOp s i) (\<lambda>x. ok_or x TimelockNotFound ret)"

definition execute_timelock_operation :: "host \<Rightarrow> address \<Rightarrow> u64 \<Rightarrow> unit timelock_fn" where
  "execute_timelock_operation h executor i =
     tryM (require_auth h executor) (\<lambda>_.
     tryM (load_op i) (\<lambda>p.
     fail_if (op_status p \<noteq> TLPending \<and> op_status p \<noteq> TLReady) InvalidTimelockStatus (
     fail_if (now h < ready_at p) TimelockNotReady (
     if now h > op_expires_at p then
       writes (save_op i (p\<lparr>op_status := TLExpired\<rparr>)) (fail TimelockExpired)
     else
     tryM (tl_execute_proposal_type h (op_type p)) (\<lambda>_.
     writes (save_op i (p\<lparr>op_status := TLExecuted\<rparr>)) (
     writes (tl_publish (TimelockExecutedEvent i executor (now h)))
     (ret ())))))))"

definition cancel_timelock_operation :: "host \<Rightarrow> address \<Rightarrow> u64 \<Rightarrow> unit timelock_fn" where
  "cancel_timelock_operation h caller i =
     tryM (require_auth h caller) (\<lambda>_.
     tryM (load_op i) (\<lambda>p.
     tryM tl_get_admin (\<lambda>admin.
     fail_if (caller \<noteq> op_proposer p \<and> caller \<noteq> admin) GovernanceError.Unauthorized (
     fail_if (op_status p \<noteq> TLPending \<and> op_status p \<noteq> TLReady) InvalidTimelockStatus (
     writes (save_op i (p\<lparr>op_status := TLCancelled\<rparr>)) (
     writes (tl_publish (TimelockCancelledEvent i caller (now h)))
     (ret ())))))))"

definition get_timelock_operation :: "timelock_state \<Rightarrow> u64 \<Rightarrow> TimelockOperation option" where
  "get_timelock_operation s i = TimelockOp s i"

text \<open>\<open>for id in 0..next_id\<close>\<close>

definition get_pending_timelock_operations :: "timelock_state \<Rightarrow> TimelockOperation list" where
  "get_pending_timelock_operations s =
     filter (\<lambda>p. op_status p = TLPending \<or> op_status p = TLReady)
       (List.map_filter (get_timelock_operation s) [0..<unwrap_or (NextTimelockId s) 0])"

definition update_timelock_config :: "host \<Rightarrow> address \<Rightarrow> TimelockConfig \<Rightarrow> unit timelock_fn" where
  "update_timelock_config h admin c =
     tryM (require_auth h admin) (\<lambda>_.
     tryM tl_get_admin (\<lambda>stored.
     fail_if (admin \<noteq> stored) GovernanceError.Unauthorized (
     fail_if (bad_timelock_config c) InvalidTimelockConfig (
     writes (\<lambda>s. s\<lparr>TimelockConfigKey := Some c\<rparr>)
     (ret ())))))"

section \<open>Facts\<close>

definition same_ops :: "timelock_state \<Rightarrow> timelock_state \<Rightarrow> bool" where
  "same_ops s t \<longleftrightarrow> TimelockOp t = TimelockOp s \<and> NextTimelockId t = NextTimelockId s"

lemma tl_get_admin_Ok [ok_simps]: "tl_get_admin s = (Ok a, t) \<longleftrightarrow> GovAdmin s = Some a \<and> t = s"
  by (auto simp: tl_get_admin_def ok_simps)

lemma load_op_Ok [ok_simps]: "load_op i s = (Ok p, t) \<longleftrightarrow> TimelockOp s i = Some p \<and> t = s"
  by (auto simp: load_op_def ok_simps)

lemma tl_execute_same: "tl_execute_proposal_type h ty s = (Ok u, t) \<Longrightarrow> same_ops s t"
  by (cases ty)
     (auto simp: tl_execute_proposal_type_def ok_simps core_publish_def same_ops_def
       elim!: set_risk_params_Ok set_pause_switch_Ok update_interest_rate_config_Ok)

lemma queue_op_Ok:
  assumes "queue_timelock_operation h a ty d c s = (Ok i, t)"
  obtains p where "i = unwrap_or (NextTimelockId s) 0" "signed h a" "op_id p = i" "op_status p = TLPending" "queued_at p = now h"
    "ready_at p = queued_at p + op_delay p" "min_delay (get_timelock_config s) \<le> op_delay p" "op_delay p \<le> max_delay (get_timelock_config s)"
    "TimelockOp t = (TimelockOp s)(i \<mapsto> p)" "NextTimelockId t = Some (i + 1)"
  using assms by (intro that [of "the (TimelockOp t i)"])
    (auto simp: queue_timelock_operation_def ok_simps Let_def save_op_def tl_publish_def checked_add_u64_def not_less split: if_splits)

lemma execute_op_Ok:
  assumes "execute_timelock_operation h a i s = (Ok u, t)"
  obtains p s1 where "signed h a" "TimelockOp s i = Some p" "op_status p = TLPending \<or> op_status p = TLReady"
    "ready_at p \<le> now h" "now h \<le> op_expires_at p" "tl_execute_proposal_type h (op_type p) s = (Ok (), s1)"
    "TimelockOp t = (TimelockOp s)(i \<mapsto> p\<lparr>op_status := TLExecuted\<rparr>)" "NextTimelockId t = NextTimelockId s"
proof -
  from assms obtain p s1 where p: "signed h a" "TimelockOp s i = Some p" "op_status p = TLPending \<or> op_status p = TLReady"
    "ready_at p \<le> now h" "now h \<le> op_expires_at p" "tl_execute_proposal_type h (op_type p) s = (Ok (), s1)"
    and t: "t = tl_publish (TimelockExecutedEvent i a (now h)) (save_op i (p\<lparr>op_status := TLExecuted\<rparr>) s1)"
    by (auto simp: execute_timelock_operation_def ok_simps not_less split: if_splits)
  from tl_execute_same [OF p(6)] show thesis
    by (intro that [OF p]) (simp_all add: t same_ops_def tl_publish_def save_op_def)
qed

lemma cancel_op_Ok:
  assumes "cancel_timelock_operation h a i s = (Ok u, t)"
  obtains p where "signed h a" "TimelockOp s i = Some p" "op_status p = TLPending \<or> op_status p = TLReady"
    "TimelockOp t = (TimelockOp s)(i \<mapsto> p\<lparr>op_status := TLCancelled\<rparr>)" "NextTimelockId t = NextTimelockId s"
  using assms by (auto simp: cancel_timelock_operation_def ok_simps save_op_def tl_publish_def intro: that)

section \<open>The module as a machine\<close>

datatype timelock_call =
  TL_initialize TimelockConfig
| TL_queue address ProposalType string "u64 option"
| TL_execute address u64
| TL_cancel address u64
| TL_update address TimelockConfig

fun exec_timelock :: "host \<Rightarrow> timelock_call \<Rightarrow> timelock_state \<Rightarrow> timelock_state" where
  "exec_timelock h (TL_initialize c) s = snd (invoke (initialize_timelock c) s)"
| "exec_timelock h (TL_queue a ty d c) s = snd (invoke (queue_timelock_operation h a ty d c) s)"
| "exec_timelock h (TL_execute a i) s = snd (invoke (execute_timelock_operation h a i) s)"
| "exec_timelock h (TL_cancel a i) s = snd (invoke (cancel_timelock_operation h a i) s)"
| "exec_timelock h (TL_update a c) s = snd (invoke (update_timelock_config h a c) s)"

definition timelock_step :: "host \<times> timelock_call \<Rightarrow> timelock_state \<Rightarrow> timelock_state" where
  "timelock_step l s = exec_timelock (fst l) (snd l) s"

definition fresh_timelock :: "gov_state \<Rightarrow> timelock_state" where
  "fresh_timelock g = gov_state.extend g
     \<lparr>TimelockConfigKey = None, NextTimelockId = None, TimelockOp = (\<lambda>_. None), timelock_log = []\<rparr>"

text \<open>The counter is set up once.\<close>

fun initialized_once :: "timelock_state \<Rightarrow> host \<times> timelock_call \<Rightarrow> bool" where
  "initialized_once s (h, TL_initialize c) = (NextTimelockId s = None)"
| "initialized_once s l = True"

definition ops_ok :: "timelock_state \<Rightarrow> bool" where
  "ops_ok s \<longleftrightarrow> (\<forall>i p. TimelockOp s i = Some p \<longrightarrow>
     i < unwrap_or (NextTimelockId s) 0 \<and> op_id p = i \<and> ready_at p = queued_at p + op_delay p \<and>
     op_status p \<noteq> TLReady \<and> op_status p \<noteq> TLExpired)"

text \<open>How one call moves an operation.\<close>

definition op_move :: "timelock_state \<Rightarrow> timelock_state \<Rightarrow> bool" where
  "op_move s t \<longleftrightarrow> (ops_ok s \<longrightarrow> ops_ok t \<and>
     (\<forall>i p. TimelockOp s i = Some p \<longrightarrow> op_status p \<noteq> TLPending \<longrightarrow> TimelockOp t i = Some p))"

lemma same_ops_move: "same_ops s t \<Longrightarrow> op_move s t"
  by (simp add: same_ops_def op_move_def ops_ok_def)

lemma status_move:
  assumes "TimelockOp s i = Some p" and "op_status p = TLPending \<or> op_status p = TLReady" and "x = TLExecuted \<or> x = TLCancelled"
    and "TimelockOp t = (TimelockOp s)(i \<mapsto> p\<lparr>op_status := x\<rparr>)" and "NextTimelockId t = NextTimelockId s"
  shows "op_move s t"
  using assms unfolding op_move_def ops_ok_def by auto

lemma timelock_moves:
  "leads op_move (queue_timelock_operation h a ty d c)" "leads op_move (execute_timelock_operation h a i)"
  "leads op_move (cancel_timelock_operation h a i)" "leads op_move (update_timelock_config h a c')"
proof -
  show "leads op_move (queue_timelock_operation h a ty d c)"
    by (rule leadsI, erule queue_op_Ok) (fastforce simp: op_move_def ops_ok_def less_Suc_eq)
  show "leads op_move (execute_timelock_operation h a i)"
    by (rule leadsI, erule execute_op_Ok, rule status_move) auto
  show "leads op_move (cancel_timelock_operation h a i)"
    by (rule leadsI, erule cancel_op_Ok, rule status_move) auto
  show "leads op_move (update_timelock_config h a c')"
    by (auto simp: leads_def update_timelock_config_def ok_simps same_ops_def intro!: same_ops_move)
qed

lemma op_move_refl: "op_move s s" by (simp add: op_move_def)

lemma initialize_move:
  assumes "NextTimelockId s = None"
  shows "op_move s (snd (invoke (initialize_timelock c) s))"
proof (cases rule: invoke_cases [of "initialize_timelock c" s])
  case (committed a t)
  then have "op_move s t" using assms by (auto simp: initialize_timelock_def ok_simps op_move_def ops_ok_def)
  then show ?thesis using committed by simp
qed (simp add: op_move_refl)

lemma timelock_step_move: "initialized_once s l \<Longrightarrow> op_move s (timelock_step l s)"
  by (cases "(s, l)" rule: initialized_once.cases)
     (simp_all add: timelock_step_def initialize_move leads_after timelock_moves op_move_refl)

interpretation timelock_machine: invariant_machine timelock_step "fresh_timelock g" initialized_once ops_ok for g
proof unfold_locales
  show "ops_ok (fresh_timelock g)" by (simp add: ops_ok_def fresh_timelock_def gov_state.defs)
next
  fix s l assume "ops_ok s" "initialized_once s l"
  then show "ops_ok (timelock_step l s)" using timelock_step_move [of s l] by (simp add: op_move_def)
qed

lemma settled_op_stays:
  "ops_ok s \<Longrightarrow> TimelockOp s i = Some p \<Longrightarrow> op_status p \<noteq> TLPending \<Longrightarrow> allowed_run initialized_once timelock_step s ls \<Longrightarrow>
     TimelockOp (run timelock_step s ls) i = Some p"
proof (induction ls arbitrary: s)
  case (Cons l ls)
  then have "op_move s (timelock_step l s)" by (simp add: timelock_step_move)
  with Cons show ?case by (simp add: op_move_def)
qed simp

section \<open>Properties\<close>

text \<open>C34: An operation is executed only in its window: not before its delay after it was queued has passed, not after it expired,
  and at most once; nor is it executed after it was cancelled. This holds in every run that sets the timelock up once.\<close>

theorem timelock_window:
  assumes "allowed_run initialized_once timelock_step (fresh_timelock g) ls" and "s = run timelock_step (fresh_timelock g) ls"
    and "execute_timelock_operation h a i s = (Ok (), t)" and "allowed_run initialized_once timelock_step t ls'"
  shows "\<exists>p. TimelockOp s i = Some p \<and> op_status p = TLPending \<and> queued_at p + op_delay p \<le> now h \<and> now h \<le> op_expires_at p \<and>
     fst (execute_timelock_operation h' a' i (run timelock_step t ls')) \<noteq> Ok () \<and>
     fst (cancel_timelock_operation h' a' i (run timelock_step t ls')) \<noteq> Ok ()"
proof -
  have ok: "ops_ok s" unfolding assms(2) by (rule timelock_machine.inv_run [OF assms(1)])
  from assms(3) obtain p where p: "TimelockOp s i = Some p" "op_status p = TLPending \<or> op_status p = TLReady"
    "ready_at p \<le> now h" "now h \<le> op_expires_at p" and t: "TimelockOp t i = Some (p\<lparr>op_status := TLExecuted\<rparr>)"
    by (rule execute_op_Ok) simp
  from timelock_moves(2) assms(3) have "op_move s t" by (rule leadsD)
  with ok have "ops_ok t" by (simp add: op_move_def)
  from settled_op_stays [OF this t _ assms(4)]
  have late: "TimelockOp (run timelock_step t ls') i = Some (p\<lparr>op_status := TLExecuted\<rparr>)" by simp
  have "fst (execute_timelock_operation h' a' i (run timelock_step t ls')) \<noteq> Ok ()"
    by (rule notI, drule run_pair, erule execute_op_Ok) (auto simp: late)
  moreover have "fst (cancel_timelock_operation h' a' i (run timelock_step t ls')) \<noteq> Ok ()"
    by (rule notI, drule run_pair, erule cancel_op_Ok) (auto simp: late)
  ultimately show ?thesis using p ok by (auto simp: ops_ok_def)
qed

definition no_delay :: TimelockConfig where
  "no_delay = \<lparr>min_delay = 0, max_delay = 0, default_delay = 0, grace_period = 0\<rparr>"

text \<open>The timelock delays nobody: setting it up is open to everyone and can be repeated, so that any address can set every
  delay to zero, queue a change and execute it at the same ledger time, here the emergency pause; and the counter starts
  over, so that the change overwrites the operation queued first.\<close>

theorem timelock_bypassed:
  assumes "signed h a" and "now h \<le> u64_max" and "GovAdmin s = Some x" and "AdminKey s = Some x"
  shows "\<exists>s1 s2 t. initialize_timelock no_delay s = (Ok (), s1) \<and>
     queue_timelock_operation h a (EmergencyPause b) d None s1 = (Ok 0, s2) \<and>
     execute_timelock_operation h a 0 s2 = (Ok (), t) \<and> is_emergency_paused t = b \<and>
     (\<forall>i. i \<noteq> 0 \<longrightarrow> TimelockOp t i = TimelockOp s i)"
  using assms by (simp add: initialize_timelock_def queue_timelock_operation_def execute_timelock_operation_def run_simps
      bad_timelock_config_def no_delay_def get_timelock_config_def checked_add_u64_def u64_max_def save_op_def tl_publish_def Let_def
      tl_execute_proposal_type_def load_op_def tl_get_admin_def set_emergency_pause_def rm_require_admin_def hw_require_admin_def
      map_err_def core_publish_def is_emergency_paused_def)

definition timelock_setup :: "(host \<times> timelock_call) list" where
  "timelock_setup = [(sample_host 0, TL_initialize no_delay), (sample_host 5, TL_queue 3 (EmergencyPause True) ''stop'' None)]"

definition timelock_base :: gov_state where
  "timelock_base = empty_hw\<lparr>AdminKey := Some 9, GovAdmin := Some 9\<rparr>"

lemmas timelock_eval = timelock_step_def invoke_def run_simps fresh_timelock_def timelock_base_def empty_hw_def gov_state.defs
  initialize_timelock_def queue_timelock_operation_def execute_timelock_operation_def bad_timelock_config_def no_delay_def
  get_timelock_config_def checked_add_u64_code save_op_def tl_publish_def Let_def tl_execute_proposal_type_def load_op_def
  tl_get_admin_def set_emergency_pause_def rm_require_admin_def hw_require_admin_def map_err_def core_publish_def sample_host_def

lemma timelock_setup_allowed: "allowed_run initialized_once timelock_step (fresh_timelock timelock_base) timelock_setup"
  by (simp add: timelock_setup_def timelock_eval)

lemma timelock_setup_executes:
  "fst (execute_timelock_operation (sample_host 5) 4 0 (run timelock_step (fresh_timelock timelock_base) timelock_setup)) = Ok ()"
  by (simp add: timelock_setup_def timelock_eval)

theorem timelock_window_witness:
  "fst (execute_timelock_operation (sample_host 5) 3 0
     (snd (execute_timelock_operation (sample_host 5) 4 0 (run timelock_step (fresh_timelock timelock_base) timelock_setup)))) \<noteq> Ok ()"
  using timelock_window [OF timelock_setup_allowed refl run_pair [OF timelock_setup_executes], of "[]"] by auto

theorem timelock_bypassed_witness:
  "\<exists>s1 s2 t. initialize_timelock no_delay (fresh_timelock timelock_base) = (Ok (), s1) \<and>
     queue_timelock_operation (sample_host 5) 3 (EmergencyPause True) ''stop'' None s1 = (Ok 0, s2) \<and>
     execute_timelock_operation (sample_host 5) 3 0 s2 = (Ok (), t) \<and> is_emergency_paused t"
  using timelock_bypassed [of "sample_host 5" 3 "fresh_timelock timelock_base" 9 True "''stop''"]
  by (auto simp: sample_host_def u64_max_def fresh_timelock_def timelock_base_def gov_state.defs)

end
