(* ===== verification/Upgrade.thy ===== *)
theory Upgrade
  imports Sample SL_Interfaces
begin

text \<open>
  The upgrade manager shared by the contracts: src/stellar-lend/contracts/common/src/upgrade.rs and the
  events of src/stellar-lend/contracts/common/src/events.rs. An admin proposes a new implementation,
  approvers approve it, and an approved proposal replaces the current hash and version; a rollback
  puts the previous ones back. An error raised with \<open>panic_with_error!\<close> is the outcome \<open>Err\<close>.
\<close>

type_synonym bytes = string

datatype UpgradeError = AlreadyInitialized | NotInitialized | NotAuthorized | ProposalNotFound | InvalidVersion
  | InvalidStatus | AlreadyApproved | NotEnoughApprovals | InvalidThreshold

datatype UpgradeStage = Proposed | Approved | Executed | RolledBack

record UpgradeProposal =
  up_id :: u64
  proposer :: address
  new_wasm_hash :: bytes
  new_version :: u32
  approvals :: "address list"
  stage :: UpgradeStage
  prev_wasm_hash :: "bytes option"
  prev_version :: "u32 option"

record UpgradeStatus =
  us_id :: u64
  us_stage :: UpgradeStage
  us_approval_count :: u32
  us_required_approvals :: u32
  us_target_version :: u32

datatype upgrade_event =
  UpgradeInitEvent address u32
| UpgradeApproverAddedEvent address address
| UpgradeApproverRemovedEvent address address
| UpgradeProposedEvent address u64 u32
| UpgradeApprovalRecordedEvent address u64 u32
| UpgradeExecutedEvent address u64 u32
| UpgradeRollbackEvent address u64 u32

record upgrade_state =
  UpgradeAdmin :: "address option"
  Approvers :: "address list option"
  RequiredApprovals :: "u32 option"
  NextProposalId :: "u64 option"
  CurrentWasmHash :: "bytes option"
  CurrentVersion :: "u32 option"
  Proposal :: "u64 \<Rightarrow> UpgradeProposal option"
  upgrade_log :: "upgrade_event list"

type_synonym 'a upgrade_fn = "(upgrade_state, UpgradeError, 'a) contract_fn"

definition upgrade_publish :: "upgrade_event \<Rightarrow> upgrade_state \<Rightarrow> upgrade_state" where
  "upgrade_publish e s = s\<lparr>upgrade_log := upgrade_log s @ [e]\<rparr>"

section \<open>Reads and guards\<close>

definition approvers :: "upgrade_state \<Rightarrow> address list" where
  "approvers s = unwrap_or (Approvers s) []"

definition assert_initialized :: "'a upgrade_fn \<Rightarrow> 'a upgrade_fn" where
  "assert_initialized k = reads UpgradeAdmin (\<lambda>a. fail_if (a = None) NotInitialized k)"

definition assert_admin :: "address \<Rightarrow> 'a upgrade_fn \<Rightarrow> 'a upgrade_fn" where
  "assert_admin caller k =
     reads UpgradeAdmin (\<lambda>a. ok_or a NotInitialized (\<lambda>admin. fail_if (caller \<noteq> admin) NotAuthorized k))"

definition assert_approver :: "address \<Rightarrow> 'a upgrade_fn \<Rightarrow> 'a upgrade_fn" where
  "assert_approver caller k = reads approvers (\<lambda>as. fail_if (caller \<notin> set as) NotAuthorized k)"

definition current_wasm_hash :: "bytes upgrade_fn" where
  "current_wasm_hash = assert_initialized (reads CurrentWasmHash (\<lambda>x. ok_or x NotInitialized ret))"

definition current_version :: "u32 upgrade_fn" where
  "current_version = assert_initialized (reads (\<lambda>s. unwrap_or (CurrentVersion s) 0) ret)"

definition required_approvals :: "u32 upgrade_fn" where
  "required_approvals = assert_initialized (reads (\<lambda>s. unwrap_or (RequiredApprovals s) 0) ret)"

definition is_approver :: "upgrade_state \<Rightarrow> address \<Rightarrow> bool" where
  "is_approver s addr = (if UpgradeAdmin s = None then False else addr \<in> set (approvers s))"

definition proposal :: "u64 \<Rightarrow> UpgradeProposal upgrade_fn" where
  "proposal proposal_id = reads (\<lambda>s. Proposal s proposal_id) (\<lambda>x. ok_or x ProposalNotFound ret)"

definition set_proposal :: "u64 \<Rightarrow> UpgradeProposal \<Rightarrow> upgrade_state \<Rightarrow> upgrade_state" where
  "set_proposal i p s = s\<lparr>Proposal := (Proposal s)(i \<mapsto> p)\<rparr>"

section \<open>Operations\<close>

definition upgrade_init :: "host \<Rightarrow> address \<Rightarrow> bytes \<Rightarrow> u32 \<Rightarrow> unit upgrade_fn" where
  "upgrade_init h admin wasm_hash required =
     tryM (require_auth h admin) (\<lambda>_.
     reads UpgradeAdmin (\<lambda>a.
     fail_if (a \<noteq> None) AlreadyInitialized (
     fail_if (required = 0) InvalidThreshold (
     writes (\<lambda>s. s\<lparr>UpgradeAdmin := Some admin\<rparr>) (
     writes (\<lambda>s. s\<lparr>Approvers := Some [admin]\<rparr>) (
     writes (\<lambda>s. s\<lparr>RequiredApprovals := Some required\<rparr>) (
     writes (\<lambda>s. s\<lparr>NextProposalId := Some 1\<rparr>) (
     writes (\<lambda>s. s\<lparr>CurrentWasmHash := Some wasm_hash\<rparr>) (
     writes (\<lambda>s. s\<lparr>CurrentVersion := Some 0\<rparr>) (
     writes (upgrade_publish (UpgradeInitEvent admin required))
     (ret ())))))))))))"

definition add_approver :: "host \<Rightarrow> address \<Rightarrow> address \<Rightarrow> unit upgrade_fn" where
  "add_approver h caller approver =
     tryM (require_auth h caller) (\<lambda>_.
     assert_initialized (
     assert_admin caller (
     reads approvers (\<lambda>as.
     writes (\<lambda>s. if approver \<notin> set as then s\<lparr>Approvers := Some (as @ [approver])\<rparr> else s) (
     writes (upgrade_publish (UpgradeApproverAddedEvent caller approver))
     (ret ()))))))"

text \<open>The search loop of \<open>remove_approver\<close>, and removal at an index.\<close>

fun find_approver :: "address \<Rightarrow> address list \<Rightarrow> nat \<Rightarrow> nat option" where
  "find_approver a [] i = None"
| "find_approver a (x # xs) i = (if x = a then Some i else find_approver a xs (Suc i))"

definition remove_at :: "nat \<Rightarrow> 'a list \<Rightarrow> 'a list" where
  "remove_at i xs = take i xs @ drop (Suc i) xs"

definition remove_approver :: "host \<Rightarrow> address \<Rightarrow> address \<Rightarrow> unit upgrade_fn" where
  "remove_approver h caller approver =
     tryM (require_auth h caller) (\<lambda>_.
     assert_initialized (
     assert_admin caller (
     reads UpgradeAdmin (\<lambda>a.
     ok_or a NotInitialized (\<lambda>admin.
     fail_if (approver = admin) NotAuthorized (
     tryM required_approvals (\<lambda>required.
     reads approvers (\<lambda>as.
     case find_approver approver as 0 of
       None \<Rightarrow> ret ()
     | Some i \<Rightarrow>
         let as' = remove_at i as in
         fail_if (length as' < required) InvalidThreshold (
         writes (\<lambda>s. s\<lparr>Approvers := Some as'\<rparr>) (
         writes (upgrade_publish (UpgradeApproverRemovedEvent caller approver))
         (ret ())))))))))))"

definition upgrade_propose :: "host \<Rightarrow> address \<Rightarrow> bytes \<Rightarrow> u32 \<Rightarrow> u64 upgrade_fn" where
  "upgrade_propose h caller wasm_hash version =
     tryM (require_auth h caller) (\<lambda>_.
     assert_initialized (
     assert_admin caller (
     tryM current_version (\<lambda>current.
     fail_if (version \<le> current) InvalidVersion (
     tryM required_approvals (\<lambda>required.
     let appr = [caller]; st = (if length appr \<ge> required then Approved else Proposed) in
     reads (\<lambda>s. unwrap_or (NextProposalId s) 1) (\<lambda>i.
     let p = \<lparr>up_id = i, proposer = caller, new_wasm_hash = wasm_hash, new_version = version,
              approvals = appr, stage = st, prev_wasm_hash = None, prev_version = None\<rparr> in
     writes (set_proposal i p) (
     unwrap (checked_add_u64 i 1) (\<lambda>next_id.
     writes (\<lambda>s. s\<lparr>NextProposalId := Some next_id\<rparr>) (
     writes (upgrade_publish (UpgradeProposedEvent caller i version))
     (ret i)))))))))))"

definition upgrade_approve :: "host \<Rightarrow> address \<Rightarrow> u64 \<Rightarrow> u32 upgrade_fn" where
  "upgrade_approve h caller proposal_id =
     tryM (require_auth h caller) (\<lambda>_.
     assert_initialized (
     assert_approver caller (
     tryM (proposal proposal_id) (\<lambda>p.
     fail_if (stage p \<noteq> Proposed \<and> stage p \<noteq> Approved) InvalidStatus (
     fail_if (caller \<in> set (approvals p)) AlreadyApproved (
     tryM required_approvals (\<lambda>required.
     let p1 = p\<lparr>approvals := approvals p @ [caller]\<rparr>;
         p2 = (if length (approvals p1) \<ge> required then p1\<lparr>stage := Approved\<rparr> else p1);
         count = length (approvals p2) in
     writes (set_proposal proposal_id p2) (
     writes (upgrade_publish (UpgradeApprovalRecordedEvent caller proposal_id count))
     (ret count)))))))))"

definition upgrade_execute :: "host \<Rightarrow> address \<Rightarrow> u64 \<Rightarrow> unit upgrade_fn" where
  "upgrade_execute h caller proposal_id =
     tryM (require_auth h caller) (\<lambda>_.
     assert_initialized (
     assert_approver caller (
     tryM (proposal proposal_id) (\<lambda>p.
     fail_if (stage p = Executed \<or> stage p = RolledBack) InvalidStatus (
     tryM required_approvals (\<lambda>required.
     fail_if (length (approvals p) < required) NotEnoughApprovals (
     tryM current_wasm_hash (\<lambda>current_hash.
     tryM current_version (\<lambda>current.
     let p1 = p\<lparr>prev_wasm_hash := Some current_hash, prev_version := Some current, stage := Executed\<rparr> in
     writes (\<lambda>s. s\<lparr>CurrentWasmHash := Some (new_wasm_hash p1)\<rparr>) (
     writes (\<lambda>s. s\<lparr>CurrentVersion := Some (new_version p1)\<rparr>) (
     writes (set_proposal proposal_id p1) (
     writes (upgrade_publish (UpgradeExecutedEvent caller proposal_id (new_version p1)))
     (ret ())))))))))))))"

definition upgrade_rollback :: "host \<Rightarrow> address \<Rightarrow> u64 \<Rightarrow> unit upgrade_fn" where
  "upgrade_rollback h caller proposal_id =
     tryM (require_auth h caller) (\<lambda>_.
     assert_initialized (
     assert_admin caller (
     tryM (proposal proposal_id) (\<lambda>p.
     fail_if (stage p \<noteq> Executed) InvalidStatus (
     ok_or (prev_wasm_hash p) InvalidStatus (\<lambda>prev_hash.
     ok_or (prev_version p) InvalidStatus (\<lambda>prev.
     writes (\<lambda>s. s\<lparr>CurrentWasmHash := Some prev_hash\<rparr>) (
     writes (\<lambda>s. s\<lparr>CurrentVersion := Some prev\<rparr>) (
     writes (set_proposal proposal_id (p\<lparr>stage := RolledBack\<rparr>)) (
     writes (upgrade_publish (UpgradeRollbackEvent caller proposal_id prev))
     (ret ())))))))))))"

definition upgrade_status :: "u64 \<Rightarrow> UpgradeStatus upgrade_fn" where
  "upgrade_status proposal_id =
     assert_initialized (
     tryM (proposal proposal_id) (\<lambda>p.
     tryM required_approvals (\<lambda>required.
     ret \<lparr>us_id = up_id p, us_stage = stage p, us_approval_count = length (approvals p),
          us_required_approvals = required, us_target_version = new_version p\<rparr>)))"

section \<open>Inversion rules\<close>

lemma upgrade_guards_Ok [ok_simps]:
  "assert_initialized k s = (Ok b, t) \<longleftrightarrow> UpgradeAdmin s \<noteq> None \<and> k s = (Ok b, t)"
  "assert_admin c k s = (Ok b, t) \<longleftrightarrow> UpgradeAdmin s = Some c \<and> k s = (Ok b, t)"
  "assert_approver c k s = (Ok b, t) \<longleftrightarrow> c \<in> set (approvers s) \<and> k s = (Ok b, t)"
  by (auto simp: assert_initialized_def assert_admin_def assert_approver_def ok_simps)

lemma upgrade_reads_Ok [ok_simps]:
  "current_wasm_hash s = (Ok x, t) \<longleftrightarrow> UpgradeAdmin s \<noteq> None \<and> CurrentWasmHash s = Some x \<and> t = s"
  "current_version s = (Ok v, t) \<longleftrightarrow> UpgradeAdmin s \<noteq> None \<and> v = unwrap_or (CurrentVersion s) 0 \<and> t = s"
  "required_approvals s = (Ok r, t) \<longleftrightarrow> UpgradeAdmin s \<noteq> None \<and> r = unwrap_or (RequiredApprovals s) 0 \<and> t = s"
  "proposal i s = (Ok p, t) \<longleftrightarrow> Proposal s i = Some p \<and> t = s"
  by (auto simp: current_wasm_hash_def current_version_def required_approvals_def proposal_def ok_simps)

lemma find_approver_Some: "find_approver a xs i = Some j \<Longrightarrow> i \<le> j \<and> j - i < length xs \<and> remove_at (j - i) xs = remove1 a xs"
proof (induction xs arbitrary: i)
  case (Cons x xs)
  show ?case
  proof (cases "x = a")
    case True
    with Cons.prems show ?thesis by (simp add: remove_at_def)
  next
    case False
    with Cons have "Suc i \<le> j" "j - Suc i < length xs" "remove_at (j - Suc i) xs = remove1 a xs" by auto
    moreover from this(1) obtain d where "j = Suc i + d" using le_Suc_ex by blast
    ultimately show ?thesis using False by (simp add: remove_at_def)
  qed
qed simp

lemma find_approver_None: "find_approver a xs i = None \<longleftrightarrow> a \<notin> set xs"
  by (induction xs arbitrary: i) auto

lemma find_approver_0: "find_approver a xs 0 = Some j \<Longrightarrow> remove_at j xs = remove1 a xs \<and> a \<in> set xs"
  using find_approver_Some [of a xs 0 j] find_approver_None [of a xs 0] by auto

lemma remove_approver_Ok:
  assumes "remove_approver h c a s = (Ok u, t)"
  shows "signed h c \<and> UpgradeAdmin s = Some c \<and> a \<noteq> c \<and>
    (t = s \<and> a \<notin> set (approvers s) \<or>
     a \<in> set (approvers s) \<and> unwrap_or (RequiredApprovals s) 0 \<le> length (remove1 a (approvers s)) \<and>
     t = upgrade_publish (UpgradeApproverRemovedEvent c a) (s\<lparr>Approvers := Some (remove1 a (approvers s))\<rparr>))"
proof -
  show ?thesis
  proof (cases "find_approver a (approvers s) 0")
    case None
    with assms show ?thesis
      by (auto simp: remove_approver_def ok_simps find_approver_None)
  next
    case (Some i)
    with assms find_approver_0 [OF Some] show ?thesis
      by (auto simp: remove_approver_def ok_simps Let_def)
  qed
qed


section \<open>The contract as a machine\<close>

datatype upgrade_call =
  U_init address bytes u32
| U_add_approver address address
| U_remove_approver address address
| U_propose address bytes u32
| U_approve address u64
| U_execute address u64
| U_rollback address u64

text \<open>A call that does not return successfully is rolled back by the host.\<close>

definition committed :: "'a upgrade_fn \<Rightarrow> upgrade_state \<Rightarrow> upgrade_state" where
  "committed m s = snd (invoke m s)"

fun exec_upgrade :: "host \<Rightarrow> upgrade_call \<Rightarrow> upgrade_state \<Rightarrow> upgrade_state" where
  "exec_upgrade h (U_init a w r) = committed (upgrade_init h a w r)"
| "exec_upgrade h (U_add_approver c a) = committed (add_approver h c a)"
| "exec_upgrade h (U_remove_approver c a) = committed (remove_approver h c a)"
| "exec_upgrade h (U_propose c w v) = committed (upgrade_propose h c w v)"
| "exec_upgrade h (U_approve c i) = committed (upgrade_approve h c i)"
| "exec_upgrade h (U_execute c i) = committed (upgrade_execute h c i)"
| "exec_upgrade h (U_rollback c i) = committed (upgrade_rollback h c i)"

definition upgrade_step :: "host \<times> upgrade_call \<Rightarrow> upgrade_state \<Rightarrow> upgrade_state" where
  "upgrade_step l s = exec_upgrade (fst l) (snd l) s"

definition no_upgrades :: upgrade_state where
  "no_upgrades = \<lparr>UpgradeAdmin = None, Approvers = None, RequiredApprovals = None, NextProposalId = None,
     CurrentWasmHash = None, CurrentVersion = None, Proposal = (\<lambda>_. None), upgrade_log = []\<rparr>"

section \<open>The invariant\<close>

text \<open>A proposal is consistent: its approvals are distinct, and the stage tells whether the threshold was
  reached and, once executed, where to roll back to.\<close>

definition proposal_wf :: "u32 \<Rightarrow> UpgradeProposal \<Rightarrow> bool" where
  "proposal_wf required p \<longleftrightarrow> distinct (approvals p) \<and>
     (stage p = Proposed \<longleftrightarrow> length (approvals p) < required) \<and>
     (stage p \<in> {Executed, RolledBack} \<longrightarrow> prev_wasm_hash p \<noteq> None \<and> prev_version p \<noteq> None)"

definition upgrade_inv :: "upgrade_state \<Rightarrow> bool" where
  "upgrade_inv s \<longleftrightarrow>
     (\<forall>i p. Proposal s i = Some p \<longrightarrow>
        UpgradeAdmin s \<noteq> None \<and> up_id p = i \<and> i < unwrap_or (NextProposalId s) 1 \<and>
        proposal_wf (unwrap_or (RequiredApprovals s) 0) p) \<and>
     (\<forall>a. UpgradeAdmin s = Some a \<longrightarrow> distinct (approvers s) \<and> a \<in> set (approvers s) \<and>
        CurrentWasmHash s \<noteq> None \<and> 0 < unwrap_or (RequiredApprovals s) 0)"

lemma committed_cases:
  obtains (returned) a where "m s = (Ok a, committed m s)" | (undone) "committed m s = s"
  by (cases rule: invoke_cases [of m s]) (auto simp: committed_def)

lemma committed_inv:
  assumes "upgrade_inv s" and "\<And>a t. m s = (Ok a, t) \<Longrightarrow> upgrade_inv t"
  shows "upgrade_inv (committed m s)"
  by (rule committed_cases [of m s]) (use assms in auto)

lemmas upgrade_op_defs = upgrade_init_def add_approver_def upgrade_propose_def upgrade_approve_def
  upgrade_execute_def upgrade_rollback_def set_proposal_def upgrade_publish_def approvers_def

text \<open>Replacing a stored proposal by a consistent one.\<close>

lemma replaced_proposal_inv:
  assumes "upgrade_inv s" and "Proposal s i = Some p" and "proposal_wf (unwrap_or (RequiredApprovals s) 0) q" and "up_id q = up_id p"
    and "Proposal t = (Proposal s)(i \<mapsto> q)" "UpgradeAdmin t = UpgradeAdmin s" "Approvers t = Approvers s"
    "RequiredApprovals t = RequiredApprovals s" "NextProposalId t = NextProposalId s" "CurrentWasmHash t \<noteq> None"
  shows "upgrade_inv t"
  using assms by (auto simp: upgrade_inv_def approvers_def)

lemma stored_proposal_wf:
  "upgrade_inv s \<Longrightarrow> Proposal s i = Some p \<Longrightarrow> proposal_wf (unwrap_or (RequiredApprovals s) 0) p"
  by (auto simp: upgrade_inv_def)

lemma stored_hash: "upgrade_inv s \<Longrightarrow> UpgradeAdmin s \<noteq> None \<Longrightarrow> CurrentWasmHash s \<noteq> None"
  by (auto simp: upgrade_inv_def)

lemmas replace_defs = upgrade_publish_def set_proposal_def Let_def

lemma init_inv: "upgrade_inv s \<Longrightarrow> upgrade_init h a w r s = (Ok u, t) \<Longrightarrow> upgrade_inv t"
  by (auto simp: upgrade_op_defs ok_simps upgrade_inv_def)

lemma add_approver_inv: "upgrade_inv s \<Longrightarrow> add_approver h c a s = (Ok u, t) \<Longrightarrow> upgrade_inv t"
  by (cases "a \<in> set (approvers s)") (auto simp: upgrade_op_defs ok_simps upgrade_inv_def)

lemma remove_approver_inv: "upgrade_inv s \<Longrightarrow> remove_approver h c a s = (Ok u, t) \<Longrightarrow> upgrade_inv t"
  by (drule remove_approver_Ok) (auto simp: upgrade_inv_def upgrade_publish_def approvers_def)

lemma propose_Ok:
  assumes "upgrade_propose h c w v s = (Ok i, t)"
  shows "signed h c" "UpgradeAdmin s = Some c" "unwrap_or (CurrentVersion s) 0 < v" "i = unwrap_or (NextProposalId s) 1"
    "t = upgrade_publish (UpgradeProposedEvent c i v) (s\<lparr>Proposal := (Proposal s)(i \<mapsto> \<lparr>up_id = i, proposer = c, new_wasm_hash = w, new_version = v, approvals = [c],
         stage = (if unwrap_or (RequiredApprovals s) 0 \<le> 1 then Approved else Proposed),
         prev_wasm_hash = None, prev_version = None\<rparr>), NextProposalId := Some (i + 1)\<rparr>)"
  using assms by (auto simp: upgrade_propose_def ok_simps Let_def checked_add_u64_def set_proposal_def split: if_splits)

lemma propose_inv: "upgrade_inv s \<Longrightarrow> upgrade_propose h c w v s = (Ok i, t) \<Longrightarrow> upgrade_inv t"
  by (frule propose_Ok(2), frule propose_Ok(4), drule propose_Ok(5))
     (auto simp: upgrade_inv_def upgrade_publish_def proposal_wf_def approvers_def less_Suc_eq)

lemma approve_Ok:
  assumes "upgrade_approve h c i s = (Ok n, t)"
  obtains p where "signed h c" "UpgradeAdmin s \<noteq> None" "c \<in> set (approvers s)" "Proposal s i = Some p" "stage p \<in> {Proposed, Approved}"
    "c \<notin> set (approvals p)" "n = Suc (length (approvals p))"
    "t = upgrade_publish (UpgradeApprovalRecordedEvent c i n) (set_proposal i
       (let q = p\<lparr>approvals := approvals p @ [c]\<rparr> in
        if unwrap_or (RequiredApprovals s) 0 \<le> n then q\<lparr>stage := Approved\<rparr> else q) s)"
  using assms by (auto simp: upgrade_approve_def ok_simps Let_def intro!: that split: if_splits)

lemma approve_inv: "upgrade_inv s \<Longrightarrow> upgrade_approve h c i s = (Ok n, t) \<Longrightarrow> upgrade_inv t"
  by (erule approve_Ok, frule stored_proposal_wf, assumption, frule stored_hash, assumption, erule replaced_proposal_inv, assumption)
     (auto simp: replace_defs proposal_wf_def)

lemma execute_Ok:
  assumes "upgrade_execute h c i s = (Ok u, t)"
  obtains p w where "signed h c" "UpgradeAdmin s \<noteq> None" "c \<in> set (approvers s)" "Proposal s i = Some p" "stage p \<in> {Proposed, Approved}"
    "unwrap_or (RequiredApprovals s) 0 \<le> length (approvals p)" "CurrentWasmHash s = Some w"
    "t = upgrade_publish (UpgradeExecutedEvent c i (new_version p)) (set_proposal i
       (p\<lparr>prev_wasm_hash := Some w, prev_version := Some (unwrap_or (CurrentVersion s) 0), stage := Executed\<rparr>)
       (s\<lparr>CurrentWasmHash := Some (new_wasm_hash p), CurrentVersion := Some (new_version p)\<rparr>))"
proof -
  have "st \<noteq> Executed \<Longrightarrow> st \<noteq> RolledBack \<Longrightarrow> st \<in> {Proposed, Approved}" for st by (cases st) auto
  with assms show ?thesis
    by (auto simp: upgrade_execute_def ok_simps Let_def intro!: that)
qed

lemma execute_inv: "upgrade_inv s \<Longrightarrow> upgrade_execute h c i s = (Ok u, t) \<Longrightarrow> upgrade_inv t"
  by (erule execute_Ok, frule stored_proposal_wf, assumption, erule replaced_proposal_inv, assumption)
     (auto simp: replace_defs proposal_wf_def)

lemma rollback_Ok:
  assumes "upgrade_rollback h c i s = (Ok u, t)"
  obtains p w v where "signed h c" "UpgradeAdmin s = Some c" "Proposal s i = Some p" "stage p = Executed"
    "prev_wasm_hash p = Some w" "prev_version p = Some v"
    "t = upgrade_publish (UpgradeRollbackEvent c i v) (set_proposal i (p\<lparr>stage := RolledBack\<rparr>)
       (s\<lparr>CurrentWasmHash := Some w, CurrentVersion := Some v\<rparr>))"
  using assms by (auto simp: upgrade_rollback_def ok_simps)

lemma rollback_inv: "upgrade_inv s \<Longrightarrow> upgrade_rollback h c i s = (Ok u, t) \<Longrightarrow> upgrade_inv t"
  by (erule rollback_Ok, frule stored_proposal_wf, assumption, erule replaced_proposal_inv, assumption)
     (auto simp: replace_defs proposal_wf_def)

lemmas upgrade_ops_inv = init_inv add_approver_inv remove_approver_inv propose_inv approve_inv execute_inv rollback_inv

lemma upgrade_step_inv: "upgrade_inv s \<Longrightarrow> upgrade_inv (upgrade_step l s)"
  unfolding upgrade_step_def
  by (cases "snd l") (simp_all only: exec_upgrade.simps, (rule committed_inv, assumption, erule (1) upgrade_ops_inv)+)

interpretation upgrade_machine: invariant_machine upgrade_step no_upgrades "\<lambda>_ _. True" upgrade_inv
  by unfold_locales (simp_all add: upgrade_step_inv, simp add: no_upgrades_def upgrade_inv_def)

section \<open>Properties\<close>

text \<open>No upgrade without a quorum: in every storage the contract can reach, each proposal that is
  approved, executed or rolled back carries approvals by at least the required number of distinct
  addresses, a proposed one fewer, and an executed one records the hash and version to roll back to.\<close>

theorem executed_upgrades_have_quorum:
  assumes "Proposal (run upgrade_step no_upgrades ls) i = Some p"
  shows "distinct (approvals p) \<and> up_id p = i \<and>
         (stage p \<noteq> Proposed \<longleftrightarrow> unwrap_or (RequiredApprovals (run upgrade_step no_upgrades ls)) 0 \<le> length (approvals p)) \<and>
         (stage p = Executed \<or> stage p = RolledBack \<longrightarrow> prev_wasm_hash p \<noteq> None \<and> prev_version p \<noteq> None)"
proof -
  have "upgrade_inv (run upgrade_step no_upgrades ls)"
    by (rule upgrade_machine.inv_run) (rule allowed_run_always)
  with assms show ?thesis by (auto simp: upgrade_inv_def proposal_wf_def)
qed

definition upgrade_sample :: "(host \<times> upgrade_call) list" where
  "upgrade_sample = [(sample_host 0, U_init 1 ''w0'' 2), (sample_host 0, U_add_approver 1 2),
     (sample_host 0, U_propose 1 ''w1'' 5), (sample_host 0, U_approve 2 1), (sample_host 0, U_execute 2 1)]"

theorem executed_upgrades_have_quorum_witness:
  "\<exists>p. Proposal (run upgrade_step no_upgrades upgrade_sample) 1 = Some p \<and> stage p = Executed \<and> 2 \<le> length (approvals p)"
proof -
  let ?s = "run upgrade_step no_upgrades upgrade_sample"
  have "map_option stage (Proposal ?s 1) = Some Executed" and r: "unwrap_or (RequiredApprovals ?s) 0 = 2"
    by code_simp+
  then obtain p where "Proposal ?s 1 = Some p" "stage p = Executed" by auto
  with executed_upgrades_have_quorum [OF this(1)] r show ?thesis by auto
qed

text \<open>Rolling back is exact: executing a proposal and rolling it back restores the previous hash and
  version, leaves every other proposal alone, and the proposal can neither be executed nor rolled back
  again.\<close>

theorem upgrade_rollback_round_trip:
  assumes ex: "upgrade_execute h c i s = (Ok u, t)" and rb: "upgrade_rollback h' a i t = (Ok u', r)"
  shows "CurrentWasmHash r = CurrentWasmHash s \<and> CurrentVersion r = Some (unwrap_or (CurrentVersion s) 0) \<and>
         (\<forall>j. j \<noteq> i \<longrightarrow> Proposal r j = Proposal s j) \<and>
         (\<forall>b g. fst (upgrade_execute g b i r) \<noteq> Ok () \<and> fst (upgrade_rollback g b i r) \<noteq> Ok ())"
proof -
  from ex obtain p w where p: "CurrentWasmHash s = Some w"
    and t: "t = upgrade_publish (UpgradeExecutedEvent c i (new_version p)) (set_proposal i
       (p\<lparr>prev_wasm_hash := Some w, prev_version := Some (unwrap_or (CurrentVersion s) 0), stage := Executed\<rparr>)
       (s\<lparr>CurrentWasmHash := Some (new_wasm_hash p), CurrentVersion := Some (new_version p)\<rparr>))"
    by (rule execute_Ok)
  from rb obtain q w' v where q: "Proposal t i = Some q" "prev_wasm_hash q = Some w'" "prev_version q = Some v"
    and r: "r = upgrade_publish (UpgradeRollbackEvent a i v) (set_proposal i (q\<lparr>stage := RolledBack\<rparr>)
       (t\<lparr>CurrentWasmHash := Some w', CurrentVersion := Some v\<rparr>))"
    by (rule rollback_Ok)
  have st: "Proposal r i = Some (q\<lparr>stage := RolledBack\<rparr>)" by (simp add: r upgrade_publish_def set_proposal_def)
  have "fst (upgrade_execute g b i r) \<noteq> Ok ()" for g b
    using st by (cases "upgrade_execute g b i r") (auto elim: execute_Ok)
  moreover have "fst (upgrade_rollback g b i r) \<noteq> Ok ()" for g b
    using st by (cases "upgrade_rollback g b i r") (auto elim: rollback_Ok)
  ultimately show ?thesis
    using q p by (auto simp: t r upgrade_publish_def set_proposal_def)
qed

theorem upgrade_rollback_round_trip_witness:
  "\<exists>r. upgrade_rollback (sample_host 0) 1 1 (snd (upgrade_execute (sample_host 0) 2 1 (run upgrade_step no_upgrades (take 4 upgrade_sample)))) = (Ok (), r)
       \<and> CurrentWasmHash r = Some ''w0''"
proof -
  let ?s = "run upgrade_step no_upgrades (take 4 upgrade_sample)"
  let ?e = "upgrade_execute (sample_host 0) 2 1 ?s"
  let ?r = "upgrade_rollback (sample_host 0) 1 1 (snd ?e)"
  have "fst ?e = Ok ()" "fst ?r = Ok ()" and w: "CurrentWasmHash ?s = Some ''w0''" by code_simp+
  then have e: "?e = (Ok (), snd ?e)" and r: "?r = (Ok (), snd ?r)" by (simp_all add: prod_eq_iff)
  from upgrade_rollback_round_trip [OF e r] w r show ?thesis by metis
qed

definition downgrade_run :: "(host \<times> upgrade_call) list" where
  "downgrade_run = [(sample_host 0, U_init 1 ''w0'' 2), (sample_host 0, U_add_approver 1 2), (sample_host 0, U_add_approver 1 3),
     (sample_host 0, U_propose 1 ''w5'' 5), (sample_host 0, U_propose 1 ''w3'' 3),
     (sample_host 0, U_approve 2 1), (sample_host 0, U_approve 2 2), (sample_host 0, U_remove_approver 1 2),
     (sample_host 0, U_execute 3 1), (sample_host 0, U_execute 3 2)]"

text \<open>The version check happens only when a proposal is made: two proposals that were both newer when
  made can be executed in either order, so an upgrade can lower the version, and approvals of a removed
  approver keep counting.\<close>

theorem executed_upgrade_can_lower_version:
  "CurrentVersion (run upgrade_step no_upgrades (take 9 downgrade_run)) = Some 5 \<and>
   CurrentVersion (run upgrade_step no_upgrades downgrade_run) = Some 3 \<and>
   \<not> is_approver (run upgrade_step no_upgrades downgrade_run) 2"
  by code_simp

end
