(* ===== verification/Data_Store.thy ===== *)
theory Data_Store
  imports Sample SL_Interfaces
begin

text \<open>
  The key-value store contract: src/stellar-lend/contracts/lending/src/data_store.rs. An admin and granted
  writers save entries under string keys; an index lists the live keys, named backups snapshot the
  entries, and the admin can restore a backup. Keys and values are byte sequences, so \<open>length\<close> is the
  byte length the code checks. An error raised with \<open>panic_with_error!\<close> is the outcome \<open>Err\<close>.
\<close>

datatype DataStoreError = AlreadyInitialized | NotAuthorized | KeyTooLong | ValueTooLarge | KeyNotFound
  | BackupNotFound | StoreFull | BackupNameTooLong | NotInitialized | InvalidVersion

definition MAX_KEY_LEN :: u32 where "MAX_KEY_LEN = 64"
definition MAX_VALUE_LEN :: u32 where "MAX_VALUE_LEN = 4096"
definition MAX_ENTRIES :: u32 where "MAX_ENTRIES = 1000"
definition MAX_BACKUP_NAME :: u32 where "MAX_BACKUP_NAME = 32"

datatype store_event =
  DataStoreInitEvent address
| DataStoreWriterChangeEvent address address
| DataStoreSaveEvent address string u32
| DataStoreBackupEvent address string u32
| DataStoreRestoreEvent address string u32
| DataStoreMigrateEvent address u32 "string option"

record store_state =
  StoreAdmin :: "address option"
  Writers :: "address list option"
  SchemaVersion :: "u32 option"
  EntryCount :: "u32 option"
  Entry :: "string \<Rightarrow> string option"
  Backup :: "string \<Rightarrow> (string list \<times> string list) option"
  KeyIndex :: "string list option"
  TotalAssets :: "i128 option"
  StoreReserves :: "i128 option"
  store_log :: "store_event list"

type_synonym 'a store_fn = "(store_state, DataStoreError, 'a) contract_fn"

definition store_publish :: "store_event \<Rightarrow> store_state \<Rightarrow> store_state" where
  "store_publish e s = s\<lparr>store_log := store_log s @ [e]\<rparr>"

section \<open>Guards and queries\<close>

definition writers :: "store_state \<Rightarrow> address list" where
  "writers s = unwrap_or (Writers s) []"

definition key_index :: "store_state \<Rightarrow> string list" where
  "key_index s = unwrap_or (KeyIndex s) []"

definition ds_assert_initialized :: "'a store_fn \<Rightarrow> 'a store_fn" where
  "ds_assert_initialized k = reads StoreAdmin (\<lambda>a. fail_if (a = None) NotInitialized k)"

definition ds_assert_admin :: "address \<Rightarrow> 'a store_fn \<Rightarrow> 'a store_fn" where
  "ds_assert_admin caller k =
     reads StoreAdmin (\<lambda>a. ok_or a NotInitialized (\<lambda>admin. fail_if (caller \<noteq> admin) NotAuthorized k))"

definition assert_can_write :: "address \<Rightarrow> 'a store_fn \<Rightarrow> 'a store_fn" where
  "assert_can_write caller k =
     reads StoreAdmin (\<lambda>a. ok_or a NotInitialized (\<lambda>admin.
     if caller = admin then k
     else reads writers (\<lambda>ws. fail_if (caller \<notin> set ws) NotAuthorized k)))"

definition schema_version :: "u32 store_fn" where
  "schema_version = ds_assert_initialized (reads (\<lambda>s. unwrap_or (SchemaVersion s) 0) ret)"

definition entry_count :: "u32 store_fn" where
  "entry_count = ds_assert_initialized (reads (\<lambda>s. unwrap_or (EntryCount s) 0) ret)"

definition key_exists :: "string \<Rightarrow> bool store_fn" where
  "key_exists key = ds_assert_initialized (reads (\<lambda>s. Entry s key \<noteq> None) ret)"

definition ds_get_admin :: "address store_fn" where
  "ds_get_admin = ds_assert_initialized (reads StoreAdmin (\<lambda>a. ok_or a NotInitialized ret))"

definition is_writer :: "store_state \<Rightarrow> address \<Rightarrow> bool" where
  "is_writer s addr = (case StoreAdmin s of
     None \<Rightarrow> False
   | Some admin \<Rightarrow> if admin = addr then True else addr \<in> set (writers s))"

definition get_total_assets :: "store_state \<Rightarrow> i128" where
  "get_total_assets s = unwrap_or (TotalAssets s) 0"

definition set_total_assets :: "i128 \<Rightarrow> store_state \<Rightarrow> store_state" where
  "set_total_assets assets s = s\<lparr>TotalAssets := Some assets\<rparr>"

definition get_protocol_reserves :: "store_state \<Rightarrow> i128" where
  "get_protocol_reserves s = unwrap_or (StoreReserves s) 0"

definition set_protocol_reserves :: "i128 \<Rightarrow> store_state \<Rightarrow> store_state" where
  "set_protocol_reserves reserves s = s\<lparr>StoreReserves := Some reserves\<rparr>"

section \<open>Set-up and writers\<close>

definition store_init :: "host \<Rightarrow> address \<Rightarrow> unit store_fn" where
  "store_init h admin =
     tryM (require_auth h admin) (\<lambda>_.
     reads StoreAdmin (\<lambda>a.
     fail_if (a \<noteq> None) AlreadyInitialized (
     writes (\<lambda>s. s\<lparr>StoreAdmin := Some admin\<rparr>) (
     writes (\<lambda>s. s\<lparr>SchemaVersion := Some 0\<rparr>) (
     writes (\<lambda>s. s\<lparr>EntryCount := Some 0\<rparr>) (
     writes (\<lambda>s. s\<lparr>Writers := Some []\<rparr>) (
     writes (\<lambda>s. s\<lparr>KeyIndex := Some []\<rparr>) (
     writes (store_publish (DataStoreInitEvent admin))
     (ret ())))))))))"

definition grant_writer :: "host \<Rightarrow> address \<Rightarrow> address \<Rightarrow> unit store_fn" where
  "grant_writer h caller writer =
     tryM (require_auth h caller) (\<lambda>_.
     ds_assert_admin caller (
     reads writers (\<lambda>ws.
     writes (\<lambda>s. if writer \<notin> set ws then s\<lparr>Writers := Some (ws @ [writer])\<rparr> else s) (
     writes (store_publish (DataStoreWriterChangeEvent caller writer))
     (ret ())))))"

text \<open>The loop of \<open>revoke_writer\<close>: every other writer is copied.\<close>

fun copy_without :: "address \<Rightarrow> address list \<Rightarrow> address list \<Rightarrow> address list" where
  "copy_without writer [] acc = acc"
| "copy_without writer (w # ws) acc = copy_without writer ws (if w \<noteq> writer then acc @ [w] else acc)"

definition revoke_writer :: "host \<Rightarrow> address \<Rightarrow> address \<Rightarrow> unit store_fn" where
  "revoke_writer h caller writer =
     tryM (require_auth h caller) (\<lambda>_.
     ds_assert_admin caller (
     reads writers (\<lambda>ws.
     writes (\<lambda>s. s\<lparr>Writers := Some (copy_without writer ws [])\<rparr>) (
     writes (store_publish (DataStoreWriterChangeEvent caller writer))
     (ret ())))))"

section \<open>Entries\<close>

definition data_save :: "host \<Rightarrow> address \<Rightarrow> string \<Rightarrow> string \<Rightarrow> unit store_fn" where
  "data_save h caller key val =
     tryM (require_auth h caller) (\<lambda>_.
     ds_assert_initialized (
     assert_can_write caller (
     fail_if (length key > MAX_KEY_LEN) KeyTooLong (
     fail_if (length val > MAX_VALUE_LEN) ValueTooLarge (
     reads (\<lambda>s. Entry s key = None) (\<lambda>is_new.
     tryM (if is_new
           then reads (\<lambda>s. unwrap_or (EntryCount s) 0) (\<lambda>count.
                fail_if (count \<ge> MAX_ENTRIES) StoreFull (
                writes (\<lambda>s. s\<lparr>KeyIndex := Some (key_index s @ [key])\<rparr>) (
                writes (\<lambda>s. s\<lparr>EntryCount := Some (count + 1)\<rparr>)
                (ret ()))))
           else ret ()) (\<lambda>_.
     writes (\<lambda>s. s\<lparr>Entry := (Entry s)(key \<mapsto> val)\<rparr>) (
     writes (store_publish (DataStoreSaveEvent caller key (length val)))
     (ret ())))))))))"

definition data_load :: "string \<Rightarrow> string store_fn" where
  "data_load key = ds_assert_initialized (reads (\<lambda>s. Entry s key) (\<lambda>x. ok_or x KeyNotFound ret))"

section \<open>Backups\<close>

text \<open>The snapshot loop over the key index: an indexed key without an entry is skipped.\<close>

fun snapshot :: "(string \<Rightarrow> string option) \<Rightarrow> string list \<Rightarrow> string list \<times> string list \<Rightarrow> string list \<times> string list" where
  "snapshot entries [] acc = acc"
| "snapshot entries (k # ks) (snap_keys, snap_vals) =
     (case entries k of
        Some v \<Rightarrow> snapshot entries ks (snap_keys @ [k], snap_vals @ [v])
      | None \<Rightarrow> snapshot entries ks (snap_keys, snap_vals))"

definition data_backup :: "host \<Rightarrow> address \<Rightarrow> string \<Rightarrow> unit store_fn" where
  "data_backup h caller backup_name =
     tryM (require_auth h caller) (\<lambda>_.
     ds_assert_initialized (
     assert_can_write caller (
     fail_if (length backup_name > MAX_BACKUP_NAME) BackupNameTooLong (
     reads key_index (\<lambda>ks.
     writes (\<lambda>s. s\<lparr>Backup := (Backup s)(backup_name \<mapsto> snapshot (Entry s) ks ([], []))\<rparr>) (
     writes (store_publish (DataStoreBackupEvent caller backup_name (length ks)))
     (ret ())))))))"

text \<open>The two loops of \<open>data_restore\<close>: removing the live entries, and writing the snapshot, where an
  index beyond the values would panic.\<close>

fun remove_entries :: "string list \<Rightarrow> (string \<Rightarrow> string option) \<Rightarrow> string \<Rightarrow> string option" where
  "remove_entries [] entries = entries"
| "remove_entries (k # ks) entries = remove_entries ks (entries(k := None))"

fun write_snapshot ::
    "string list \<Rightarrow> string list \<Rightarrow> (string \<Rightarrow> string option) \<times> string list \<Rightarrow> ((string \<Rightarrow> string option) \<times> string list) option" where
  "write_snapshot [] vs acc = Some acc"
| "write_snapshot (k # ks) [] acc = None"
| "write_snapshot (k # ks) (v # vs) (entries, ix) = write_snapshot ks vs (entries(k \<mapsto> v), ix @ [k])"

definition data_restore :: "host \<Rightarrow> address \<Rightarrow> string \<Rightarrow> unit store_fn" where
  "data_restore h caller backup_name =
     tryM (require_auth h caller) (\<lambda>_.
     ds_assert_initialized (
     ds_assert_admin caller (
     reads (\<lambda>s. Backup s backup_name) (\<lambda>snap.
     ok_or snap BackupNotFound (\<lambda>(snap_keys, snap_vals).
     reads key_index (\<lambda>old_index.
     writes (\<lambda>s. s\<lparr>Entry := remove_entries old_index (Entry s)\<rparr>) (
     reads Entry (\<lambda>entries.
     unwrap (write_snapshot snap_keys snap_vals (entries, [])) (\<lambda>(entries', new_index).
     writes (\<lambda>s. s\<lparr>Entry := entries'\<rparr>) (
     writes (\<lambda>s. s\<lparr>KeyIndex := Some new_index\<rparr>) (
     writes (\<lambda>s. s\<lparr>EntryCount := Some (length snap_keys)\<rparr>) (
     writes (store_publish (DataStoreRestoreEvent caller backup_name (length snap_keys)))
     (ret ())))))))))))))"

definition data_migrate_bump_version :: "host \<Rightarrow> address \<Rightarrow> u32 \<Rightarrow> string option \<Rightarrow> unit store_fn" where
  "data_migrate_bump_version h caller version memo =
     tryM (require_auth h caller) (\<lambda>_.
     ds_assert_initialized (
     ds_assert_admin caller (
     reads (\<lambda>s. unwrap_or (SchemaVersion s) 0) (\<lambda>current.
     fail_if (version \<le> current) InvalidVersion (
     fail_if (case memo of Some m \<Rightarrow> length m > 128 | None \<Rightarrow> False) ValueTooLarge (
     writes (\<lambda>s. s\<lparr>SchemaVersion := Some version\<rparr>) (
     writes (store_publish (DataStoreMigrateEvent caller version memo))
     (ret ()))))))))"

section \<open>The loops\<close>

lemma copy_without_filter: "copy_without w ws acc = acc @ filter (\<lambda>x. x \<noteq> w) ws"
  by (induction ws arbitrary: acc) auto

lemma snapshot_zip:
  "snapshot entries ks (as, bs) =
     (as @ filter (\<lambda>k. entries k \<noteq> None) ks, bs @ map (\<lambda>k. the (entries k)) (filter (\<lambda>k. entries k \<noteq> None) ks))"
  by (induction ks arbitrary: as bs) (auto split: option.split)

lemma remove_entries_apply: "remove_entries ks entries k = (if k \<in> set ks then None else entries k)"
  by (induction ks arbitrary: entries) auto

lemma write_snapshot_map:
  "length ks = length vs \<Longrightarrow> distinct ks \<Longrightarrow>
     write_snapshot ks vs (entries, ix) = Some (entries ++ map_of (zip ks vs), ix @ ks)"
proof (induction ks vs arbitrary: entries ix rule: list_induct2')
  case (4 k ks v vs)
  then have "map_of (zip ks vs) k = None" by (auto simp: map_of_eq_None_iff dest: set_zip_leftD)
  moreover have "(entries(k \<mapsto> v)) ++ m = entries ++ (m(k \<mapsto> v))" if "m k = None" for m
    using that by (auto simp: map_add_def fun_eq_iff split: option.split)
  ultimately have "entries(k \<mapsto> v) ++ map_of (zip ks vs) = entries ++ map_of (zip (k # ks) (v # vs))"
    unfolding zip_Cons_Cons map_of.simps fst_conv snd_conv by blast
  moreover have "write_snapshot (k # ks) (v # vs) (entries, ix) =
      Some (entries(k \<mapsto> v) ++ map_of (zip ks vs), ix @ k # ks)" using 4 by simp
  ultimately show ?case by metis
qed simp_all

section \<open>Inversion rules\<close>

lemma store_guards_Ok [ok_simps]:
  "ds_assert_initialized k s = (Ok b, t) \<longleftrightarrow> StoreAdmin s \<noteq> None \<and> k s = (Ok b, t)"
  "ds_assert_admin c k s = (Ok b, t) \<longleftrightarrow> StoreAdmin s = Some c \<and> k s = (Ok b, t)"
  "assert_can_write c k s = (Ok b, t) \<longleftrightarrow> is_writer s c \<and> k s = (Ok b, t)"
  by (auto simp: ds_assert_initialized_def ds_assert_admin_def assert_can_write_def is_writer_def ok_simps
      split: option.split if_splits)

lemma data_save_Ok:
  "data_save h c k v s = (Ok u, t) \<longleftrightarrow>
     signed h c \<and> is_writer s c \<and> length k \<le> MAX_KEY_LEN \<and> length v \<le> MAX_VALUE_LEN \<and>
     (Entry s k = None \<longrightarrow> unwrap_or (EntryCount s) 0 < MAX_ENTRIES) \<and>
     t = store_publish (DataStoreSaveEvent c k (length v))
       ((if Entry s k = None
         then s\<lparr>KeyIndex := Some (key_index s @ [k]), EntryCount := Some (unwrap_or (EntryCount s) 0 + 1)\<rparr> else s)
        \<lparr>Entry := (Entry s)(k \<mapsto> v)\<rparr>)"
  by (auto simp: data_save_def ok_simps is_writer_def split: if_splits option.splits)

lemma data_backup_Ok:
  "data_backup h c n s = (Ok u, t) \<longleftrightarrow>
     signed h c \<and> is_writer s c \<and> length n \<le> MAX_BACKUP_NAME \<and>
     t = store_publish (DataStoreBackupEvent c n (length (key_index s)))
       (s\<lparr>Backup := (Backup s)(n \<mapsto> snapshot (Entry s) (key_index s) ([], []))\<rparr>)"
  by (auto simp: data_backup_def ok_simps is_writer_def split: option.splits)

lemma data_restore_Ok:
  assumes "data_restore h c n s = (Ok u, t)"
  obtains ks vs e ix where "signed h c" "StoreAdmin s = Some c" "Backup s n = Some (ks, vs)"
    "write_snapshot ks vs (remove_entries (key_index s) (Entry s), []) = Some (e, ix)"
    "t = store_publish (DataStoreRestoreEvent c n (length ks)) (s\<lparr>Entry := e, KeyIndex := Some ix, EntryCount := Some (length ks)\<rparr>)"
  using assms by (auto simp: data_restore_def ok_simps split: prod.splits)

section \<open>The invariant\<close>

text \<open>The index lists exactly the live keys, once each, the counter is its length, and every stored key and
  value, live or in a backup, is within the size limits.\<close>

definition sized :: "string \<Rightarrow> string \<Rightarrow> bool" where
  "sized k v \<longleftrightarrow> length k \<le> MAX_KEY_LEN \<and> length v \<le> MAX_VALUE_LEN"

definition backup_wf :: "string list \<times> string list \<Rightarrow> bool" where
  "backup_wf b \<longleftrightarrow> length (fst b) = length (snd b) \<and> distinct (fst b) \<and> length (fst b) \<le> MAX_ENTRIES \<and>
     (\<forall>k v. map_of (zip (fst b) (snd b)) k = Some v \<longrightarrow> sized k v)"

definition store_inv :: "store_state \<Rightarrow> bool" where
  "store_inv s \<longleftrightarrow> distinct (key_index s) \<and> set (key_index s) = dom (Entry s) \<and>
     unwrap_or (EntryCount s) 0 = length (key_index s) \<and> length (key_index s) \<le> MAX_ENTRIES \<and>
     (\<forall>k v. Entry s k = Some v \<longrightarrow> sized k v) \<and> (\<forall>n b. Backup s n = Some b \<longrightarrow> backup_wf b) \<and>
     (StoreAdmin s = None \<longrightarrow> Entry s = Map.empty)"

text \<open>What a snapshot of a consistent store holds: the entries, key by key.\<close>

lemma snapshot_all:
  assumes "set ks = dom entries"
  shows "snapshot entries ks ([], []) = (ks, map (\<lambda>k. the (entries k)) ks)"
proof -
  have "filter (\<lambda>k. entries k \<noteq> None) ks = ks" using assms by (intro filter_True) auto
  then show ?thesis by (simp add: snapshot_zip)
qed

lemma map_of_snapshot:
  assumes "set ks = dom entries"
  shows "map_of (zip ks (map (\<lambda>k. the (entries k)) ks)) = entries"
proof
  fix k
  show "map_of (zip ks (map (\<lambda>k. the (entries k)) ks)) k = entries k"
    using assms by (cases "k \<in> set ks") (auto simp: map_of_zip_map dom_def)
qed

lemma backup_wf_snapshot:
  assumes "store_inv s"
  shows "backup_wf (snapshot (Entry s) (key_index s) ([], []))"
  using assms map_of_snapshot [of "key_index s" "Entry s"]
  by (auto simp: store_inv_def snapshot_all backup_wf_def)

text \<open>What a restore writes into a consistent store: exactly the snapshot.\<close>

lemma restore_writes_snapshot:
  assumes "store_inv s" and "Backup s n = Some (ks, vs)"
    and "write_snapshot ks vs (remove_entries (key_index s) (Entry s), []) = Some (e, ix)"
  shows "e = map_of (zip ks vs)" "ix = ks"
proof -
  have "remove_entries (key_index s) (Entry s) = Map.empty"
    using assms(1) by (auto simp: store_inv_def remove_entries_apply fun_eq_iff)
  moreover have "length ks = length vs" "distinct ks"
    using assms(1,2) by (auto simp: store_inv_def backup_wf_def)
  ultimately show "e = map_of (zip ks vs)" "ix = ks"
    using assms(3) by (auto simp: write_snapshot_map)
qed

lemma data_restore_entries:
  assumes "store_inv s" and "Backup s n = Some (ks, vs)" and "data_restore h c n s = (Ok u, t)"
  shows "Entry t = map_of (zip ks vs)" "key_index t = ks" "unwrap_or (EntryCount t) 0 = length ks" "Backup t = Backup s"
proof -
  from assms(3,2) obtain e ix where
    w: "write_snapshot ks vs (remove_entries (key_index s) (Entry s), []) = Some (e, ix)"
    and t: "t = store_publish (DataStoreRestoreEvent c n (length ks)) (s\<lparr>Entry := e, KeyIndex := Some ix, EntryCount := Some (length ks)\<rparr>)"
    by (auto elim!: data_restore_Ok)
  show "Entry t = map_of (zip ks vs)" "key_index t = ks" "unwrap_or (EntryCount t) 0 = length ks" "Backup t = Backup s"
    using restore_writes_snapshot [OF assms(1,2) w] by (simp_all add: t store_publish_def key_index_def)
qed

lemma data_save_inv:
  assumes inv: "store_inv s" and ok: "data_save h c k v s = (Ok u, t)"
  shows "store_inv t"
proof (cases "Entry s k = None")
  case True
  then have "k \<notin> set (key_index s)" using inv by (auto simp: store_inv_def)
  with True ok inv show ?thesis
    by (auto simp: data_save_Ok store_inv_def store_publish_def key_index_def sized_def is_writer_def split: option.splits)
next
  case False
  with ok inv show ?thesis
    by (auto simp: data_save_Ok store_inv_def store_publish_def key_index_def sized_def is_writer_def split: option.splits)
qed

lemma data_backup_inv: "store_inv s \<Longrightarrow> data_backup h c n s = (Ok u, t) \<Longrightarrow> store_inv t"
  using backup_wf_snapshot [of s] by (auto simp: data_backup_Ok store_inv_def store_publish_def key_index_def)

lemma data_restore_inv:
  assumes inv: "store_inv s" and ok: "data_restore h c n s = (Ok u, t)"
  shows "store_inv t"
proof -
  from ok obtain ks vs e ix where b: "StoreAdmin s = Some c" "Backup s n = Some (ks, vs)"
    and w: "write_snapshot ks vs (remove_entries (key_index s) (Entry s), []) = Some (e, ix)"
    and t: "t = store_publish (DataStoreRestoreEvent c n (length ks)) (s\<lparr>Entry := e, KeyIndex := Some ix, EntryCount := Some (length ks)\<rparr>)"
    by (rule data_restore_Ok)
  have bw: "backup_wf (ks, vs)" using inv b(2) by (auto simp: store_inv_def)
  then have "dom (map_of (zip ks vs)) = set ks" "distinct ks" "length ks \<le> MAX_ENTRIES"
    "\<forall>k v. map_of (zip ks vs) k = Some v \<longrightarrow> sized k v" by (simp_all add: backup_wf_def dom_map_of_zip)
  then show ?thesis
    using restore_writes_snapshot [OF inv b(2) w] inv b(1)
    by (simp add: t store_inv_def store_publish_def key_index_def)
qed

lemma writer_ops_inv:
  "store_inv s \<Longrightarrow> store_init h a s = (Ok u, t) \<Longrightarrow> store_inv t"
  "store_inv s \<Longrightarrow> data_migrate_bump_version h c v m s = (Ok u, t) \<Longrightarrow> store_inv t"
  "store_inv s \<Longrightarrow> revoke_writer h c w s = (Ok u, t) \<Longrightarrow> store_inv t"
  by (auto simp: store_init_def data_migrate_bump_version_def revoke_writer_def ok_simps store_publish_def
      store_inv_def key_index_def)

lemma grant_writer_inv: "store_inv s \<Longrightarrow> grant_writer h c w s = (Ok u, t) \<Longrightarrow> store_inv t"
  by (cases "w \<in> set (writers s)") (auto simp: grant_writer_def ok_simps store_publish_def store_inv_def key_index_def)

section \<open>The contract as a machine\<close>

datatype store_call =
  DS_init address
| DS_grant_writer address address
| DS_revoke_writer address address
| DS_save address string string
| DS_backup address string
| DS_restore address string
| DS_migrate address u32 "string option"

definition store_after :: "'a store_fn \<Rightarrow> store_state \<Rightarrow> store_state" where
  "store_after m s = snd (invoke m s)"

fun exec_store :: "host \<Rightarrow> store_call \<Rightarrow> store_state \<Rightarrow> store_state" where
  "exec_store h (DS_init a) = store_after (store_init h a)"
| "exec_store h (DS_grant_writer c w) = store_after (grant_writer h c w)"
| "exec_store h (DS_revoke_writer c w) = store_after (revoke_writer h c w)"
| "exec_store h (DS_save c k v) = store_after (data_save h c k v)"
| "exec_store h (DS_backup c n) = store_after (data_backup h c n)"
| "exec_store h (DS_restore c n) = store_after (data_restore h c n)"
| "exec_store h (DS_migrate c v m) = store_after (data_migrate_bump_version h c v m)"

definition store_step :: "host \<times> store_call \<Rightarrow> store_state \<Rightarrow> store_state" where
  "store_step l s = exec_store (fst l) (snd l) s"

definition empty_store :: store_state where
  "empty_store = \<lparr>StoreAdmin = None, Writers = None, SchemaVersion = None, EntryCount = None, Entry = Map.empty,
     Backup = Map.empty, KeyIndex = None, TotalAssets = None, StoreReserves = None, store_log = []\<rparr>"

lemma store_after_keeps: "P s \<Longrightarrow> (\<And>a t. m s = (Ok a, t) \<Longrightarrow> P t) \<Longrightarrow> P (store_after m s)"
  unfolding store_after_def by (rule invoke_preserves)

lemmas store_ops_inv = writer_ops_inv grant_writer_inv data_save_inv data_backup_inv data_restore_inv

lemma store_step_inv: "store_inv s \<Longrightarrow> store_inv (store_step l s)"
  unfolding store_step_def
  by (cases "snd l") (simp_all only: exec_store.simps, (rule store_after_keeps, assumption, erule (1) store_ops_inv)+)

interpretation store_machine: invariant_machine store_step empty_store "\<lambda>_ _. True" store_inv
  by unfold_locales (simp_all add: store_step_inv, simp add: empty_store_def store_inv_def key_index_def)

text \<open>A named backup changes only when a backup of that name is taken.\<close>

definition other_backup :: "string \<Rightarrow> store_state \<Rightarrow> host \<times> store_call \<Rightarrow> bool" where
  "other_backup n s l \<longleftrightarrow> (\<forall>c. snd l \<noteq> DS_backup c n)"

lemma ops_keep_backup:
  "store_init h a s = (Ok u, t) \<Longrightarrow> Backup t = Backup s"
  "data_migrate_bump_version h c v m s = (Ok u, t) \<Longrightarrow> Backup t = Backup s"
  "revoke_writer h c w s = (Ok u, t) \<Longrightarrow> Backup t = Backup s"
  "grant_writer h c w s = (Ok u, t) \<Longrightarrow> Backup t = Backup s"
  "data_save h c k val s = (Ok u, t) \<Longrightarrow> Backup t = Backup s"
  "data_restore h c n s = (Ok u, t) \<Longrightarrow> Backup t = Backup s"
  by (auto simp: store_init_def data_migrate_bump_version_def revoke_writer_def grant_writer_def data_save_Ok
      ok_simps store_publish_def elim!: data_restore_Ok)

lemma store_step_backup:
  assumes "other_backup n s l"
  shows "Backup (store_step l s) n = Backup s n"
proof (cases "snd l")
  case (DS_backup c n')
  with assms show ?thesis
    unfolding store_step_def
    by (simp, intro store_after_keeps [of "\<lambda>r. Backup r n = Backup s n"])
       (auto simp: other_backup_def data_backup_Ok store_publish_def)
qed (simp_all add: store_step_def, (rule store_after_keeps, rule refl, drule ops_keep_backup, simp)+)

lemma run_backup: "allowed_run (other_backup n) store_step s ls \<Longrightarrow> Backup (run store_step s ls) n = Backup s n"
  by (induction ls arbitrary: s) (auto simp: store_step_backup)

section \<open>Properties\<close>

text \<open>The abstract store: the live entries as a map, and the backups as maps.\<close>

definition store_of :: "store_state \<Rightarrow> (string \<Rightarrow> string option) \<times> (string \<Rightarrow> (string \<Rightarrow> string option) option)" where
  "store_of s = (Entry s, \<lambda>n. map_option (\<lambda>(ks, vs). map_of (zip ks vs)) (Backup s n))"

text \<open>C18: The key-value store refines maps: in every storage the contract can reach, a save is a map update, a
  backup stores the whole map under its name, a restore replaces the map by the stored one and keeps the
  backups, and the index, the counter and the size limits agree with the map.\<close>

theorem data_store_refines_maps:
  assumes s: "s = run store_step empty_store ls"
  shows "(data_save h c k v s = (Ok (), t) \<longrightarrow> store_of t = ((fst (store_of s))(k \<mapsto> v), snd (store_of s))) \<and>
         (data_backup h c n s = (Ok (), t) \<longrightarrow> store_of t = (fst (store_of s), (snd (store_of s))(n \<mapsto> fst (store_of s)))) \<and>
         (data_restore h c n s = (Ok (), t) \<longrightarrow>
            (\<exists>m. snd (store_of s) n = Some m \<and> store_of t = (m, snd (store_of s)))) \<and>
         distinct (key_index s) \<and> set (key_index s) = dom (fst (store_of s)) \<and>
         unwrap_or (EntryCount s) 0 = card (dom (fst (store_of s))) \<and> card (dom (fst (store_of s))) \<le> 1000"
proof -
  have inv: "store_inv s" unfolding s by (rule store_machine.inv_run [OF allowed_run_always])
  then have ix: "distinct (key_index s)" "set (key_index s) = dom (Entry s)" by (simp_all add: store_inv_def)
  have save: "store_of t = ((Entry s)(k \<mapsto> v), snd (store_of s))" if "data_save h c k v s = (Ok (), t)"
    using that by (auto simp: data_save_Ok store_of_def store_publish_def)
  have backup: "store_of t = (Entry s, (snd (store_of s))(n \<mapsto> Entry s))" if "data_backup h c n s = (Ok (), t)"
    using that by (auto simp: data_backup_Ok store_of_def store_publish_def snapshot_all [OF ix(2)] map_of_snapshot [OF ix(2)])
  have restore: "\<exists>m. snd (store_of s) n = Some m \<and> store_of t = (m, snd (store_of s))" if "data_restore h c n s = (Ok (), t)"
  proof -
    from that obtain ks vs where b: "Backup s n = Some (ks, vs)" by (rule data_restore_Ok)
    from data_restore_entries [OF inv this that] b show ?thesis by (simp add: store_of_def)
  qed
  have "card (dom (Entry s)) = length (key_index s)" using distinct_card [OF ix(1)] ix(2) by simp
  with save backup restore ix inv show ?thesis
    by (simp add: store_of_def store_inv_def MAX_ENTRIES_def)
qed

definition store_sample :: "(host \<times> store_call) list" where
  "store_sample = [(sample_host 0, DS_init 1), (sample_host 0, DS_save 1 ''a'' ''x''), (sample_host 0, DS_backup 1 ''b''),
     (sample_host 0, DS_save 1 ''a'' ''y''), (sample_host 0, DS_save 1 ''c'' ''z'')]"

theorem data_store_refines_maps_witness:
  "unwrap_or (EntryCount (run store_step empty_store store_sample)) 0 = card (dom (Entry (run store_step empty_store store_sample)))"
  using data_store_refines_maps [of _ store_sample, OF refl] by (simp add: store_of_def)

text \<open>A restore brings back what was backed up: whatever happens between taking a backup and restoring
  it, as long as no other backup takes its name, the restored entries are exactly those at the time of
  the backup.\<close>

theorem backup_restore_round_trip:
  assumes "s = run store_step empty_store ls" and "data_backup h c n s = (Ok u, t)"
    and "allowed_run (other_backup n) store_step t between"
    and "data_restore h' a n (run store_step t between) = (Ok u', r)"
  shows "Entry r = Entry s \<and> key_index r = key_index s \<and> unwrap_or (EntryCount r) 0 = unwrap_or (EntryCount s) 0"
proof -
  let ?m = "run store_step t between"
  have inv: "store_inv s" unfolding assms(1) by (rule store_machine.inv_run [OF allowed_run_always])
  have "store_inv ?m" by (rule store_machine.inv_run_from [OF data_backup_inv [OF inv assms(2)] allowed_run_always])
  moreover have ix: "set (key_index s) = dom (Entry s)" using inv by (simp add: store_inv_def)
  have "Backup ?m n = Some (key_index s, map (\<lambda>k. the (Entry s k)) (key_index s))"
    using run_backup [OF assms(3)] assms(2) by (auto simp: data_backup_Ok store_publish_def snapshot_all [OF ix])
  ultimately show ?thesis
    using data_restore_entries [OF _ _ assms(4)] inv by (simp add: map_of_snapshot [OF ix] store_inv_def)
qed

theorem backup_restore_round_trip_witness:
  "let s = run store_step empty_store (take 2 store_sample); t = snd (data_backup (sample_host 0) 1 ''b'' s);
       r = snd (data_restore (sample_host 0) 1 ''b'' (run store_step t (drop 3 store_sample)))
   in Entry r = Entry s \<and> Entry r ''a'' = Some ''x''"
proof -
  let ?s = "run store_step empty_store (take 2 store_sample)"
  let ?b = "data_backup (sample_host 0) 1 ''b'' ?s"
  let ?r = "data_restore (sample_host 0) 1 ''b'' (run store_step (snd ?b) (drop 3 store_sample))"
  have "fst ?b = Ok ()" "fst ?r = Ok ()" and a: "Entry ?s ''a'' = Some ''x''" by code_simp+
  then have b: "?b = (Ok (), snd ?b)" and r: "?r = (Ok (), snd ?r)" by (simp_all add: prod_eq_iff)
  have "allowed_run (other_backup ''b'') store_step (snd ?b) (drop 3 store_sample)"
    by (simp add: store_sample_def other_backup_def)
  from backup_restore_round_trip [OF refl b this r] a show ?thesis by (simp add: Let_def)
qed

end
