(* ===== verification/Amm.thy ===== *)
theory Amm
  imports Sample SL_Interfaces
begin

text \<open>
  The AMM router contract: src/stellar-lend/contracts/amm/src/amm.rs and its entry points in
  src/stellar-lend/contracts/amm/src/lib.rs. Swaps and liquidity operations go through registered
  protocols (the interaction is the placeholder arithmetic of the source), every operation consumes a
  callback nonce of its user, and bounded histories keep the last thousand operations.
\<close>

datatype AmmError = InvalidSwapParams | InsufficientLiquidity | SlippageExceeded | InvalidAmmProtocol | InvalidCallback
  | SwapPaused | LiquidityPaused | Unauthorized | Overflow | UnsupportedProtocol | InvalidTokenPair | MinOutputNotMet
  | MaxInputExceeded | AlreadyInitialized

record TokenPair =
  token_a :: "address option"
  token_b :: "address option"
  pool_address :: address

record AmmProtocolConfig =
  protocol_address :: address
  protocol_name :: symbol
  enabled :: bool
  fee_tier :: i128
  min_swap_amount :: i128
  max_swap_amount :: i128
  supported_pairs :: "TokenPair list"

record AmmSettings =
  default_slippage :: i128
  max_slippage :: i128
  swap_enabled :: bool
  liquidity_enabled :: bool
  auto_swap_threshold :: i128

record SwapParams =
  sp_protocol :: address
  sp_token_in :: "address option"
  sp_token_out :: "address option"
  sp_amount_in :: i128
  sp_min_amount_out :: i128
  sp_slippage_tolerance :: i128
  sp_deadline :: u64

record SwapRecord =
  sr_user :: address
  sr_protocol :: address
  sr_token_in :: "address option"
  sr_token_out :: "address option"
  sr_amount_in :: i128
  sr_amount_out :: i128
  sr_effective_price :: i128
  sr_fees_paid :: i128
  sr_timestamp :: u64
  sr_tx_hash :: symbol

record LiquidityParams =
  lp_protocol :: address
  lp_token_a :: "address option"
  lp_token_b :: "address option"
  lp_amount_a :: i128
  lp_amount_b :: i128
  lp_min_amount_a :: i128
  lp_min_amount_b :: i128
  lp_deadline :: u64
  lp_tick_lower :: "int option"
  lp_tick_upper :: "int option"
  lp_fee_tier :: "u32 option"

record LiquidityRecord =
  lr_user :: address
  lr_operation_type :: symbol
  lr_protocol :: address
  lr_token_a :: "address option"
  lr_token_b :: "address option"
  lr_amount_a :: i128
  lr_amount_b :: i128
  lr_lp_tokens :: i128
  lr_tick_lower :: "int option"
  lr_tick_upper :: "int option"
  lr_timestamp :: u64

record AmmCallbackData =
  cb_nonce :: u64
  cb_operation :: symbol
  cb_user :: address
  cb_expected_amounts :: "i128 list"
  cb_deadline :: u64

datatype amm_event =
  SwapExecutedEvent address address i128 i128 i128
| LiquidityAddedEvent address address i128 i128 i128
| LiquidityRemovedEvent address address i128
| AmmOperationEvent address symbol i128 i128 u64
| CallbackValidatedEvent address address symbol u64

text \<open>The host's \<open>Map\<close> is ordered by key: an association list, read with \<open>map_of\<close>.\<close>

fun map_set :: "'k::linorder \<Rightarrow> 'v \<Rightarrow> ('k \<times> 'v) list \<Rightarrow> ('k \<times> 'v) list" where
  "map_set k v [] = [(k, v)]"
| "map_set k v ((k', v') # m) =
     (if k < k' then (k, v) # (k', v') # m else if k = k' then (k, v) # m else (k', v') # map_set k v m)"

record amm_state =
  AmmProtocols :: "(address \<times> AmmProtocolConfig) list option"
  AmmSettingsKey :: "AmmSettings option"
  SwapHistory :: "SwapRecord list option"
  LiquidityHistory :: "LiquidityRecord list option"
  CallbackNonces :: "address \<Rightarrow> u64 option"
  AmmAdmin :: "address option"
  amm_log :: "amm_event list"

type_synonym 'a amm_fn = "(amm_state, AmmError, 'a) contract_fn"

definition amm_publish :: "amm_event \<Rightarrow> amm_state \<Rightarrow> amm_state" where
  "amm_publish e s = s\<lparr>amm_log := amm_log s @ [e]\<rparr>"

section \<open>Reads and checks\<close>

definition get_amm_protocols :: "(address \<times> AmmProtocolConfig) list amm_fn" where
  "get_amm_protocols = reads AmmProtocols (\<lambda>x. ok_or x UnsupportedProtocol ret)"

definition get_amm_settings :: "AmmSettings amm_fn" where
  "get_amm_settings = reads AmmSettingsKey (\<lambda>x. ok_or x InvalidSwapParams ret)"

definition get_amm_protocol_config :: "address \<Rightarrow> AmmProtocolConfig amm_fn" where
  "get_amm_protocol_config protocol =
     tryM get_amm_protocols (\<lambda>protocols. ok_or (map_of protocols protocol) UnsupportedProtocol ret)"

definition validate_swap_params :: "SwapParams \<Rightarrow> unit amm_fn" where
  "validate_swap_params params =
     fail_if (sp_amount_in params \<le> 0) InvalidSwapParams (
     fail_if (sp_min_amount_out params \<le> 0) InvalidSwapParams (
     fail_if (sp_token_in params = sp_token_out params) InvalidTokenPair (
     tryM get_amm_settings (\<lambda>settings.
     fail_if (sp_slippage_tolerance params > max_slippage settings) SlippageExceeded
     (ret ())))))"

definition validate_liquidity_params :: "LiquidityParams \<Rightarrow> unit amm_fn" where
  "validate_liquidity_params params =
     fail_if (lp_amount_a params \<le> 0 \<or> lp_amount_b params \<le> 0) InvalidSwapParams (
     fail_if (lp_min_amount_a params < 0 \<or> lp_min_amount_b params < 0) InvalidSwapParams (
     fail_if (lp_token_a params = lp_token_b params) InvalidTokenPair
     (ret ())))"

definition check_swap_enabled :: "unit amm_fn" where
  "check_swap_enabled = tryM get_amm_settings (\<lambda>settings. fail_if (\<not> swap_enabled settings) SwapPaused (ret ()))"

definition check_liquidity_enabled :: "unit amm_fn" where
  "check_liquidity_enabled =
     tryM get_amm_settings (\<lambda>settings. fail_if (\<not> liquidity_enabled settings) LiquidityPaused (ret ()))"

text \<open>The loop over the supported pairs, in both orientations.\<close>

fun find_pair :: "address option \<Rightarrow> address option \<Rightarrow> TokenPair list \<Rightarrow> AmmError + unit" where
  "find_pair a b [] = Inl InvalidTokenPair"
| "find_pair a b (p # ps) =
     (if (token_a p = a \<and> token_b p = b) \<or> (token_a p = b \<and> token_b p = a) then Inr () else find_pair a b ps)"

definition validate_token_pair :: "AmmProtocolConfig \<Rightarrow> address option \<Rightarrow> address option \<Rightarrow> AmmError + unit" where
  "validate_token_pair config a b = find_pair a b (supported_pairs config)"

section \<open>Nonces and callbacks\<close>

definition callback_nonce :: "amm_state \<Rightarrow> address \<Rightarrow> u64" where
  "callback_nonce s user = unwrap_or (CallbackNonces s user) 0"

definition set_callback_nonce :: "address \<Rightarrow> u64 \<Rightarrow> amm_state \<Rightarrow> amm_state" where
  "set_callback_nonce user n s = s\<lparr>CallbackNonces := (CallbackNonces s)(user \<mapsto> n)\<rparr>"

definition generate_callback_nonce :: "address \<Rightarrow> u64 amm_fn" where
  "generate_callback_nonce user =
     reads (\<lambda>s. callback_nonce s user) (\<lambda>current_nonce.
     unwrap (checked_add_u64 current_nonce 1) (\<lambda>new_nonce.
     writes (set_callback_nonce user new_nonce) (ret new_nonce)))"

definition emit_callback_validated_event :: "address \<Rightarrow> AmmCallbackData \<Rightarrow> amm_state \<Rightarrow> amm_state" where
  "emit_callback_validated_event caller d =
     amm_publish (CallbackValidatedEvent caller (cb_user d) (cb_operation d) (cb_nonce d))"

definition validate_amm_callback :: "host \<Rightarrow> address \<Rightarrow> AmmCallbackData \<Rightarrow> unit amm_fn" where
  "validate_amm_callback h caller d =
     tryM get_amm_protocols (\<lambda>protocols.
     fail_if (map_of protocols caller = None) InvalidCallback (
     fail_if (now h > cb_deadline d) InvalidCallback (
     reads (\<lambda>s. callback_nonce s (cb_user d)) (\<lambda>expected_nonce.
     fail_if (cb_nonce d \<noteq> expected_nonce) InvalidCallback (
     unwrap (checked_add_u64 expected_nonce 1) (\<lambda>next_nonce.
     writes (set_callback_nonce (cb_user d) next_nonce) (
     writes (emit_callback_validated_event caller d)
     (ret ()))))))))"

section \<open>Arithmetic\<close>

definition calculate_effective_price :: "i128 \<Rightarrow> i128 \<Rightarrow> AmmError + i128" where
  "calculate_effective_price amount_in amount_out =
     (if amount_in = 0 then Inl InvalidSwapParams
      else ok_orE (Option.bind (checked_mul amount_out 1000000000000000000) (\<lambda>v. checked_div v amount_in)) Overflow Inr)"

definition calculate_swap_fees :: "AmmProtocolConfig \<Rightarrow> i128 \<Rightarrow> AmmError + i128" where
  "calculate_swap_fees config amount_in =
     ok_orE (Option.bind (checked_mul amount_in (fee_tier config)) (\<lambda>v. checked_div v 10000)) Overflow Inr"

definition calculate_min_output_with_slippage :: "i128 \<Rightarrow> i128 \<Rightarrow> AmmError + i128" where
  "calculate_min_output_with_slippage amount slippage_bps =
     (if slippage_bps > 10000 then Inl InvalidSwapParams
      else ok_orE (checked_sub 10000 slippage_bps) Overflow (\<lambda>slippage_factor.
           ok_orE (Option.bind (checked_mul amount slippage_factor) (\<lambda>v. checked_div v 10000)) Overflow Inr))"

section \<open>The protocol interaction\<close>

definition execute_amm_swap :: "host \<Rightarrow> SwapParams \<Rightarrow> AmmCallbackData \<Rightarrow> i128 amm_fn" where
  "execute_amm_swap h params d =
     ok_or (checked_sub 10000 (sp_slippage_tolerance params)) Overflow (\<lambda>slippage_factor.
     ok_or (Option.bind (checked_mul (sp_amount_in params) slippage_factor) (\<lambda>v. checked_div v 10000)) Overflow (\<lambda>amount_out.
     tryM (validate_amm_callback h (sp_protocol params) d) (\<lambda>_.
     ret amount_out)))"

definition execute_amm_add_liquidity :: "host \<Rightarrow> LiquidityParams \<Rightarrow> AmmCallbackData \<Rightarrow> i128 amm_fn" where
  "execute_amm_add_liquidity h params d =
     ok_or (Option.bind (checked_add (lp_amount_a params) (lp_amount_b params)) (\<lambda>v. checked_div v 2)) Overflow (\<lambda>lp_tokens.
     tryM (validate_amm_callback h (lp_protocol params) d) (\<lambda>_.
     ret lp_tokens))"

definition execute_amm_remove_liquidity :: "host \<Rightarrow> address \<Rightarrow> i128 \<Rightarrow> AmmCallbackData \<Rightarrow> (i128 \<times> i128) amm_fn" where
  "execute_amm_remove_liquidity h protocol lp_tokens d =
     (let amount_a = lp_tokens; amount_b = lp_tokens in
      tryM (validate_amm_callback h protocol d) (\<lambda>_. ret (amount_a, amount_b)))"

section \<open>Histories\<close>

definition HISTORY_LIMIT :: nat where
  "HISTORY_LIMIT = 1000"

definition push_bounded :: "'r list option \<Rightarrow> 'r \<Rightarrow> 'r list" where
  "push_bounded history record =
     (let history' = unwrap_or history [] @ [record]
      in if length history' > HISTORY_LIMIT then tl history' else history')"

definition record_swap :: "host \<Rightarrow> address \<Rightarrow> SwapParams \<Rightarrow> i128 \<Rightarrow> i128 \<Rightarrow> i128 \<Rightarrow> amm_state \<Rightarrow> amm_state" where
  "record_swap h user params amount_out effective_price fees s =
     s\<lparr>SwapHistory := Some (push_bounded (SwapHistory s)
        \<lparr>sr_user = user, sr_protocol = sp_protocol params, sr_token_in = sp_token_in params,
         sr_token_out = sp_token_out params, sr_amount_in = sp_amount_in params, sr_amount_out = amount_out,
         sr_effective_price = effective_price, sr_fees_paid = fees, sr_timestamp = now h, sr_tx_hash = ''mock_tx_hash''\<rparr>)\<rparr>"

definition record_liquidity_operation ::
    "host \<Rightarrow> address \<Rightarrow> symbol \<Rightarrow> LiquidityParams \<Rightarrow> i128 \<Rightarrow> amm_state \<Rightarrow> amm_state" where
  "record_liquidity_operation h user operation params lp_tokens s =
     s\<lparr>LiquidityHistory := Some (push_bounded (LiquidityHistory s)
        \<lparr>lr_user = user, lr_operation_type = operation, lr_protocol = lp_protocol params, lr_token_a = lp_token_a params,
         lr_token_b = lp_token_b params, lr_amount_a = lp_amount_a params, lr_amount_b = lp_amount_b params,
         lr_lp_tokens = lp_tokens, lr_tick_lower = lp_tick_lower params, lr_tick_upper = lp_tick_upper params,
         lr_timestamp = now h\<rparr>)\<rparr>"

text \<open>The query loop: newest first, at most \<open>limit\<close> records, of one user if one is given.\<close>

fun collect_records :: "('r \<Rightarrow> address) \<Rightarrow> address option \<Rightarrow> nat \<Rightarrow> 'r list \<Rightarrow> nat \<Rightarrow> 'r list \<Rightarrow> 'r list" where
  "collect_records user_of filter_user limit [] count acc = acc"
| "collect_records user_of filter_user limit (r # rs) count acc =
     (if count \<ge> limit then acc
      else (case filter_user of
              Some u \<Rightarrow> if user_of r = u then collect_records user_of filter_user limit rs (count + 1) (acc @ [r])
                       else collect_records user_of filter_user limit rs count acc
            | None \<Rightarrow> collect_records user_of filter_user limit rs (count + 1) (acc @ [r])))"

definition get_swap_history :: "amm_state \<Rightarrow> address option \<Rightarrow> u32 \<Rightarrow> SwapRecord list" where
  "get_swap_history s user limit = collect_records sr_user user limit (rev (unwrap_or (SwapHistory s) [])) 0 []"

definition get_liquidity_history :: "amm_state \<Rightarrow> address option \<Rightarrow> u32 \<Rightarrow> LiquidityRecord list" where
  "get_liquidity_history s user limit = collect_records lr_user user limit (rev (unwrap_or (LiquidityHistory s) [])) 0 []"

section \<open>Events\<close>

definition emit_swap_executed_event :: "address \<Rightarrow> SwapParams \<Rightarrow> i128 \<Rightarrow> i128 \<Rightarrow> amm_state \<Rightarrow> amm_state" where
  "emit_swap_executed_event user params amount_out effective_price =
     amm_publish (SwapExecutedEvent user (sp_protocol params) (sp_amount_in params) amount_out effective_price)"

definition emit_liquidity_added_event :: "address \<Rightarrow> LiquidityParams \<Rightarrow> i128 \<Rightarrow> amm_state \<Rightarrow> amm_state" where
  "emit_liquidity_added_event user params lp_tokens =
     amm_publish (LiquidityAddedEvent user (lp_protocol params) (lp_amount_a params) (lp_amount_b params) lp_tokens)"

definition emit_liquidity_removed_event :: "address \<Rightarrow> LiquidityParams \<Rightarrow> i128 \<Rightarrow> amm_state \<Rightarrow> amm_state" where
  "emit_liquidity_removed_event user params lp_tokens =
     amm_publish (LiquidityRemovedEvent user (lp_protocol params) lp_tokens)"

definition emit_amm_operation_event :: "host \<Rightarrow> address \<Rightarrow> symbol \<Rightarrow> i128 \<Rightarrow> i128 \<Rightarrow> amm_state \<Rightarrow> amm_state" where
  "emit_amm_operation_event h user operation amount_in amount_out =
     amm_publish (AmmOperationEvent user operation amount_in amount_out (now h))"

section \<open>Operations\<close>

definition execute_swap :: "host \<Rightarrow> address \<Rightarrow> SwapParams \<Rightarrow> i128 amm_fn" where
  "execute_swap h user params =
     tryM (validate_swap_params params) (\<lambda>_.
     tryM check_swap_enabled (\<lambda>_.
     fail_if (now h > sp_deadline params) SlippageExceeded (
     tryM (get_amm_protocol_config (sp_protocol params)) (\<lambda>config.
     fail_if (sp_amount_in params < min_swap_amount config) InvalidSwapParams (
     fail_if (sp_amount_in params > max_swap_amount config) MaxInputExceeded (
     tryM (liftE (validate_token_pair config (sp_token_in params) (sp_token_out params))) (\<lambda>_.
     tryM (generate_callback_nonce user) (\<lambda>nonce.
     let d = \<lparr>cb_nonce = nonce, cb_operation = ''swap'', cb_user = user,
              cb_expected_amounts = [sp_amount_in params, sp_min_amount_out params], cb_deadline = sp_deadline params\<rparr> in
     tryM (execute_amm_swap h params d) (\<lambda>amount_out.
     fail_if (amount_out < sp_min_amount_out params) MinOutputNotMet (
     tryM (liftE (calculate_effective_price (sp_amount_in params) amount_out)) (\<lambda>effective_price.
     tryM (liftE (calculate_swap_fees config (sp_amount_in params))) (\<lambda>fees_paid.
     writes (record_swap h user params amount_out effective_price fees_paid) (
     writes (emit_swap_executed_event user params amount_out effective_price) (
     writes (emit_amm_operation_event h user ''swap'' (sp_amount_in params) amount_out)
     (ret amount_out)))))))))))))))"

definition add_liquidity :: "host \<Rightarrow> address \<Rightarrow> LiquidityParams \<Rightarrow> i128 amm_fn" where
  "add_liquidity h user params =
     tryM (validate_liquidity_params params) (\<lambda>_.
     tryM check_liquidity_enabled (\<lambda>_.
     fail_if (now h > lp_deadline params) SlippageExceeded (
     tryM (get_amm_protocol_config (lp_protocol params)) (\<lambda>config.
     tryM (liftE (validate_token_pair config (lp_token_a params) (lp_token_b params))) (\<lambda>_.
     tryM (generate_callback_nonce user) (\<lambda>nonce.
     let d = \<lparr>cb_nonce = nonce, cb_operation = ''add_liquidity'', cb_user = user,
              cb_expected_amounts = [lp_amount_a params, lp_amount_b params], cb_deadline = lp_deadline params\<rparr> in
     tryM (execute_amm_add_liquidity h params d) (\<lambda>lp_tokens.
     writes (record_liquidity_operation h user ''add'' params lp_tokens) (
     writes (emit_liquidity_added_event user params lp_tokens) (
     writes (emit_amm_operation_event h user ''add_liquidity'' (lp_amount_a params) lp_tokens)
     (ret lp_tokens))))))))))"

definition remove_liquidity ::
    "host \<Rightarrow> address \<Rightarrow> address \<Rightarrow> address option \<Rightarrow> address option \<Rightarrow> i128 \<Rightarrow> i128 \<Rightarrow> i128 \<Rightarrow> u64 \<Rightarrow> (i128 \<times> i128) amm_fn" where
  "remove_liquidity h user protocol a b lp_tokens min_a min_b deadline =
     tryM check_liquidity_enabled (\<lambda>_.
     fail_if (now h > deadline) SlippageExceeded (
     fail_if (lp_tokens \<le> 0) InvalidSwapParams (
     tryM (get_amm_protocol_config protocol) (\<lambda>config.
     tryM (liftE (validate_token_pair config a b)) (\<lambda>_.
     tryM (generate_callback_nonce user) (\<lambda>nonce.
     let d = \<lparr>cb_nonce = nonce, cb_operation = ''remove_liquidity'', cb_user = user,
              cb_expected_amounts = [min_a, min_b], cb_deadline = deadline\<rparr> in
     tryM (execute_amm_remove_liquidity h protocol lp_tokens d) (\<lambda>(amount_a, amount_b).
     fail_if (amount_a < min_a \<or> amount_b < min_b) MinOutputNotMet (
     let params = \<lparr>lp_protocol = protocol, lp_token_a = a, lp_token_b = b, lp_amount_a = amount_a, lp_amount_b = amount_b,
                   lp_min_amount_a = min_a, lp_min_amount_b = min_b, lp_deadline = deadline,
                   lp_tick_lower = None, lp_tick_upper = None, lp_fee_tier = None\<rparr> in
     writes (record_liquidity_operation h user ''remove'' params lp_tokens) (
     writes (emit_liquidity_removed_event user params lp_tokens) (
     writes (emit_amm_operation_event h user ''remove_liquidity'' lp_tokens (saturating_add amount_a amount_b))
     (ret (amount_a, amount_b))))))))))))"

text \<open>The search keeps the first enabled protocol, in key order, that supports the pair.\<close>

fun first_supporting ::
    "address option \<Rightarrow> address option \<Rightarrow> (address \<times> AmmProtocolConfig) list \<Rightarrow> address option \<Rightarrow> address option" where
  "first_supporting a b [] best = best"
| "first_supporting a b ((addr, config) # ps) best =
     (if \<not> enabled config then first_supporting a b ps best
      else if validate_token_pair config a b = Inr () \<and> best = None then first_supporting a b ps (Some addr)
      else first_supporting a b ps best)"

definition find_best_amm_protocol :: "address option \<Rightarrow> address option \<Rightarrow> address amm_fn" where
  "find_best_amm_protocol a b =
     tryM get_amm_protocols (\<lambda>protocols. ok_or (first_supporting a b protocols None) UnsupportedProtocol ret)"

definition auto_swap_for_collateral :: "host \<Rightarrow> address \<Rightarrow> address option \<Rightarrow> i128 \<Rightarrow> i128 amm_fn" where
  "auto_swap_for_collateral h user target_token amount =
     tryM get_amm_settings (\<lambda>settings.
     fail_if (\<not> swap_enabled settings) SwapPaused (
     fail_if (amount < auto_swap_threshold settings) InvalidSwapParams (
     tryM (find_best_amm_protocol None target_token) (\<lambda>best_protocol.
     tryM (liftE (calculate_min_output_with_slippage amount (default_slippage settings))) (\<lambda>min_out.
     ok_or (checked_add_u64 (now h) 300) SlippageExceeded (\<lambda>deadline.
     let params = \<lparr>sp_protocol = best_protocol, sp_token_in = None, sp_token_out = target_token, sp_amount_in = amount,
                   sp_min_amount_out = min_out, sp_slippage_tolerance = default_slippage settings,
                   sp_deadline = deadline\<rparr> in
     tryM (execute_swap h user params) (\<lambda>amount_out.
     ret amount_out)))))))"

section \<open>Administration\<close>

definition require_admin :: "address \<Rightarrow> unit amm_fn" where
  "require_admin caller = reads AmmAdmin (\<lambda>a. ok_or a Unauthorized (\<lambda>admin. fail_if (admin \<noteq> caller) Unauthorized (ret ())))"

definition initialize_amm_settings :: "address \<Rightarrow> i128 \<Rightarrow> i128 \<Rightarrow> i128 \<Rightarrow> unit amm_fn" where
  "initialize_amm_settings admin def_slippage max_slip threshold =
     reads AmmAdmin (\<lambda>a.
     fail_if (a \<noteq> None) AlreadyInitialized (
     writes (\<lambda>s. s\<lparr>AmmAdmin := Some admin\<rparr>) (
     writes (\<lambda>s. s\<lparr>AmmSettingsKey := Some \<lparr>default_slippage = def_slippage, max_slippage = max_slip, swap_enabled = True,
                liquidity_enabled = True, auto_swap_threshold = threshold\<rparr>\<rparr>) (
     writes (\<lambda>s. s\<lparr>AmmProtocols := Some []\<rparr>)
     (ret ())))))"

definition add_amm_protocol :: "address \<Rightarrow> AmmProtocolConfig \<Rightarrow> unit amm_fn" where
  "add_amm_protocol admin config =
     tryM (require_admin admin) (\<lambda>_.
     writes (\<lambda>s. s\<lparr>AmmProtocols := Some (map_set (protocol_address config) config (unwrap_or (AmmProtocols s) []))\<rparr>)
     (ret ()))"

definition update_amm_settings :: "address \<Rightarrow> AmmSettings \<Rightarrow> unit amm_fn" where
  "update_amm_settings admin settings =
     tryM (require_admin admin) (\<lambda>_.
     writes (\<lambda>s. s\<lparr>AmmSettingsKey := Some settings\<rparr>)
     (ret ()))"

section \<open>The contract as a machine\<close>

datatype amm_call =
  A_initialize address i128 i128 i128
| A_add_protocol address AmmProtocolConfig
| A_update_settings address AmmSettings
| A_swap address SwapParams
| A_add_liquidity address LiquidityParams
| A_remove_liquidity address address "address option" "address option" i128 i128 i128 u64
| A_callback address AmmCallbackData
| A_auto_swap address "address option" i128

definition amm_after :: "'a amm_fn \<Rightarrow> amm_state \<Rightarrow> amm_state" where
  "amm_after m s = snd (invoke m s)"

fun exec_amm :: "host \<Rightarrow> amm_call \<Rightarrow> amm_state \<Rightarrow> amm_state" where
  "exec_amm h (A_initialize a d m t) = amm_after (initialize_amm_settings a d m t)"
| "exec_amm h (A_add_protocol a c) = amm_after (add_amm_protocol a c)"
| "exec_amm h (A_update_settings a c) = amm_after (update_amm_settings a c)"
| "exec_amm h (A_swap u p) = amm_after (execute_swap h u p)"
| "exec_amm h (A_add_liquidity u p) = amm_after (add_liquidity h u p)"
| "exec_amm h (A_remove_liquidity u p a b l ma mb d) = amm_after (remove_liquidity h u p a b l ma mb d)"
| "exec_amm h (A_callback c d) = amm_after (validate_amm_callback h c d)"
| "exec_amm h (A_auto_swap u t n) = amm_after (auto_swap_for_collateral h u t n)"

definition amm_step :: "host \<times> amm_call \<Rightarrow> amm_state \<Rightarrow> amm_state" where
  "amm_step l s = exec_amm (fst l) (snd l) s"

definition empty_amm :: amm_state where
  "empty_amm = \<lparr>AmmProtocols = None, AmmSettingsKey = None, SwapHistory = None, LiquidityHistory = None,
     CallbackNonces = (\<lambda>_. None), AmmAdmin = None, amm_log = []\<rparr>"

section \<open>Helpers\<close>

lemma map_set_map_of: "map_of (map_set k v m) = (map_of m)(k \<mapsto> v)"
  by (induction k v m rule: map_set.induct) (auto simp: fun_eq_iff)

lemma set_map_set: "fst ` set (map_set k v m) = insert k (fst ` set m)"
  by (induction k v m rule: map_set.induct) auto

lemma map_set_sorted: "sorted_wrt (<) (map fst m) \<Longrightarrow> sorted_wrt (<) (map fst (map_set k v m))"
proof (induction k v m rule: map_set.induct)
  case (2 k v k' v' m)
  have "set (map fst (map_set k v m)) = insert k (set (map fst m))" using set_map_set [of k v m] by simp
  with 2 show ?case by auto
qed simp

lemma find_pair_iff:
  "find_pair a b ps = Inr () \<longleftrightarrow> (\<exists>p\<in>set ps. (token_a p = a \<and> token_b p = b) \<or> (token_a p = b \<and> token_b p = a))"
  by (induction ps) auto

lemma first_supporting_best: "first_supporting a b ps (Some x) = Some x"
  by (induction ps) auto

lemma first_supporting_find:
  "first_supporting a b ps None =
     map_option fst (find (\<lambda>(addr, c). enabled c \<and> validate_token_pair c a b = Inr ()) ps)"
  by (induction ps) (simp_all add: first_supporting_best split: prod.split)

lemma collect_records_take:
  "collect_records user_of f limit rs n acc =
     acc @ take (limit - n) (filter (\<lambda>r. case f of None \<Rightarrow> True | Some u \<Rightarrow> user_of r = u) rs)"
proof (induction rs arbitrary: n acc)
  case (Cons r rs)
  show ?case
  proof (cases "limit \<le> n")
    case False
    then obtain m where "limit - n = Suc m" "limit - Suc n = m" by (metis Suc_diff_Suc not_le)
    with Cons False show ?thesis by (auto split: option.split)
  qed simp
qed simp

lemma push_bounded_length: "length (unwrap_or hist []) \<le> HISTORY_LIMIT \<Longrightarrow> length (push_bounded hist r) \<le> HISTORY_LIMIT"
  by (auto simp: push_bounded_def Let_def)

lemma push_bounded_last: "last (push_bounded hist r) = r"
  by (cases "unwrap_or hist []") (auto simp: push_bounded_def Let_def HISTORY_LIMIT_def)

section \<open>Inversion rules\<close>

lemma amm_reads_Ok [ok_simps]:
  "get_amm_protocols s = (Ok m, t) \<longleftrightarrow> AmmProtocols s = Some m \<and> t = s"
  "get_amm_settings s = (Ok g, t) \<longleftrightarrow> AmmSettingsKey s = Some g \<and> t = s"
  "get_amm_protocol_config p s = (Ok c, t) \<longleftrightarrow> (\<exists>m. AmmProtocols s = Some m \<and> map_of m p = Some c) \<and> t = s"
  by (auto simp: get_amm_protocols_def get_amm_settings_def get_amm_protocol_config_def ok_simps)

lemma amm_checks_Ok [ok_simps]:
  "check_swap_enabled s = (Ok u, t) \<longleftrightarrow> (\<exists>g. AmmSettingsKey s = Some g \<and> swap_enabled g) \<and> t = s"
  "check_liquidity_enabled s = (Ok u, t) \<longleftrightarrow> (\<exists>g. AmmSettingsKey s = Some g \<and> liquidity_enabled g) \<and> t = s"
  "require_admin a s = (Ok u, t) \<longleftrightarrow> AmmAdmin s = Some a \<and> t = s"
  by (auto simp: check_swap_enabled_def check_liquidity_enabled_def require_admin_def ok_simps)

lemma validate_liquidity_params_Ok [ok_simps]:
  "validate_liquidity_params p s = (Ok u, t) \<longleftrightarrow>
     0 < lp_amount_a p \<and> 0 < lp_amount_b p \<and> 0 \<le> lp_min_amount_a p \<and> 0 \<le> lp_min_amount_b p \<and>
     lp_token_a p \<noteq> lp_token_b p \<and> t = s"
  by (auto simp: validate_liquidity_params_def ok_simps not_le not_less)

lemma generate_callback_nonce_Ok [ok_simps]:
  "generate_callback_nonce user s = (Ok n, t) \<longleftrightarrow>
     n = callback_nonce s user + 1 \<and> n \<le> u64_max \<and> t = set_callback_nonce user n s"
  by (auto simp: generate_callback_nonce_def ok_simps checked_add_u64_def split: if_splits)

lemma validate_amm_callback_Ok [ok_simps]:
  "validate_amm_callback h c d s = (Ok u, t) \<longleftrightarrow>
     (\<exists>m. AmmProtocols s = Some m \<and> map_of m c \<noteq> None) \<and> now h \<le> cb_deadline d \<and>
     cb_nonce d = callback_nonce s (cb_user d) \<and> cb_nonce d + 1 \<le> u64_max \<and>
     t = emit_callback_validated_event c d (set_callback_nonce (cb_user d) (cb_nonce d + 1) s)"
  by (auto simp: validate_amm_callback_def ok_simps checked_add_u64_def split: if_splits)

lemma execute_swap_Ok:
  assumes "execute_swap h user params s = (Ok out, t)"
  obtains g m config price fees s2 where "AmmSettingsKey s = Some g" "swap_enabled g" "sp_slippage_tolerance params \<le> max_slippage g"
    "0 < sp_amount_in params" "0 < sp_min_amount_out params" "sp_token_in params \<noteq> sp_token_out params"
    "now h \<le> sp_deadline params" "AmmProtocols s = Some m" "map_of m (sp_protocol params) = Some config"
    "min_swap_amount config \<le> sp_amount_in params" "sp_amount_in params \<le> max_swap_amount config"
    "validate_token_pair config (sp_token_in params) (sp_token_out params) = Inr ()"
    "out = sp_amount_in params * (10000 - sp_slippage_tolerance params) sdiv 10000" "sp_min_amount_out params \<le> out" "in_i128 out"
    "CallbackNonces s2 = (CallbackNonces s)(user \<mapsto> callback_nonce s user + 2)"
    "SwapHistory s2 = SwapHistory s" "AmmProtocols s2 = AmmProtocols s" "AmmSettingsKey s2 = AmmSettingsKey s"
    "LiquidityHistory s2 = LiquidityHistory s" "AmmAdmin s2 = AmmAdmin s"
    "calculate_effective_price (sp_amount_in params) out = Inr price" "calculate_swap_fees config (sp_amount_in params) = Inr fees"
    "t = emit_amm_operation_event h user ''swap'' (sp_amount_in params) out
          (emit_swap_executed_event user params out price (record_swap h user params out price fees s2))"
proof -
  let ?n = "callback_nonce s user" and ?amount = "sp_amount_in params"
  let ?s1 = "set_callback_nonce user (?n + 1) s"
  let ?d = "\<lparr>cb_nonce = ?n + 1, cb_operation = ''swap'', cb_user = user, cb_expected_amounts = [?amount, sp_min_amount_out params],
              cb_deadline = sp_deadline params\<rparr>"
  let ?s2 = "emit_callback_validated_event (sp_protocol params) ?d (set_callback_nonce user (?n + 2) ?s1)"
  from assms obtain g m config price fees where
    checks: "AmmSettingsKey s = Some g" "swap_enabled g" "sp_slippage_tolerance params \<le> max_slippage g"
      "0 < ?amount" "0 < sp_min_amount_out params" "sp_token_in params \<noteq> sp_token_out params"
      "now h \<le> sp_deadline params" "AmmProtocols s = Some m" "map_of m (sp_protocol params) = Some config"
      "min_swap_amount config \<le> ?amount" "?amount \<le> max_swap_amount config"
      "validate_token_pair config (sp_token_in params) (sp_token_out params) = Inr ()"
      "out = ?amount * (10000 - sp_slippage_tolerance params) sdiv 10000" "sp_min_amount_out params \<le> out" "in_i128 out"
    and calc: "calculate_effective_price ?amount out = Inr price" "calculate_swap_fees config ?amount = Inr fees"
    and t: "t = emit_amm_operation_event h user ''swap'' ?amount out
          (emit_swap_executed_event user params out price (record_swap h user params out price fees ?s2))"
    by (auto simp: execute_swap_def execute_amm_swap_def validate_swap_params_def ok_simps Let_def not_le not_less
        callback_nonce_def set_callback_nonce_def emit_callback_validated_event_def amm_publish_def bind_eq_Some_conv)
  show ?thesis
    by (rule that [OF checks _ _ _ _ _ _ calc t])
       (simp_all add: set_callback_nonce_def emit_callback_validated_event_def amm_publish_def)
qed

lemmas amm_event_defs = emit_amm_operation_event_def emit_swap_executed_event_def emit_liquidity_added_event_def
  emit_liquidity_removed_event_def emit_callback_validated_event_def amm_publish_def

section \<open>Nonces only grow\<close>

definition nonces_grow :: "amm_state \<Rightarrow> amm_state \<Rightarrow> bool" where
  "nonces_grow s t \<longleftrightarrow> (\<forall>u. callback_nonce s u \<le> callback_nonce t u)"

lemma nonces_grow_refl [simp]: "nonces_grow s s"
  by (simp add: nonces_grow_def)

lemma nonces_grow_trans: "nonces_grow s t \<Longrightarrow> nonces_grow t r \<Longrightarrow> nonces_grow s r"
  unfolding nonces_grow_def using order_trans by blast

lemma nonces_grow_same: "CallbackNonces t = CallbackNonces s \<Longrightarrow> nonces_grow s t"
  by (simp add: nonces_grow_def callback_nonce_def)

lemma nonces_grow_set: "callback_nonce s u \<le> n \<Longrightarrow> nonces_grow s (set_callback_nonce u n s)"
  by (simp add: nonces_grow_def callback_nonce_def set_callback_nonce_def)

lemma callback_nonces_grow: "validate_amm_callback h c d s = (Ok u, t) \<Longrightarrow> nonces_grow s t"
  by (auto simp: ok_simps nonces_grow_def callback_nonce_def set_callback_nonce_def amm_event_defs)

lemma swap_nonces_grow: "execute_swap h u p s = (Ok x, t) \<Longrightarrow> nonces_grow s t"
  by (erule execute_swap_Ok) (auto simp: nonces_grow_def callback_nonce_def amm_event_defs record_swap_def)

lemma liquidity_nonces_grow:
  "add_liquidity h u p s = (Ok x, t) \<Longrightarrow> nonces_grow s t"
  "remove_liquidity h u pr a b l ma mb d s = (Ok y, t) \<Longrightarrow> nonces_grow s t"
  by (auto simp: add_liquidity_def remove_liquidity_def execute_amm_add_liquidity_def execute_amm_remove_liquidity_def
      ok_simps Let_def nonces_grow_def callback_nonce_def set_callback_nonce_def amm_event_defs record_liquidity_operation_def)

lemma auto_swap_Ok:
  assumes "auto_swap_for_collateral h user target amount s = (Ok out, t)"
  obtains g m best min_out where "AmmSettingsKey s = Some g" "swap_enabled g" "auto_swap_threshold g \<le> amount"
    "AmmProtocols s = Some m" "first_supporting None target m None = Some best"
    "calculate_min_output_with_slippage amount (default_slippage g) = Inr min_out"
    "execute_swap h user \<lparr>sp_protocol = best, sp_token_in = None, sp_token_out = target, sp_amount_in = amount,
       sp_min_amount_out = min_out, sp_slippage_tolerance = default_slippage g, sp_deadline = now h + 300\<rparr> s = (Ok out, t)"
  using assms
  by (auto simp: auto_swap_for_collateral_def find_best_amm_protocol_def ok_simps checked_add_u64_def Let_def not_less
      intro!: that split: if_splits)

lemma admin_nonces_grow:
  "initialize_amm_settings a d m th s = (Ok x, t) \<Longrightarrow> nonces_grow s t"
  "add_amm_protocol a c s = (Ok x, t) \<Longrightarrow> nonces_grow s t"
  "update_amm_settings a g s = (Ok x, t) \<Longrightarrow> nonces_grow s t"
  "auto_swap_for_collateral h u tok n s = (Ok y, t) \<Longrightarrow> nonces_grow s t"
  by (auto simp: initialize_amm_settings_def add_amm_protocol_def update_amm_settings_def ok_simps
      intro: nonces_grow_same swap_nonces_grow elim!: auto_swap_Ok)

lemmas amm_nonces_grow = callback_nonces_grow swap_nonces_grow liquidity_nonces_grow admin_nonces_grow

lemma amm_after_grow: "(\<And>a t. m s = (Ok a, t) \<Longrightarrow> nonces_grow s t) \<Longrightarrow> nonces_grow s (amm_after m s)"
  unfolding amm_after_def by (rule invoke_preserves) simp_all

lemma amm_step_grow: "nonces_grow s (amm_step l s)"
  unfolding amm_step_def
  by (cases "snd l") (simp_all only: exec_amm.simps, (rule amm_after_grow, erule amm_nonces_grow)+)

lemma amm_run_grow: "nonces_grow s (run amm_step s ls)"
  by (induction ls arbitrary: s) (auto intro: nonces_grow_trans amm_step_grow)

section \<open>The registry and the histories\<close>

text \<open>What every reachable storage satisfies: the registry is ordered by address and each configuration is
  filed under its own address, and the histories are bounded.\<close>

definition amm_inv :: "amm_state \<Rightarrow> bool" where
  "amm_inv s \<longleftrightarrow> sorted_wrt (<) (map fst (unwrap_or (AmmProtocols s) [])) \<and>
     (\<forall>(a, c) \<in> set (unwrap_or (AmmProtocols s) []). protocol_address c = a) \<and>
     length (unwrap_or (SwapHistory s) []) \<le> HISTORY_LIMIT \<and> length (unwrap_or (LiquidityHistory s) []) \<le> HISTORY_LIMIT"

lemma amm_inv_cong:
  assumes "AmmProtocols t = AmmProtocols s" "SwapHistory t = SwapHistory s" "LiquidityHistory t = LiquidityHistory s"
  shows "amm_inv t = amm_inv s"
  using assms by (simp add: amm_inv_def)

lemma map_set_entries: "x \<in> set (map_set k v m) \<Longrightarrow> x = (k, v) \<or> x \<in> set m"
  by (induction k v m rule: map_set.induct) (auto split: if_splits)

lemma swap_inv: "amm_inv s \<Longrightarrow> execute_swap h u p s = (Ok x, t) \<Longrightarrow> amm_inv t"
  by (erule execute_swap_Ok) (auto simp: amm_inv_def amm_event_defs record_swap_def push_bounded_length)

lemma liquidity_inv:
  "amm_inv s \<Longrightarrow> add_liquidity h u p s = (Ok x, t) \<Longrightarrow> amm_inv t"
  "amm_inv s \<Longrightarrow> remove_liquidity h u pr a b l ma mb d s = (Ok y, t) \<Longrightarrow> amm_inv t"
  by (auto simp: add_liquidity_def remove_liquidity_def execute_amm_add_liquidity_def execute_amm_remove_liquidity_def
      ok_simps Let_def amm_inv_def set_callback_nonce_def amm_event_defs record_liquidity_operation_def push_bounded_length)

lemma admin_inv:
  "amm_inv s \<Longrightarrow> initialize_amm_settings a d m th s = (Ok x, t) \<Longrightarrow> amm_inv t"
  "amm_inv s \<Longrightarrow> add_amm_protocol a c s = (Ok x, t) \<Longrightarrow> amm_inv t"
  "amm_inv s \<Longrightarrow> update_amm_settings a g s = (Ok x, t) \<Longrightarrow> amm_inv t"
  "amm_inv s \<Longrightarrow> validate_amm_callback h a cb s = (Ok x, t) \<Longrightarrow> amm_inv t"
  by (auto simp: initialize_amm_settings_def add_amm_protocol_def update_amm_settings_def ok_simps amm_inv_def
      map_set_sorted amm_event_defs set_callback_nonce_def dest!: map_set_entries)

lemma auto_swap_inv: "amm_inv s \<Longrightarrow> auto_swap_for_collateral h u tok n s = (Ok y, t) \<Longrightarrow> amm_inv t"
  by (erule auto_swap_Ok) (rule swap_inv)


lemmas amm_ops_inv = swap_inv liquidity_inv admin_inv auto_swap_inv

lemma amm_step_inv: "amm_inv s \<Longrightarrow> amm_inv (amm_step l s)"
proof -
  assume s: "amm_inv s"
  have after: "amm_inv (amm_after m s)" if "\<And>a t. m s = (Ok a, t) \<Longrightarrow> amm_inv t" for m :: "'a amm_fn"
    unfolding amm_after_def using s that by (rule invoke_preserves)
  show ?thesis
    unfolding amm_step_def
    by (cases "snd l") (simp_all only: exec_amm.simps, (rule after, erule amm_ops_inv [OF s])+)
qed

interpretation amm_machine: invariant_machine amm_step empty_amm "\<lambda>_ _. True" amm_inv
  by unfold_locales (simp_all add: amm_step_inv, simp add: empty_amm_def amm_inv_def)

section \<open>Properties\<close>

text \<open>A sample: protocol 4 trades tokens 7 and 8 with a fee of 30 basis points.\<close>

definition amm_sample_config :: AmmProtocolConfig where
  "amm_sample_config = \<lparr>protocol_address = 4, protocol_name = ''dex'', enabled = False, fee_tier = 30, min_swap_amount = 10,
     max_swap_amount = 100000, supported_pairs = [\<lparr>token_a = Some 8, token_b = Some 7, pool_address = 5\<rparr>]\<rparr>"

definition amm_sample :: amm_state where
  "amm_sample = run amm_step empty_amm
     [(sample_host 0, A_initialize 9 100 500 10), (sample_host 0, A_add_protocol 9 amm_sample_config)]"

definition swap_sample :: SwapParams where
  "swap_sample = \<lparr>sp_protocol = 4, sp_token_in = Some 7, sp_token_out = Some 8, sp_amount_in = 1000, sp_min_amount_out = 900,
     sp_slippage_tolerance = 200, sp_deadline = 5\<rparr>"

text \<open>C19: A swap stays within what its user asked for: a successful swap was in time and enabled, its protocol
  is registered and supports the pair, the amount is within the protocol's limits, and what it pays is
  the input less exactly the slippage tolerance, at least the user's minimum; the user's nonce advances by
  two, nobody else's changes, and the swap is the newest record of the history.\<close>

theorem swap_within_limits:
  assumes "execute_swap h user params s = (Ok out, t)" and "0 \<le> sp_slippage_tolerance params"
  shows "now h \<le> sp_deadline params \<and> sp_min_amount_out params \<le> out \<and> 0 < out \<and> out \<le> sp_amount_in params \<and>
         out = sp_amount_in params * (10000 - sp_slippage_tolerance params) div 10000 \<and>
         (\<exists>g m c. AmmSettingsKey s = Some g \<and> swap_enabled g \<and> sp_slippage_tolerance params \<le> max_slippage g \<and>
            AmmProtocols s = Some m \<and> map_of m (sp_protocol params) = Some c \<and>
            min_swap_amount c \<le> sp_amount_in params \<and> sp_amount_in params \<le> max_swap_amount c \<and>
            (\<exists>p\<in>set (supported_pairs c). {token_a p, token_b p} = {sp_token_in params, sp_token_out params})) \<and>
         callback_nonce t user = callback_nonce s user + 2 \<and> (\<forall>v. v \<noteq> user \<longrightarrow> callback_nonce t v = callback_nonce s v) \<and>
         sr_user (last (the (SwapHistory t))) = user \<and> sr_amount_out (last (the (SwapHistory t))) = out"
proof -
  from assms(1) obtain g m c price fees s2 where g: "AmmSettingsKey s = Some g" "swap_enabled g" "sp_slippage_tolerance params \<le> max_slippage g"
    and p: "0 < sp_amount_in params" "0 < sp_min_amount_out params" "now h \<le> sp_deadline params"
    and c: "AmmProtocols s = Some m" "map_of m (sp_protocol params) = Some c" "min_swap_amount c \<le> sp_amount_in params"
      "sp_amount_in params \<le> max_swap_amount c" "validate_token_pair c (sp_token_in params) (sp_token_out params) = Inr ()"
    and out: "out = sp_amount_in params * (10000 - sp_slippage_tolerance params) sdiv 10000" "sp_min_amount_out params \<le> out"
    and s2: "CallbackNonces s2 = (CallbackNonces s)(user \<mapsto> callback_nonce s user + 2)"
    and t: "t = emit_amm_operation_event h user ''swap'' (sp_amount_in params) out
          (emit_swap_executed_event user params out price (record_swap h user params out price fees s2))"
    by (rule execute_swap_Ok)
  let ?f = "10000 - sp_slippage_tolerance params"
  have "0 \<le> ?f"
  proof (rule ccontr)
    assume "\<not> 0 \<le> ?f"
    then have "sp_amount_in params * ?f \<le> 0" using p(1) by (simp add: mult_nonneg_nonpos)
    then have "out \<le> 0" unfolding out(1) by (auto simp: signed_divide_int_def sgn_if)
    with out(2) p(2) show False by linarith
  qed
  then have div: "out = sp_amount_in params * ?f div 10000" using p(1) by (simp add: out(1) sdiv_nonneg_eq)
  have "sp_amount_in params * ?f \<le> sp_amount_in params * 10000"
    using p(1) assms(2) by (intro mult_left_mono) auto
  then have le: "out \<le> sp_amount_in params" unfolding div by linarith
  have pair: "\<exists>p\<in>set (supported_pairs c). {token_a p, token_b p} = {sp_token_in params, sp_token_out params}"
    using c(5) by (force simp: validate_token_pair_def find_pair_iff doubleton_eq_iff)
  have non: "callback_nonce t user = callback_nonce s user + 2" "\<forall>v. v \<noteq> user \<longrightarrow> callback_nonce t v = callback_nonce s v"
    using s2 by (simp_all add: t callback_nonce_def amm_event_defs record_swap_def)
  have rec: "sr_user (last (the (SwapHistory t))) = user \<and> sr_amount_out (last (the (SwapHistory t))) = out"
    by (simp add: t amm_event_defs record_swap_def push_bounded_last)
  show ?thesis using g p c(1-4) out(2) div le pair non rec by auto
qed

theorem swap_within_limits_witness:
  "\<exists>t. execute_swap (sample_host 0) 1 swap_sample amm_sample = (Ok 980, t) \<and> callback_nonce t 1 = callback_nonce amm_sample 1 + 2"
proof -
  let ?x = "execute_swap (sample_host 0) 1 swap_sample amm_sample"
  have "fst ?x = Ok 980" by code_simp
  then have x: "?x = (Ok 980, snd ?x)" by (rule run_pair)
  have "0 \<le> sp_slippage_tolerance swap_sample" by (simp add: swap_sample_def)
  with swap_within_limits [OF x] x show ?thesis by blast
qed

text \<open>A callback cannot be replayed: once a callback was accepted, the same nonce of the same user is
  refused for ever, whatever calls come in between and whoever presents it.\<close>

theorem callbacks_are_not_replayable:
  assumes "validate_amm_callback h c d s = (Ok u, t)" and "cb_user d' = cb_user d" and "cb_nonce d' = cb_nonce d"
  shows "fst (validate_amm_callback h' c' d' (run amm_step t ls)) \<noteq> Ok ()"
proof -
  have "callback_nonce t (cb_user d) = cb_nonce d + 1"
    using assms(1) by (auto simp: validate_amm_callback_Ok callback_nonce_def set_callback_nonce_def amm_event_defs)
  then have "cb_nonce d < callback_nonce (run amm_step t ls) (cb_user d)"
    using amm_run_grow [of t ls] unfolding nonces_grow_def by (metis Suc_eq_plus1 Suc_le_lessD)
  then show ?thesis
    using assms(2,3) by (cases "validate_amm_callback h' c' d' (run amm_step t ls)") (auto simp: validate_amm_callback_Ok)
qed

theorem callbacks_are_not_replayable_witness:
  "let d = \<lparr>cb_nonce = 0, cb_operation = ''swap'', cb_user = 1, cb_expected_amounts = [], cb_deadline = 9\<rparr>;
       t = snd (validate_amm_callback (sample_host 0) 4 d amm_sample)
   in fst (validate_amm_callback (sample_host 1) 4 d (run amm_step t [(sample_host 0, A_swap 1 swap_sample)])) \<noteq> Ok ()"
proof -
  let ?d = "\<lparr>cb_nonce = 0, cb_operation = ''swap'', cb_user = 1, cb_expected_amounts = [], cb_deadline = 9\<rparr>"
  let ?v = "validate_amm_callback (sample_host 0) 4 ?d amm_sample"
  have "fst ?v = Ok ()" by code_simp
  then have "?v = (Ok (), snd ?v)" by (rule run_pair)
  from callbacks_are_not_replayable [OF this refl refl] show ?thesis unfolding Let_def .
qed

text \<open>The histories are bounded and queried newest first: in every reachable storage each history has at
  most a thousand records, and a query returns the newest records of the user, as many as it asks for.\<close>

theorem amm_history_queries:
  assumes "s = run amm_step empty_amm ls"
  shows "length (unwrap_or (SwapHistory s) []) \<le> 1000 \<and> length (unwrap_or (LiquidityHistory s) []) \<le> 1000 \<and>
         get_swap_history s (Some u) n = take n (filter (\<lambda>r. sr_user r = u) (rev (unwrap_or (SwapHistory s) []))) \<and>
         get_swap_history s None n = take n (rev (unwrap_or (SwapHistory s) [])) \<and>
         get_liquidity_history s (Some u) n = take n (filter (\<lambda>r. lr_user r = u) (rev (unwrap_or (LiquidityHistory s) [])))"
proof -
  have "amm_inv s" unfolding assms by (rule amm_machine.inv_run [OF allowed_run_always])
  then show ?thesis
    by (simp add: amm_inv_def HISTORY_LIMIT_def get_swap_history_def get_liquidity_history_def collect_records_take)
qed

theorem amm_history_queries_witness:
  "length (unwrap_or (SwapHistory (run amm_step empty_amm [(sample_host 0, A_swap 1 swap_sample)])) []) \<le> 1000"
  using amm_history_queries [OF refl] by blast

text \<open>The router checks no signatures and ignores the enabled flag: every call has the same effect whoever
  signed it, so anyone who names the admin's address is the admin, and a disabled protocol still swaps.\<close>

theorem amm_ignores_signatures:
  "exec_amm (h\<lparr>signed := sig\<rparr>) c s = exec_amm h c s \<and>
   enabled amm_sample_config = False \<and> fst (execute_swap (sample_host 0) 1 swap_sample amm_sample) = Ok 980"
proof -
  have cb: "validate_amm_callback (h\<lparr>signed := sig\<rparr>) = validate_amm_callback h"
    by (simp add: validate_amm_callback_def fun_eq_iff)
  have sw: "execute_swap (h\<lparr>signed := sig\<rparr>) = execute_swap h"
    by (simp add: execute_swap_def execute_amm_swap_def cb record_swap_def [abs_def] emit_amm_operation_event_def fun_eq_iff)
  have "exec_amm (h\<lparr>signed := sig\<rparr>) c s = exec_amm h c s"
    by (cases c)
       (simp_all add: sw cb add_liquidity_def remove_liquidity_def execute_amm_add_liquidity_def
         execute_amm_remove_liquidity_def auto_swap_for_collateral_def record_liquidity_operation_def [abs_def] emit_amm_operation_event_def)
  moreover have "fst (execute_swap (sample_host 0) 1 swap_sample amm_sample) = Ok 980" by code_simp
  ultimately show ?thesis by (simp add: amm_sample_config_def)
qed

end
