(* ===== verification/Bridge.thy ===== *)
theory Bridge
  imports Sample SL_Interfaces
begin

text \<open>
  The bridge contract: src/stellar-lend/contracts/bridge/src/bridge.rs. Registered bridges take deposits,
  validators attest messages from other chains, and an attested, final message releases a withdrawal once.
  Channels are closed on anomalies and conflicting attestations are slashed. The current ledger's sequence
  number is an argument of the operations that read it.
\<close>

section \<open>Data\<close>

datatype ContractError = AlreadyInitialised | NotInitialised | Unauthorised | BridgeAlreadyExists | BridgeNotFound
  | BridgeInactive | FeeTooHigh | InvalidBridgeIdLen | InvalidBridgeIdChar | NegativeMinAmount | AmountNotPositive
  | AmountBelowMinimum | Overflow | BridgeAcceptancePausedError | ValidatorAlreadyExists | ValidatorNotFound
  | ValidatorInactive | InvalidValidatorStake | MessageAlreadyExists | MessageNotFound | DuplicateAttestation
  | QuorumNotReached | MessageNotFinal | MessageAlreadyExecuted | MessageInvalidated | ReplayDetected | ChannelClosed
  | InvalidMessageVersion | InvalidSecurityConfig | ConflictingMessages | NothingToSlash | MessageRejected
  | InvalidMessageOrdering

datatype bridge_event =
  BridgeRegisteredEvent string u64 i128
| BridgeFeeUpdatedEvent string u64
| BridgeActiveUpdatedEvent string bool
| BridgeDepositEvent string i128 i128 i128
| BridgeWithdrawalEvent string i128
| BridgeAcceptancePauseEvent bool address
| ValidatorUpdatedEvent address i128 bool
| SecurityConfigUpdatedEvent u32 u32 u32 u64 u32
| ValidatorSlashedEvent address i128 i128
| ChannelEmergencyCloseEvent string bool string
| BridgeAnomalyEvent string u32 string

definition MAX_BRIDGE_FEE_BPS :: u64 where "MAX_BRIDGE_FEE_BPS = 1000"
definition MAX_ID_LEN :: u32 where "MAX_ID_LEN = 64"
definition DEFAULT_MIN_VALIDATOR_SIGNATURES :: u32 where "DEFAULT_MIN_VALIDATOR_SIGNATURES = 2"
definition DEFAULT_MIN_FINALITY_LEDGERS :: u32 where "DEFAULT_MIN_FINALITY_LEDGERS = 3"
definition DEFAULT_OPTIMISTIC_DELAY_LEDGERS :: u32 where "DEFAULT_OPTIMISTIC_DELAY_LEDGERS = 2"
definition DEFAULT_SLASH_BPS :: u64 where "DEFAULT_SLASH_BPS = 2500"
definition DEFAULT_SUPPORTED_MESSAGE_VERSION :: u32 where "DEFAULT_SUPPORTED_MESSAGE_VERSION = 1"
definition DEFAULT_ANOMALY_CLOSE_THRESHOLD :: u32 where "DEFAULT_ANOMALY_CLOSE_THRESHOLD = 3"

record BridgeConfig =
  bridge_id :: string
  fee_bps :: u64
  min_amount :: i128
  bridge_active :: bool
  total_deposited :: i128
  total_withdrawn :: i128

record SecurityConfig =
  min_validator_signatures :: u32
  min_finality_ledgers :: u32
  optimistic_delay_ledgers :: u32
  slash_bps :: u64
  supported_message_version :: u32
  anomaly_close_threshold :: u32

record ValidatorRecord =
  stake :: i128
  validator_active :: bool
  slashed_total :: i128
  validator_approvals :: u32

record ChannelState =
  emergency_closed :: bool
  anomaly_count :: u32
  last_observed_nonce :: u64
  last_observed_height :: u64
  reason :: string

record BridgeSecurityStats =
  total_messages :: u64
  executed_messages :: u64
  rejected_messages :: u64
  replay_rejections :: u64
  anomaly_events :: u64
  slashes :: u64
  emergency_closures :: u64

record SourceMessageKey =
  sk_channel_id :: string
  sk_source_chain :: string
  sk_source_tx_id :: string
  sk_nonce :: u64

record CrossChainMessage =
  message_id :: u64
  msg_bridge_id :: string
  msg_channel_id :: string
  source_chain :: string
  source_tx_id :: string
  source_height :: u64
  msg_nonce :: u64
  recipient :: address
  msg_amount :: i128
  payload_version :: u32
  submitted_at_ledger :: u32
  finality_ledger :: u32
  msg_approvals :: u32
  rejections :: u32
  executed :: bool
  invalidated :: bool

record CrossChainMessageInput =
  in_bridge_id :: string
  in_channel_id :: string
  in_source_chain :: string
  in_source_tx_id :: string
  in_source_height :: u64
  in_nonce :: u64
  in_recipient :: address
  in_amount :: i128
  in_payload_version :: u32

record bridge_state =
  BridgeAdmin :: "address option"
  BridgeKey :: "string \<Rightarrow> BridgeConfig option"
  BridgeList :: "string list option"
  BridgeAcceptancePaused :: "bool option"
  SecurityConfigKey :: "SecurityConfig option"
  ValidatorKey :: "address \<Rightarrow> ValidatorRecord option"
  ValidatorList :: "address list option"
  Channel :: "string \<Rightarrow> ChannelState option"
  Message :: "u64 \<Rightarrow> CrossChainMessage option"
  MessageSource :: "SourceMessageKey \<Rightarrow> u64 option"
  MessageAttestation :: "u64 \<times> address \<Rightarrow> bool option"
  NextMessageId :: "u64 option"
  Stats :: "BridgeSecurityStats option"
  bridge_log :: "bridge_event list"

type_synonym 'a bridge_fn = "(bridge_state, ContractError, 'a) contract_fn"

definition bridge_publish :: "bridge_event \<Rightarrow> bridge_state \<Rightarrow> bridge_state" where
  "bridge_publish e s = s\<lparr>bridge_log := bridge_log s @ [e]\<rparr>"

section \<open>Storage helpers\<close>

definition default_security_config :: SecurityConfig where
  "default_security_config = \<lparr>min_validator_signatures = DEFAULT_MIN_VALIDATOR_SIGNATURES,
     min_finality_ledgers = DEFAULT_MIN_FINALITY_LEDGERS, optimistic_delay_ledgers = DEFAULT_OPTIMISTIC_DELAY_LEDGERS,
     slash_bps = DEFAULT_SLASH_BPS, supported_message_version = DEFAULT_SUPPORTED_MESSAGE_VERSION,
     anomaly_close_threshold = DEFAULT_ANOMALY_CLOSE_THRESHOLD\<rparr>"

definition default_stats :: BridgeSecurityStats where
  "default_stats = \<lparr>total_messages = 0, executed_messages = 0, rejected_messages = 0, replay_rejections = 0,
     anomaly_events = 0, slashes = 0, emergency_closures = 0\<rparr>"

definition default_channel_state :: ChannelState where
  "default_channel_state = \<lparr>emergency_closed = False, anomaly_count = 0, last_observed_nonce = 0,
     last_observed_height = 0, reason = ''''\<rparr>"

definition load_admin :: "address bridge_fn" where
  "load_admin = reads BridgeAdmin (\<lambda>a. ok_or a NotInitialised ret)"

definition bridge_require_admin :: "host \<Rightarrow> address \<Rightarrow> unit bridge_fn" where
  "bridge_require_admin h caller =
     tryM (require_auth h caller) (\<lambda>_.
     tryM load_admin (\<lambda>admin.
     fail_if (caller \<noteq> admin) Unauthorised (ret ())))"

definition load_security_config :: "bridge_state \<Rightarrow> SecurityConfig" where
  "load_security_config s = unwrap_or (SecurityConfigKey s) default_security_config"

definition save_security_config :: "SecurityConfig \<Rightarrow> bridge_state \<Rightarrow> bridge_state" where
  "save_security_config cfg s = s\<lparr>SecurityConfigKey := Some cfg\<rparr>"

definition load_stats :: "bridge_state \<Rightarrow> BridgeSecurityStats" where
  "load_stats s = unwrap_or (Stats s) default_stats"

definition with_stats :: "(BridgeSecurityStats \<Rightarrow> BridgeSecurityStats) \<Rightarrow> bridge_state \<Rightarrow> bridge_state" where
  "with_stats mutate s = s\<lparr>Stats := Some (mutate (load_stats s))\<rparr>"

definition validate_security_config :: "SecurityConfig \<Rightarrow> ContractError + unit" where
  "validate_security_config cfg =
     (if min_validator_signatures cfg = 0 \<or> min_finality_ledgers cfg = 0 \<or> optimistic_delay_ledgers cfg = 0 \<or>
         slash_bps cfg = 0 \<or> slash_bps cfg > 10000 \<or> supported_message_version cfg = 0 \<or> anomaly_close_threshold cfg = 0
      then Inl InvalidSecurityConfig else Inr ())"

definition validate_id :: "string \<Rightarrow> ContractError + unit" where
  "validate_id i = (let len = length i in if len = 0 \<or> len > MAX_ID_LEN then Inl InvalidBridgeIdLen else Inr ())"

definition load_bridge :: "string \<Rightarrow> BridgeConfig bridge_fn" where
  "load_bridge i = reads (\<lambda>s. BridgeKey s i) (\<lambda>x. ok_or x BridgeNotFound ret)"

definition save_bridge :: "string \<Rightarrow> BridgeConfig \<Rightarrow> bridge_state \<Rightarrow> bridge_state" where
  "save_bridge i cfg s = s\<lparr>BridgeKey := (BridgeKey s)(i \<mapsto> cfg)\<rparr>"

definition bridge_list :: "bridge_state \<Rightarrow> string list" where
  "bridge_list s = unwrap_or (BridgeList s) []"

definition validator_list :: "bridge_state \<Rightarrow> address list" where
  "validator_list s = unwrap_or (ValidatorList s) []"

definition load_validator :: "address \<Rightarrow> ValidatorRecord bridge_fn" where
  "load_validator v = reads (\<lambda>s. ValidatorKey s v) (\<lambda>x. ok_or x ValidatorNotFound ret)"

definition save_validator :: "address \<Rightarrow> ValidatorRecord \<Rightarrow> bridge_state \<Rightarrow> bridge_state" where
  "save_validator v r s = s\<lparr>ValidatorKey := (ValidatorKey s)(v \<mapsto> r)\<rparr>"

definition load_channel_state :: "bridge_state \<Rightarrow> string \<Rightarrow> ChannelState" where
  "load_channel_state s c = unwrap_or (Channel s c) default_channel_state"

definition save_channel_state :: "string \<Rightarrow> ChannelState \<Rightarrow> bridge_state \<Rightarrow> bridge_state" where
  "save_channel_state c st s = s\<lparr>Channel := (Channel s)(c \<mapsto> st)\<rparr>"

definition record_channel_anomaly :: "string \<Rightarrow> string \<Rightarrow> bridge_state \<Rightarrow> bridge_state" where
  "record_channel_anomaly channel_id why s =
     (let ch0 = load_channel_state s channel_id;
          ch1 = ch0\<lparr>anomaly_count := saturating_add_u32 (anomaly_count ch0) 1, reason := why\<rparr>;
          close = (anomaly_count ch1 \<ge> anomaly_close_threshold (load_security_config s));
          ch2 = (if close then ch1\<lparr>emergency_closed := True\<rparr> else ch1);
          s1 = (if close
                then bridge_publish (ChannelEmergencyCloseEvent channel_id True why)
                       (with_stats (\<lambda>st. st\<lparr>emergency_closures := saturating_add_u64 (emergency_closures st) 1\<rparr>) s)
                else s)
      in bridge_publish (BridgeAnomalyEvent channel_id (anomaly_count ch2) why)
           (with_stats (\<lambda>st. st\<lparr>anomaly_events := saturating_add_u64 (anomaly_events st) 1\<rparr>)
              (save_channel_state channel_id ch2 s1)))"

definition next_id :: "bridge_state \<Rightarrow> u64" where
  "next_id s = unwrap_or (NextMessageId s) 0"

definition next_message_id :: "u64 bridge_fn" where
  "next_message_id =
     reads next_id (\<lambda>current.
     let next = saturating_add_u64 current 1 in
     writes (\<lambda>s. s\<lparr>NextMessageId := Some next\<rparr>) (ret next))"

definition load_message :: "u64 \<Rightarrow> CrossChainMessage bridge_fn" where
  "load_message i = reads (\<lambda>s. Message s i) (\<lambda>x. ok_or x MessageNotFound ret)"

definition save_message :: "CrossChainMessage \<Rightarrow> bridge_state \<Rightarrow> bridge_state" where
  "save_message m s = s\<lparr>Message := (Message s)(message_id m \<mapsto> m)\<rparr>"

definition message_payload_matches :: "CrossChainMessage \<Rightarrow> CrossChainMessage \<Rightarrow> bool" where
  "message_payload_matches a b \<longleftrightarrow>
     msg_bridge_id a = msg_bridge_id b \<and> msg_channel_id a = msg_channel_id b \<and> source_chain a = source_chain b \<and>
     source_tx_id a = source_tx_id b \<and> source_height a = source_height b \<and> msg_nonce a = msg_nonce b \<and>
     recipient a = recipient b \<and> msg_amount a = msg_amount b \<and> payload_version a = payload_version b"

definition slash_amount :: "i128 \<Rightarrow> u64 \<Rightarrow> i128" where
  "slash_amount stk bps =
     (let slash = saturating_mul stk (int bps) sdiv 10000
      in if slash = 0 \<and> stk > 0 then 1 else slash)"

definition compute_fee :: "i128 \<Rightarrow> u64 \<Rightarrow> i128 bridge_fn" where
  "compute_fee amount bps =
     unwrap (i256_mul amount (int bps)) (\<lambda>product.
     unwrap (i256_div product 10000) (\<lambda>q.
     ret (unwrap_or (to_i128 q) 0)))"

section \<open>Administration\<close>

definition bridge_init :: "address \<Rightarrow> unit bridge_fn" where
  "bridge_init admin =
     reads BridgeAdmin (\<lambda>a.
     fail_if (a \<noteq> None) AlreadyInitialised (
     writes (\<lambda>s. s\<lparr>BridgeAdmin := Some admin\<rparr>) (
     writes (\<lambda>s. s\<lparr>SecurityConfigKey := Some default_security_config\<rparr>) (
     writes (\<lambda>s. s\<lparr>Stats := Some default_stats\<rparr>)
     (ret ())))))"

definition register_bridge :: "host \<Rightarrow> address \<Rightarrow> string \<Rightarrow> u64 \<Rightarrow> i128 \<Rightarrow> unit bridge_fn" where
  "register_bridge h caller i fee min_amt =
     tryM (bridge_require_admin h caller) (\<lambda>_.
     tryM (liftE (validate_id i)) (\<lambda>_.
     fail_if (fee > MAX_BRIDGE_FEE_BPS) FeeTooHigh (
     fail_if (min_amt < 0) NegativeMinAmount (
     reads (\<lambda>s. BridgeKey s i) (\<lambda>existing.
     fail_if (existing \<noteq> None) BridgeAlreadyExists (
     writes (save_bridge i \<lparr>bridge_id = i, fee_bps = fee, min_amount = min_amt, bridge_active = True,
                            total_deposited = 0, total_withdrawn = 0\<rparr>) (
     writes (\<lambda>s. s\<lparr>BridgeList := Some (bridge_list s @ [i])\<rparr>) (
     writes (bridge_publish (BridgeRegisteredEvent i fee min_amt))
     (ret ())))))))))"

definition set_bridge_fee :: "host \<Rightarrow> address \<Rightarrow> string \<Rightarrow> u64 \<Rightarrow> unit bridge_fn" where
  "set_bridge_fee h caller i fee =
     tryM (bridge_require_admin h caller) (\<lambda>_.
     fail_if (fee > MAX_BRIDGE_FEE_BPS) FeeTooHigh (
     tryM (load_bridge i) (\<lambda>cfg.
     writes (save_bridge i (cfg\<lparr>fee_bps := fee\<rparr>)) (
     writes (bridge_publish (BridgeFeeUpdatedEvent i fee))
     (ret ())))))"

definition set_bridge_active :: "host \<Rightarrow> address \<Rightarrow> string \<Rightarrow> bool \<Rightarrow> unit bridge_fn" where
  "set_bridge_active h caller i act =
     tryM (bridge_require_admin h caller) (\<lambda>_.
     tryM (load_bridge i) (\<lambda>cfg.
     writes (save_bridge i (cfg\<lparr>bridge_active := act\<rparr>)) (
     writes (bridge_publish (BridgeActiveUpdatedEvent i act))
     (ret ()))))"

definition is_bridge_acceptance_paused :: "bridge_state \<Rightarrow> bool" where
  "is_bridge_acceptance_paused s = unwrap_or (BridgeAcceptancePaused s) False"

definition set_bridge_acceptance_paused :: "host \<Rightarrow> address \<Rightarrow> bool \<Rightarrow> unit bridge_fn" where
  "set_bridge_acceptance_paused h caller paused =
     tryM (bridge_require_admin h caller) (\<lambda>_.
     writes (\<lambda>s. s\<lparr>BridgeAcceptancePaused := Some paused\<rparr>) (
     writes (bridge_publish (BridgeAcceptancePauseEvent paused caller))
     (ret ())))"

definition set_bridge_security_config :: "host \<Rightarrow> address \<Rightarrow> SecurityConfig \<Rightarrow> unit bridge_fn" where
  "set_bridge_security_config h caller cfg =
     tryM (bridge_require_admin h caller) (\<lambda>_.
     tryM (liftE (validate_security_config cfg)) (\<lambda>_.
     writes (save_security_config cfg) (
     writes (bridge_publish (SecurityConfigUpdatedEvent (min_validator_signatures cfg) (min_finality_ledgers cfg)
               (optimistic_delay_ledgers cfg) (slash_bps cfg) (supported_message_version cfg)))
     (ret ()))))"

definition register_validator :: "host \<Rightarrow> address \<Rightarrow> address \<Rightarrow> i128 \<Rightarrow> unit bridge_fn" where
  "register_validator h caller v stk =
     tryM (bridge_require_admin h caller) (\<lambda>_.
     fail_if (stk \<le> 0) InvalidValidatorStake (
     reads (\<lambda>s. ValidatorKey s v) (\<lambda>existing.
     fail_if (existing \<noteq> None) ValidatorAlreadyExists (
     writes (save_validator v \<lparr>stake = stk, validator_active = True, slashed_total = 0, validator_approvals = 0\<rparr>) (
     writes (\<lambda>s. s\<lparr>ValidatorList := Some (validator_list s @ [v])\<rparr>) (
     writes (bridge_publish (ValidatorUpdatedEvent v stk True))
     (ret ())))))))"

definition set_validator_active :: "host \<Rightarrow> address \<Rightarrow> address \<Rightarrow> bool \<Rightarrow> unit bridge_fn" where
  "set_validator_active h caller v act =
     tryM (bridge_require_admin h caller) (\<lambda>_.
     tryM (load_validator v) (\<lambda>r.
     writes (save_validator v (r\<lparr>validator_active := act\<rparr>)) (
     writes (bridge_publish (ValidatorUpdatedEvent v (stake r) act))
     (ret ()))))"

definition close_channel_emergency :: "host \<Rightarrow> address \<Rightarrow> string \<Rightarrow> string \<Rightarrow> unit bridge_fn" where
  "close_channel_emergency h caller channel_id why =
     tryM (bridge_require_admin h caller) (\<lambda>_.
     reads (\<lambda>s. load_channel_state s channel_id) (\<lambda>st.
     writes (save_channel_state channel_id (st\<lparr>emergency_closed := True, reason := why\<rparr>)) (
     writes (with_stats (\<lambda>x. x\<lparr>emergency_closures := saturating_add_u64 (emergency_closures x) 1\<rparr>)) (
     writes (bridge_publish (ChannelEmergencyCloseEvent channel_id True why))
     (ret ())))))"

definition reopen_channel :: "host \<Rightarrow> address \<Rightarrow> string \<Rightarrow> unit bridge_fn" where
  "reopen_channel h caller channel_id =
     tryM (bridge_require_admin h caller) (\<lambda>_.
     reads (\<lambda>s. load_channel_state s channel_id) (\<lambda>st.
     writes (save_channel_state channel_id (st\<lparr>emergency_closed := False, reason := ''''\<rparr>)) (
     writes (bridge_publish (ChannelEmergencyCloseEvent channel_id False ''''))
     (ret ()))))"

definition transfer_admin :: "host \<Rightarrow> address \<Rightarrow> address \<Rightarrow> unit bridge_fn" where
  "transfer_admin h caller new_admin =
     tryM (bridge_require_admin h caller) (\<lambda>_.
     writes (\<lambda>s. s\<lparr>BridgeAdmin := Some new_admin\<rparr>)
     (ret ()))"

section \<open>Deposits and admin withdrawals\<close>

definition bridge_deposit :: "host \<Rightarrow> address \<Rightarrow> string \<Rightarrow> i128 \<Rightarrow> i128 bridge_fn" where
  "bridge_deposit h sender i amount =
     tryM (require_auth h sender) (\<lambda>_.
     reads is_bridge_acceptance_paused (\<lambda>paused.
     fail_if paused BridgeAcceptancePausedError (
     fail_if (amount \<le> 0) AmountNotPositive (
     tryM (load_bridge i) (\<lambda>cfg.
     fail_if (\<not> bridge_active cfg) BridgeInactive (
     fail_if (amount < min_amount cfg) AmountBelowMinimum (
     tryM (compute_fee amount (fee_bps cfg)) (\<lambda>fee.
     ok_or (checked_sub amount fee) Overflow (\<lambda>net.
     ok_or (checked_add (total_deposited cfg) amount) Overflow (\<lambda>total.
     writes (save_bridge i (cfg\<lparr>total_deposited := total\<rparr>)) (
     writes (bridge_publish (BridgeDepositEvent i amount fee net))
     (ret net))))))))))))"

definition bridge_withdraw :: "host \<Rightarrow> address \<Rightarrow> string \<Rightarrow> address \<Rightarrow> i128 \<Rightarrow> unit bridge_fn" where
  "bridge_withdraw h caller i recip amount =
     tryM (bridge_require_admin h caller) (\<lambda>_.
     fail_if (amount \<le> 0) AmountNotPositive (
     tryM (load_bridge i) (\<lambda>cfg.
     fail_if (amount < min_amount cfg) AmountBelowMinimum (
     ok_or (checked_add (total_withdrawn cfg) amount) Overflow (\<lambda>total.
     writes (save_bridge i (cfg\<lparr>total_withdrawn := total\<rparr>)) (
     writes (bridge_publish (BridgeWithdrawalEvent i amount))
     (ret ())))))))"

section \<open>Messages\<close>

definition source_key_of :: "CrossChainMessageInput \<Rightarrow> SourceMessageKey" where
  "source_key_of inp = \<lparr>sk_channel_id = in_channel_id inp, sk_source_chain = in_source_chain inp,
     sk_source_tx_id = in_source_tx_id inp, sk_nonce = in_nonce inp\<rparr>"

definition submit_cross_chain_message :: "host \<Rightarrow> u32 \<Rightarrow> address \<Rightarrow> CrossChainMessageInput \<Rightarrow> u64 bridge_fn" where
  "submit_cross_chain_message h sequence caller inp =
     tryM (require_auth h caller) (\<lambda>_.
     tryM (liftE (validate_id (in_bridge_id inp))) (\<lambda>_.
     tryM (liftE (validate_id (in_channel_id inp))) (\<lambda>_.
     tryM (liftE (validate_id (in_source_chain inp))) (\<lambda>_.
     fail_if (in_amount inp \<le> 0) AmountNotPositive (
     reads load_security_config (\<lambda>cfg.
     if in_payload_version inp \<noteq> supported_message_version cfg then
       writes (record_channel_anomaly (in_channel_id inp) ''unsupported_message_version'') (fail InvalidMessageVersion)
     else
     tryM (load_bridge (in_bridge_id inp)) (\<lambda>bridge.
     fail_if (in_amount inp < min_amount bridge) AmountBelowMinimum (
     reads (\<lambda>s. load_channel_state s (in_channel_id inp)) (\<lambda>ch.
     fail_if (emergency_closed ch) ChannelClosed (
     reads (\<lambda>s. MessageSource s (source_key_of inp) \<noteq> None) (\<lambda>seen.
     if seen then
       writes (with_stats (\<lambda>st. st\<lparr>replay_rejections := saturating_add_u64 (replay_rejections st) 1\<rparr>)) (
       writes (record_channel_anomaly (in_channel_id inp) ''replay_detected'') (fail ReplayDetected))
     else if last_observed_nonce ch \<noteq> 0 \<and> in_nonce inp \<le> last_observed_nonce ch then
       writes (record_channel_anomaly (in_channel_id inp) ''out_of_order_nonce'') (fail InvalidMessageOrdering)
     else if last_observed_height ch \<noteq> 0 \<and> in_source_height inp < last_observed_height ch then
       writes (record_channel_anomaly (in_channel_id inp) ''source_height_regression'') (fail InvalidMessageOrdering)
     else
     tryM next_message_id (\<lambda>i.
     let wait_ledgers = max (min_finality_ledgers cfg) (optimistic_delay_ledgers cfg);
         m = \<lparr>message_id = i, msg_bridge_id = in_bridge_id inp, msg_channel_id = in_channel_id inp,
              source_chain = in_source_chain inp, source_tx_id = in_source_tx_id inp, source_height = in_source_height inp,
              msg_nonce = in_nonce inp, recipient = in_recipient inp, msg_amount = in_amount inp,
              payload_version = in_payload_version inp, submitted_at_ledger = sequence,
              finality_ledger = saturating_add_u32 sequence wait_ledgers, msg_approvals = 0, rejections = 0,
              executed = False, invalidated = False\<rparr> in
     writes (save_channel_state (in_channel_id inp)
               (ch\<lparr>last_observed_nonce := in_nonce inp, last_observed_height := in_source_height inp\<rparr>)) (
     writes (\<lambda>s. s\<lparr>MessageSource := (MessageSource s)(source_key_of inp \<mapsto> i)\<rparr>) (
     writes (save_message m) (
     writes (with_stats (\<lambda>st. st\<lparr>total_messages := saturating_add_u64 (total_messages st) 1\<rparr>))
     (ret i))))))))))))))))"

definition attest_cross_chain_message :: "host \<Rightarrow> address \<Rightarrow> u64 \<Rightarrow> bool \<Rightarrow> unit bridge_fn" where
  "attest_cross_chain_message h v i approve =
     tryM (require_auth h v) (\<lambda>_.
     tryM (load_validator v) (\<lambda>record.
     fail_if (\<not> validator_active record) ValidatorInactive (
     tryM (load_message i) (\<lambda>m.
     fail_if (executed m) MessageAlreadyExecuted (
     fail_if (invalidated m) MessageInvalidated (
     reads (\<lambda>s. MessageAttestation s (i, v) \<noteq> None) (\<lambda>already.
     fail_if already DuplicateAttestation (
     writes (\<lambda>s. s\<lparr>MessageAttestation := (MessageAttestation s)((i, v) \<mapsto> approve)\<rparr>) (
     if approve then
       let m1 = m\<lparr>msg_approvals := saturating_add_u32 (msg_approvals m) 1\<rparr> in
       writes (save_validator v (record\<lparr>validator_approvals := saturating_add_u32 (validator_approvals record) 1\<rparr>)) (
       writes (save_message m1) (ret ()))
     else
       let m1 = m\<lparr>rejections := saturating_add_u32 (rejections m) 1\<rparr> in
       writes (record_channel_anomaly (msg_channel_id m1) ''validator_rejection'') (
       writes (save_message m1) (ret ())))))))))))"

definition execute_verified_withdrawal :: "host \<Rightarrow> u32 \<Rightarrow> address \<Rightarrow> u64 \<Rightarrow> unit bridge_fn" where
  "execute_verified_withdrawal h sequence caller i =
     tryM (require_auth h caller) (\<lambda>_.
     reads load_security_config (\<lambda>cfg.
     tryM (load_message i) (\<lambda>m.
     fail_if (executed m) MessageAlreadyExecuted (
     fail_if (invalidated m) MessageInvalidated (
     fail_if (msg_approvals m < min_validator_signatures cfg) QuorumNotReached (
     fail_if (sequence < finality_ledger m) MessageNotFinal (
     if rejections m > 0 then
       writes (with_stats (\<lambda>st. st\<lparr>rejected_messages := saturating_add_u64 (rejected_messages st) 1\<rparr>)) (fail MessageRejected)
     else
     reads (\<lambda>s. load_channel_state s (msg_channel_id m)) (\<lambda>ch.
     fail_if (emergency_closed ch) ChannelClosed (
     tryM (load_bridge (msg_bridge_id m)) (\<lambda>bridge.
     fail_if (msg_amount m < min_amount bridge) AmountBelowMinimum (
     ok_or (checked_add (total_withdrawn bridge) (msg_amount m)) Overflow (\<lambda>total.
     writes (save_bridge (msg_bridge_id m) (bridge\<lparr>total_withdrawn := total\<rparr>)) (
     writes (save_message (m\<lparr>executed := True\<rparr>)) (
     writes (with_stats (\<lambda>st. st\<lparr>executed_messages := saturating_add_u64 (executed_messages st) 1\<rparr>)) (
     writes (bridge_publish (BridgeWithdrawalEvent (msg_bridge_id m) (msg_amount m)))
     (ret ()))))))))))))))))"

section \<open>Slashing\<close>

text \<open>The loop over the registered validators; whoever approved both messages is slashed.\<close>

fun slash_validators :: "u64 \<Rightarrow> u64 \<Rightarrow> u64 \<Rightarrow> address list \<Rightarrow> address list \<Rightarrow> address list bridge_fn" where
  "slash_validators bps i j [] slashed = ret slashed"
| "slash_validators bps i j (v # vs) slashed =
     reads (\<lambda>s. (MessageAttestation s (i, v), MessageAttestation s (j, v))) (\<lambda>(first_vote, second_vote).
     if first_vote = Some True \<and> second_vote = Some True then
       tryM (load_validator v) (\<lambda>r.
       let amount = slash_amount (stake r) bps;
           r1 = r\<lparr>stake := saturating_sub (stake r) amount, slashed_total := saturating_add (slashed_total r) amount\<rparr>;
           r2 = (if stake r1 \<le> 0 then r1\<lparr>validator_active := False\<rparr> else r1) in
       writes (save_validator v r2) (
       writes (with_stats (\<lambda>st. st\<lparr>slashes := saturating_add_u64 (slashes st) 1\<rparr>)) (
       writes (bridge_publish (ValidatorSlashedEvent v amount (stake r2)))
       (slash_validators bps i j vs (slashed @ [v])))))
     else slash_validators bps i j vs slashed)"

definition same_source :: "CrossChainMessage \<Rightarrow> CrossChainMessage \<Rightarrow> bool" where
  "same_source a b \<longleftrightarrow> msg_channel_id a = msg_channel_id b \<and> source_chain a = source_chain b \<and>
     (msg_nonce a = msg_nonce b \<or> source_tx_id a = source_tx_id b)"

definition slash_conflicting_messages :: "host \<Rightarrow> address \<Rightarrow> u64 \<Rightarrow> u64 \<Rightarrow> address list bridge_fn" where
  "slash_conflicting_messages h caller i j =
     tryM (require_auth h caller) (\<lambda>_.
     tryM (load_message i) (\<lambda>a.
     tryM (load_message j) (\<lambda>b.
     fail_if (\<not> same_source a b \<or> message_payload_matches a b) ConflictingMessages (
     reads validator_list (\<lambda>validators.
     reads load_security_config (\<lambda>cfg.
     tryM (slash_validators (slash_bps cfg) i j validators []) (\<lambda>slashed.
     fail_if (slashed = []) NothingToSlash (
     writes (save_message (a\<lparr>invalidated := True\<rparr>)) (
     writes (save_message (b\<lparr>invalidated := True\<rparr>)) (
     writes (record_channel_anomaly (msg_channel_id a) ''conflicting_message_attestations'')
     (ret slashed)))))))))))"

end
