(* ===== verification/Bridge_Properties.thy ===== *)
theory Bridge_Properties
  imports Bridge
begin

text \<open>
  The bridge contract as a machine whose labels are calls with their host and ledger sequence, its invariant,
  what no call undoes, and the properties of withdrawals, messages, deposits and slashing.
\<close>

section \<open>The contract as a machine\<close>

text \<open>A call runs with its host and the current ledger sequence.\<close>

datatype bridge_call =
  B_init address
| B_register address string u64 i128
| B_set_fee address string u64
| B_set_active address string bool
| B_pause_acceptance address bool
| B_security_config address SecurityConfig
| B_register_validator address address i128
| B_validator_active address address bool
| B_close_channel address string string
| B_reopen_channel address string
| B_transfer_admin address address
| B_deposit address string i128
| B_withdraw address string address i128
| B_submit address CrossChainMessageInput
| B_attest address u64 bool
| B_execute address u64
| B_slash address u64 u64

definition bridge_after :: "'a bridge_fn \<Rightarrow> bridge_state \<Rightarrow> bridge_state" where
  "bridge_after m s = snd (invoke m s)"

fun exec_bridge :: "host \<Rightarrow> u32 \<Rightarrow> bridge_call \<Rightarrow> bridge_state \<Rightarrow> bridge_state" where
  "exec_bridge h q (B_init a) = bridge_after (bridge_init a)"
| "exec_bridge h q (B_register c i f n) = bridge_after (register_bridge h c i f n)"
| "exec_bridge h q (B_set_fee c i f) = bridge_after (set_bridge_fee h c i f)"
| "exec_bridge h q (B_set_active c i b) = bridge_after (set_bridge_active h c i b)"
| "exec_bridge h q (B_pause_acceptance c b) = bridge_after (set_bridge_acceptance_paused h c b)"
| "exec_bridge h q (B_security_config c g) = bridge_after (set_bridge_security_config h c g)"
| "exec_bridge h q (B_register_validator c v n) = bridge_after (register_validator h c v n)"
| "exec_bridge h q (B_validator_active c v b) = bridge_after (set_validator_active h c v b)"
| "exec_bridge h q (B_close_channel c ch r) = bridge_after (close_channel_emergency h c ch r)"
| "exec_bridge h q (B_reopen_channel c ch) = bridge_after (reopen_channel h c ch)"
| "exec_bridge h q (B_transfer_admin c a) = bridge_after (transfer_admin h c a)"
| "exec_bridge h q (B_deposit c i n) = bridge_after (bridge_deposit h c i n)"
| "exec_bridge h q (B_withdraw c i r n) = bridge_after (bridge_withdraw h c i r n)"
| "exec_bridge h q (B_submit c inp) = bridge_after (submit_cross_chain_message h q c inp)"
| "exec_bridge h q (B_attest v i b) = bridge_after (attest_cross_chain_message h v i b)"
| "exec_bridge h q (B_execute c i) = bridge_after (execute_verified_withdrawal h q c i)"
| "exec_bridge h q (B_slash c i j) = bridge_after (slash_conflicting_messages h c i j)"

type_synonym bridge_label = "(host \<times> u32) \<times> bridge_call"

definition bridge_step :: "bridge_label \<Rightarrow> bridge_state \<Rightarrow> bridge_state" where
  "bridge_step l s = exec_bridge (fst (fst l)) (snd (fst l)) (snd l) s"

definition no_bridges :: bridge_state where
  "no_bridges = \<lparr>BridgeAdmin = None, BridgeKey = (\<lambda>_. None), BridgeList = None, BridgeAcceptancePaused = None,
     SecurityConfigKey = None, ValidatorKey = (\<lambda>_. None), ValidatorList = None, Channel = (\<lambda>_. None),
     Message = (\<lambda>_. None), MessageSource = (\<lambda>_. None), MessageAttestation = (\<lambda>_. None), NextMessageId = None,
     Stats = None, bridge_log = []\<rparr>"

definition can_count :: "u64 \<Rightarrow> bool" where
  "can_count n \<longleftrightarrow> n < u64_max"

lemma can_count_code [code]: "can_count n \<longleftrightarrow> int n < 18446744073709551615"
proof -
  have "n < u64_max \<longleftrightarrow> int n < int u64_max" by (rule of_nat_less_iff [symmetric])
  also have "int u64_max = 18446744073709551615" by (simp add: u64_max_def)
  finally show ?thesis by (simp add: can_count_def)
qed

text \<open>Runs in which the message counter does not saturate and stakes are in the range of their type.\<close>

fun bridge_allowed :: "bridge_state \<Rightarrow> bridge_label \<Rightarrow> bool" where
  "bridge_allowed s (e, B_submit c inp) = can_count (next_id s)"
| "bridge_allowed s (e, B_register_validator c v n) = in_i128 n"
| "bridge_allowed s (e, _) = True"

section \<open>What a successful call did\<close>

lemmas bridge_writes = bridge_publish_def save_bridge_def save_validator_def save_channel_state_def save_message_def
  with_stats_def save_security_config_def record_channel_anomaly_def

lemma bridge_require_admin_Ok [ok_simps]:
  "bridge_require_admin h c s = (Ok u, t) \<longleftrightarrow> signed h c \<and> BridgeAdmin s = Some c \<and> t = s"
  by (auto simp: bridge_require_admin_def load_admin_def ok_simps)

lemma bridge_loads_Ok [ok_simps]:
  "load_bridge i s = (Ok b, t) \<longleftrightarrow> BridgeKey s i = Some b \<and> t = s"
  "load_validator v s = (Ok r, t) \<longleftrightarrow> ValidatorKey s v = Some r \<and> t = s"
  "load_message k s = (Ok m, t) \<longleftrightarrow> Message s k = Some m \<and> t = s"
  by (auto simp: load_bridge_def load_validator_def load_message_def ok_simps)

lemma compute_fee_Ok [ok_simps]:
  "compute_fee a b s = (Ok f, t) \<longleftrightarrow> t = s \<and> in_i256 (a * int b) \<and> in_i256 (a * int b sdiv 10000) \<and>
     f = unwrap_or (to_i128 (a * int b sdiv 10000)) 0"
  by (auto simp: compute_fee_def ok_simps i256_mul_def i256_div_def split: if_splits)

lemma bridge_submit_Ok:
  assumes "submit_cross_chain_message h q c inp s = (Ok i, t)"
  obtains b m where "BridgeKey s (in_bridge_id inp) = Some b" "min_amount b \<le> in_amount inp" "0 < in_amount inp"
    "signed h c" "in_payload_version inp = supported_message_version (load_security_config s)"
    "\<not> emergency_closed (load_channel_state s (in_channel_id inp))" "MessageSource s (source_key_of inp) = None"
    "last_observed_nonce (load_channel_state s (in_channel_id inp)) = 0 \<or>
       last_observed_nonce (load_channel_state s (in_channel_id inp)) < in_nonce inp"
    "last_observed_height (load_channel_state s (in_channel_id inp)) \<le> in_source_height inp"
    "i = saturating_add_u64 (next_id s) 1" "message_id m = i" "msg_amount m = in_amount inp" "msg_approvals m = 0"
    "rejections m = 0" "\<not> executed m" "\<not> invalidated m"
    "NextMessageId t = Some i" "Message t = (Message s)(i \<mapsto> m)" "MessageSource t = (MessageSource s)(source_key_of inp \<mapsto> i)"
    "Channel t = (Channel s)(in_channel_id inp \<mapsto>
       (load_channel_state s (in_channel_id inp))\<lparr>last_observed_nonce := in_nonce inp, last_observed_height := in_source_height inp\<rparr>)"
    "BridgeKey t = BridgeKey s" "ValidatorKey t = ValidatorKey s" "ValidatorList t = ValidatorList s"
    "MessageAttestation t = MessageAttestation s" "SecurityConfigKey t = SecurityConfigKey s"
    "replay_rejections (load_stats t) = replay_rejections (load_stats s)"
proof -
  have h: "a = 0 \<or> \<not> b < a \<Longrightarrow> a \<le> b" for a b :: nat by auto
  have n: "a = 0 \<or> \<not> b \<le> a \<Longrightarrow> a = 0 \<or> a < b" for a b :: nat by auto
  show ?thesis
    using assms
    by (auto simp: submit_cross_chain_message_def next_message_id_def ok_simps Let_def save_channel_state_def
        save_message_def with_stats_def load_stats_def not_less not_le intro!: that)
qed

lemma bridge_attest_Ok:
  assumes "attest_cross_chain_message h v i ok s = (Ok u, t)"
  obtains r m m' where "signed h v" "ValidatorKey s v = Some r" "validator_active r" "Message s i = Some m" "\<not> executed m"
    "\<not> invalidated m" "MessageAttestation s (i, v) = None" "MessageAttestation t = (MessageAttestation s)((i, v) \<mapsto> ok)"
    "m' = (if ok then m\<lparr>msg_approvals := saturating_add_u32 (msg_approvals m) 1\<rparr>
           else m\<lparr>rejections := saturating_add_u32 (rejections m) 1\<rparr>)"
    "Message t = (Message s)(message_id m \<mapsto> m')"
    "ValidatorKey t = (if ok then (ValidatorKey s)(v \<mapsto> r\<lparr>validator_approvals := saturating_add_u32 (validator_approvals r) 1\<rparr>)
                       else ValidatorKey s)"
    "BridgeKey t = BridgeKey s" "ValidatorList t = ValidatorList s" "MessageSource t = MessageSource s"
    "NextMessageId t = NextMessageId s" "SecurityConfigKey t = SecurityConfigKey s"
    "last_observed_nonce (load_channel_state t ch) = last_observed_nonce (load_channel_state s ch)"
    "last_observed_height (load_channel_state t ch) = last_observed_height (load_channel_state s ch)"
  using assms
  by (cases ok) (auto simp: attest_cross_chain_message_def ok_simps Let_def bridge_writes load_channel_state_def intro!: that)

lemma bridge_execute_Ok:
  assumes "execute_verified_withdrawal h q c i s = (Ok u, t)"
  obtains m b where "signed h c" "Message s i = Some m" "\<not> executed m" "\<not> invalidated m"
    "min_validator_signatures (load_security_config s) \<le> msg_approvals m" "finality_ledger m \<le> q" "rejections m = 0"
    "\<not> emergency_closed (load_channel_state s (msg_channel_id m))"
    "BridgeKey s (msg_bridge_id m) = Some b" "min_amount b \<le> msg_amount m" "in_i128 (total_withdrawn b + msg_amount m)"
    "t = bridge_publish (BridgeWithdrawalEvent (msg_bridge_id m) (msg_amount m))
       (with_stats (\<lambda>st. st\<lparr>executed_messages := saturating_add_u64 (executed_messages st) 1\<rparr>)
         (save_message (m\<lparr>executed := True\<rparr>)
           (save_bridge (msg_bridge_id m) (b\<lparr>total_withdrawn := total_withdrawn b + msg_amount m\<rparr>) s)))"
  using assms
  by (auto simp: execute_verified_withdrawal_def ok_simps Let_def not_less intro!: that)

text \<open>The loop slashes exactly the validators that approved both messages, each once.\<close>

definition double_signed :: "bridge_state \<Rightarrow> u64 \<Rightarrow> u64 \<Rightarrow> address \<Rightarrow> bool" where
  "double_signed s i j v \<longleftrightarrow> MessageAttestation s (i, v) = Some True \<and> MessageAttestation s (j, v) = Some True"

definition slashed_record :: "u64 \<Rightarrow> ValidatorRecord \<Rightarrow> ValidatorRecord" where
  "slashed_record bps r =
     (let amount = slash_amount (stake r) bps;
          r1 = r\<lparr>stake := saturating_sub (stake r) amount, slashed_total := saturating_add (slashed_total r) amount\<rparr>
      in if stake r1 \<le> 0 then r1\<lparr>validator_active := False\<rparr> else r1)"

definition same_messages :: "bridge_state \<Rightarrow> bridge_state \<Rightarrow> bool" where
  "same_messages s t \<longleftrightarrow> BridgeKey t = BridgeKey s \<and> ValidatorList t = ValidatorList s \<and> Message t = Message s \<and>
     MessageSource t = MessageSource s \<and> MessageAttestation t = MessageAttestation s \<and> NextMessageId t = NextMessageId s \<and>
     SecurityConfigKey t = SecurityConfigKey s \<and> Channel t = Channel s"

lemma same_messages_refl: "same_messages s s"
  by (simp add: same_messages_def)

lemma double_signed_same: "same_messages s t \<Longrightarrow> double_signed t i j = double_signed s i j"
  by (simp add: same_messages_def double_signed_def fun_eq_iff)

lemma slash_validators_Ok:
  assumes "slash_validators bps i j vs acc s = (Ok out, t)" and "distinct vs"
  shows "same_messages s t \<and> out = acc @ filter (double_signed s i j) vs \<and>
    (\<forall>v. ValidatorKey t v = (if v \<in> set vs \<and> double_signed s i j v then map_option (slashed_record bps) (ValidatorKey s v)
                            else ValidatorKey s v)) \<and>
    (\<forall>v. v \<in> set vs \<and> double_signed s i j v \<longrightarrow> ValidatorKey s v \<noteq> None)"
  using assms
proof (induction vs arbitrary: acc s)
  case Nil
  then show ?case by (simp add: same_messages_refl)
next
  case (Cons v vs)
  show ?case
  proof (cases "double_signed s i j v")
    case False
    with Cons.prems have "slash_validators bps i j vs acc s = (Ok out, t)" "distinct vs"
      by (auto simp: double_signed_def)
    with Cons.IH False show ?thesis by auto
  next
    case True
    with Cons.prems obtain r s' where r: "ValidatorKey s v = Some r"
      and loop: "slash_validators bps i j vs (acc @ [v]) s' = (Ok out, t)"
      and s': "ValidatorKey s' = (ValidatorKey s)(v \<mapsto> slashed_record bps r)" "same_messages s s'"
      by (auto simp: double_signed_def ok_simps Let_def bridge_writes slashed_record_def same_messages_def)
    have "double_signed s' i j = double_signed s i j" using s'(2) by (rule double_signed_same)
    with Cons.IH [OF loop] Cons.prems(2) True r s' show ?thesis by (auto simp: same_messages_def split: if_splits)
  qed
qed

lemma bridge_slash_Ok:
  assumes "slash_conflicting_messages h c i j s = (Ok vs, t)"
  obtains a b s' where "signed h c" "Message s i = Some a" "Message s j = Some b" "same_source a b" "\<not> message_payload_matches a b"
    "slash_validators (slash_bps (load_security_config s)) i j (validator_list s) [] s = (Ok vs, s')" "vs \<noteq> []"
    "t = record_channel_anomaly (msg_channel_id a) ''conflicting_message_attestations''
       (save_message (b\<lparr>invalidated := True\<rparr>) (save_message (a\<lparr>invalidated := True\<rparr>) s'))"
  using assms by (auto simp: slash_conflicting_messages_def ok_simps intro!: that)

lemma saturate_le: "i128_min \<le> x \<Longrightarrow> saturate x \<le> x"
  by (simp add: saturate_def)

lemma slash_amount_bounds:
  assumes "0 \<le> n" "in_i128 n" "bps \<le> 10000"
  shows "0 \<le> slash_amount n bps" "slash_amount n bps \<le> n" "0 < n \<Longrightarrow> 0 < slash_amount n bps"
proof -
  let ?m = "saturating_mul n (int bps)"
  have m: "0 \<le> ?m" using assms(1) by (simp add: saturating_mul_def saturate_nonneg)
  have "?m \<le> n * int bps"
    unfolding saturating_mul_def by (rule saturate_le) (use assms(1) in \<open>simp add: i128_min_def order_trans [of _ 0]\<close>)
  also have "\<dots> \<le> n * 10000" using assms by (intro mult_left_mono) auto
  finally have "?m div 10000 \<le> n" by linarith
  moreover have "?m sdiv 10000 = ?m div 10000" using m by (simp add: sdiv_nonneg_eq)
  moreover have "0 \<le> ?m div 10000" using m by simp
  ultimately show "0 \<le> slash_amount n bps" "slash_amount n bps \<le> n" "0 < n \<Longrightarrow> 0 < slash_amount n bps"
    by (auto simp: slash_amount_def Let_def)
qed

text \<open>A validator's stake and what was taken from it stay non-negative and add up to a storable number.\<close>

definition stake_ok :: "ValidatorRecord \<Rightarrow> bool" where
  "stake_ok r \<longleftrightarrow> 0 \<le> stake r \<and> 0 \<le> slashed_total r \<and> in_i128 (stake r + slashed_total r)"

lemma slashed_record_ok:
  assumes "stake_ok r" "bps \<le> 10000"
  shows "stake (slashed_record bps r) = stake r - slash_amount (stake r) bps"
    "slashed_total (slashed_record bps r) = slashed_total r + slash_amount (stake r) bps"
    "stake_ok (slashed_record bps r)"
    "validator_active (slashed_record bps r) \<longleftrightarrow> validator_active r \<and> 0 < stake (slashed_record bps r)"
proof -
  let ?a = "slash_amount (stake r) bps"
  have r: "0 \<le> stake r" "0 \<le> slashed_total r" "in_i128 (stake r + slashed_total r)"
    using assms(1) by (simp_all add: stake_ok_def)
  have "in_i128 (stake r)" by (rule in_i128_between [OF r(1) _ r(3)]) (use r(2) in simp)
  note a = slash_amount_bounds [OF r(1) this assms(2)]
  have s: "in_i128 (stake r - ?a)" "in_i128 (slashed_total r + ?a)"
    by (rule in_i128_between [OF _ _ r(3)]; use a r in linarith)+
  show st: "stake (slashed_record bps r) = stake r - ?a" "slashed_total (slashed_record bps r) = slashed_total r + ?a"
    using s by (auto simp: slashed_record_def Let_def saturating_sub_def saturating_add_def)
  show "stake_ok (slashed_record bps r)" using a r by (simp add: stake_ok_def st)
  show "validator_active (slashed_record bps r) \<longleftrightarrow> validator_active r \<and> 0 < stake (slashed_record bps r)"
    using s by (auto simp: slashed_record_def Let_def saturating_sub_def)
qed

section \<open>The invariant\<close>

text \<open>Bridges charge at most 10% and count upwards; the security configuration is valid; the validator list has
  every registered validator once; a message is filed under its id, its approvals are backed by distinct
  validators, and without a rejection nobody voted against it.\<close>

definition bridges_ok :: "bridge_state \<Rightarrow> bool" where
  "bridges_ok s \<longleftrightarrow> (\<forall>i b. BridgeKey s i = Some b \<longrightarrow>
     bridge_id b = i \<and> fee_bps b \<le> 1000 \<and> 0 \<le> min_amount b \<and> 0 \<le> total_deposited b \<and> 0 \<le> total_withdrawn b)"

definition config_ok :: "bridge_state \<Rightarrow> bool" where
  "config_ok s \<longleftrightarrow> (\<forall>c. SecurityConfigKey s = Some c \<longrightarrow> validate_security_config c = Inr ())"

definition validators_ok :: "bridge_state \<Rightarrow> bool" where
  "validators_ok s \<longleftrightarrow> distinct (validator_list s) \<and> set (validator_list s) = dom (ValidatorKey s) \<and>
     (\<forall>v r. ValidatorKey s v = Some r \<longrightarrow> stake_ok r)"

definition approving :: "bridge_state \<Rightarrow> u64 \<Rightarrow> address set" where
  "approving s i = {v. MessageAttestation s (i, v) = Some True}"

definition message_ok :: "bridge_state \<Rightarrow> u64 \<Rightarrow> CrossChainMessage \<Rightarrow> bool" where
  "message_ok s i m \<longleftrightarrow> message_id m = i \<and> i \<le> next_id s \<and> 0 < msg_amount m \<and> msg_approvals m \<le> card (approving s i) \<and>
     (rejections m = 0 \<longrightarrow> (\<forall>v. MessageAttestation s (i, v) \<noteq> Some False))"

definition messages_ok :: "bridge_state \<Rightarrow> bool" where
  "messages_ok s \<longleftrightarrow> (\<forall>i m. Message s i = Some m \<longrightarrow> message_ok s i m) \<and>
     (\<forall>i v. MessageAttestation s (i, v) \<noteq> None \<longrightarrow> i \<le> next_id s \<and> ValidatorKey s v \<noteq> None)"

definition bridge_inv :: "bridge_state \<Rightarrow> bool" where
  "bridge_inv s \<longleftrightarrow> bridges_ok s \<and> config_ok s \<and> validators_ok s \<and> messages_ok s"

lemmas bridge_inv_defs = bridges_ok_def config_ok_def validators_ok_def messages_ok_def message_ok_def approving_def

lemma finite_approving: "validators_ok s \<Longrightarrow> messages_ok s \<Longrightarrow> finite (approving s i)"
proof -
  assume v: "validators_ok s" and m: "messages_ok s"
  then have "approving s i \<subseteq> dom (ValidatorKey s)" unfolding approving_def messages_ok_def by blast
  also have "\<dots> = set (validator_list s)" using v by (simp add: validators_ok_def)
  finally show "finite (approving s i)" by (rule finite_subset) simp
qed

lemma stored_message_ok: "bridge_inv s \<Longrightarrow> Message s i = Some m \<Longrightarrow> message_ok s i m"
  by (auto simp: bridge_inv_def messages_ok_def)

text \<open>Which part of the storage each part of the invariant reads.\<close>

lemma bridges_ok_cong: "BridgeKey t = BridgeKey s \<Longrightarrow> bridges_ok t = bridges_ok s"
  by (simp add: bridges_ok_def)

lemma config_ok_cong: "SecurityConfigKey t = SecurityConfigKey s \<Longrightarrow> config_ok t = config_ok s"
  by (simp add: config_ok_def)

lemma validators_ok_cong:
  "ValidatorList t = ValidatorList s \<Longrightarrow> ValidatorKey t = ValidatorKey s \<Longrightarrow> validators_ok t = validators_ok s"
  by (simp add: validators_ok_def validator_list_def)

lemma message_ok_cong:
  "NextMessageId t = NextMessageId s \<Longrightarrow> MessageAttestation t = MessageAttestation s \<Longrightarrow> message_ok t = message_ok s"
  by (simp add: message_ok_def approving_def next_id_def fun_eq_iff)

lemma messages_ok_cong:
  assumes "Message t = Message s" "NextMessageId t = NextMessageId s" "MessageAttestation t = MessageAttestation s"
    "dom (ValidatorKey s) \<subseteq> dom (ValidatorKey t)"
  shows "messages_ok s \<Longrightarrow> messages_ok t"
  using assms by (simp add: messages_ok_def message_ok_cong [of t s] next_id_def) blast

lemma bridge_inv_cong:
  assumes "BridgeKey t = BridgeKey s" "SecurityConfigKey t = SecurityConfigKey s" "ValidatorList t = ValidatorList s"
    "ValidatorKey t = ValidatorKey s" "Message t = Message s" "NextMessageId t = NextMessageId s"
    "MessageAttestation t = MessageAttestation s"
  shows "bridge_inv s \<Longrightarrow> bridge_inv t"
  using assms bridges_ok_cong [of t s] config_ok_cong [of t s] validators_ok_cong [of t s] messages_ok_cong [of t s]
  by (simp add: bridge_inv_def)

text \<open>Replacing a message by one with the same id, amount and votes.\<close>

lemma bridge_inv_message:
  assumes "bridge_inv s" "Message s i = Some m" "message_id m' = message_id m" "msg_amount m' = msg_amount m"
    "msg_approvals m' = msg_approvals m" "rejections m' = rejections m"
  shows "bridge_inv (save_message m' s)"
proof -
  let ?t = "save_message m' s"
  have same: "BridgeKey ?t = BridgeKey s" "SecurityConfigKey ?t = SecurityConfigKey s" "ValidatorList ?t = ValidatorList s"
    "ValidatorKey ?t = ValidatorKey s" "NextMessageId ?t = NextMessageId s" "MessageAttestation ?t = MessageAttestation s"
    by (simp_all add: save_message_def)
  have m: "message_ok s i m" using assms(1,2) by (rule stored_message_ok)
  then have "message_ok s i m'" using assms(3-6) by (simp add: message_ok_def)
  moreover have "Message ?t = (Message s)(i \<mapsto> m')" using m assms(3) by (simp add: message_ok_def save_message_def)
  ultimately have "messages_ok ?t"
    using assms(1) message_ok_cong [OF same(5,6)] same(4-6) by (auto simp: bridge_inv_def messages_ok_def next_id_def)
  with assms(1) show ?thesis
    using bridges_ok_cong [OF same(1)] config_ok_cong [OF same(2)] validators_ok_cong [OF same(3,4)] by (simp add: bridge_inv_def)
qed

text \<open>Replacing a bridge or a validator's record.\<close>

lemma bridge_inv_save_bridge:
  assumes "bridge_inv s" "bridge_id b = i" "fee_bps b \<le> 1000" "0 \<le> min_amount b" "0 \<le> total_deposited b" "0 \<le> total_withdrawn b"
  shows "bridge_inv (save_bridge i b s)"
proof -
  have "bridges_ok (save_bridge i b s)" using assms by (simp add: bridge_inv_def bridges_ok_def save_bridge_def)
  moreover have "messages_ok (save_bridge i b s)"
    by (rule messages_ok_cong [of _ s]) (use assms(1) in \<open>simp_all add: save_bridge_def bridge_inv_def\<close>)
  ultimately show ?thesis
    using assms(1) by (simp add: bridge_inv_def config_ok_def validators_ok_def validator_list_def save_bridge_def)
qed

lemma bridge_inv_save_validator:
  assumes "bridge_inv s" "ValidatorKey s v \<noteq> None" "stake_ok r"
  shows "bridge_inv (save_validator v r s)"
proof -
  have "messages_ok (save_validator v r s)"
    by (rule messages_ok_cong [of _ s]) (use assms in \<open>auto simp: save_validator_def bridge_inv_def\<close>)
  with assms show ?thesis
    by (auto simp: bridge_inv_def bridges_ok_def config_ok_def validators_ok_def validator_list_def save_validator_def)
qed

lemma bridge_inv_config:
  assumes "bridge_inv s" "validate_security_config cfg = Inr ()"
  shows "bridge_inv (save_security_config cfg s)"
proof -
  have "messages_ok (save_security_config cfg s)"
    by (rule messages_ok_cong [of _ s]) (use assms(1) in \<open>simp_all add: save_security_config_def bridge_inv_def\<close>)
  with assms show ?thesis
    by (simp add: bridge_inv_def bridges_ok_def config_ok_def validators_ok_def validator_list_def save_security_config_def)
qed

text \<open>Events, counters, channels and the flags are outside the invariant.\<close>

lemma bridge_inv_outside [intro!]:
  assumes "bridge_inv s"
  shows "bridge_inv (bridge_publish e s)" "bridge_inv (with_stats f s)" "bridge_inv (save_channel_state c st s)"
    "bridge_inv (record_channel_anomaly c why s)" "bridge_inv (s\<lparr>BridgeAdmin := a\<rparr>)" "bridge_inv (s\<lparr>BridgeList := bl\<rparr>)"
    "bridge_inv (s\<lparr>Stats := x\<rparr>)" "bridge_inv (s\<lparr>BridgeAcceptancePaused := p\<rparr>)"
  by (rule bridge_inv_cong [OF _ _ _ _ _ _ _ assms]; simp add: bridge_writes Let_def)+

lemma bridge_admin_inv:
  assumes "bridge_inv s"
  shows "bridge_init a s = (Ok u, t) \<Longrightarrow> bridge_inv t"
    "set_bridge_acceptance_paused h c p s = (Ok u, t) \<Longrightarrow> bridge_inv t"
    "set_bridge_security_config h c g s = (Ok u, t) \<Longrightarrow> bridge_inv t"
    "close_channel_emergency h c ch r s = (Ok u, t) \<Longrightarrow> bridge_inv t"
    "reopen_channel h c ch s = (Ok u, t) \<Longrightarrow> bridge_inv t"
    "transfer_admin h c a s = (Ok u, t) \<Longrightarrow> bridge_inv t"
proof -
  have "validate_security_config default_security_config = Inr ()" by code_simp
  then show "bridge_init a s = (Ok u, t) \<Longrightarrow> bridge_inv t"
    using bridge_inv_config [of "s\<lparr>BridgeAdmin := Some a\<rparr>" default_security_config] assms
    by (auto simp: bridge_init_def save_security_config_def ok_simps)
qed (use assms in \<open>auto simp: ok_simps set_bridge_acceptance_paused_def set_bridge_security_config_def
       close_channel_emergency_def reopen_channel_def transfer_admin_def intro!: bridge_inv_config\<close>)

lemma stored_bridge_ok:
  "bridge_inv s \<Longrightarrow> BridgeKey s i = Some b \<Longrightarrow>
     bridge_id b = i \<and> fee_bps b \<le> 1000 \<and> 0 \<le> min_amount b \<and> 0 \<le> total_deposited b \<and> 0 \<le> total_withdrawn b"
  by (simp add: bridge_inv_def bridges_ok_def)

lemma bridge_config_inv:
  assumes "bridge_inv s"
  shows "register_bridge h c i f n s = (Ok u, t) \<Longrightarrow> bridge_inv t"
    "set_bridge_fee h c i f s = (Ok u, t) \<Longrightarrow> bridge_inv t"
    "set_bridge_active h c i act s = (Ok u, t) \<Longrightarrow> bridge_inv t"
    "bridge_deposit h c i amount s = (Ok net, t) \<Longrightarrow> bridge_inv t"
    "bridge_withdraw h c i r amount s = (Ok u, t) \<Longrightarrow> bridge_inv t"
  using assms
  by (auto simp: ok_simps register_bridge_def set_bridge_fee_def set_bridge_active_def bridge_deposit_def bridge_withdraw_def
      MAX_BRIDGE_FEE_BPS_def not_less dest: stored_bridge_ok intro!: bridge_inv_save_bridge)

lemma stored_stake_ok: "bridge_inv s \<Longrightarrow> ValidatorKey s v = Some r \<Longrightarrow> stake_ok r"
  by (simp add: bridge_inv_def validators_ok_def)

lemma register_validator_inv:
  assumes "bridge_inv s" "register_validator h c v n s = (Ok u, t)" "in_i128 n"
  shows "bridge_inv t"
proof -
  let ?r = "\<lparr>stake = n, validator_active = True, slashed_total = 0, validator_approvals = 0\<rparr>"
  from assms(2) have new: "ValidatorKey s v = None" "0 < n"
    and t: "t = bridge_publish (ValidatorUpdatedEvent v n True)
      (s\<lparr>ValidatorKey := (ValidatorKey s)(v \<mapsto> ?r), ValidatorList := Some (validator_list s @ [v])\<rparr>)"
    by (auto simp: register_validator_def ok_simps save_validator_def validator_list_def not_le)
  have "messages_ok t"
    by (rule messages_ok_cong [of _ s]) (use assms(1) in \<open>auto simp: t bridge_publish_def bridge_inv_def\<close>)
  with assms(1,3) new show ?thesis
    by (auto simp: t bridge_publish_def bridge_inv_def bridges_ok_def config_ok_def validators_ok_def validator_list_def stake_ok_def)
qed

lemma set_validator_active_inv:
  "bridge_inv s \<Longrightarrow> set_validator_active h c v act s = (Ok u, t) \<Longrightarrow> bridge_inv t"
  by (auto simp: set_validator_active_def ok_simps stake_ok_def dest: stored_stake_ok intro!: bridge_inv_save_validator)

lemma submit_inv:
  assumes "bridge_inv s" "submit_cross_chain_message h q c inp s = (Ok i, t)" "can_count (next_id s)"
  shows "bridge_inv t"
  using assms(2)
proof (rule bridge_submit_Ok)
  fix b m
  assume new: "0 < in_amount inp" "i = saturating_add_u64 (next_id s) 1" "message_id m = i" "msg_amount m = in_amount inp"
    "msg_approvals m = 0" "rejections m = 0" "NextMessageId t = Some i" "Message t = (Message s)(i \<mapsto> m)"
    and same: "BridgeKey t = BridgeKey s" "ValidatorKey t = ValidatorKey s" "ValidatorList t = ValidatorList s"
    "MessageAttestation t = MessageAttestation s" "SecurityConfigKey t = SecurityConfigKey s"
  have i: "i = Suc (next_id s)" "next_id t = i" using new(2,7) assms(3) by (simp_all add: saturating_add_u64_def next_id_def can_count_def)
  have s: "messages_ok s" using assms(1) by (simp add: bridge_inv_def)
  then have none: "MessageAttestation s (i, v) = None" for v
    unfolding messages_ok_def i(1) by (metis Suc_n_not_le_n)
  have "message_ok t i m" using new i none same(4) by (simp add: message_ok_def approving_def)
  moreover have "message_ok t j m'" if "message_ok s j m'" for j m'
    using that i same(4) by (auto simp: message_ok_def approving_def)
  ultimately have "messages_ok t"
    using s new(8) same(2,4) i by (auto simp: messages_ok_def le_SucI)
  with assms(1) same bridges_ok_cong [of t s] config_ok_cong [of t s] validators_ok_cong [of t s] show ?thesis
    by (simp add: bridge_inv_def)
qed

text \<open>A vote adds its validator to the approving ones, or is a rejection that the message counts.\<close>

lemma attest_messages_ok:
  assumes "bridge_inv s" "Message s i = Some m" "MessageAttestation s (i, v) = None" "ValidatorKey s v \<noteq> None"
    and m': "m' = (if ok then m\<lparr>msg_approvals := saturating_add_u32 (msg_approvals m) 1\<rparr>
                   else m\<lparr>rejections := saturating_add_u32 (rejections m) 1\<rparr>)"
    and t: "MessageAttestation t = (MessageAttestation s)((i, v) \<mapsto> ok)" "Message t = (Message s)(message_id m \<mapsto> m')"
      "dom (ValidatorKey t) = dom (ValidatorKey s)" "NextMessageId t = NextMessageId s"
  shows "messages_ok t"
proof -
  have s: "messages_ok s" "message_ok s i m" using assms(1,2) by (auto simp: bridge_inv_def intro: stored_message_ok)
  have id: "message_id m = i" using s(2) by (simp add: message_ok_def)
  have fin: "finite (approving s i)" using assms(1) by (simp add: bridge_inv_def finite_approving)
  have app: "approving t i = (if ok then insert v (approving s i) else approving s i)"
    using assms(3) by (auto simp: approving_def t)
  have "v \<notin> approving s i" using assms(3) by (simp add: approving_def)
  then have "card (approving t i) = (if ok then Suc (card (approving s i)) else card (approving s i))"
    using fin by (simp add: app)
  then have "message_ok t i m'"
    using s(2) by (auto simp: message_ok_def m' t next_id_def saturating_add_u32_def u32_max_def)
  moreover have "message_ok t j n" if "message_ok s j n" "j \<noteq> i" for j n
    using that by (simp add: message_ok_def approving_def t next_id_def)
  ultimately have "\<forall>j n. Message t j = Some n \<longrightarrow> message_ok t j n"
    using s(1) by (auto simp: messages_ok_def t(2) id)
  moreover have "\<forall>j w. MessageAttestation t (j, w) \<noteq> None \<longrightarrow> j \<le> next_id t \<and> ValidatorKey t w \<noteq> None"
  proof (intro allI impI)
    fix j w
    assume "MessageAttestation t (j, w) \<noteq> None"
    then have "(j, w) = (i, v) \<or> MessageAttestation s (j, w) \<noteq> None" by (auto simp: t(1) split: if_splits)
    then have "j \<le> next_id s \<and> ValidatorKey s w \<noteq> None"
    proof
      assume "(j, w) = (i, v)"
      with s(2) assms(4) show ?thesis by (simp add: message_ok_def)
    next
      assume "MessageAttestation s (j, w) \<noteq> None"
      with s(1) show ?thesis unfolding messages_ok_def by blast
    qed
    moreover have "ValidatorKey t w \<noteq> None \<longleftrightarrow> ValidatorKey s w \<noteq> None" using t(3) by blast
    ultimately show "j \<le> next_id t \<and> ValidatorKey t w \<noteq> None" by (simp add: next_id_def t(4))
  qed
  ultimately show ?thesis by (simp add: messages_ok_def)
qed

lemma attest_inv:
  assumes "bridge_inv s" "attest_cross_chain_message h v i ok s = (Ok u, t)"
  shows "bridge_inv t"
  using assms(2)
proof (rule bridge_attest_Ok)
  fix r m m'
  assume r: "ValidatorKey s v = Some r" and m: "Message s i = Some m" "MessageAttestation s (i, v) = None"
    "MessageAttestation t = (MessageAttestation s)((i, v) \<mapsto> ok)"
    "m' = (if ok then m\<lparr>msg_approvals := saturating_add_u32 (msg_approvals m) 1\<rparr>
           else m\<lparr>rejections := saturating_add_u32 (rejections m) 1\<rparr>)" "Message t = (Message s)(message_id m \<mapsto> m')"
    and V: "ValidatorKey t = (if ok then (ValidatorKey s)(v \<mapsto> r\<lparr>validator_approvals := saturating_add_u32 (validator_approvals r) 1\<rparr>)
                       else ValidatorKey s)"
    and same: "BridgeKey t = BridgeKey s" "ValidatorList t = ValidatorList s" "NextMessageId t = NextMessageId s"
      "SecurityConfigKey t = SecurityConfigKey s"
  have dom: "dom (ValidatorKey t) = dom (ValidatorKey s)" using r by (auto simp: V)
  have "messages_ok t"
    by (rule attest_messages_ok [OF assms(1) m(1,2) _ m(4,3,5) dom same(3)]) (simp add: r)
  moreover have "validators_ok t"
    using assms(1) r dom by (auto simp: bridge_inv_def validators_ok_def validator_list_def same V stake_ok_def)
  ultimately show ?thesis
    using assms(1) bridges_ok_cong [OF same(1)] config_ok_cong [OF same(4)] by (simp add: bridge_inv_def)
qed

lemma bridge_execute_inv:
  assumes "bridge_inv s" "execute_verified_withdrawal h q c i s = (Ok u, t)"
  shows "bridge_inv t"
  using assms(2)
proof (rule bridge_execute_Ok)
  fix m b
  assume m: "Message s i = Some m" and b: "BridgeKey s (msg_bridge_id m) = Some b"
    and t: "t = bridge_publish (BridgeWithdrawalEvent (msg_bridge_id m) (msg_amount m))
       (with_stats (\<lambda>st. st\<lparr>executed_messages := saturating_add_u64 (executed_messages st) 1\<rparr>)
         (save_message (m\<lparr>executed := True\<rparr>)
           (save_bridge (msg_bridge_id m) (b\<lparr>total_withdrawn := total_withdrawn b + msg_amount m\<rparr>) s)))"
  have pos: "0 < msg_amount m" using stored_message_ok [OF assms(1) m] by (simp add: message_ok_def)
  have "bridge_inv (save_bridge (msg_bridge_id m) (b\<lparr>total_withdrawn := total_withdrawn b + msg_amount m\<rparr>) s)"
    by (rule bridge_inv_save_bridge [OF assms(1)]) (use stored_bridge_ok [OF assms(1) b] pos in auto)
  then show "bridge_inv t"
    unfolding t by (intro bridge_inv_outside) (rule bridge_inv_message [of _ i m], simp_all add: save_bridge_def m)
qed

lemma load_security_config_valid:
  assumes "bridge_inv s"
  shows "validate_security_config (load_security_config s) = Inr ()"
proof -
  have "validate_security_config default_security_config = Inr ()" by code_simp
  with assms show ?thesis by (cases "SecurityConfigKey s") (simp_all add: load_security_config_def bridge_inv_def config_ok_def)
qed

lemma slash_bps_range: "bridge_inv s \<Longrightarrow> slash_bps (load_security_config s) \<le> 10000"
  using load_security_config_valid [of s] by (auto simp: validate_security_config_def split: if_splits)

lemma slash_inv:
  assumes "bridge_inv s" "slash_conflicting_messages h c i j s = (Ok vs, t)"
  shows "bridge_inv t"
  using assms(2)
proof (rule bridge_slash_Ok)
  fix a b s'
  assume m: "Message s i = Some a" "Message s j = Some b" "\<not> message_payload_matches a b"
    and loop: "slash_validators (slash_bps (load_security_config s)) i j (validator_list s) [] s = (Ok vs, s')"
    and t: "t = record_channel_anomaly (msg_channel_id a) ''conflicting_message_attestations''
       (save_message (b\<lparr>invalidated := True\<rparr>) (save_message (a\<lparr>invalidated := True\<rparr>) s'))"
  let ?d = "slashed_record (slash_bps (load_security_config s))"
  have "distinct (validator_list s)" using assms(1) by (simp add: bridge_inv_def validators_ok_def)
  note l = slash_validators_Ok [OF loop this]
  have stakes: "stake_ok (?d r)" if "stake_ok r" for r using that slash_bps_range [OF assms(1)] by (rule slashed_record_ok(3))
  have dom: "dom (ValidatorKey s') = dom (ValidatorKey s)" using l by (auto simp: dom_def)
  have "validators_ok s'"
    using assms(1) l dom stakes
    by (auto simp: bridge_inv_def validators_ok_def validator_list_def same_messages_def split: if_splits)
  moreover have "messages_ok s'"
    by (rule messages_ok_cong [of s' s]) (use assms(1) l dom in \<open>auto simp: same_messages_def bridge_inv_def\<close>)
  ultimately have s': "bridge_inv s'"
    using assms(1) l bridges_ok_cong [of s' s] config_ok_cong [of s' s] by (simp add: bridge_inv_def same_messages_def)
  have ids: "message_id a = i" "message_id b = j"
    using stored_message_ok [OF assms(1)] m by (auto simp: message_ok_def)
  have "i \<noteq> j" using m by (auto simp: message_payload_matches_def)
  have st: "Message s' i = Some a" "Message s' j = Some b" using l m by (auto simp: same_messages_def)
  have "bridge_inv (save_message (a\<lparr>invalidated := True\<rparr>) s')"
    by (rule bridge_inv_message [OF s' st(1)]) simp_all
  then have "bridge_inv (save_message (b\<lparr>invalidated := True\<rparr>) (save_message (a\<lparr>invalidated := True\<rparr>) s'))"
    by (rule bridge_inv_message [of _ j b]) (use st ids \<open>i \<noteq> j\<close> in \<open>simp_all add: save_message_def\<close>)
  then show "bridge_inv t" unfolding t by (rule bridge_inv_outside)
qed

lemmas bridge_ops_inv = bridge_admin_inv bridge_config_inv set_validator_active_inv attest_inv bridge_execute_inv slash_inv

lemma bridge_after_inv: "bridge_inv s \<Longrightarrow> (\<And>a t. m s = (Ok a, t) \<Longrightarrow> bridge_inv t) \<Longrightarrow> bridge_inv (bridge_after m s)"
  unfolding bridge_after_def by (rule invoke_preserves)

lemma bridge_step_inv:
  assumes "bridge_inv s" "bridge_allowed s l"
  shows "bridge_inv (bridge_step l s)"
proof -
  obtain e c where l: "l = (e, c)" by fastforce
  show ?thesis
    using assms(2) unfolding bridge_step_def l
    by (cases c)
       (simp_all only: exec_bridge.simps fst_conv snd_conv bridge_allowed.simps,
        (rule bridge_after_inv [OF assms(1)], erule submit_inv [OF assms(1)] register_validator_inv [OF assms(1)]
           bridge_ops_inv [OF assms(1)]; assumption?)+)
qed

interpretation bridge_machine: invariant_machine bridge_step no_bridges bridge_allowed bridge_inv
  by unfold_locales (simp_all add: bridge_step_inv,
      simp add: no_bridges_def bridge_inv_def bridge_inv_defs validator_list_def)

section \<open>What is never undone\<close>

text \<open>Executed messages stay executed, seen sources stay seen, and channels never look back.\<close>

definition bridge_grows :: "bridge_state \<Rightarrow> bridge_state \<Rightarrow> bool" where
  "bridge_grows s t \<longleftrightarrow>
     (\<forall>i m. Message s i = Some m \<and> executed m \<longrightarrow> (\<exists>m'. Message t i = Some m' \<and> executed m')) \<and>
     (\<forall>k. MessageSource s k \<noteq> None \<longrightarrow> MessageSource t k \<noteq> None) \<and>
     (\<forall>c. last_observed_nonce (load_channel_state s c) \<le> last_observed_nonce (load_channel_state t c) \<and>
          last_observed_height (load_channel_state s c) \<le> last_observed_height (load_channel_state t c))"

lemma bridge_grows_refl: "bridge_grows s s"
  by (auto simp: bridge_grows_def)

lemma bridge_grows_trans: "bridge_grows r s \<Longrightarrow> bridge_grows s t \<Longrightarrow> bridge_grows r t"
  unfolding bridge_grows_def by (meson order_trans)

lemma bridge_grows_same:
  assumes "Message t = Message s" "MessageSource t = MessageSource s"
    "\<And>c. last_observed_nonce (load_channel_state t c) = last_observed_nonce (load_channel_state s c)"
    "\<And>c. last_observed_height (load_channel_state t c) = last_observed_height (load_channel_state s c)"
  shows "bridge_grows s t"
  using assms by (simp add: bridge_grows_def)

lemma bridge_admin_grows:
  "bridge_init a s = (Ok u, t) \<Longrightarrow> bridge_grows s t"
  "set_bridge_acceptance_paused h c p s = (Ok u, t) \<Longrightarrow> bridge_grows s t"
  "set_bridge_security_config h c g s = (Ok u, t) \<Longrightarrow> bridge_grows s t"
  "close_channel_emergency h c ch r s = (Ok u, t) \<Longrightarrow> bridge_grows s t"
  "reopen_channel h c ch s = (Ok u, t) \<Longrightarrow> bridge_grows s t"
  "transfer_admin h c a s = (Ok u, t) \<Longrightarrow> bridge_grows s t"
  "register_bridge h c i f n s = (Ok u, t) \<Longrightarrow> bridge_grows s t"
  "set_bridge_fee h c i f s = (Ok u, t) \<Longrightarrow> bridge_grows s t"
  "set_bridge_active h c i act s = (Ok u, t) \<Longrightarrow> bridge_grows s t"
  "register_validator h c v n s = (Ok u, t) \<Longrightarrow> bridge_grows s t"
  "set_validator_active h c v act s = (Ok u, t) \<Longrightarrow> bridge_grows s t"
  "bridge_deposit h c i amount s = (Ok net, t) \<Longrightarrow> bridge_grows s t"
  "bridge_withdraw h c i rcp amount s = (Ok u, t) \<Longrightarrow> bridge_grows s t"
  by (rule bridge_grows_same;
      auto simp: ok_simps bridge_init_def set_bridge_acceptance_paused_def set_bridge_security_config_def
        close_channel_emergency_def reopen_channel_def transfer_admin_def register_bridge_def set_bridge_fee_def
        set_bridge_active_def register_validator_def set_validator_active_def bridge_deposit_def bridge_withdraw_def
        bridge_writes load_channel_state_def)+

lemma submit_grows:
  assumes "bridge_inv s" "can_count (next_id s)" "submit_cross_chain_message h q c inp s = (Ok i, t)"
  shows "bridge_grows s t"
  using assms(3)
proof (rule bridge_submit_Ok)
  fix m
  assume n: "last_observed_nonce (load_channel_state s (in_channel_id inp)) = 0 \<or>
       last_observed_nonce (load_channel_state s (in_channel_id inp)) < in_nonce inp"
    "last_observed_height (load_channel_state s (in_channel_id inp)) \<le> in_source_height inp"
    and i: "i = saturating_add_u64 (next_id s) 1"
    and t: "Message t = (Message s)(i \<mapsto> m)" "MessageSource t = (MessageSource s)(source_key_of inp \<mapsto> i)"
    "Channel t = (Channel s)(in_channel_id inp \<mapsto>
       (load_channel_state s (in_channel_id inp))\<lparr>last_observed_nonce := in_nonce inp, last_observed_height := in_source_height inp\<rparr>)"
  have "Message s i = None"
  proof (rule ccontr)
    assume "Message s i \<noteq> None"
    then have "i \<le> next_id s" using stored_message_ok [OF assms(1)] by (auto simp: message_ok_def)
    then show False using assms(2) by (simp add: i saturating_add_u64_def can_count_def)
  qed
  then show ?thesis using n by (auto simp: bridge_grows_def t load_channel_state_def)
qed

lemma attest_grows:
  assumes "bridge_inv s" "attest_cross_chain_message h v i ok s = (Ok u, t)"
  shows "bridge_grows s t"
proof -
  from assms(2) obtain m m' where m: "Message s i = Some m" "\<not> executed m" "Message t = (Message s)(message_id m \<mapsto> m')"
    and t: "MessageSource t = MessageSource s"
    by (rule bridge_attest_Ok)
  have ch: "last_observed_nonce (load_channel_state t c) = last_observed_nonce (load_channel_state s c)"
    "last_observed_height (load_channel_state t c) = last_observed_height (load_channel_state s c)" for c
    using assms(2) by (auto elim!: bridge_attest_Ok [of _ _ _ _ _ _ _ c])
  have "message_id m = i" using stored_message_ok [OF assms(1) m(1)] by (simp add: message_ok_def)
  then show ?thesis using m(1,2) by (auto simp: bridge_grows_def m(3) t ch)
qed

lemma execute_grows:
  assumes "bridge_inv s" "execute_verified_withdrawal h q c i s = (Ok u, t)"
  shows "bridge_grows s t"
  using assms(2)
  by (rule bridge_execute_Ok) (auto simp: bridge_grows_def bridge_writes load_channel_state_def)

lemma slash_grows:
  assumes "bridge_inv s" "slash_conflicting_messages h c i j s = (Ok vs, t)"
  shows "bridge_grows s t"
  using assms(2)
proof (rule bridge_slash_Ok)
  fix a b s'
  assume m: "Message s i = Some a" "Message s j = Some b"
    and loop: "slash_validators (slash_bps (load_security_config s)) i j (validator_list s) [] s = (Ok vs, s')"
    and t: "t = record_channel_anomaly (msg_channel_id a) ''conflicting_message_attestations''
       (save_message (b\<lparr>invalidated := True\<rparr>) (save_message (a\<lparr>invalidated := True\<rparr>) s'))"
  have "distinct (validator_list s)" using assms(1) by (simp add: bridge_inv_def validators_ok_def)
  with slash_validators_Ok [OF loop] have "same_messages s s'" by simp
  moreover have "message_id a = i" "message_id b = j"
    using stored_message_ok [OF assms(1)] m by (auto simp: message_ok_def)
  ultimately show ?thesis
    using m by (auto simp: bridge_grows_def t bridge_writes same_messages_def load_channel_state_def Let_def)
qed

lemmas bridge_ops_grow = bridge_admin_grows

lemma bridge_after_grows: "(\<And>a t. m s = (Ok a, t) \<Longrightarrow> bridge_grows s t) \<Longrightarrow> bridge_grows s (bridge_after m s)"
  unfolding bridge_after_def by (rule invoke_preserves) (simp_all add: bridge_grows_refl)

lemma bridge_step_grows:
  assumes "bridge_inv s" "bridge_allowed s l"
  shows "bridge_grows s (bridge_step l s)"
proof -
  obtain e c where l: "l = (e, c)" by fastforce
  show ?thesis
    using assms(2) unfolding bridge_step_def l
    by (cases c)
       (simp_all only: exec_bridge.simps fst_conv snd_conv bridge_allowed.simps,
        (rule bridge_after_grows, erule bridge_ops_grow submit_grows [OF assms(1)] attest_grows [OF assms(1)]
           execute_grows [OF assms(1)] slash_grows [OF assms(1)]; assumption?)+)
qed

lemma bridge_run_grows:
  "bridge_inv s \<Longrightarrow> allowed_run bridge_allowed bridge_step s ls \<Longrightarrow> bridge_grows s (run bridge_step s ls)"
proof (induction ls arbitrary: s)
  case Nil
  then show ?case by (simp add: bridge_grows_refl)
next
  case (Cons l ls)
  then have "bridge_inv (bridge_step l s)" "bridge_grows s (bridge_step l s)"
    by (auto intro: bridge_step_inv bridge_step_grows)
  with Cons show ?case by (auto intro: bridge_grows_trans)
qed

section \<open>Properties\<close>

text \<open>A sample: bridge b1 charges 1%, validators 2 and 3 have a stake of 1000, user 5 submits messages.\<close>

definition bridge_setup :: "bridge_label list" where
  "bridge_setup = map (\<lambda>c. ((sample_host 0, 10), c))
     [B_init 1, B_register 1 ''b1'' 100 10, B_register_validator 1 2 1000, B_register_validator 1 3 1000]"

definition sample_message :: "string \<Rightarrow> u64 \<Rightarrow> i128 \<Rightarrow> CrossChainMessageInput" where
  "sample_message tx n amount = \<lparr>in_bridge_id = ''b1'', in_channel_id = ''c'', in_source_chain = ''eth'', in_source_tx_id = tx,
     in_source_height = 5, in_nonce = n, in_recipient = 7, in_amount = amount, in_payload_version = 1\<rparr>"

definition attested_setup :: "bridge_label list" where
  "attested_setup = bridge_setup @ map (\<lambda>c. ((sample_host 0, 10), c))
     [B_submit 5 (sample_message ''t1'' 1 50), B_attest 2 1 True, B_attest 3 1 True]"

lemmas bridge_eval = bridge_after_def invoke_def run_simps no_bridges_def bridge_step_def sample_host_def
  sample_message_def checked_defs i128_defs u64_max_def u32_max_def Let_def sdiv_nonneg_eq bridge_setup_def attested_setup_def
  can_count_def
  bridge_publish_def saturating_add_u64_def saturating_add_u32_def default_security_config_def default_stats_def
  default_channel_state_def load_admin_def bridge_require_admin_def load_security_config_def load_stats_def with_stats_def
  validate_id_def load_bridge_def save_bridge_def bridge_list_def validator_list_def load_validator_def save_validator_def
  load_channel_state_def save_channel_state_def next_id_def next_message_id_def load_message_def save_message_def compute_fee_def
  bridge_init_def register_bridge_def is_bridge_acceptance_paused_def register_validator_def bridge_deposit_def source_key_of_def
  submit_cross_chain_message_def attest_cross_chain_message_def execute_verified_withdrawal_def MAX_BRIDGE_FEE_BPS_def
  MAX_ID_LEN_def DEFAULT_MIN_VALIDATOR_SIGNATURES_def DEFAULT_MIN_FINALITY_LEDGERS_def DEFAULT_OPTIMISTIC_DELAY_LEDGERS_def
  DEFAULT_SLASH_BPS_def DEFAULT_SUPPORTED_MESSAGE_VERSION_def DEFAULT_ANOMALY_CLOSE_THRESHOLD_def

lemma attested_setup_allowed: "allowed_run bridge_allowed bridge_step no_bridges attested_setup"
  by (simp add: bridge_eval)

lemma attested_setup_executes:
  assumes "s = run bridge_step no_bridges attested_setup"
  shows "fst (execute_verified_withdrawal (sample_host 0) 13 6 1 s) = Ok ()"
proof -
  have "map_option (\<lambda>m. (executed m, invalidated m, msg_approvals m, finality_ledger m, rejections m, msg_channel_id m,
          msg_bridge_id m, msg_amount m)) (Message s 1) = Some (False, False, 2, 13, 0, ''c'', ''b1'', 50)"
    and "map_option (\<lambda>b. (min_amount b, total_withdrawn b)) (BridgeKey s ''b1'') = Some (10, 0)"
    and "min_validator_signatures (load_security_config s) = 2" "emergency_closed (load_channel_state s ''c'') = False"
    and "signed (sample_host 0) 6 = True"
    unfolding assms by (simp_all add: bridge_eval)
  note facts = this
  from facts(1) obtain m where "Message s 1 = Some m" "\<not> executed m" "\<not> invalidated m" "msg_approvals m = 2"
    "finality_ledger m = 13" "rejections m = 0" "msg_channel_id m = ''c''" "msg_bridge_id m = ''b1''" "msg_amount m = 50"
    by auto
  moreover from facts(2) obtain b where "BridgeKey s ''b1'' = Some b" "min_amount b = 10" "total_withdrawn b = 0"
    by auto
  moreover have "in_i128 50" by (simp add: i128_defs)
  ultimately show ?thesis
    using facts(3-5) by (simp add: execute_verified_withdrawal_def load_message_def load_bridge_def run_simps require_auth_def
        checked_add_def to_i128_def)
qed

text \<open>C16: Bridge money moves on a quorum only: whenever a withdrawal executes in a reachable storage, at least the
  configured number, and at least one, of distinct registered validators approved the message, none
  rejected it, it is final, neither executed nor invalidated, and its channel is open; exactly its amount
  is added to the withdrawals of its bridge and no other bridge changes.\<close>

theorem withdrawals_need_quorum:
  assumes "allowed_run bridge_allowed bridge_step no_bridges ls" and "s = run bridge_step no_bridges ls"
    and "execute_verified_withdrawal h q c i s = (Ok u, t)"
  shows "\<exists>m b. Message s i = Some m \<and> \<not> executed m \<and> \<not> invalidated m \<and> finality_ledger m \<le> q \<and>
     \<not> emergency_closed (load_channel_state s (msg_channel_id m)) \<and>
     0 < min_validator_signatures (load_security_config s) \<and>
     min_validator_signatures (load_security_config s) \<le> card {v. MessageAttestation s (i, v) = Some True} \<and>
     {v. MessageAttestation s (i, v) = Some True} \<subseteq> dom (ValidatorKey s) \<and>
     (\<forall>v. MessageAttestation s (i, v) \<noteq> Some False) \<and>
     BridgeKey s (msg_bridge_id m) = Some b \<and> 0 < msg_amount m \<and>
     BridgeKey t = (BridgeKey s)(msg_bridge_id m \<mapsto> b\<lparr>total_withdrawn := total_withdrawn b + msg_amount m\<rparr>)"
proof -
  have inv: "bridge_inv s" unfolding assms(2) by (rule bridge_machine.inv_run [OF assms(1)])
  from assms(3) obtain m b where m: "Message s i = Some m" "\<not> executed m" "\<not> invalidated m"
    "min_validator_signatures (load_security_config s) \<le> msg_approvals m" "finality_ledger m \<le> q" "rejections m = 0"
    "\<not> emergency_closed (load_channel_state s (msg_channel_id m))" "BridgeKey s (msg_bridge_id m) = Some b"
    and t: "t = bridge_publish (BridgeWithdrawalEvent (msg_bridge_id m) (msg_amount m))
       (with_stats (\<lambda>st. st\<lparr>executed_messages := saturating_add_u64 (executed_messages st) 1\<rparr>)
         (save_message (m\<lparr>executed := True\<rparr>)
           (save_bridge (msg_bridge_id m) (b\<lparr>total_withdrawn := total_withdrawn b + msg_amount m\<rparr>) s)))"
    by (rule bridge_execute_Ok)
  have "0 < min_validator_signatures (load_security_config s)"
    using load_security_config_valid [OF inv] by (auto simp: validate_security_config_def split: if_splits)
  moreover have "{v. MessageAttestation s (i, v) = Some True} \<subseteq> dom (ValidatorKey s)"
    using inv unfolding bridge_inv_def messages_ok_def by blast
  moreover have "BridgeKey t = (BridgeKey s)(msg_bridge_id m \<mapsto> b\<lparr>total_withdrawn := total_withdrawn b + msg_amount m\<rparr>)"
    by (simp add: t bridge_writes)
  ultimately show ?thesis
    using stored_message_ok [OF inv m(1)] m by (auto simp: message_ok_def approving_def)
qed

theorem withdrawals_need_quorum_witness:
  "2 \<le> card {v. MessageAttestation (run bridge_step no_bridges attested_setup) (1, v) = Some True}"
proof -
  let ?s = "run bridge_step no_bridges attested_setup"
  have r: "min_validator_signatures (load_security_config ?s) = 2" by (simp add: bridge_eval)
  from withdrawals_need_quorum [OF attested_setup_allowed refl run_pair [OF attested_setup_executes [OF refl]]]
  show ?thesis unfolding r by blast
qed

text \<open>C17: A withdrawal executes once: after a message was executed, no later call of any run executes it again,
  whatever happens in between and whoever asks.\<close>

theorem withdrawal_executes_once:
  assumes "allowed_run bridge_allowed bridge_step no_bridges ls" and "s = run bridge_step no_bridges ls"
    and "execute_verified_withdrawal h q c i s = (Ok u, t)" and "allowed_run bridge_allowed bridge_step t ls'"
  shows "fst (execute_verified_withdrawal h' q' c' i (run bridge_step t ls')) \<noteq> Ok ()"
proof -
  have inv: "bridge_inv s" unfolding assms(2) by (rule bridge_machine.inv_run [OF assms(1)])
  then have "bridge_inv t" using assms(3) by (rule bridge_execute_inv)
  then have grows: "bridge_grows t (run bridge_step t ls')" using assms(4) by (rule bridge_run_grows)
  from assms(3) obtain m b where "Message s i = Some m"
    and t: "t = bridge_publish (BridgeWithdrawalEvent (msg_bridge_id m) (msg_amount m))
       (with_stats (\<lambda>st. st\<lparr>executed_messages := saturating_add_u64 (executed_messages st) 1\<rparr>)
         (save_message (m\<lparr>executed := True\<rparr>)
           (save_bridge (msg_bridge_id m) (b\<lparr>total_withdrawn := total_withdrawn b + msg_amount m\<rparr>) s)))"
    by (rule bridge_execute_Ok)
  then have "Message t i = Some (m\<lparr>executed := True\<rparr>)"
    using stored_message_ok [OF inv] by (simp add: bridge_writes message_ok_def)
  then have "\<exists>m'. Message t i = Some m' \<and> executed m'" by simp
  with grows obtain m' where m': "Message (run bridge_step t ls') i = Some m'" "executed m'"
    unfolding bridge_grows_def by blast
  show ?thesis
  proof
    assume "fst (execute_verified_withdrawal h' q' c' i (run bridge_step t ls')) = Ok ()"
    from run_pair [OF this] show False
      by (rule bridge_execute_Ok) (use m' in simp)
  qed
qed

theorem withdrawal_executes_once_witness:
  "let t = snd (execute_verified_withdrawal (sample_host 0) 13 6 1 (run bridge_step no_bridges attested_setup))
   in fst (execute_verified_withdrawal (sample_host 9) 20 5 1 (run bridge_step t [((sample_host 0, 14), B_transfer_admin 1 5)])) \<noteq> Ok ()"
proof -
  let ?t = "snd (execute_verified_withdrawal (sample_host 0) 13 6 1 (run bridge_step no_bridges attested_setup))"
  have "allowed_run bridge_allowed bridge_step ?t [((sample_host 0, 14), B_transfer_admin 1 5)]" by simp
  from withdrawal_executes_once [OF attested_setup_allowed refl run_pair [OF attested_setup_executes [OF refl]] this]
  show ?thesis unfolding Let_def .
qed

text \<open>Messages are not replayed and arrive in order: once a message was accepted, the same source
  transaction is refused for ever, its channel accepts no lower source height, and, if its nonce is not
  zero, no nonce up to it.\<close>

theorem accepted_messages_are_not_replayed:
  assumes "bridge_inv s" and "can_count (next_id s)" and "submit_cross_chain_message h q c inp s = (Ok i, t)"
    and "allowed_run bridge_allowed bridge_step t ls"
    and "source_key_of inp' = source_key_of inp \<or> in_channel_id inp' = in_channel_id inp \<and>
           (0 < in_nonce inp \<and> in_nonce inp' \<le> in_nonce inp \<or> in_source_height inp' < in_source_height inp)"
  shows "fst (submit_cross_chain_message h' q' c' inp' (run bridge_step t ls)) \<noteq> Ok j"
proof
  let ?r = "run bridge_step t ls"
  assume "fst (submit_cross_chain_message h' q' c' inp' ?r) = Ok j"
  from run_pair [OF this] obtain new: "MessageSource ?r (source_key_of inp') = None"
    "last_observed_nonce (load_channel_state ?r (in_channel_id inp')) = 0 \<or>
       last_observed_nonce (load_channel_state ?r (in_channel_id inp')) < in_nonce inp'"
    "last_observed_height (load_channel_state ?r (in_channel_id inp')) \<le> in_source_height inp'"
    by (rule bridge_submit_Ok)
  from assms(3) obtain ch: "MessageSource t = (MessageSource s)(source_key_of inp \<mapsto> i)"
    "Channel t = (Channel s)(in_channel_id inp \<mapsto>
       (load_channel_state s (in_channel_id inp))\<lparr>last_observed_nonce := in_nonce inp, last_observed_height := in_source_height inp\<rparr>)"
    by (rule bridge_submit_Ok)
  have old: "MessageSource t (source_key_of inp) \<noteq> None"
    "last_observed_nonce (load_channel_state t (in_channel_id inp)) = in_nonce inp"
    "last_observed_height (load_channel_state t (in_channel_id inp)) = in_source_height inp"
    by (simp_all add: ch load_channel_state_def)
  have "bridge_inv t" using assms(1,3,2) by (rule submit_inv)
  then have "bridge_grows t ?r" using assms(4) by (rule bridge_run_grows)
  then have kept: "MessageSource ?r (source_key_of inp) \<noteq> None"
    "in_nonce inp \<le> last_observed_nonce (load_channel_state ?r (in_channel_id inp))"
    "in_source_height inp \<le> last_observed_height (load_channel_state ?r (in_channel_id inp))"
    unfolding bridge_grows_def using old by metis+
  from assms(5) new kept show False by auto
qed

text \<open>Deposits: whatever the storage reached, a deposit is accepted from its signer only, while the bridge
  is active and acceptance is not paused; the fee is at most a tenth, the depositor is credited the rest,
  and the bridge records the whole amount.\<close>

theorem bridge_deposit_fee_bounds:
  assumes "allowed_run bridge_allowed bridge_step no_bridges ls" and "s = run bridge_step no_bridges ls"
    and "bridge_deposit h sender i amount s = (Ok net, t)"
  shows "signed h sender \<and> \<not> is_bridge_acceptance_paused s \<and> 0 < net \<and> net \<le> amount \<and> 9 * amount \<le> 10 * net \<and>
    (\<exists>b. BridgeKey s i = Some b \<and> bridge_active b \<and> min_amount b \<le> amount \<and>
       net = amount - amount * int (fee_bps b) div 10000 \<and>
       BridgeKey t = (BridgeKey s)(i \<mapsto> b\<lparr>total_deposited := total_deposited b + amount\<rparr>))"
proof -
  have inv: "bridge_inv s" unfolding assms(2) by (rule bridge_machine.inv_run [OF assms(1)])
  from assms(3) obtain b f where b: "signed h sender" "\<not> is_bridge_acceptance_paused s" "0 < amount" "BridgeKey s i = Some b"
    "bridge_active b" "min_amount b \<le> amount" "in_i128 (total_deposited b + amount)" "net = amount - f"
    "f = unwrap_or (to_i128 (amount * int (fee_bps b) sdiv 10000)) 0"
    "BridgeKey t = (BridgeKey s)(i \<mapsto> b\<lparr>total_deposited := total_deposited b + amount\<rparr>)"
    by (auto simp: bridge_deposit_def ok_simps bridge_writes not_less not_le)
  have ok: "fee_bps b \<le> 1000" "0 \<le> total_deposited b" using stored_bridge_ok [OF inv b(4)] by auto
  let ?f = "amount * int (fee_bps b) div 10000"
  have "amount * int (fee_bps b) \<le> amount * 1000" using ok(1) b(3) by (intro mult_left_mono) auto
  then have "10 * ?f \<le> amount" by linarith
  moreover have "0 \<le> ?f" using b(3) by (intro pos_imp_zdiv_nonneg_iff [THEN iffD2]) auto
  moreover have "in_i128 amount" by (rule in_i128_between [OF _ _ b(7)]) (use b(3) ok(2) in auto)
  ultimately have "in_i128 ?f" by (intro in_i128_between [of ?f amount]) auto
  then have "f = ?f" using b(3) by (simp add: b(9) sdiv_nonneg_eq to_i128_def)
  with b \<open>10 * ?f \<le> amount\<close> \<open>0 \<le> ?f\<close> show ?thesis by auto
qed

theorem bridge_deposit_fee_bounds_witness:
  "9 * (1000::int) \<le> 10 * 990"
proof -
  let ?x = "bridge_deposit (sample_host 0) 5 ''b1'' 1000 (run bridge_step no_bridges bridge_setup)"
  have "fst ?x = Ok 990" by (simp add: bridge_eval i256_defs)
  then have x: "?x = (Ok 990, snd ?x)" by (rule run_pair)
  have "allowed_run bridge_allowed bridge_step no_bridges bridge_setup" by (simp add: bridge_eval)
  from bridge_deposit_fee_bounds [OF this refl x] show ?thesis by blast
qed

text \<open>Slashing hits exactly the validators that approved both of two conflicting messages: each loses at
  least one unit of a positive stake and never more than it has, what it lost is added to its slashed total,
  a validator left without stake is deactivated, everyone else is untouched, and both messages are
  invalidated.\<close>

theorem slashing_hits_double_signers:
  assumes "allowed_run bridge_allowed bridge_step no_bridges ls" and "s = run bridge_step no_bridges ls"
    and "slash_conflicting_messages h c i j s = (Ok vs, t)"
  shows "vs \<noteq> [] \<and> distinct vs \<and>
    set vs = {v. MessageAttestation s (i, v) = Some True \<and> MessageAttestation s (j, v) = Some True} \<and>
    (\<forall>v\<in>set vs. \<exists>r r'. ValidatorKey s v = Some r \<and> ValidatorKey t v = Some r' \<and>
       0 \<le> stake r' \<and> (0 < stake r \<longrightarrow> stake r' < stake r) \<and>
       stake r' + slashed_total r' = stake r + slashed_total r \<and>
       (validator_active r' \<longrightarrow> 0 < stake r')) \<and>
    (\<forall>v. v \<notin> set vs \<longrightarrow> ValidatorKey t v = ValidatorKey s v) \<and>
    map_option invalidated (Message t i) = Some True \<and> map_option invalidated (Message t j) = Some True"
proof -
  have inv: "bridge_inv s" unfolding assms(2) by (rule bridge_machine.inv_run [OF assms(1)])
  let ?bps = "slash_bps (load_security_config s)"
  have bps: "?bps \<le> 10000" by (rule slash_bps_range [OF inv])
  from assms(3) obtain a b s' where m: "Message s i = Some a" "Message s j = Some b" "\<not> message_payload_matches a b" "vs \<noteq> []"
    and loop: "slash_validators ?bps i j (validator_list s) [] s = (Ok vs, s')"
    and t: "t = record_channel_anomaly (msg_channel_id a) ''conflicting_message_attestations''
       (save_message (b\<lparr>invalidated := True\<rparr>) (save_message (a\<lparr>invalidated := True\<rparr>) s'))"
    by (rule bridge_slash_Ok)
  have dist: "distinct (validator_list s)" using inv by (simp add: bridge_inv_def validators_ok_def)
  note l = slash_validators_Ok [OF loop dist]
  have reg: "v \<in> set (validator_list s)" if "double_signed s i j v" for v
    using inv that unfolding bridge_inv_def validators_ok_def messages_ok_def double_signed_def by (metis domIff option.discI)
  have vs: "vs = filter (double_signed s i j) (validator_list s)" using l by simp
  then have set: "set vs = {v. double_signed s i j v}" using reg by auto
  have T: "ValidatorKey t v = (if v \<in> set vs then map_option (slashed_record ?bps) (ValidatorKey s v) else ValidatorKey s v)" for v
    using l reg set by (auto simp: t bridge_writes Let_def)
  have each: "\<exists>r r'. ValidatorKey s v = Some r \<and> ValidatorKey t v = Some r' \<and> 0 \<le> stake r' \<and> (0 < stake r \<longrightarrow> stake r' < stake r) \<and>
       stake r' + slashed_total r' = stake r + slashed_total r \<and> (validator_active r' \<longrightarrow> 0 < stake r')" if "v \<in> set vs" for v
  proof -
    have "ValidatorKey s v \<noteq> None" using l that set reg by auto
    then obtain r where r: "ValidatorKey s v = Some r" by blast
    have ok: "stake_ok r" using inv r by (rule stored_stake_ok)
    have st: "0 \<le> stake r" "in_i128 (stake r)"
      using ok in_i128_between [of "stake r" "stake r + slashed_total r"] by (auto simp: stake_ok_def)
    have "ValidatorKey t v = Some (slashed_record ?bps r)" using that by (simp add: T r)
    then show ?thesis
      using r slashed_record_ok [OF ok bps] slash_amount_bounds [OF st bps] by (auto simp: stake_ok_def)
  qed
  have "message_id a = i" "message_id b = j" using stored_message_ok [OF inv] m by (auto simp: message_ok_def)
  then have "map_option invalidated (Message t i) = Some True \<and> map_option invalidated (Message t j) = Some True"
    using m by (auto simp: t bridge_writes Let_def)
  then show ?thesis
    using m(4) vs set each T dist by (auto simp: double_signed_def)
qed

text \<open>The sample for slashing: validator 2 approves two messages that carry the same source transaction.\<close>

definition conflict_setup :: "bridge_label list" where
  "conflict_setup = bridge_setup @ map (\<lambda>c. ((sample_host 0, 10), c))
     [B_submit 5 (sample_message ''t1'' 1 50), B_submit 5 (sample_message ''t1'' 2 60), B_attest 2 1 True, B_attest 2 2 True]"

lemma slash_validators_total:
  "\<forall>v\<in>set vs. double_signed s i j v \<longrightarrow> ValidatorKey s v \<noteq> None \<Longrightarrow>
     \<exists>t. slash_validators bps i j vs acc s = (Ok (acc @ filter (double_signed s i j) vs), t)"
proof (induction vs arbitrary: acc s)
  case (Cons v vs)
  show ?case
  proof (cases "double_signed s i j v")
    case False
    with Cons.IH [of s acc] Cons.prems show ?thesis by (auto simp: double_signed_def)
  next
    case True
    with Cons.prems obtain r where r: "ValidatorKey s v = Some r" by auto
    let ?s = "bridge_publish (ValidatorSlashedEvent v (slash_amount (stake r) bps) (stake (slashed_record bps r)))
      (with_stats (\<lambda>st. st\<lparr>slashes := saturating_add_u64 (slashes st) 1\<rparr>) (save_validator v (slashed_record bps r) s))"
    have "slash_validators bps i j (v # vs) acc s = slash_validators bps i j vs (acc @ [v]) ?s"
      using True r by (simp add: double_signed_def run_simps load_validator_def Let_def slashed_record_def)
    moreover have same: "double_signed ?s i j = double_signed s i j"
      by (simp add: double_signed_def fun_eq_iff bridge_writes)
    moreover have "\<forall>w\<in>set vs. double_signed ?s i j w \<longrightarrow> ValidatorKey ?s w \<noteq> None"
      using Cons.prems unfolding same by (auto simp: bridge_writes)
    ultimately show ?thesis using Cons.IH [of ?s "acc @ [v]"] True by simp
  qed
qed simp

text \<open>Slashing a conflicting pair of messages returns the validators that approved both.\<close>

lemma slash_succeeds:
  assumes "bridge_inv s" "signed h c" "Message s i = Some a" "Message s j = Some b" "same_source a b"
    "\<not> message_payload_matches a b" "\<exists>v. double_signed s i j v"
  shows "fst (slash_conflicting_messages h c i j s) = Ok (filter (double_signed s i j) (validator_list s))"
proof -
  have reg: "ValidatorKey s v \<noteq> None" if "double_signed s i j v" for v
    using assms(1) that unfolding bridge_inv_def messages_ok_def double_signed_def by (metis option.discI)
  then obtain t where t: "slash_validators (slash_bps (load_security_config s)) i j (validator_list s) [] s
      = (Ok (filter (double_signed s i j) (validator_list s)), t)"
    using slash_validators_total [of "validator_list s" s i j "slash_bps (load_security_config s)" "[]"] by auto
  from assms(7) reg have "filter (double_signed s i j) (validator_list s) \<noteq> []"
    using assms(1) by (auto simp: bridge_inv_def validators_ok_def filter_empty_conv)
  with t show ?thesis
    using assms(2-6) by (simp add: slash_conflicting_messages_def run_simps require_auth_def load_message_def)
qed

lemma conflict_setup_allowed: "allowed_run bridge_allowed bridge_step no_bridges conflict_setup"
  by (simp add: bridge_eval conflict_setup_def same_source_def message_payload_matches_def double_signed_def)

lemma conflict_setup_slashes:
  "fst (slash_conflicting_messages (sample_host 0) 6 1 2 (run bridge_step no_bridges conflict_setup)) = Ok [2]"
proof -
  let ?s = "run bridge_step no_bridges conflict_setup"
  have "bridge_inv ?s" by (rule bridge_machine.inv_run [OF conflict_setup_allowed])
  moreover obtain a b where "Message ?s 1 = Some a" "Message ?s 2 = Some b" "same_source a b" "\<not> message_payload_matches a b"
  proof -
    have "(case (Message ?s 1, Message ?s 2) of (Some a, Some b) \<Rightarrow> same_source a b \<and> \<not> message_payload_matches a b | _ \<Rightarrow> False)"
      by (simp add: bridge_eval conflict_setup_def same_source_def message_payload_matches_def double_signed_def)
    then show thesis by (auto split: option.splits intro: that)
  qed
  moreover have "filter (double_signed ?s 1 2) (validator_list ?s) = [2]" "double_signed ?s 1 2 2" "signed (sample_host 0) 6"
    by (simp_all add: bridge_eval conflict_setup_def same_source_def message_payload_matches_def double_signed_def)
  ultimately show ?thesis using slash_succeeds [of ?s "sample_host 0" 6 1 _ 2] by metis
qed

theorem slashing_hits_double_signers_witness:
  "\<exists>t. slash_conflicting_messages (sample_host 0) 6 1 2 (run bridge_step no_bridges conflict_setup) = (Ok [2], t)
     \<and> map_option invalidated (Message t 1) = Some True"
  using run_pair [OF conflict_setup_slashes]
    slashing_hits_double_signers [OF conflict_setup_allowed refl run_pair [OF conflict_setup_slashes]] by blast

text \<open>A conflict can be slashed again and again: after a pair of messages was slashed, anyone may at once
  slash the same pair once more, and the same validators lose stake a second time.\<close>

theorem slashing_can_be_repeated:
  assumes "bridge_inv s" and "slash_conflicting_messages h c i j s = (Ok vs, t)" and "signed h' c'"
  shows "fst (slash_conflicting_messages h' c' i j t) = Ok vs"
proof -
  have t: "bridge_inv t" using assms(1,2) by (rule slash_inv)
  from assms(2) obtain a b s' where m: "Message s i = Some a" "Message s j = Some b" "same_source a b"
      "\<not> message_payload_matches a b" "vs \<noteq> []"
    and loop: "slash_validators (slash_bps (load_security_config s)) i j (validator_list s) [] s = (Ok vs, s')"
    and T: "t = record_channel_anomaly (msg_channel_id a) ''conflicting_message_attestations''
       (save_message (b\<lparr>invalidated := True\<rparr>) (save_message (a\<lparr>invalidated := True\<rparr>) s'))"
    by (rule bridge_slash_Ok)
  have "distinct (validator_list s)" using assms(1) by (simp add: bridge_inv_def validators_ok_def)
  with slash_validators_Ok [OF loop] have l: "same_messages s s'" "vs = filter (double_signed s i j) (validator_list s)" by simp_all
  have ids: "message_id a = i" "message_id b = j" using stored_message_ok [OF assms(1)] m by (auto simp: message_ok_def)
  have "i \<noteq> j" using m by (auto simp: message_payload_matches_def)
  then have "Message t i = Some (a\<lparr>invalidated := True\<rparr>)" "Message t j = Some (b\<lparr>invalidated := True\<rparr>)"
    using ids by (auto simp: T bridge_writes Let_def)
  moreover have "same_source (a\<lparr>invalidated := True\<rparr>) (b\<lparr>invalidated := True\<rparr>)"
      "\<not> message_payload_matches (a\<lparr>invalidated := True\<rparr>) (b\<lparr>invalidated := True\<rparr>)"
    using m by (auto simp: same_source_def message_payload_matches_def)
  moreover have ds: "double_signed t i j = double_signed s i j" and vl: "validator_list t = validator_list s"
    using l(1) by (auto simp: double_signed_def fun_eq_iff T bridge_writes Let_def same_messages_def validator_list_def)
  moreover have "\<exists>v. double_signed s i j v" using l(2) m(5) by (auto simp: filter_empty_conv)
  ultimately show ?thesis using slash_succeeds [OF t assms(3)] l(2) by metis
qed

theorem slashing_can_be_repeated_witness:
  "let s = run bridge_step no_bridges conflict_setup in
   fst (slash_conflicting_messages (sample_host 0) 4 1 2 (snd (slash_conflicting_messages (sample_host 0) 6 1 2 s))) = Ok [2]"
proof -
  have inv: "bridge_inv (run bridge_step no_bridges conflict_setup)"
    by (rule bridge_machine.inv_run [OF conflict_setup_allowed])
  have "signed (sample_host 0) 4" by (simp add: sample_host_def)
  with slashing_can_be_repeated [OF inv run_pair [OF conflict_setup_slashes], of "sample_host 0" 4]
  show ?thesis unfolding Let_def by blast
qed

section \<open>Refusals leave no trace\<close>

text \<open>The two counters of refused calls.\<close>

definition refusals :: "bridge_state \<Rightarrow> u64 \<times> u64" where
  "refusals s = (replay_rejections (load_stats s), rejected_messages (load_stats s))"

lemma bridge_admin_refusals:
  "bridge_init a s = (Ok u, t) \<Longrightarrow> refusals t = (0, 0)"
  "set_bridge_acceptance_paused h c p s = (Ok u, t) \<Longrightarrow> refusals t = refusals s"
  "set_bridge_security_config h c g s = (Ok u, t) \<Longrightarrow> refusals t = refusals s"
  "close_channel_emergency h c ch r s = (Ok u, t) \<Longrightarrow> refusals t = refusals s"
  "reopen_channel h c ch s = (Ok u, t) \<Longrightarrow> refusals t = refusals s"
  "transfer_admin h c a s = (Ok u, t) \<Longrightarrow> refusals t = refusals s"
  "register_bridge h c i f n s = (Ok u, t) \<Longrightarrow> refusals t = refusals s"
  "set_bridge_fee h c i f s = (Ok u, t) \<Longrightarrow> refusals t = refusals s"
  "set_bridge_active h c i act s = (Ok u, t) \<Longrightarrow> refusals t = refusals s"
  "register_validator h c v n s = (Ok u, t) \<Longrightarrow> refusals t = refusals s"
  "set_validator_active h c v act s = (Ok u, t) \<Longrightarrow> refusals t = refusals s"
  "bridge_deposit h c i amount s = (Ok net, t) \<Longrightarrow> refusals t = refusals s"
  "bridge_withdraw h c i rcp amount s = (Ok u, t) \<Longrightarrow> refusals t = refusals s"
  by (auto simp: ok_simps bridge_init_def set_bridge_acceptance_paused_def set_bridge_security_config_def
        close_channel_emergency_def reopen_channel_def transfer_admin_def register_bridge_def set_bridge_fee_def
        set_bridge_active_def register_validator_def set_validator_active_def bridge_deposit_def bridge_withdraw_def
        bridge_writes refusals_def load_stats_def default_stats_def)

lemma record_anomaly_refusals: "refusals (record_channel_anomaly c why s) = refusals s"
  by (simp add: bridge_writes refusals_def load_stats_def Let_def)

lemma slash_validators_refusals: "slash_validators bps i j vs acc s = (Ok out, t) \<Longrightarrow> refusals t = refusals s"
  by (induction vs arbitrary: acc s)
     (auto simp: ok_simps Let_def bridge_writes refusals_def load_stats_def split: if_splits)

lemma bridge_message_refusals:
  "submit_cross_chain_message h q c inp s = (Ok k, t) \<Longrightarrow> refusals t = refusals s"
  "attest_cross_chain_message h v i ok s = (Ok u, t) \<Longrightarrow> refusals t = refusals s"
  "execute_verified_withdrawal h q c i s = (Ok u, t) \<Longrightarrow> refusals t = refusals s"
  "slash_conflicting_messages h c i j s = (Ok vs, t) \<Longrightarrow> refusals t = refusals s"
     apply (auto simp: submit_cross_chain_message_def next_message_id_def ok_simps Let_def bridge_writes refusals_def load_stats_def)[1]
    apply (cases ok; auto simp: attest_cross_chain_message_def ok_simps Let_def bridge_writes refusals_def load_stats_def)
   apply (auto simp: refusals_def bridge_writes load_stats_def elim!: bridge_execute_Ok)[1]
  apply (erule bridge_slash_Ok, drule slash_validators_refusals)
  apply (auto simp: record_anomaly_refusals, auto simp: refusals_def bridge_writes load_stats_def)
  done

lemma bridge_step_refusals: "refusals s = (0, 0) \<Longrightarrow> refusals (bridge_step l s) = (0, 0)"
proof -
  assume s: "refusals s = (0, 0)"
  have after: "refusals (bridge_after m s) = (0, 0)" if "\<And>a t. m s = (Ok a, t) \<Longrightarrow> refusals t = (0, 0)" for m :: "'a bridge_fn"
    unfolding bridge_after_def using s that by (rule invoke_preserves)
  show ?thesis
    unfolding bridge_step_def
    by (cases "snd l")
       (simp_all only: exec_bridge.simps, (rule after, (erule bridge_admin_refusals(1) |
          ((drule bridge_admin_refusals(2-) | drule bridge_message_refusals), simp only: s)))+)
qed

interpretation refusal_machine: invariant_machine bridge_step no_bridges "\<lambda>_ _. True" "\<lambda>s. refusals s = (0, 0)"
  by unfold_locales (simp add: no_bridges_def refusals_def load_stats_def default_stats_def, rule bridge_step_refusals)

lemma submit_keeps_channels:
  "submit_cross_chain_message h q a inp s = (Ok i, t) \<Longrightarrow>
     anomaly_count (load_channel_state t c) = anomaly_count (load_channel_state s c) \<and>
     emergency_closed (load_channel_state t c) = emergency_closed (load_channel_state s c)"
  by (erule bridge_submit_Ok) (simp add: load_channel_state_def)

text \<open>Refusals leave no trace: the counters of replayed and of rejected messages are zero in every storage
  any run reaches, and a submission, replayed, out of order or accepted, changes no channel's anomaly count
  and closes no channel, because a refused call is rolled back together with what it recorded.\<close>

theorem refused_messages_are_not_counted:
  "refusals (run bridge_step no_bridges ls) = (0, 0) \<and>
   anomaly_count (load_channel_state (bridge_step (e, B_submit a inp) s) c) = anomaly_count (load_channel_state s c) \<and>
   emergency_closed (load_channel_state (bridge_step (e, B_submit a inp) s) c) = emergency_closed (load_channel_state s c)"
proof -
  let ?t = "bridge_step (e, B_submit a inp) s"
  have "anomaly_count (load_channel_state ?t c) = anomaly_count (load_channel_state s c) \<and>
        emergency_closed (load_channel_state ?t c) = emergency_closed (load_channel_state s c)"
    unfolding bridge_step_def snd_conv exec_bridge.simps bridge_after_def
    by (rule invoke_preserves) (simp_all add: submit_keeps_channels)
  with refusal_machine.inv_run [OF allowed_run_always, of ls] show ?thesis by blast
qed

section \<open>A sample for the order of messages\<close>

theorem accepted_messages_are_not_replayed_witness:
  "let s = run bridge_step no_bridges bridge_setup;
       t = snd (submit_cross_chain_message (sample_host 0) 10 5 (sample_message ''t1'' 1 50) s)
   in fst (submit_cross_chain_message (sample_host 0) 11 6 (sample_message ''t2'' 1 70)
        (run bridge_step t [((sample_host 0, 10), B_transfer_admin 1 5)])) \<noteq> Ok 2"
proof -
  let ?s = "run bridge_step no_bridges bridge_setup"
  let ?x = "submit_cross_chain_message (sample_host 0) 10 5 (sample_message ''t1'' 1 50) ?s"
  have "allowed_run bridge_allowed bridge_step no_bridges bridge_setup" by (simp add: bridge_eval)
  then have inv: "bridge_inv ?s" by (rule bridge_machine.inv_run)
  have count: "can_count (next_id ?s)" by (simp add: bridge_eval)
  have "fst ?x = Ok 1" by (simp add: bridge_eval)
  then have x: "?x = (Ok 1, snd ?x)" by (rule run_pair)
  have runs: "allowed_run bridge_allowed bridge_step (snd ?x) [((sample_host 0, 10), B_transfer_admin 1 5)]" by simp
  have "in_channel_id (sample_message ''t2'' 1 70) = in_channel_id (sample_message ''t1'' 1 50) \<and>
     0 < in_nonce (sample_message ''t1'' 1 50) \<and> in_nonce (sample_message ''t2'' 1 70) \<le> in_nonce (sample_message ''t1'' 1 50)"
    by (simp add: sample_message_def)
  with accepted_messages_are_not_replayed [OF inv count x runs] show ?thesis unfolding Let_def by blast
qed

end
