(* ===== verification/Pause.thy ===== *)
theory Pause
  imports Lending_State
begin

text \<open>
  Pause flags and the emergency lifecycle: src/stellar-lend/contracts/lending/src/pause.rs.
\<close>

definition set_pause :: "address \<Rightarrow> PauseType \<Rightarrow> bool \<Rightarrow> lending_state \<Rightarrow> lending_state" where
  "set_pause admin pause_type paused s =
     publish (PauseModuleEvent (PauseEvent pause_type paused admin))
       (s\<lparr>State := (State s)(pause_type := Some paused)\<rparr>)"

definition is_paused :: "lending_state \<Rightarrow> PauseType \<Rightarrow> bool" where
  "is_paused s pause_type =
     (if unwrap_or (State s All_Ops) False then True
      else if pause_type \<noteq> All_Ops then unwrap_or (State s pause_type) False
      else False)"

definition set_guardian :: "address \<Rightarrow> address \<Rightarrow> lending_state \<Rightarrow> lending_state" where
  "set_guardian admin guardian s =
     publish (PauseModuleEvent (GuardianSetEvent guardian admin)) (s\<lparr>Guardian := Some guardian\<rparr>)"

definition get_guardian :: "lending_state \<Rightarrow> address option" where
  "get_guardian s = Guardian s"

definition get_emergency_state :: "lending_state \<Rightarrow> EmergencyState" where
  "get_emergency_state s = unwrap_or (EmergencyStateKey s) Normal"

definition is_recovery :: "lending_state \<Rightarrow> bool" where
  "is_recovery s \<longleftrightarrow> get_emergency_state s = Recovery"

definition blocks_high_risk_ops :: "lending_state \<Rightarrow> bool" where
  "blocks_high_risk_ops s = (case get_emergency_state s of
     Shutdown \<Rightarrow> True | Recovery \<Rightarrow> True | _ \<Rightarrow> False)"

definition set_emergency_state ::
    "address \<Rightarrow> EmergencyState \<Rightarrow> lending_state \<Rightarrow> lending_state" where
  "set_emergency_state caller to s =
     (let from = get_emergency_state s
      in publish (PauseModuleEvent (EmergencyStateEvent from to caller))
           (s\<lparr>EmergencyStateKey := Some to\<rparr>))"

definition trigger_shutdown :: "address \<Rightarrow> lending_state \<Rightarrow> lending_state" where
  "trigger_shutdown caller = set_emergency_state caller Shutdown"

definition start_recovery :: "address \<Rightarrow> lending_state \<Rightarrow> lending_state" where
  "start_recovery caller = set_emergency_state caller Recovery"

definition complete_recovery :: "address \<Rightarrow> lending_state \<Rightarrow> lending_state" where
  "complete_recovery caller = set_emergency_state caller Normal"

lemma is_paused_alt:
  "is_paused s p \<longleftrightarrow> State s All_Ops = Some True \<or> State s p = Some True"
  by (cases "State s All_Ops"; cases "State s p") (auto simp: is_paused_def)

lemma is_paused_cong: "State t = State s \<Longrightarrow> is_paused t p = is_paused s p"
  by (simp add: is_paused_alt)

lemma is_paused_set_pause:
  "is_paused (set_pause a q b s) p \<longleftrightarrow>
     (if q = All_Ops \<or> q = p then b \<or> (q \<noteq> All_Ops \<and> State s All_Ops = Some True)
                                  \<or> (q = All_Ops \<and> p \<noteq> All_Ops \<and> State s p = Some True)
      else is_paused s p)"
  by (auto simp: is_paused_alt set_pause_def publish_def)

text \<open>The pause module reads nothing but its own flags: every state with the same flags gates
  the operations in the same way, whatever the emergency state is.\<close>

lemma emergency_state_not_consulted:
  "is_paused (set_emergency_state c e s) p = is_paused s p"
  by (rule is_paused_cong) (simp add: set_emergency_state_def publish_def Let_def)

lemma blocks_after_shutdown: "blocks_high_risk_ops (trigger_shutdown c s)"
  by (simp add: blocks_high_risk_ops_def trigger_shutdown_def set_emergency_state_def
      get_emergency_state_def publish_def Let_def)

end
