(* ===== verification/Interest_Rate.thy ===== *)
theory Interest_Rate
  imports Lending_State
begin

text \<open>
  The kinked interest-rate model: src/stellar-lend/contracts/lending/src/interest_rate.rs, with the
  three reads of borrow.rs it depends on (admin, total debt, debt ceiling).
\<close>

definition BPS_SCALE :: i128 where
  "BPS_SCALE = 10000"

definition get_admin :: "lending_state \<Rightarrow> address option" where
  "get_admin s = ProtocolAdmin s"

definition get_total_debt :: "lending_state \<Rightarrow> i128" where
  "get_total_debt s = unwrap_or (BorrowTotalDebt s) 0"

definition get_debt_ceiling :: "lending_state \<Rightarrow> i128" where
  "get_debt_ceiling s = unwrap_or (BorrowDebtCeiling s) i128_max"

definition default_config :: "host \<Rightarrow> InterestRateConfig" where
  "default_config h =
    \<lparr>base_rate_bps = 100, kink_utilization_bps = 8000, slope_bps = 2000, jump_slope_bps = 10000,
     rate_floor_bps = 0, rate_ceiling_bps = 10000, spread_bps = 200, irc_last_update = now h\<rparr>"

definition get_config :: "host \<Rightarrow> lending_state \<Rightarrow> InterestRateConfig" where
  "get_config h s = unwrap_or (BorrowInterestRate s) (default_config h)"

definition set_default_if_missing :: "host \<Rightarrow> lending_state \<Rightarrow> lending_state" where
  "set_default_if_missing h s =
     (if BorrowInterestRate s \<noteq> None then s
      else s\<lparr>BorrowInterestRate := Some (default_config h)\<rparr>)"

definition utilization_bps :: "lending_state \<Rightarrow> InterestRateError + i128" where
  "utilization_bps s =
     (let ceiling = get_debt_ceiling s in
      if ceiling \<le> 0 then Inr 0
      else (let debt = get_total_debt s in
            if debt \<le> 0 then Inr 0
            else
              ok_orE (checked_mul debt BPS_SCALE) InterestRateError.Overflow (\<lambda>scaled.
              ok_orE (checked_div scaled ceiling) DivisionByZero (\<lambda>util.
              Inr (max (min util BPS_SCALE) 0)))))"

definition borrow_rate_bps :: "host \<Rightarrow> lending_state \<Rightarrow> InterestRateError + i128" where
  "borrow_rate_bps h s =
     (let cfg = get_config h s in
      bindE (utilization_bps s) (\<lambda>util.
      bindE
        (if util \<le> kink_utilization_bps cfg then
           (if kink_utilization_bps cfg > 0 then
              ok_orE (checked_mul util (slope_bps cfg)) InterestRateError.Overflow (\<lambda>m.
              ok_orE (checked_div m (kink_utilization_bps cfg)) DivisionByZero (\<lambda>inc.
              ok_orE (checked_add (base_rate_bps cfg) inc) InterestRateError.Overflow Inr))
            else Inr (base_rate_bps cfg))
         else
           ok_orE (checked_add (base_rate_bps cfg) (slope_bps cfg)) InterestRateError.Overflow (\<lambda>rate_at_kink.
           ok_orE (checked_sub util (kink_utilization_bps cfg)) InterestRateError.Overflow (\<lambda>util_above.
           ok_orE (checked_sub BPS_SCALE (kink_utilization_bps cfg)) InterestRateError.Overflow (\<lambda>max_above.
           if max_above > 0 then
             ok_orE (checked_mul util_above (jump_slope_bps cfg)) InterestRateError.Overflow (\<lambda>m.
             ok_orE (checked_div m max_above) DivisionByZero (\<lambda>addl.
             ok_orE (checked_add rate_at_kink addl) InterestRateError.Overflow Inr))
           else Inr rate_at_kink))))
      (\<lambda>rate. Inr (min (max rate (rate_floor_bps cfg)) (rate_ceiling_bps cfg)))))"

definition supply_rate_bps :: "host \<Rightarrow> lending_state \<Rightarrow> InterestRateError + i128" where
  "supply_rate_bps h s =
     (let cfg = get_config h s in
      bindE (borrow_rate_bps h s) (\<lambda>borrow.
      ok_orE (checked_sub borrow (spread_bps cfg)) InterestRateError.Overflow (\<lambda>supply.
      Inr (max supply (rate_floor_bps cfg)))))"

text \<open>\<open>if let Some(v) = update.field { check; next.field = v }\<close>\<close>

definition apply_field ::
    "i128 option \<Rightarrow> (i128 \<Rightarrow> bool) \<Rightarrow> (i128 \<Rightarrow> InterestRateConfig \<Rightarrow> InterestRateConfig)
     \<Rightarrow> InterestRateConfig \<Rightarrow> (lending_state, InterestRateError, InterestRateConfig) contract_fn" where
  "apply_field f bad upd c = (case f of
     None \<Rightarrow> ret c
   | Some v \<Rightarrow> fail_if (bad v) InvalidParameter (ret (upd v c)))"

definition update_config ::
    "host \<Rightarrow> address \<Rightarrow> InterestRateConfigUpdate
     \<Rightarrow> (lending_state, InterestRateError, InterestRateConfig \<times> InterestRateConfig) contract_fn" where
  "update_config h caller u =
     tryM (require_auth h caller) (\<lambda>_.
     reads get_admin (\<lambda>admin_opt.
     ok_or admin_opt InterestRateError.Unauthorized (\<lambda>admin.
     fail_if (caller \<noteq> admin) InterestRateError.Unauthorized (
     reads (get_config h) (\<lambda>prev.
     tryM (apply_field (u_base_rate_bps u) (\<lambda>v. v < 0 \<or> v > BPS_SCALE)
             (\<lambda>v c. c\<lparr>base_rate_bps := v\<rparr>) prev) (\<lambda>next1.
     tryM (apply_field (u_kink_utilization_bps u) (\<lambda>v. v \<le> 0 \<or> v \<ge> BPS_SCALE)
             (\<lambda>v c. c\<lparr>kink_utilization_bps := v\<rparr>) next1) (\<lambda>next2.
     tryM (apply_field (u_slope_bps u) (\<lambda>v. v < 0) (\<lambda>v c. c\<lparr>slope_bps := v\<rparr>) next2) (\<lambda>next3.
     tryM (apply_field (u_jump_slope_bps u) (\<lambda>v. v < 0)
             (\<lambda>v c. c\<lparr>jump_slope_bps := v\<rparr>) next3) (\<lambda>next4.
     tryM (apply_field (u_rate_floor_bps u) (\<lambda>v. v < 0 \<or> v > BPS_SCALE)
             (\<lambda>v c. c\<lparr>rate_floor_bps := v\<rparr>) next4) (\<lambda>next5.
     tryM (apply_field (u_rate_ceiling_bps u) (\<lambda>v. v < 0 \<or> v > BPS_SCALE)
             (\<lambda>v c. c\<lparr>rate_ceiling_bps := v\<rparr>) next5) (\<lambda>next6.
     fail_if (rate_floor_bps next6 > rate_ceiling_bps next6) InvalidParameter (
     tryM (apply_field (u_spread_bps u) (\<lambda>v. v < 0 \<or> v > BPS_SCALE)
             (\<lambda>v c. c\<lparr>spread_bps := v\<rparr>) next6) (\<lambda>next7.
     let next8 = next7\<lparr>irc_last_update := now h\<rparr> in
     writes (\<lambda>s. s\<lparr>BorrowInterestRate := Some next8\<rparr>)
     (ret (prev, next8)))))))))))))))"

fun borrow_error_of :: "InterestRateError \<Rightarrow> BorrowError" where
  "borrow_error_of InterestRateError.Unauthorized = BorrowError.Unauthorized"
| "borrow_error_of InvalidParameter = BorrowError.InvalidAmount"
| "borrow_error_of InterestRateError.Overflow = BorrowError.Overflow"
| "borrow_error_of DivisionByZero = BorrowError.Overflow"

section \<open>Well-formed configurations\<close>

definition config_wf :: "InterestRateConfig \<Rightarrow> bool" where
  "config_wf c \<longleftrightarrow>
     0 \<le> base_rate_bps c \<and> base_rate_bps c \<le> 10000 \<and>
     0 < kink_utilization_bps c \<and> kink_utilization_bps c < 10000 \<and>
     0 \<le> slope_bps c \<and> 0 \<le> jump_slope_bps c \<and>
     0 \<le> rate_floor_bps c \<and> rate_floor_bps c \<le> rate_ceiling_bps c \<and>
     rate_ceiling_bps c \<le> 10000 \<and> 0 \<le> spread_bps c \<and> spread_bps c \<le> 10000"

lemma config_wf_default: "config_wf (default_config h)"
  by (simp add: config_wf_def default_config_def)

lemma apply_field_Ok [ok_simps]:
  "apply_field f bad upd c s = (Ok c', t) \<longleftrightarrow>
     t = s \<and> c' = (case f of None \<Rightarrow> c | Some v \<Rightarrow> upd v c) \<and> (\<forall>v. f = Some v \<longrightarrow> \<not> bad v)"
  by (cases f) (auto simp: apply_field_def ok_simps)

definition updated_config :: "u64 \<Rightarrow> InterestRateConfigUpdate \<Rightarrow> InterestRateConfig \<Rightarrow> InterestRateConfig" where
  "updated_config time u c =
    \<lparr>base_rate_bps = unwrap_or (u_base_rate_bps u) (base_rate_bps c),
     kink_utilization_bps = unwrap_or (u_kink_utilization_bps u) (kink_utilization_bps c),
     slope_bps = unwrap_or (u_slope_bps u) (slope_bps c),
     jump_slope_bps = unwrap_or (u_jump_slope_bps u) (jump_slope_bps c),
     rate_floor_bps = unwrap_or (u_rate_floor_bps u) (rate_floor_bps c),
     rate_ceiling_bps = unwrap_or (u_rate_ceiling_bps u) (rate_ceiling_bps c),
     spread_bps = unwrap_or (u_spread_bps u) (spread_bps c),
     irc_last_update = time\<rparr>"

lemma apply_field_unwrap [ok_simps]:
  "(case f of None \<Rightarrow> c | Some v \<Rightarrow> c\<lparr>base_rate_bps := v\<rparr>)
     = c\<lparr>base_rate_bps := unwrap_or f (base_rate_bps c)\<rparr>"
  "(case f of None \<Rightarrow> c | Some v \<Rightarrow> c\<lparr>kink_utilization_bps := v\<rparr>)
     = c\<lparr>kink_utilization_bps := unwrap_or f (kink_utilization_bps c)\<rparr>"
  "(case f of None \<Rightarrow> c | Some v \<Rightarrow> c\<lparr>slope_bps := v\<rparr>) = c\<lparr>slope_bps := unwrap_or f (slope_bps c)\<rparr>"
  "(case f of None \<Rightarrow> c | Some v \<Rightarrow> c\<lparr>jump_slope_bps := v\<rparr>)
     = c\<lparr>jump_slope_bps := unwrap_or f (jump_slope_bps c)\<rparr>"
  "(case f of None \<Rightarrow> c | Some v \<Rightarrow> c\<lparr>rate_floor_bps := v\<rparr>)
     = c\<lparr>rate_floor_bps := unwrap_or f (rate_floor_bps c)\<rparr>"
  "(case f of None \<Rightarrow> c | Some v \<Rightarrow> c\<lparr>rate_ceiling_bps := v\<rparr>)
     = c\<lparr>rate_ceiling_bps := unwrap_or f (rate_ceiling_bps c)\<rparr>"
  "(case f of None \<Rightarrow> c | Some v \<Rightarrow> c\<lparr>spread_bps := v\<rparr>) = c\<lparr>spread_bps := unwrap_or f (spread_bps c)\<rparr>"
  for c :: InterestRateConfig
  by (cases f; simp)+

text \<open>A successful update merges the given fields into the previous configuration, stores the
  result, and keeps it well-formed.\<close>

lemma update_config_Ok:
  assumes "update_config h caller u s = (Ok (prev, new_cfg), t)"
  shows "signed h caller \<and> get_admin s = Some caller \<and> prev = get_config h s \<and>
         new_cfg = updated_config (now h) u prev \<and> t = s\<lparr>BorrowInterestRate := Some new_cfg\<rparr>"
  using assms by (clarsimp simp: update_config_def ok_simps Let_def updated_config_def)

lemma update_config_checks:
  assumes "update_config h caller u s = (Ok (prev, new_cfg), t)"
  shows "(\<forall>v. u_base_rate_bps u = Some v \<longrightarrow> 0 \<le> v \<and> v \<le> 10000) \<and>
    (\<forall>v. u_kink_utilization_bps u = Some v \<longrightarrow> 0 < v \<and> v < 10000) \<and>
    (\<forall>v. u_slope_bps u = Some v \<longrightarrow> 0 \<le> v) \<and> (\<forall>v. u_jump_slope_bps u = Some v \<longrightarrow> 0 \<le> v) \<and>
    (\<forall>v. u_rate_floor_bps u = Some v \<longrightarrow> 0 \<le> v \<and> v \<le> 10000) \<and>
    (\<forall>v. u_rate_ceiling_bps u = Some v \<longrightarrow> 0 \<le> v \<and> v \<le> 10000) \<and>
    rate_floor_bps new_cfg \<le> rate_ceiling_bps new_cfg \<and>
    (\<forall>v. u_spread_bps u = Some v \<longrightarrow> 0 \<le> v \<and> v \<le> 10000)"
  using assms by (clarsimp simp: update_config_def ok_simps Let_def BPS_SCALE_def not_less not_le)

lemma unwrap_or_split: "P (unwrap_or x d) \<longleftrightarrow> (x = None \<longrightarrow> P d) \<and> (\<forall>v. x = Some v \<longrightarrow> P v)"
  by (cases x) simp_all

lemma update_config_wf:
  assumes upd: "update_config h caller u s = (Ok (prev, new_cfg), t)" and wf: "config_wf (get_config h s)"
  shows "config_wf new_cfg"
proof -
  note checks = update_config_checks [OF upd]
  from update_config_Ok [OF upd]
  have new: "new_cfg = updated_config (now h) u (get_config h s)" by simp
  show ?thesis
    unfolding config_wf_def
    using checks wf [unfolded config_wf_def]
    by (intro conjI) (simp_all add: new updated_config_def split: unwrap_or_split)
qed

section \<open>The rate curve\<close>

text \<open>The curve the code implements, on mathematical integers.\<close>

definition kinked_rate :: "InterestRateConfig \<Rightarrow> int \<Rightarrow> int" where
  "kinked_rate c u =
     (if u \<le> kink_utilization_bps c
      then base_rate_bps c + u * slope_bps c div kink_utilization_bps c
      else base_rate_bps c + slope_bps c
           + (u - kink_utilization_bps c) * jump_slope_bps c div (10000 - kink_utilization_bps c))"

definition clamp_rate :: "InterestRateConfig \<Rightarrow> int \<Rightarrow> int" where
  "clamp_rate c r = min (max r (rate_floor_bps c)) (rate_ceiling_bps c)"

definition utilization_ref :: "lending_state \<Rightarrow> int" where
  "utilization_ref s =
     (if get_debt_ceiling s \<le> 0 \<or> get_total_debt s \<le> 0 then 0
      else min 10000 (get_total_debt s * 10000 div get_debt_ceiling s))"

lemma utilization_bps_ref: "utilization_bps s = Inr u \<Longrightarrow> u = utilization_ref s"
  by (auto simp: utilization_bps_def utilization_ref_def Let_def ok_simps BPS_SCALE_def
      sdiv_nonneg_eq pos_imp_zdiv_nonneg_iff min.commute split: if_splits)

lemma utilization_ref_range: "0 \<le> utilization_ref s \<and> utilization_ref s \<le> 10000"
  by (auto simp: utilization_ref_def pos_imp_zdiv_nonneg_iff)

lemma utilization_bps_total:
  assumes "get_total_debt s * 10000 \<le> i128_max"
  shows "utilization_bps s = Inr (utilization_ref s)"
proof -
  let ?d = "get_total_debt s" and ?c = "get_debt_ceiling s"
  have "utilization_bps s \<noteq> Inl e" for e
  proof (cases "?c \<le> 0 \<or> ?d \<le> 0")
    case False
    then have "?d * 10000 div ?c \<le> ?d * 10000" "0 \<le> ?d * 10000 div ?c"
      by (auto simp: pos_imp_zdiv_nonneg_iff intro: zdiv_le_self)
    with False assms show ?thesis
      by (simp add: utilization_bps_def Let_def ok_orE_def checked_defs BPS_SCALE_def
          sdiv_nonneg_eq i128_defs)
  qed (auto simp: utilization_bps_def Let_def)
  then show ?thesis
    using utilization_bps_ref [of s] by (cases "utilization_bps s") auto
qed

text \<open>Refinement: whenever the code returns a rate, it is the clamped curve.\<close>

lemma borrow_rate_bps_ref:
  assumes "config_wf (get_config h s)" and "borrow_rate_bps h s = Inr r"
  shows "r = clamp_rate (get_config h s) (kinked_rate (get_config h s) (utilization_ref s))"
proof -
  define c u where "c = get_config h s" and "u = utilization_ref s"
  have wf: "0 < kink_utilization_bps c" "kink_utilization_bps c < 10000" "0 \<le> slope_bps c" "0 \<le> jump_slope_bps c" and u: "0 \<le> u"
    using assms(1) utilization_ref_range [of s] by (auto simp: config_wf_def c_def u_def)
  from assms(2) have "utilization_bps s = Inr u"
    by (auto simp: borrow_rate_bps_def Let_def bindE_Inr u_def dest: utilization_bps_ref)
  note rate = assms(2) [unfolded borrow_rate_bps_def this c_def [symmetric] Let_def]
  have "r = clamp_rate c (kinked_rate c u)"
  proof (cases "u \<le> kink_utilization_bps c")
    case True
    have "0 \<le> u * slope_bps c" using wf u by simp
    with rate True wf show ?thesis
      by (auto simp: ok_simps clamp_rate_def kinked_rate_def sdiv_nonneg_eq)
  next
    case False
    then have "0 \<le> (u - kink_utilization_bps c) * jump_slope_bps c" using wf by simp
    with rate False wf show ?thesis
      by (auto simp: ok_simps clamp_rate_def kinked_rate_def sdiv_nonneg_eq BPS_SCALE_def)
  qed
  then show ?thesis by (simp add: c_def u_def)
qed

lemma clamp_rate_range:
  "config_wf c \<Longrightarrow> rate_floor_bps c \<le> clamp_rate c r \<and> clamp_rate c r \<le> rate_ceiling_bps c"
  by (auto simp: clamp_rate_def config_wf_def)

lemma clamp_rate_bounded: "config_wf c \<Longrightarrow> 0 \<le> clamp_rate c r \<and> clamp_rate c r \<le> 10000"
  by (auto simp: clamp_rate_def config_wf_def)

lemma kinked_rate_mono:
  assumes wf: "config_wf c" and u: "0 \<le> u" "u \<le> v"
  shows "kinked_rate c u \<le> kinked_rate c v"
proof -
  let ?k = "kink_utilization_bps c" and ?m = "slope_bps c" and ?j = "jump_slope_bps c"
  have k: "0 < ?k" "0 < 10000 - ?k" "0 \<le> ?m" "0 \<le> ?j" using wf by (auto simp: config_wf_def)
  consider (below) "v \<le> ?k" | (cross) "u \<le> ?k" "?k < v" | (above) "?k < u" by linarith
  then show ?thesis
  proof cases
    case below
    then have "u * ?m div ?k \<le> v * ?m div ?k"
      using u k by (intro zdiv_mono1 mult_right_mono) auto
    with below u show ?thesis by (simp add: kinked_rate_def)
  next
    case cross
    have "u * ?m div ?k \<le> ?k * ?m div ?k"
      using cross k by (intro zdiv_mono1 mult_right_mono) auto
    then have "u * ?m div ?k \<le> ?m" using k by simp
    moreover have "0 \<le> (v - ?k) * ?j div (10000 - ?k)"
      using cross k by (simp add: pos_imp_zdiv_nonneg_iff)
    ultimately show ?thesis using cross by (simp add: kinked_rate_def)
  next
    case above
    then have "(u - ?k) * ?j div (10000 - ?k) \<le> (v - ?k) * ?j div (10000 - ?k)"
      using u k by (intro zdiv_mono1 mult_right_mono) auto
    with above u show ?thesis by (simp add: kinked_rate_def)
  qed
qed

lemma clamp_rate_mono: "r \<le> r' \<Longrightarrow> clamp_rate c r \<le> clamp_rate c r'"
  by (auto simp: clamp_rate_def)

lemma utilization_ref_mono:
  assumes "get_debt_ceiling t = get_debt_ceiling s" and "get_total_debt s \<le> get_total_debt t"
  shows "utilization_ref s \<le> utilization_ref t"
proof (cases "get_debt_ceiling s \<le> 0 \<or> get_total_debt s \<le> 0")
  case True
  then have "utilization_ref s = 0" by (auto simp: utilization_ref_def)
  with utilization_ref_range [of t] show ?thesis by simp
next
  case False
  then have "get_total_debt s * 10000 div get_debt_ceiling s \<le> get_total_debt t * 10000 div get_debt_ceiling s"
    using assms by (intro zdiv_mono1) auto
  with False assms show ?thesis by (auto simp: utilization_ref_def)
qed

text \<open>The code returns a rate whenever the scaled debt and the slopes leave headroom in i128.\<close>

lemma kinked_parts:
  assumes "config_wf c" "0 \<le> u" "u \<le> 10000"
  shows "0 \<le> u * slope_bps c div kink_utilization_bps c"
    and "u * slope_bps c div kink_utilization_bps c \<le> u * slope_bps c"
    and "u * slope_bps c \<le> 10000 * slope_bps c"
    and "kink_utilization_bps c < u \<Longrightarrow>
         0 \<le> (u - kink_utilization_bps c) * jump_slope_bps c div (10000 - kink_utilization_bps c)"
    and "kink_utilization_bps c < u \<Longrightarrow>
         (u - kink_utilization_bps c) * jump_slope_bps c div (10000 - kink_utilization_bps c) \<le> jump_slope_bps c"
    and "kink_utilization_bps c < u \<Longrightarrow>
         (u - kink_utilization_bps c) * jump_slope_bps c \<le> 10000 * jump_slope_bps c"
proof -
  let ?k = "kink_utilization_bps c" and ?j = "jump_slope_bps c"
  have k: "0 < ?k" "0 < 10000 - ?k" "0 \<le> slope_bps c" "0 \<le> ?j" using assms by (auto simp: config_wf_def)
  show "0 \<le> u * slope_bps c div ?k" using k assms by (simp add: pos_imp_zdiv_nonneg_iff)
  show "u * slope_bps c div ?k \<le> u * slope_bps c" using k assms by (intro zdiv_le_self) auto
  show "u * slope_bps c \<le> 10000 * slope_bps c" using k assms by (intro mult_right_mono) auto
  assume above: "?k < u"
  show "0 \<le> (u - ?k) * ?j div (10000 - ?k)" using above k by (simp add: pos_imp_zdiv_nonneg_iff)
  have "(u - ?k) * ?j div (10000 - ?k) \<le> (10000 - ?k) * ?j div (10000 - ?k)"
    using above k assms by (intro zdiv_mono1 mult_right_mono) auto
  then show "(u - ?k) * ?j div (10000 - ?k) \<le> ?j" using k by simp
  show "(u - ?k) * ?j \<le> 10000 * ?j" using above k assms by (intro mult_right_mono) auto
qed

definition rate_headroom :: "host \<Rightarrow> lending_state \<Rightarrow> bool" where
  "rate_headroom h s \<longleftrightarrow> get_total_debt s * 10000 \<le> i128_max \<and>
     10000 * slope_bps (get_config h s) \<le> i128_max - 10000 \<and>
     10000 * jump_slope_bps (get_config h s) \<le> i128_max - 10000 \<and>
     10000 + slope_bps (get_config h s) + jump_slope_bps (get_config h s) \<le> i128_max"

lemma in_i128_nonneg: "0 \<le> x \<Longrightarrow> x \<le> i128_max \<Longrightarrow> in_i128 x"
  by (simp add: i128_defs)

lemma borrow_rate_bps_total:
  assumes wf: "config_wf (get_config h s)" and room: "rate_headroom h s"
  shows "\<exists>r. borrow_rate_bps h s = Inr r"
proof -
  define c where "c = get_config h s"
  define u where "u = utilization_ref s"
  have util: "utilization_bps s = Inr u"
    using room by (simp add: u_def rate_headroom_def utilization_bps_total)
  have u: "0 \<le> u" "u \<le> 10000" using utilization_ref_range by (auto simp: u_def)
  have c: "0 \<le> base_rate_bps c" "base_rate_bps c \<le> 10000" "0 < kink_utilization_bps c"
      "kink_utilization_bps c < 10000" "0 \<le> slope_bps c" "0 \<le> jump_slope_bps c"
    using wf by (auto simp: config_wf_def c_def)
  have room': "10000 * slope_bps c \<le> i128_max - 10000" "10000 * jump_slope_bps c \<le> i128_max - 10000"
      "10000 + slope_bps c + jump_slope_bps c \<le> i128_max"
    using room by (auto simp: rate_headroom_def c_def)
  note parts = kinked_parts [OF wf [folded c_def] u]
  have big: "(10000::int) \<le> i128_max" by (simp add: i128_defs)
  show ?thesis
  proof (cases "u \<le> kink_utilization_bps c")
    case True
    have "in_i128 (u * slope_bps c)" "in_i128 (u * slope_bps c div kink_utilization_bps c)"
      "in_i128 (base_rate_bps c + u * slope_bps c div kink_utilization_bps c)"
      using parts(1-3) c u room' by (auto intro!: in_i128_nonneg)
    with True util u c show ?thesis
      by (simp add: borrow_rate_bps_def c_def [symmetric] bindE_def ok_orE_def checked_defs sdiv_nonneg_eq)
  next
    case False
    have "in_i128 (base_rate_bps c + slope_bps c)" "in_i128 (u - kink_utilization_bps c)"
      "in_i128 (10000 - kink_utilization_bps c)"
      "in_i128 ((u - kink_utilization_bps c) * jump_slope_bps c)"
      "in_i128 ((u - kink_utilization_bps c) * jump_slope_bps c div (10000 - kink_utilization_bps c))"
      "in_i128 (base_rate_bps c + slope_bps c
          + (u - kink_utilization_bps c) * jump_slope_bps c div (10000 - kink_utilization_bps c))"
      using parts(4-6) c u room' big False by (auto intro!: in_i128_nonneg)
    with False util u c show ?thesis
      by (simp add: borrow_rate_bps_def c_def [symmetric] bindE_def ok_orE_def checked_defs
          sdiv_nonneg_eq BPS_SCALE_def)
  qed
qed

section \<open>A bounded rate as an interface\<close>

text \<open>What the interest calculation relies on: a source of rates between 0 and 100 percent.\<close>

locale bounded_rate =
  fixes rate :: "'s \<Rightarrow> 'e + int"
    and rate_ok :: "'s \<Rightarrow> bool"
  assumes rate_range: "rate_ok s \<Longrightarrow> rate s = Inr r \<Longrightarrow> 0 \<le> r \<and> r \<le> 10000"
begin

lemma yearly_interest_bounded:
  fixes year :: int
  assumes "rate_ok s" and "rate s = Inr r" and "0 \<le> p" and "0 \<le> t" and that: "0 < year"
  shows "0 \<le> p * r * t div 10000 div year" and "p * r * t div 10000 div year \<le> p * t div year"
proof -
  have r: "0 \<le> r" "r \<le> 10000" using rate_range [OF assms(1,2)] by auto
  show "0 \<le> p * r * t div 10000 div year" using r assms that by (simp add: pos_imp_zdiv_nonneg_iff)
  have "p * r * t \<le> (p * t) * 10000"
    using mult_left_mono [OF r(2), of "p * t"] assms by (simp add: mult_ac)
  then have "p * r * t div 10000 \<le> p * t"
    using zdiv_mono1 [of "p * r * t" "(p * t) * 10000" 10000] by simp
  then show "p * r * t div 10000 div year \<le> p * t div year"
    using that by (rule zdiv_mono1)
qed

end

lemma borrow_rate_range:
  assumes "config_wf (get_config h s)" and "borrow_rate_bps h s = Inr r"
  shows "0 \<le> r \<and> r \<le> 10000"
  using clamp_rate_bounded [OF assms(1)] by (simp add: borrow_rate_bps_ref [OF assms])

interpretation variable_rate: bounded_rate "borrow_rate_bps h" "\<lambda>s. config_wf (get_config h s)" for h
  by unfold_locales (rule borrow_rate_range)

lemma supply_rate_between:
  assumes "config_wf (get_config h s)" and "borrow_rate_bps h s = Inr b" and "supply_rate_bps h s = Inr r"
  shows "rate_floor_bps (get_config h s) \<le> r \<and> r \<le> b"
proof -
  have "rate_floor_bps (get_config h s) \<le> b"
    using clamp_rate_range [OF assms(1)] by (simp add: borrow_rate_bps_ref [OF assms(1,2)])
  with assms show ?thesis
    by (auto simp: supply_rate_bps_def Let_def ok_simps config_wf_def)
qed

section \<open>Properties\<close>

text \<open>C13: The variable borrow rate is the documented kinked curve: with a well-formed configuration and
  amounts that leave room for the intermediate products, the computation never fails and returns the
  two-slope curve at the clamped utilization, cut to the configured floor and ceiling, hence a value
  between 0 and 100%.\<close>

theorem borrow_rate_is_kinked_curve:
  assumes wf: "config_wf (get_config h s)" and room: "rate_headroom h s"
  shows "borrow_rate_bps h s = Inr (clamp_rate (get_config h s) (kinked_rate (get_config h s) (utilization_ref s))) \<and>
         (\<forall>r. borrow_rate_bps h s = Inr r \<longrightarrow> 0 \<le> r \<and> r \<le> 10000)"
proof -
  from borrow_rate_bps_total [OF wf room] obtain r where r: "borrow_rate_bps h s = Inr r" by blast
  with borrow_rate_bps_ref [OF wf r] borrow_rate_range [OF wf r] show ?thesis by simp
qed

definition rate_sample :: lending_state where
  "rate_sample = empty_storage\<lparr>BorrowTotalDebt := Some 9000, BorrowDebtCeiling := Some 10000\<rparr>"

definition rate_host :: host where
  "rate_host = \<lparr>now = 0, signed = (\<lambda>_. True), oracle_price = (\<lambda>_ _. None), registry_validate = (\<lambda>_ _ _ _. None)\<rparr>"

lemma rate_sample_config: "get_config rate_host rate_sample = default_config rate_host"
  by (simp add: get_config_def rate_sample_def empty_storage_def)

lemma rate_sample_room: "rate_headroom rate_host rate_sample"
  unfolding rate_headroom_def rate_sample_config
  by (simp add: default_config_def get_total_debt_def rate_sample_def i128_max_def)

lemma rate_sample_util: "utilization_ref rate_sample = 9000"
  by (simp add: utilization_ref_def get_total_debt_def get_debt_ceiling_def rate_sample_def)

theorem borrow_rate_is_kinked_curve_witness: "borrow_rate_bps rate_host rate_sample = Inr 7100"
proof -
  have "config_wf (get_config rate_host rate_sample)" by (simp add: rate_sample_config config_wf_default)
  from borrow_rate_is_kinked_curve [OF this rate_sample_room] show ?thesis
    by (simp add: rate_sample_config rate_sample_util clamp_rate_def kinked_rate_def default_config_def)
qed

text \<open>More debt never makes borrowing cheaper: with the same configuration and ceiling, a state with
  at least as much total debt has at least as high a variable rate.\<close>

theorem borrow_rate_monotone:
  assumes wf: "config_wf (get_config h s)" and cfg: "get_config h t = get_config h s"
    and ceil: "get_debt_ceiling t = get_debt_ceiling s" and debt: "get_total_debt s \<le> get_total_debt t"
    and r: "borrow_rate_bps h s = Inr r" and r': "borrow_rate_bps h t = Inr r'"
  shows "r \<le> r'"
proof -
  have "0 \<le> utilization_ref s" using utilization_ref_range by simp
  then have "kinked_rate (get_config h s) (utilization_ref s) \<le> kinked_rate (get_config h s) (utilization_ref t)"
    using kinked_rate_mono [OF wf] utilization_ref_mono [OF ceil debt] by blast
  from clamp_rate_mono [OF this] show ?thesis
    using borrow_rate_bps_ref [OF wf r] borrow_rate_bps_ref [OF _ r'] wf cfg by simp
qed

theorem borrow_rate_monotone_witness:
  "\<exists>r r'. borrow_rate_bps rate_host (rate_sample\<lparr>BorrowTotalDebt := Some 5000\<rparr>) = Inr r \<and>
          borrow_rate_bps rate_host rate_sample = Inr r' \<and> r \<le> r'"
proof -
  let ?s = "rate_sample\<lparr>BorrowTotalDebt := Some 5000\<rparr>"
  have c: "get_config rate_host ?s = default_config rate_host"
    by (simp add: get_config_def rate_sample_def empty_storage_def)
  have r: "borrow_rate_bps rate_host ?s = Inr 1350" "borrow_rate_bps rate_host rate_sample = Inr 7100" by code_simp+
  have "(1350::int) \<le> 7100"
    by (rule borrow_rate_monotone [OF _ _ _ _ r])
       (simp_all add: c rate_sample_config config_wf_default, simp_all add: get_debt_ceiling_def get_total_debt_def rate_sample_def)
  with r show ?thesis by blast
qed

text \<open>Suppliers never earn more than borrowers pay: with a well-formed configuration the supply rate
  lies between the rate floor and the borrow rate.\<close>

theorem supply_rate_below_borrow_rate:
  assumes "config_wf (get_config h s)" and "borrow_rate_bps h s = Inr b" and "supply_rate_bps h s = Inr r"
  shows "rate_floor_bps (get_config h s) \<le> r \<and> r \<le> b"
  using assms by (rule supply_rate_between)

theorem supply_rate_below_borrow_rate_witness: "supply_rate_bps rate_host rate_sample = Inr 6900 \<and> (6900::int) \<le> 7100"
proof -
  have "supply_rate_bps rate_host rate_sample = Inr 6900" "borrow_rate_bps rate_host rate_sample = Inr 7100" by code_simp+
  with supply_rate_below_borrow_rate [of rate_host rate_sample 7100 6900] show ?thesis
    by (simp add: rate_sample_config config_wf_default)
qed

text \<open>A model update is an admin operation that keeps the model well-formed: it succeeds only for
  the stored admin who signed, replaces exactly the given parameters, and from a well-formed
  configuration leads to a well-formed one (base, floor and ceiling within 0 to 100%, floor not above
  ceiling, kink strictly inside, slopes not negative).\<close>

theorem update_config_admin_and_wf:
  assumes "update_config h caller u s = (Ok (prev, new_cfg), t)"
  shows "get_admin s = Some caller \<and> signed h caller \<and> prev = get_config h s \<and>
         new_cfg = updated_config (now h) u prev \<and> t = s\<lparr>BorrowInterestRate := Some new_cfg\<rparr> \<and>
         (config_wf prev \<longrightarrow> config_wf new_cfg)"
  using update_config_Ok [OF assms] update_config_wf [OF assms] by auto

definition sample_update :: InterestRateConfigUpdate where
  "sample_update = \<lparr>u_base_rate_bps = Some 250, u_kink_utilization_bps = None, u_slope_bps = None,
     u_jump_slope_bps = None, u_rate_floor_bps = None, u_rate_ceiling_bps = None, u_spread_bps = None\<rparr>"

theorem update_config_admin_and_wf_witness:
  "\<exists>p c t. update_config rate_host 9 sample_update (rate_sample\<lparr>ProtocolAdmin := Some 9\<rparr>) = (Ok (p, c), t) \<and>
           base_rate_bps c = 250 \<and> config_wf c"
proof -
  let ?u = "update_config rate_host 9 sample_update (rate_sample\<lparr>ProtocolAdmin := Some 9\<rparr>)"
  let ?p = "default_config rate_host" and ?c = "(default_config rate_host)\<lparr>base_rate_bps := 250\<rparr>"
  have "fst ?u = Ok (?p, ?c)" by code_simp
  then have u: "?u = (Ok (?p, ?c), snd ?u)" by (simp add: prod_eq_iff)
  from update_config_admin_and_wf [OF u] config_wf_default [of rate_host] have "config_wf ?c" by blast
  with u show ?thesis by (intro exI [of _ ?p] exI [of _ ?c] exI [of _ "snd ?u"]) simp
qed

end
