(* ===== verification/Risk_Monitor.thy ===== *)
theory Risk_Monitor
  imports Interest_Rate SL_Interfaces Sample
begin

text \<open>
  Utilization alerts: src/stellar-lend/contracts/lending/src/risk_monitor.rs. The severities are
  ordered by their discriminants.
\<close>

fun severity_discriminant :: "RiskAlertSeverity \<Rightarrow> u32" where
  "severity_discriminant Warning = 1"
| "severity_discriminant Critical = 2"
| "severity_discriminant Emergency = 3"

instantiation RiskAlertSeverity :: linorder
begin

definition less_eq_RiskAlertSeverity :: "RiskAlertSeverity \<Rightarrow> RiskAlertSeverity \<Rightarrow> bool" where
  "a \<le> b \<longleftrightarrow> severity_discriminant a \<le> severity_discriminant b"

definition less_RiskAlertSeverity :: "RiskAlertSeverity \<Rightarrow> RiskAlertSeverity \<Rightarrow> bool" where
  "a < b \<longleftrightarrow> severity_discriminant a < severity_discriminant b"

instance
proof
  fix x y z :: RiskAlertSeverity
  show "x < y \<longleftrightarrow> x \<le> y \<and> \<not> y \<le> x"
    by (auto simp: less_eq_RiskAlertSeverity_def less_RiskAlertSeverity_def)
  show "x \<le> x" by (simp add: less_eq_RiskAlertSeverity_def)
  show "x \<le> y \<Longrightarrow> y \<le> z \<Longrightarrow> x \<le> z" by (simp add: less_eq_RiskAlertSeverity_def)
  show "x \<le> y \<Longrightarrow> y \<le> x \<Longrightarrow> x = y"
    by (cases x; cases y) (simp_all add: less_eq_RiskAlertSeverity_def)
  show "x \<le> y \<or> y \<le> x" by (auto simp: less_eq_RiskAlertSeverity_def)
qed

end

definition severity_for_util :: "u32 \<Rightarrow> RiskAlertThresholds \<Rightarrow> RiskAlertSeverity" where
  "severity_for_util util_bps th =
     (if emergency_utilization_bps th > 0 \<and> util_bps \<ge> emergency_utilization_bps th then Emergency
      else if critical_utilization_bps th > 0 \<and> util_bps \<ge> critical_utilization_bps th then Critical
      else Warning)"

definition util_bps_of :: "i128 \<Rightarrow> i128 \<Rightarrow> u32" where
  "util_bps_of total_debt debt_ceiling =
     min (nat (max (saturating_div (saturating_mul total_debt 10000) debt_ceiling) 0)) u32_max"

definition on_utilization_changed ::
    "host \<Rightarrow> i128 \<Rightarrow> i128 \<Rightarrow> lending_state \<Rightarrow> lending_state" where
  "on_utilization_changed h total_debt debt_ceiling s =
     (if debt_ceiling \<le> 0 then s
      else (case Thresholds s of
        None \<Rightarrow> s
      | Some th \<Rightarrow>
          if warning_utilization_bps th = 0 then s
          else (let util_bps = util_bps_of total_debt debt_ceiling in
            if util_bps < warning_utilization_bps th then s\<lparr>LastEmittedTier := Some 0\<rparr>
            else (let tier = severity_for_util util_bps th;
                      prev = unwrap_or (LastEmittedTier s) 0;
                      tier_u32 = severity_discriminant tier in
              if tier_u32 > prev
              then (publish (RiskUtilizationAlertEvent (severity_discriminant tier) util_bps
                               total_debt debt_ceiling (now h)) s)
                   \<lparr>LastEmittedTier := Some tier_u32\<rparr>
              else s))))"

definition set_risk_alert_thresholds ::
    "host \<Rightarrow> address \<Rightarrow> RiskAlertThresholds \<Rightarrow> (lending_state, RiskMonitorError, unit) contract_fn" where
  "set_risk_alert_thresholds h admin thresholds =
     tryM (require_auth h admin) (\<lambda>_.
     reads get_admin (\<lambda>stored_opt.
     ok_or stored_opt RiskMonitorError.Unauthorized (\<lambda>stored.
     fail_if (admin \<noteq> stored) RiskMonitorError.Unauthorized (
     fail_if (warning_utilization_bps thresholds = 0) InvalidThresholds (
     fail_if (critical_utilization_bps thresholds > 0 \<and>
              critical_utilization_bps thresholds < warning_utilization_bps thresholds) InvalidThresholds (
     fail_if (emergency_utilization_bps thresholds > 0 \<and>
              critical_utilization_bps thresholds = 0) InvalidThresholds (
     fail_if (emergency_utilization_bps thresholds > 0 \<and>
              emergency_utilization_bps thresholds < critical_utilization_bps thresholds) InvalidThresholds (
     writes (\<lambda>s. s\<lparr>Thresholds := Some thresholds\<rparr>) (
     writes (\<lambda>s. s\<lparr>LastEmittedTier := Some 0\<rparr>)
     (ret ()))))))))))"

definition get_risk_alert_thresholds :: "lending_state \<Rightarrow> RiskAlertThresholds option" where
  "get_risk_alert_thresholds s = Thresholds s"

section \<open>Behaviour\<close>

definition thresholds_wf :: "RiskAlertThresholds \<Rightarrow> bool" where
  "thresholds_wf th \<longleftrightarrow> 0 < warning_utilization_bps th \<and>
     (0 < critical_utilization_bps th \<longrightarrow> warning_utilization_bps th \<le> critical_utilization_bps th) \<and>
     (0 < emergency_utilization_bps th \<longrightarrow>
        0 < critical_utilization_bps th \<and> critical_utilization_bps th \<le> emergency_utilization_bps th)"

lemma set_risk_alert_thresholds_Ok:
  assumes "set_risk_alert_thresholds h admin th s = (Ok r, t)"
  shows "get_admin s = Some admin \<and> signed h admin \<and> thresholds_wf th \<and>
         t = s\<lparr>Thresholds := Some th, LastEmittedTier := Some 0\<rparr>"
  using assms by (auto simp: set_risk_alert_thresholds_def ok_simps thresholds_wf_def)

interpretation risk_thresholds: admin_gated get_admin "signed h"
    "\<lambda>admin. set_risk_alert_thresholds h admin th" for h th
  by unfold_locales (auto dest: set_risk_alert_thresholds_Ok)

text \<open>With well-formed thresholds, the severity never falls when the utilization rises.\<close>

lemma severity_for_util_mono:
  assumes "thresholds_wf th" and "u \<le> v"
  shows "severity_for_util u th \<le> severity_for_util v th"
  using assms by (auto simp: severity_for_util_def less_eq_RiskAlertSeverity_def thresholds_wf_def)

definition alerts :: "lending_event list \<Rightarrow> (u32 \<times> u32) list" where
  "alerts es = List.map_filter (\<lambda>e. case e of RiskUtilizationAlertEvent sv u _ _ _ \<Rightarrow> Some (sv, u) | _ \<Rightarrow> None) es"

lemma alerts_append [simp]: "alerts (xs @ ys) = alerts xs @ alerts ys"
  by (simp add: alerts_def map_filter_def)

text \<open>What one notification does to the latch and to the alert stream.\<close>

definition latch :: "lending_state \<Rightarrow> u32" where
  "latch s = unwrap_or (LastEmittedTier s) 0"

lemma on_utilization_changed_frame:
  obtains tier evs where
    "on_utilization_changed h d c s = s\<lparr>LastEmittedTier := tier, events := events s @ evs\<rparr>"
proof -
  have same: "\<exists>tier evs. s = s\<lparr>LastEmittedTier := tier, events := events s @ evs\<rparr>"
    by (rule exI [of _ "LastEmittedTier s"], rule exI [of _ "[]"]) simp
  have reset: "\<exists>tier evs. s\<lparr>LastEmittedTier := x\<rparr> = s\<lparr>LastEmittedTier := tier, events := events s @ evs\<rparr>" for x
    by (rule exI [of _ x], rule exI [of _ "[]"]) simp
  have alert: "\<exists>tier evs. (publish e s)\<lparr>LastEmittedTier := x\<rparr> =
      s\<lparr>LastEmittedTier := tier, events := events s @ evs\<rparr>" for x e
    by (rule exI [of _ x], rule exI [of _ "[e]"]) (simp add: publish_def)
  have "\<exists>tier evs. on_utilization_changed h d c s = s\<lparr>LastEmittedTier := tier, events := events s @ evs\<rparr>"
    unfolding on_utilization_changed_def Let_def
    by (split if_split option.split, intro conjI impI allI same reset alert)+
  then show ?thesis using that by blast
qed

lemma on_utilization_changed_alert:
  assumes th: "Thresholds s = Some th" "0 < warning_utilization_bps th" and c: "0 < c"
    and u: "u = util_bps_of d c" and t: "t = on_utilization_changed h d c s"
  shows "if u < warning_utilization_bps th then latch t = 0 \<and> events t = events s
         else if severity_discriminant (severity_for_util u th) > latch s
           then latch t = severity_discriminant (severity_for_util u th) \<and>
                events t = events s @ [RiskUtilizationAlertEvent (latch t) u d c (now h)]
           else t = s"
  using assms by (auto simp: on_utilization_changed_def publish_def latch_def Let_def)

section \<open>Properties\<close>

text \<open>Utilization alerts are latched: with thresholds set, a notification below the warning level
  clears the latch silently; above it, an alert is published exactly when the severity is higher than
  the one last published, and then becomes the latch, so a second notification of the same utilization
  publishes nothing.\<close>

theorem alerts_are_latched:
  assumes th: "Thresholds s = Some th" "0 < warning_utilization_bps th" and c: "0 < c"
    and u: "u = util_bps_of d c" and t: "t = on_utilization_changed h d c s"
  shows "(u < warning_utilization_bps th \<longrightarrow> latch t = 0 \<and> events t = events s) \<and>
         (warning_utilization_bps th \<le> u \<and> latch s < severity_discriminant (severity_for_util u th) \<longrightarrow>
            latch t = severity_discriminant (severity_for_util u th) \<and>
            events t = events s @ [RiskUtilizationAlertEvent (latch t) u d c (now h)]) \<and>
         (warning_utilization_bps th \<le> u \<and> severity_discriminant (severity_for_util u th) \<le> latch s \<longrightarrow> t = s) \<and>
         events (on_utilization_changed h' d c t) = events t"
proof -
  note first = on_utilization_changed_alert [OF th c u t]
  have "Thresholds t = Some th"
    unfolding t by (rule on_utilization_changed_frame [of h d c s]) (simp add: th(1))
  note second = on_utilization_changed_alert [OF this th(2) c u refl, of h']
  from first second show ?thesis by (auto split: if_splits)
qed

definition risk_sample :: lending_state where
  "risk_sample = sample_state\<lparr>Thresholds := Some \<lparr>warning_utilization_bps = 50, critical_utilization_bps = 80,
     emergency_utilization_bps = 95\<rparr>\<rparr>"

lemma util_sample: "util_bps_of 85 10000 = 85"
  by (simp add: util_bps_of_def saturating_mul_def saturating_div_def saturate_def i128_defs sdiv_nonneg_eq u32_max_def)

theorem alerts_are_latched_witness:
  "let t = on_utilization_changed (sample_host 0) 85 10000 risk_sample in
     events t = [RiskUtilizationAlertEvent 2 85 85 10000 0] \<and>
     events (on_utilization_changed (sample_host 1) 85 10000 t) = events t"
proof -
  let ?th = "\<lparr>warning_utilization_bps = 50, critical_utilization_bps = 80, emergency_utilization_bps = 95\<rparr>"
  have s: "severity_for_util 85 ?th = Critical" "latch risk_sample = 0" "events risk_sample = []"
    "Thresholds risk_sample = Some ?th" "now (sample_host 0) = 0"
    by (simp_all add: severity_for_util_def latch_def risk_sample_def sample_state_def empty_storage_def sample_host_def)
  show ?thesis
    using alerts_are_latched [of risk_sample ?th 10000 85 85 _ "sample_host 0" "sample_host 1", OF _ _ _ _ refl]
    by (simp add: util_sample s Let_def)
qed

end
