(* ===== verification/Borrow.thy ===== *)
theory Borrow
  imports Pause Risk_Monitor
begin

text \<open>
  The borrow module: src/stellar-lend/contracts/lending/src/borrow.rs. Debt positions per user and
  rate type, the collateral posted with them, the protocol's total debt, interest accrual and the
  admin's settings. This theory holds the definitions; Borrow_Facts and Borrow_Accounting hold
  what is proved about them.
\<close>

definition COLLATERAL_RATIO_MIN :: i128 where
  "COLLATERAL_RATIO_MIN = 15000"

definition SECONDS_PER_YEAR :: u64 where
  "SECONDS_PER_YEAR = 31536000"

definition DEFAULT_STABLE_PREMIUM_BPS :: i128 where
  "DEFAULT_STABLE_PREMIUM_BPS = 100"

definition DEFAULT_STABLE_RECALC_INTERVAL_SECS :: u64 where
  "DEFAULT_STABLE_RECALC_INTERVAL_SECS = 6 * 3600"

definition DEFAULT_SWITCH_FEE_BPS :: i128 where
  "DEFAULT_SWITCH_FEE_BPS = 10"

section \<open>Settings\<close>

definition get_current_variable_rate_bps :: "host \<Rightarrow> lending_state \<Rightarrow> BorrowError + i128" where
  "get_current_variable_rate_bps h s = (case borrow_rate_bps h s of
     Inl e \<Rightarrow> Inl (borrow_error_of e) | Inr r \<Rightarrow> Inr r)"

text \<open>The guard every admin setter starts with.\<close>

definition check_admin ::
    "host \<Rightarrow> address \<Rightarrow> (lending_state, BorrowError, 'a) contract_fn \<Rightarrow> (lending_state, BorrowError, 'a) contract_fn" where
  "check_admin h admin k =
     reads get_admin (\<lambda>current_opt.
     ok_or current_opt BorrowError.Unauthorized (\<lambda>current.
     fail_if (admin \<noteq> current) BorrowError.Unauthorized (
     tryM (require_auth h admin) (\<lambda>_. k))))"

definition set_variable_borrow_rate_bps ::
    "host \<Rightarrow> address \<Rightarrow> i128 \<Rightarrow> (lending_state, BorrowError, unit) contract_fn" where
  "set_variable_borrow_rate_bps h admin rate_bps =
     check_admin h admin (
     fail_if (\<not> (0 \<le> rate_bps \<and> rate_bps \<le> 10000)) BorrowError.InvalidAmount (
     let update = \<lparr>u_base_rate_bps = Some rate_bps, u_kink_utilization_bps = None,
                   u_slope_bps = None, u_jump_slope_bps = None, u_rate_floor_bps = None,
                   u_rate_ceiling_bps = None, u_spread_bps = None\<rparr> in
     tryM (map_err borrow_error_of (update_config h admin update)) (\<lambda>_. ret ())))"

definition get_stable_rate_premium_bps :: "lending_state \<Rightarrow> i128" where
  "get_stable_rate_premium_bps s = unwrap_or (StableRatePremiumBps s) DEFAULT_STABLE_PREMIUM_BPS"

definition get_stable_rate_recalc_interval_secs :: "lending_state \<Rightarrow> u64" where
  "get_stable_rate_recalc_interval_secs s =
     unwrap_or (StableRateRecalcIntervalSecs s) DEFAULT_STABLE_RECALC_INTERVAL_SECS"

definition get_rate_switch_fee_bps :: "lending_state \<Rightarrow> i128" where
  "get_rate_switch_fee_bps s = unwrap_or (RateSwitchFeeBps s) DEFAULT_SWITCH_FEE_BPS"

definition get_stable_rate_state :: "host \<Rightarrow> lending_state \<Rightarrow> StableRateState" where
  "get_stable_rate_state h s = unwrap_or (StableRateStateKey s)
     \<lparr>avg_rate_bps = (case get_current_variable_rate_bps h s of Inr v \<Rightarrow> v | Inl _ \<Rightarrow> 0),
      srs_last_update = now h\<rparr>"

definition update_stable_rate_state_if_needed ::
    "host \<Rightarrow> lending_state \<Rightarrow> StableRateState \<times> lending_state" where
  "update_stable_rate_state_if_needed h s =
     (let state = get_stable_rate_state h s;
          interval = get_stable_rate_recalc_interval_secs s in
      if now h \<le> srs_last_update state then (state, s)
      else if interval = 0 \<or> now h - srs_last_update state < interval then (state, s)
      else
        (let current = (case get_current_variable_rate_bps h s of
               Inr v \<Rightarrow> v | Inl _ \<Rightarrow> avg_rate_bps state);
             new_avg = unwrap_or
               (Option.bind (checked_mul (avg_rate_bps state) 9) (\<lambda>v.
                Option.bind (checked_add v current) (\<lambda>v. checked_div v 10))) current;
             state' = \<lparr>avg_rate_bps = new_avg, srs_last_update = now h\<rparr>
         in (state', s\<lparr>StableRateStateKey := Some state'\<rparr>)))"

definition get_current_stable_rate_bps :: "host \<Rightarrow> (lending_state, BorrowError, i128) contract_fn" where
  "get_current_stable_rate_bps h = (\<lambda>s.
     let (state, s') = update_stable_rate_state_if_needed h s;
         premium = get_stable_rate_premium_bps s'
     in ok_or (checked_add (avg_rate_bps state) premium) BorrowError.Overflow ret s')"

definition get_min_borrow_amount :: "lending_state \<Rightarrow> i128" where
  "get_min_borrow_amount s = unwrap_or (BorrowMinAmount s) 1000"

definition get_oracle :: "lending_state \<Rightarrow> address option" where
  "get_oracle s = OracleAddress s"

definition get_stablecoin_config :: "lending_state \<Rightarrow> address \<Rightarrow> StablecoinConfig option" where
  "get_stablecoin_config s asset = AssetStablecoinConfig s asset"

definition get_liquidation_threshold_bps :: "lending_state \<Rightarrow> i128" where
  "get_liquidation_threshold_bps s = unwrap_or (LiquidationThresholdBps s) 8000"

definition get_close_factor_bps :: "lending_state \<Rightarrow> i128" where
  "get_close_factor_bps s = unwrap_or (CloseFactorBps s) 5000"

definition get_liquidation_incentive_bps :: "lending_state \<Rightarrow> i128" where
  "get_liquidation_incentive_bps s = unwrap_or (LiquidationIncentiveBps s) 1000"

definition get_interest_index :: "lending_state \<Rightarrow> i128" where
  "get_interest_index s = unwrap_or (InterestIndex s) 1000000000"

definition set_interest_index :: "i128 \<Rightarrow> lending_state \<Rightarrow> lending_state" where
  "set_interest_index index s = s\<lparr>InterestIndex := Some index\<rparr>"

definition set_admin :: "address \<Rightarrow> lending_state \<Rightarrow> lending_state" where
  "set_admin admin s = s\<lparr>ProtocolAdmin := Some admin\<rparr>"

definition set_oracle :: "host \<Rightarrow> address \<Rightarrow> address \<Rightarrow> (lending_state, BorrowError, unit) contract_fn" where
  "set_oracle h admin oracle =
     check_admin h admin (
     writes (\<lambda>s. s\<lparr>OracleAddress := Some oracle\<rparr>) (ret ()))"

definition set_liquidation_threshold_bps ::
    "host \<Rightarrow> address \<Rightarrow> i128 \<Rightarrow> (lending_state, BorrowError, unit) contract_fn" where
  "set_liquidation_threshold_bps h admin bps =
     check_admin h admin (
     fail_if (bps \<le> 0 \<or> bps > 10000) BorrowError.InvalidAmount (
     writes (\<lambda>s. s\<lparr>LiquidationThresholdBps := Some bps\<rparr>) (ret ())))"

definition set_close_factor_bps ::
    "host \<Rightarrow> address \<Rightarrow> i128 \<Rightarrow> (lending_state, BorrowError, unit) contract_fn" where
  "set_close_factor_bps h admin bps =
     check_admin h admin (
     fail_if (bps \<le> 0 \<or> bps > 10000) BorrowError.InvalidAmount (
     writes (\<lambda>s. s\<lparr>CloseFactorBps := Some bps\<rparr>) (ret ())))"

definition set_liquidation_incentive_bps ::
    "host \<Rightarrow> address \<Rightarrow> i128 \<Rightarrow> (lending_state, BorrowError, unit) contract_fn" where
  "set_liquidation_incentive_bps h admin bps =
     check_admin h admin (
     fail_if (\<not> (0 \<le> bps \<and> bps \<le> 10000)) BorrowError.InvalidAmount (
     writes (\<lambda>s. s\<lparr>LiquidationIncentiveBps := Some bps\<rparr>) (ret ())))"

definition set_stablecoin_config ::
    "host \<Rightarrow> address \<Rightarrow> address \<Rightarrow> StablecoinConfig \<Rightarrow> (lending_state, BorrowError, unit) contract_fn" where
  "set_stablecoin_config h admin asset config =
     check_admin h admin (
     writes (\<lambda>s. s\<lparr>AssetStablecoinConfig := (AssetStablecoinConfig s)(asset \<mapsto> config)\<rparr>) (ret ()))"

definition set_if_absent :: "('a option) \<Rightarrow> 'a \<Rightarrow> 'a option" where
  "set_if_absent x d = (if x = None then Some d else x)"

definition initialize_borrow_settings ::
    "host \<Rightarrow> i128 \<Rightarrow> i128 \<Rightarrow> (lending_state, BorrowError, unit) contract_fn" where
  "initialize_borrow_settings h debt_ceiling min_borrow_amount =
     writes (\<lambda>s. s\<lparr>BorrowDebtCeiling := Some debt_ceiling\<rparr>) (
     writes (\<lambda>s. s\<lparr>BorrowMinAmount := Some min_borrow_amount\<rparr>) (
     writes (set_default_if_missing h) (
     writes (\<lambda>s. s\<lparr>StableRatePremiumBps := set_if_absent (StableRatePremiumBps s) DEFAULT_STABLE_PREMIUM_BPS\<rparr>) (
     writes (\<lambda>s. s\<lparr>StableRateRecalcIntervalSecs :=
                 set_if_absent (StableRateRecalcIntervalSecs s) DEFAULT_STABLE_RECALC_INTERVAL_SECS\<rparr>) (
     writes (\<lambda>s. s\<lparr>RateSwitchFeeBps := set_if_absent (RateSwitchFeeBps s) DEFAULT_SWITCH_FEE_BPS\<rparr>)
     (ret ()))))))"

section \<open>Positions\<close>

definition get_debt_position ::
    "host \<Rightarrow> lending_state \<Rightarrow> address \<Rightarrow> address option \<Rightarrow> RateType \<Rightarrow> DebtPosition" where
  "get_debt_position h s user default_asset rt =
     (let stored = (case rt of Variable \<Rightarrow> BorrowUserVariableDebt s user
                             | Stable \<Rightarrow> BorrowUserStableDebt s user);
          empty = \<lparr>borrowed_amount = 0, interest_accrued = 0, last_update = now h,
                   debt_asset = unwrap_or default_asset user, rate_type = rt, stable_rate_bps = 0\<rparr> in
      if stored = None \<and> rt = Variable then
        (case BorrowUserDebt s user of
           Some legacy \<Rightarrow>
             \<lparr>borrowed_amount = borrowed_amount legacy, interest_accrued = interest_accrued legacy,
              last_update = last_update legacy, debt_asset = debt_asset legacy,
              rate_type = Variable, stable_rate_bps = 0\<rparr>
         | None \<Rightarrow> unwrap_or stored empty)
      else unwrap_or stored empty)"

definition update_compat_user_debt :: "host \<Rightarrow> address \<Rightarrow> lending_state \<Rightarrow> lending_state" where
  "update_compat_user_debt h user s =
     (let v = BorrowUserVariableDebt s user;
          st = BorrowUserStableDebt s user;
          chosen = (case v of
            Some pos \<Rightarrow> if borrowed_amount pos > 0 \<or> interest_accrued pos > 0 then Some pos else st
          | None \<Rightarrow> st) in
      case chosen of
        Some pos \<Rightarrow> s\<lparr>BorrowUserDebt := (BorrowUserDebt s)(user \<mapsto> pos)\<rparr>
      | None \<Rightarrow> s\<lparr>BorrowUserDebt := (BorrowUserDebt s)(user \<mapsto>
          \<lparr>borrowed_amount = 0, interest_accrued = 0, last_update = now h, debt_asset = user,
           rate_type = Variable, stable_rate_bps = 0\<rparr>)\<rparr>)"

definition save_debt_position :: "host \<Rightarrow> address \<Rightarrow> DebtPosition \<Rightarrow> lending_state \<Rightarrow> lending_state" where
  "save_debt_position h user position s =
     update_compat_user_debt h user
       (case rate_type position of
          Variable \<Rightarrow> s\<lparr>BorrowUserVariableDebt := (BorrowUserVariableDebt s)(user \<mapsto> position)\<rparr>
        | Stable \<Rightarrow> s\<lparr>BorrowUserStableDebt := (BorrowUserStableDebt s)(user \<mapsto> position)\<rparr>)"

definition get_collateral_position :: "lending_state \<Rightarrow> address \<Rightarrow> BorrowCollateral" where
  "get_collateral_position s user =
     unwrap_or (BorrowUserCollateral s user) \<lparr>bc_amount = 0, bc_asset = user\<rparr>"

definition save_collateral_position :: "address \<Rightarrow> BorrowCollateral \<Rightarrow> lending_state \<Rightarrow> lending_state" where
  "save_collateral_position user position s =
     s\<lparr>BorrowUserCollateral := (BorrowUserCollateral s)(user \<mapsto> position)\<rparr>"

definition set_total_debt :: "i128 \<Rightarrow> lending_state \<Rightarrow> lending_state" where
  "set_total_debt amount s = s\<lparr>BorrowTotalDebt := Some amount\<rparr>"

definition emit_borrow_event ::
    "host \<Rightarrow> address \<Rightarrow> address \<Rightarrow> i128 \<Rightarrow> i128 \<Rightarrow> lending_state \<Rightarrow> lending_state" where
  "emit_borrow_event h user asset amount collateral = publish (BorrowEvent user asset amount collateral (now h))"

section \<open>Interest\<close>

text \<open>\<open>borrowed.mul(rate).mul(time).div(10000).div(SECONDS_PER_YEAR)\<close> in 256 bits.\<close>

definition i256_interest :: "int \<Rightarrow> int \<Rightarrow> int \<Rightarrow> int option" where
  "i256_interest borrowed rate time =
     Option.bind (i256_mul borrowed rate) (\<lambda>x.
     Option.bind (i256_mul x time) (\<lambda>y.
     Option.bind (i256_div y 10000) (\<lambda>z.
     i256_div z (int SECONDS_PER_YEAR))))"

text \<open>The constant as an integer literal, for evaluation.\<close>

lemma i256_interest_code [code]:
  "i256_interest borrowed rate time =
     Option.bind (i256_mul borrowed rate) (\<lambda>x.
     Option.bind (i256_mul x time) (\<lambda>y.
     Option.bind (i256_div y 10000) (\<lambda>z.
     i256_div z 31536000)))"
  by (simp add: i256_interest_def SECONDS_PER_YEAR_def)

definition peg_deviation_bps :: "StablecoinConfig \<Rightarrow> i128 \<Rightarrow> i128" where
  "peg_deviation_bps config price =
     (let deviation = saturating_sub (target_price config) price in
      if target_price config > 0
      then saturating_div (saturating_mul deviation 10000) (target_price config)
      else 0)"

definition add_stability_fee ::
    "host \<Rightarrow> DebtPosition \<Rightarrow> int \<Rightarrow> int \<Rightarrow> (lending_state, BorrowError, int) contract_fn" where
  "add_stability_fee h position time interest =
     reads (\<lambda>s. get_stablecoin_config s (debt_asset position)) (\<lambda>config_opt.
     case config_opt of
       None \<Rightarrow> ret interest
     | Some config \<Rightarrow>
         reads get_oracle (\<lambda>oracle_opt.
         case oracle_opt of
           None \<Rightarrow> ret interest
         | Some oracle \<Rightarrow>
             unwrap (oracle_price h oracle (debt_asset position)) (\<lambda>price.
             let deviation_bps = peg_deviation_bps config price in
             if deviation_bps > peg_threshold_bps config then
               unwrap (i256_interest (borrowed_amount position) (stability_fee_bps config) time) (\<lambda>fee.
               unwrap (i256_add interest fee) (\<lambda>interest'.
               writes (publish (PegDeviationEvent (debt_asset position) price (target_price config)
                                 deviation_bps (now h))) (
               writes (publish (StabilityFeeAppliedEvent (debt_asset position)
                                 (stability_fee_bps config) (now h)))
               (ret interest'))))
             else ret interest)))"

definition position_rate ::
    "host \<Rightarrow> DebtPosition \<Rightarrow> (lending_state, BorrowError, i128) contract_fn" where
  "position_rate h position = (case rate_type position of
     Variable \<Rightarrow> reads (get_current_variable_rate_bps h) liftE
   | Stable \<Rightarrow> (if stable_rate_bps position > 0 then ret (stable_rate_bps position)
                else get_current_stable_rate_bps h))"

definition calculate_interest ::
    "host \<Rightarrow> DebtPosition \<Rightarrow> (lending_state, BorrowError, i128) contract_fn" where
  "calculate_interest h position =
     (if borrowed_amount position = 0 then ret 0
      else
        (let time_elapsed = int (now h - last_update position) in
         tryM (position_rate h position) (\<lambda>rate_bps.
         unwrap (i256_interest (borrowed_amount position) rate_bps time_elapsed) (\<lambda>interest.
         tryM (add_stability_fee h position time_elapsed interest) (\<lambda>interest'.
         ok_or (to_i128 interest') BorrowError.Overflow ret)))))"

definition validate_collateral_ratio :: "i128 \<Rightarrow> i128 \<Rightarrow> BorrowError + unit" where
  "validate_collateral_ratio collateral borrow =
     ok_orE (checked_mul borrow COLLATERAL_RATIO_MIN) BorrowError.Overflow (\<lambda>m.
     ok_orE (checked_div m 10000) BorrowError.InvalidAmount (\<lambda>min_collateral.
     if collateral < min_collateral then Inl BorrowError.InsufficientCollateral else Inr ()))"

section \<open>Borrowing\<close>

definition borrow_inner ::
    "host \<Rightarrow> address \<Rightarrow> address \<Rightarrow> i128 \<Rightarrow> address \<Rightarrow> i128 \<Rightarrow> RateType \<Rightarrow> BorrowAuth
     \<Rightarrow> (lending_state, BorrowError, unit) contract_fn" where
  "borrow_inner h user asset amount collateral_asset collateral_amount rt auth =
     tryM (if auth = RequireUserSignature then require_auth h user else ret ()) (\<lambda>_.
     reads (\<lambda>s. is_paused s Borrow) (\<lambda>paused.
     fail_if paused ProtocolPaused (
     fail_if (amount \<le> 0 \<or> collateral_amount \<le> 0) BorrowError.InvalidAmount (
     reads get_min_borrow_amount (\<lambda>min_borrow.
     fail_if (amount < min_borrow) BelowMinimumBorrow (
     tryM (liftE (validate_collateral_ratio collateral_amount amount)) (\<lambda>_.
     reads get_total_debt (\<lambda>total_debt.
     reads get_debt_ceiling (\<lambda>debt_ceiling.
     ok_or (checked_add total_debt amount) BorrowError.Overflow (\<lambda>new_total.
     fail_if (new_total > debt_ceiling) DebtCeilingReached (
     reads (\<lambda>s. get_debt_position h s user (Some asset) rt) (\<lambda>p0.
     let p1 = p0\<lparr>rate_type := rt\<rparr> in
     tryM (calculate_interest h p1) (\<lambda>accrued_interest.
     ok_or (checked_add (borrowed_amount p1) amount) BorrowError.Overflow (\<lambda>new_borrowed.
     ok_or (checked_add (interest_accrued p1) accrued_interest) BorrowError.Overflow (\<lambda>new_interest.
     let p2 = p1\<lparr>borrowed_amount := new_borrowed, interest_accrued := new_interest,
                 last_update := now h, debt_asset := asset\<rparr> in
     tryM (if rt = Stable
           then tryM (get_current_stable_rate_bps h) (\<lambda>r. ret (p2\<lparr>stable_rate_bps := r\<rparr>))
           else ret p2) (\<lambda>debt_position.
     reads (\<lambda>s. get_collateral_position s user) (\<lambda>c0.
     ok_or (checked_add (bc_amount c0) collateral_amount) BorrowError.Overflow (\<lambda>new_collateral.
     let collateral_position = \<lparr>bc_amount = new_collateral, bc_asset = collateral_asset\<rparr> in
     writes (save_debt_position h user debt_position) (
     writes (save_collateral_position user collateral_position) (
     writes (set_total_debt new_total) (
     writes (on_utilization_changed h new_total debt_ceiling) (
     writes (emit_borrow_event h user asset amount collateral_amount)
     (ret ())))))))))))))))))))))))"

definition borrow_with_rate ::
    "host \<Rightarrow> address \<Rightarrow> address \<Rightarrow> i128 \<Rightarrow> address \<Rightarrow> i128 \<Rightarrow> RateType
     \<Rightarrow> (lending_state, BorrowError, unit) contract_fn" where
  "borrow_with_rate h user asset amount collateral_asset collateral_amount rt =
     borrow_inner h user asset amount collateral_asset collateral_amount rt RequireUserSignature"

definition borrow ::
    "host \<Rightarrow> address \<Rightarrow> address \<Rightarrow> i128 \<Rightarrow> address \<Rightarrow> i128 \<Rightarrow> (lending_state, BorrowError, unit) contract_fn" where
  "borrow h user asset amount collateral_asset collateral_amount =
     borrow_with_rate h user asset amount collateral_asset collateral_amount Variable"

definition borrow_trusted ::
    "host \<Rightarrow> address \<Rightarrow> address \<Rightarrow> i128 \<Rightarrow> address \<Rightarrow> i128 \<Rightarrow> (lending_state, BorrowError, unit) contract_fn" where
  "borrow_trusted h user asset amount collateral_asset collateral_amount =
     borrow_inner h user asset amount collateral_asset collateral_amount Variable TrustedCommitment"

definition borrow_from_commitment ::
    "host \<Rightarrow> address \<Rightarrow> address \<Rightarrow> i128 \<Rightarrow> address \<Rightarrow> i128 \<Rightarrow> (lending_state, BorrowError, unit) contract_fn" where
  "borrow_from_commitment h user asset amount collateral_asset collateral_amount =
     borrow_inner h user asset amount collateral_asset collateral_amount Variable TrustedCommitment"

section \<open>Collateral, repayment, rate switch\<close>

definition deposit_collateral_inner ::
    "host \<Rightarrow> address \<Rightarrow> address \<Rightarrow> i128 \<Rightarrow> (lending_state, BorrowError, unit) contract_fn" where
  "deposit_collateral_inner h user asset amount =
     fail_if (amount \<le> 0) BorrowError.InvalidAmount (
     reads (\<lambda>s. get_collateral_position s user) (\<lambda>c0.
     fail_if (bc_amount c0 \<noteq> 0 \<and> bc_asset c0 \<noteq> asset) BorrowError.AssetNotSupported (
     let c1 = (if bc_amount c0 = 0 then c0\<lparr>bc_asset := asset\<rparr> else c0) in
     ok_or (checked_add (bc_amount c1) amount) BorrowError.Overflow (\<lambda>new_amount.
     writes (save_collateral_position user (c1\<lparr>bc_amount := new_amount\<rparr>)) (
     writes (publish (BorrowCollateralDepositEvent user asset amount (now h)))
     (ret ()))))))"

definition repay_with_rate ::
    "host \<Rightarrow> address \<Rightarrow> address \<Rightarrow> i128 \<Rightarrow> RateType \<Rightarrow> (lending_state, BorrowError, unit) contract_fn" where
  "repay_with_rate h user asset amount rt =
     fail_if (amount \<le> 0) BorrowError.InvalidAmount (
     reads (\<lambda>s. get_debt_position h s user (Some asset) rt) (\<lambda>p0.
     let p1 = p0\<lparr>rate_type := rt\<rparr> in
     fail_if (borrowed_amount p1 = 0 \<and> interest_accrued p1 = 0) BorrowError.InvalidAmount (
     fail_if (debt_asset p1 \<noteq> asset) BorrowError.AssetNotSupported (
     tryM (calculate_interest h p1) (\<lambda>accrued_interest.
     ok_or (checked_add (interest_accrued p1) accrued_interest) BorrowError.Overflow (\<lambda>interest.
     let p2 = p1\<lparr>interest_accrued := interest, last_update := now h\<rparr> in
     tryM (if amount \<ge> interest
           then unwrap (checked_sub amount interest) (\<lambda>rest. ret (rest, p2\<lparr>interest_accrued := 0\<rparr>))
           else unwrap (checked_sub interest amount) (\<lambda>i. ret (0, p2\<lparr>interest_accrued := i\<rparr>)))
     (\<lambda>(remaining_repayment, p3).
     tryM (if remaining_repayment > 0 then
             fail_if (remaining_repayment > borrowed_amount p3) RepayAmountTooHigh (
             unwrap (checked_sub (borrowed_amount p3) remaining_repayment) (\<lambda>b.
             reads get_total_debt (\<lambda>total_debt.
             ok_or (checked_sub total_debt remaining_repayment) BorrowError.Overflow (\<lambda>new_total.
             writes (set_total_debt new_total) (ret (p3\<lparr>borrowed_amount := b\<rparr>))))))
           else ret p3) (\<lambda>debt_position.
     writes (save_debt_position h user debt_position) (
     writes (publish (RepayEvent user asset amount (now h)))
     (ret ()))))))))))"

definition repay ::
    "host \<Rightarrow> address \<Rightarrow> address \<Rightarrow> i128 \<Rightarrow> (lending_state, BorrowError, unit) contract_fn" where
  "repay h user asset amount =
     reads (\<lambda>s. get_debt_position h s user (Some asset) Variable) (\<lambda>variable.
     if borrowed_amount variable > 0 \<or> interest_accrued variable > 0
     then repay_with_rate h user asset amount Variable
     else repay_with_rate h user asset amount Stable)"

definition switch_rate_type ::
    "host \<Rightarrow> address \<Rightarrow> address \<Rightarrow> RateType \<Rightarrow> (lending_state, BorrowError, unit) contract_fn" where
  "switch_rate_type h user asset to_rate_type =
     tryM (require_auth h user) (\<lambda>_.
     let from_rate_type = (if to_rate_type = Variable then Stable else Variable) in
     reads (\<lambda>s. get_debt_position h s user (Some asset) from_rate_type) (\<lambda>f0.
     let f1 = f0\<lparr>rate_type := from_rate_type\<rparr> in
     fail_if (borrowed_amount f1 = 0 \<and> interest_accrued f1 = 0) BorrowError.InvalidAmount (
     reads (\<lambda>s. get_debt_position h s user (Some asset) to_rate_type) (\<lambda>t0.
     let t1 = t0\<lparr>rate_type := to_rate_type\<rparr> in
     fail_if (borrowed_amount t1 \<noteq> 0 \<or> interest_accrued t1 \<noteq> 0) BorrowError.AssetNotSupported (
     tryM (calculate_interest h f1) (\<lambda>accrued_interest.
     ok_or (checked_add (interest_accrued f1) accrued_interest) BorrowError.Overflow (\<lambda>interest1.
     reads get_rate_switch_fee_bps (\<lambda>fee_bps.
     ok_or (checked_mul (borrowed_amount f1) fee_bps) BorrowError.Overflow (\<lambda>m.
     ok_or (checked_div m 10000) BorrowError.Overflow (\<lambda>fee.
     ok_or (checked_add interest1 fee) BorrowError.Overflow (\<lambda>interest2.
     let t2 = t1\<lparr>borrowed_amount := borrowed_amount f1, interest_accrued := interest2,
                 last_update := now h, debt_asset := asset\<rparr> in
     tryM (if to_rate_type = Stable
           then tryM (get_current_stable_rate_bps h) (\<lambda>r. ret (t2\<lparr>stable_rate_bps := r\<rparr>))
           else ret t2) (\<lambda>to_position.
     let from_position = f1\<lparr>borrowed_amount := 0, interest_accrued := 0, last_update := now h,
                            stable_rate_bps := 0\<rparr> in
     writes (save_debt_position h user from_position) (
     writes (save_debt_position h user to_position)
     (ret ()))))))))))))))"

section \<open>Views of a position\<close>

text \<open>The read-only accrual of \<open>get_user_debt\<close> and \<open>get_user_debt_with_rate\<close>: an overflow is
  reported as the largest value, any other error leaves the stored interest.\<close>

definition accrue_view :: "host \<Rightarrow> DebtPosition \<Rightarrow> (lending_state, BorrowError, DebtPosition) contract_fn" where
  "accrue_view h position = (\<lambda>s. case calculate_interest h position s of
     (Ok accrued, s') \<Rightarrow>
        (Ok (position\<lparr>interest_accrued := saturating_add (interest_accrued position) accrued\<rparr>), s')
   | (Err e, s') \<Rightarrow>
        (if e = BorrowError.Overflow then (Ok (position\<lparr>interest_accrued := i128_max\<rparr>), s')
         else (Ok position, s'))
   | (Panic, s') \<Rightarrow> (Panic, s'))"

definition get_user_debt :: "host \<Rightarrow> address \<Rightarrow> (lending_state, BorrowError, DebtPosition) contract_fn" where
  "get_user_debt h user =
     reads (\<lambda>s. get_debt_position h s user None Variable) (\<lambda>variable.
     reads (\<lambda>s. get_debt_position h s user None Stable) (\<lambda>stable.
     accrue_view h (if borrowed_amount variable > 0 \<or> interest_accrued variable > 0
                    then variable else stable)))"

definition get_user_debt_with_rate ::
    "host \<Rightarrow> address \<Rightarrow> RateType \<Rightarrow> (lending_state, BorrowError, DebtPosition) contract_fn" where
  "get_user_debt_with_rate h user rt =
     reads (\<lambda>s. get_debt_position h s user None rt) (accrue_view h)"

definition get_user_collateral :: "lending_state \<Rightarrow> address \<Rightarrow> BorrowCollateral" where
  "get_user_collateral s user = get_collateral_position s user"

end
