(* ===== verification/Borrow_Facts.thy ===== *)
theory Borrow_Facts
  imports Borrow
begin

text \<open>
  Facts about the operations of the borrow module that the other theories build on: what accrual
  may touch, when an admin setter takes effect, how positions are read back, and what a successful
  borrow, repayment or rate switch has checked and written.
\<close>

section \<open>What accrual touches\<close>

definition accrual_frame :: "lending_state \<Rightarrow> lending_state \<Rightarrow> bool" where
  "accrual_frame s t \<longleftrightarrow> t = s\<lparr>StableRateStateKey := StableRateStateKey t, events := events t\<rparr>"

lemma accrual_frame_refl [simp]: "accrual_frame s s"
  by (simp add: accrual_frame_def)

lemma accrual_frame_trans [trans]:
  assumes "accrual_frame s t" and "accrual_frame t u"
  shows "accrual_frame s u"
proof -
  have "u = t\<lparr>StableRateStateKey := StableRateStateKey u, events := events u\<rparr>"
    using assms(2) by (simp add: accrual_frame_def)
  also have "\<dots> = (s\<lparr>StableRateStateKey := StableRateStateKey t, events := events t\<rparr>)
      \<lparr>StableRateStateKey := StableRateStateKey u, events := events u\<rparr>"
    using assms(1) unfolding accrual_frame_def by (rule arg_cong)
  finally show ?thesis by (simp add: accrual_frame_def)
qed

lemma accrual_frame_publish [simp]: "accrual_frame s (publish e s)"
  by (simp add: accrual_frame_def publish_def)

lemma accrual_frame_stable [simp]: "accrual_frame s (s\<lparr>StableRateStateKey := x\<rparr>)"
  by (simp add: accrual_frame_def)

lemma accrual_frameE:
  assumes "accrual_frame s t"
  obtains x es where "t = s\<lparr>StableRateStateKey := x, events := es\<rparr>"
  using assms unfolding accrual_frame_def by blast

lemma accrual_frame_fields:
  assumes "accrual_frame s t"
  shows "BorrowUserVariableDebt t = BorrowUserVariableDebt s"
    "BorrowUserStableDebt t = BorrowUserStableDebt s" "BorrowUserDebt t = BorrowUserDebt s"
    "BorrowTotalDebt t = BorrowTotalDebt s" "BorrowDebtCeiling t = BorrowDebtCeiling s"
    "BorrowInterestRate t = BorrowInterestRate s" "BorrowUserCollateral t = BorrowUserCollateral s"
    "ProtocolAdmin t = ProtocolAdmin s" "OracleAddress t = OracleAddress s"
    "AssetStablecoinConfig t = AssetStablecoinConfig s" "RateSwitchFeeBps t = RateSwitchFeeBps s"
    "LiquidationThresholdBps t = LiquidationThresholdBps s"
    "State t = State s" "UserCollateral t = UserCollateral s" "TotalAmount t = TotalAmount s"
  using assms by (auto elim!: accrual_frameE)

lemma borrow_rate_bps_cong:
  assumes "BorrowInterestRate t = BorrowInterestRate s" "BorrowTotalDebt t = BorrowTotalDebt s"
    "BorrowDebtCeiling t = BorrowDebtCeiling s"
  shows "borrow_rate_bps h t = borrow_rate_bps h s"
  unfolding borrow_rate_bps_def utilization_bps_def get_config_def get_total_debt_def
    get_debt_ceiling_def assms ..

lemma get_debt_position_cong:
  assumes "BorrowUserVariableDebt t = BorrowUserVariableDebt s"
    "BorrowUserStableDebt t = BorrowUserStableDebt s" "BorrowUserDebt t = BorrowUserDebt s"
  shows "get_debt_position h t u d r = get_debt_position h s u d r"
  unfolding get_debt_position_def assms ..

lemma accrual_frame_reads:
  assumes "accrual_frame s t"
  shows "get_total_debt t = get_total_debt s" "get_debt_ceiling t = get_debt_ceiling s"
    "get_debt_position h t u d r = get_debt_position h s u d r"
    "get_collateral_position t u = get_collateral_position s u"
    "get_admin t = get_admin s" "get_oracle t = get_oracle s"
    "get_stablecoin_config t a = get_stablecoin_config s a"
    "borrow_rate_bps h t = borrow_rate_bps h s"
    "get_rate_switch_fee_bps t = get_rate_switch_fee_bps s"
    "get_liquidation_threshold_bps t = get_liquidation_threshold_bps s"
    "is_paused t p = is_paused s p"
  using accrual_frame_fields [OF assms]
  by (simp_all add: get_total_debt_def get_debt_ceiling_def get_collateral_position_def get_admin_def
      get_oracle_def get_stablecoin_config_def get_rate_switch_fee_bps_def
      get_liquidation_threshold_bps_def is_paused_cong [of t s] borrow_rate_bps_cong [of t s]
      get_debt_position_cong [of t s])

lemma get_current_stable_rate_bps_frame:
  "get_current_stable_rate_bps h s = (r, t) \<Longrightarrow> accrual_frame s t"
  by (auto simp: get_current_stable_rate_bps_def update_stable_rate_state_if_needed_def Let_def
      run_simps split: if_splits option.splits prod.splits)

lemma position_rate_frame: "position_rate h p s = (r, t) \<Longrightarrow> accrual_frame s t"
  by (auto simp: position_rate_def run_simps split: RateType.splits if_splits sum.splits
      dest: get_current_stable_rate_bps_frame)

lemma accrual_frame_publish2: "accrual_frame s (publish e (publish e' s))"
  by (rule accrual_frame_trans [of _ "publish e' s"]) simp_all

lemma add_stability_fee_frame: "add_stability_fee h p tm i s = (r, t) \<Longrightarrow> accrual_frame s t"
  by (auto simp: add_stability_fee_def run_simps Let_def accrual_frame_publish2
      split: option.splits if_splits)

lemma calculate_interest_frame:
  assumes "calculate_interest h p s = (r, t)"
  shows "accrual_frame s t"
proof (cases "borrowed_amount p = 0")
  case True
  with assms show ?thesis by (simp add: calculate_interest_def)
next
  case False
  obtain r1 s1 where r1: "position_rate h p s = (r1, s1)" by (cases "position_rate h p s") auto
  then have f1: "accrual_frame s s1" by (rule position_rate_frame)
  have "accrual_frame s1 t \<or> t = s1"
    using assms False r1
    by (auto simp: calculate_interest_def run_simps Let_def
        split: res.splits option.splits prod.splits dest: add_stability_fee_frame)
  with f1 show ?thesis by (auto intro: accrual_frame_trans)
qed

section \<open>Admin setters\<close>

lemma check_admin_Ok [ok_simps]:
  "check_admin h admin k s = (Ok r, t) \<longleftrightarrow> get_admin s = Some admin \<and> signed h admin \<and> k s = (Ok r, t)"
  by (auto simp: check_admin_def ok_simps)

interpretation set_oracle: admin_gated get_admin "signed h" "\<lambda>a. set_oracle h a orc" for h orc
  by unfold_locales (simp add: set_oracle_def ok_simps)

interpretation set_liquidation_threshold: admin_gated get_admin "signed h"
    "\<lambda>a. set_liquidation_threshold_bps h a bps" for h bps
  by unfold_locales (simp add: set_liquidation_threshold_bps_def ok_simps)

interpretation set_close_factor: admin_gated get_admin "signed h" "\<lambda>a. set_close_factor_bps h a bps" for h bps
  by unfold_locales (simp add: set_close_factor_bps_def ok_simps)

interpretation set_liquidation_incentive: admin_gated get_admin "signed h"
    "\<lambda>a. set_liquidation_incentive_bps h a bps" for h bps
  by unfold_locales (simp add: set_liquidation_incentive_bps_def ok_simps)

interpretation set_stablecoin_config: admin_gated get_admin "signed h"
    "\<lambda>a. set_stablecoin_config h a asset cfg" for h asset cfg
  by unfold_locales (simp add: set_stablecoin_config_def ok_simps)

interpretation set_variable_borrow_rate: admin_gated get_admin "signed h"
    "\<lambda>a. set_variable_borrow_rate_bps h a rate" for h rate
  by unfold_locales (simp add: set_variable_borrow_rate_bps_def ok_simps)

section \<open>Reading positions back\<close>

definition stored_debt :: "lending_state \<Rightarrow> RateType \<times> address \<Rightarrow> DebtPosition option" where
  "stored_debt s = (\<lambda>(rt, u). case rt of Variable \<Rightarrow> BorrowUserVariableDebt s u
                                        | Stable \<Rightarrow> BorrowUserStableDebt s u)"

lemma update_compat_only_legacy:
  obtains d where "update_compat_user_debt h u s = s\<lparr>BorrowUserDebt := (BorrowUserDebt s)(u \<mapsto> d)\<rparr>"
proof -
  have "\<exists>d. update_compat_user_debt h u s = s\<lparr>BorrowUserDebt := (BorrowUserDebt s)(u \<mapsto> d)\<rparr>"
    unfolding update_compat_user_debt_def Let_def by (simp split: option.split, blast)
  then show ?thesis using that by blast
qed

lemma save_debt_position_fields:
  "BorrowUserVariableDebt (save_debt_position h u p s) =
     (if rate_type p = Variable then (BorrowUserVariableDebt s)(u \<mapsto> p) else BorrowUserVariableDebt s)"
  "BorrowUserStableDebt (save_debt_position h u p s) =
     (if rate_type p = Stable then (BorrowUserStableDebt s)(u \<mapsto> p) else BorrowUserStableDebt s)"
  "BorrowTotalDebt (save_debt_position h u p s) = BorrowTotalDebt s"
  "BorrowDebtCeiling (save_debt_position h u p s) = BorrowDebtCeiling s"
  "BorrowUserCollateral (save_debt_position h u p s) = BorrowUserCollateral s"
  "dom (BorrowUserDebt (save_debt_position h u p s)) = insert u (dom (BorrowUserDebt s))"
  by (cases "rate_type p"; simp add: save_debt_position_def update_compat_user_debt_def Let_def
      split: option.split)+

lemma save_debt_position_frame:
  obtains v st l where "save_debt_position h u p s =
     s\<lparr>BorrowUserVariableDebt := v, BorrowUserStableDebt := st, BorrowUserDebt := l\<rparr>"
proof -
  let ?s1 = "case rate_type p of
      Variable \<Rightarrow> s\<lparr>BorrowUserVariableDebt := (BorrowUserVariableDebt s)(u \<mapsto> p)\<rparr>
    | Stable \<Rightarrow> s\<lparr>BorrowUserStableDebt := (BorrowUserStableDebt s)(u \<mapsto> p)\<rparr>"
  obtain d where "update_compat_user_debt h u ?s1 = ?s1\<lparr>BorrowUserDebt := (BorrowUserDebt ?s1)(u \<mapsto> d)\<rparr>"
    by (rule update_compat_only_legacy)
  then have "save_debt_position h u p s = s\<lparr>BorrowUserVariableDebt := BorrowUserVariableDebt ?s1,
      BorrowUserStableDebt := BorrowUserStableDebt ?s1, BorrowUserDebt := (BorrowUserDebt s)(u \<mapsto> d)\<rparr>"
    by (cases "rate_type p") (simp_all add: save_debt_position_def)
  then show ?thesis by (rule that)
qed

lemma stored_debt_save:
  "stored_debt (save_debt_position h u p s) = (stored_debt s)(((rate_type p), u) \<mapsto> p)"
  by (rule ext) (auto simp: stored_debt_def save_debt_position_fields split: RateType.splits if_splits)

lemma stored_debt_set_total [simp]: "stored_debt (set_total_debt n s) = stored_debt s"
  by (rule ext) (auto simp: stored_debt_def set_total_debt_def split: RateType.splits)

lemma get_debt_position_stored:
  "stored_debt s (rt, u) = Some p \<Longrightarrow> get_debt_position h s u d rt = p"
  by (auto simp: stored_debt_def get_debt_position_def Let_def split: RateType.splits)

text \<open>A legacy-only user is read through the legacy record; otherwise an absent position is empty.\<close>

lemma get_debt_position_absent:
  assumes "stored_debt s (rt, u) = None" and "rt = Variable \<Longrightarrow> BorrowUserDebt s u = None"
  shows "get_debt_position h s u d rt =
    \<lparr>borrowed_amount = 0, interest_accrued = 0, last_update = now h,
     debt_asset = unwrap_or d u, rate_type = rt, stable_rate_bps = 0\<rparr>"
  using assms by (auto simp: stored_debt_def get_debt_position_def Let_def split: RateType.splits)

text \<open>Round trip: what is saved for a user and rate type is what is read back.\<close>

lemma get_save_debt_position: "get_debt_position h' (save_debt_position h u p s) u d (rate_type p) = p"
  by (rule get_debt_position_stored) (simp add: stored_debt_save)

section \<open>Successful operations\<close>

lemma validate_collateral_ratio_Inr [ok_simps]:
  "validate_collateral_ratio c b = Inr () \<longleftrightarrow>
     in_i128 (b * 15000) \<and> in_i128 (b * 15000 sdiv 10000) \<and> b * 15000 sdiv 10000 \<le> c"
  by (auto simp: validate_collateral_ratio_def COLLATERAL_RATIO_MIN_def ok_simps split: if_splits)

lemma get_current_stable_rate_Ok:
  assumes "get_current_stable_rate_bps h s = (Ok r, t)"
  shows "accrual_frame s t"
  using assms by (rule get_current_stable_rate_bps_frame)

text \<open>A successful borrow passed every guard, accrued the position it read and wrote exactly the
  position, the collateral, the total, the alert latch and the event log.\<close>

lemma borrow_inner_Ok:
  assumes "borrow_inner h user asset amount ca camt rt auth s = (Ok u, t)"
  obtains s1 s2 accrued p where
    "auth = RequireUserSignature \<longrightarrow> signed h user"
    "\<not> is_paused s Borrow" "0 < amount" "0 < camt" "get_min_borrow_amount s \<le> amount"
    "validate_collateral_ratio camt amount = Inr ()"
    "in_i128 (get_total_debt s + amount)" "get_total_debt s + amount \<le> get_debt_ceiling s"
    "calculate_interest h ((get_debt_position h s user (Some asset) rt)\<lparr>rate_type := rt\<rparr>) s = (Ok accrued, s1)"
    "accrual_frame s s2"
    "rate_type p = rt" "debt_asset p = asset" "last_update p = now h"
    "borrowed_amount p = borrowed_amount (get_debt_position h s user (Some asset) rt) + amount"
    "interest_accrued p = interest_accrued (get_debt_position h s user (Some asset) rt) + accrued"
    "in_i128 (borrowed_amount p)" "in_i128 (interest_accrued p)"
    "in_i128 (bc_amount (get_collateral_position s user) + camt)"
    "t = emit_borrow_event h user asset amount camt
          (on_utilization_changed h (get_total_debt s + amount) (get_debt_ceiling s)
          (set_total_debt (get_total_debt s + amount)
          (save_collateral_position user
             \<lparr>bc_amount = bc_amount (get_collateral_position s user) + camt, bc_asset = ca\<rparr>
          (save_debt_position h user p s2))))"
proof -
  let ?p1 = "(get_debt_position h s user (Some asset) rt)\<lparr>rate_type := rt\<rparr>"
  from assms obtain s1 accrued p s2 where
    guards: "auth = RequireUserSignature \<longrightarrow> signed h user" "\<not> is_paused s Borrow" "0 < amount" "0 < camt"
      "get_min_borrow_amount s \<le> amount" "validate_collateral_ratio camt amount = Inr ()"
      "in_i128 (get_total_debt s + amount)" "get_total_debt s + amount \<le> get_debt_ceiling s"
    and acc: "calculate_interest h ?p1 s = (Ok accrued, s1)"
    and rng: "in_i128 (borrowed_amount ?p1 + amount)" "in_i128 (interest_accrued ?p1 + accrued)"
    and pos: "(if rt = Stable
           then tryM (get_current_stable_rate_bps h) (\<lambda>r. ret (?p1\<lparr>borrowed_amount := borrowed_amount ?p1 + amount,
             interest_accrued := interest_accrued ?p1 + accrued, last_update := now h, debt_asset := asset\<rparr>
             \<lparr>stable_rate_bps := r\<rparr>))
           else ret (?p1\<lparr>borrowed_amount := borrowed_amount ?p1 + amount,
             interest_accrued := interest_accrued ?p1 + accrued, last_update := now h, debt_asset := asset\<rparr>)) s1
          = (Ok p, s2)"
    and col: "in_i128 (bc_amount (get_collateral_position s2 user) + camt)"
    and t: "t = emit_borrow_event h user asset amount camt
          (on_utilization_changed h (get_total_debt s + amount) (get_debt_ceiling s)
          (set_total_debt (get_total_debt s + amount)
          (save_collateral_position user
             \<lparr>bc_amount = bc_amount (get_collateral_position s2 user) + camt, bc_asset = ca\<rparr>
          (save_debt_position h user p s2))))"
    unfolding borrow_inner_def Let_def
    by (clarsimp simp only: ok_simps reads_run writes_run checked_add_Some not_le not_less not_less_iff_gr_or_eq
        de_Morgan_disj simp_thms) (auto split: if_splits simp: ok_simps)
  have f1: "accrual_frame s s1" using acc by (rule calculate_interest_frame)
  have f2: "accrual_frame s1 s2"
    using pos by (auto simp: ok_simps split: if_splits dest: get_current_stable_rate_Ok)
  have f: "accrual_frame s s2" using f1 f2 by (rule accrual_frame_trans)
  have p: "rate_type p = rt" "debt_asset p = asset" "last_update p = now h"
    "borrowed_amount p = borrowed_amount ?p1 + amount" "interest_accrued p = interest_accrued ?p1 + accrued"
    using pos by (auto simp: ok_simps split: if_splits)
  show ?thesis
    by (rule that [OF guards acc f p(1-3)]) (use p rng col t accrual_frame_reads(4) [OF f, of user] in simp_all)
qed

text \<open>
  The split of a repayment: interest first, the rest goes to the principal.
\<close>

definition principal_part :: "i128 \<Rightarrow> i128 \<Rightarrow> i128" where
  "principal_part amount interest = (if interest \<le> amount then amount - interest else 0)"

definition interest_left :: "i128 \<Rightarrow> i128 \<Rightarrow> i128" where
  "interest_left amount interest = (if interest \<le> amount then 0 else interest - amount)"

lemma principal_part_nonneg: "0 \<le> principal_part amount interest"
  by (simp add: principal_part_def)

lemma repayment_split:
  "principal_part amount interest + (interest - interest_left amount interest) = amount"
  by (simp add: principal_part_def interest_left_def)

lemma repay_with_rate_Ok:
  assumes "repay_with_rate h user asset amount rt s = (Ok u, t)"
    and p0: "p0 = get_debt_position h s user (Some asset) rt"
  obtains s1 accrued i r where
    "0 < amount" "\<not> (borrowed_amount p0 = 0 \<and> interest_accrued p0 = 0)" "debt_asset p0 = asset"
    "calculate_interest h (p0\<lparr>rate_type := rt\<rparr>) s = (Ok accrued, s1)" "accrual_frame s s1"
    "i = interest_accrued p0 + accrued" "in_i128 i" "r = principal_part amount i"
    "0 < r \<longrightarrow> r \<le> borrowed_amount p0 \<and> in_i128 (get_total_debt s - r)"
    "t = publish (RepayEvent user asset amount (now h))
          (save_debt_position h user
            (p0\<lparr>rate_type := rt, last_update := now h, interest_accrued := interest_left amount i,
                borrowed_amount := borrowed_amount p0 - r\<rparr>)
            (if 0 < r then set_total_debt (get_total_debt s - r) s1 else s1))"
proof -
  let ?p1 = "p0\<lparr>rate_type := rt\<rparr>"
  from assms obtain s1 accrued where
    g: "0 < amount" "\<not> (borrowed_amount p0 = 0 \<and> interest_accrued p0 = 0)" "debt_asset p0 = asset"
    and acc: "calculate_interest h ?p1 s = (Ok accrued, s1)" and i: "in_i128 (interest_accrued p0 + accrued)"
    and rest: "\<exists>q s2. (if 0 < principal_part amount (interest_accrued p0 + accrued)
        then principal_part amount (interest_accrued p0 + accrued) \<le> borrowed_amount p0 \<and>
             in_i128 (get_total_debt s1 - principal_part amount (interest_accrued p0 + accrued)) \<and>
             s2 = set_total_debt (get_total_debt s1 - principal_part amount (interest_accrued p0 + accrued)) s1
        else s2 = s1) \<and>
        q = ?p1\<lparr>last_update := now h, interest_accrued := interest_left amount (interest_accrued p0 + accrued),
                borrowed_amount := borrowed_amount p0 - principal_part amount (interest_accrued p0 + accrued)\<rparr> \<and>
        t = publish (RepayEvent user asset amount (now h)) (save_debt_position h user q s2)"
    unfolding repay_with_rate_def Let_def p0 principal_part_def interest_left_def
    by (auto simp: ok_simps split: if_splits prod.splits)
  have f1: "accrual_frame s s1" using acc by (rule calculate_interest_frame)
  show ?thesis
    by (rule that [OF g acc f1 refl i refl])
       (use rest accrual_frame_reads(1) [OF f1] in \<open>auto split: if_splits\<close>)
qed

definition other_rate :: "RateType \<Rightarrow> RateType" where
  "other_rate rt = (if rt = Variable then Stable else Variable)"

lemma other_rate_neq [simp]: "other_rate rt \<noteq> rt" "rt \<noteq> other_rate rt"
  by (cases rt; simp add: other_rate_def)+

lemma switch_rate_type_Ok:
  assumes sw: "switch_rate_type h user asset rt s = (Ok u, t)"
    and f: "f = get_debt_position h s user (Some asset) (other_rate rt)"
    and g: "g = get_debt_position h s user (Some asset) rt"
  obtains s1 s2 accrued fee from_p to_p where
    "signed h user" "\<not> (borrowed_amount f = 0 \<and> interest_accrued f = 0)"
    "borrowed_amount g = 0" "interest_accrued g = 0"
    "calculate_interest h (f\<lparr>rate_type := other_rate rt\<rparr>) s = (Ok accrued, s1)" "accrual_frame s s2"
    "fee = borrowed_amount f * get_rate_switch_fee_bps s sdiv 10000"
    "rate_type from_p = other_rate rt" "borrowed_amount from_p = 0" "interest_accrued from_p = 0"
    "rate_type to_p = rt" "borrowed_amount to_p = borrowed_amount f"
    "interest_accrued to_p = interest_accrued f + accrued + fee" "debt_asset to_p = asset"
    "last_update to_p = now h"
    "t = save_debt_position h user to_p (save_debt_position h user from_p s2)"
proof -
  let ?f1 = "f\<lparr>rate_type := other_rate rt\<rparr>" and ?g1 = "g\<lparr>rate_type := rt\<rparr>"
  from sw obtain s1 accrued s2 to_p where
    c: "signed h user" "\<not> (borrowed_amount f = 0 \<and> interest_accrued f = 0)"
      "borrowed_amount g = 0" "interest_accrued g = 0"
    and acc: "calculate_interest h ?f1 s = (Ok accrued, s1)"
    and to_p: "(if rt = Stable
         then tryM (get_current_stable_rate_bps h) (\<lambda>r. ret (?g1\<lparr>borrowed_amount := borrowed_amount f,
           interest_accrued := interest_accrued f + accrued + borrowed_amount f * get_rate_switch_fee_bps s1 sdiv 10000,
           last_update := now h, debt_asset := asset, stable_rate_bps := r\<rparr>))
         else ret (?g1\<lparr>borrowed_amount := borrowed_amount f,
           interest_accrued := interest_accrued f + accrued + borrowed_amount f * get_rate_switch_fee_bps s1 sdiv 10000,
           last_update := now h, debt_asset := asset\<rparr>)) s1 = (Ok to_p, s2)"
    and t: "t = save_debt_position h user to_p (save_debt_position h user
           (?f1\<lparr>borrowed_amount := 0, interest_accrued := 0, last_update := now h, stable_rate_bps := 0\<rparr>) s2)"
    unfolding switch_rate_type_def Let_def f g other_rate_def [symmetric]
    by (auto simp: ok_simps split: if_splits)
  have f1: "accrual_frame s s1" using acc by (rule calculate_interest_frame)
  have f2: "accrual_frame s1 s2"
    using to_p by (auto simp: ok_simps split: if_splits dest: get_current_stable_rate_Ok)
  have fr: "accrual_frame s s2" using f1 f2 by (rule accrual_frame_trans)
  have tp: "rate_type to_p = rt" "borrowed_amount to_p = borrowed_amount f" "debt_asset to_p = asset"
    "last_update to_p = now h"
    "interest_accrued to_p = interest_accrued f + accrued + borrowed_amount f * get_rate_switch_fee_bps s1 sdiv 10000"
    using to_p by (auto simp: ok_simps split: if_splits)
  show ?thesis
    by (rule that [OF c acc fr refl _ _ _ tp(1) tp(2) _ tp(3) tp(4) t])
       (simp_all add: tp accrual_frame_reads(9) [OF f1])
qed

end
