(* ===== verification/Borrow_Accounting.thy ===== *)
theory Borrow_Accounting
  imports Borrow_Facts
begin

text \<open>
  The protocol's total debt against the principals of the stored positions: the borrow module as a
  double-entry ledger, keyed by rate type and user.
\<close>

interpretation debts: ledger stored_debt borrowed_amount get_total_debt
    "\<lambda>k. save_debt_position h (snd k)" set_total_debt "\<lambda>k p. rate_type p = fst k" for h
  by unfold_locales
    (simp_all add: stored_debt_save get_total_debt_def save_debt_position_fields set_total_debt_def,
     auto simp: stored_debt_def fun_eq_iff split: RateType.splits)

abbreviation principal :: "lending_state \<Rightarrow> RateType \<times> address \<Rightarrow> i128" where
  "principal \<equiv> ledger_bal stored_debt borrowed_amount"

abbreviation debts_balanced :: "lending_state \<Rightarrow> bool" where
  "debts_balanced \<equiv> ledger_balanced stored_debt borrowed_amount get_total_debt"

text \<open>No position is read through the legacy record: whoever has a legacy or a stable-rate record
  has a variable-rate record too.\<close>

definition no_phantom :: "lending_state \<Rightarrow> bool" where
  "no_phantom s \<longleftrightarrow> (\<forall>u. BorrowUserDebt s u \<noteq> None \<or> BorrowUserStableDebt s u \<noteq> None
                          \<longrightarrow> BorrowUserVariableDebt s u \<noteq> None)"

definition debt_inv :: "lending_state \<Rightarrow> bool" where
  "debt_inv s \<longleftrightarrow> debts_balanced s \<and> no_phantom s"

lemma principal_read:
  assumes "no_phantom s"
  shows "borrowed_amount (get_debt_position h s u d rt) = principal s (rt, u)"
proof (cases "stored_debt s (rt, u)")
  case None
  moreover from None assms have "rt = Variable \<Longrightarrow> BorrowUserDebt s u = None"
    by (auto simp: no_phantom_def stored_debt_def)
  ultimately show ?thesis by (simp add: get_debt_position_absent ledger_bal_def)
next
  case (Some p)
  then show ?thesis by (simp add: get_debt_position_stored ledger_bal_def)
qed

lemma nonempty_is_stored:
  assumes "no_phantom s" and "p = get_debt_position h s u d rt"
    and "\<not> (borrowed_amount p = 0 \<and> interest_accrued p = 0)"
  shows "stored_debt s (rt, u) \<noteq> None"
proof
  assume none: "stored_debt s (rt, u) = None"
  with assms(1) have "rt = Variable \<Longrightarrow> BorrowUserDebt s u = None"
    by (auto simp: no_phantom_def stored_debt_def)
  from get_debt_position_absent [OF none this] assms(2,3) show False by simp
qed

lemma stored_has_variable:
  "no_phantom s \<Longrightarrow> stored_debt s (rt, u) \<noteq> None \<Longrightarrow> BorrowUserVariableDebt s u \<noteq> None"
  by (cases rt) (auto simp: no_phantom_def stored_debt_def)

lemma no_phantom_save:
  assumes "no_phantom s" and "rate_type p = Stable \<Longrightarrow> BorrowUserVariableDebt s u \<noteq> None"
  shows "no_phantom (save_debt_position h u p s)"
proof -
  have "v \<in> dom (BorrowUserDebt (save_debt_position h u p s)) \<longleftrightarrow> v = u \<or> v \<in> dom (BorrowUserDebt s)" for v
    by (simp add: save_debt_position_fields)
  then show ?thesis
    using assms by (cases "rate_type p") (auto simp: no_phantom_def save_debt_position_fields dom_def)
qed

lemma no_phantom_cong:
  assumes "BorrowUserVariableDebt t = BorrowUserVariableDebt s"
    "BorrowUserStableDebt t = BorrowUserStableDebt s" "BorrowUserDebt t = BorrowUserDebt s"
  shows "no_phantom t = no_phantom s"
  using assms by (simp add: no_phantom_def)

lemma stored_debt_cong:
  assumes "BorrowUserVariableDebt t = BorrowUserVariableDebt s"
    "BorrowUserStableDebt t = BorrowUserStableDebt s"
  shows "stored_debt t = stored_debt s"
  unfolding stored_debt_def assms ..

text \<open>Anything that leaves the debt records and the total alone leaves the invariant alone.\<close>

lemma debt_inv_cong:
  assumes "BorrowUserVariableDebt t = BorrowUserVariableDebt s"
    "BorrowUserStableDebt t = BorrowUserStableDebt s" "BorrowUserDebt t = BorrowUserDebt s"
    "BorrowTotalDebt t = BorrowTotalDebt s"
  shows "debt_inv t = debt_inv s"
  unfolding debt_inv_def
  using no_phantom_cong [OF assms(1-3)] stored_debt_cong [OF assms(1,2)] assms(4)
  by (simp add: ledger_balanced_cong [of stored_debt t s get_total_debt] get_total_debt_def)

lemma debt_inv_accrual: "accrual_frame s t \<Longrightarrow> debt_inv t = debt_inv s"
  by (rule debt_inv_cong) (simp_all add: accrual_frame_fields)

lemma on_utilization_fields:
  "BorrowUserVariableDebt (on_utilization_changed h d c s) = BorrowUserVariableDebt s"
  "BorrowUserStableDebt (on_utilization_changed h d c s) = BorrowUserStableDebt s"
  "BorrowUserDebt (on_utilization_changed h d c s) = BorrowUserDebt s"
  "BorrowTotalDebt (on_utilization_changed h d c s) = BorrowTotalDebt s"
  "BorrowDebtCeiling (on_utilization_changed h d c s) = BorrowDebtCeiling s"
  "BorrowUserCollateral (on_utilization_changed h d c s) = BorrowUserCollateral s"
  "UserCollateral (on_utilization_changed h d c s) = UserCollateral s"
  "TotalAmount (on_utilization_changed h d c s) = TotalAmount s"
  "State (on_utilization_changed h d c s) = State s"
  "ProtocolAdmin (on_utilization_changed h d c s) = ProtocolAdmin s"
  "BorrowInterestRate (on_utilization_changed h d c s) = BorrowInterestRate s"
  by (rule on_utilization_changed_frame [of h d c s]; simp)+

lemma debt_inv_empty: "debt_inv empty_storage"
proof -
  have "stored_debt empty_storage = Map.empty"
    by (auto simp: stored_debt_def empty_storage_def fun_eq_iff split: RateType.splits)
  then show ?thesis
    by (simp add: debt_inv_def no_phantom_def ledger_balanced_def ledger_sum_def ledger_bal_def)
       (simp add: empty_storage_def get_total_debt_def)
qed

section \<open>Every operation keeps the invariant\<close>

lemma borrow_inner_debt_inv:
  assumes inv: "debt_inv s" and ok: "borrow_inner h user asset amount ca camt rt auth s = (Ok u, t)"
    and first: "rt = Stable \<Longrightarrow> BorrowUserVariableDebt s user \<noteq> None"
  shows "debt_inv t"
proof -
  from ok obtain s2 p where amt: "0 < amount" and fr: "accrual_frame s s2" and rt: "rate_type p = rt"
    and b: "borrowed_amount p = borrowed_amount (get_debt_position h s user (Some asset) rt) + amount"
    and t: "t = emit_borrow_event h user asset amount camt
          (on_utilization_changed h (get_total_debt s + amount) (get_debt_ceiling s)
          (set_total_debt (get_total_debt s + amount)
          (save_collateral_position user
             \<lparr>bc_amount = bc_amount (get_collateral_position s user) + camt, bc_asset = ca\<rparr>
          (save_debt_position h user p s2))))"
    by (rule borrow_inner_Ok) blast
  let ?t1 = "set_total_debt (get_total_debt s + amount) (save_debt_position h user p s2)"
  have inv2: "debt_inv s2" using inv debt_inv_accrual [OF fr] by simp
  have tot: "get_total_debt s2 = get_total_debt s" by (rule accrual_frame_reads [OF fr])
  have "principal s2 (rt, user) = principal s (rt, user)"
    by (simp add: ledger_bal_def stored_debt_cong [OF accrual_frame_fields(1,2) [OF fr]])
  then have b2: "borrowed_amount p = principal s2 (rt, user) + amount"
    using b inv principal_read [of s h user "Some asset" rt] by (simp add: debt_inv_def)
  have nonneg: "0 \<le> principal s2 (rt, user)"
    using inv2 by (simp add: debt_inv_def ledger_balanced_def)
  have "debts_balanced ?t1"
    using debts.balanced_post [where s = s2 and k = "(rt, user)" and v = p and d = amount and h = h] inv2 rt b2 nonneg amt tot
    by (simp add: debt_inv_def)
  moreover have "no_phantom ?t1"
    using no_phantom_save [of s2 p user h] inv2 first rt accrual_frame_fields(1) [OF fr]
    by (simp add: debt_inv_def no_phantom_def set_total_debt_def)
  ultimately have "debt_inv ?t1" by (simp add: debt_inv_def)
  moreover have "debt_inv t = debt_inv ?t1"
    by (rule debt_inv_cong)
       (simp_all add: t emit_borrow_event_def publish_def on_utilization_fields set_total_debt_def
         save_collateral_position_def save_debt_position_fields)
  ultimately show ?thesis by simp
qed

lemma repay_with_rate_debt_inv:
  assumes inv: "debt_inv s" and ok: "repay_with_rate h user asset amount rt s = (Ok u, t)"
  shows "debt_inv t"
proof -
  define p0 where "p0 = get_debt_position h s user (Some asset) rt"
  from ok p0_def obtain s1 i r where ne: "\<not> (borrowed_amount p0 = 0 \<and> interest_accrued p0 = 0)"
    and fr: "accrual_frame s s1" and r: "r = principal_part amount i"
    and rb: "0 < r \<longrightarrow> r \<le> borrowed_amount p0 \<and> in_i128 (get_total_debt s - r)"
    and t: "t = publish (RepayEvent user asset amount (now h))
          (save_debt_position h user
            (p0\<lparr>rate_type := rt, last_update := now h, interest_accrued := interest_left amount i,
                borrowed_amount := borrowed_amount p0 - r\<rparr>)
            (if 0 < r then set_total_debt (get_total_debt s - r) s1 else s1))"
    by (rule repay_with_rate_Ok) blast
  let ?q = "p0\<lparr>rate_type := rt, last_update := now h, interest_accrued := interest_left amount i,
                borrowed_amount := borrowed_amount p0 - r\<rparr>"
  let ?s2 = "if 0 < r then set_total_debt (get_total_debt s - r) s1 else s1"
  have inv1: "debt_inv s1" using inv debt_inv_accrual [OF fr] by simp
  have tot: "get_total_debt s1 = get_total_debt s" by (rule accrual_frame_reads [OF fr])
  have b: "borrowed_amount p0 = principal s1 (rt, user)"
    using inv by (simp add: p0_def debt_inv_def principal_read ledger_bal_def
        stored_debt_cong [OF accrual_frame_fields(1,2) [OF fr]])
  have nonneg: "0 \<le> principal s1 (rt, user)" using inv1 by (simp add: debt_inv_def ledger_balanced_def)
  have r0: "0 \<le> r" by (simp add: r principal_part_nonneg)
  have "debts_balanced (save_debt_position h user ?q ?s2)"
  proof (cases "0 < r")
    case True
    then show ?thesis
      using debts.balanced_post_rev [where s = s1 and k = "(rt, user)" and v = ?q and d = "- r" and h = h]
        inv1 b rb tot by (simp add: debt_inv_def)
  next
    case False
    with r0 have "r = 0" by simp
    then show ?thesis
      using debts.balanced_rewrite [where s = s1 and k = "(rt, user)" and v = ?q and h = h] inv1 b
      by (simp add: debt_inv_def)
  qed
  moreover have "no_phantom (save_debt_position h user ?q ?s2)"
  proof (rule no_phantom_save)
    show "no_phantom ?s2" using inv1 by (simp add: debt_inv_def no_phantom_def set_total_debt_def)
    have "stored_debt s (rt, user) \<noteq> None" using nonempty_is_stored [OF _ p0_def ne] inv by (simp add: debt_inv_def)
    then have "BorrowUserVariableDebt s user \<noteq> None" using inv stored_has_variable by (auto simp: debt_inv_def)
    then show "BorrowUserVariableDebt ?s2 user \<noteq> None"
      by (simp add: set_total_debt_def accrual_frame_fields(1) [OF fr])
  qed
  moreover have "debt_inv t = debt_inv (save_debt_position h user ?q ?s2)"
    by (rule debt_inv_cong) (simp_all add: t publish_def)
  ultimately show ?thesis by (simp add: debt_inv_def)
qed

lemma repay_debt_inv:
  "debt_inv s \<Longrightarrow> repay h user asset amount s = (Ok u, t) \<Longrightarrow> debt_inv t"
  by (auto simp: repay_def split: if_splits intro: repay_with_rate_debt_inv)

lemma switch_rate_type_debt_inv:
  assumes inv: "debt_inv s" and ok: "switch_rate_type h user asset rt s = (Ok u, t)"
  shows "debt_inv t"
proof -
  define f where "f = get_debt_position h s user (Some asset) (other_rate rt)"
  define g where "g = get_debt_position h s user (Some asset) rt"
  from ok f_def g_def obtain s2 from_p to_p where
    ne: "\<not> (borrowed_amount f = 0 \<and> interest_accrued f = 0)" and g0: "borrowed_amount g = 0"
    and fr: "accrual_frame s s2"
    and fp: "rate_type from_p = other_rate rt" "borrowed_amount from_p = 0"
    and tp: "rate_type to_p = rt" "borrowed_amount to_p = borrowed_amount f"
    and t: "t = save_debt_position h user to_p (save_debt_position h user from_p s2)"
    by (rule switch_rate_type_Ok) blast
  have inv2: "debt_inv s2" using inv debt_inv_accrual [OF fr] by simp
  have sd: "stored_debt s2 = stored_debt s" by (rule stored_debt_cong) (simp_all add: accrual_frame_fields [OF fr])
  have f: "borrowed_amount f = principal s2 (other_rate rt, user)"
    and g: "principal s2 (rt, user) = 0"
    using inv g0 principal_read [of s h user "Some asset"] by (simp_all add: f_def g_def debt_inv_def ledger_bal_def sd)
  have "debts_balanced t"
    using debts.balanced_transfer [where s = s2 and k = "(other_rate rt, user)" and k' = "(rt, user)"
        and v = from_p and v' = to_p and h = h] inv2 fp tp f g
    by (simp add: t debt_inv_def)
  moreover have "no_phantom t"
  proof -
    have "stored_debt s (other_rate rt, user) \<noteq> None"
      using nonempty_is_stored [OF _ f_def ne] inv by (simp add: debt_inv_def)
    then have v: "BorrowUserVariableDebt s2 user \<noteq> None"
      using inv stored_has_variable accrual_frame_fields(1) [OF fr] by (auto simp: debt_inv_def)
    then show ?thesis
      using inv2 unfolding t
      by (intro no_phantom_save) (auto simp: debt_inv_def save_debt_position_fields)
  qed
  ultimately show ?thesis by (simp add: debt_inv_def)
qed

lemma deposit_collateral_inner_Ok:
  assumes "deposit_collateral_inner h user asset amount s = (Ok u, t)"
  shows "0 < amount \<and> (bc_amount (get_collateral_position s user) \<noteq> 0 \<longrightarrow>
            bc_asset (get_collateral_position s user) = asset) \<and>
         in_i128 (bc_amount (get_collateral_position s user) + amount) \<and>
         t = publish (BorrowCollateralDepositEvent user asset amount (now h))
              (save_collateral_position user
                \<lparr>bc_amount = bc_amount (get_collateral_position s user) + amount, bc_asset = asset\<rparr> s)"
  using assms unfolding deposit_collateral_inner_def Let_def
  by (cases "get_collateral_position s user") (auto simp: ok_simps split: if_splits)

lemma deposit_collateral_debt_inv:
  assumes "debt_inv s" "deposit_collateral_inner h user asset amount s = (Ok u, t)"
  shows "debt_inv t"
proof -
  have "debt_inv t = debt_inv s"
    by (rule debt_inv_cong) (use deposit_collateral_inner_Ok [OF assms(2)] in
        \<open>simp_all add: publish_def save_collateral_position_def\<close>)
  with assms(1) show ?thesis by simp
qed

section \<open>What the borrow module leaves alone\<close>

text \<open>Every stored field that is not a debt or collateral record, the total, the stable-rate average,
  the alert latch or the log.\<close>

definition borrow_outside where
  "borrow_outside s =
     ((State s, Guardian s, EmergencyStateKey s, ProtocolAdmin s, BorrowDebtCeiling s, BorrowInterestRate s,
       BorrowMinAmount s, OracleAddress s, LiquidationThresholdBps s, CloseFactorBps s,
       LiquidationIncentiveBps s, InterestIndex s, AssetStablecoinConfig s),
      (StableRatePremiumBps s, StableRateRecalcIntervalSecs s, RateSwitchFeeBps s, UserCollateral s,
       TotalAmount s, CapAmount s, MinAmount s, Paused s, MinWithdrawAmount s, FlashLoanFeeBps s),
      (ReentrancyGuard s, Thresholds s, NextId s, Commitment s, DelegationRegistry s, Nonce s,
       BadDebtTotal s, BadDebtUser s, ProtocolReserves s))" for s :: lending_state

lemma borrow_outside_accrual: "accrual_frame s t \<Longrightarrow> borrow_outside t = borrow_outside s"
  by (auto elim!: accrual_frameE simp: borrow_outside_def)

lemma borrow_outside_writes [simp]:
  "borrow_outside (publish e s) = borrow_outside s"
  "borrow_outside (set_total_debt n s) = borrow_outside s"
  "borrow_outside (save_collateral_position u c s) = borrow_outside s"
  "borrow_outside (emit_borrow_event h u a x y s) = borrow_outside s"
  by (simp_all add: borrow_outside_def publish_def set_total_debt_def save_collateral_position_def emit_borrow_event_def)

lemma borrow_outside_save [simp]: "borrow_outside (save_debt_position h u p s) = borrow_outside s"
  by (rule save_debt_position_frame [of h u p s]) (simp add: borrow_outside_def)

lemma borrow_outside_alert [simp]: "borrow_outside (on_utilization_changed h d c s) = borrow_outside s"
  by (rule on_utilization_changed_frame [of h d c s]) (simp add: borrow_outside_def)

lemma borrow_inner_outside:
  assumes "borrow_inner h user asset amount ca camt rt auth s = (Ok u, t)"
  shows "borrow_outside t = borrow_outside s"
  using assms by (elim borrow_inner_Ok) (simp add: borrow_outside_accrual)

lemma repay_with_rate_outside:
  assumes "repay_with_rate h user asset amount rt s = (Ok u, t)"
  shows "borrow_outside t = borrow_outside s"
  using assms by (elim repay_with_rate_Ok [OF _ refl]) (simp add: borrow_outside_accrual)

lemma repay_outside: "repay h user asset amount s = (Ok u, t) \<Longrightarrow> borrow_outside t = borrow_outside s"
  by (auto simp: repay_def split: if_splits dest: repay_with_rate_outside)

lemma switch_rate_type_outside:
  assumes "switch_rate_type h user asset rt s = (Ok u, t)"
  shows "borrow_outside t = borrow_outside s"
  using assms by (elim switch_rate_type_Ok [OF _ refl refl]) (simp add: borrow_outside_accrual)

lemma deposit_collateral_outside:
  "deposit_collateral_inner h user asset amount s = (Ok u, t) \<Longrightarrow> borrow_outside t = borrow_outside s"
  by (auto dest: deposit_collateral_inner_Ok)

lemmas borrow_ops_outside = borrow_inner_outside repay_with_rate_outside repay_outside
  switch_rate_type_outside deposit_collateral_outside

lemma borrow_outside_fields:
  assumes "borrow_outside t = borrow_outside s"
  shows "State t = State s" "ProtocolAdmin t = ProtocolAdmin s" "BorrowDebtCeiling t = BorrowDebtCeiling s"
    "BorrowInterestRate t = BorrowInterestRate s" "OracleAddress t = OracleAddress s"
    "LiquidationThresholdBps t = LiquidationThresholdBps s" "CloseFactorBps t = CloseFactorBps s"
    "LiquidationIncentiveBps t = LiquidationIncentiveBps s" "UserCollateral t = UserCollateral s"
    "TotalAmount t = TotalAmount s" "FlashLoanFeeBps t = FlashLoanFeeBps s" "ReentrancyGuard t = ReentrancyGuard s"
    "NextId t = NextId s" "Commitment t = Commitment s" "DelegationRegistry t = DelegationRegistry s"
    "Nonce t = Nonce s" "BadDebtTotal t = BadDebtTotal s" "BadDebtUser t = BadDebtUser s"
    "ProtocolReserves t = ProtocolReserves s" "Thresholds t = Thresholds s" "Paused t = Paused s"
    "CapAmount t = CapAmount s" "MinAmount t = MinAmount s" "MinWithdrawAmount t = MinWithdrawAmount s"
    "BorrowMinAmount t = BorrowMinAmount s"
  using assms by (simp_all add: borrow_outside_def)

section \<open>What a successful borrow leaves behind\<close>

lemma borrow_inner_post:
  assumes "borrow_inner h user asset amount ca camt rt auth s = (Ok u, t)"
  shows "0 < amount" "get_total_debt t = get_total_debt s + amount" "get_total_debt t \<le> get_debt_ceiling t"
    "amount * 15000 div 10000 \<le> camt"
    "get_collateral_position t user = \<lparr>bc_amount = bc_amount (get_collateral_position s user) + camt, bc_asset = ca\<rparr>"
    "borrowed_amount (get_debt_position h' t user d rt) = borrowed_amount (get_debt_position h s user (Some asset) rt) + amount"
    "\<not> is_paused s Borrow" "auth = RequireUserSignature \<longrightarrow> signed h user"
proof -
  from assms obtain s2 p where g: "auth = RequireUserSignature \<longrightarrow> signed h user" "\<not> is_paused s Borrow" "0 < amount"
    "validate_collateral_ratio camt amount = Inr ()" "get_total_debt s + amount \<le> get_debt_ceiling s"
    and fr: "accrual_frame s s2" and p: "rate_type p = rt"
      "borrowed_amount p = borrowed_amount (get_debt_position h s user (Some asset) rt) + amount"
    and t: "t = emit_borrow_event h user asset amount camt
          (on_utilization_changed h (get_total_debt s + amount) (get_debt_ceiling s)
          (set_total_debt (get_total_debt s + amount)
          (save_collateral_position user
             \<lparr>bc_amount = bc_amount (get_collateral_position s user) + camt, bc_asset = ca\<rparr>
          (save_debt_position h user p s2))))"
    by (rule borrow_inner_Ok) blast
  show "0 < amount" "\<not> is_paused s Borrow" "auth = RequireUserSignature \<longrightarrow> signed h user" by fact+
  show tot: "get_total_debt t = get_total_debt s + amount"
    by (simp add: t emit_borrow_event_def publish_def get_total_debt_def on_utilization_fields set_total_debt_def)
  have "get_debt_ceiling t = get_debt_ceiling s"
    using borrow_outside_fields(3) [OF borrow_inner_outside [OF assms]] by (simp add: get_debt_ceiling_def)
  with tot g(5) show "get_total_debt t \<le> get_debt_ceiling t" by simp
  show "amount * 15000 div 10000 \<le> camt" using g(3,4) by (simp add: validate_collateral_ratio_Inr sdiv_nonneg_eq)
  show "get_collateral_position t user = \<lparr>bc_amount = bc_amount (get_collateral_position s user) + camt, bc_asset = ca\<rparr>"
    by (simp add: t emit_borrow_event_def publish_def get_collateral_position_def on_utilization_fields
        set_total_debt_def save_collateral_position_def)
  have "stored_debt t (rt, user) = Some p"
    using p(1) stored_debt_cong [of t "save_debt_position h user p s2"]
    by (simp add: t emit_borrow_event_def publish_def on_utilization_fields set_total_debt_def
        save_collateral_position_def stored_debt_save)
  from get_debt_position_stored [OF this, of h' d] p(2)
  show "borrowed_amount (get_debt_position h' t user d rt) = borrowed_amount (get_debt_position h s user (Some asset) rt) + amount"
    by simp
qed

end
