(* ===== verification/Borrow_Properties.thy ===== *)
theory Borrow_Properties
  imports Borrow_Accounting Sample
begin

text \<open>
  The properties of the borrow module's operations: what a borrow, a repayment, a rate switch and the
  interest accrual guarantee, and which requests are refused.
\<close>

section \<open>Interest\<close>

lemma i256_interest_value:
  assumes "0 \<le> b" "in_i128 b" "0 \<le> r" "r \<le> 10000" "0 \<le> tm" "tm \<le> 2 ^ 64"
  shows "i256_interest b r tm = Some (b * r * tm div 10000 div 31536000)"
proof -
  have b: "b \<le> 2 ^ 127" using assms by (simp add: i128_defs)
  have br: "0 \<le> b * r" "b * r \<le> 2 ^ 127 * 10000" using mult_mono [OF b assms(4)] assms(1,3) by simp_all
  have "b * r * tm \<le> (2 ^ 127 * 10000) * 2 ^ 64" by (rule mult_mono) (use assms br in simp_all)
  then have brt: "0 \<le> b * r * tm" "b * r * tm \<le> 2 ^ 205" using assms br by auto
  have q: "0 \<le> b * r * tm div 10000" "b * r * tm div 10000 \<le> b * r * tm"
    using brt(1) by (simp_all add: pos_imp_zdiv_nonneg_iff zdiv_le_self)
  have q2: "0 \<le> b * r * tm div 10000 div 31536000" "b * r * tm div 10000 div 31536000 \<le> b * r * tm div 10000"
    using q(1) by (simp_all add: pos_imp_zdiv_nonneg_iff zdiv_le_self)
  have "in_i256 (b * r)" "in_i256 (b * r * tm)" "in_i256 (b * r * tm div 10000)" "in_i256 (b * r * tm div 10000 div 31536000)"
    using br brt q q2 by (auto simp: in_i256_def)
  then show ?thesis
    using brt q by (simp add: i256_interest_code i256_mul_def i256_div_def sdiv_nonneg_eq)
qed

definition simple_interest :: "i128 \<Rightarrow> i128 \<Rightarrow> int \<Rightarrow> int" where
  "simple_interest borrowed rate time = borrowed * rate * time div 10000 div 31536000"

lemma calculate_interest_variable:
  assumes "rate_type p = Variable" "get_stablecoin_config s (debt_asset p) = None"
    and "borrow_rate_bps h s = Inr r" "0 \<le> r" "r \<le> 10000"
    and "0 \<le> borrowed_amount p" "in_i128 (borrowed_amount p)" "now h \<le> 2 ^ 64"
  shows "calculate_interest h p s =
    (let i = simple_interest (borrowed_amount p) r (int (now h - last_update p)) in
     if in_i128 i then (Ok i, s) else (Err BorrowError.Overflow, s))"
proof -
  have "int (now h) \<le> 2 ^ 64" using assms(8) by (metis of_nat_le_iff of_nat_numeral of_nat_power)
  then have tm: "int (now h - last_update p) \<le> 2 ^ 64" by linarith
  show ?thesis
    using i256_interest_value [OF assms(6,7,4,5) _ tm] assms
    by (simp add: calculate_interest_def position_rate_def get_current_variable_rate_bps_def run_simps Let_def
        add_stability_fee_def simple_interest_def to_i128_def)
qed

text \<open>Interest is simple interest at the current variable rate: for a variable-rate position of an
  asset without a stablecoin configuration, accrual changes nothing and returns principal times rate times
  elapsed seconds over 10000 and the seconds of a year (rounded down twice), never negative and never
  more than the principal per full year, zero when no time has passed; the 256-bit product never
  traps, and only a result beyond i128 is an error.\<close>

theorem interest_is_simple_interest:
  assumes "rate_type p = Variable" "get_stablecoin_config s (debt_asset p) = None"
    and wf: "config_wf (get_config h s)" and r: "borrow_rate_bps h s = Inr r"
    and p: "0 \<le> borrowed_amount p" "in_i128 (borrowed_amount p)" and tm: "now h \<le> 2 ^ 64"
  shows "\<exists>i. i = simple_interest (borrowed_amount p) r (int (now h - last_update p)) \<and>
             calculate_interest h p s = (if in_i128 i then (Ok i, s) else (Err BorrowError.Overflow, s)) \<and>
             0 \<le> i \<and> i \<le> borrowed_amount p * int (now h - last_update p) div 31536000 \<and>
             (now h \<le> last_update p \<longrightarrow> i = 0)"
proof -
  have rng: "0 \<le> r" "r \<le> 10000" using borrow_rate_range [OF wf r] by auto
  have b: "0 \<le> simple_interest (borrowed_amount p) r (int (now h - last_update p))"
    "simple_interest (borrowed_amount p) r (int (now h - last_update p))
       \<le> borrowed_amount p * int (now h - last_update p) div 31536000"
    unfolding simple_interest_def by (rule variable_rate.yearly_interest_bounded [OF wf r p(1)]; simp)+
  show ?thesis
    using calculate_interest_variable [OF assms(1,2) r rng p tm] b by (simp add: Let_def simple_interest_def)
qed

theorem interest_is_simple_interest_witness:
  "\<exists>i. calculate_interest (sample_host 31536000) (sample_debt 1000000 0 7 Variable) sample_state = (Ok i, sample_state) \<and>
       i = 10200"
proof -
  let ?h = "sample_host 31536000"
  have c: "get_config ?h sample_state = default_config ?h"
    by (simp add: get_config_def sample_state_def empty_storage_def)
  have r: "borrow_rate_bps ?h sample_state = Inr 102"
    unfolding borrow_rate_bps_def c
    by (simp add: utilization_bps_def Let_def runE_simps checked_defs i128_defs sdiv_nonneg_eq default_config_def
        get_debt_ceiling_def get_total_debt_def sample_state_def BPS_SCALE_def)
  have "config_wf (get_config ?h sample_state)" unfolding c by (rule config_wf_default)
  from interest_is_simple_interest [of "sample_debt 1000000 0 7 Variable", OF _ _ this r]
  show ?thesis
    by (simp add: sample_debt_def get_stablecoin_config_def sample_state_def empty_storage_def sample_host_def
        simple_interest_def i128_defs)
qed

text \<open>The stable rate moves smoothly: the average is recomputed only when the interval has passed,
  then lies between the old average and the current variable rate and is stamped with the time; nothing
  else in the storage changes.\<close>

theorem stable_rate_average_between:
  assumes v: "get_current_variable_rate_bps h s = Inr v" "0 \<le> v" "v \<le> 10000"
    and st: "StableRateStateKey s = Some st" "0 \<le> avg_rate_bps st" "avg_rate_bps st \<le> 1000000"
    and upd: "update_stable_rate_state_if_needed h s = (st', t)"
  shows "(st' = st \<and> t = s) \<or>
     (srs_last_update st + get_stable_rate_recalc_interval_secs s \<le> now h \<and> srs_last_update st' = now h \<and>
      min (avg_rate_bps st) v \<le> avg_rate_bps st' \<and> avg_rate_bps st' \<le> max (avg_rate_bps st) v \<and>
      t = s\<lparr>StableRateStateKey := Some st'\<rparr>)"
proof -
  let ?a = "avg_rate_bps st"
  have get: "get_stable_rate_state h s = st" by (simp add: get_stable_rate_state_def st(1))
  have rng: "in_i128 (?a * 9)" "in_i128 (?a * 9 + v)" "in_i128 ((?a * 9 + v) sdiv 10)"
    using st v by (auto simp: i128_defs sdiv_nonneg_eq)
  then have avg: "unwrap_or (Option.bind (checked_mul ?a 9) (\<lambda>x. Option.bind (checked_add x v) (\<lambda>x. checked_div x 10))) v
      = (?a * 9 + v) div 10"
    using st v by (simp add: checked_mul_def checked_add_def checked_div_def to_i128_def sdiv_nonneg_eq)
  have between: "min ?a v \<le> (?a * 9 + v) div 10" "(?a * 9 + v) div 10 \<le> max ?a v" by linarith+
  show ?thesis
  proof (cases "now h < srs_last_update st + get_stable_rate_recalc_interval_secs s")
    case False
    with upd between show ?thesis
      by (simp add: update_stable_rate_state_if_needed_def get v(1) avg Let_def split: if_splits) (elim conjE, hypsubst, simp)
  qed (use upd in \<open>simp add: update_stable_rate_state_if_needed_def get Let_def split: if_splits\<close>)
qed

definition stable_sample :: lending_state where
  "stable_sample = sample_state\<lparr>StableRateStateKey := Some \<lparr>avg_rate_bps = 200, srs_last_update = 10\<rparr>,
     StableRateRecalcIntervalSecs := Some 5\<rparr>"

theorem stable_rate_average_between_witness:
  "\<exists>st t. update_stable_rate_state_if_needed (sample_host 20) stable_sample = (st, t) \<and> avg_rate_bps st = 190 \<and>
          (102::int) \<le> avg_rate_bps st"
proof -
  let ?u = "update_stable_rate_state_if_needed (sample_host 20) stable_sample"
  have "fst ?u = \<lparr>avg_rate_bps = 190, srs_last_update = 20\<rparr>" by code_simp
  then have u: "?u = (\<lparr>avg_rate_bps = 190, srs_last_update = 20\<rparr>, snd ?u)" by (rule run_pair)
  have v: "get_current_variable_rate_bps (sample_host 20) stable_sample = Inr 102" by code_simp
  have st: "StableRateStateKey stable_sample = Some \<lparr>avg_rate_bps = 200, srs_last_update = 10\<rparr>" by (simp add: stable_sample_def)
  have "102 \<le> avg_rate_bps \<lparr>avg_rate_bps = 190, srs_last_update = 20\<rparr>"
    using stable_rate_average_between [OF v _ _ st _ _ u] by simp
  with u show ?thesis by (intro exI conjI) auto
qed

section \<open>Borrowing\<close>

text \<open>C4: A borrow that succeeds respects every limit: the user signed, borrowing is not paused, the
  amount is positive and reaches the minimum, the collateral posted with it covers 150% of it, and the
  protocol's total debt, raised by exactly the amount, stays within the ceiling. The user's principal at
  that rate grows by the amount and the collateral by what was posted.\<close>

theorem borrow_respects_limits:
  assumes "borrow_with_rate h user asset amount ca camt rt s = (Ok u, t)"
  shows "signed h user \<and> \<not> is_paused s Borrow \<and> 0 < amount \<and> get_min_borrow_amount s \<le> amount \<and>
         amount * 15000 div 10000 \<le> camt \<and>
         get_total_debt t = get_total_debt s + amount \<and> get_total_debt t \<le> get_debt_ceiling t \<and>
         borrowed_amount (get_debt_position h' t user d rt) =
           borrowed_amount (get_debt_position h s user (Some asset) rt) + amount \<and>
         get_collateral_position t user =
           \<lparr>bc_amount = bc_amount (get_collateral_position s user) + camt, bc_asset = ca\<rparr>"
proof -
  note post = borrow_inner_post [OF assms [unfolded borrow_with_rate_def]]
  have "get_min_borrow_amount s \<le> amount"
    using assms unfolding borrow_with_rate_def by (rule borrow_inner_Ok) blast
  with post show ?thesis by simp
qed

theorem borrow_respects_limits_witness:
  "\<exists>t. borrow_with_rate (sample_host 5) 2 7 2000 8 3000 Variable sample_state = (Ok (), t) \<and> get_total_debt t = 3000 \<and>
       get_total_debt t \<le> get_debt_ceiling t"
proof -
  let ?b = "borrow_with_rate (sample_host 5) 2 7 2000 8 3000 Variable sample_state"
  have "fst ?b = Ok ()" by code_simp
  then have b: "?b = (Ok (), snd ?b)" by (rule run_pair)
  have "get_total_debt sample_state = 1000" by (simp add: sample_state_def get_total_debt_def)
  with borrow_respects_limits [OF b] b show ?thesis by auto
qed

text \<open>The collateral check is the 150% rule up to rounding: it accepts exactly when nothing
  overflows and the collateral is at least one and a half times the loan, rounded down, so an accepted
  loan is never short by more than half a unit.\<close>

theorem collateral_check_is_150_percent:
  assumes "0 < amount"
  shows "(validate_collateral_ratio collateral amount = Inr () \<longleftrightarrow>
            amount * 15000 \<le> i128_max \<and> amount * 3 div 2 \<le> collateral) \<and>
         (validate_collateral_ratio collateral amount = Inr () \<longrightarrow> 3 * amount - 1 \<le> 2 * collateral)"
proof -
  have q: "amount * 15000 sdiv 10000 = amount * 3 div 2"
    using assms by (simp add: sdiv_nonneg_eq)
  have "0 \<le> amount * 3 div 2" "amount * 3 div 2 \<le> amount * 15000" using assms by auto
  then have "in_i128 (amount * 15000) \<longleftrightarrow> amount * 15000 \<le> i128_max"
    "amount * 15000 \<le> i128_max \<Longrightarrow> in_i128 (amount * 3 div 2)"
    using assms by (auto simp: i128_defs)
  then have "validate_collateral_ratio collateral amount = Inr () \<longleftrightarrow>
      amount * 15000 \<le> i128_max \<and> amount * 3 div 2 \<le> collateral"
    by (auto simp: validate_collateral_ratio_Inr q)
  then show ?thesis by auto
qed

theorem collateral_check_is_150_percent_witness:
  "validate_collateral_ratio 1501 1001 = Inr () \<and> validate_collateral_ratio 1500 1001 \<noteq> Inr ()"
  using collateral_check_is_150_percent [of 1001] by (simp add: i128_max_def)

section \<open>Repaying\<close>

text \<open>C5: A repayment pays the interest first and conserves value: what the user owed at that rate,
  with the interest accrued up to now, minus the amount is exactly what the user owes afterwards; the
  principal only falls once the interest is paid off, the protocol's total debt falls by exactly that
  part of the principal, and the position is stamped with the time.\<close>

theorem repay_interest_first:
  assumes "repay_with_rate h user asset amount rt s = (Ok u, t)"
    and p0: "p0 = get_debt_position h s user (Some asset) rt" and p1: "p1 = get_debt_position h' t user d rt"
  shows "\<exists>accrued s1. calculate_interest h (p0\<lparr>rate_type := rt\<rparr>) s = (Ok accrued, s1) \<and>
     borrowed_amount p1 + interest_accrued p1 = borrowed_amount p0 + interest_accrued p0 + accrued - amount \<and>
     (borrowed_amount p1 \<noteq> borrowed_amount p0 \<longrightarrow> interest_accrued p1 = 0) \<and>
     get_total_debt t = get_total_debt s - (borrowed_amount p0 - borrowed_amount p1) \<and>
     last_update p1 = now h \<and> rate_type p1 = rt \<and> 0 < amount \<and> debt_asset p0 = asset"
proof -
  from assms(1) p0 obtain s1 accrued i r where g: "0 < amount" "debt_asset p0 = asset"
    and acc: "calculate_interest h (p0\<lparr>rate_type := rt\<rparr>) s = (Ok accrued, s1)" "accrual_frame s s1"
    and i: "i = interest_accrued p0 + accrued" and r: "r = principal_part amount i"
    and t: "t = publish (RepayEvent user asset amount (now h))
          (save_debt_position h user
            (p0\<lparr>rate_type := rt, last_update := now h, interest_accrued := interest_left amount i,
                borrowed_amount := borrowed_amount p0 - r\<rparr>)
            (if 0 < r then set_total_debt (get_total_debt s - r) s1 else s1))"
    by (rule repay_with_rate_Ok) blast
  let ?q = "p0\<lparr>rate_type := rt, last_update := now h, interest_accrued := interest_left amount i,
                borrowed_amount := borrowed_amount p0 - r\<rparr>"
  let ?s2 = "if 0 < r then set_total_debt (get_total_debt s - r) s1 else s1"
  have "stored_debt t = stored_debt (save_debt_position h user ?q ?s2)"
    unfolding t by (rule stored_debt_cong) (simp_all add: publish_def)
  then have "stored_debt t (rt, user) = Some ?q" by (simp add: stored_debt_save)
  then have q: "p1 = ?q" unfolding p1 by (rule get_debt_position_stored)
  have "get_total_debt t = get_total_debt s - r"
    using principal_part_nonneg [of amount i] accrual_frame_reads(1) [OF acc(2)] r
    by (auto simp: t publish_def get_total_debt_def save_debt_position_fields set_total_debt_def)
  with g acc(1) i r q show ?thesis
    by (intro exI [of _ accrued] exI [of _ s1]) (auto simp: principal_part_def interest_left_def)
qed

theorem repay_interest_first_witness:
  "\<exists>t p1. repay_with_rate (sample_host 0) 1 7 200 Variable sample_state = (Ok (), t) \<and>
          p1 = get_debt_position (sample_host 0) t 1 None Variable \<and>
          borrowed_amount p1 + interest_accrued p1 = 810 \<and> get_total_debt t = 1000 - (1000 - borrowed_amount p1)"
proof -
  let ?h = "sample_host 0"
  let ?r = "repay_with_rate ?h 1 7 200 Variable sample_state"
  have "fst ?r = Ok ()" by code_simp
  then have r: "?r = (Ok (), snd ?r)" by (rule run_pair)
  have p0: "get_debt_position ?h sample_state 1 (Some 7) Variable = sample_debt 1000 10 7 Variable"
    by (simp add: get_debt_position_def sample_state_def)
  have c: "fst (calculate_interest ?h (sample_debt 1000 10 7 Variable) sample_state) = Ok 0" by code_simp
  have same: "(sample_debt 1000 10 7 Variable)\<lparr>rate_type := Variable\<rparr> = sample_debt 1000 10 7 Variable"
    by (simp add: sample_debt_def)
  have d: "borrowed_amount (sample_debt 1000 10 7 Variable) = 1000" "interest_accrued (sample_debt 1000 10 7 Variable) = 10"
    by (simp_all add: sample_debt_def)
  have tot: "get_total_debt sample_state = 1000" by (simp add: sample_state_def get_total_debt_def)
  note pay = repay_interest_first [OF r p0 [symmetric] refl, unfolded same d tot, of ?h None]
  show ?thesis
    by (intro exI conjI, rule r, rule refl) (use pay c in \<open>auto simp del: One_nat_def\<close>)
qed

text \<open>Repayments are refused as documented, with nothing changed: a non-positive amount and a
  repayment without debt with InvalidAmount, another asset than the borrowed one with AssetNotSupported,
  and, at the instant of the last accrual, more than principal plus interest with RepayAmountTooHigh.\<close>

theorem repay_refusals:
  assumes p: "p = get_debt_position h s user (Some asset) rt"
  shows "(amount \<le> 0 \<longrightarrow> repay_with_rate h user asset amount rt s = (Err BorrowError.InvalidAmount, s)) \<and>
         (0 < amount \<and> borrowed_amount p = 0 \<and> interest_accrued p = 0 \<longrightarrow>
            repay_with_rate h user asset amount rt s = (Err BorrowError.InvalidAmount, s)) \<and>
         (0 < amount \<and> (borrowed_amount p \<noteq> 0 \<or> interest_accrued p \<noteq> 0) \<and> debt_asset p \<noteq> asset \<longrightarrow>
            repay_with_rate h user asset amount rt s = (Err BorrowError.AssetNotSupported, s)) \<and>
         (calculate_interest h (p\<lparr>rate_type := rt\<rparr>) s = (Ok 0, s) \<and> debt_asset p = asset \<and>
          0 \<le> interest_accrued p \<and> 0 < borrowed_amount p \<and> in_i128 amount \<and> in_i128 (interest_accrued p) \<and>
          borrowed_amount p + interest_accrued p < amount \<longrightarrow>
            repay_with_rate h user asset amount rt s = (Err RepayAmountTooHigh, s))"
proof -
  have "in_i128 (amount - interest_accrued p)"
    if "in_i128 amount" "0 \<le> interest_accrued p" "borrowed_amount p + interest_accrued p < amount" "0 < borrowed_amount p"
    using that by (simp add: i128_defs)
  then show ?thesis
    by (auto simp: repay_with_rate_def run_simps Let_def p [symmetric] checked_add_def checked_sub_def to_i128_def)
qed

theorem repay_refusals_witness:
  "repay_with_rate (sample_host 0) 1 7 1011 Variable sample_state = (Err RepayAmountTooHigh, sample_state)"
proof -
  let ?h = "sample_host 0"
  have p: "sample_debt 1000 10 7 Variable = get_debt_position ?h sample_state 1 (Some 7) Variable"
    by (simp add: get_debt_position_def sample_state_def)
  have same: "(sample_debt 1000 10 7 Variable)\<lparr>rate_type := Variable\<rparr> = sample_debt 1000 10 7 Variable"
    by (simp add: sample_debt_def)
  have r: "borrow_rate_bps ?h sample_state = Inr 102" by code_simp
  have "calculate_interest ?h (sample_debt 1000 10 7 Variable) sample_state = (Ok 0, sample_state)"
    by (subst calculate_interest_variable [OF _ _ r])
       (simp_all add: sample_debt_def get_stablecoin_config_def sample_state_def empty_storage_def sample_host_def
          simple_interest_def i128_defs)
  moreover have d: "borrowed_amount (sample_debt 1000 10 7 Variable) = 1000"
      "interest_accrued (sample_debt 1000 10 7 Variable) = 10" "debt_asset (sample_debt 1000 10 7 Variable) = 7"
    by (simp_all add: sample_debt_def)
  ultimately show ?thesis
    using repay_refusals [OF p, of 1011, unfolded same d] by (simp add: i128_defs del: One_nat_def)
qed

section \<open>Switching the rate type\<close>

text \<open>Switching between variable and stable conserves the debt: only with the user's signature, only
  into an empty position, the whole principal moves, the interest that moves is what was stored plus
  what accrued plus the switch fee, the old position is emptied, and the protocol's total debt does not
  change.\<close>

theorem switch_conserves_debt:
  assumes "switch_rate_type h user asset rt s = (Ok u, t)"
    and f: "f = get_debt_position h s user (Some asset) (other_rate rt)"
    and g: "g = get_debt_position h s user (Some asset) rt"
  shows "\<exists>accrued s1. signed h user \<and> borrowed_amount g = 0 \<and> interest_accrued g = 0 \<and>
     calculate_interest h (f\<lparr>rate_type := other_rate rt\<rparr>) s = (Ok accrued, s1) \<and>
     borrowed_amount (get_debt_position h' t user d rt) = borrowed_amount f \<and>
     interest_accrued (get_debt_position h' t user d rt) =
       interest_accrued f + accrued + borrowed_amount f * get_rate_switch_fee_bps s sdiv 10000 \<and>
     borrowed_amount (get_debt_position h' t user d (other_rate rt)) = 0 \<and>
     interest_accrued (get_debt_position h' t user d (other_rate rt)) = 0 \<and>
     get_total_debt t = get_total_debt s"
proof -
  from assms obtain s1 s2 accrued fee from_p to_p where c: "signed h user"
      "borrowed_amount g = 0" "interest_accrued g = 0"
      "calculate_interest h (f\<lparr>rate_type := other_rate rt\<rparr>) s = (Ok accrued, s1)"
    and fr: "accrual_frame s s2" and fee: "fee = borrowed_amount f * get_rate_switch_fee_bps s sdiv 10000"
    and fp: "rate_type from_p = other_rate rt" "borrowed_amount from_p = 0" "interest_accrued from_p = 0"
    and tp: "rate_type to_p = rt" "borrowed_amount to_p = borrowed_amount f"
      "interest_accrued to_p = interest_accrued f + accrued + fee"
    and t: "t = save_debt_position h user to_p (save_debt_position h user from_p s2)"
    by (rule switch_rate_type_Ok) blast
  have "stored_debt t (rt, user) = Some to_p" "stored_debt t (other_rate rt, user) = Some from_p"
    by (simp_all add: t stored_debt_save fp tp)
  from this [THEN get_debt_position_stored]
  have "get_debt_position h' t user d rt = to_p" "get_debt_position h' t user d (other_rate rt) = from_p" .
  moreover have "get_total_debt t = get_total_debt s"
    using accrual_frame_reads(1) [OF fr] by (simp add: t get_total_debt_def save_debt_position_fields)
  ultimately show ?thesis using c fee fp tp by simp
qed

text \<open>The stable average is already set, so the switch reads it without recomputing.\<close>

theorem switch_conserves_debt_witness:
  "\<exists>t. switch_rate_type (sample_host 0) 1 7 Stable sample_state = (Ok (), t) \<and>
       borrowed_amount (get_debt_position (sample_host 0) t 1 None Stable) = 1000 \<and>
       get_total_debt t = 1000"
proof -
  let ?w = "switch_rate_type (sample_host 0) 1 7 Stable sample_state"
  have "fst ?w = Ok ()" by code_simp
  then have w: "?w = (Ok (), snd ?w)" by (rule run_pair)
  have "borrowed_amount (get_debt_position (sample_host 0) sample_state 1 (Some 7) (other_rate Stable)) = 1000"
    "get_total_debt sample_state = 1000"
    by (simp_all add: get_debt_position_def sample_state_def other_rate_def sample_debt_def get_total_debt_def)
  with switch_conserves_debt [OF w refl refl] w show ?thesis by auto
qed

end
