(* ===== verification/Debt_Book.thy ===== *)
theory Debt_Book
  imports Borrow_Properties
begin

text \<open>
  The abstract specification of the borrow module: a book that gives for each rate type and user the
  principal and the interest owed, beside one total; and the proof that the storage-level operations
  of src/stellar-lend/contracts/lending/src/borrow.rs refine it.
\<close>

section \<open>The abstract book\<close>

record debt_book =
  owed :: "RateType \<times> address \<Rightarrow> int \<times> int"
  book_total :: int

definition book_borrow :: "RateType \<times> address \<Rightarrow> int \<Rightarrow> int \<Rightarrow> debt_book \<Rightarrow> debt_book" where
  "book_borrow k amount accrued B =
     B\<lparr>owed := (owed B)(k := (fst (owed B k) + amount, snd (owed B k) + accrued)),
       book_total := book_total B + amount\<rparr>"

definition book_repay :: "RateType \<times> address \<Rightarrow> int \<Rightarrow> int \<Rightarrow> debt_book \<Rightarrow> debt_book" where
  "book_repay k amount accrued B =
     (let interest = snd (owed B k) + accrued;
          to_interest = min amount interest;
          to_principal = amount - to_interest
      in B\<lparr>owed := (owed B)(k := (fst (owed B k) - to_principal, interest - to_interest)),
           book_total := book_total B - to_principal\<rparr>)"

definition book_move :: "RateType \<times> address \<Rightarrow> RateType \<times> address \<Rightarrow> int \<Rightarrow> debt_book \<Rightarrow> debt_book" where
  "book_move k k' charge B =
     B\<lparr>owed := (owed B)(k := (0, 0), k' := (fst (owed B k), snd (owed B k) + charge))\<rparr>"

section \<open>The abstraction\<close>

definition position_owed :: "DebtPosition option \<Rightarrow> int \<times> int" where
  "position_owed x = (case x of None \<Rightarrow> (0, 0) | Some p \<Rightarrow> (borrowed_amount p, interest_accrued p))"

definition debt_book_of :: "lending_state \<Rightarrow> debt_book" where
  "debt_book_of s = \<lparr>owed = (\<lambda>k. position_owed (stored_debt s k)), book_total = get_total_debt s\<rparr>"

lemma position_owed_read:
  assumes "no_phantom s"
  shows "position_owed (stored_debt s (rt, u)) =
    (borrowed_amount (get_debt_position h s u d rt), interest_accrued (get_debt_position h s u d rt))"
proof (cases "stored_debt s (rt, u)")
  case None
  moreover from None assms have "rt = Variable \<Longrightarrow> BorrowUserDebt s u = None"
    by (auto simp: no_phantom_def stored_debt_def)
  ultimately show ?thesis by (simp add: get_debt_position_absent position_owed_def)
next
  case (Some p)
  then show ?thesis by (simp add: get_debt_position_stored position_owed_def)
qed

lemma debt_book_eq:
  assumes "\<And>k. stored_debt t k = stored_debt s k" and "get_total_debt t = get_total_debt s"
  shows "debt_book_of t = debt_book_of s"
  using assms by (simp add: debt_book_of_def)

text \<open>What a book update by one saved position looks like.\<close>

lemma debt_book_save:
  assumes "stored_debt t = (stored_debt s)(k \<mapsto> p)"
  shows "debt_book_of t = (debt_book_of s)\<lparr>owed := (owed (debt_book_of s))(k := (borrowed_amount p, interest_accrued p)),
                                           book_total := get_total_debt t\<rparr>"
  using assms by (auto simp: debt_book_of_def position_owed_def)

section \<open>The refinement\<close>

lemma borrow_inner_stored:
  assumes "borrow_inner h user asset amount ca camt rt auth s = (Ok u, t)"
  obtains accrued s1 p where
    "calculate_interest h ((get_debt_position h s user (Some asset) rt)\<lparr>rate_type := rt\<rparr>) s = (Ok accrued, s1)"
    "stored_debt t = (stored_debt s)((rt, user) \<mapsto> p)"
    "borrowed_amount p = borrowed_amount (get_debt_position h s user (Some asset) rt) + amount"
    "interest_accrued p = interest_accrued (get_debt_position h s user (Some asset) rt) + accrued"
    "get_total_debt t = get_total_debt s + amount"
proof -
  from assms obtain s1 s2 accrued p where
    acc: "calculate_interest h ((get_debt_position h s user (Some asset) rt)\<lparr>rate_type := rt\<rparr>) s = (Ok accrued, s1)"
    and fr: "accrual_frame s s2" and rt: "rate_type p = rt"
    and p: "borrowed_amount p = borrowed_amount (get_debt_position h s user (Some asset) rt) + amount"
      "interest_accrued p = interest_accrued (get_debt_position h s user (Some asset) rt) + accrued"
    and t: "t = emit_borrow_event h user asset amount camt
          (on_utilization_changed h (get_total_debt s + amount) (get_debt_ceiling s)
          (set_total_debt (get_total_debt s + amount)
          (save_collateral_position user
             \<lparr>bc_amount = bc_amount (get_collateral_position s user) + camt, bc_asset = ca\<rparr>
          (save_debt_position h user p s2))))"
    by (rule borrow_inner_Ok) blast
  have "stored_debt t = stored_debt (save_debt_position h user p s2)"
    unfolding t by (rule stored_debt_cong)
      (simp_all add: emit_borrow_event_def publish_def on_utilization_fields set_total_debt_def save_collateral_position_def)
  also have "\<dots> = (stored_debt s)((rt, user) \<mapsto> p)"
    using stored_debt_cong [OF accrual_frame_fields(1,2) [OF fr]] by (simp add: stored_debt_save rt)
  finally show ?thesis by (rule that [OF acc _ p borrow_inner_post(2) [OF assms]])
qed

lemma repay_with_rate_stored:
  assumes "repay_with_rate h user asset amount rt s = (Ok u, t)"
    and p0: "p0 = get_debt_position h s user (Some asset) rt"
  obtains accrued s1 i p where "calculate_interest h (p0\<lparr>rate_type := rt\<rparr>) s = (Ok accrued, s1)"
    "i = interest_accrued p0 + accrued" "stored_debt t = (stored_debt s)((rt, user) \<mapsto> p)"
    "borrowed_amount p = borrowed_amount p0 - principal_part amount i" "interest_accrued p = interest_left amount i"
    "get_total_debt t = get_total_debt s - principal_part amount i"
proof -
  from assms obtain s1 accrued i r where
    acc: "calculate_interest h (p0\<lparr>rate_type := rt\<rparr>) s = (Ok accrued, s1)" and fr: "accrual_frame s s1"
    and i: "i = interest_accrued p0 + accrued" and r: "r = principal_part amount i"
    and t: "t = publish (RepayEvent user asset amount (now h))
          (save_debt_position h user
            (p0\<lparr>rate_type := rt, last_update := now h, interest_accrued := interest_left amount i,
                borrowed_amount := borrowed_amount p0 - r\<rparr>)
            (if 0 < r then set_total_debt (get_total_debt s - r) s1 else s1))"
    by (rule repay_with_rate_Ok) blast
  let ?p = "p0\<lparr>rate_type := rt, last_update := now h, interest_accrued := interest_left amount i,
                borrowed_amount := borrowed_amount p0 - r\<rparr>"
  let ?s2 = "if 0 < r then set_total_debt (get_total_debt s - r) s1 else s1"
  have "stored_debt t = stored_debt (save_debt_position h user ?p ?s2)"
    unfolding t by (rule stored_debt_cong) (simp_all add: publish_def)
  also have "\<dots> = (stored_debt s)((rt, user) \<mapsto> ?p)"
    using stored_debt_cong [OF accrual_frame_fields(1,2) [OF fr]] by (simp add: stored_debt_save)
  finally have sd: "stored_debt t = (stored_debt s)((rt, user) \<mapsto> ?p)" .
  have "get_total_debt t = get_total_debt s - r"
    using principal_part_nonneg [of amount i] accrual_frame_reads(1) [OF fr] r
    by (auto simp: t publish_def get_total_debt_def save_debt_position_fields set_total_debt_def)
  then show ?thesis using that [OF acc i sd] r by simp
qed

lemma switch_rate_type_stored:
  assumes "switch_rate_type h user asset rt s = (Ok u, t)"
    and f: "f = get_debt_position h s user (Some asset) (other_rate rt)"
  obtains accrued s1 p q where "calculate_interest h (f\<lparr>rate_type := other_rate rt\<rparr>) s = (Ok accrued, s1)"
    "stored_debt t = (stored_debt s)((other_rate rt, user) \<mapsto> p, (rt, user) \<mapsto> q)"
    "borrowed_amount p = 0" "interest_accrued p = 0" "borrowed_amount q = borrowed_amount f"
    "interest_accrued q = interest_accrued f + accrued + borrowed_amount f * get_rate_switch_fee_bps s sdiv 10000"
    "get_total_debt t = get_total_debt s"
proof -
  from assms obtain s1 s2 accrued fee from_p to_p where
    acc: "calculate_interest h (f\<lparr>rate_type := other_rate rt\<rparr>) s = (Ok accrued, s1)"
    and fr: "accrual_frame s s2" and fee: "fee = borrowed_amount f * get_rate_switch_fee_bps s sdiv 10000"
    and fp: "rate_type from_p = other_rate rt" "borrowed_amount from_p = 0" "interest_accrued from_p = 0"
    and tp: "rate_type to_p = rt" "borrowed_amount to_p = borrowed_amount f"
      "interest_accrued to_p = interest_accrued f + accrued + fee"
    and t: "t = save_debt_position h user to_p (save_debt_position h user from_p s2)"
    by (rule switch_rate_type_Ok [where f = f, OF _ _ refl]) blast
  have "stored_debt t = (stored_debt s)((other_rate rt, user) \<mapsto> from_p, (rt, user) \<mapsto> to_p)"
    using stored_debt_cong [OF accrual_frame_fields(1,2) [OF fr]] by (simp add: t stored_debt_save fp tp)
  moreover have "get_total_debt t = get_total_debt s"
    using accrual_frame_reads(1) [OF fr] by (simp add: t get_total_debt_def save_debt_position_fields)
  ultimately show ?thesis using that [OF acc] fp tp fee by simp
qed

text \<open>C3: The storage-level operations refine an abstract debt book: where no position is read through
  its legacy copy, a successful borrow is the book's borrow, a successful repayment the book's repayment
  (interest first, the rest from principal and total) and a successful rate switch the book's move of a
  whole position with its charge, each with the interest the code accrues; nobody else's entry changes.\<close>

theorem operations_refine_debt_book:
  assumes "no_phantom s"
  shows "(borrow_with_rate h user asset amount ca camt rt s = (Ok (), t) \<longrightarrow>
            (\<exists>accrued s1. calculate_interest h ((get_debt_position h s user (Some asset) rt)\<lparr>rate_type := rt\<rparr>) s = (Ok accrued, s1) \<and>
               debt_book_of t = book_borrow (rt, user) amount accrued (debt_book_of s))) \<and>
         (repay_with_rate h user asset amount rt s = (Ok (), t) \<longrightarrow>
            (\<exists>accrued s1. calculate_interest h ((get_debt_position h s user (Some asset) rt)\<lparr>rate_type := rt\<rparr>) s = (Ok accrued, s1) \<and>
               debt_book_of t = book_repay (rt, user) amount accrued (debt_book_of s))) \<and>
         (switch_rate_type h user asset rt s = (Ok (), t) \<longrightarrow>
            (\<exists>charge. debt_book_of t = book_move (other_rate rt, user) (rt, user) charge (debt_book_of s)))"
proof (intro conjI impI)
  let ?p = "get_debt_position h s user (Some asset)"
  have read: "owed (debt_book_of s) (r, user) = (borrowed_amount (?p r), interest_accrued (?p r))" for r
    using position_owed_read [OF assms, of r user h "Some asset"] by (simp add: debt_book_of_def)
  have tot: "book_total (debt_book_of s) = get_total_debt s" by (simp add: debt_book_of_def)
  {
    assume "borrow_with_rate h user asset amount ca camt rt s = (Ok (), t)"
    then obtain accrued s1 p where "calculate_interest h ((?p rt)\<lparr>rate_type := rt\<rparr>) s = (Ok accrued, s1)"
      and "stored_debt t = (stored_debt s)((rt, user) \<mapsto> p)"
      and "borrowed_amount p = borrowed_amount (?p rt) + amount" "interest_accrued p = interest_accrued (?p rt) + accrued"
        "get_total_debt t = get_total_debt s + amount"
      unfolding borrow_with_rate_def by (rule borrow_inner_stored)
    then show "\<exists>accrued s1. calculate_interest h ((?p rt)\<lparr>rate_type := rt\<rparr>) s = (Ok accrued, s1) \<and>
        debt_book_of t = book_borrow (rt, user) amount accrued (debt_book_of s)"
      by (intro exI [of _ accrued] exI [of _ s1] conjI) (simp_all add: debt_book_save book_borrow_def read tot)
  next
    assume "repay_with_rate h user asset amount rt s = (Ok (), t)"
    then obtain accrued s1 i p where "calculate_interest h ((?p rt)\<lparr>rate_type := rt\<rparr>) s = (Ok accrued, s1)"
      and "i = interest_accrued (?p rt) + accrued" "stored_debt t = (stored_debt s)((rt, user) \<mapsto> p)"
      and "borrowed_amount p = borrowed_amount (?p rt) - principal_part amount i" "interest_accrued p = interest_left amount i"
        "get_total_debt t = get_total_debt s - principal_part amount i"
      using refl by (rule repay_with_rate_stored)
    then show "\<exists>accrued s1. calculate_interest h ((?p rt)\<lparr>rate_type := rt\<rparr>) s = (Ok accrued, s1) \<and>
        debt_book_of t = book_repay (rt, user) amount accrued (debt_book_of s)"
      by (intro exI [of _ accrued] exI [of _ s1] conjI)
         (simp_all add: debt_book_save book_repay_def read tot Let_def principal_part_def interest_left_def min_def)
  next
    assume "switch_rate_type h user asset rt s = (Ok (), t)"
    then obtain accrued p q where sd: "stored_debt t = (stored_debt s)((other_rate rt, user) \<mapsto> p, (rt, user) \<mapsto> q)"
      and p: "borrowed_amount p = 0" "interest_accrued p = 0" "borrowed_amount q = borrowed_amount (?p (other_rate rt))"
      "interest_accrued q = interest_accrued (?p (other_rate rt)) + accrued +
         borrowed_amount (?p (other_rate rt)) * get_rate_switch_fee_bps s sdiv 10000"
      "get_total_debt t = get_total_debt s"
      using refl by (rule switch_rate_type_stored)
    have "debt_book_of t = book_move (other_rate rt, user) (rt, user)
        (accrued + borrowed_amount (?p (other_rate rt)) * get_rate_switch_fee_bps s sdiv 10000) (debt_book_of s)"
      using read [of "other_rate rt"] p
      by (auto simp: debt_book_of_def book_move_def sd position_owed_def fun_eq_iff)
    then show "\<exists>charge. debt_book_of t = book_move (other_rate rt, user) (rt, user) charge (debt_book_of s)" ..
  }
qed

theorem operations_refine_debt_book_witness:
  "\<exists>t accrued. repay_with_rate (sample_host 0) 1 7 200 Variable sample_state = (Ok (), t) \<and>
       debt_book_of t = book_repay (Variable, 1) 200 accrued (debt_book_of sample_state)"
proof -
  let ?r = "repay_with_rate (sample_host 0) 1 7 200 Variable sample_state"
  have "fst ?r = Ok ()" by code_simp
  then have r: "?r = (Ok (), snd ?r)" by (rule run_pair)
  have "no_phantom sample_state" by (simp add: no_phantom_def sample_state_def empty_storage_def)
  from operations_refine_debt_book [OF this, of "sample_host 0" 1 7 200 _ _ Variable "snd ?r"] r
  show ?thesis by blast
qed

section \<open>Debts can always be repaid\<close>

text \<open>C6: A debtor can always leave: in a storage whose accounting is intact, repaying exactly the
  principal with the interest accrued up to now succeeds (once the entry point has checked the signature
  and the pause flag) and closes the position; the protocol's total debt falls by the whole principal.\<close>

theorem full_repayment_closes_position:
  assumes inv: "debt_inv s" and rng: "in_i128 (get_total_debt s)"
    and p: "p = get_debt_position h s user (Some asset) rt" "debt_asset p = asset"
      "0 < borrowed_amount p" "0 \<le> interest_accrued p"
    and acc: "calculate_interest h (p\<lparr>rate_type := rt\<rparr>) s = (Ok accrued, s1)" "0 \<le> accrued"
    and fits: "in_i128 (borrowed_amount p + interest_accrued p + accrued)"
  shows "\<exists>t. repay_with_rate h user asset (borrowed_amount p + interest_accrued p + accrued) rt s = (Ok (), t) \<and>
     borrowed_amount (get_debt_position h' t user d rt) = 0 \<and>
     interest_accrued (get_debt_position h' t user d rt) = 0 \<and>
     get_total_debt t = get_total_debt s - borrowed_amount p"
proof -
  let ?a = "borrowed_amount p + interest_accrued p + accrued"
  have fr: "accrual_frame s s1" using acc(1) by (rule calculate_interest_frame)
  have tot1: "get_total_debt s1 = get_total_debt s" by (rule accrual_frame_reads(1) [OF fr])
  have "borrowed_amount p = principal s (rt, user)"
    using inv p(1) by (simp add: debt_inv_def principal_read)
  then have le: "borrowed_amount p \<le> get_total_debt s"
    using ledger_balanced_bal_le_total [of stored_debt borrowed_amount get_total_debt s "(rt, user)"] inv
    by (simp add: debt_inv_def)
  have bounds: "in_i128 (get_total_debt s - borrowed_amount p)" "in_i128 (interest_accrued p + accrued)"
    "in_i128 (borrowed_amount p)"
    using rng fits le p acc(2) by (auto simp: i128_defs)
  have run: "\<exists>t. repay_with_rate h user asset ?a rt s = (Ok (), t)"
    using p(2-4) acc bounds tot1
    by (simp add: repay_with_rate_def run_simps Let_def p(1) [symmetric] checked_defs)
  then obtain t where t: "repay_with_rate h user asset ?a rt s = (Ok (), t)" by blast
  from repay_with_rate_stored [OF t p(1)] obtain accrued' s1' i q where
    acc': "calculate_interest h (p\<lparr>rate_type := rt\<rparr>) s = (Ok accrued', s1')"
    and i: "i = interest_accrued p + accrued'" and sd: "stored_debt t = (stored_debt s)((rt, user) \<mapsto> q)"
    and q: "borrowed_amount q = borrowed_amount p - principal_part ?a i" "interest_accrued q = interest_left ?a i"
      "get_total_debt t = get_total_debt s - principal_part ?a i" .
  have "accrued' = accrued" using acc acc' by simp
  then have "principal_part ?a i = borrowed_amount p" "interest_left ?a i = 0"
    using p(3) by (simp_all add: i principal_part_def interest_left_def)
  moreover have "get_debt_position h' t user d rt = q"
    by (rule get_debt_position_stored) (simp add: sd)
  ultimately show ?thesis using t q by auto
qed

theorem full_repayment_closes_position_witness:
  "\<exists>t. repay_with_rate (sample_host 0) 1 7 1010 Variable sample_state = (Ok (), t) \<and>
       borrowed_amount (get_debt_position (sample_host 0) t 1 None Variable) = 0 \<and> get_total_debt t = 0"
proof -
  let ?h = "sample_host 0" and ?p = "sample_debt 1000 10 7 Variable"
  have d: "borrowed_amount ?p = 1000" "interest_accrued ?p = 10" "debt_asset ?p = 7" "?p\<lparr>rate_type := Variable\<rparr> = ?p"
    by (simp_all add: sample_debt_def)
  have p: "?p = get_debt_position ?h sample_state 1 (Some 7) Variable"
    by (simp add: get_debt_position_def sample_state_def)
  have "fst (calculate_interest ?h ?p sample_state) = Ok 0" by code_simp
  then have acc: "calculate_interest ?h (?p\<lparr>rate_type := Variable\<rparr>) sample_state = (Ok 0, snd (calculate_interest ?h ?p sample_state))"
    unfolding d by (rule run_pair)
  have tot: "get_total_debt sample_state = 1000" by (simp add: sample_state_def get_total_debt_def)
  have sd: "stored_debt sample_state = [(Variable, 1) \<mapsto> ?p]"
    by (auto simp: stored_debt_def sample_state_def empty_storage_def fun_eq_iff split: RateType.splits)
  have "debt_inv sample_state"
    by (simp add: debt_inv_def ledger_balanced_def ledger_sum_def ledger_bal_def sd d tot)
       (simp add: no_phantom_def sample_state_def empty_storage_def)
  from full_repayment_closes_position [OF this _ p _ _ _ acc, of ?h None] show ?thesis
    by (auto simp: d tot i128_defs)
qed

end
