(* ===== verification/Vault.thy ===== *)
theory Vault
  imports Borrow_Facts SL_Interfaces Sample
begin

text \<open>
  The collateral vault: src/stellar-lend/contracts/lending/src/deposit.rs and withdraw.rs. One
  position per user, a protocol-wide total kept beside the positions, a cap on deposits and the 150%
  collateral check on withdrawals.
\<close>

section \<open>Deposits\<close>

definition get_deposit_position :: "host \<Rightarrow> lending_state \<Rightarrow> address \<Rightarrow> address \<Rightarrow> DepositCollateral" where
  "get_deposit_position h s user asset = unwrap_or (UserCollateral s user)
     \<lparr>dc_amount = 0, dc_asset = asset, last_deposit_time = now h\<rparr>"

definition save_deposit_position :: "address \<Rightarrow> DepositCollateral \<Rightarrow> lending_state \<Rightarrow> lending_state" where
  "save_deposit_position user position s = s\<lparr>UserCollateral := (UserCollateral s)(user \<mapsto> position)\<rparr>"

definition get_total_deposits :: "lending_state \<Rightarrow> i128" where
  "get_total_deposits s = unwrap_or (TotalAmount s) 0"

definition set_total_deposits :: "i128 \<Rightarrow> lending_state \<Rightarrow> lending_state" where
  "set_total_deposits amount s = s\<lparr>TotalAmount := Some amount\<rparr>"

definition get_deposit_cap :: "lending_state \<Rightarrow> i128" where
  "get_deposit_cap s = unwrap_or (CapAmount s) i128_max"

definition get_min_deposit_amount :: "lending_state \<Rightarrow> i128" where
  "get_min_deposit_amount s = unwrap_or (MinAmount s) 0"

definition emit_deposit_event ::
    "host \<Rightarrow> address \<Rightarrow> address \<Rightarrow> i128 \<Rightarrow> i128 \<Rightarrow> lending_state \<Rightarrow> lending_state" where
  "emit_deposit_event h user asset amount new_balance =
     publish (VaultDepositEvent user asset amount new_balance (now h))"

definition deposit_with_auth ::
    "host \<Rightarrow> address \<Rightarrow> address \<Rightarrow> i128 \<Rightarrow> bool \<Rightarrow> (lending_state, DepositError, i128) contract_fn" where
  "deposit_with_auth h user asset amount req_auth =
     tryM (if req_auth then require_auth h user else ret ()) (\<lambda>_.
     reads (\<lambda>s. is_paused s Deposit) (\<lambda>paused.
     fail_if paused DepositPaused (
     fail_if (amount \<le> 0) DepositError.InvalidAmount (
     reads get_min_deposit_amount (\<lambda>min_deposit.
     fail_if (amount < min_deposit) DepositError.InvalidAmount (
     reads get_total_deposits (\<lambda>total_deposits.
     reads get_deposit_cap (\<lambda>deposit_cap.
     ok_or (checked_add total_deposits amount) DepositError.Overflow (\<lambda>new_total.
     fail_if (new_total > deposit_cap) ExceedsDepositCap (
     reads (\<lambda>s. get_deposit_position h s user asset) (\<lambda>p0.
     ok_or (checked_add (dc_amount p0) amount) DepositError.Overflow (\<lambda>new_amount.
     let position = p0\<lparr>dc_amount := new_amount, last_deposit_time := now h, dc_asset := asset\<rparr> in
     writes (save_deposit_position user position) (
     writes (set_total_deposits new_total) (
     writes (emit_deposit_event h user asset amount (dc_amount position))
     (ret (dc_amount position))))))))))))))))"

definition deposit :: "host \<Rightarrow> address \<Rightarrow> address \<Rightarrow> i128 \<Rightarrow> (lending_state, DepositError, i128) contract_fn" where
  "deposit h user asset amount = deposit_with_auth h user asset amount True"

definition initialize_deposit_settings ::
    "i128 \<Rightarrow> i128 \<Rightarrow> (lending_state, DepositError, unit) contract_fn" where
  "initialize_deposit_settings deposit_cap min_deposit_amount =
     writes (\<lambda>s. s\<lparr>CapAmount := Some deposit_cap\<rparr>) (
     writes (\<lambda>s. s\<lparr>MinAmount := Some min_deposit_amount\<rparr>)
     (ret ()))"

definition get_deposit_collateral :: "host \<Rightarrow> lending_state \<Rightarrow> address \<Rightarrow> address \<Rightarrow> DepositCollateral" where
  "get_deposit_collateral h s user asset = get_deposit_position h s user asset"

section \<open>Withdrawals\<close>

text \<open>withdraw.rs has its own private copies of the vault's readers and writers; they carry the
  prefix \<open>w_\<close> here.\<close>

definition MIN_COLLATERAL_RATIO_BPS :: i128 where
  "MIN_COLLATERAL_RATIO_BPS = 15000"

definition w_get_collateral_position ::
    "host \<Rightarrow> lending_state \<Rightarrow> address \<Rightarrow> address \<Rightarrow> DepositCollateral" where
  "w_get_collateral_position h s user asset = unwrap_or (UserCollateral s user)
     \<lparr>dc_amount = 0, dc_asset = asset, last_deposit_time = now h\<rparr>"

definition w_save_collateral_position :: "address \<Rightarrow> DepositCollateral \<Rightarrow> lending_state \<Rightarrow> lending_state" where
  "w_save_collateral_position user position s = s\<lparr>UserCollateral := (UserCollateral s)(user \<mapsto> position)\<rparr>"

definition w_get_total_deposits :: "lending_state \<Rightarrow> i128" where
  "w_get_total_deposits s = unwrap_or (TotalAmount s) 0"

definition w_set_total_deposits :: "i128 \<Rightarrow> lending_state \<Rightarrow> lending_state" where
  "w_set_total_deposits amount s = s\<lparr>TotalAmount := Some amount\<rparr>"

definition get_min_withdraw_amount :: "lending_state \<Rightarrow> i128" where
  "get_min_withdraw_amount s = unwrap_or (MinWithdrawAmount s) 0"

definition w_is_paused :: "lending_state \<Rightarrow> bool" where
  "w_is_paused s = unwrap_or (Paused s) False"

definition validate_collateral_ratio_after_withdraw ::
    "lending_state \<Rightarrow> address \<Rightarrow> i128 \<Rightarrow> WithdrawError + unit" where
  "validate_collateral_ratio_after_withdraw s user remaining_collateral =
     (case BorrowUserDebt s user of
        None \<Rightarrow> Inr ()
      | Some debt \<Rightarrow>
          ok_orE (checked_add (borrowed_amount debt) (interest_accrued debt)) WithdrawError.Overflow (\<lambda>total_debt.
          if total_debt > 0 then
            ok_orE (checked_mul total_debt MIN_COLLATERAL_RATIO_BPS) WithdrawError.Overflow (\<lambda>m.
            ok_orE (checked_div m 10000) WithdrawError.Overflow (\<lambda>min_collateral.
            if remaining_collateral < min_collateral then Inl InsufficientCollateralRatio else Inr ()))
          else Inr ()))"

definition withdraw_with_auth ::
    "host \<Rightarrow> address \<Rightarrow> address \<Rightarrow> i128 \<Rightarrow> bool \<Rightarrow> (lending_state, WithdrawError, i128) contract_fn" where
  "withdraw_with_auth h user asset amount req_auth =
     tryM (if req_auth then require_auth h user else ret ()) (\<lambda>_.
     reads (\<lambda>s. w_is_paused s \<or> is_paused s Withdraw) (\<lambda>paused.
     fail_if paused WithdrawPaused (
     fail_if (amount \<le> 0) WithdrawError.InvalidAmount (
     reads get_min_withdraw_amount (\<lambda>min_withdraw.
     fail_if (amount < min_withdraw) WithdrawError.InvalidAmount (
     reads (\<lambda>s. w_get_collateral_position h s user asset) (\<lambda>position.
     fail_if (dc_amount position < amount) WithdrawError.InsufficientCollateral (
     ok_or (checked_sub (dc_amount position) amount) WithdrawError.Overflow (\<lambda>new_amount.
     reads (\<lambda>s. validate_collateral_ratio_after_withdraw s user new_amount) (\<lambda>check.
     tryM (liftE check) (\<lambda>_.
     let updated_position = \<lparr>dc_amount = new_amount, dc_asset = asset,
                             last_deposit_time = last_deposit_time position\<rparr> in
     writes (w_save_collateral_position user updated_position) (
     reads w_get_total_deposits (\<lambda>total_deposits.
     let new_total = unwrap_or (checked_sub total_deposits amount) 0 in
     writes (w_set_total_deposits new_total) (
     writes (publish (WithdrawEvent user asset amount new_amount (now h)))
     (ret new_amount)))))))))))))))"

definition withdraw :: "host \<Rightarrow> address \<Rightarrow> address \<Rightarrow> i128 \<Rightarrow> (lending_state, WithdrawError, i128) contract_fn" where
  "withdraw h user asset amount = withdraw_with_auth h user asset amount True"

definition initialize_withdraw_settings :: "i128 \<Rightarrow> (lending_state, WithdrawError, unit) contract_fn" where
  "initialize_withdraw_settings min_withdraw_amount =
     writes (\<lambda>s. s\<lparr>MinWithdrawAmount := Some min_withdraw_amount\<rparr>) (
     writes (\<lambda>s. s\<lparr>Paused := Some False\<rparr>)
     (ret ()))"

definition set_withdraw_paused :: "bool \<Rightarrow> (lending_state, WithdrawError, unit) contract_fn" where
  "set_withdraw_paused paused = writes (\<lambda>s. s\<lparr>Paused := Some paused\<rparr>) (ret ())"

text \<open>The copies agree with deposit.rs: both modules work on the same vault.\<close>

lemma withdraw_same_vault [simp]:
  "w_get_collateral_position = get_deposit_position"
  "w_save_collateral_position = save_deposit_position"
  "w_get_total_deposits = get_total_deposits"
  "w_set_total_deposits = set_total_deposits"
  by (simp_all add: fun_eq_iff w_get_collateral_position_def get_deposit_position_def
      w_save_collateral_position_def save_deposit_position_def w_get_total_deposits_def
      get_total_deposits_def w_set_total_deposits_def set_total_deposits_def)

section \<open>Successful operations\<close>

abbreviation vault_balance :: "lending_state \<Rightarrow> address \<Rightarrow> i128" where
  "vault_balance \<equiv> ledger_bal UserCollateral dc_amount"

abbreviation vault_balanced :: "lending_state \<Rightarrow> bool" where
  "vault_balanced \<equiv> ledger_balanced UserCollateral dc_amount get_total_deposits"

lemma vault_balance_read: "dc_amount (get_deposit_position h s u a) = vault_balance s u"
  by (simp add: get_deposit_position_def ledger_bal_def unwrap_or_def split: option.split)

interpretation vault: ledger UserCollateral dc_amount get_total_deposits save_deposit_position
    set_total_deposits "\<lambda>_ _. True"
  by unfold_locales
    (simp_all add: save_deposit_position_def set_total_deposits_def get_total_deposits_def)

definition deposited :: "host \<Rightarrow> address \<Rightarrow> address \<Rightarrow> i128 \<Rightarrow> lending_state \<Rightarrow> lending_state" where
  "deposited h user asset amount s =
     set_total_deposits (get_total_deposits s + amount)
       (save_deposit_position user
         \<lparr>dc_amount = vault_balance s user + amount, dc_asset = asset, last_deposit_time = now h\<rparr> s)"

lemma deposit_position_rebuilt:
  "p\<lparr>dc_amount := a, last_deposit_time := tm, dc_asset := b\<rparr> =
     \<lparr>dc_amount = a, dc_asset = b, last_deposit_time = tm\<rparr>" for p :: DepositCollateral
  by (cases p) simp

lemma deposit_with_auth_Ok:
  "deposit_with_auth h user asset amount b s = (Ok r, t) \<longleftrightarrow>
     (b \<longrightarrow> signed h user) \<and> \<not> is_paused s Deposit \<and> 0 < amount \<and> get_min_deposit_amount s \<le> amount \<and>
     in_i128 (get_total_deposits s + amount) \<and> get_total_deposits s + amount \<le> get_deposit_cap s \<and>
     in_i128 (vault_balance s user + amount) \<and> r = vault_balance s user + amount \<and>
     t = emit_deposit_event h user asset amount r (deposited h user asset amount s)"
  by (cases b) (auto simp: deposit_with_auth_def Let_def ok_simps deposited_def not_le not_less
      vault_balance_read deposit_position_rebuilt)

definition withdrawn :: "address \<Rightarrow> address \<Rightarrow> i128 \<Rightarrow> u64 \<Rightarrow> lending_state \<Rightarrow> lending_state" where
  "withdrawn user asset amount time s =
     set_total_deposits (unwrap_or (checked_sub (get_total_deposits s) amount) 0)
       (save_deposit_position user
         \<lparr>dc_amount = vault_balance s user - amount, dc_asset = asset, last_deposit_time = time\<rparr> s)"

lemma withdraw_with_auth_Ok:
  "withdraw_with_auth h user asset amount b s = (Ok r, t) \<longleftrightarrow>
     (b \<longrightarrow> signed h user) \<and> \<not> w_is_paused s \<and> \<not> is_paused s Withdraw \<and> 0 < amount \<and>
     get_min_withdraw_amount s \<le> amount \<and> amount \<le> vault_balance s user \<and>
     in_i128 (vault_balance s user - amount) \<and> r = vault_balance s user - amount \<and>
     validate_collateral_ratio_after_withdraw s user r = Inr () \<and>
     t = publish (WithdrawEvent user asset amount r (now h))
           (withdrawn user asset amount (last_deposit_time (get_deposit_position h s user asset)) s)"
proof -
  have "get_total_deposits (save_deposit_position u p s) = get_total_deposits s" for u p
    by (simp add: save_deposit_position_def get_total_deposits_def)
  then show ?thesis
    by (cases b) (auto simp: withdraw_with_auth_def Let_def ok_simps withdrawn_def not_le not_less
      vault_balance_read)
qed

section \<open>The total is the sum of the positions\<close>

lemma vault_balanced_cong:
  "UserCollateral t = UserCollateral s \<Longrightarrow> TotalAmount t = TotalAmount s \<Longrightarrow> vault_balanced t = vault_balanced s"
  by (rule ledger_balanced_cong) (simp_all add: get_total_deposits_def)

lemma deposit_with_auth_balanced:
  assumes "vault_balanced s" and "deposit_with_auth h user asset amount b s = (Ok r, t)"
  shows "vault_balanced t"
proof -
  let ?v = "\<lparr>dc_amount = vault_balance s user + amount, dc_asset = asset, last_deposit_time = now h\<rparr>"
  have "0 \<le> vault_balance s user" using assms(1) by (simp add: ledger_balanced_def)
  with assms have "vault_balanced (deposited h user asset amount s)"
    using vault.balanced_post [where s = s and k = user and v = ?v and d = amount]
    by (simp add: deposited_def deposit_with_auth_Ok)
  moreover have "vault_balanced t = vault_balanced (deposited h user asset amount s)"
    using assms(2) by (intro vault_balanced_cong) (simp_all add: deposit_with_auth_Ok emit_deposit_event_def publish_def)
  ultimately show ?thesis by simp
qed

text \<open>In a balanced vault the fallback \<open>unwrap_or(0)\<close> of the withdrawal is never taken.\<close>

lemma withdraw_total_exact:
  assumes "vault_balanced s" and "0 < amount" and "amount \<le> vault_balance s user"
    and "in_i128 (get_total_deposits s)"
  shows "unwrap_or (checked_sub (get_total_deposits s) amount) 0 = get_total_deposits s - amount"
proof -
  have "vault_balance s user \<le> get_total_deposits s"
    using assms(1) by (rule ledger_balanced_bal_le_total)
  with assms have "in_i128 (get_total_deposits s - amount)" by (simp add: i128_defs)
  then show ?thesis by (simp add: checked_sub_def to_i128_def)
qed

definition vault_inv :: "lending_state \<Rightarrow> bool" where
  "vault_inv s \<longleftrightarrow> vault_balanced s \<and> in_i128 (get_total_deposits s)"

lemma vault_inv_cong:
  "UserCollateral t = UserCollateral s \<Longrightarrow> TotalAmount t = TotalAmount s \<Longrightarrow> vault_inv t = vault_inv s"
  unfolding vault_inv_def using vault_balanced_cong [of t s] by (simp add: get_total_deposits_def)

lemma deposit_with_auth_vault_inv:
  assumes "vault_inv s" and "deposit_with_auth h user asset amount b s = (Ok r, t)"
  shows "vault_inv t"
  using assms deposit_with_auth_balanced [of s h user asset amount b r t]
  by (auto simp: vault_inv_def deposit_with_auth_Ok emit_deposit_event_def publish_def deposited_def
      set_total_deposits_def get_total_deposits_def)

lemma withdraw_with_auth_vault_inv:
  assumes "vault_inv s" and "withdraw_with_auth h user asset amount b s = (Ok r, t)"
  shows "vault_inv t"
proof -
  let ?tm = "last_deposit_time (get_deposit_position h s user asset)"
  let ?v = "\<lparr>dc_amount = vault_balance s user - amount, dc_asset = asset, last_deposit_time = ?tm\<rparr>"
  from assms have bal: "vault_balanced s" and tot: "in_i128 (get_total_deposits s)"
    and amt: "0 < amount" "amount \<le> vault_balance s user"
    and t: "t = publish (WithdrawEvent user asset amount r (now h)) (withdrawn user asset amount ?tm s)"
    by (auto simp: vault_inv_def withdraw_with_auth_Ok)
  have w: "withdrawn user asset amount ?tm s = set_total_deposits (get_total_deposits s + - amount)
      (save_deposit_position user ?v s)"
    by (simp add: withdrawn_def withdraw_total_exact [OF bal amt tot])
  have "vault_balanced (withdrawn user asset amount ?tm s)"
    unfolding w using bal amt by (intro vault.balanced_post) simp_all
  moreover have "in_i128 (get_total_deposits (withdrawn user asset amount ?tm s))"
    using tot amt ledger_balanced_bal_le_total [OF bal, of user]
    by (simp add: w set_total_deposits_def get_total_deposits_def i128_defs)
  ultimately have "vault_inv (withdrawn user asset amount ?tm s)" by (simp add: vault_inv_def)
  moreover have "vault_inv t = vault_inv (withdrawn user asset amount ?tm s)"
    unfolding t by (rule vault_inv_cong) (simp_all add: publish_def)
  ultimately show ?thesis by simp
qed

lemma vault_inv_empty: "vault_inv empty_storage"
  by (simp add: vault_inv_def ledger_balanced_def ledger_sum_def ledger_bal_def empty_storage_def get_total_deposits_def)

section \<open>Properties\<close>

text \<open>A vault deposit succeeds exactly when the user signed, deposits are not paused, the
  amount is positive and not below the minimum, nothing overflows and the cap holds afterwards; it
  then returns the user's new balance, raises that user's balance and the protocol total by exactly
  the amount, stamps the position with the asset and the time, and publishes one event.\<close>

theorem deposit_spec:
  "deposit h user asset amount s = (Ok r, t) \<longleftrightarrow>
     signed h user \<and> \<not> is_paused s Deposit \<and> 0 < amount \<and> get_min_deposit_amount s \<le> amount \<and>
     in_i128 (get_total_deposits s + amount) \<and> get_total_deposits s + amount \<le> get_deposit_cap s \<and>
     in_i128 (vault_balance s user + amount) \<and> r = vault_balance s user + amount \<and>
     t = s\<lparr>UserCollateral := (UserCollateral s)(user \<mapsto>
              \<lparr>dc_amount = r, dc_asset = asset, last_deposit_time = now h\<rparr>),
            TotalAmount := Some (get_total_deposits s + amount),
            events := events s @ [VaultDepositEvent user asset amount r (now h)]\<rparr>"
  by (auto simp: deposit_def deposit_with_auth_Ok deposited_def emit_deposit_event_def publish_def
      set_total_deposits_def save_deposit_position_def)

text \<open>C14: A successful withdrawal never takes more than the position holds and leaves the 150%
  collateral requirement intact: when the recorded debt of the user (principal plus stored
  interest) is positive, what remains is at least 1.5 times that debt, rounded down.\<close>

theorem withdraw_keeps_ratio:
  assumes "withdraw h user asset amount s = (Ok r, t)"
    and "BorrowUserDebt s user = Some d" and "0 < borrowed_amount d + interest_accrued d"
  shows "0 \<le> r \<and> r = vault_balance s user - amount \<and> vault_balance t user = r \<and>
         (borrowed_amount d + interest_accrued d) * 15000 div 10000 \<le> r"
  using assms
  by (auto simp: withdraw_def withdraw_with_auth_Ok validate_collateral_ratio_after_withdraw_def ok_simps
      MIN_COLLATERAL_RATIO_BPS_def sdiv_nonneg_eq withdrawn_def publish_def set_total_deposits_def
      save_deposit_position_def ledger_bal_def split: if_splits)

definition vault_sample :: lending_state where
  "vault_sample = sample_state\<lparr>UserCollateral := [1 \<mapsto> \<lparr>dc_amount = 5000, dc_asset = 8, last_deposit_time = 0\<rparr>],
     TotalAmount := Some 5000\<rparr>"

theorem withdraw_keeps_ratio_witness:
  "\<exists>t. withdraw (sample_host 10) 1 8 3000 vault_sample = (Ok 2000, t) \<and> vault_balance t 1 = 2000"
proof -
  let ?w = "withdraw (sample_host 10) 1 8 3000 vault_sample"
  have "fst ?w = Ok 2000" by code_simp
  then have w: "?w = (Ok 2000, snd ?w)" by (rule run_pair)
  have d: "BorrowUserDebt vault_sample 1 = Some (sample_debt 1000 10 7 Variable)"
    by (simp add: vault_sample_def sample_state_def)
  show ?thesis
    using withdraw_keeps_ratio [OF w d] w by (auto simp: sample_debt_def)
qed

text \<open>Depositing and withdrawing the same amount is a round trip: in a balanced vault, once a
  deposit succeeded, a user without recorded debt can withdraw the amount again (withdrawals not
  paused, the minimum met), and then every balance and the protocol total are what they were.\<close>

theorem deposit_withdraw_round_trip:
  assumes inv: "vault_inv s" and dep: "deposit h user asset amount s = (Ok r, t)"
    and "BorrowUserDebt s user = None" and "signed h' user"
    and "\<not> w_is_paused s" and "\<not> is_paused s Withdraw" and "get_min_withdraw_amount s \<le> amount"
  shows "\<exists>u. withdraw h' user asset amount t = (Ok (vault_balance s user), u) \<and>
             vault_balance u = vault_balance s \<and> get_total_deposits u = get_total_deposits s"
proof -
  have invt: "vault_inv t" using deposit_with_auth_vault_inv [OF inv] dep unfolding deposit_def by blast
  have t: "t = emit_deposit_event h user asset amount r (deposited h user asset amount s)"
    and amt: "0 < amount" and r: "r = vault_balance s user + amount" and rng: "in_i128 r"
    using dep by (auto simp: deposit_def deposit_with_auth_Ok)
  have bal: "vault_balance t = (vault_balance s)(user := r)"
    by (simp add: t r emit_deposit_event_def publish_def deposited_def set_total_deposits_def
        save_deposit_position_def ledger_bal_def fun_eq_iff)
  have same: "BorrowUserDebt t = BorrowUserDebt s" "Paused t = Paused s" "State t = State s"
    "MinWithdrawAmount t = MinWithdrawAmount s" and tot: "get_total_deposits t = get_total_deposits s + amount"
    by (simp_all add: t emit_deposit_event_def publish_def deposited_def set_total_deposits_def
        save_deposit_position_def get_total_deposits_def)
  have ge: "0 \<le> vault_balance s user" using inv by (simp add: vault_inv_def ledger_balanced_def)
  have rng': "in_i128 (vault_balance s user)"
    by (rule in_i128_between [OF ge _ rng]) (use r amt in simp)
  have exact: "unwrap_or (checked_sub (get_total_deposits t) amount) 0 = get_total_deposits s"
    using withdraw_total_exact [of t amount user] invt amt ge by (simp add: vault_inv_def bal r tot)
  define u where "u = publish (WithdrawEvent user asset amount (vault_balance s user) (now h'))
    (withdrawn user asset amount (last_deposit_time (get_deposit_position h' t user asset)) t)"
  have "withdraw h' user asset amount t = (Ok (vault_balance s user), u)"
    using assms amt ge rng' same by (simp add: withdraw_def withdraw_with_auth_Ok u_def bal r w_is_paused_def
        get_min_withdraw_amount_def validate_collateral_ratio_after_withdraw_def is_paused_cong [of t s])
  moreover have "vault_balance u = vault_balance s"
    by (simp add: u_def publish_def withdrawn_def set_total_deposits_def save_deposit_position_def
        ledger_bal_def fun_eq_iff) (metis bal fun_upd_apply ledger_bal_def r add_diff_cancel_right')
  moreover have "get_total_deposits u = get_total_deposits s"
    using exact by (simp add: u_def publish_def withdrawn_def set_total_deposits_def get_total_deposits_def)
  ultimately show ?thesis by blast
qed

theorem deposit_withdraw_round_trip_witness:
  "\<exists>u. withdraw (sample_host 20) 2 8 70 (snd (deposit (sample_host 10) 2 8 70 empty_storage)) = (Ok 0, u)
       \<and> get_total_deposits u = 0"
proof -
  let ?d = "deposit (sample_host 10) 2 8 70 empty_storage"
  have "fst ?d = Ok 70" by code_simp
  then have d: "?d = (Ok 70, snd ?d)" by (rule run_pair)
  note inv = vault_inv_empty
  have "vault_balance empty_storage 2 = 0" "get_total_deposits empty_storage = 0"
    by (simp_all add: empty_storage_def ledger_bal_def get_total_deposits_def)
  then show ?thesis
    using deposit_withdraw_round_trip [OF inv d, of "sample_host 20"]
    by (auto simp: empty_storage_def sample_host_def w_is_paused_def is_paused_def get_min_withdraw_amount_def)
qed

end
