(* ===== verification/Views.thy ===== *)
theory Views
  imports Borrow_Facts Sample
begin

text \<open>
  Position values, the health factor and the liquidation quantities:
  src/stellar-lend/contracts/lending/src/views.rs. The functions return plain values in the source;
  here they may also panic, because the oracle call they make may trap.
\<close>

definition PRICE_SCALE :: i128 where
  "PRICE_SCALE = 100000000"

definition HEALTH_FACTOR_SCALE :: i128 where
  "HEALTH_FACTOR_SCALE = 10000"

definition HEALTH_FACTOR_NO_DEBT :: i128 where
  "HEALTH_FACTOR_NO_DEBT = 100000000"

record UserPositionSummary =
  collateral_balance :: i128
  collateral_value_usd :: i128
  debt_balance :: i128
  debt_value_usd :: i128
  health_factor :: i128

record ProtocolMetrics =
  total_value_locked :: i128
  total_deposits :: i128
  total_borrows :: i128
  utilization_rate :: i128
  total_users :: u32
  total_transactions :: u32

record StablecoinAssetStats =
  sas_asset :: address
  sas_price :: i128
  sas_target_price :: i128
  sas_deviation_bps :: i128
  sas_stability_fee_bps :: i128
  is_depegged :: bool

record ProtocolReport =
  metrics :: ProtocolMetrics
  stablecoin_stats :: "StablecoinAssetStats list"
  report_timestamp :: u64

section \<open>Values\<close>

text \<open>\<open>I256(a).mul(b).div(c)\<close>\<close>

definition i256_muldiv :: "int \<Rightarrow> int \<Rightarrow> int \<Rightarrow> int option" where
  "i256_muldiv a b c = Option.bind (i256_mul a b) (\<lambda>x. i256_div x c)"

definition get_asset_price :: "host \<Rightarrow> address \<Rightarrow> address \<Rightarrow> (lending_state, BorrowError, i128) contract_fn" where
  "get_asset_price h oracle_addr asset = unwrap (oracle_price h oracle_addr asset) ret"

definition collateral_value :: "host \<Rightarrow> BorrowCollateral \<Rightarrow> (lending_state, BorrowError, i128) contract_fn" where
  "collateral_value h collateral =
     (if bc_amount collateral \<le> 0 then ret 0
      else reads get_oracle (\<lambda>oracle_opt.
        case oracle_opt of
          None \<Rightarrow> ret 0
        | Some oracle_addr \<Rightarrow>
            tryM (get_asset_price h oracle_addr (bc_asset collateral)) (\<lambda>price.
            if price \<le> 0 then ret 0
            else unwrap (i256_muldiv (bc_amount collateral) price PRICE_SCALE) (\<lambda>val_256.
              ret (unwrap_or (to_i128 val_256) 0)))))"

definition debt_balance_of :: "DebtPosition \<Rightarrow> i128" where
  "debt_balance_of position =
     unwrap_or (checked_add (borrowed_amount position) (interest_accrued position)) 0"

definition debt_value :: "host \<Rightarrow> DebtPosition \<Rightarrow> (lending_state, BorrowError, i128) contract_fn" where
  "debt_value h position =
     (let total_debt = debt_balance_of position in
      if total_debt \<le> 0 then ret 0
      else reads get_oracle (\<lambda>oracle_opt.
        case oracle_opt of
          None \<Rightarrow> ret 0
        | Some oracle_addr \<Rightarrow>
            tryM (get_asset_price h oracle_addr (debt_asset position)) (\<lambda>price.
            if price \<le> 0 then ret 0
            else unwrap (i256_muldiv total_debt price PRICE_SCALE) (\<lambda>val_256.
              ret (unwrap_or (to_i128 val_256) 0)))))"

definition compute_health_factor :: "i128 \<Rightarrow> i128 \<Rightarrow> bool \<Rightarrow> (lending_state, BorrowError, i128) contract_fn" where
  "compute_health_factor cv dv has_debt =
     (if dv \<le> 0 then ret (if has_debt then 0 else HEALTH_FACTOR_NO_DEBT)
      else reads get_oracle (\<lambda>oracle_opt.
        case oracle_opt of
          None \<Rightarrow> ret 0
        | Some _ \<Rightarrow>
            reads get_liquidation_threshold_bps (\<lambda>bps.
            unwrap (i256_muldiv cv bps 10000) (\<lambda>weighted_collateral.
            unwrap (i256_muldiv weighted_collateral HEALTH_FACTOR_SCALE dv) (\<lambda>hf_256.
            ret (unwrap_or (to_i128 hf_256) 0))))))"

section \<open>Public views\<close>

definition get_collateral_balance :: "lending_state \<Rightarrow> address \<Rightarrow> i128" where
  "get_collateral_balance s user = bc_amount (get_user_collateral s user)"

definition get_debt_balance :: "host \<Rightarrow> address \<Rightarrow> (lending_state, BorrowError, i128) contract_fn" where
  "get_debt_balance h user = tryM (get_user_debt h user) (\<lambda>position. ret (debt_balance_of position))"

definition get_collateral_value :: "host \<Rightarrow> address \<Rightarrow> (lending_state, BorrowError, i128) contract_fn" where
  "get_collateral_value h user = reads (\<lambda>s. get_user_collateral s user) (collateral_value h)"

definition get_debt_value :: "host \<Rightarrow> address \<Rightarrow> (lending_state, BorrowError, i128) contract_fn" where
  "get_debt_value h user = tryM (get_user_debt h user) (debt_value h)"

definition get_health_factor :: "host \<Rightarrow> address \<Rightarrow> (lending_state, BorrowError, i128) contract_fn" where
  "get_health_factor h user =
     reads (\<lambda>s. get_user_collateral s user) (\<lambda>collateral.
     tryM (get_user_debt h user) (\<lambda>position.
     tryM (collateral_value h collateral) (\<lambda>cv.
     tryM (debt_value h position) (\<lambda>dv.
     compute_health_factor cv dv (debt_balance_of position > 0)))))"

definition get_max_liquidatable_amount :: "host \<Rightarrow> address \<Rightarrow> (lending_state, BorrowError, i128) contract_fn" where
  "get_max_liquidatable_amount h user =
     tryM (get_user_debt h user) (\<lambda>position.
     let total_debt = debt_balance_of position in
     if total_debt \<le> 0 then ret 0
     else
       reads (\<lambda>s. get_user_collateral s user) (\<lambda>collateral.
       tryM (collateral_value h collateral) (\<lambda>cv.
       tryM (debt_value h position) (\<lambda>dv.
       tryM (compute_health_factor cv dv True) (\<lambda>hf.
       if hf = 0 \<or> hf \<ge> HEALTH_FACTOR_SCALE then ret 0
       else reads get_close_factor_bps (\<lambda>close_factor.
         unwrap (i256_muldiv total_debt close_factor 10000) (\<lambda>result.
         ret (unwrap_or (to_i128 result) 0))))))))"

definition get_liquidation_incentive_amount :: "i128 \<Rightarrow> (lending_state, BorrowError, i128) contract_fn" where
  "get_liquidation_incentive_amount repay_amount =
     (if repay_amount \<le> 0 then ret 0
      else reads get_liquidation_incentive_bps (\<lambda>incentive_bps.
        unwrap (checked_add 10000 incentive_bps) (\<lambda>scale.
        unwrap (i256_muldiv repay_amount scale 10000) (\<lambda>result.
        ret (unwrap_or (to_i128 result) i128_max)))))"

definition get_user_position :: "host \<Rightarrow> address \<Rightarrow> (lending_state, BorrowError, UserPositionSummary) contract_fn" where
  "get_user_position h user =
     reads (\<lambda>s. get_user_collateral s user) (\<lambda>collateral.
     tryM (get_user_debt h user) (\<lambda>position.
     tryM (collateral_value h collateral) (\<lambda>cv.
     tryM (debt_value h position) (\<lambda>dv.
     tryM (compute_health_factor cv dv (debt_balance_of position > 0)) (\<lambda>hf.
     ret \<lparr>collateral_balance = bc_amount collateral, collateral_value_usd = cv,
          debt_balance = debt_balance_of position, debt_value_usd = dv, health_factor = hf\<rparr>)))))"

fun collect_stablecoin_stats ::
    "host \<Rightarrow> address \<Rightarrow> address list \<Rightarrow> (lending_state, BorrowError, StablecoinAssetStats list) contract_fn" where
  "collect_stablecoin_stats h oracle_addr [] = ret []"
| "collect_stablecoin_stats h oracle_addr (asset # rest) =
     reads (\<lambda>s. get_stablecoin_config s asset) (\<lambda>config_opt.
     case config_opt of
       None \<Rightarrow> collect_stablecoin_stats h oracle_addr rest
     | Some config \<Rightarrow>
         unwrap (oracle_price h oracle_addr asset) (\<lambda>price.
         let deviation_bps = peg_deviation_bps config price;
             stats = \<lparr>sas_asset = asset, sas_price = price, sas_target_price = target_price config,
                      sas_deviation_bps = deviation_bps, sas_stability_fee_bps = stability_fee_bps config,
                      is_depegged = (deviation_bps > peg_threshold_bps config)\<rparr> in
         tryM (collect_stablecoin_stats h oracle_addr rest) (\<lambda>more. ret (stats # more))))"

definition get_protocol_report ::
    "host \<Rightarrow> address list \<Rightarrow> (lending_state, BorrowError, ProtocolReport) contract_fn" where
  "get_protocol_report h stablecoin_assets =
     (let m = \<lparr>total_value_locked = 0, total_deposits = 0, total_borrows = 0, utilization_rate = 0,
               total_users = 0, total_transactions = 0\<rparr> in
      reads get_oracle (\<lambda>oracle_opt.
      tryM (case oracle_opt of
              None \<Rightarrow> ret []
            | Some oracle_addr \<Rightarrow> collect_stablecoin_stats h oracle_addr stablecoin_assets) (\<lambda>stats.
      ret \<lparr>metrics = m, stablecoin_stats = stats, report_timestamp = now h\<rparr>)))"

section \<open>Arithmetic of the views\<close>

lemma in_i256_mul_i128: "in_i128 a \<Longrightarrow> in_i128 b \<Longrightarrow> in_i256 (a * b)"
proof -
  assume "in_i128 a" "in_i128 b"
  then have "\<bar>a\<bar> \<le> 2 ^ 127" "\<bar>b\<bar> \<le> 2 ^ 127" by (auto simp: i128_defs)
  then have "\<bar>a\<bar> * \<bar>b\<bar> \<le> 2 ^ 127 * 2 ^ 127" by (intro mult_mono) auto
  then have "\<bar>a * b\<bar> \<le> 2 ^ 254" by (simp add: abs_mult)
  then show ?thesis by (auto simp: in_i256_def)
qed

lemma i256_muldiv_nonneg:
  assumes "0 \<le> a" "in_i128 a" "0 \<le> b" "in_i128 b" "0 < c"
  shows "i256_muldiv a b c = Some (a * b div c)"
proof -
  have ab: "0 \<le> a * b" "in_i256 (a * b)" using assms by (simp_all add: in_i256_mul_i128)
  have "a * b div c \<le> a * b" "0 \<le> a * b div c"
    using assms ab(1) by (simp_all add: zdiv_le_self pos_imp_zdiv_nonneg_iff)
  with ab assms show ?thesis
    by (simp add: i256_muldiv_def i256_mul_def i256_div_def sdiv_nonneg_eq in_i256_def)
qed

lemma le_div_iff_mult: "0 < d \<Longrightarrow> (n \<le> a div d) = (n * d \<le> a)" for n a d :: int
proof
  assume "0 < d" "n \<le> a div d"
  then have "n * d \<le> a div d * d" by simp
  also have "\<dots> \<le> a" using \<open>0 < d\<close> by (metis add.commute add_le_cancel_left div_mult_mod_eq le_add_same_cancel1 pos_mod_sign)
  finally show "n * d \<le> a" .
next
  assume "0 < d" "n * d \<le> a"
  then have "n * d div d \<le> a div d" by (intro zdiv_mono1)
  with \<open>0 < d\<close> show "n \<le> a div d" by simp
qed

text \<open>A 256-bit result that does not fit in i128 is reported as 0.\<close>

definition fit :: "int \<Rightarrow> i128" where
  "fit x = (if in_i128 x then x else 0)"

lemma unwrap_or_to_i128 [simp]: "unwrap_or (to_i128 x) 0 = fit x"
  by (simp add: to_i128_def fit_def)

section \<open>Health factor\<close>

definition risk_params_wf :: "lending_state \<Rightarrow> bool" where
  "risk_params_wf s \<longleftrightarrow>
     0 < get_liquidation_threshold_bps s \<and> get_liquidation_threshold_bps s \<le> 10000 \<and>
     0 < get_close_factor_bps s \<and> get_close_factor_bps s \<le> 10000 \<and>
     0 \<le> get_liquidation_incentive_bps s \<and> get_liquidation_incentive_bps s \<le> 10000"

definition weighted :: "lending_state \<Rightarrow> i128 \<Rightarrow> i128" where
  "weighted s cv = cv * get_liquidation_threshold_bps s div 10000"

lemma weighted_bounds:
  assumes "risk_params_wf s" "0 \<le> cv"
  shows "0 \<le> weighted s cv" "weighted s cv \<le> cv"
proof -
  have "cv * get_liquidation_threshold_bps s \<le> cv * 10000"
    using assms by (intro mult_left_mono) (auto simp: risk_params_wf_def)
  then have "weighted s cv \<le> cv * 10000 div 10000"
    unfolding weighted_def by (intro zdiv_mono1) auto
  then show "weighted s cv \<le> cv" by simp
  show "0 \<le> weighted s cv"
    using assms by (simp add: weighted_def pos_imp_zdiv_nonneg_iff risk_params_wf_def)
qed

lemma compute_health_factor_value:
  assumes "risk_params_wf s" "OracleAddress s \<noteq> None" "0 \<le> cv" "in_i128 cv" "0 < dv"
  shows "compute_health_factor cv dv b s = (Ok (fit (weighted s cv * 10000 div dv)), s)"
proof -
  have m: "i256_muldiv cv (get_liquidation_threshold_bps s) 10000 = Some (weighted s cv)"
    unfolding weighted_def using assms
    by (intro i256_muldiv_nonneg) (auto simp: risk_params_wf_def i128_defs)
  have "in_i128 (weighted s cv)"
    using weighted_bounds [OF assms(1,3)] assms(4) by (auto intro: in_i128_between)
  then have d: "i256_muldiv (weighted s cv) 10000 dv = Some (weighted s cv * 10000 div dv)"
    using assms weighted_bounds [OF assms(1,3)] by (intro i256_muldiv_nonneg) (auto simp: i128_defs)
  show ?thesis
    using assms m d
    by (auto simp: compute_health_factor_def get_oracle_def HEALTH_FACTOR_SCALE_def run_simps)
qed

lemma healthy_quotient: "0 < dv \<Longrightarrow> 10000 \<le> w * 10000 div dv \<longleftrightarrow> dv \<le> w" for w dv :: int
  by (simp add: le_div_iff_mult)

section \<open>Agreement and frames\<close>

lemma accrue_view_frame: "accrue_view h p s = (r, t) \<Longrightarrow> accrual_frame s t"
  by (auto simp: accrue_view_def split: prod.splits res.splits if_splits dest: calculate_interest_frame)

lemma get_user_debt_frame: "get_user_debt h user s = (r, t) \<Longrightarrow> accrual_frame s t"
  by (auto simp: get_user_debt_def dest: accrue_view_frame)

lemma collateral_value_pure: "collateral_value h c s = (r, t) \<Longrightarrow> t = s"
  by (auto simp: collateral_value_def get_asset_price_def run_simps split: if_splits option.splits res.splits prod.splits)

lemma debt_value_pure: "debt_value h p s = (r, t) \<Longrightarrow> t = s"
  by (auto simp: debt_value_def Let_def get_asset_price_def run_simps split: if_splits option.splits res.splits prod.splits)

lemma compute_health_factor_pure: "compute_health_factor cv dv b s = (r, t) \<Longrightarrow> t = s"
  by (auto simp: compute_health_factor_def run_simps split: if_splits option.splits)

lemmas views_pure = collateral_value_pure debt_value_pure compute_health_factor_pure

lemma get_health_factor_frame: "get_health_factor h user s = (r, t) \<Longrightarrow> accrual_frame s t"
  by (auto simp: get_health_factor_def run_simps split: res.splits prod.splits
      dest!: views_pure get_user_debt_frame)

lemma get_debt_value_frame: "get_debt_value h user s = (r, t) \<Longrightarrow> accrual_frame s t"
  by (auto simp: get_debt_value_def run_simps split: res.splits prod.splits
      dest!: views_pure get_user_debt_frame)

text \<open>What a successful health-factor query computed.\<close>

lemma get_health_factor_Ok:
  assumes "get_health_factor h user s = (Ok hf, t)"
  obtains position cv dv where "get_user_debt h user s = (Ok position, t)"
    "collateral_value h (get_user_collateral s user) t = (Ok cv, t)"
    "debt_value h position t = (Ok dv, t)"
    "compute_health_factor cv dv (debt_balance_of position > 0) t = (Ok hf, t)"
proof -
  from assms obtain position cv dv s1 s2 s3 where d: "get_user_debt h user s = (Ok position, s1)"
    and c: "collateral_value h (get_user_collateral s user) s1 = (Ok cv, s2)"
    and v: "debt_value h position s2 = (Ok dv, s3)"
    and f: "compute_health_factor cv dv (debt_balance_of position > 0) s3 = (Ok hf, t)"
    by (auto simp: get_health_factor_def ok_simps)
  then have "s2 = s1" "s3 = s2" "t = s3"
    using views_pure by (blast, blast, blast)
  with d c v f show ?thesis by (intro that) simp_all
qed

lemma collateral_value_frame:
  assumes "accrual_frame s t" and "collateral_value h c t = (r, t)"
  shows "collateral_value h c s = (r, s)"
  using assms(2) accrual_frame_reads(6) [OF assms(1)]
  by (auto simp: collateral_value_def get_asset_price_def run_simps split: if_splits option.splits res.splits prod.splits)

lemma get_user_position_Ok:
  assumes "get_user_position h user s = (Ok p, t)"
  shows "get_health_factor h user s = (Ok (health_factor p), t)"
    and "get_collateral_value h user s = (Ok (collateral_value_usd p), s)"
    and "get_debt_balance h user s = (Ok (debt_balance p), t)"
    and "get_debt_value h user s = (Ok (debt_value_usd p), t)"
    and "get_collateral_balance s user = collateral_balance p"
proof -
  from assms obtain position cv dv hf s1 s2 s3 where d: "get_user_debt h user s = (Ok position, s1)"
    and c: "collateral_value h (get_user_collateral s user) s1 = (Ok cv, s2)"
    and v: "debt_value h position s2 = (Ok dv, s3)"
    and f: "compute_health_factor cv dv (debt_balance_of position > 0) s3 = (Ok hf, t)"
    and p: "p = \<lparr>collateral_balance = bc_amount (get_user_collateral s user), collateral_value_usd = cv,
          debt_balance = debt_balance_of position, debt_value_usd = dv, health_factor = hf\<rparr>"
    by (auto simp: get_user_position_def ok_simps)
  then have eqs: "s2 = s1" "s3 = s1" "t = s1"
    using views_pure by (blast, blast, blast)
  have fr: "accrual_frame s s1" using d by (rule get_user_debt_frame)
  show "get_health_factor h user s = (Ok (health_factor p), t)"
    "get_debt_balance h user s = (Ok (debt_balance p), t)"
    "get_debt_value h user s = (Ok (debt_value_usd p), t)"
    using d c v f by (simp_all add: p eqs get_health_factor_def get_debt_balance_def get_debt_value_def tryM_run)
  show "get_collateral_value h user s = (Ok (collateral_value_usd p), s)"
    using collateral_value_frame [OF fr] c by (simp add: p eqs get_collateral_value_def)
  show "get_collateral_balance s user = collateral_balance p"
    by (simp add: p get_collateral_balance_def)
qed

section \<open>Liquidation quantities\<close>

lemma debt_balance_in_i128: "in_i128 (debt_balance_of p)"
  by (simp add: debt_balance_of_def checked_add_def to_i128_def)

lemma muldiv_bps_bounds:
  fixes a bps :: int
  assumes "0 \<le> a" "0 \<le> bps" "bps \<le> 10000"
  shows "0 \<le> a * bps div 10000" "a * bps div 10000 \<le> a"
proof -
  have "a * bps \<le> a * 10000" using assms by (intro mult_left_mono) auto
  then have "a * bps div 10000 \<le> a * 10000 div 10000" by (intro zdiv_mono1) auto
  then show "a * bps div 10000 \<le> a" by simp
  show "0 \<le> a * bps div 10000" using assms by (simp add: pos_imp_zdiv_nonneg_iff)
qed

text \<open>The close factor caps a liquidation at a share of the debt, and a healthy position, one
  without debt or one that cannot be priced has nothing to liquidate.\<close>

lemma max_liquidatable_Ok:
  assumes wf: "risk_params_wf s" and ok: "get_max_liquidatable_amount h user s = (Ok m, t)"
    and d: "get_user_debt h user s = (Ok position, s1)"
  shows "m = 0 \<or> (0 < debt_balance_of position \<and>
           m = debt_balance_of position * get_close_factor_bps s div 10000 \<and>
           (\<exists>hf. get_health_factor h user s = (Ok hf, t) \<and> hf \<noteq> 0 \<and> hf < HEALTH_FACTOR_SCALE))"
proof -
  let ?D = "debt_balance_of position"
  have fr: "accrual_frame s s1" using d by (rule get_user_debt_frame)
  have cf: "get_close_factor_bps s1 = get_close_factor_bps s" and uc: "get_user_collateral s1 user = get_user_collateral s user"
    using fr by (auto elim!: accrual_frameE simp: get_close_factor_bps_def get_user_collateral_def get_collateral_position_def)
  have D: "in_i128 ?D" by (rule debt_balance_in_i128)
  have md: "0 < ?D \<Longrightarrow> i256_muldiv ?D (get_close_factor_bps s) 10000 = Some (?D * get_close_factor_bps s div 10000)"
    using D wf by (intro i256_muldiv_nonneg) (auto simp: risk_params_wf_def i128_defs)
  have inr: "0 < ?D \<Longrightarrow> in_i128 (?D * get_close_factor_bps s div 10000)"
    using muldiv_bps_bounds [of ?D "get_close_factor_bps s"] D wf
    by - (rule in_i128_between [of _ ?D], auto simp: risk_params_wf_def)
  consider "?D \<le> 0" | (debt) "0 < ?D" by linarith
  then show ?thesis
  proof cases
    case 1
    with ok d show ?thesis by (auto simp: get_max_liquidatable_amount_def ok_simps Let_def)
  next
    case debt
    let ?fin = "\<lambda>hf. if hf = 0 \<or> HEALTH_FACTOR_SCALE \<le> hf then ret 0
       else reads get_close_factor_bps (\<lambda>cf. unwrap (i256_muldiv ?D cf 10000) (\<lambda>r. ret (unwrap_or (to_i128 r) 0)))"
    have "tryM (collateral_value h (get_user_collateral s1 user)) (\<lambda>cv. tryM (debt_value h position) (\<lambda>dv.
            tryM (compute_health_factor cv dv True) ?fin)) s1 = (Ok m, t)"
      using ok debt by (simp add: get_max_liquidatable_amount_def tryM_step [where m = "get_user_debt h user", OF d] Let_def)
    then obtain cv dv hf s2 s3 s4 where
      c: "collateral_value h (get_user_collateral s1 user) s1 = (Ok cv, s2)"
      and v: "debt_value h position s2 = (Ok dv, s3)" and f: "compute_health_factor cv dv True s3 = (Ok hf, s4)"
      and m: "?fin hf s4 = (Ok m :: (BorrowError, i128) res, t)"
      unfolding tryM_Ok by (elim exE conjE) (rule that)
    then have eqs: "s2 = s1" "s3 = s1" "s4 = s1" using views_pure by (blast, blast, blast)
    have "get_health_factor h user s = (Ok hf, s1)"
      using d c v f debt by (simp add: get_health_factor_def tryM_run eqs uc)
    with m debt inr md show ?thesis by (auto simp: ok_simps fit_def eqs cf split: if_splits)
  qed
qed

lemma liquidation_incentive_value:
  assumes wf: "risk_params_wf s" and "0 < amount" and "in_i128 amount"
  shows "get_liquidation_incentive_amount amount s =
    (Ok (min i128_max (amount * (10000 + get_liquidation_incentive_bps s) div 10000)), s)"
proof -
  let ?b = "get_liquidation_incentive_bps s" and ?q = "amount * (10000 + get_liquidation_incentive_bps s) div 10000"
  have b: "0 \<le> ?b" "?b \<le> 10000" using wf by (simp_all add: risk_params_wf_def)
  then have "in_i128 (10000 + ?b)" by (simp add: i128_defs)
  moreover from this have "i256_muldiv amount (10000 + ?b) 10000 = Some ?q"
    using assms b by (intro i256_muldiv_nonneg) auto
  moreover have "unwrap_or (to_i128 ?q) i128_max = min i128_max ?q"
    using assms b pos_imp_zdiv_nonneg_iff [of 10000 "amount * (10000 + ?b)"]
    by (auto simp: to_i128_def i128_defs min_def)
  ultimately show ?thesis
    using assms by (simp add: get_liquidation_incentive_amount_def run_simps checked_add_def to_i128_def)
qed

section \<open>Properties\<close>

lemma collateral_value_range:
  assumes "collateral_value h c s = (Ok v, t)"
  shows "0 \<le> v" "in_i128 v"
proof -
  have "0 \<le> v \<and> in_i128 v"
    using assms
    by (auto simp: collateral_value_def get_asset_price_def ok_simps i256_muldiv_def i256_mul_def i256_div_def
        bind_eq_Some_conv PRICE_SCALE_def fit_def sdiv_nonneg_eq pos_imp_zdiv_nonneg_iff split: if_splits option.splits)
  then show "0 \<le> v" "in_i128 v" by auto
qed

lemma debt_value_needs_oracle: "debt_value h p s = (Ok v, t) \<Longrightarrow> 0 < v \<Longrightarrow> OracleAddress s \<noteq> None"
  by (auto simp: debt_value_def get_oracle_def ok_simps Let_def split: if_splits option.splits)

lemma get_user_position_parts:
  assumes ok: "get_user_position h user s = (Ok p, t)"
  shows "accrual_frame s t" "0 \<le> collateral_value_usd p" "in_i128 (collateral_value_usd p)"
    "0 < debt_value_usd p \<Longrightarrow> OracleAddress s \<noteq> None"
    "\<exists>b. compute_health_factor (collateral_value_usd p) (debt_value_usd p) b t = (Ok (health_factor p), t)"
proof -
  show fr: "accrual_frame s t" using get_user_position_Ok(1) [OF ok] by (rule get_health_factor_frame)
  from get_user_position_Ok(2) [OF ok]
  show "0 \<le> collateral_value_usd p" "in_i128 (collateral_value_usd p)"
    unfolding get_collateral_value_def reads_run by (rule collateral_value_range)+
  from get_user_position_Ok(4) [OF ok] obtain d s1 where
    d: "get_user_debt h user s = (Ok d, s1)" "debt_value h d s1 = (Ok (debt_value_usd p), t)"
    by (auto simp: get_debt_value_def ok_simps)
  show "0 < debt_value_usd p \<Longrightarrow> OracleAddress s \<noteq> None"
    using debt_value_needs_oracle [OF d(2)] accrual_frame_fields(9) [OF get_user_debt_frame [OF d(1)]] by simp
  from get_health_factor_Ok [OF get_user_position_Ok(1) [OF ok]] obtain position cv dv where
    h: "get_user_debt h user s = (Ok position, t)" "collateral_value h (get_user_collateral s user) t = (Ok cv, t)"
      "debt_value h position t = (Ok dv, t)"
      "compute_health_factor cv dv (debt_balance_of position > 0) t = (Ok (health_factor p), t)" .
  have "cv = collateral_value_usd p"
    using collateral_value_frame [OF fr h(2)] get_user_position_Ok(2) [OF ok] by (simp add: get_collateral_value_def)
  moreover have "dv = debt_value_usd p" using d h by auto
  ultimately show "\<exists>b. compute_health_factor (collateral_value_usd p) (debt_value_usd p) b t = (Ok (health_factor p), t)"
    using h(4) by blast
qed

lemma risk_params_wf_frame: "accrual_frame s t \<Longrightarrow> risk_params_wf t = risk_params_wf s"
  by (auto elim!: accrual_frameE simp: risk_params_wf_def get_liquidation_threshold_bps_def
      get_close_factor_bps_def get_liquidation_incentive_bps_def)

lemma weighted_frame: "accrual_frame s t \<Longrightarrow> weighted t cv = weighted s cv"
  by (simp add: weighted_def accrual_frame_reads)

lemma position_health_factor:
  assumes wf: "risk_params_wf s" and ok: "get_user_position h user s = (Ok p, t)" and dv: "0 < debt_value_usd p"
  shows "health_factor p = fit (weighted s (collateral_value_usd p) * 10000 div debt_value_usd p)"
proof -
  note parts = get_user_position_parts [OF ok]
  have "OracleAddress t \<noteq> None" using parts(4) [OF dv] accrual_frame_fields(9) [OF parts(1)] by simp
  moreover have "risk_params_wf t" using wf risk_params_wf_frame [OF parts(1)] by simp
  ultimately show ?thesis
    using parts(5) compute_health_factor_value [of t "collateral_value_usd p" "debt_value_usd p"] parts(2,3) dv
      weighted_frame [OF parts(1)] by auto
qed

text \<open>The health factor decides liquidation as documented: for a position whose debt has a
  positive value, it is at least 1.0 (10000) exactly when the collateral value weighted with the
  liquidation threshold covers the debt value (the threshold in its admin-enforced range, the factor
  itself within i128).\<close>

theorem position_healthy_iff:
  assumes "risk_params_wf s" and "get_user_position h user s = (Ok p, t)" and "0 < debt_value_usd p"
    and "weighted s (collateral_value_usd p) * 10000 div debt_value_usd p \<le> i128_max"
  shows "HEALTH_FACTOR_SCALE \<le> health_factor p \<longleftrightarrow> debt_value_usd p \<le> weighted s (collateral_value_usd p)"
proof -
  let ?q = "weighted s (collateral_value_usd p) * 10000 div debt_value_usd p"
  have "0 \<le> weighted s (collateral_value_usd p)"
    by (rule weighted_bounds [OF assms(1) get_user_position_parts(2) [OF assms(2)]])
  then have "0 \<le> ?q" using assms(3) by (simp add: pos_imp_zdiv_nonneg_iff)
  then have "in_i128 ?q" using assms(4) by (simp add: i128_defs)
  then show ?thesis
    using position_health_factor [OF assms(1-3)] healthy_quotient [OF assms(3)]
    by (simp add: fit_def HEALTH_FACTOR_SCALE_def)
qed

lemma sample_params_wf: "risk_params_wf sample_state"
  by (simp add: risk_params_wf_def sample_state_def empty_storage_def get_liquidation_threshold_bps_def
      get_close_factor_bps_def get_liquidation_incentive_bps_def)

theorem position_healthy_iff_witness:
  "\<exists>p t. get_user_position (sample_host 0) 1 sample_state = (Ok p, t) \<and> debt_value_usd p = 1010 \<and>
         collateral_value_usd p = 3000 \<and> HEALTH_FACTOR_SCALE \<le> health_factor p"
proof -
  let ?g = "get_user_position (sample_host 0) 1 sample_state"
  let ?p = "\<lparr>collateral_balance = 3000, collateral_value_usd = 3000, debt_balance = 1010,
             debt_value_usd = 1010, health_factor = 23762\<rparr>"
  have "fst ?g = Ok ?p" by code_simp
  then have g: "?g = (Ok ?p, snd ?g)" by (rule run_pair)
  have "weighted sample_state 3000 = 2400"
    by (simp add: weighted_def get_liquidation_threshold_bps_def sample_state_def empty_storage_def)
  then have "HEALTH_FACTOR_SCALE \<le> health_factor ?p"
    using position_healthy_iff [OF sample_params_wf g] by (simp add: i128_max_def)
  with g show ?thesis by (intro exI [of _ ?p] exI [of _ "snd ?g"]) simp
qed

text \<open>More collateral value never lowers the health factor and more debt value never raises
  it, as long as the factor stays within i128.\<close>

theorem health_factor_monotone:
  assumes wf: "risk_params_wf s" and o: "OracleAddress s \<noteq> None"
    and cv: "0 \<le> cv" "cv \<le> cv'" "in_i128 cv'" and dv: "0 < dv'" "dv' \<le> dv"
    and fits: "weighted s cv' * 10000 div dv' \<le> i128_max"
  shows "\<exists>hf hf'. compute_health_factor cv dv b s = (Ok hf, s) \<and>
           compute_health_factor cv' dv' b' s = (Ok hf', s) \<and> 0 \<le> hf \<and> hf \<le> hf'"
proof -
  let ?q = "weighted s cv * 10000 div dv" and ?q' = "weighted s cv' * 10000 div dv'"
  have w: "weighted s cv \<le> weighted s cv'" unfolding weighted_def
    using wf cv by (intro zdiv_mono1 mult_right_mono) (auto simp: risk_params_wf_def)
  have w0: "0 \<le> weighted s cv" using wf cv(1) by (rule weighted_bounds)
  have "?q \<le> weighted s cv' * 10000 div dv" using w dv by (intro zdiv_mono1) auto
  also have "\<dots> \<le> ?q'" using w w0 dv by (intro zdiv_mono2) auto
  finally have le: "?q \<le> ?q'" .
  have q0: "0 \<le> ?q" using w0 dv by (simp add: pos_imp_zdiv_nonneg_iff)
  with le fits have "in_i128 ?q" "in_i128 ?q'" by (auto simp: i128_defs)
  moreover have "in_i128 cv" using in_i128_between [OF cv(1,2,3)] .
  ultimately show ?thesis
    using compute_health_factor_value [OF wf o, of cv dv b] compute_health_factor_value [OF wf o, of cv' dv' b']
      cv dv le q0 by (simp add: fit_def)
qed

theorem health_factor_monotone_witness:
  "\<exists>hf hf'. compute_health_factor 2000 1500 True sample_state = (Ok hf, sample_state) \<and>
            compute_health_factor 3000 1010 True sample_state = (Ok hf', sample_state) \<and> 0 \<le> hf \<and> hf \<le> hf'"
  by (rule health_factor_monotone [OF sample_params_wf])
     (simp_all add: sample_state_def empty_storage_def i128_defs weighted_def get_liquidation_threshold_bps_def)

text \<open>A liquidation may take at most the close-factor share of the debt, so never more than
  the debt itself, and only from a position that is priced and unhealthy: otherwise the maximum is 0.\<close>

theorem max_liquidatable_bounded:
  assumes "risk_params_wf s" and "get_max_liquidatable_amount h user s = (Ok m, t)"
    and "get_user_debt h user s = (Ok position, s1)"
  shows "0 \<le> m \<and> m \<le> max 0 (debt_balance_of position) \<and>
         (m \<noteq> 0 \<longrightarrow> (\<exists>hf. get_health_factor h user s = (Ok hf, t) \<and> 0 \<noteq> hf \<and> hf < HEALTH_FACTOR_SCALE))"
proof -
  have cf: "0 \<le> get_close_factor_bps s" "get_close_factor_bps s \<le> 10000"
    using assms(1) by (auto simp: risk_params_wf_def)
  from max_liquidatable_Ok [OF assms] show ?thesis
    using muldiv_bps_bounds [of "debt_balance_of position", OF _ cf] by auto
qed

definition underwater_sample :: lending_state where
  "underwater_sample = sample_state\<lparr>BorrowUserCollateral := [1 \<mapsto> \<lparr>bc_amount = 1000, bc_asset = 8\<rparr>]\<rparr>"

theorem max_liquidatable_bounded_witness:
  "\<exists>t. get_max_liquidatable_amount (sample_host 0) 1 underwater_sample = (Ok 505, t) \<and>
       (\<exists>hf. get_health_factor (sample_host 0) 1 underwater_sample = (Ok hf, t) \<and> hf < HEALTH_FACTOR_SCALE)"
proof -
  let ?m = "get_max_liquidatable_amount (sample_host 0) 1 underwater_sample"
  let ?d = "get_user_debt (sample_host 0) 1 underwater_sample"
  have "fst ?m = Ok 505" "fst ?d = Ok (sample_debt 1000 10 7 Variable)" by code_simp+
  then have m: "?m = (Ok 505, snd ?m)" and d: "?d = (Ok (sample_debt 1000 10 7 Variable), snd ?d)"
    by (auto intro: run_pair)
  have wf: "risk_params_wf underwater_sample"
    using sample_params_wf by (simp add: underwater_sample_def risk_params_wf_def get_liquidation_threshold_bps_def
      get_close_factor_bps_def get_liquidation_incentive_bps_def)
  from max_liquidatable_bounded [OF wf m d] m show ?thesis by auto
qed

text \<open>A liquidator's payout is the repaid amount plus the incentive, rounded down and
  saturating at the largest i128, so it is never less than the repaid amount and, the incentive
  being capped at 100%, never more than twice it.\<close>

theorem liquidation_incentive_bounds:
  assumes wf: "risk_params_wf s" and "0 < amount" and "in_i128 amount"
  shows "\<exists>r. get_liquidation_incentive_amount amount s = (Ok r, s) \<and> amount \<le> r \<and> r \<le> 2 * amount \<and>
             r = min i128_max (amount * (10000 + get_liquidation_incentive_bps s) div 10000)"
proof -
  let ?b = "get_liquidation_incentive_bps s"
  have b: "0 \<le> ?b" "?b \<le> 10000" using wf by (auto simp: risk_params_wf_def)
  have "amount * 10000 div 10000 \<le> amount * (10000 + ?b) div 10000"
    using assms b by (intro zdiv_mono1 mult_left_mono) auto
  moreover have "amount * (10000 + ?b) div 10000 \<le> amount * 20000 div 10000"
    using assms b by (intro zdiv_mono1 mult_left_mono) auto
  ultimately show ?thesis
    using liquidation_incentive_value [OF assms] assms(3) by (auto simp: i128_defs)
qed

theorem liquidation_incentive_bounds_witness:
  "\<exists>r. get_liquidation_incentive_amount 500 sample_state = (Ok r, sample_state) \<and> 500 \<le> r \<and> r \<le> 1000"
  using liquidation_incentive_bounds [OF sample_params_wf, of 500] by (auto simp: i128_defs)

text \<open>The position summary is consistent: its fields are exactly what the separate queries for
  health factor, collateral value, debt balance, debt value and collateral balance return on the same
  state.\<close>

theorem user_position_consistent:
  assumes "get_user_position h user s = (Ok p, t)"
  shows "get_health_factor h user s = (Ok (health_factor p), t) \<and>
         get_collateral_value h user s = (Ok (collateral_value_usd p), s) \<and>
         get_debt_balance h user s = (Ok (debt_balance p), t) \<and>
         get_debt_value h user s = (Ok (debt_value_usd p), t) \<and>
         get_collateral_balance s user = collateral_balance p"
  using get_user_position_Ok [OF assms] by blast

theorem user_position_consistent_witness:
  "\<exists>t. get_health_factor (sample_host 0) 1 sample_state = (Ok 23762, t) \<and>
       get_debt_balance (sample_host 0) 1 sample_state = (Ok 1010, t)"
proof -
  let ?g = "get_user_position (sample_host 0) 1 sample_state"
  let ?p = "\<lparr>collateral_balance = 3000, collateral_value_usd = 3000, debt_balance = 1010,
             debt_value_usd = 1010, health_factor = 23762\<rparr>"
  have "fst ?g = Ok ?p" by code_simp
  then have g: "?g = (Ok ?p, snd ?g)" by (rule run_pair)
  from user_position_consistent [OF g] show ?thesis by auto
qed

end
