(* ===== verification/Flash_Loan.thy ===== *)
theory Flash_Loan
  imports Pause Sample
begin

text \<open>
  Flash loans: src/stellar-lend/contracts/lending/src/flash_loan.rs. The token contract and the
  receiver are other contracts, so they are parameters: what the token reports as a balance, what its
  transfer does, and what the receiver's callback does, to the outside world and, through further
  calls, to this contract's storage. \<open>None\<close> is a call that traps.
\<close>

record 'w flash_env =
  self :: address
  token_balance :: "address \<Rightarrow> address \<Rightarrow> 'w \<Rightarrow> i128 option"
  token_transfer :: "address \<Rightarrow> address \<Rightarrow> address \<Rightarrow> i128 \<Rightarrow> 'w \<Rightarrow> 'w option"
  on_flash_loan :: "address \<Rightarrow> address \<Rightarrow> address \<Rightarrow> i128 \<Rightarrow> i128 \<Rightarrow> nat list
                    \<Rightarrow> lending_state \<times> 'w \<Rightarrow> (bool \<times> lending_state \<times> 'w) option"

definition MAX_FEE_BPS :: i128 where
  "MAX_FEE_BPS = 1000"

definition get_flash_loan_fee_bps :: "lending_state \<Rightarrow> i128" where
  "get_flash_loan_fee_bps s = unwrap_or (FlashLoanFeeBps s) 9"

definition set_flash_loan_fee_bps :: "i128 \<Rightarrow> (lending_state, FlashLoanError, unit) contract_fn" where
  "set_flash_loan_fee_bps fee_bps =
     fail_if (\<not> (0 \<le> fee_bps \<and> fee_bps \<le> MAX_FEE_BPS)) InvalidFee (
     writes (\<lambda>s. s\<lparr>FlashLoanFeeBps := Some fee_bps\<rparr>) (ret ()))"

definition calculate_fee :: "lending_state \<Rightarrow> i128 \<Rightarrow> i128" where
  "calculate_fee s amount = saturating_div (saturating_mul amount (get_flash_loan_fee_bps s)) 10000"

text \<open>\<open>FlashLoanGuard::new\<close> and its \<open>Drop\<close>: the guard is set on entry and cleared when the scope is
  left with a result. A panic aborts the invocation, and the host's rollback undoes the flag.\<close>

definition guard_new :: "(lending_state \<times> 'w, FlashLoanError, unit) contract_fn" where
  "guard_new =
     reads (\<lambda>(s, w). unwrap_or (ReentrancyGuard s) False) (\<lambda>held.
     fail_if held Reentrancy (
     writes (\<lambda>(s, w). (s\<lparr>ReentrancyGuard := Some True\<rparr>, w)) (ret ())))"

definition guard_drop ::
    "(lending_state \<times> 'w, FlashLoanError, 'a) contract_fn \<Rightarrow> (lending_state \<times> 'w, FlashLoanError, 'a) contract_fn" where
  "guard_drop m = (\<lambda>st. case m st of
     (Panic, st') \<Rightarrow> (Panic, st')
   | (r, (s, w)) \<Rightarrow> (r, (s\<lparr>ReentrancyGuard := Some False\<rparr>, w)))"

text \<open>The body of \<open>flash_loan\<close> after the guard is taken.\<close>

definition lend_and_collect ::
    "'w flash_env \<Rightarrow> host \<Rightarrow> address \<Rightarrow> address \<Rightarrow> i128 \<Rightarrow> nat list \<Rightarrow> (lending_state \<times> 'w, FlashLoanError, unit) contract_fn" where
  "lend_and_collect E h receiver asset amount params =
     reads (\<lambda>(s, w). calculate_fee s amount) (\<lambda>fee.
     reads (\<lambda>(s, w). token_balance E asset (self E) w) (\<lambda>bal0.
     unwrap bal0 (\<lambda>initial_balance.
     reads (\<lambda>(s, w). token_transfer E asset (self E) receiver amount w) (\<lambda>moved.
     unwrap moved (\<lambda>w1.
     writes (\<lambda>(s, w). (s, w1)) (
     reads (on_flash_loan E receiver (self E) asset amount fee params) (\<lambda>answer.
     unwrap answer (\<lambda>(callback_result, s2, w2).
     writes (\<lambda>_. (s2, w2)) (
     fail_if (\<not> callback_result) CallbackFailed (
     reads (\<lambda>(s, w). token_balance E asset (self E) w) (\<lambda>bal1.
     unwrap bal1 (\<lambda>final_balance.
     unwrap (checked_add initial_balance fee) (\<lambda>due.
     fail_if (final_balance < due) InsufficientRepayment (
     writes (\<lambda>(s, w). (publish (FlashLoanEvent receiver asset amount fee (now h)) s, w))
     (ret ())))))))))))))))"

definition flash_loan ::
    "'w flash_env \<Rightarrow> host \<Rightarrow> address \<Rightarrow> address \<Rightarrow> i128 \<Rightarrow> nat list \<Rightarrow> (lending_state \<times> 'w, FlashLoanError, unit) contract_fn" where
  "flash_loan E h receiver asset amount params =
     reads (\<lambda>(s, w). is_paused s FlashLoan) (\<lambda>paused.
     fail_if paused FlashLoanPaused (
     fail_if (amount \<le> 0) FlashLoanError.InvalidAmount (
     tryM guard_new (\<lambda>_.
     guard_drop (lend_and_collect E h receiver asset amount params)))))"

section \<open>Inversion\<close>

lemma guard_new_Ok [ok_simps]:
  "guard_new (s, w) = (Ok u, st) \<longleftrightarrow> ReentrancyGuard s \<noteq> Some True \<and> st = (s\<lparr>ReentrancyGuard := Some True\<rparr>, w)"
  by (cases "ReentrancyGuard s") (auto simp: guard_new_def ok_simps)

lemma guard_drop_Ok [ok_simps]:
  "guard_drop m st = (Ok u, (t, w)) \<longleftrightarrow>
     (\<exists>t'. m st = (Ok u, (t', w)) \<and> t = t'\<lparr>ReentrancyGuard := Some False\<rparr>)"
  by (auto simp: guard_drop_def split: prod.splits res.splits)

lemma lend_and_collect_Ok:
  "lend_and_collect E h receiver asset amount params (s, w) = (Ok u, (t, w')) \<longleftrightarrow>
     (\<exists>b0 w1 s2 b1.
        token_balance E asset (self E) w = Some b0 \<and>
        token_transfer E asset (self E) receiver amount w = Some w1 \<and>
        on_flash_loan E receiver (self E) asset amount (calculate_fee s amount) params (s, w1) = Some (True, s2, w') \<and>
        token_balance E asset (self E) w' = Some b1 \<and> in_i128 (b0 + calculate_fee s amount) \<and>
        b0 + calculate_fee s amount \<le> b1 \<and>
        t = publish (FlashLoanEvent receiver asset amount (calculate_fee s amount) (now h)) s2)"
  by (auto simp: lend_and_collect_def ok_simps not_less split: prod.splits)

lemma calculate_fee_guard [simp]: "calculate_fee (s\<lparr>ReentrancyGuard := x\<rparr>) amount = calculate_fee s amount"
  by (simp add: calculate_fee_def get_flash_loan_fee_bps_def)

lemma flash_loan_Ok:
  "flash_loan E h receiver asset amount params (s, w) = (Ok u, (t, w')) \<longleftrightarrow>
     \<not> is_paused s FlashLoan \<and> 0 < amount \<and> ReentrancyGuard s \<noteq> Some True \<and>
     (\<exists>b0 w1 s2 b1.
        token_balance E asset (self E) w = Some b0 \<and>
        token_transfer E asset (self E) receiver amount w = Some w1 \<and>
        on_flash_loan E receiver (self E) asset amount (calculate_fee s amount) params
          (s\<lparr>ReentrancyGuard := Some True\<rparr>, w1) = Some (True, s2, w') \<and>
        token_balance E asset (self E) w' = Some b1 \<and> in_i128 (b0 + calculate_fee s amount) \<and>
        b0 + calculate_fee s amount \<le> b1 \<and>
        t = (publish (FlashLoanEvent receiver asset amount (calculate_fee s amount) (now h)) s2)
              \<lparr>ReentrancyGuard := Some False\<rparr>)"
  by (auto simp: flash_loan_def ok_simps lend_and_collect_Ok)

section \<open>Properties\<close>

text \<open>C15: A flash loan that succeeds was repaid with its fee: the contract's token balance after the
  call is at least the balance before it plus the fee, whatever the token and the receiver did in
  between; the call was made unpaused, with a positive amount and with the guard free, and the guard
  is free again afterwards.\<close>

theorem flash_loan_repaid:
  assumes "flash_loan E h receiver asset amount params (s, w) = (Ok u, (t, w'))"
  shows "\<exists>before_bal after_bal. token_balance E asset (self E) w = Some before_bal \<and>
           token_balance E asset (self E) w' = Some after_bal \<and>
           before_bal + calculate_fee s amount \<le> after_bal \<and>
           \<not> is_paused s FlashLoan \<and> 0 < amount \<and> ReentrancyGuard s \<noteq> Some True \<and>
           ReentrancyGuard t = Some False"
  using assms by (auto simp: flash_loan_Ok publish_def)

text \<open>A token with one balance for the contract; the receiver repays \<open>back\<close>.\<close>

definition sample_flash_env :: "i128 \<Rightarrow> i128 flash_env" where
  "sample_flash_env back = \<lparr>self = 100, token_balance = (\<lambda>_ _ w. Some w),
     token_transfer = (\<lambda>_ _ _ amount w. if amount \<le> w then Some (w - amount) else None),
     on_flash_loan = (\<lambda>_ _ _ _ _ _ (s, w). Some (True, s, w + back))\<rparr>"

theorem flash_loan_repaid_witness:
  "\<exists>t. flash_loan (sample_flash_env 100090) (sample_host 1) 3 7 100000 [] (empty_storage, 500000)
         = (Ok (), (t, 500090)) \<and> ReentrancyGuard t = Some False"
proof -
  let ?f = "flash_loan (sample_flash_env 100090) (sample_host 1) 3 7 100000 [] (empty_storage, 500000)"
  have "fst ?f = Ok ()" "snd (snd ?f) = 500090" by code_simp+
  then have f: "?f = (Ok (), (fst (snd ?f), 500090))" by (simp add: prod_eq_iff)
  from flash_loan_repaid [OF f] f show ?thesis by blast
qed

text \<open>Flash loans do not nest: while the guard is set, a further flash loan with a positive
  amount is refused with the reentrancy error and changes nothing, and the receiver's callback
  only ever runs while the guard is set (two receivers that agree on guarded storages give the same
  loan).\<close>

theorem flash_loan_not_reentrant:
  "(ReentrancyGuard s = Some True \<longrightarrow> \<not> is_paused s FlashLoan \<longrightarrow> 0 < amount \<longrightarrow>
      flash_loan E h receiver asset amount params (s, w) = (Err Reentrancy, (s, w))) \<and>
   ((\<forall>fee s' w'. ReentrancyGuard s' = Some True \<longrightarrow>
       cb receiver (self E) asset amount fee params (s', w') = on_flash_loan E receiver (self E) asset amount fee params (s', w')) \<longrightarrow>
    flash_loan (E\<lparr>on_flash_loan := cb\<rparr>) h receiver asset amount params (s, w) =
      flash_loan E h receiver asset amount params (s, w))"
proof (intro conjI impI)
  assume "ReentrancyGuard s = Some True" "\<not> is_paused s FlashLoan" "0 < amount"
  then show "flash_loan E h receiver asset amount params (s, w) = (Err Reentrancy, (s, w))"
    by (simp add: flash_loan_def guard_new_def run_simps)
next
  assume agree: "\<forall>fee s' w'. ReentrancyGuard s' = Some True \<longrightarrow>
       cb receiver (self E) asset amount fee params (s', w') = on_flash_loan E receiver (self E) asset amount fee params (s', w')"
  have "lend_and_collect (E\<lparr>on_flash_loan := cb\<rparr>) h receiver asset amount params (s', w) =
      lend_and_collect E h receiver asset amount params (s', w)" if "ReentrancyGuard s' = Some True" for s'
    using agree that by (simp add: lend_and_collect_def run_simps split: option.split)
  then show "flash_loan (E\<lparr>on_flash_loan := cb\<rparr>) h receiver asset amount params (s, w) =
      flash_loan E h receiver asset amount params (s, w)"
    by (simp add: flash_loan_def guard_new_def run_simps guard_drop_def)
qed

theorem flash_loan_not_reentrant_witness:
  "flash_loan (sample_flash_env 0) (sample_host 1) 3 7 100 [] (empty_storage\<lparr>ReentrancyGuard := Some True\<rparr>, 500)
     = (Err Reentrancy, (empty_storage\<lparr>ReentrancyGuard := Some True\<rparr>, 500))"
  using flash_loan_not_reentrant [of "empty_storage\<lparr>ReentrancyGuard := Some True\<rparr>" 100 "sample_flash_env 0" "sample_host 1" 3 7 "[]" 500]
  by (simp add: is_paused_def empty_storage_def)

definition flash_fee_wf :: "lending_state \<Rightarrow> bool" where
  "flash_fee_wf s \<longleftrightarrow> 0 \<le> get_flash_loan_fee_bps s \<and> get_flash_loan_fee_bps s \<le> MAX_FEE_BPS"

lemma set_flash_loan_fee_bps_wf:
  "set_flash_loan_fee_bps fee s = (Ok u, t) \<Longrightarrow> flash_fee_wf t \<and> t = s\<lparr>FlashLoanFeeBps := Some fee\<rparr>"
  by (auto simp: set_flash_loan_fee_bps_def ok_simps flash_fee_wf_def get_flash_loan_fee_bps_def)

text \<open>The flash-loan fee is the configured share of the amount, rounded down; with the fee in the
  range its setter enforces it is never negative and never above a tenth of the amount, overflow of
  the product included (there it saturates, and the fee is smaller than the nominal one).\<close>

theorem flash_fee_bounds:
  assumes wf: "flash_fee_wf s" and amt: "0 < amount"
  shows "0 \<le> calculate_fee s amount \<and> 10 * calculate_fee s amount \<le> amount \<and>
         calculate_fee s amount \<le> amount * get_flash_loan_fee_bps s div 10000 \<and>
         (amount * get_flash_loan_fee_bps s \<le> i128_max \<longrightarrow>
            calculate_fee s amount = amount * get_flash_loan_fee_bps s div 10000)"
proof -
  let ?b = "get_flash_loan_fee_bps s"
  let ?m = "min i128_max (amount * ?b)"
  have b: "0 \<le> ?b" "?b \<le> 1000" using wf by (simp_all add: flash_fee_wf_def MAX_FEE_BPS_def)
  have p: "0 \<le> amount * ?b" "amount * ?b \<le> amount * 1000" using b amt by (simp_all add: mult_left_mono)
  have sm: "saturating_mul amount ?b = ?m" using p(1) by (simp add: saturating_mul_def saturate_def i128_defs)
  have m: "0 \<le> ?m" "in_i128 ?m" using p(1) by (simp_all add: i128_defs)
  have "?m div 10000 \<le> ?m" "0 \<le> ?m div 10000"
    using m(1) zdiv_le_self [of ?m 10000] pos_imp_zdiv_nonneg_iff [of 10000 ?m] by simp_all
  then have "in_i128 (?m div 10000)" using m(2) by (simp add: i128_defs)
  then have fee: "calculate_fee s amount = ?m div 10000"
    using m(1) by (simp add: calculate_fee_def sm saturating_div_def sdiv_nonneg_eq)
  have "?m div 10000 \<le> amount * ?b div 10000" by (intro zdiv_mono1) auto
  moreover have "amount * ?b div 10000 \<le> amount * 1000 div 10000" using p(2) by (intro zdiv_mono1) auto
  moreover have "10 * (amount * 1000 div 10000) \<le> amount" by simp
  ultimately show ?thesis using fee \<open>0 \<le> ?m div 10000\<close> by (auto simp: min_def)
qed

theorem flash_fee_bounds_witness:
  "calculate_fee empty_storage 100000 = 90 \<and> 10 * calculate_fee empty_storage 100000 \<le> 100000"
  using flash_fee_bounds [of empty_storage 100000]
  by (simp add: flash_fee_wf_def get_flash_loan_fee_bps_def empty_storage_def MAX_FEE_BPS_def i128_max_def)

end
