(* ===== verification/Commitments.thy ===== *)
theory Commitments
  imports Borrow_Accounting Sample
begin

text \<open>
  Conditional borrow commitments: src/stellar-lend/contracts/lending/src/commitments.rs. A user signs
  a borrow in advance; anyone may execute it once the oracle triggers fire and it has not expired.
\<close>

definition MAX_TRIGGERS :: u32 where
  "MAX_TRIGGERS = 4"

definition read_price :: "host \<Rightarrow> address \<Rightarrow> (lending_state, CommitmentError, i128) contract_fn" where
  "read_price h asset =
     reads get_oracle (\<lambda>oracle_opt.
     ok_or oracle_opt OracleNotConfigured (\<lambda>oracle_addr.
     unwrap (oracle_price h oracle_addr asset) ret))"

definition trigger_met :: "host \<Rightarrow> PriceTrigger \<Rightarrow> (lending_state, CommitmentError, bool) contract_fn" where
  "trigger_met h t =
     tryM (read_price h (pt_asset t)) (\<lambda>price.
     ret (if fire_when_at_or_above t then price \<ge> trigger_price t else price \<le> trigger_price t))"

text \<open>The two \<open>while\<close> loops of \<open>triggers_satisfied\<close>, over the remaining triggers.\<close>

fun any_trigger :: "host \<Rightarrow> PriceTrigger list \<Rightarrow> (lending_state, CommitmentError, bool) contract_fn" where
  "any_trigger h [] = ret False"
| "any_trigger h (t # ts) = tryM (trigger_met h t) (\<lambda>met. if met then ret True else any_trigger h ts)"

fun all_triggers :: "host \<Rightarrow> PriceTrigger list \<Rightarrow> (lending_state, CommitmentError, bool) contract_fn" where
  "all_triggers h [] = ret True"
| "all_triggers h (t # ts) = tryM (trigger_met h t) (\<lambda>met. if \<not> met then ret False else all_triggers h ts)"

definition triggers_satisfied ::
    "host \<Rightarrow> PriceTrigger list \<Rightarrow> TriggerCombiner \<Rightarrow> (lending_state, CommitmentError, bool) contract_fn" where
  "triggers_satisfied h ts comb =
     fail_if (ts = []) BadConfig
     (case comb of Any_Trigger \<Rightarrow> any_trigger h ts | All_Triggers \<Rightarrow> all_triggers h ts)"

definition create_borrow_commitment ::
    "host \<Rightarrow> address \<Rightarrow> PriceTrigger list \<Rightarrow> TriggerCombiner \<Rightarrow> address \<Rightarrow> address \<Rightarrow> i128 \<Rightarrow> i128 \<Rightarrow> u32 \<Rightarrow> u64
     \<Rightarrow> (lending_state, CommitmentError, u64) contract_fn" where
  "create_borrow_commitment h own ts comb b_asset c_asset b_amount c_amount min_fill expiry =
     tryM (require_auth h own) (\<lambda>_.
     fail_if (ts = []) BadConfig (
     fail_if (length ts > MAX_TRIGGERS) TooManyTriggers (
     fail_if (b_amount \<le> 0 \<or> c_amount \<le> 0 \<or> min_fill = 0 \<or> min_fill > 10000) BadConfig (
     tryM (map_err (\<lambda>_. BadConfig) (liftE (validate_collateral_ratio c_amount b_amount))) (\<lambda>_.
     fail_if (expiry \<le> now h) BadConfig (
     reads (\<lambda>s. unwrap_or (NextId s) 0) (\<lambda>cid.
     let c = \<lparr>owner = own, triggers = ts, combiner = comb, borrow_asset = b_asset,
              cm_collateral_asset = c_asset, borrow_amount = b_amount, cm_collateral_amount = c_amount,
              min_fill_bps = min_fill, expiry_timestamp = expiry, status = Pending\<rparr> in
     writes (\<lambda>s. s\<lparr>Commitment := (Commitment s)(cid \<mapsto> c)\<rparr>) (
     unwrap (checked_add_u64 cid 1) (\<lambda>next_id.
     writes (\<lambda>s. s\<lparr>NextId := Some next_id\<rparr>) (
     writes (publish (BorrowCommitmentCreatedEvent cid own b_asset b_amount expiry))
     (ret cid)))))))))))"

definition set_commitment :: "u64 \<Rightarrow> BorrowCommitment \<Rightarrow> lending_state \<Rightarrow> lending_state" where
  "set_commitment cid c s = s\<lparr>Commitment := (Commitment s)(cid \<mapsto> c)\<rparr>"

definition cancel_borrow_commitment ::
    "host \<Rightarrow> address \<Rightarrow> u64 \<Rightarrow> (lending_state, CommitmentError, unit) contract_fn" where
  "cancel_borrow_commitment h own commitment_id =
     tryM (require_auth h own) (\<lambda>_.
     reads (\<lambda>s. Commitment s commitment_id) (\<lambda>stored.
     ok_or stored NotFound (\<lambda>c.
     fail_if (owner c \<noteq> own) CommitmentError.Unauthorized (
     fail_if (status c \<noteq> Pending) NotExecutable (
     writes (set_commitment commitment_id (c\<lparr>status := Cancelled\<rparr>)) (
     writes (publish (BorrowCommitmentCancelledEvent commitment_id own))
     (ret ())))))))"

definition execute_borrow_commitment :: "host \<Rightarrow> u64 \<Rightarrow> (lending_state, CommitmentError, unit) contract_fn" where
  "execute_borrow_commitment h commitment_id =
     reads (\<lambda>s. Commitment s commitment_id) (\<lambda>stored.
     ok_or stored NotFound (\<lambda>c.
     fail_if (status c \<noteq> Pending) NotExecutable (
     if now h > expiry_timestamp c then
       writes (set_commitment commitment_id (c\<lparr>status := Expired_Status\<rparr>)) (fail CommitmentError.Expired)
     else
     tryM (triggers_satisfied h (triggers c) (combiner c)) (\<lambda>met.
     fail_if (\<not> met) TriggerNotMet (
     reads get_total_debt (\<lambda>total_debt.
     reads get_debt_ceiling (\<lambda>debt_ceiling.
     let room = saturating_sub debt_ceiling total_debt;
         fill_amount = min (borrow_amount c) room;
         min_allowed = saturating_div (saturating_mul (borrow_amount c) (int (min_fill_bps c))) 10000 in
     fail_if (fill_amount < min_allowed) BelowMinPartialFill (
     reads get_min_borrow_amount (\<lambda>min_borrow.
     fail_if (fill_amount < min_borrow) BorrowFailed (
     if borrow_amount c = 0 then panic else
     let collateral_fill =
           saturating_div (saturating_mul (cm_collateral_amount c) fill_amount) (borrow_amount c) in
     fail_if (collateral_fill \<le> 0) BadConfig (
     tryM (map_err (\<lambda>_. BorrowFailed) (liftE (validate_collateral_ratio collateral_fill fill_amount))) (\<lambda>_.
     tryM (map_err (\<lambda>_. BorrowFailed)
            (borrow_from_commitment h (owner c) (borrow_asset c) fill_amount (cm_collateral_asset c) collateral_fill)) (\<lambda>_.
     writes (set_commitment commitment_id (c\<lparr>status := Executed\<rparr>)) (
     writes (publish (BorrowCommitmentExecutedEvent commitment_id (owner c) fill_amount collateral_fill))
     (ret ())))))))))))))))"

definition get_borrow_commitment :: "lending_state \<Rightarrow> u64 \<Rightarrow> BorrowCommitment option" where
  "get_borrow_commitment s commitment_id = Commitment s commitment_id"

section \<open>Triggers\<close>

definition price_fires :: "(address \<Rightarrow> i128) \<Rightarrow> PriceTrigger \<Rightarrow> bool" where
  "price_fires price t \<longleftrightarrow>
     (if fire_when_at_or_above t then trigger_price t \<le> price (pt_asset t) else price (pt_asset t) \<le> trigger_price t)"

lemma trigger_met_priced:
  assumes "OracleAddress s = Some o'" "\<And>a. oracle_price h o' a = Some (price a)"
  shows "trigger_met h t s = (Ok (price_fires price t), s)"
  using assms by (simp add: trigger_met_def read_price_def get_oracle_def price_fires_def run_simps)

lemma any_trigger_priced:
  assumes "OracleAddress s = Some o'" "\<And>a. oracle_price h o' a = Some (price a)"
  shows "any_trigger h ts s = (Ok (\<exists>t\<in>set ts. price_fires price t), s)"
  by (induction ts) (simp_all add: trigger_met_priced [OF assms] run_simps)

lemma all_triggers_priced:
  assumes "OracleAddress s = Some o'" "\<And>a. oracle_price h o' a = Some (price a)"
  shows "all_triggers h ts s = (Ok (\<forall>t\<in>set ts. price_fires price t), s)"
  by (induction ts) (simp_all add: trigger_met_priced [OF assms] run_simps)

lemma trigger_met_pure: "trigger_met h t s = (r, s') \<Longrightarrow> s' = s"
  by (auto simp: trigger_met_def read_price_def run_simps split: option.splits)

lemma any_trigger_pure: "any_trigger h ts s = (r, s') \<Longrightarrow> s' = s"
  by (induction ts arbitrary: r s')
     (auto simp: run_simps split: prod.splits res.splits if_splits dest: trigger_met_pure)

lemma all_triggers_pure: "all_triggers h ts s = (r, s') \<Longrightarrow> s' = s"
  by (induction ts arbitrary: r s')
     (auto simp: run_simps split: prod.splits res.splits if_splits dest: trigger_met_pure)

lemma triggers_satisfied_pure: "triggers_satisfied h ts comb s = (r, s') \<Longrightarrow> s' = s"
  by (cases comb) (auto simp: triggers_satisfied_def run_simps split: if_splits
      dest: any_trigger_pure all_triggers_pure)

section \<open>Successful operations\<close>

lemma create_borrow_commitment_Ok:
  assumes "create_borrow_commitment h own ts comb ba ca bamt camt mf ex s = (Ok cid, t)"
  shows "signed h own \<and> ts \<noteq> [] \<and> length ts \<le> 4 \<and> 0 < bamt \<and> 0 < camt \<and> 0 < mf \<and> mf \<le> 10000 \<and>
         validate_collateral_ratio camt bamt = Inr () \<and> now h < ex \<and> cid = unwrap_or (NextId s) 0 \<and> cid < u64_max \<and>
         t = s\<lparr>Commitment := (Commitment s)(cid \<mapsto>
                  \<lparr>owner = own, triggers = ts, combiner = comb, borrow_asset = ba, cm_collateral_asset = ca,
                   borrow_amount = bamt, cm_collateral_amount = camt, min_fill_bps = mf, expiry_timestamp = ex,
                   status = Pending\<rparr>),
               NextId := Some (cid + 1),
               events := events s @ [BorrowCommitmentCreatedEvent cid own ba bamt ex]\<rparr>"
  using assms unfolding create_borrow_commitment_def Let_def
  by (auto simp: ok_simps MAX_TRIGGERS_def checked_add_u64_def publish_def not_less not_le split: if_splits)

lemma cancel_borrow_commitment_Ok:
  assumes "cancel_borrow_commitment h own cid s = (Ok u, t)"
  obtains c where "Commitment s cid = Some c" "signed h own" "owner c = own" "status c = Pending"
    "t = publish (BorrowCommitmentCancelledEvent cid own) (set_commitment cid (c\<lparr>status := Cancelled\<rparr>) s)"
  using assms by (auto simp: cancel_borrow_commitment_def ok_simps)

lemma execute_borrow_commitment_Ok:
  assumes "execute_borrow_commitment h cid s = (Ok u, t)"
  obtains c fill cfill t1 where "Commitment s cid = Some c" "status c = Pending" "now h \<le> expiry_timestamp c"
    "triggers_satisfied h (triggers c) (combiner c) s = (Ok True, s)"
    "fill = min (borrow_amount c) (saturating_sub (get_debt_ceiling s) (get_total_debt s))"
    "saturating_div (saturating_mul (borrow_amount c) (int (min_fill_bps c))) 10000 \<le> fill"
    "borrow_amount c \<noteq> 0"
    "cfill = saturating_div (saturating_mul (cm_collateral_amount c) fill) (borrow_amount c)" "0 < cfill"
    "validate_collateral_ratio cfill fill = Inr ()"
    "borrow_from_commitment h (owner c) (borrow_asset c) fill (cm_collateral_asset c) cfill s = (Ok (), t1)"
    "t = publish (BorrowCommitmentExecutedEvent cid (owner c) fill cfill) (set_commitment cid (c\<lparr>status := Executed\<rparr>) t1)"
proof -
  from assms obtain c met s1 t1 where c: "Commitment s cid = Some c" "status c = Pending" "now h \<le> expiry_timestamp c"
    and tr: "triggers_satisfied h (triggers c) (combiner c) s = (Ok met, s1)" and met: "met"
    and fill: "saturating_div (saturating_mul (borrow_amount c) (int (min_fill_bps c))) 10000
                 \<le> min (borrow_amount c) (saturating_sub (get_debt_ceiling s1) (get_total_debt s1))"
    and b0: "borrow_amount c \<noteq> 0"
    and cf: "0 < saturating_div (saturating_mul (cm_collateral_amount c)
        (min (borrow_amount c) (saturating_sub (get_debt_ceiling s1) (get_total_debt s1)))) (borrow_amount c)"
    and v: "validate_collateral_ratio (saturating_div (saturating_mul (cm_collateral_amount c)
        (min (borrow_amount c) (saturating_sub (get_debt_ceiling s1) (get_total_debt s1)))) (borrow_amount c))
        (min (borrow_amount c) (saturating_sub (get_debt_ceiling s1) (get_total_debt s1))) = Inr ()"
    and b: "borrow_from_commitment h (owner c) (borrow_asset c)
        (min (borrow_amount c) (saturating_sub (get_debt_ceiling s1) (get_total_debt s1))) (cm_collateral_asset c)
        (saturating_div (saturating_mul (cm_collateral_amount c)
        (min (borrow_amount c) (saturating_sub (get_debt_ceiling s1) (get_total_debt s1)))) (borrow_amount c)) s1 = (Ok (), t1)"
    and t: "t = publish (BorrowCommitmentExecutedEvent cid (owner c)
        (min (borrow_amount c) (saturating_sub (get_debt_ceiling s1) (get_total_debt s1)))
        (saturating_div (saturating_mul (cm_collateral_amount c)
        (min (borrow_amount c) (saturating_sub (get_debt_ceiling s1) (get_total_debt s1)))) (borrow_amount c)))
        (set_commitment cid (c\<lparr>status := Executed\<rparr>) t1)"
    unfolding execute_borrow_commitment_def Let_def
    by (clarsimp simp: ok_simps not_less not_le split: if_splits)
  have "s1 = s" using tr by (rule triggers_satisfied_pure)
  with c tr met fill b0 cf v b t show ?thesis by (intro that) simp_all
qed

section \<open>The lifecycle\<close>

text \<open>What may happen to one commitment between two storages.\<close>

inductive lifecycle :: "BorrowCommitment option \<Rightarrow> BorrowCommitment option \<Rightarrow> bool" where
  unchanged: "lifecycle c c"
| created: "status c = Pending \<Longrightarrow> lifecycle None (Some c)"
| cancelled: "status c = Pending \<Longrightarrow> lifecycle (Some c) (Some (c\<lparr>status := Cancelled\<rparr>))"
| executed: "status c = Pending \<Longrightarrow> lifecycle (Some c) (Some (c\<lparr>status := Executed\<rparr>))"

inductive_cases lifecycle_SomeE: "lifecycle (Some c) d"
inductive_simps lifecycle_None: "lifecycle None d"

lemma lifecycle_final: "lifecycle (Some c) d \<Longrightarrow> status c \<noteq> Pending \<Longrightarrow> d = Some c"
  by (erule lifecycle_SomeE) auto

lemma lifecycle_final_rtranclp:
  assumes "lifecycle\<^sup>*\<^sup>* (Some c) d" and "status c \<noteq> Pending"
  shows "d = Some c"
  using assms by (induction rule: rtranclp_induct) (auto dest: lifecycle_final)

text \<open>Identifiers are handed out in order.\<close>

definition commitments_inv :: "lending_state \<Rightarrow> bool" where
  "commitments_inv s \<longleftrightarrow> (\<forall>i. Commitment s i \<noteq> None \<longrightarrow> i < unwrap_or (NextId s) 0)"

lemma commitments_inv_cong:
  "Commitment t = Commitment s \<Longrightarrow> NextId t = NextId s \<Longrightarrow> commitments_inv t = commitments_inv s"
  by (simp add: commitments_inv_def)

lemma create_lifecycle:
  assumes "commitments_inv s" "create_borrow_commitment h own ts comb ba ca bamt camt mf ex s = (Ok cid, t)"
  shows "lifecycle (Commitment s i) (Commitment t i)" "commitments_inv t"
proof -
  note c = create_borrow_commitment_Ok [OF assms(2)]
  have "Commitment s cid = None" using assms(1) c by (auto simp: commitments_inv_def)
  with c show "lifecycle (Commitment s i) (Commitment t i)"
    by (cases "i = cid") (auto intro: lifecycle.intros)
  show "commitments_inv t"
    using assms(1) c by (auto simp: commitments_inv_def less_SucI)
qed

lemma cancel_lifecycle:
  assumes "cancel_borrow_commitment h own cid s = (Ok u, t)"
  shows "lifecycle (Commitment s i) (Commitment t i)" "NextId t = NextId s"
  using assms by (auto elim!: cancel_borrow_commitment_Ok simp: set_commitment_def publish_def intro: lifecycle.intros)

lemma execute_commitment_map:
  assumes "execute_borrow_commitment h cid s = (Ok u, t)"
  obtains c where "Commitment s cid = Some c" "status c = Pending"
    "Commitment t = (Commitment s)(cid \<mapsto> c\<lparr>status := Executed\<rparr>)" "NextId t = NextId s"
proof -
  from assms obtain c fill cfill t1 where c: "Commitment s cid = Some c" "status c = Pending"
    and b: "borrow_from_commitment h (owner c) (borrow_asset c) fill (cm_collateral_asset c) cfill s = (Ok (), t1)"
    and t: "t = publish (BorrowCommitmentExecutedEvent cid (owner c) fill cfill) (set_commitment cid (c\<lparr>status := Executed\<rparr>) t1)"
    by (rule execute_borrow_commitment_Ok) blast
  have "borrow_outside t1 = borrow_outside s"
    using b unfolding borrow_from_commitment_def by (rule borrow_inner_outside)
  note f = borrow_outside_fields(13,14) [OF this]
  show ?thesis by (rule that [OF c]) (simp_all add: t set_commitment_def publish_def f)
qed

lemma execute_lifecycle:
  assumes "execute_borrow_commitment h cid s = (Ok u, t)"
  shows "lifecycle (Commitment s i) (Commitment t i)" "NextId t = NextId s"
  using assms by (auto elim!: execute_commitment_map intro: lifecycle.intros)

lemma cancel_commitments_inv:
  assumes "commitments_inv s" "cancel_borrow_commitment h own cid s = (Ok u, t)"
  shows "commitments_inv t"
  using assms cancel_lifecycle [OF assms(2)]
  by (auto elim!: cancel_borrow_commitment_Ok simp: commitments_inv_def set_commitment_def publish_def split: if_splits)

lemma execute_commitments_inv:
  assumes "commitments_inv s" "execute_borrow_commitment h cid s = (Ok u, t)"
  shows "commitments_inv t"
  using assms by (auto elim!: execute_commitment_map simp: commitments_inv_def split: if_splits)

section \<open>Properties\<close>

text \<open>An executed commitment is filled within everything its owner and the protocol asked for: it
  was pending and not expired and its triggers were satisfied; the filled amount is positive, at most
  the requested amount and at least the minimum fill; the protocol's total debt grows by exactly that
  amount and stays within the ceiling; the collateral taken covers 150% of it; and the commitment is
  marked executed.\<close>

theorem execute_commitment_fill:
  assumes "execute_borrow_commitment h cid s = (Ok u, t)"
  shows "\<exists>c fill cfill. Commitment s cid = Some c \<and> status c = Pending \<and> now h \<le> expiry_timestamp c \<and>
     triggers_satisfied h (triggers c) (combiner c) s = (Ok True, s) \<and>
     0 < fill \<and> fill \<le> borrow_amount c \<and>
     saturating_div (saturating_mul (borrow_amount c) (int (min_fill_bps c))) 10000 \<le> fill \<and>
     get_total_debt t = get_total_debt s + fill \<and> get_total_debt t \<le> get_debt_ceiling t \<and>
     fill * 15000 div 10000 \<le> cfill \<and>
     bc_amount (get_collateral_position t (owner c)) = bc_amount (get_collateral_position s (owner c)) + cfill \<and>
     Commitment t cid = Some (c\<lparr>status := Executed\<rparr>)"
proof -
  from assms obtain c fill cfill t1 where c: "Commitment s cid = Some c" "status c = Pending" "now h \<le> expiry_timestamp c"
    "triggers_satisfied h (triggers c) (combiner c) s = (Ok True, s)"
    and fill: "fill = min (borrow_amount c) (saturating_sub (get_debt_ceiling s) (get_total_debt s))"
      "saturating_div (saturating_mul (borrow_amount c) (int (min_fill_bps c))) 10000 \<le> fill"
    and b: "borrow_from_commitment h (owner c) (borrow_asset c) fill (cm_collateral_asset c) cfill s = (Ok (), t1)"
    and t: "t = publish (BorrowCommitmentExecutedEvent cid (owner c) fill cfill) (set_commitment cid (c\<lparr>status := Executed\<rparr>) t1)"
    by (rule execute_borrow_commitment_Ok) blast
  note post = borrow_inner_post [OF b [unfolded borrow_from_commitment_def]]
  have reads_t: "get_total_debt t = get_total_debt t1" "get_debt_ceiling t = get_debt_ceiling t1"
    "get_collateral_position t = get_collateral_position t1" "Commitment t cid = Some (c\<lparr>status := Executed\<rparr>)"
    by (simp_all add: t publish_def set_commitment_def get_total_debt_def get_debt_ceiling_def
        get_collateral_position_def fun_eq_iff)
  have "fill \<le> borrow_amount c" by (simp add: fill(1))
  with c fill(2) post(1-5) reads_t show ?thesis by (intro exI [of _ c] exI [of _ fill] exI [of _ cfill]) simp
qed

definition sample_commitment :: BorrowCommitment where
  "sample_commitment = \<lparr>owner = 2, triggers = [\<lparr>pt_asset = 8, trigger_price = 90000000, fire_when_at_or_above = True\<rparr>],
     combiner = Any_Trigger, borrow_asset = 7, cm_collateral_asset = 8, borrow_amount = 2000,
     cm_collateral_amount = 4000, min_fill_bps = 50, expiry_timestamp = 50, status = Pending\<rparr>"

definition commitment_sample :: lending_state where
  "commitment_sample = sample_state\<lparr>Commitment := [0 \<mapsto> sample_commitment], NextId := Some 1\<rparr>"

text \<open>The trigger loops compute what the combiner means: with an oracle that prices every asset,
  a non-empty trigger list under Any is satisfied exactly when some trigger fires and under All
  exactly when every one does, and the check changes nothing.\<close>

theorem triggers_satisfied_meaning:
  assumes "OracleAddress s = Some orc" and "\<And>a. oracle_price h orc a = Some (price a)" and "ts \<noteq> []"
  shows "triggers_satisfied h ts Any_Trigger s = (Ok (\<exists>t\<in>set ts. price_fires price t), s) \<and>
         triggers_satisfied h ts All_Triggers s = (Ok (\<forall>t\<in>set ts. price_fires price t), s)"
  using assms by (simp add: triggers_satisfied_def fail_if_def any_trigger_priced all_triggers_priced)

theorem triggers_satisfied_meaning_witness:
  "triggers_satisfied (sample_host 0) (triggers sample_commitment) All_Triggers sample_state = (Ok True, sample_state)"
  using triggers_satisfied_meaning [of sample_state 5 "sample_host 0" "\<lambda>_. 100000000" "triggers sample_commitment"]
  by (simp add: sample_state_def sample_host_def sample_commitment_def price_fires_def)

text \<open>Executing an expired commitment fails with Expired, and because the host undoes a failed
  invocation the Expired mark the code writes is never stored: the commitment stays pending.\<close>

theorem expired_mark_is_lost:
  assumes "Commitment s cid = Some c" and "status c = Pending" and "expiry_timestamp c < now h"
  shows "invoke (execute_borrow_commitment h cid) s = (Err CommitmentError.Expired, s)"
  using assms by (simp add: invoke_def execute_borrow_commitment_def run_simps)

theorem expired_mark_is_lost_witness:
  "invoke (execute_borrow_commitment (sample_host 60) 0) commitment_sample = (Err CommitmentError.Expired, commitment_sample)"
  by (rule expired_mark_is_lost [of _ _ sample_commitment])
     (simp_all add: commitment_sample_def sample_commitment_def sample_host_def)

end
