(* ===== verification/Delegation.thy ===== *)
theory Delegation
  imports Sample "HOL-Library.Word"
begin

unbundle bit_operations_syntax

text \<open>
  The delegation registry, a contract of its own:
  src/stellar-lend/contracts/delegation-registry/src/lib.rs. A delegator grants a delegate a bit mask
  of permissions until an expiry time; other contracts ask \<open>validate\<close>.
\<close>

datatype DelegationError = Unauthorized | InvalidExpiry

datatype Permission = Deposit | Withdraw | Borrow | Repay | DepositCollateral

fun permission_bit :: "Permission \<Rightarrow> 32 word" where
  "permission_bit Deposit = 1"
| "permission_bit Withdraw = 2"
| "permission_bit Borrow = 4"
| "permission_bit Repay = 8"
| "permission_bit DepositCollateral = 16"

record Delegation =
  permissions :: "32 word"
  expiry :: u64

record registry_state =
  Delegations :: "address \<times> address \<Rightarrow> Delegation option"

definition delegation_valid :: "host \<Rightarrow> Delegation \<Rightarrow> 32 word \<Rightarrow> bool" where
  "delegation_valid h d required_permission =
     (if expiry d \<noteq> 0 \<and> expiry d \<le> now h then False
      else (permissions d AND required_permission) \<noteq> 0)"

definition grant ::
    "host \<Rightarrow> address \<Rightarrow> address \<Rightarrow> 32 word \<Rightarrow> u64 \<Rightarrow> (registry_state, DelegationError, unit) contract_fn" where
  "grant h delegator delegate perms exp =
     tryM (require_auth h delegator) (\<lambda>_.
     fail_if (exp \<noteq> 0 \<and> exp \<le> now h) InvalidExpiry (
     writes (\<lambda>s. s\<lparr>Delegations := (Delegations s)((delegator, delegate) \<mapsto> \<lparr>permissions = perms, expiry = exp\<rparr>)\<rparr>)
     (ret ())))"

definition revoke :: "host \<Rightarrow> address \<Rightarrow> address \<Rightarrow> (registry_state, DelegationError, unit) contract_fn" where
  "revoke h delegator delegate =
     tryM (require_auth h delegator) (\<lambda>_.
     writes (\<lambda>s. s\<lparr>Delegations := (Delegations s)((delegator, delegate) := None)\<rparr>)
     (ret ()))"

definition get_delegation :: "registry_state \<Rightarrow> address \<Rightarrow> address \<Rightarrow> Delegation option" where
  "get_delegation s delegator delegate = Delegations s (delegator, delegate)"

definition validate :: "host \<Rightarrow> registry_state \<Rightarrow> address \<Rightarrow> address \<Rightarrow> 32 word \<Rightarrow> bool" where
  "validate h s delegator delegate permission =
     (case get_delegation s delegator delegate of
        Some d \<Rightarrow> delegation_valid h d permission
      | None \<Rightarrow> False)"

section \<open>Behaviour\<close>

lemma grant_Ok:
  "grant h a b p e s = (Ok u, t) \<longleftrightarrow> host.signed h a \<and> (e = 0 \<or> now h < e) \<and>
     t = s\<lparr>Delegations := (Delegations s)((a, b) \<mapsto> \<lparr>permissions = p, expiry = e\<rparr>)\<rparr>"
  by (auto simp: grant_def ok_simps)

lemma revoke_Ok:
  "revoke h a b s = (Ok u, t) \<longleftrightarrow> host.signed h a \<and> t = s\<lparr>Delegations := (Delegations s)((a, b) := None)\<rparr>"
  by (auto simp: revoke_def ok_simps)

text \<open>The permission masks are single distinct bits: a mask grants a permission exactly when its bit
  is set.\<close>

lemma permission_bits_disjoint: "p \<noteq> q \<Longrightarrow> permission_bit p AND permission_bit q = 0"
  by (cases p; cases q; simp)

lemma permission_bit_nonzero: "permission_bit p AND permission_bit p \<noteq> 0"
  by (cases p; simp)

text \<open>Granting is what validation sees: after a successful grant, the delegate has a permission
  exactly when its bit is in the granted mask and the grant has not expired (expiry 0 never does),
  every other delegation is untouched, and a revocation takes all permissions away.\<close>

theorem grant_validate_revoke:
  assumes "grant h a b p e s = (Ok u, t)"
  shows "(validate h' t a b q \<longleftrightarrow> (e = 0 \<or> now h' < e) \<and> p AND q \<noteq> 0) \<and>
         ((c, d) \<noteq> (a, b) \<longrightarrow> validate h' t c d q = validate h' s c d q) \<and>
         (revoke h'' a b t = (Ok (), r) \<longrightarrow> \<not> validate h' r a b q)"
  using assms by (auto simp: grant_Ok revoke_Ok validate_def get_delegation_def delegation_valid_def)

theorem grant_validate_revoke_witness:
  "let t = snd (grant (sample_host 10) 1 2 5 20 \<lparr>Delegations = (\<lambda>_. None)\<rparr>) in
     validate (sample_host 15) t 1 2 (permission_bit Borrow) \<and> \<not> validate (sample_host 15) t 1 2 (permission_bit Repay)"
proof -
  let ?g = "grant (sample_host 10) 1 2 5 20 \<lparr>Delegations = (\<lambda>_. None)\<rparr>"
  have "?g = (Ok (), snd ?g)" by (simp add: grant_Ok sample_host_def grant_def run_simps)
  from grant_validate_revoke [OF this, of "sample_host 15"]
  show ?thesis by (simp add: Let_def sample_host_def)
qed

end
