(* ===== verification/Token_Receiver.thy ===== *)
theory Token_Receiver
  imports Borrow
begin

text \<open>
  The token receiver hook: src/stellar-lend/contracts/lending/src/token_receiver.rs. The payload is a
  vector of host values; only the first one is read, and it must be a symbol.
\<close>

datatype host_val = SymbolVal symbol | OtherVal nat

definition symbol_from_val :: "host_val \<Rightarrow> symbol option" where
  "symbol_from_val v = (case v of SymbolVal x \<Rightarrow> Some x | OtherVal _ \<Rightarrow> None)"

definition receive ::
    "host \<Rightarrow> address \<Rightarrow> address \<Rightarrow> i128 \<Rightarrow> host_val list \<Rightarrow> (lending_state, BorrowError, unit) contract_fn" where
  "receive h token_asset from_addr amount payload =
     fail_if (payload = []) BorrowError.InvalidAmount (
     ok_or (if payload = [] then None else Some (payload ! 0)) BorrowError.InvalidAmount (\<lambda>v.
     unwrap (symbol_from_val v) (\<lambda>action.
     if action = ''deposit'' then deposit_collateral_inner h from_addr token_asset amount
     else if action = ''repay'' then repay h from_addr token_asset amount
     else fail BorrowError.AssetNotSupported)))"

lemma receive_Ok:
  assumes "receive h token_asset from_addr amount payload s = (Ok u, t)"
  shows "deposit_collateral_inner h from_addr token_asset amount s = (Ok u, t) \<or>
         repay h from_addr token_asset amount s = (Ok u, t)"
  using assms by (auto simp: receive_def ok_simps split: if_splits)

end
