(* ===== verification/Meta.thy ===== *)
theory Meta
  imports Borrow_Accounting Vault
begin

text \<open>
  Delegated (meta) transactions: src/stellar-lend/contracts/lending/src/meta.rs. A delegate runs a
  batch of calls for a delegator; a nonce orders the batches and the delegation registry, another
  contract, decides which actions the delegate may run.
\<close>

datatype Action = Deposit | Withdraw | Borrow | Repay | DepositCollateral

record Call =
  action :: Action
  call_asset :: address
  call_amount :: i128
  call_collateral_asset :: "address option"
  call_collateral_amount :: "i128 option"

definition set_delegation_registry :: "address \<Rightarrow> lending_state \<Rightarrow> lending_state" where
  "set_delegation_registry registry s = s\<lparr>DelegationRegistry := Some registry\<rparr>"

definition get_delegation_registry :: "lending_state \<Rightarrow> address option" where
  "get_delegation_registry s = DelegationRegistry s"

definition get_nonce :: "lending_state \<Rightarrow> address \<Rightarrow> u64" where
  "get_nonce s delegator = unwrap_or (Nonce s delegator) 0"

definition set_nonce :: "address \<Rightarrow> u64 \<Rightarrow> lending_state \<Rightarrow> lending_state" where
  "set_nonce delegator nonce s = s\<lparr>Nonce := (Nonce s)(delegator \<mapsto> nonce)\<rparr>"

fun action_permission :: "Action \<Rightarrow> u32" where
  "action_permission Action.Deposit = 1"
| "action_permission Action.Withdraw = 2"
| "action_permission Action.Borrow = 4"
| "action_permission Action.Repay = 8"
| "action_permission Action.DepositCollateral = 16"

definition validate_delegation ::
    "host \<Rightarrow> address \<Rightarrow> address \<Rightarrow> address \<Rightarrow> Action \<Rightarrow> (lending_state, MetaTxError, unit) contract_fn" where
  "validate_delegation h registry delegator delegate act =
     unwrap (registry_validate h registry delegator delegate (action_permission act)) (\<lambda>valid.
     fail_if (\<not> valid) PermissionDenied (ret ()))"

text \<open>One iteration of the loop of \<open>execute_delegated\<close>, after the permission check.\<close>

definition run_call :: "host \<Rightarrow> address \<Rightarrow> Call \<Rightarrow> (lending_state, MetaTxError, unit) contract_fn" where
  "run_call h delegator c = (case action c of
     Action.Deposit \<Rightarrow>
       reads (\<lambda>s. is_paused s PauseType.Deposit) (\<lambda>paused.
       fail_if paused MetaTxError.Unauthorized (
       tryM (map_err (\<lambda>_. MetaTxError.Unauthorized)
               (deposit_with_auth h delegator (call_asset c) (call_amount c) False)) (\<lambda>_. ret ())))
   | Action.Withdraw \<Rightarrow>
       reads (\<lambda>s. is_paused s PauseType.Withdraw) (\<lambda>paused.
       fail_if paused MetaTxError.Unauthorized (
       tryM (map_err (\<lambda>_. MetaTxError.Unauthorized)
               (withdraw_with_auth h delegator (call_asset c) (call_amount c) False)) (\<lambda>_. ret ())))
   | Action.Borrow \<Rightarrow>
       reads (\<lambda>s. is_paused s PauseType.Borrow) (\<lambda>paused.
       fail_if paused MetaTxError.Unauthorized (
       ok_or (call_collateral_asset c) MetaTxError.Unauthorized (\<lambda>ca.
       ok_or (call_collateral_amount c) MetaTxError.Unauthorized (\<lambda>camt.
       map_err (\<lambda>_. MetaTxError.Unauthorized)
         (borrow_trusted h delegator (call_asset c) (call_amount c) ca camt)))))
   | Action.Repay \<Rightarrow>
       reads (\<lambda>s. is_paused s PauseType.Repay) (\<lambda>paused.
       fail_if paused MetaTxError.Unauthorized (
       map_err (\<lambda>_. MetaTxError.Unauthorized) (repay h delegator (call_asset c) (call_amount c))))
   | Action.DepositCollateral \<Rightarrow>
       reads (\<lambda>s. is_paused s PauseType.Deposit) (\<lambda>paused.
       fail_if paused MetaTxError.Unauthorized (
       map_err (\<lambda>_. MetaTxError.Unauthorized)
         (deposit_collateral_inner h delegator (call_asset c) (call_amount c)))))"

fun run_calls ::
    "host \<Rightarrow> address \<Rightarrow> address \<Rightarrow> address \<Rightarrow> Call list \<Rightarrow> (lending_state, MetaTxError, unit) contract_fn" where
  "run_calls h registry delegator delegate [] = ret ()"
| "run_calls h registry delegator delegate (c # cs) =
     tryM (validate_delegation h registry delegator delegate (action c)) (\<lambda>_.
     tryM (run_call h delegator c) (\<lambda>_.
     run_calls h registry delegator delegate cs))"

definition execute_delegated ::
    "host \<Rightarrow> address \<Rightarrow> address \<Rightarrow> u64 \<Rightarrow> u64 \<Rightarrow> Call list \<Rightarrow> (lending_state, MetaTxError, unit) contract_fn" where
  "execute_delegated h delegator delegate nonce deadline calls =
     tryM (require_auth h delegate) (\<lambda>_.
     fail_if (deadline \<noteq> 0 \<and> now h > deadline) MetaTxError.Expired (
     reads (\<lambda>s. get_nonce s delegator) (\<lambda>current.
     fail_if (nonce \<noteq> current) InvalidNonce (
     unwrap (checked_add_u64 current 1) (\<lambda>next_nonce.
     writes (set_nonce delegator next_nonce) (
     reads get_delegation_registry (\<lambda>registry_opt.
     ok_or registry_opt DelegationMissing (\<lambda>registry.
     run_calls h registry delegator delegate calls))))))))"

section \<open>Batches\<close>

lemma validate_delegation_Ok [ok_simps]:
  "validate_delegation h r a b act s = (Ok u, t) \<longleftrightarrow>
     registry_validate h r a b (action_permission act) = Some True \<and> t = s"
  by (auto simp: validate_delegation_def ok_simps)

text \<open>A call of a batch is one of the contract's own operations, run without the user's signature.\<close>

lemma run_call_cases:
  assumes "run_call h delegator c s = (Ok u, t)"
  obtains (deposit) r where "action c = Action.Deposit" "\<not> is_paused s PauseType.Deposit"
      "deposit_with_auth h delegator (call_asset c) (call_amount c) False s = (Ok r, t)"
  | (withdraw) r where "action c = Action.Withdraw" "\<not> is_paused s PauseType.Withdraw"
      "withdraw_with_auth h delegator (call_asset c) (call_amount c) False s = (Ok r, t)"
  | (borrow) ca camt where "action c = Action.Borrow" "\<not> is_paused s PauseType.Borrow"
      "borrow_inner h delegator (call_asset c) (call_amount c) ca camt Variable TrustedCommitment s = (Ok (), t)"
  | (repay) "action c = Action.Repay" "\<not> is_paused s PauseType.Repay"
      "repay h delegator (call_asset c) (call_amount c) s = (Ok (), t)"
  | (collateral) "action c = Action.DepositCollateral" "\<not> is_paused s PauseType.Deposit"
      "deposit_collateral_inner h delegator (call_asset c) (call_amount c) s = (Ok (), t)"
  using assms by (cases "action c") (auto simp: run_call_def ok_simps borrow_trusted_def)

lemma vault_ops_fields:
  "deposit_with_auth h user asset amount b s = (Ok r, t) \<Longrightarrow>
     \<exists>uc n es. t = s\<lparr>UserCollateral := uc, TotalAmount := n, events := es\<rparr>"
  "withdraw_with_auth h user asset amount b s = (Ok r, t) \<Longrightarrow>
     \<exists>uc n es. t = s\<lparr>UserCollateral := uc, TotalAmount := n, events := es\<rparr>"
  by (auto simp: deposit_with_auth_Ok withdraw_with_auth_Ok deposited_def withdrawn_def emit_deposit_event_def
      publish_def set_total_deposits_def save_deposit_position_def)

text \<open>A predicate kept by the five operations is kept by a batch.\<close>

lemma run_call_preserves:
  assumes "run_call h delegator c s = (Ok u, t)" "P s"
    and "\<And>r t. deposit_with_auth h delegator (call_asset c) (call_amount c) False s = (Ok r, t) \<Longrightarrow> P t"
    and "\<And>r t. withdraw_with_auth h delegator (call_asset c) (call_amount c) False s = (Ok r, t) \<Longrightarrow> P t"
    and "\<And>ca camt t. borrow_inner h delegator (call_asset c) (call_amount c) ca camt Variable TrustedCommitment s = (Ok (), t) \<Longrightarrow> P t"
    and "\<And>t. repay h delegator (call_asset c) (call_amount c) s = (Ok (), t) \<Longrightarrow> P t"
    and "\<And>t. deposit_collateral_inner h delegator (call_asset c) (call_amount c) s = (Ok (), t) \<Longrightarrow> P t"
  shows "P t"
  using assms(1) by (cases rule: run_call_cases) (auto intro: assms)

lemma run_calls_preserves:
  assumes "\<And>c s u t. P s \<Longrightarrow> run_call h delegator c s = (Ok u, t) \<Longrightarrow> P t"
  shows "run_calls h registry delegator delegate calls s = (Ok u, t) \<Longrightarrow> P s \<Longrightarrow> P t"
  by (induction calls arbitrary: s) (auto simp: ok_simps intro: assms)

lemma run_calls_permitted:
  "run_calls h registry delegator delegate calls s = (Ok u, t) \<Longrightarrow> c \<in> set calls \<Longrightarrow>
     registry_validate h registry delegator delegate (action_permission (action c)) = Some True"
  by (induction calls arbitrary: s) (auto simp: ok_simps)

text \<open>What a batch leaves alone: everything outside the positions, the totals and the log.\<close>

definition batch_outside where
  "batch_outside s = (State s, ProtocolAdmin s, BorrowDebtCeiling s, BorrowInterestRate s, OracleAddress s,
     (LiquidationThresholdBps s, CloseFactorBps s, LiquidationIncentiveBps s, FlashLoanFeeBps s, ReentrancyGuard s),
     (NextId s, Commitment s, DelegationRegistry s, Nonce s, BadDebtTotal s, BadDebtUser s, ProtocolReserves s, Thresholds s))"
  for s :: lending_state

lemma batch_outside_borrow: "borrow_outside t = borrow_outside s \<Longrightarrow> batch_outside t = batch_outside s"
  by (simp add: batch_outside_def borrow_outside_def)

lemma batch_outside_vault:
  "deposit_with_auth h user asset amount b s = (Ok r, t) \<Longrightarrow> batch_outside t = batch_outside s"
  "withdraw_with_auth h user asset amount b s = (Ok r, t) \<Longrightarrow> batch_outside t = batch_outside s"
  by (auto dest!: vault_ops_fields simp: batch_outside_def)

lemma run_call_outside: "run_call h delegator c s = (Ok u, t) \<Longrightarrow> batch_outside t = batch_outside s"
  by (erule run_call_preserves)
     (auto intro: batch_outside_vault batch_outside_borrow borrow_ops_outside)

lemma run_calls_outside:
  "run_calls h registry delegator delegate calls s = (Ok u, t) \<Longrightarrow> batch_outside t = batch_outside s"
  by (rule run_calls_preserves [where P = "\<lambda>t. batch_outside t = batch_outside s"]) (auto dest: run_call_outside)

lemma execute_delegated_Ok:
  assumes "execute_delegated h delegator delegate nonce deadline calls s = (Ok u, t)"
  obtains registry where "signed h delegate" "deadline = 0 \<or> now h \<le> deadline" "nonce = get_nonce s delegator"
    "nonce < u64_max" "DelegationRegistry s = Some registry"
    "run_calls h registry delegator delegate calls (set_nonce delegator (nonce + 1) s) = (Ok (), t)"
  using assms
  by (auto simp: execute_delegated_def ok_simps checked_add_u64_def get_delegation_registry_def set_nonce_def not_less
      split: if_splits)

lemma execute_delegated_preserves:
  assumes "execute_delegated h delegator delegate nonce deadline calls s = (Ok u, t)"
    and "P (set_nonce delegator (nonce + 1) s)"
    and "\<And>c s u t. P s \<Longrightarrow> run_call h delegator c s = (Ok u, t) \<Longrightarrow> P t"
  shows "P t"
  using assms(1) by (elim execute_delegated_Ok) (rule run_calls_preserves [of P, OF assms(3) _ assms(2)])

lemma vault_ops_debt_inv:
  "deposit_with_auth h user asset amount b s = (Ok r, t) \<Longrightarrow> debt_inv t = debt_inv s"
  "withdraw_with_auth h user asset amount b s = (Ok r, t) \<Longrightarrow> debt_inv t = debt_inv s"
  by (drule vault_ops_fields, elim exE, rule debt_inv_cong, simp_all)+

lemma borrow_outside_vault_inv: "borrow_outside t = borrow_outside s \<Longrightarrow> vault_inv t = vault_inv s"
  by (rule vault_inv_cong) (simp_all add: borrow_outside_def)

lemma run_call_debt_inv: "debt_inv s \<Longrightarrow> run_call h delegator c s = (Ok u, t) \<Longrightarrow> debt_inv t"
  by (erule run_call_preserves)
     (auto simp: vault_ops_debt_inv intro: borrow_inner_debt_inv repay_debt_inv deposit_collateral_debt_inv)

lemma run_call_vault_inv: "vault_inv s \<Longrightarrow> run_call h delegator c s = (Ok u, t) \<Longrightarrow> vault_inv t"
  by (erule run_call_preserves)
     (auto intro: deposit_with_auth_vault_inv withdraw_with_auth_vault_inv
        simp: borrow_outside_vault_inv [OF borrow_inner_outside] borrow_outside_vault_inv [OF repay_outside]
          borrow_outside_vault_inv [OF deposit_collateral_outside])

text \<open>The pause flag each action of a batch is checked against.\<close>

fun action_pause :: "Action \<Rightarrow> PauseType" where
  "action_pause Action.Deposit = PauseType.Deposit"
| "action_pause Action.Withdraw = PauseType.Withdraw"
| "action_pause Action.Borrow = PauseType.Borrow"
| "action_pause Action.Repay = PauseType.Repay"
| "action_pause Action.DepositCollateral = PauseType.Deposit"

lemma run_call_unpaused: "run_call h delegator c s = (Ok u, t) \<Longrightarrow> \<not> is_paused s (action_pause (action c))"
  by (erule run_call_cases) simp_all

lemma run_calls_unpaused:
  "run_calls h registry delegator delegate calls s = (Ok u, t) \<Longrightarrow> c \<in> set calls \<Longrightarrow> \<not> is_paused s (action_pause (action c))"
proof (induction calls arbitrary: s)
  case (Cons d ds)
  then obtain s1 where d: "run_call h delegator d s = (Ok (), s1)"
    and ds: "run_calls h registry delegator delegate ds s1 = (Ok u, t)" by (auto simp: ok_simps)
  have "State s1 = State s" using run_call_outside [OF d] by (simp add: batch_outside_def)
  then have "is_paused s1 p = is_paused s p" for p by (rule is_paused_cong)
  with Cons.IH [OF ds] Cons.prems(2) run_call_unpaused [OF d] show ?case by auto
qed simp

section \<open>Properties\<close>

text \<open>A delegated batch runs only with the delegate's signature, before its deadline, with the
  delegator's current nonce and with every single action permitted by the configured registry; it
  consumes the nonce (the delegator's counter grows by one, no other changes), so the same batch is
  refused from then on, whatever the time.\<close>

theorem delegated_batch_authorised:
  assumes "execute_delegated h delegator delegate nonce deadline calls s = (Ok u, t)"
  shows "\<exists>registry. signed h delegate \<and> (deadline = 0 \<or> now h \<le> deadline) \<and> nonce = get_nonce s delegator \<and>
           DelegationRegistry s = Some registry \<and>
           (\<forall>c\<in>set calls. registry_validate h registry delegator delegate (action_permission (action c)) = Some True) \<and>
           Nonce t = (Nonce s)(delegator \<mapsto> nonce + 1) \<and>
           (\<forall>h' calls'. fst (execute_delegated h' delegator delegate nonce deadline calls' t) \<noteq> Ok ())"
proof -
  from assms obtain registry where g: "signed h delegate" "deadline = 0 \<or> now h \<le> deadline"
    "nonce = get_nonce s delegator" "DelegationRegistry s = Some registry"
    and run: "run_calls h registry delegator delegate calls (set_nonce delegator (nonce + 1) s) = (Ok (), t)"
    by (rule execute_delegated_Ok) blast
  have "Nonce t = (Nonce s)(delegator \<mapsto> nonce + 1)"
    using run_calls_outside [OF run] by (simp add: batch_outside_def set_nonce_def)
  moreover from this have "get_nonce t delegator = nonce + 1" by (simp add: get_nonce_def)
  then have "fst (execute_delegated h' delegator delegate nonce deadline calls' t) \<noteq> Ok ()" for h' calls'
    by (cases "execute_delegated h' delegator delegate nonce deadline calls' t") (auto elim: execute_delegated_Ok)
  moreover have "\<forall>c\<in>set calls. registry_validate h registry delegator delegate (action_permission (action c)) = Some True"
    using run_calls_permitted [OF run] by blast
  ultimately show ?thesis using g by blast
qed

definition meta_sample :: lending_state where
  "meta_sample = empty_storage\<lparr>DelegationRegistry := Some 6\<rparr>"

definition sample_batch :: "Call list" where
  "sample_batch = [\<lparr>action = Action.Deposit, call_asset = 8, call_amount = 50, call_collateral_asset = None,
                    call_collateral_amount = None\<rparr>]"

lemma sample_batch_runs: "fst (execute_delegated (sample_host 5) 1 2 0 10 sample_batch meta_sample) = Ok ()"
  by code_simp

theorem delegated_batch_authorised_witness:
  "\<exists>t. execute_delegated (sample_host 5) 1 2 0 10 sample_batch meta_sample = (Ok (), t) \<and> Nonce t 1 = Some 1"
proof -
  let ?e = "execute_delegated (sample_host 5) 1 2 0 10 sample_batch meta_sample"
  have "?e = (Ok (), snd ?e)" by (rule run_pair) (rule sample_batch_runs)
  with delegated_batch_authorised [OF this] show ?thesis by (metis fun_upd_same One_nat_def add_0)
qed

text \<open>Delegation does not widen what an operation may do: a delegated call succeeds only while the
  corresponding operation is not paused, and it keeps the accounting of debts and deposits.\<close>

theorem delegated_batch_safe:
  assumes "execute_delegated h delegator delegate nonce deadline calls s = (Ok u, t)"
    and "debt_inv s" and "vault_inv s"
  shows "debt_inv t \<and> vault_inv t \<and> (\<forall>c\<in>set calls. \<not> is_paused s (action_pause (action c)))"
proof -
  let ?s = "set_nonce delegator (nonce + 1) s"
  have "debt_inv ?s" using debt_inv_cong [of ?s s] assms(2) by (simp add: set_nonce_def)
  moreover have "vault_inv ?s" using vault_inv_cong [of ?s s] assms(3) by (simp add: set_nonce_def)
  moreover have "is_paused ?s p = is_paused s p" for p by (rule is_paused_cong) (simp add: set_nonce_def)
  ultimately show ?thesis
    using execute_delegated_preserves [OF assms(1), of debt_inv] execute_delegated_preserves [OF assms(1), of vault_inv]
      run_call_debt_inv run_call_vault_inv assms(1)
    by (auto elim!: execute_delegated_Ok dest: run_calls_unpaused)
qed

theorem delegated_batch_safe_witness:
  "\<exists>t. execute_delegated (sample_host 5) 1 2 0 10 sample_batch meta_sample = (Ok (), t) \<and> debt_inv t \<and> vault_inv t"
proof -
  let ?e = "execute_delegated (sample_host 5) 1 2 0 10 sample_batch meta_sample"
  have e: "?e = (Ok (), snd ?e)" by (rule run_pair) (rule sample_batch_runs)
  have "debt_inv meta_sample"
    using debt_inv_empty debt_inv_cong [of meta_sample empty_storage] by (simp add: meta_sample_def)
  moreover have "vault_inv meta_sample"
    using vault_inv_empty vault_inv_cong [of meta_sample empty_storage] by (simp add: meta_sample_def)
  ultimately show ?thesis using delegated_batch_safe [OF e] e by blast
qed

end
