(* ===== verification/Lending_Contract.thy ===== *)
theory Lending_Contract
  imports Views Flash_Loan Commitments Token_Receiver Meta
begin

text \<open>
  The public entry points of the lending contract (src/stellar-lend/contracts/lending/src/lib.rs), each
  prefixed \<open>entry_\<close>, and the contract as a machine: a call is one entry point with its arguments, run
  as a transaction by the host. Lending_Machine proves what holds in every reachable storage.
\<close>

section \<open>Set-up and administration\<close>

definition entry_initialize ::
    "host \<Rightarrow> address \<Rightarrow> i128 \<Rightarrow> i128 \<Rightarrow> (lending_state, BorrowError, unit) contract_fn" where
  "entry_initialize h admin debt_ceiling min_borrow_amount =
     reads get_admin (\<lambda>admin_opt.
     fail_if (admin_opt \<noteq> None) BorrowError.Unauthorized (
     writes (set_admin admin) (
     tryM (initialize_borrow_settings h debt_ceiling min_borrow_amount) (\<lambda>_.
     writes (set_default_if_missing h)
     (ret ())))))"

definition entry_set_delegation_registry ::
    "host \<Rightarrow> address \<Rightarrow> address \<Rightarrow> (lending_state, BorrowError, unit) contract_fn" where
  "entry_set_delegation_registry h admin registry =
     reads get_admin (\<lambda>admin_opt.
     ok_or admin_opt BorrowError.Unauthorized (\<lambda>current_admin.
     fail_if (admin \<noteq> current_admin) BorrowError.Unauthorized (
     tryM (require_auth h admin) (\<lambda>_.
     writes (set_delegation_registry registry)
     (ret ())))))"

definition entry_set_pause ::
    "host \<Rightarrow> address \<Rightarrow> PauseType \<Rightarrow> bool \<Rightarrow> (lending_state, BorrowError, unit) contract_fn" where
  "entry_set_pause h admin pause_type paused =
     reads get_admin (\<lambda>admin_opt.
     ok_or admin_opt BorrowError.Unauthorized (\<lambda>current_admin.
     fail_if (admin \<noteq> current_admin) BorrowError.Unauthorized (
     tryM (require_auth h admin) (\<lambda>_.
     writes (set_pause admin pause_type paused)
     (ret ())))))"

definition entry_set_deposit_paused :: "bool \<Rightarrow> (lending_state, DepositError, unit) contract_fn" where
  "entry_set_deposit_paused paused =
     writes (\<lambda>s. s\<lparr>State := (State s)(PauseType.Deposit \<mapsto> paused)\<rparr>) (ret ())"

definition entry_set_flash_loan_fee_bps :: "host \<Rightarrow> i128 \<Rightarrow> (lending_state, FlashLoanError, unit) contract_fn" where
  "entry_set_flash_loan_fee_bps h fee_bps =
     reads get_admin (\<lambda>admin_opt.
     ok_or admin_opt FlashLoanError.Unauthorized (\<lambda>current_admin.
     tryM (require_auth h current_admin) (\<lambda>_.
     set_flash_loan_fee_bps fee_bps)))"

definition entry_update_interest_rate_model ::
    "host \<Rightarrow> address \<Rightarrow> InterestRateConfigUpdate \<Rightarrow> (lending_state, BorrowError, unit) contract_fn" where
  "entry_update_interest_rate_model h caller update =
     tryM (map_err borrow_error_of (update_config h caller update)) (\<lambda>(prev, next_cfg).
     writes (publish (InterestRateModelUpdatedEvent caller prev next_cfg (now h)))
     (ret ()))"

section \<open>Bad debt\<close>

definition get_total_bad_debt :: "lending_state \<Rightarrow> i128" where
  "get_total_bad_debt s = unwrap_or (BadDebtTotal s) 0"

definition get_reserves :: "lending_state \<Rightarrow> i128" where
  "get_reserves s = unwrap_or (ProtocolReserves s) 0"

definition add_bad_debt :: "address \<Rightarrow> i128 \<Rightarrow> (lending_state, BorrowError, unit) contract_fn" where
  "add_bad_debt user amount =
     reads get_total_bad_debt (\<lambda>old_total.
     unwrap (checked_add old_total amount) (\<lambda>new_total.
     writes (\<lambda>s. s\<lparr>BadDebtTotal := Some new_total\<rparr>) (
     reads (\<lambda>s. unwrap_or (BadDebtUser s user) 0) (\<lambda>old_user.
     unwrap (checked_add old_user amount) (\<lambda>new_user.
     writes (\<lambda>s. s\<lparr>BadDebtUser := (BadDebtUser s)(user \<mapsto> new_user)\<rparr>)
     (ret ()))))))"

definition emit_bad_debt :: "address \<Rightarrow> i128 \<Rightarrow> lending_state \<Rightarrow> lending_state" where
  "emit_bad_debt user amount = publish (BadDebtEvent user amount)"

definition emit_bad_debt_recovered :: "i128 \<Rightarrow> lending_state \<Rightarrow> lending_state" where
  "emit_bad_debt_recovered amount = publish (BadDebtRecoveredEvent amount)"

definition entry_liquidate ::
    "host \<Rightarrow> address \<Rightarrow> address \<Rightarrow> address \<Rightarrow> address \<Rightarrow> i128 \<Rightarrow> (lending_state, BorrowError, unit) contract_fn" where
  "entry_liquidate h liquidator borrower d_asset c_asset repay_amount =
     tryM (require_auth h liquidator) (\<lambda>_.
     reads (\<lambda>s. is_paused s Liquidation) (\<lambda>paused.
     fail_if paused ProtocolPaused (
     tryM (get_debt_value h borrower) (\<lambda>dv.
     tryM (get_health_factor h borrower) (\<lambda>health.
     fail_if (health \<ge> 10000) PositionHealthy (
     let recovered_value = repay_amount in
     if recovered_value < dv then
       unwrap (checked_sub dv recovered_value) (\<lambda>bad_debt.
       tryM (add_bad_debt borrower bad_debt) (\<lambda>_.
       writes (emit_bad_debt borrower bad_debt) (ret ())))
     else ret ()))))))"

definition entry_recover_bad_debt ::
    "host \<Rightarrow> address \<Rightarrow> i128 \<Rightarrow> (lending_state, BorrowError, unit) contract_fn" where
  "entry_recover_bad_debt h admin amount =
     reads get_admin (\<lambda>admin_opt.
     ok_or admin_opt BorrowError.Unauthorized (\<lambda>current_admin.
     fail_if (admin \<noteq> current_admin) BorrowError.Unauthorized (
     tryM (require_auth h admin) (\<lambda>_.
     reads get_reserves (\<lambda>reserves.
     reads get_total_bad_debt (\<lambda>bad_debt.
     fail_if (reserves < amount) InsufficientReserves (
     let repay_amount = (if amount > bad_debt then bad_debt else amount) in
     unwrap (checked_sub reserves repay_amount) (\<lambda>new_reserves.
     unwrap (checked_sub bad_debt repay_amount) (\<lambda>new_bad_debt.
     writes (\<lambda>s. s\<lparr>ProtocolReserves := Some new_reserves\<rparr>) (
     writes (\<lambda>s. s\<lparr>BadDebtTotal := Some new_bad_debt\<rparr>) (
     writes (emit_bad_debt_recovered repay_amount)
     (ret ()))))))))))))"

section \<open>User operations\<close>

definition entry_borrow ::
    "host \<Rightarrow> address \<Rightarrow> address \<Rightarrow> i128 \<Rightarrow> address \<Rightarrow> i128 \<Rightarrow> (lending_state, BorrowError, unit) contract_fn" where
  "entry_borrow h user asset amount collateral_asset collateral_amount =
     borrow h user asset amount collateral_asset collateral_amount"

definition entry_borrow_with_rate ::
    "host \<Rightarrow> address \<Rightarrow> address \<Rightarrow> i128 \<Rightarrow> address \<Rightarrow> i128 \<Rightarrow> RateType \<Rightarrow> (lending_state, BorrowError, unit) contract_fn" where
  "entry_borrow_with_rate h user asset amount collateral_asset collateral_amount rt =
     borrow_with_rate h user asset amount collateral_asset collateral_amount rt"

definition entry_repay ::
    "host \<Rightarrow> address \<Rightarrow> address \<Rightarrow> i128 \<Rightarrow> (lending_state, BorrowError, unit) contract_fn" where
  "entry_repay h user asset amount =
     tryM (require_auth h user) (\<lambda>_.
     reads (\<lambda>s. is_paused s PauseType.Repay) (\<lambda>paused.
     fail_if paused ProtocolPaused
     (repay h user asset amount)))"

definition entry_repay_with_rate ::
    "host \<Rightarrow> address \<Rightarrow> address \<Rightarrow> i128 \<Rightarrow> RateType \<Rightarrow> (lending_state, BorrowError, unit) contract_fn" where
  "entry_repay_with_rate h user asset amount rt =
     tryM (require_auth h user) (\<lambda>_.
     reads (\<lambda>s. is_paused s PauseType.Repay) (\<lambda>paused.
     fail_if paused ProtocolPaused
     (repay_with_rate h user asset amount rt)))"

definition entry_switch_rate_type ::
    "host \<Rightarrow> address \<Rightarrow> address \<Rightarrow> RateType \<Rightarrow> (lending_state, BorrowError, unit) contract_fn" where
  "entry_switch_rate_type h user asset to_rate_type =
     tryM (require_auth h user) (\<lambda>_. switch_rate_type h user asset to_rate_type)"

definition entry_deposit ::
    "host \<Rightarrow> address \<Rightarrow> address \<Rightarrow> i128 \<Rightarrow> (lending_state, DepositError, i128) contract_fn" where
  "entry_deposit h user asset amount =
     reads (\<lambda>s. is_paused s PauseType.Deposit) (\<lambda>paused.
     fail_if paused DepositPaused
     (deposit h user asset amount))"

definition entry_deposit_collateral ::
    "host \<Rightarrow> address \<Rightarrow> address \<Rightarrow> i128 \<Rightarrow> (lending_state, BorrowError, unit) contract_fn" where
  "entry_deposit_collateral h user asset amount =
     tryM (require_auth h user) (\<lambda>_.
     reads (\<lambda>s. is_paused s PauseType.Deposit) (\<lambda>paused.
     fail_if paused ProtocolPaused
     (deposit_collateral_inner h user asset amount)))"

definition entry_withdraw ::
    "host \<Rightarrow> address \<Rightarrow> address \<Rightarrow> i128 \<Rightarrow> (lending_state, WithdrawError, i128) contract_fn" where
  "entry_withdraw h user asset amount =
     reads (\<lambda>s. is_paused s PauseType.Withdraw) (\<lambda>paused.
     fail_if paused WithdrawPaused
     (withdraw h user asset amount))"

definition get_utilization_bps :: "lending_state \<Rightarrow> i128" where
  "get_utilization_bps s = (case utilization_bps s of Inr v \<Rightarrow> v | Inl _ \<Rightarrow> 0)"

definition get_borrow_rate_bps :: "host \<Rightarrow> lending_state \<Rightarrow> i128" where
  "get_borrow_rate_bps h s = (case borrow_rate_bps h s of Inr v \<Rightarrow> v | Inl _ \<Rightarrow> 0)"

definition get_supply_rate_bps :: "host \<Rightarrow> lending_state \<Rightarrow> i128" where
  "get_supply_rate_bps h s = (case supply_rate_bps h s of Inr v \<Rightarrow> v | Inl _ \<Rightarrow> 0)"

section \<open>The contract as a machine\<close>

text \<open>One constructor per entry point that changes the storage; the queries that may accrue a
  stable-rate average while reading are there too. A flash loan carries the token and receiver it
  runs against.\<close>

datatype 'w entry_call =
  Call_initialize address i128 i128
| Call_set_delegation_registry address address
| Call_execute_delegated address address u64 u64 "Call list"
| Call_add_bad_debt address i128
| Call_borrow address address i128 address i128
| Call_borrow_with_rate address address i128 address i128 RateType
| Call_set_pause address PauseType bool
| Call_repay address address i128
| Call_repay_with_rate address address i128 RateType
| Call_switch_rate_type address address RateType
| Call_deposit address address i128
| Call_deposit_collateral address address i128
| Call_liquidate address address address address i128
| Call_get_user_debt address
| Call_get_health_factor address
| Call_set_variable_borrow_rate_bps address i128
| Call_set_oracle address address
| Call_set_liquidation_threshold_bps address i128
| Call_initialize_deposit_settings i128 i128
| Call_set_deposit_paused bool
| Call_flash_loan "'w flash_env" 'w address address i128 "nat list"
| Call_set_flash_loan_fee_bps i128
| Call_update_interest_rate_model address InterestRateConfigUpdate
| Call_withdraw address address i128
| Call_initialize_withdraw_settings i128
| Call_set_withdraw_paused bool
| Call_receive address address i128 "host_val list"
| Call_initialize_borrow_settings i128 i128
| Call_set_stablecoin_config address address StablecoinConfig
| Call_set_risk_alert_thresholds address RiskAlertThresholds
| Call_create_borrow_commitment address "PriceTrigger list" TriggerCombiner address address i128 i128 u32 u64
| Call_cancel_borrow_commitment address u64
| Call_execute_borrow_commitment u64
| Call_recover_bad_debt address i128

definition after :: "('s, 'e, 'a) contract_fn \<Rightarrow> 's \<Rightarrow> 's" where
  "after m s = snd (invoke m s)"

fun exec_call :: "host \<Rightarrow> 'w entry_call \<Rightarrow> lending_state \<Rightarrow> lending_state" where
  "exec_call h (Call_initialize a c m) = after (entry_initialize h a c m)"
| "exec_call h (Call_set_delegation_registry a r) = after (entry_set_delegation_registry h a r)"
| "exec_call h (Call_execute_delegated a b n d cs) = after (execute_delegated h a b n d cs)"
| "exec_call h (Call_add_bad_debt u n) = after (add_bad_debt u n)"
| "exec_call h (Call_borrow u a n ca cn) = after (entry_borrow h u a n ca cn)"
| "exec_call h (Call_borrow_with_rate u a n ca cn rt) = after (entry_borrow_with_rate h u a n ca cn rt)"
| "exec_call h (Call_set_pause a p b) = after (entry_set_pause h a p b)"
| "exec_call h (Call_repay u a n) = after (entry_repay h u a n)"
| "exec_call h (Call_repay_with_rate u a n rt) = after (entry_repay_with_rate h u a n rt)"
| "exec_call h (Call_switch_rate_type u a rt) = after (entry_switch_rate_type h u a rt)"
| "exec_call h (Call_deposit u a n) = after (entry_deposit h u a n)"
| "exec_call h (Call_deposit_collateral u a n) = after (entry_deposit_collateral h u a n)"
| "exec_call h (Call_liquidate l b d c n) = after (entry_liquidate h l b d c n)"
| "exec_call h (Call_get_user_debt u) = after (get_user_debt h u)"
| "exec_call h (Call_get_health_factor u) = after (get_health_factor h u)"
| "exec_call h (Call_set_variable_borrow_rate_bps a n) = after (set_variable_borrow_rate_bps h a n)"
| "exec_call h (Call_set_oracle a c) = after (set_oracle h a c)"
| "exec_call h (Call_set_liquidation_threshold_bps a n) = after (set_liquidation_threshold_bps h a n)"
| "exec_call h (Call_initialize_deposit_settings c m) = after (initialize_deposit_settings c m)"
| "exec_call h (Call_set_deposit_paused b) = after (entry_set_deposit_paused b)"
| "exec_call h (Call_flash_loan E w r a n ps) = (\<lambda>s. fst (after (flash_loan E h r a n ps) (s, w)))"
| "exec_call h (Call_set_flash_loan_fee_bps n) = after (entry_set_flash_loan_fee_bps h n)"
| "exec_call h (Call_update_interest_rate_model a u) = after (entry_update_interest_rate_model h a u)"
| "exec_call h (Call_withdraw u a n) = after (entry_withdraw h u a n)"
| "exec_call h (Call_initialize_withdraw_settings m) = after (initialize_withdraw_settings m)"
| "exec_call h (Call_set_withdraw_paused b) = after (set_withdraw_paused b)"
| "exec_call h (Call_receive a f n p) = after (receive h a f n p)"
| "exec_call h (Call_initialize_borrow_settings c m) = after (initialize_borrow_settings h c m)"
| "exec_call h (Call_set_stablecoin_config a x c) = after (set_stablecoin_config h a x c)"
| "exec_call h (Call_set_risk_alert_thresholds a th) = after (set_risk_alert_thresholds h a th)"
| "exec_call h (Call_create_borrow_commitment u ts c ba ca bn cn m e) =
     after (create_borrow_commitment h u ts c ba ca bn cn m e)"
| "exec_call h (Call_cancel_borrow_commitment u i) = after (cancel_borrow_commitment h u i)"
| "exec_call h (Call_execute_borrow_commitment i) = after (execute_borrow_commitment h i)"
| "exec_call h (Call_recover_bad_debt a n) = after (entry_recover_bad_debt h a n)"

lemma after_Ok: "m s = (Ok a, t) \<Longrightarrow> after m s = t"
  by (simp add: after_def invoke_def)

lemma after_cases:
  obtains (ok) a where "m s = (Ok a, after m s)" | (undone) "after m s = s" "\<And>a t. m s \<noteq> (Ok a, t)"
  by (cases rule: invoke_cases [of m s]) (auto simp: after_def)

end
