(* ===== verification/Lending_Machine.thy ===== *)
theory Lending_Machine
  imports Lending_Contract SL_Interfaces
begin

text \<open>
  The lending contract over time: which effect each entry point can have on the storage, the
  invariants every effect keeps, and the machine whose steps are calls, interpreted as an
  \<open>invariant_machine\<close> once per invariant.
\<close>

section \<open>Effects\<close>

text \<open>With the flag set, a stable-rate borrow is only an effect for a user with a variable-rate record.
  The records the invariants speak about:\<close>

definition core where
  "core s = (BorrowUserDebt s, BorrowUserVariableDebt s, BorrowUserStableDebt s, BorrowTotalDebt s,
             UserCollateral s, TotalAmount s, Commitment s, NextId s)" for s :: lending_state

definition settings_wf :: "lending_state \<Rightarrow> bool" where
  "settings_wf s \<longleftrightarrow> risk_params_wf s \<and> (\<forall>h. config_wf (get_config h s)) \<and> flash_fee_wf s"

inductive effect :: "host \<Rightarrow> bool \<Rightarrow> lending_state \<Rightarrow> lending_state \<Rightarrow> bool" for h strict where
  eff_none: "effect h strict s s"
| eff_borrow: "borrow_inner h u a n ca cn rt auth s = (Ok (), t) \<Longrightarrow>
     (strict \<Longrightarrow> rt = Stable \<Longrightarrow> BorrowUserVariableDebt s u \<noteq> None) \<Longrightarrow> effect h strict s t"
| eff_repay: "repay_with_rate h u a n rt s = (Ok (), t) \<Longrightarrow> effect h strict s t"
| eff_switch: "switch_rate_type h u a rt s = (Ok (), t) \<Longrightarrow> effect h strict s t"
| eff_collateral: "deposit_collateral_inner h u a n s = (Ok (), t) \<Longrightarrow> effect h strict s t"
| eff_deposit: "deposit_with_auth h u a n b s = (Ok r, t) \<Longrightarrow> effect h strict s t"
| eff_withdraw: "withdraw_with_auth h u a n b s = (Ok r, t) \<Longrightarrow> effect h strict s t"
| eff_delegated: "execute_delegated h u d n dl cs s = (Ok (), t) \<Longrightarrow> effect h strict s t"
| eff_create: "create_borrow_commitment h u ts cb ba ca bn cn m e s = (Ok cid, t) \<Longrightarrow> effect h strict s t"
| eff_cancel: "cancel_borrow_commitment h u cid s = (Ok (), t) \<Longrightarrow> effect h strict s t"
| eff_execute: "execute_borrow_commitment h cid s = (Ok (), t) \<Longrightarrow> effect h strict s t"
| eff_settings: "core t = core s \<Longrightarrow> (settings_wf s \<Longrightarrow> settings_wf t) \<Longrightarrow>
     (ProtocolAdmin s \<noteq> None \<Longrightarrow> ProtocolAdmin t = ProtocolAdmin s) \<Longrightarrow> effect h strict s t"

text \<open>The settings the well-formedness reads; a state that agrees on them is as well-formed.\<close>

definition settings where
  "settings s = (LiquidationThresholdBps s, CloseFactorBps s, LiquidationIncentiveBps s,
                 BorrowInterestRate s, FlashLoanFeeBps s)" for s :: lending_state

lemma settings_wf_cong: "settings t = settings s \<Longrightarrow> settings_wf t = settings_wf s"
  by (simp add: settings_wf_def settings_def risk_params_wf_def get_liquidation_threshold_bps_def
      get_close_factor_bps_def get_liquidation_incentive_bps_def get_config_def flash_fee_wf_def
      get_flash_loan_fee_bps_def)

lemma eff_plain:
  "core t = core s \<Longrightarrow> settings t = settings s \<Longrightarrow> ProtocolAdmin t = ProtocolAdmin s \<Longrightarrow> effect h strict s t"
  by (rule eff_settings) (simp_all add: settings_wf_cong [of t s])

lemmas plain_defs = core_def settings_def

lemma eff_accrual: "accrual_frame s t \<Longrightarrow> effect h strict s t"
  by (rule eff_plain) (auto elim!: accrual_frameE simp: plain_defs)

lemma accrual_then_plain:
  assumes "accrual_frame s s1" and "core t = core s1" "settings t = settings s1" "ProtocolAdmin t = ProtocolAdmin s1"
  shows "effect h strict s t"
proof (rule eff_plain)
  show "core t = core s" "settings t = settings s" "ProtocolAdmin t = ProtocolAdmin s"
    using assms by (auto elim!: accrual_frameE simp: plain_defs)
qed

text \<open>The interest configuration after an update is well-formed again.\<close>

lemma update_config_effect:
  assumes "update_config h c u s = (Ok (p, q), t)"
  shows "core t = core s" "settings_wf s \<Longrightarrow> settings_wf t" "ProtocolAdmin t = ProtocolAdmin s"
proof -
  note e = update_config_Ok [OF assms]
  show "core t = core s" "ProtocolAdmin t = ProtocolAdmin s" using e by (simp_all add: core_def)
  assume wf: "settings_wf s"
  then have "config_wf q" using update_config_wf [OF assms] by (simp add: settings_wf_def)
  with wf e show "settings_wf t"
    by (auto simp: settings_wf_def risk_params_wf_def get_liquidation_threshold_bps_def
      get_close_factor_bps_def get_liquidation_incentive_bps_def get_config_def flash_fee_wf_def
      get_flash_loan_fee_bps_def)
qed

lemma set_default_settings:
  "settings_wf s \<Longrightarrow> settings_wf (set_default_if_missing h s)"
  by (auto simp: set_default_if_missing_def settings_wf_def risk_params_wf_def get_liquidation_threshold_bps_def
      get_close_factor_bps_def get_liquidation_incentive_bps_def get_config_def flash_fee_wf_def
      get_flash_loan_fee_bps_def config_wf_default)

lemma initialize_borrow_settings_effect:
  assumes "initialize_borrow_settings h c m s = (Ok u, t)"
  shows "core t = core s" "settings_wf s \<Longrightarrow> settings_wf t" "ProtocolAdmin t = ProtocolAdmin s"
proof -
  define s1 where "s1 = set_default_if_missing h (s\<lparr>BorrowDebtCeiling := Some c, BorrowMinAmount := Some m\<rparr>)"
  have t: "core t = core s1" "settings t = settings s1" "ProtocolAdmin t = ProtocolAdmin s1"
    using assms by (auto simp: initialize_borrow_settings_def s1_def plain_defs)
  show "core t = core s" "ProtocolAdmin t = ProtocolAdmin s"
    using t by (auto simp: s1_def plain_defs set_default_if_missing_def)
  assume "settings_wf s"
  then have "settings_wf (s\<lparr>BorrowDebtCeiling := Some c, BorrowMinAmount := Some m\<rparr>)"
    using settings_wf_cong [of "s\<lparr>BorrowDebtCeiling := Some c, BorrowMinAmount := Some m\<rparr>" s] by (simp add: settings_def)
  then have "settings_wf s1" unfolding s1_def by (rule set_default_settings)
  then show "settings_wf t" using settings_wf_cong [OF t(2)] by simp
qed

text \<open>A liquidation touches the bad-debt counters and the log, and what the two views accrue.\<close>

lemma add_bad_debt_Ok:
  "add_bad_debt user amount s = (Ok u, t) \<longleftrightarrow>
     in_i128 (get_total_bad_debt s + amount) \<and> in_i128 (unwrap_or (BadDebtUser s user) 0 + amount) \<and>
     t = s\<lparr>BadDebtTotal := Some (get_total_bad_debt s + amount),
           BadDebtUser := (BadDebtUser s)(user \<mapsto> unwrap_or (BadDebtUser s user) 0 + amount)\<rparr>"
  by (auto simp: add_bad_debt_def ok_simps)

lemma entry_liquidate_Ok:
  assumes "entry_liquidate h l b d c n s = (Ok u, t)"
  obtains dv health s1 where "signed h l" "\<not> is_paused s Liquidation" "health < 10000"
    "get_debt_value h b s = (Ok dv, s1)" "\<exists>s2. get_health_factor h b s1 = (Ok health, s2) \<and> accrual_frame s s2 \<and>
       (if n < dv then \<exists>s3. add_bad_debt b (dv - n) s2 = (Ok (), s3) \<and> t = publish (BadDebtEvent b (dv - n)) s3
        else t = s2)"
proof -
  from assms obtain dv health s1 s2 where g: "signed h l" "\<not> is_paused s Liquidation" "health < 10000"
    and dv: "get_debt_value h b s = (Ok dv, s1)" and hf: "get_health_factor h b s1 = (Ok health, s2)"
    and t: "if n < dv then \<exists>s3. add_bad_debt b (dv - n) s2 = (Ok (), s3) \<and> t = publish (BadDebtEvent b (dv - n)) s3
        else t = s2"
    by (auto simp: entry_liquidate_def Let_def ok_simps emit_bad_debt_def not_le split: if_splits)
  have "accrual_frame s s2"
    using get_debt_value_frame [OF dv] get_health_factor_frame [OF hf] by (rule accrual_frame_trans)
  with hf t show ?thesis by (intro that [OF g dv]) blast
qed

lemma liquidate_effect: "entry_liquidate h l b d c n s = (Ok u, t) \<Longrightarrow> effect h strict s t"
proof (erule entry_liquidate_Ok, elim exE conjE)
  fix dv health s1 s2
  assume fr: "accrual_frame s s2"
    and t: "if n < dv then \<exists>s3. add_bad_debt b (dv - n) s2 = (Ok (), s3) \<and> t = publish (BadDebtEvent b (dv - n)) s3
        else t = s2"
  show "effect h strict s t"
    by (rule accrual_then_plain [OF fr])
       (use t in \<open>auto simp: add_bad_debt_Ok plain_defs publish_def split: if_splits\<close>)
qed

text \<open>The host prohibits re-entry: the receiver's callback cannot change this contract's storage.\<close>

definition no_reentry :: "'w flash_env \<Rightarrow> bool" where
  "no_reentry E \<longleftrightarrow> (\<forall>r c a n f ps s w b s' w'.
     on_flash_loan E r c a n f ps (s, w) = Some (b, s', w') \<longrightarrow> s' = s)"

fun well_hosted :: "'w entry_call \<Rightarrow> bool" where
  "well_hosted (Call_flash_loan E w r a n ps) = no_reentry E"
| "well_hosted _ = True"

lemma flash_loan_effect:
  assumes "no_reentry E" and "flash_loan E h r a n ps (s, w) = (Ok u, (t, w'))"
  shows "effect h strict s t"
proof -
  from assms(2) obtain w1 s2 e where
    cb: "on_flash_loan E r (self E) a n (calculate_fee s n) ps (s\<lparr>ReentrancyGuard := Some True\<rparr>, w1) = Some (True, s2, w')"
    and t: "t = (publish e s2)\<lparr>ReentrancyGuard := Some False\<rparr>"
    unfolding flash_loan_Ok by blast
  from cb assms(1) have "s2 = s\<lparr>ReentrancyGuard := Some True\<rparr>" unfolding no_reentry_def by blast
  with t show ?thesis by (intro eff_plain) (simp_all add: plain_defs publish_def)
qed

lemma repay_effect: "repay h u a n s = (Ok (), t) \<Longrightarrow> effect h strict s t"
  by (auto simp: repay_def split: if_splits intro: eff_repay)

lemma entry_initialize_effect:
  assumes "entry_initialize h a c m s = (Ok u, t)"
  shows "effect h strict s t"
proof -
  from assms obtain s1 where none: "ProtocolAdmin s = None"
    and i: "initialize_borrow_settings h c m (set_admin a s) = (Ok (), s1)" and t: "t = set_default_if_missing h s1"
    by (auto simp: entry_initialize_def ok_simps get_admin_def)
  note e = initialize_borrow_settings_effect [OF i]
  show ?thesis
  proof (rule eff_settings)
    show "core t = core s" using e(1) by (simp add: t core_def set_default_if_missing_def set_admin_def)
    assume "settings_wf s"
    then have "settings_wf (set_admin a s)" using settings_wf_cong [of "set_admin a s" s] by (simp add: set_admin_def settings_def)
    then show "settings_wf t" unfolding t by (intro set_default_settings e(2))
  qed (simp add: none)
qed

text \<open>Every other entry point, by what it may write.\<close>

lemma setter_effects:
  "entry_set_delegation_registry h a r s = (Ok u1, t) \<Longrightarrow> effect h strict s t"
  "entry_set_pause h a p b s = (Ok u1, t) \<Longrightarrow> effect h strict s t"
  "entry_set_deposit_paused b s = (Ok u2, t) \<Longrightarrow> effect h strict s t"
  "set_oracle h a c s = (Ok u1, t) \<Longrightarrow> effect h strict s t"
  "set_stablecoin_config h a x cfg s = (Ok u1, t) \<Longrightarrow> effect h strict s t"
  "initialize_deposit_settings m n s = (Ok u2, t) \<Longrightarrow> effect h strict s t"
  "initialize_withdraw_settings m s = (Ok u3, t) \<Longrightarrow> effect h strict s t"
  "set_withdraw_paused b s = (Ok u3, t) \<Longrightarrow> effect h strict s t"
  "set_risk_alert_thresholds h a th s = (Ok u4, t) \<Longrightarrow> effect h strict s t"
  "add_bad_debt w n s = (Ok u1, t) \<Longrightarrow> effect h strict s t"
  by (auto simp: entry_set_delegation_registry_def entry_set_pause_def entry_set_deposit_paused_def set_oracle_def
      set_stablecoin_config_def initialize_deposit_settings_def initialize_withdraw_settings_def
      set_withdraw_paused_def set_risk_alert_thresholds_def add_bad_debt_Ok ok_simps plain_defs
      set_delegation_registry_def set_pause_def publish_def intro!: eff_plain)

lemma recover_effect: "entry_recover_bad_debt h a n s = (Ok u, t) \<Longrightarrow> effect h strict s t"
  by (rule eff_plain) (auto simp: entry_recover_bad_debt_def Let_def ok_simps plain_defs
      emit_bad_debt_recovered_def publish_def)

lemma bounded_setter_effects:
  "set_liquidation_threshold_bps h a n s = (Ok u1, t) \<Longrightarrow> effect h strict s t"
  "entry_set_flash_loan_fee_bps h n s = (Ok u2, t) \<Longrightarrow> effect h strict s t"
  by (rule eff_settings; force simp: set_liquidation_threshold_bps_def entry_set_flash_loan_fee_bps_def
      set_flash_loan_fee_bps_def ok_simps core_def settings_wf_def risk_params_wf_def get_liquidation_threshold_bps_def
      get_close_factor_bps_def get_liquidation_incentive_bps_def get_config_def flash_fee_wf_def get_flash_loan_fee_bps_def)+

lemma rate_model_effects:
  "set_variable_borrow_rate_bps h a n s = (Ok u, t) \<Longrightarrow> effect h strict s t"
  "entry_update_interest_rate_model h a upd s = (Ok u, t) \<Longrightarrow> effect h strict s t"
proof -
  assume "set_variable_borrow_rate_bps h a n s = (Ok u, t)"
  then obtain p q upd where "update_config h a upd s = (Ok (p, q), t)"
    by (auto simp: set_variable_borrow_rate_bps_def ok_simps Let_def)
  note e = update_config_effect [OF this]
  show "effect h strict s t" by (rule eff_settings) (use e in simp_all)
next
  assume "entry_update_interest_rate_model h a upd s = (Ok u, t)"
  then obtain p q s1 e where u: "update_config h a upd s = (Ok (p, q), s1)" and t: "t = publish e s1"
    by (auto simp: entry_update_interest_rate_model_def ok_simps)
  note e = update_config_effect [OF u]
  show "effect h strict s t"
  proof (rule eff_settings)
    show "core t = core s" using e(1) by (simp add: t core_def publish_def)
    show "settings_wf s \<Longrightarrow> settings_wf t"
      using e(2) settings_wf_cong [of t s1] by (simp add: t settings_def publish_def)
    show "ProtocolAdmin t = ProtocolAdmin s" using e(3) by (simp add: t publish_def)
  qed
qed

lemma borrow_settings_effect:
  assumes "initialize_borrow_settings h c m s = (Ok u, t)"
  shows "effect h strict s t"
  by (rule eff_settings) (use initialize_borrow_settings_effect [OF assms] in simp_all)

lemma user_effects:
  "entry_borrow h u a n ca cn s = (Ok x, t) \<Longrightarrow> effect h strict s t"
  "entry_borrow_with_rate h u a n ca cn rt s = (Ok x, t) \<Longrightarrow>
     (strict \<longrightarrow> rt = Stable \<longrightarrow> BorrowUserVariableDebt s u \<noteq> None) \<Longrightarrow> effect h strict s t"
  "entry_repay h u a n s = (Ok x, t) \<Longrightarrow> effect h strict s t"
  "entry_repay_with_rate h u a n rt s = (Ok x, t) \<Longrightarrow> effect h strict s t"
  "entry_switch_rate_type h u a rt s = (Ok x, t) \<Longrightarrow> effect h strict s t"
  "entry_deposit h u a n s = (Ok r1, t) \<Longrightarrow> effect h strict s t"
  "entry_deposit_collateral h u a n s = (Ok x, t) \<Longrightarrow> effect h strict s t"
  "entry_withdraw h u a n s = (Ok r2, t) \<Longrightarrow> effect h strict s t"
  "receive h a u n p s = (Ok x, t) \<Longrightarrow> effect h strict s t"
  by (auto simp: entry_borrow_def borrow_def entry_borrow_with_rate_def borrow_with_rate_def entry_repay_def
      entry_repay_with_rate_def entry_switch_rate_type_def entry_deposit_def deposit_def entry_deposit_collateral_def
      entry_withdraw_def withdraw_def ok_simps
      dest!: receive_Ok intro: effect.intros repay_effect)

lemma view_effects:
  "get_user_debt h u s = (Ok p, t) \<Longrightarrow> effect h strict s t"
  "get_health_factor h u s = (Ok r, t) \<Longrightarrow> effect h strict s t"
  by (auto intro: eff_accrual dest: get_user_debt_frame get_health_factor_frame)

lemma module_effects:
  "execute_delegated h u d n dl cs s = (Ok x1, t) \<Longrightarrow> effect h strict s t"
  "create_borrow_commitment h u ts cb ba ca bn cn m e s = (Ok cid, t) \<Longrightarrow> effect h strict s t"
  "cancel_borrow_commitment h u cid s = (Ok x2, t) \<Longrightarrow> effect h strict s t"
  "execute_borrow_commitment h cid s = (Ok x2, t) \<Longrightarrow> effect h strict s t"
  by (simp_all add: eff_delegated eff_create eff_cancel eff_execute)

lemmas entry_effects = entry_initialize_effect setter_effects recover_effect bounded_setter_effects
  rate_model_effects borrow_settings_effect user_effects view_effects liquidate_effect module_effects

lemma after_effect: "(\<And>a t. m s = (Ok a, t) \<Longrightarrow> effect h strict s t) \<Longrightarrow> effect h strict s (after m s)"
  by (rule after_cases [of m s]) (auto intro: eff_none)

fun no_stable_first :: "lending_state \<Rightarrow> 'w entry_call \<Rightarrow> bool" where
  "no_stable_first s (Call_borrow_with_rate u a n ca cn rt) \<longleftrightarrow> rt = Stable \<longrightarrow> BorrowUserVariableDebt s u \<noteq> None"
| "no_stable_first s _ = True"

lemma exec_call_effect:
  assumes "well_hosted c" and stable: "strict \<Longrightarrow> no_stable_first s c"
  shows "effect h strict s (exec_call h c s)"
proof (cases c)
  case (Call_flash_loan E w r a n ps)
  show ?thesis
  proof (rule after_cases [of "flash_loan E h r a n ps" "(s, w)"])
    fix u assume "flash_loan E h r a n ps (s, w) = (Ok u, after (flash_loan E h r a n ps) (s, w))"
    with assms Call_flash_loan show ?thesis
      by (cases "after (flash_loan E h r a n ps) (s, w)") (auto intro: flash_loan_effect)
  next
    assume "after (flash_loan E h r a n ps) (s, w) = (s, w)"
    then show ?thesis by (simp add: Call_flash_loan eff_none)
  qed
next
  case (Call_borrow_with_rate u a n ca cn rt)
  with stable show ?thesis by (auto intro!: after_effect user_effects(2))
qed (simp_all only: exec_call.simps, (rule after_effect, erule entry_effects)+)

section \<open>Invariants\<close>

lemma core_fields:
  assumes "core t = core s"
  shows "debt_inv t = debt_inv s" "vault_inv t = vault_inv s" "commitments_inv t = commitments_inv s"
    "Commitment t = Commitment s"
  using assms debt_inv_cong [of t s] vault_inv_cong [of t s] commitments_inv_cong [of t s]
  by (simp_all add: core_def)

text \<open>Most effects leave the settings, the admin and the commitments alone.\<close>

definition keeps :: "lending_state \<Rightarrow> lending_state \<Rightarrow> bool" where
  "keeps s t \<longleftrightarrow> settings t = settings s \<and> ProtocolAdmin t = ProtocolAdmin s \<and>
                 Commitment t = Commitment s \<and> NextId t = NextId s"

lemma keeps_outside: "borrow_outside t = borrow_outside s \<Longrightarrow> keeps s t"
  by (simp add: borrow_outside_def settings_def keeps_def)

lemma keeps_ops:
  "borrow_inner h u a n ca cn rt auth s = (Ok x, t) \<Longrightarrow> keeps s t"
  "repay_with_rate h u a n rt s = (Ok x, t) \<Longrightarrow> keeps s t"
  "switch_rate_type h u a rt s = (Ok x, t) \<Longrightarrow> keeps s t"
  "deposit_collateral_inner h u a n s = (Ok x, t) \<Longrightarrow> keeps s t"
  "deposit_with_auth h u a n b s = (Ok r1, t) \<Longrightarrow> keeps s t"
  "withdraw_with_auth h u a n b s = (Ok r2, t) \<Longrightarrow> keeps s t"
  by ((rule keeps_outside, erule borrow_ops_outside)+) (auto dest!: vault_ops_fields simp: settings_def keeps_def)

lemma keeps_delegated:
  assumes "execute_delegated h a d n dl cs s = (Ok x, t)"
  shows "keeps s t"
proof -
  from assms obtain registry where "run_calls h registry a d cs (set_nonce a (n + 1) s) = (Ok (), t)"
    by (rule execute_delegated_Ok) blast
  from run_calls_outside [OF this] show ?thesis
    by (simp add: batch_outside_def settings_def set_nonce_def keeps_def)
qed

lemma keeps_settings_wf: "keeps s t \<Longrightarrow> (settings_wf s \<longrightarrow> settings_wf t) \<and> (ProtocolAdmin s \<noteq> None \<longrightarrow> ProtocolAdmin t = ProtocolAdmin s)"
  using settings_wf_cong [of t s] by (simp add: keeps_def)

lemma keeps_commitments: "keeps s t \<Longrightarrow> commitments_inv s \<Longrightarrow> commitments_inv t \<and> (\<forall>i. lifecycle (Commitment s i) (Commitment t i))"
  using commitments_inv_cong [of t s] by (simp add: keeps_def lifecycle.unchanged)

text \<open>The commitment operations: their own records and a log entry; executing one is a borrow on the
  owner's variable-rate position.\<close>

definition same_books :: "lending_state \<Rightarrow> lending_state \<Rightarrow> bool" where
  "same_books s t \<longleftrightarrow> debt_inv t = debt_inv s \<and> vault_inv t = vault_inv s \<and>
                      settings t = settings s \<and> ProtocolAdmin t = ProtocolAdmin s"

lemma same_books_commitment:
  assumes "BorrowUserDebt t = BorrowUserDebt s" "BorrowUserVariableDebt t = BorrowUserVariableDebt s"
    "BorrowUserStableDebt t = BorrowUserStableDebt s" "BorrowTotalDebt t = BorrowTotalDebt s"
    "UserCollateral t = UserCollateral s" "TotalAmount t = TotalAmount s" "settings t = settings s"
    "ProtocolAdmin t = ProtocolAdmin s"
  shows "same_books s t"
  using debt_inv_cong [OF assms(2,3,1,4)] vault_inv_cong [OF assms(5,6)] assms(7,8)
  by (simp add: same_books_def)

lemma create_books: "create_borrow_commitment h u ts cb ba ca bn cn m e s = (Ok cid, t) \<Longrightarrow> same_books s t"
  by (drule create_borrow_commitment_Ok, rule same_books_commitment) (simp_all add: settings_def)

lemma cancel_books: "cancel_borrow_commitment h u cid s = (Ok x, t) \<Longrightarrow> same_books s t"
  by (erule cancel_borrow_commitment_Ok, rule same_books_commitment)
     (simp_all add: set_commitment_def publish_def settings_def)

lemma execute_as_borrow:
  assumes "execute_borrow_commitment h cid s = (Ok x, t)"
  obtains u a n ca cn t1 where "borrow_inner h u a n ca cn Variable TrustedCommitment s = (Ok (), t1)" "same_books t1 t"
proof -
  from assms obtain c fill cfill t1 where
    b: "borrow_from_commitment h (owner c) (borrow_asset c) fill (cm_collateral_asset c) cfill s = (Ok (), t1)"
    and t: "t = publish (BorrowCommitmentExecutedEvent cid (owner c) fill cfill) (set_commitment cid (c\<lparr>status := Executed\<rparr>) t1)"
    by (rule execute_borrow_commitment_Ok) blast
  show ?thesis
    by (rule that [OF b [unfolded borrow_from_commitment_def]])
       (rule same_books_commitment; simp add: t set_commitment_def publish_def settings_def)
qed

lemma delegated_books:
  assumes "execute_delegated h a d n dl cs s = (Ok x, t)"
  shows "debt_inv s \<Longrightarrow> debt_inv t" and "vault_inv s \<Longrightarrow> vault_inv t"
proof -
  let ?s = "set_nonce a (n + 1) s"
  have same: "debt_inv ?s = debt_inv s" "vault_inv ?s = vault_inv s"
    by (rule debt_inv_cong vault_inv_cong; simp add: set_nonce_def)+
  show "debt_inv t" if "debt_inv s"
    by (rule execute_delegated_preserves [OF assms, of debt_inv]) (use that same run_call_debt_inv in auto)
  show "vault_inv t" if "vault_inv s"
    by (rule execute_delegated_preserves [OF assms, of vault_inv]) (use that same run_call_vault_inv in auto)
qed

lemma execute_books:
  assumes "execute_borrow_commitment h cid s = (Ok x, t)"
  shows "debt_inv s \<Longrightarrow> debt_inv t" and "vault_inv s \<Longrightarrow> vault_inv t"
    and "settings t = settings s" and "ProtocolAdmin t = ProtocolAdmin s"
proof -
  from assms obtain u a n ca cn t1 where b: "borrow_inner h u a n ca cn Variable TrustedCommitment s = (Ok (), t1)"
    and t: "same_books t1 t" by (rule execute_as_borrow)
  note k = keeps_ops(1) [OF b]
  show "debt_inv s \<Longrightarrow> debt_inv t" using borrow_inner_debt_inv [OF _ b] t by (simp add: same_books_def)
  show "vault_inv s \<Longrightarrow> vault_inv t"
    using borrow_outside_vault_inv [OF borrow_inner_outside [OF b]] t by (simp add: same_books_def)
  show "settings t = settings s" "ProtocolAdmin t = ProtocolAdmin s"
    using k t by (simp_all add: same_books_def keeps_def)
qed

lemma effect_debt_inv:
  assumes eff: "effect h True s t" and inv: "debt_inv s"
  shows "debt_inv t"
  using eff
proof cases
  case eff_none
  with inv show ?thesis by simp
next
  case eff_borrow
  then show ?thesis by (intro borrow_inner_debt_inv [OF inv]) simp_all
next
  case eff_repay
  then show ?thesis by (rule repay_with_rate_debt_inv [OF inv])
next
  case eff_switch
  then show ?thesis by (rule switch_rate_type_debt_inv [OF inv])
next
  case eff_collateral
  then show ?thesis by (rule deposit_collateral_debt_inv [OF inv])
next
  case eff_deposit
  with inv show ?thesis by (simp add: vault_ops_debt_inv(1))
next
  case eff_withdraw
  with inv show ?thesis by (simp add: vault_ops_debt_inv(2))
next
  case eff_delegated
  then show ?thesis using inv by (rule delegated_books)
next
  case eff_create
  from create_books [OF this] inv show ?thesis by (simp add: same_books_def)
next
  case eff_cancel
  from cancel_books [OF this] inv show ?thesis by (simp add: same_books_def)
next
  case eff_execute
  then show ?thesis using inv by (rule execute_books)
next
  case eff_settings
  from core_fields(1) [OF this(1)] inv show ?thesis by simp
qed

lemma effect_vault_inv:
  assumes eff: "effect h strict s t" and inv: "vault_inv s"
  shows "vault_inv t"
  using eff
proof cases
  case eff_none
  with inv show ?thesis by simp
next
  case eff_borrow
  from borrow_outside_vault_inv [OF borrow_inner_outside [OF this(1)]] inv show ?thesis by simp
next
  case eff_repay
  from borrow_outside_vault_inv [OF repay_with_rate_outside [OF this]] inv show ?thesis by simp
next
  case eff_switch
  from borrow_outside_vault_inv [OF switch_rate_type_outside [OF this]] inv show ?thesis by simp
next
  case eff_collateral
  from borrow_outside_vault_inv [OF deposit_collateral_outside [OF this]] inv show ?thesis by simp
next
  case eff_deposit
  then show ?thesis by (rule deposit_with_auth_vault_inv [OF inv])
next
  case eff_withdraw
  then show ?thesis by (rule withdraw_with_auth_vault_inv [OF inv])
next
  case eff_delegated
  then show ?thesis using inv by (rule delegated_books)
next
  case eff_create
  from create_books [OF this] inv show ?thesis by (simp add: same_books_def)
next
  case eff_cancel
  from cancel_books [OF this] inv show ?thesis by (simp add: same_books_def)
next
  case eff_execute
  then show ?thesis using inv by (rule execute_books)
next
  case eff_settings
  from core_fields(2) [OF this(1)] inv show ?thesis by simp
qed

text \<open>For the settings and the commitments the effects fall into five groups.\<close>

lemma effect_groups:
  assumes "effect h strict s t"
  obtains (keeps) "keeps s t"
  | (create) u ts cb ba ca bn cn m e cid where "create_borrow_commitment h u ts cb ba ca bn cn m e s = (Ok cid, t)"
  | (cancel) u cid where "cancel_borrow_commitment h u cid s = (Ok (), t)"
  | (execute) cid where "execute_borrow_commitment h cid s = (Ok (), t)"
  | (settings) "core t = core s" "settings_wf s \<Longrightarrow> settings_wf t"
      "ProtocolAdmin s \<noteq> None \<Longrightarrow> ProtocolAdmin t = ProtocolAdmin s"
  using assms
proof cases
  case eff_none
  then show ?thesis by (intro keeps) (simp add: keeps_def)
qed (rule keeps, erule keeps_ops | rule keeps, erule keeps_delegated | erule create cancel execute settings, assumption+)+

lemma effect_settings:
  assumes "effect h strict s t"
  shows "(settings_wf s \<longrightarrow> settings_wf t) \<and> (ProtocolAdmin s \<noteq> None \<longrightarrow> ProtocolAdmin t = ProtocolAdmin s)"
  using assms
proof (cases rule: effect_groups)
  case keeps
  then show ?thesis by (rule keeps_settings_wf)
next
  case create
  from create_books [OF this] settings_wf_cong [of t s] show ?thesis by (simp add: same_books_def)
next
  case cancel
  from cancel_books [OF this] settings_wf_cong [of t s] show ?thesis by (simp add: same_books_def)
next
  case execute
  from execute_books(3,4) [OF this] settings_wf_cong [of t s] show ?thesis by simp
qed simp

lemma effect_commitments:
  assumes "effect h strict s t" and inv: "commitments_inv s"
  shows "commitments_inv t \<and> (\<forall>i. lifecycle (Commitment s i) (Commitment t i))"
  using assms(1)
proof (cases rule: effect_groups)
  case keeps
  then show ?thesis using inv by (rule keeps_commitments)
next
  case create
  from create_lifecycle [OF inv this] show ?thesis by simp
next
  case cancel
  from cancel_lifecycle(1) [OF this] cancel_commitments_inv [OF inv this] show ?thesis by simp
next
  case execute
  from execute_lifecycle(1) [OF this] execute_commitments_inv [OF inv this] show ?thesis by simp
next
  case settings
  from core_fields(3,4) [OF this(1)] inv show ?thesis by (simp add: lifecycle.unchanged)
qed

section \<open>The machine\<close>

text \<open>A label is a call with the host it runs under.\<close>

type_synonym 'w label = "host \<times> 'w entry_call"

definition contract_step :: "'w label \<Rightarrow> lending_state \<Rightarrow> lending_state" where
  "contract_step l s = exec_call (fst l) (snd l) s"

definition hosted :: "lending_state \<Rightarrow> 'w label \<Rightarrow> bool" where
  "hosted s l = well_hosted (snd l)"

text \<open>The restriction under which the debt accounting holds: nobody opens a stable-rate position
  before having had a variable-rate one.\<close>

definition variable_first :: "lending_state \<Rightarrow> 'w label \<Rightarrow> bool" where
  "variable_first s l \<longleftrightarrow> hosted s l \<and> no_stable_first s (snd l)"

lemma step_effect: "hosted s l \<Longrightarrow> effect (fst l) False s (contract_step l s)"
  unfolding contract_step_def hosted_def by (rule exec_call_effect) simp_all

lemma step_effect_strict: "variable_first s l \<Longrightarrow> effect (fst l) True s (contract_step l s)"
  unfolding contract_step_def hosted_def variable_first_def by (rule exec_call_effect) simp_all

lemma settings_wf_empty: "settings_wf empty_storage"
  by (simp add: settings_wf_def risk_params_wf_def get_liquidation_threshold_bps_def get_close_factor_bps_def
      get_liquidation_incentive_bps_def get_config_def flash_fee_wf_def get_flash_loan_fee_bps_def MAX_FEE_BPS_def
      empty_storage_def config_wf_default)

lemma commitments_inv_empty: "commitments_inv empty_storage"
  by (simp add: commitments_inv_def empty_storage_def)

interpretation debt_machine: invariant_machine contract_step empty_storage variable_first debt_inv
  by unfold_locales (auto intro: debt_inv_empty effect_debt_inv step_effect_strict)

interpretation vault_machine: invariant_machine contract_step empty_storage hosted vault_inv
  by unfold_locales (auto intro: vault_inv_empty effect_vault_inv step_effect)

interpretation settings_machine: invariant_machine contract_step empty_storage hosted settings_wf
  by unfold_locales (use settings_wf_empty effect_settings step_effect in blast)+

interpretation commitment_machine: invariant_machine contract_step empty_storage hosted commitments_inv
  by unfold_locales (use commitments_inv_empty effect_commitments step_effect in blast)+

interpretation admin_machine: invariant_machine contract_step "empty_storage\<lparr>ProtocolAdmin := Some a\<rparr>" hosted
    "\<lambda>s. ProtocolAdmin s = Some a" for a
  by unfold_locales (simp, metis effect_settings step_effect option.distinct(1))

end
