(* ===== verification/Contract_Properties.thy ===== *)
theory Contract_Properties
  imports Lending_Machine Sample
begin

text \<open>
  The properties of the lending contract as a whole: what holds in every storage the host can reach
  through the entry points of src/stellar-lend/contracts/lending/src/lib.rs, who may change what, what
  the pause flags stop, and what a liquidation does.
\<close>

section \<open>Accounting over whole runs\<close>

lemma balanced_account:
  assumes "ledger_balanced entry amt tot s"
  shows "tot s = (\<Sum>k\<in>dom (entry s). ledger_bal entry amt s k) \<and>
         (\<forall>k. 0 \<le> ledger_bal entry amt s k \<and> ledger_bal entry amt s k \<le> tot s)"
  using assms ledger_balanced_bal_le_total [OF assms] by (simp add: ledger_balanced_def ledger_sum_def)

text \<open>C1: The protocol's total debt is the sum of the principals: after any sequence of calls from the
  empty contract in which every user's first loan is a variable-rate one, whatever the hosts, callers,
  tokens and receivers of the calls, the counter the code maintains equals the sum over all stored
  positions, no principal is negative, and none exceeds the total.\<close>

theorem total_debt_is_sum_of_principals:
  assumes "allowed_run variable_first contract_step empty_storage ls"
    and t: "t = run contract_step empty_storage ls"
  shows "get_total_debt t = (\<Sum>k\<in>dom (stored_debt t). principal t k) \<and>
         (\<forall>k. 0 \<le> principal t k \<and> principal t k \<le> get_total_debt t)"
proof -
  have "debts_balanced t" using debt_machine.inv_run [OF assms(1)] by (simp add: t debt_inv_def)
  then show ?thesis by (rule balanced_account)
qed

definition sample_run :: "unit label list" where
  "sample_run = [(sample_host 0, Call_borrow 1 7 2000 8 3000),
                 (sample_host 0, Call_borrow 2 7 1000 8 1500),
                 (sample_host 0, Call_repay 1 7 500)]"

theorem total_debt_is_sum_of_principals_witness:
  "get_total_debt (run contract_step empty_storage sample_run) = 2500 \<and>
   principal (run contract_step empty_storage sample_run) (Variable, 1) \<le> 2500"
proof -
  let ?t = "run contract_step empty_storage sample_run"
  have "allowed_run variable_first contract_step empty_storage sample_run"
    by (simp add: sample_run_def variable_first_def hosted_def)
  note tot = total_debt_is_sum_of_principals [OF this refl]
  have "get_total_debt ?t = 2500" by code_simp
  with tot show ?thesis by metis
qed

text \<open>The restriction of the previous property is needed: a user whose first loan is a stable-rate one
  is also shown a variable-rate debt of the same size (the legacy copy of the position), can repay both,
  and leaves a negative total debt behind.\<close>

definition stable_first_run :: "unit label list" where
  "stable_first_run = [(sample_host 0, Call_borrow_with_rate 1 7 1000 8 1500 Stable),
                       (sample_host 0, Call_repay 1 7 1000),
                       (sample_host 0, Call_repay_with_rate 1 7 1000 Stable)]"

theorem stable_first_breaks_accounting:
  "get_total_debt (run contract_step empty_storage stable_first_run) = - 1000"
  by code_simp

text \<open>C2: The vault's total is the sum of the deposits, after any sequence of calls: the counter equals
  the sum of the stored positions, none of which is negative or exceeds it.\<close>

theorem vault_total_is_sum_of_deposits:
  assumes "allowed_run hosted contract_step empty_storage ls" and t: "t = run contract_step empty_storage ls"
  shows "get_total_deposits t = (\<Sum>u\<in>dom (UserCollateral t). vault_balance t u) \<and>
         (\<forall>u. 0 \<le> vault_balance t u \<and> vault_balance t u \<le> get_total_deposits t)"
proof -
  have "vault_balanced t" using vault_machine.inv_run [OF assms(1)] by (simp add: t vault_inv_def)
  then show ?thesis by (rule balanced_account)
qed

theorem vault_total_is_sum_of_deposits_witness:
  "let ls = [(sample_host 0, Call_initialize_deposit_settings 1000 1),
             (sample_host 0, Call_deposit 1 7 400),
             (sample_host 0, Call_deposit 2 7 500),
             (sample_host 0, Call_withdraw 1 7 100)] :: unit label list;
       t = run contract_step empty_storage ls
   in get_total_deposits t = 800 \<and> (\<forall>u. vault_balance t u \<le> 800)"
proof -
  let ?ls = "[(sample_host 0, Call_initialize_deposit_settings 1000 1),
             (sample_host 0, Call_deposit 1 7 400),
             (sample_host 0, Call_deposit 2 7 500),
             (sample_host 0, Call_withdraw 1 7 100)] :: unit label list"
  have "allowed_run hosted contract_step empty_storage ?ls" by (simp add: hosted_def)
  note tot = vault_total_is_sum_of_deposits [OF this refl]
  have "get_total_deposits (run contract_step empty_storage ?ls) = 800" by code_simp
  with tot show ?thesis by (metis (no_types))
qed

section \<open>What never changes\<close>

text \<open>C7: A commitment that was executed or cancelled stays as it is: no sequence of calls changes its
  record again, so it cannot be executed twice.\<close>

theorem settled_commitments_are_final:
  assumes "Commitment s i = Some c" and "status c \<noteq> Pending" and "commitments_inv s"
    and "allowed_run hosted contract_step s ls"
  shows "Commitment (run contract_step s ls) i = Some c"
  using assms
proof (induction ls arbitrary: s)
  case (Cons l ls)
  have "effect (fst l) False s (contract_step l s)" using Cons.prems(4) by (intro step_effect) simp
  from effect_commitments [OF this Cons.prems(3)]
  have "commitments_inv (contract_step l s)" and "lifecycle (Commitment s i) (Commitment (contract_step l s) i)"
    by blast+
  moreover from this(2) have "Commitment (contract_step l s) i = Some c"
    unfolding Cons.prems(1) using Cons.prems(2) by (rule lifecycle_final)
  ultimately show ?case using Cons.IH Cons.prems(2,4) by simp
qed simp

definition settled_run :: "unit label list" where
  "settled_run =
     [(sample_host 0, Call_create_borrow_commitment 1 [\<lparr>pt_asset = 7, trigger_price = 1, fire_when_at_or_above = True\<rparr>] Any_Trigger 7 8 100 200 5000 50),
       (sample_host 0, Call_cancel_borrow_commitment 1 0)]"

theorem settled_commitments_are_final_witness:
  "let s = run contract_step empty_storage settled_run in
     map_option status (Commitment (run contract_step s [(sample_host 0, Call_execute_borrow_commitment 0 :: unit entry_call)]) 0)
       = Some Cancelled"
proof -
  let ?s = "run contract_step empty_storage settled_run"
  let ?ls = "[(sample_host 0, Call_execute_borrow_commitment 0 :: unit entry_call)]"
  have inv: "commitments_inv ?s"
    by (rule commitment_machine.inv_run) (simp add: settled_run_def hosted_def)
  have st: "map_option status (Commitment ?s 0) = Some Cancelled" by code_simp
  then obtain c where c: "Commitment ?s 0 = Some c" "status c = Cancelled" by auto
  then have "Commitment (run contract_step ?s ?ls) 0 = Some c"
    by (intro settled_commitments_are_final [OF _ _ inv]) (simp_all add: hosted_def)
  with c show ?thesis by (simp add: Let_def)
qed

text \<open>The admin is set once: after initialisation no sequence of calls replaces it, and a second
  initialisation changes nothing.\<close>

theorem admin_is_permanent:
  assumes "ProtocolAdmin s = Some a" and "allowed_run hosted contract_step s ls"
  shows "ProtocolAdmin (run contract_step s ls) = Some a \<and>
         exec_call h (Call_initialize b c m) (run contract_step s ls) = run contract_step s ls"
proof -
  let ?t = "run contract_step s ls"
  have adm: "ProtocolAdmin ?t = Some a" by (rule admin_machine.inv_run_from [OF assms])
  have "fst (entry_initialize h b c m ?t) = Err BorrowError.Unauthorized"
    by (simp add: entry_initialize_def run_simps get_admin_def adm)
  then have "after (entry_initialize h b c m) ?t = ?t"
    by (cases rule: after_cases [of "entry_initialize h b c m" ?t]) auto
  with adm show ?thesis by simp
qed

theorem admin_is_permanent_witness:
  "let s = empty_storage\<lparr>ProtocolAdmin := Some 9\<rparr> in
     ProtocolAdmin (run contract_step s [(sample_host 0, Call_initialize 3 7 1 :: unit entry_call)]) = Some 9"
  using admin_is_permanent [of "empty_storage\<lparr>ProtocolAdmin := Some 9\<rparr>" 9
      "[(sample_host 0, Call_initialize 3 7 1 :: unit entry_call)]"]
  by (simp add: Let_def hosted_def)

text \<open>C10: Parameters stay in range in every reachable storage: the liquidation threshold and the close factor
  are positive and at most 100%, the liquidation incentive and the flash-loan fee are between zero and their
  caps, and the borrow rate the contract reports lies between 0 and 100%.\<close>

theorem parameters_in_range:
  assumes "allowed_run hosted contract_step empty_storage ls" and t: "t = run contract_step empty_storage ls"
  shows "0 < get_liquidation_threshold_bps t \<and> get_liquidation_threshold_bps t \<le> 10000 \<and>
         0 < get_close_factor_bps t \<and> get_close_factor_bps t \<le> 10000 \<and>
         0 \<le> get_liquidation_incentive_bps t \<and> get_liquidation_incentive_bps t \<le> 10000 \<and>
         0 \<le> get_flash_loan_fee_bps t \<and> get_flash_loan_fee_bps t \<le> 1000 \<and>
         0 \<le> get_borrow_rate_bps h t \<and> get_borrow_rate_bps h t \<le> 10000"
proof -
  have wf: "settings_wf t" using settings_machine.inv_run [OF assms(1)] by (simp add: t)
  then have "0 \<le> get_borrow_rate_bps h t \<and> get_borrow_rate_bps h t \<le> 10000"
    using borrow_rate_range [of h t] by (auto simp: settings_wf_def get_borrow_rate_bps_def split: sum.split)
  with wf show ?thesis by (simp add: settings_wf_def risk_params_wf_def flash_fee_wf_def MAX_FEE_BPS_def)
qed

theorem parameters_in_range_witness:
  "0 < get_liquidation_threshold_bps (run contract_step empty_storage sample_run) \<and>
   get_borrow_rate_bps (sample_host 0) (run contract_step empty_storage sample_run) \<le> 10000"
proof -
  have "allowed_run hosted contract_step empty_storage sample_run" by (simp add: sample_run_def hosted_def)
  from parameters_in_range [OF this refl] show ?thesis by blast
qed

section \<open>Who may change what\<close>

interpretation entry_set_pause: admin_gated get_admin "signed h" "\<lambda>a. entry_set_pause h a p b" for h p b
  by unfold_locales (simp add: entry_set_pause_def ok_simps)

interpretation entry_set_delegation_registry: admin_gated get_admin "signed h"
    "\<lambda>a. entry_set_delegation_registry h a r" for h r
  by unfold_locales (simp add: entry_set_delegation_registry_def ok_simps)

interpretation entry_recover_bad_debt: admin_gated get_admin "signed h" "\<lambda>a. entry_recover_bad_debt h a n" for h n
  by unfold_locales (simp add: entry_recover_bad_debt_def ok_simps)

interpretation entry_update_rates: admin_gated get_admin "signed h"
    "\<lambda>a. entry_update_interest_rate_model h a u" for h u
  by unfold_locales (auto simp: entry_update_interest_rate_model_def ok_simps get_admin_def dest: update_config_Ok(1))

text \<open>The calls that check the admin: nine name the address that claims to be the admin, the flash-loan
  fee's setter takes the stored one.\<close>

fun admin_caller :: "'w entry_call \<Rightarrow> address option" where
  "admin_caller (Call_set_delegation_registry a r) = Some a"
| "admin_caller (Call_set_pause a p b) = Some a"
| "admin_caller (Call_set_variable_borrow_rate_bps a n) = Some a"
| "admin_caller (Call_set_oracle a c) = Some a"
| "admin_caller (Call_set_liquidation_threshold_bps a n) = Some a"
| "admin_caller (Call_update_interest_rate_model a u) = Some a"
| "admin_caller (Call_set_stablecoin_config a x c) = Some a"
| "admin_caller (Call_set_risk_alert_thresholds a th) = Some a"
| "admin_caller (Call_recover_bad_debt a n) = Some a"
| "admin_caller _ = None"

fun sets_flash_fee :: "'w entry_call \<Rightarrow> bool" where
  "sets_flash_fee (Call_set_flash_loan_fee_bps n) = True"
| "sets_flash_fee _ = False"

definition checks_admin :: "'w entry_call \<Rightarrow> bool" where
  "checks_admin c \<longleftrightarrow> admin_caller c \<noteq> None \<or> sets_flash_fee c"

text \<open>Such a call made by the stored admin, with that address's signature.\<close>

definition by_admin :: "host \<Rightarrow> lending_state \<Rightarrow> 'w entry_call \<Rightarrow> bool" where
  "by_admin h s c \<longleftrightarrow> (case ProtocolAdmin s of
     Some a \<Rightarrow> signed h a \<and> (admin_caller c = Some a \<or> sets_flash_fee c)
   | None \<Rightarrow> False)"

text \<open>The settings that are the admin's: the admin itself, the oracle, the risk parameters, the interest model
  and the rate parameters, the stablecoin configurations, the flash-loan fee, the alert thresholds, the
  delegation registry, the reserves, and every pause flag but the one for deposits.\<close>

definition guarded where
  "guarded s =
     ((ProtocolAdmin s, OracleAddress s, LiquidationThresholdBps s, CloseFactorBps s, LiquidationIncentiveBps s),
      (BorrowInterestRate s, StableRatePremiumBps s, StableRateRecalcIntervalSecs s, RateSwitchFeeBps s),
      (AssetStablecoinConfig s, FlashLoanFeeBps s, Thresholds s, DelegationRegistry s, ProtocolReserves s),
      ((State s)(PauseType.Deposit := None), Guardian s, EmergencyStateKey s))" for s :: lending_state

lemma after_kept: "(\<And>a t. m s = (Ok a, t) \<Longrightarrow> f t = f s) \<Longrightarrow> f (after m s) = f s"
  by (rule after_cases [of m s]) auto

lemma after_refused: "(\<And>a t. m s \<noteq> (Ok a, t)) \<Longrightarrow> after m s = s"
  by (rule after_cases [of m s]) auto

lemma guarded_outside: "borrow_outside t = borrow_outside s \<Longrightarrow> guarded t = guarded s"
  by (simp add: borrow_outside_def guarded_def)

lemma guarded_writes [simp]:
  "guarded (publish e s) = guarded s"
  "guarded (set_commitment i c s) = guarded s"
  "guarded (set_nonce u n s) = guarded s"
  by (simp_all add: guarded_def publish_def set_commitment_def set_nonce_def)

lemma guarded_accrual: "accrual_frame s t \<Longrightarrow> guarded t = guarded s"
  by (intro guarded_outside borrow_outside_accrual)

lemma guarded_vault:
  "deposit_with_auth h u a n b s = (Ok r, t) \<Longrightarrow> guarded t = guarded s"
  "withdraw_with_auth h u a n b s = (Ok r, t) \<Longrightarrow> guarded t = guarded s"
  by (auto dest!: vault_ops_fields simp: guarded_def)

lemma guarded_delegated:
  assumes "execute_delegated h a d n dl cs s = (Ok x, t)"
  shows "guarded t = guarded s"
proof (rule execute_delegated_preserves [OF assms, of "\<lambda>t. guarded t = guarded s"])
  fix c s' v t' assume "guarded s' = guarded s" and "run_call h a c s' = (Ok v, t')"
  then show "guarded t' = guarded s"
    using guarded_outside [OF borrow_inner_outside] guarded_outside [OF repay_outside]
      guarded_outside [OF deposit_collateral_outside] guarded_vault
    by (elim run_call_cases) simp_all
qed simp

lemma guarded_commitments:
  "create_borrow_commitment h u ts cb ba ca bn cn m e s = (Ok cid, t) \<Longrightarrow> guarded t = guarded s"
  "cancel_borrow_commitment h u cid s = (Ok x, t) \<Longrightarrow> guarded t = guarded s"
  "execute_borrow_commitment h cid s = (Ok x, t) \<Longrightarrow> guarded t = guarded s"
proof -
  show "create_borrow_commitment h u ts cb ba ca bn cn m e s = (Ok cid, t) \<Longrightarrow> guarded t = guarded s"
    by (drule create_borrow_commitment_Ok) (simp add: guarded_def)
  show "cancel_borrow_commitment h u cid s = (Ok x, t) \<Longrightarrow> guarded t = guarded s"
    by (erule cancel_borrow_commitment_Ok) simp
  assume "execute_borrow_commitment h cid s = (Ok x, t)"
  then show "guarded t = guarded s"
    by (elim execute_borrow_commitment_Ok)
       (simp add: borrow_from_commitment_def guarded_outside [OF borrow_inner_outside])
qed

lemma guarded_open:
  "entry_set_deposit_paused b s = (Ok u2, t) \<Longrightarrow> guarded t = guarded s"
  "initialize_deposit_settings m n s = (Ok u2, t) \<Longrightarrow> guarded t = guarded s"
  "initialize_withdraw_settings m s = (Ok u3, t) \<Longrightarrow> guarded t = guarded s"
  "set_withdraw_paused b s = (Ok u3, t) \<Longrightarrow> guarded t = guarded s"
  "add_bad_debt w n s = (Ok u1, t) \<Longrightarrow> guarded t = guarded s"
  by (auto simp: entry_set_deposit_paused_def initialize_deposit_settings_def initialize_withdraw_settings_def
      set_withdraw_paused_def add_bad_debt_Ok guarded_def ok_simps)

text \<open>A contract whose \<open>initialize\<close> has run: the admin is stored, and so are the interest model and the rate
  parameters, which get their defaults then.\<close>

definition initialised :: "lending_state \<Rightarrow> bool" where
  "initialised s \<longleftrightarrow> ProtocolAdmin s \<noteq> None \<and> BorrowInterestRate s \<noteq> None \<and> StableRatePremiumBps s \<noteq> None \<and>
     StableRateRecalcIntervalSecs s \<noteq> None \<and> RateSwitchFeeBps s \<noteq> None"

lemma initialised_guarded: "guarded t = guarded s \<Longrightarrow> initialised t = initialised s"
  by (simp add: guarded_def initialised_def)

lemma guarded_borrow_settings:
  assumes "initialize_borrow_settings h c m s = (Ok u, t)" and "initialised s"
  shows "guarded t = guarded s"
  using assms by (auto simp: initialize_borrow_settings_def set_default_if_missing_def guarded_def initialised_def
      set_if_absent_def ok_simps split: option.splits)

lemma initialize_initialises: "entry_initialize h a c m s = (Ok u, t) \<Longrightarrow> initialised t"
  by (auto simp: entry_initialize_def initialize_borrow_settings_def set_default_if_missing_def set_admin_def
      initialised_def set_if_absent_def ok_simps split: option.splits)

lemma guarded_initialize:
  assumes "entry_initialize h a c m s = (Ok u, t)" and "ProtocolAdmin s \<noteq> None"
  shows "guarded t = guarded s"
  using assms by (simp add: entry_initialize_def ok_simps get_admin_def)

lemma guarded_liquidate: "entry_liquidate h l b d c n s = (Ok u, t) \<Longrightarrow> guarded t = guarded s"
proof (erule entry_liquidate_Ok, elim exE conjE)
  fix dv s2 assume fr: "accrual_frame s s2"
    and t: "if n < dv then \<exists>s3. add_bad_debt b (dv - n) s2 = (Ok (), s3) \<and> t = publish (BadDebtEvent b (dv - n)) s3
        else t = s2"
  have "guarded t = guarded s2" using t guarded_open(5) [of b "dv - n" s2] by (auto split: if_splits)
  with guarded_accrual [OF fr] show "guarded t = guarded s" by simp
qed

lemma guarded_user:
  "entry_borrow h u a n ca cn s = (Ok x, t) \<Longrightarrow> guarded t = guarded s"
  "entry_borrow_with_rate h u a n ca cn rt s = (Ok x, t) \<Longrightarrow> guarded t = guarded s"
  "entry_repay h u a n s = (Ok x, t) \<Longrightarrow> guarded t = guarded s"
  "entry_repay_with_rate h u a n rt s = (Ok x, t) \<Longrightarrow> guarded t = guarded s"
  "entry_switch_rate_type h u a rt s = (Ok x, t) \<Longrightarrow> guarded t = guarded s"
  "entry_deposit h u a n s = (Ok r1, t) \<Longrightarrow> guarded t = guarded s"
  "entry_deposit_collateral h u a n s = (Ok x, t) \<Longrightarrow> guarded t = guarded s"
  "entry_withdraw h u a n s = (Ok r2, t) \<Longrightarrow> guarded t = guarded s"
  "receive h a u n p s = (Ok x, t) \<Longrightarrow> guarded t = guarded s"
  "get_user_debt h u s = (Ok q, t) \<Longrightarrow> guarded t = guarded s"
  "get_health_factor h u s = (Ok r, t) \<Longrightarrow> guarded t = guarded s"
  by (auto simp: entry_borrow_def borrow_def entry_borrow_with_rate_def borrow_with_rate_def entry_repay_def
      entry_repay_with_rate_def entry_switch_rate_type_def entry_deposit_def deposit_def entry_deposit_collateral_def
      entry_withdraw_def withdraw_def ok_simps dest!: receive_Ok
      dest: get_user_debt_frame get_health_factor_frame
      intro: guarded_outside borrow_ops_outside guarded_vault guarded_accrual)

lemmas guarded_calls = guarded_user guarded_liquidate guarded_open guarded_commitments guarded_delegated

lemma guarded_flash:
  assumes "no_reentry E"
  shows "guarded (fst (after (flash_loan E h r a n ps) (s, w))) = guarded s"
proof -
  have "guarded (fst st) = guarded s" if fl: "flash_loan E h r a n ps (s, w) = (Ok u, st)" for u st
  proof -
    obtain t w' where st: "st = (t, w')" by (cases st) auto
    from fl [unfolded st flash_loan_Ok] obtain w1 s2 e where
      cb: "on_flash_loan E r (self E) a n (calculate_fee s n) ps (s\<lparr>ReentrancyGuard := Some True\<rparr>, w1) = Some (True, s2, w')"
      and t: "t = (publish e s2)\<lparr>ReentrancyGuard := Some False\<rparr>"
      by blast
    from cb assms have "s2 = s\<lparr>ReentrancyGuard := Some True\<rparr>" unfolding no_reentry_def by blast
    with t st show ?thesis by (simp add: guarded_def publish_def)
  qed
  then show ?thesis by (rule after_cases [of "flash_loan E h r a n ps" "(s, w)"]) auto
qed

lemma not_admin_unchanged:
  assumes "checks_admin c" and "\<not> by_admin h s c"
  shows "exec_call h c s = s"
proof (cases "admin_caller c")
  case None
  with assms(1) obtain n where c: "c = Call_set_flash_loan_fee_bps n" by (cases c) (auto simp: checks_admin_def)
  have "entry_set_flash_loan_fee_bps h n s \<noteq> (Ok x, t)" for x t
    using assms(2) by (auto simp: c by_admin_def entry_set_flash_loan_fee_bps_def ok_simps get_admin_def)
  then show ?thesis by (simp add: c after_refused)
next
  case (Some a)
  with assms(2) have n: "get_admin s \<noteq> Some a \<or> \<not> signed h a" by (auto simp: by_admin_def get_admin_def)
  show ?thesis
    using Some n
    by (cases c) (auto simp: after_def entry_set_pause.not_admin_no_effect entry_set_delegation_registry.not_admin_no_effect
        entry_recover_bad_debt.not_admin_no_effect entry_update_rates.not_admin_no_effect
        set_oracle.not_admin_no_effect set_liquidation_threshold.not_admin_no_effect
        set_stablecoin_config.not_admin_no_effect set_variable_borrow_rate.not_admin_no_effect
        risk_thresholds.not_admin_no_effect)
qed

lemma not_admin_guarded:
  assumes "\<not> by_admin h s c" and "well_hosted c" and "initialised s"
  shows "guarded (exec_call h c s) = guarded s"
proof (cases "checks_admin c")
  case True
  then show ?thesis by (simp add: not_admin_unchanged assms(1))
next
  case no: False
  show ?thesis
  proof (cases c)
    case Call_flash_loan
    with assms(2) show ?thesis by (simp add: guarded_flash)
  next
    case Call_initialize
    with assms(3) show ?thesis by (auto intro!: after_kept dest: guarded_initialize simp: initialised_def)
  next
    case Call_initialize_borrow_settings
    with assms(3) show ?thesis by (auto intro!: after_kept dest: guarded_borrow_settings)
  qed (use no in \<open>simp_all add: checks_admin_def\<close>, (rule after_kept, erule guarded_calls)+)
qed

text \<open>Several settings need no signature at all: anyone can replace the debt ceiling, the deposit cap
  and the minimum amounts, pause and unpause deposits and withdrawals, and book arbitrary amounts as bad
  debt, whoever the admin is.\<close>

definition open_to_anyone :: "host \<Rightarrow> lending_state \<Rightarrow> bool" where
  "open_to_anyone h s \<longleftrightarrow>
     (\<forall>c m b.
       get_debt_ceiling (exec_call h (Call_initialize_borrow_settings c m :: unit entry_call) s) = c \<and>
       get_min_borrow_amount (exec_call h (Call_initialize_borrow_settings c m :: unit entry_call) s) = m \<and>
       get_deposit_cap (exec_call h (Call_initialize_deposit_settings c m :: unit entry_call) s) = c \<and>
       get_min_deposit_amount (exec_call h (Call_initialize_deposit_settings c m :: unit entry_call) s) = m \<and>
       get_min_withdraw_amount (exec_call h (Call_initialize_withdraw_settings m :: unit entry_call) s) = m \<and>
       State (exec_call h (Call_set_deposit_paused b :: unit entry_call) s) PauseType.Deposit = Some b \<and>
       w_is_paused (exec_call h (Call_set_withdraw_paused b :: unit entry_call) s) = b) \<and>
     (\<forall>u n. in_i128 (get_total_bad_debt s + n) \<and> in_i128 (unwrap_or (BadDebtUser s u) 0 + n) \<longrightarrow>
       get_total_bad_debt (exec_call h (Call_add_bad_debt u n :: unit entry_call) s) = get_total_bad_debt s + n)"

lemma settings_without_authorisation: "open_to_anyone h s"
proof -
  have "get_total_bad_debt (after (add_bad_debt u n) s) = get_total_bad_debt s + n"
    if "in_i128 (get_total_bad_debt s + n)" "in_i128 (unwrap_or (BadDebtUser s u) 0 + n)" for u n
    using that by (subst after_Ok) (auto simp: add_bad_debt_Ok get_total_bad_debt_def)
  then show ?thesis
    by (simp add: open_to_anyone_def after_def invoke_def initialize_borrow_settings_def initialize_deposit_settings_def
        initialize_withdraw_settings_def entry_set_deposit_paused_def set_withdraw_paused_def
        get_debt_ceiling_def get_min_borrow_amount_def get_deposit_cap_def get_min_deposit_amount_def get_min_withdraw_amount_def w_is_paused_def
        set_default_if_missing_def)
qed

text \<open>Runs in which the admin makes no administrative call.\<close>

definition without_admin :: "lending_state \<Rightarrow> 'w label \<Rightarrow> bool" where
  "without_admin s l \<longleftrightarrow> hosted s l \<and> \<not> by_admin (fst l) s (snd l)"

lemma guarded_run:
  assumes "allowed_run without_admin contract_step s ls" and "initialised s"
  shows "guarded (run contract_step s ls) = guarded s"
  using assms
proof (induction ls arbitrary: s)
  case (Cons l ls)
  have g: "guarded (contract_step l s) = guarded s"
    using Cons.prems by (simp add: contract_step_def without_admin_def hosted_def not_admin_guarded)
  from initialised_guarded [OF this] Cons g show ?case by simp
qed simp

lemma runs_without_admin:
  assumes "ProtocolAdmin s = Some a"
    and "\<forall>(h, c)\<in>set ls. well_hosted c \<and> (signed h a \<longrightarrow> admin_caller c \<noteq> Some a \<and> \<not> sets_flash_fee c)"
  shows "allowed_run without_admin contract_step s ls"
  using assms
proof (induction ls arbitrary: s)
  case (Cons l ls)
  then have h: "hosted s l" by (auto simp: hosted_def split: prod.splits)
  have "ProtocolAdmin (contract_step l s) = Some a" by (rule admin_machine.inv_step [OF Cons.prems(1) h])
  with Cons h show ?case by (auto simp: without_admin_def by_admin_def split: prod.splits)
qed simp

text \<open>C9: The admin's settings are the admin's alone. A call that checks the admin and is not made by the stored
  admin with that address's signature changes nothing at all, not even the event log. In an initialised
  contract the admin's settings (the admin, the oracle, the risk parameters, the interest model, the stablecoin
  configurations, the flash-loan fee, the alert thresholds, the delegation registry, the reserves and every
  pause flag but the one for deposits) stay as they are over any sequence of calls without an
  administrative call by the admin, whatever the callers, hosts and receivers. The other settings are open to anyone: whoever
  calls, and whoever signed, replaces the debt ceiling, the deposit cap and the minimum amounts, pauses and
  unpauses deposits and withdrawals, and books bad debt.\<close>

theorem admin_calls_need_the_admin:
  "(checks_admin c \<and> \<not> by_admin h s c \<longrightarrow> exec_call h c s = s) \<and>
   (initialised s \<and> allowed_run without_admin contract_step s ls \<longrightarrow>
      guarded (run contract_step s ls) = guarded s) \<and>
   open_to_anyone h s"
  using not_admin_unchanged guarded_run settings_without_authorisation by blast

definition outsiders :: "unit label list" where
  "outsiders = [(sample_host 0, Call_set_oracle 3 4), (sample_host 0, Call_initialize 3 7 1),
                (sample_host 0, Call_initialize_borrow_settings 7000 1), (sample_host 0, Call_borrow 2 7 2000 8 3000)]"

definition initialised_sample :: lending_state where
  "initialised_sample = sample_state\<lparr>BorrowInterestRate := Some (default_config (sample_host 0)), StableRatePremiumBps := Some 100,
     StableRateRecalcIntervalSecs := Some 3600, RateSwitchFeeBps := Some 10\<rparr>"

theorem admin_calls_need_the_admin_witness:
  "exec_call (sample_host 0) (Call_set_oracle 3 4 :: unit entry_call) initialised_sample = initialised_sample \<and>
   OracleAddress (run contract_step initialised_sample outsiders) = Some 5 \<and>
   get_debt_ceiling (exec_call (sample_host 0) (Call_initialize_borrow_settings 7000 1 :: unit entry_call) initialised_sample) = 7000"
proof -
  let ?c = "Call_set_oracle 3 4 :: unit entry_call"
  have r: "ProtocolAdmin initialised_sample = Some 9" "OracleAddress initialised_sample = Some 5" "initialised initialised_sample"
    by (simp_all add: sample_state_def initialised_sample_def initialised_def)
  have c: "checks_admin ?c" "\<not> by_admin (sample_host 0) initialised_sample ?c"
    by (simp_all add: checks_admin_def by_admin_def r)
  have "allowed_run without_admin contract_step initialised_sample outsiders"
    by (rule runs_without_admin [OF r(1)]) (simp add: outsiders_def)
  then show ?thesis
    using admin_calls_need_the_admin [of ?c "sample_host 0" initialised_sample outsiders] c r
    by (simp add: guarded_def open_to_anyone_def)
qed

section \<open>Pausing\<close>

text \<open>The flags a call is stopped by: the flag of its operation, for a delegated batch those of all its
  actions.\<close>

fun gates_of :: "'w entry_call \<Rightarrow> PauseType set" where
  "gates_of (Call_borrow u a n ca cn) = {PauseType.Borrow}"
| "gates_of (Call_borrow_with_rate u a n ca cn rt) = {PauseType.Borrow}"
| "gates_of (Call_execute_borrow_commitment i) = {PauseType.Borrow}"
| "gates_of (Call_repay u a n) = {PauseType.Repay}"
| "gates_of (Call_repay_with_rate u a n rt) = {PauseType.Repay}"
| "gates_of (Call_deposit u a n) = {PauseType.Deposit}"
| "gates_of (Call_deposit_collateral u a n) = {PauseType.Deposit}"
| "gates_of (Call_withdraw u a n) = {PauseType.Withdraw}"
| "gates_of (Call_liquidate l b d c n) = {PauseType.Liquidation}"
| "gates_of (Call_flash_loan E w r a n ps) = {PauseType.FlashLoan}"
| "gates_of (Call_execute_delegated u d n dl cs) = (\<lambda>c. action_pause (action c)) ` set cs"
| "gates_of _ = {}"

lemma paused_batch_refused:
  assumes "p \<in> gates_of (Call_execute_delegated u d n dl cs)" and "is_paused s p"
  shows "execute_delegated h u d n dl cs s \<noteq> (Ok x, t)"
proof
  assume "execute_delegated h u d n dl cs s = (Ok x, t)"
  then obtain registry where r: "run_calls h registry u d cs (set_nonce u (n + 1) s) = (Ok (), t)"
    by (rule execute_delegated_Ok)
  from assms(1) obtain c where c: "c \<in> set cs" and p: "p = action_pause (action c)" by auto
  have "is_paused (set_nonce u (n + 1) s) p = is_paused s p" by (rule is_paused_cong) (simp add: set_nonce_def)
  with run_calls_unpaused [OF r c] assms(2) show False by (simp add: p)
qed

lemma paused_call_unchanged:
  assumes "p \<in> gates_of c" and "is_paused s p"
  shows "exec_call h c s = s"
  using assms
proof (cases c)
  case (Call_execute_borrow_commitment i)
  with assms have p: "is_paused s PauseType.Borrow" by simp
  have "execute_borrow_commitment h i s \<noteq> (Ok x, t)" for x t
    using p borrow_inner_post(7) by (auto elim!: execute_as_borrow)
  then show ?thesis by (simp add: Call_execute_borrow_commitment after_refused)
next
  case (Call_execute_delegated u d n dl cs)
  with paused_batch_refused [OF _ assms(2)] assms(1) have "execute_delegated h u d n dl cs s \<noteq> (Ok x, t)" for x t by blast
  then show ?thesis by (simp add: Call_execute_delegated after_refused)
next
  case (Call_flash_loan E w r a n ps)
  with assms have "flash_loan E h r a n ps (s, w) \<noteq> (Ok x, st)" for x st by (cases st) (simp add: flash_loan_Ok)
  then show ?thesis by (simp add: Call_flash_loan after_refused)
qed (auto intro!: after_refused simp: entry_borrow_def entry_borrow_with_rate_def borrow_def borrow_with_rate_def
      entry_repay_def entry_repay_with_rate_def entry_deposit_def entry_deposit_collateral_def entry_withdraw_def
      entry_liquidate_def ok_simps dest: borrow_inner_post(7))

text \<open>The token hook is a way around the pause flags and the signatures: whatever is paused and whoever
  signed, a transfer with the repay payload from an address repays that address's debt and one with the
  deposit payload adds collateral, exactly as the unpaused operations do.\<close>

lemma token_hook_is_not_gated:
  "exec_call h (Call_receive asset user amount (SymbolVal ''repay'' # ps)) s = after (repay h user asset amount) s \<and>
   exec_call h (Call_receive asset user amount (SymbolVal ''deposit'' # ps)) s =
     after (deposit_collateral_inner h user asset amount) s"
  by (simp_all add: receive_def symbol_from_val_def fail_if_def ok_or_def unwrap_def after_def)

text \<open>C8: While the flag of an operation, or the flag for all operations, is set, a direct call of the operation
  (at either rate, by a commitment, for a liquidation or a flash loan) and a delegated batch with such
  an action among its calls leave the storage as it was, for every caller and every argument. The token
  hook checks no flag: whatever is paused, a transfer with the repay payload
  repays the sender's debt and one with the deposit payload adds to its collateral.\<close>

theorem paused_operations_do_nothing:
  assumes "is_paused s p"
  shows "(p \<in> gates_of c \<longrightarrow> exec_call h c s = s) \<and>
         exec_call h (Call_receive asset user amount (SymbolVal ''repay'' # ps)) s = after (repay h user asset amount) s \<and>
         exec_call h (Call_receive asset user amount (SymbolVal ''deposit'' # ps)) s =
           after (deposit_collateral_inner h user asset amount) s"
  using paused_call_unchanged [OF _ assms] token_hook_is_not_gated by blast

theorem paused_operations_do_nothing_witness:
  "let s = set_pause 9 All_Ops True (sample_state\<lparr>DelegationRegistry := Some 6\<rparr>) in
     exec_call (sample_host 0) (Call_repay 1 7 200 :: unit entry_call) s = s \<and>
     exec_call (sample_host 0) (Call_execute_delegated 1 2 0 10 sample_batch :: unit entry_call) s = s \<and>
     get_total_debt (exec_call (sample_host 0) (Call_receive 7 1 200 [SymbolVal ''repay''] :: unit entry_call) s) = 810"
proof -
  let ?s = "set_pause 9 All_Ops True (sample_state\<lparr>DelegationRegistry := Some 6\<rparr>)"
  have p: "is_paused ?s q" for q by (simp add: is_paused_set_pause)
  have "exec_call (sample_host 0) (Call_repay 1 7 200 :: unit entry_call) ?s = ?s"
    using paused_operations_do_nothing [OF p [of PauseType.Repay], of "Call_repay 1 7 200 :: unit entry_call"] by simp
  moreover have "exec_call (sample_host 0) (Call_execute_delegated 1 2 0 10 sample_batch :: unit entry_call) ?s = ?s"
    using paused_operations_do_nothing [OF p [of PauseType.Deposit], of "Call_execute_delegated 1 2 0 10 sample_batch :: unit entry_call"]
    by (simp add: sample_batch_def)
  moreover have "get_total_debt (exec_call (sample_host 0) (Call_receive 7 1 200 [SymbolVal ''repay''] :: unit entry_call) ?s) = 810"
    by code_simp
  ultimately show ?thesis by (simp add: Let_def)
qed

section \<open>Liquidation and bad debt\<close>

text \<open>C11: A liquidation moves no funds: it needs the liquidator's signature, liquidations not paused and a
  health factor below 1.0, and then leaves every debt record, every collateral record and both totals as
  they were; all it does is book the part of the debt value above the offered amount as bad debt.\<close>

theorem liquidation_only_books_bad_debt:
  assumes "entry_liquidate h liquidator borrower da ca amount s = (Ok u, t)"
  shows "signed h liquidator \<and> \<not> is_paused s Liquidation \<and> core t = core s \<and>
     BorrowUserCollateral t = BorrowUserCollateral s \<and>
     (\<exists>dv s1 hf s2. get_debt_value h borrower s = (Ok dv, s1) \<and> get_health_factor h borrower s1 = (Ok hf, s2) \<and>
        hf < 10000 \<and> get_total_bad_debt t = get_total_bad_debt s + max 0 (dv - amount))"
proof -
  from assms obtain dv hf s1 s2 where g: "signed h liquidator" "\<not> is_paused s Liquidation" "hf < 10000"
    and v: "get_debt_value h borrower s = (Ok dv, s1)" "get_health_factor h borrower s1 = (Ok hf, s2)"
    and fr: "accrual_frame s s2"
    and t: "if amount < dv then \<exists>s3. add_bad_debt borrower (dv - amount) s2 = (Ok (), s3) \<and> t = publish (BadDebtEvent borrower (dv - amount)) s3
        else t = s2"
    by (rule entry_liquidate_Ok) blast
  have "core t = core s2 \<and> BorrowUserCollateral t = BorrowUserCollateral s2 \<and>
        get_total_bad_debt t = get_total_bad_debt s2 + max 0 (dv - amount)"
    using t by (auto simp: add_bad_debt_Ok core_def publish_def get_total_bad_debt_def split: if_splits)
  moreover have "core s2 = core s \<and> BorrowUserCollateral s2 = BorrowUserCollateral s \<and> get_total_bad_debt s2 = get_total_bad_debt s"
    using fr by (auto elim!: accrual_frameE simp: core_def get_total_bad_debt_def)
  ultimately show ?thesis using g v by metis
qed

theorem liquidation_only_books_bad_debt_witness:
  "\<exists>t. entry_liquidate (sample_host 0) 2 1 7 8 0 (sample_state\<lparr>BorrowUserCollateral := [1 \<mapsto> \<lparr>bc_amount = 500, bc_asset = 8\<rparr>]\<rparr>) = (Ok (), t) \<and>
       get_total_debt t = 1000 \<and> 0 \<le> get_total_bad_debt t"
proof -
  let ?s = "sample_state\<lparr>BorrowUserCollateral := [1 \<mapsto> \<lparr>bc_amount = 500, bc_asset = 8\<rparr>]\<rparr>"
  let ?l = "entry_liquidate (sample_host 0) 2 1 7 8 0 ?s"
  have "fst ?l = Ok ()" by code_simp
  then have l: "?l = (Ok (), snd ?l)" by (rule run_pair)
  have "get_total_bad_debt ?s = 0" by (simp add: get_total_bad_debt_def sample_state_def empty_storage_def)
  moreover have "BorrowTotalDebt ?s = Some 1000" by (simp add: sample_state_def)
  ultimately have "get_total_debt (snd ?l) = 1000 \<and> 0 \<le> get_total_bad_debt (snd ?l)"
    using liquidation_only_books_bad_debt [OF l] by (auto simp: core_def get_total_debt_def)
  with l show ?thesis by blast
qed

text \<open>Recovering bad debt is a transfer from the reserves: the admin's amount is capped at the bad debt,
  the reserves and the bad debt fall by the same amount, and with a non-negative amount neither becomes
  negative.\<close>

theorem recovery_is_paid_from_reserves:
  assumes "entry_recover_bad_debt h admin amount s = (Ok u, t)"
  shows "get_reserves s - get_reserves t = min amount (get_total_bad_debt s) \<and>
         get_total_bad_debt s - get_total_bad_debt t = min amount (get_total_bad_debt s) \<and>
         (0 \<le> get_total_bad_debt s \<and> 0 \<le> get_reserves s \<longrightarrow> 0 \<le> get_total_bad_debt t \<and> 0 \<le> get_reserves t)"
  using assms
  by (auto simp: entry_recover_bad_debt_def ok_simps Let_def get_reserves_def get_total_bad_debt_def
      emit_bad_debt_recovered_def publish_def split: if_splits)

theorem recovery_is_paid_from_reserves_witness:
  "\<exists>t. entry_recover_bad_debt (sample_host 0) 9 70 (sample_state\<lparr>BadDebtTotal := Some 50, ProtocolReserves := Some 100\<rparr>) = (Ok (), t)
     \<and> get_reserves t = 50 \<and> get_total_bad_debt t = 0"
proof -
  let ?s = "sample_state\<lparr>BadDebtTotal := Some 50, ProtocolReserves := Some 100\<rparr>"
  let ?r = "entry_recover_bad_debt (sample_host 0) 9 70 ?s"
  have "fst ?r = Ok ()" by code_simp
  then have r: "?r = (Ok (), snd ?r)" by (rule run_pair)
  have "get_reserves ?s = 100" "get_total_bad_debt ?s = 50" by (simp_all add: get_reserves_def get_total_bad_debt_def)
  with recovery_is_paid_from_reserves [OF r] r show ?thesis by (intro exI [of _ "snd ?r"]) simp
qed

end
