(* ===== verification/Spec2Isabelle.thy ===== *)
theory Spec2Isabelle
  imports HW_Side_Properties HW_Loans_Properties HW_Oracle_Properties HW_Guards_Properties Wallet Stablecoin HW_Timelock Upgrade Data_Store Amm Bridge_Properties Debt_Book Vault Views Flash_Loan Commitments Delegation Token_Receiver Meta Contract_Properties
begin

text \<open>
  A verification development for StellarLend, a lending protocol of Soroban (Stellar) contracts written in Rust. All paths
  are below src/stellar-lend/contracts. Definitions carry the names of the functions and types they translate; a prefix
  (\<open>entry_\<close> for an entry point, \<open>hw_\<close>, \<open>gov_\<close>, \<open>st_\<close>, \<open>w_\<close>, \<open>tl_\<close>) is added where two parts use the same name.

  \<^bold>\<open>The program.\<close> Two lending contracts stand side by side. The lending contract (lending/src) keeps debts per user and
  rate type, a collateral vault, flash loans, borrow commitments and delegated batches. The protocol contract
  (hello-world/src) has an administrative core, governance, a price oracle, guards (reentrancy lock, rate limiter, intents,
  circuit breaker, credit scores), the lending operations over them, and on top of these analytics, a reserve factor with a
  debt-token market, commit and reveal of operations, and a liquidation queue. Around them: the delegation registry, the AMM
  router, the bridge with its validators, the stablecoin, the institutional wallet, and the upgrade manager the contracts
  share. Contracts call token contracts, oracles and each other.

  \<^bold>\<open>The theories.\<close>
  \<^item> SL_Prelude: checked and saturating arithmetic on i128, u64 and u32 values, the effect type of a contract function,
    its combinators and their evaluation (\<open>run_simps\<close>) and inversion rules (\<open>ok_simps\<close>). SL_Interfaces: the locales
    \<open>ledger\<close>, \<open>admin_gated\<close> and \<open>invariant_machine\<close>, each interpreted on the contracts' definitions where these are
    declared. SL_Frames: relations between storages carried through a contract function by its shape.
    Sample: concrete storages for the witnesses.
  \<^item> The lending contract. Lending_State: its storage, one record per module with a field per key. Interest_Rate, Pause,
    Risk_Monitor, Borrow, Vault, Views, Flash_Loan, Commitments, Token_Receiver, Meta, Data_Store: the modules of the same
    names (Vault is deposit.rs and withdraw.rs). Lending_Contract: the entry points of lib.rs and the contract as a machine;
    Lending_Machine, Contract_Properties: what every run of it keeps. Borrow_Facts, Borrow_Accounting, Borrow_Properties,
    Debt_Book: the facts about borrowing, the books as a ledger, and the abstract debt book the operations refine.
  \<^item> Delegation (delegation-registry), Upgrade (common/src/upgrade.rs), Amm (amm), Bridge and Bridge_Properties (bridge),
    Stablecoin (stablecoin), Wallet (institutional-wallet).
  \<^item> The protocol contract. HW_Core: admin.rs, risk_params.rs, risk_management.rs, interest_rate.rs. HW_Governance:
    governance.rs with types.rs and storage.rs; HW_Facts, HW_Machine, HW_Properties: inversion rules, the machine of core and
    governance, and what its runs keep. HW_Timelock: timelock.rs. HW_Oracle (HW_Oracle_Properties): oracle.rs. HW_Guards
    (HW_Guards_Properties): reentrancy.rs, rate_limiter.rs, intents.rs, circuit_breaker.rs, credit_score.rs. HW_Book:
    deposit.rs, multi_collateral.rs, treasury.rs. HW_Loans: borrow.rs, repay.rs, withdraw.rs, liquidate.rs. HW_Entries: their
    entry points in lib.rs and the error codes of errors.rs. HW_Valuation: what valuing a user's collateral depends on, and
    that running it again on the same storage gives the same value. HW_Book_Facts, HW_Book_Machine, HW_Loans_Properties: what
    each of these operations does to the books, the runs of the entry points, and their properties. HW_Analytics:
    analytics.rs. HW_Reserve: reserve.rs, debt_token.rs. HW_Queue: mev_protection.rs, liquidation_queue.rs and the entry points
    of lib.rs that reveal a committed operation or work off the queue. HW_Side_Properties: a debt token has one owner, a
    commitment is revealed once, the queue answers with the most urgent liquidation. The storage records extend
    each other in this order (\<open>hw_core\<close>, \<open>hw_oracle\<close>, \<open>hw_guards\<close>, \<open>hw_book\<close>, \<open>hw_analytics\<close>, \<open>hw_reserve\<close>, \<open>hw_queue\<close>),
    so a function of one module runs on the storage of the later ones.

  \<^bold>\<open>State and effects.\<close> A contract function takes the storage and returns a result, \<open>Ok\<close>, \<open>Err\<close> or \<open>Panic\<close>, with the
  storage. \<open>tryM\<close> is the question mark operator, \<open>ok_or\<close>, \<open>fail_if\<close>, \<open>unwrap\<close>, \<open>map_err\<close> and \<open>or_default\<close> are what the
  code writes. The order of reads, checks, writes, calls and events is the code's. A storage key is a record field (an
  \<open>option\<close> without, a map with arguments); events are logs. \<open>invoke\<close> is the host's transaction: a call that fails leaves the
  storage as it was. The \<open>host\<close> record holds what the ledger supplies: time, who signed (\<open>require_auth\<close>), and in the lending
  contract the answers of the oracle and of the delegation registry.

  \<^bold>\<open>What is assumed of the outside.\<close> Token contracts, vote-token balances, flash-loan receivers, the calls of a wallet batch
  and intent signatures are parameters; a property that needs anything of them says so (for instance \<open>refuses_negative\<close>: a
  token refuses negative amounts). Calls out do not re-enter the contract, which the host forbids, except where the
  parameter of Flash_Loan may change the storage. Two key enums with the same variant name and arguments address the
  same entry, as the host encodes them. Reading an entry at another type than it was written traps. Stored values stay
  within their integer type; where a theorem needs that of its input it is a hypothesis (\<open>in_i128\<close>). Ledger entries do not
  expire.

  \<^bold>\<open>What is shown.\<close> Invariants of every run of a contract's entry points (totals are sums of positions, tallies are sums of
  votes, books agree, parameters in range); safety of single operations (limits, ratios, quorums, once-only execution,
  signatures, pauses); refinement of abstract specifications (debt book, key-value map); equivalence with reference
  definitions; round trips; bounds; termination of the hand-written loops. Where the code does not do what it means to, the
  theorem states what it does, and the manifest lists the finding: a repayment of the protocol contract counts twice, a
  withdrawal pays any token, signatures are not asked for, compound interest never accrues.

  \<^bold>\<open>What the authorisation, pause and solvency theorems cover.\<close> In the lending contract the calls that check the admin
  are told apart from the settings anyone may change (\<open>guarded\<close> and \<open>open_to_anyone\<close> in Contract_Properties), and the pause
  flags from the token hook that ignores them. The value in a solvency condition of the protocol contract is the result of the
  contract's own valuation on the storage before the call (\<open>borrowing_value\<close>, \<open>value_for_check\<close>), price cache and breaker
  included. The rate limit is stated for a period after any earlier calls. The runs of HW_Book_Machine are those of the lending
  entry points; the entry points that reveal a commitment call the same operations and are modelled in HW_Queue.

  \<^bold>\<open>Loops and fuel.\<close> All loops are structural recursions over the vector they walk, or folds; the insertion sort of the
  oracle recurses on the distance to the end of the vector. No fuel is used, and every definition is total and executable.

  \<^bold>\<open>Not modelled.\<close> Of the protocol contract the modules listed in the manifest as not modelled (flash loans, cross-asset
  positions, rebalancing, recovery, monitoring, configuration and others), and functions nothing calls (token locks and suspicious-vote detection of
  governance.rs, private copies of the interest and ratio formulas). Of the lending contract yield_farming.rs and the
  files its lib.rs does not declare. The migration hub, the message bus and cache of common, the off-chain clients and
  services, benchmarks, fuzzing and tests. Storage rent, gas and the host's encoding of values are the host's. The protocol
  contract does not compile as it stands (a duplicate declaration in storage.rs, missing error conversions), and some of
  its functions in lib.rs stand after the end of the contract's implementation; the model takes each function as written.
\<close>

section \<open>Delegated transactions against the delegation registry\<close>

text \<open>The lending contract's host answers registry queries with the registry contract's own
  \<open>validate\<close>, in its storage \<open>R\<close>.\<close>

definition registry_host :: "registry_state \<Rightarrow> address \<Rightarrow> host \<Rightarrow> host" where
  "registry_host R registry h = h\<lparr>registry_validate := (\<lambda>r delegator delegate permission.
     if r = registry then Some (validate h R delegator delegate (word_of_nat permission)) else None)\<rparr>"

text \<open>The two contracts agree on the permission of an action.\<close>

fun permission_of :: "Action \<Rightarrow> Permission" where
  "permission_of Action.Deposit = Permission.Deposit"
| "permission_of Action.Withdraw = Permission.Withdraw"
| "permission_of Action.Borrow = Permission.Borrow"
| "permission_of Action.Repay = Permission.Repay"
| "permission_of Action.DepositCollateral = Permission.DepositCollateral"

lemma permission_agrees: "word_of_nat (action_permission a) = permission_bit (permission_of a)"
  by (cases a) simp_all

lemma registry_host_fields [simp]:
  "now (registry_host R r h) = now h"
  "host.signed (registry_host R r h) a = host.signed h a"
  by (simp_all add: registry_host_def)

lemma delegated_batch_permissions:
  assumes "execute_delegated h delegator delegate nonce deadline calls s = (Ok u, t)"
    and "DelegationRegistry s = Some registry" and "c \<in> set calls"
  shows "registry_validate h registry delegator delegate (action_permission (action c)) = Some True"
proof -
  from assms(1,2) obtain s1 where "run_calls h registry delegator delegate calls s1 = (Ok (), t)"
    by (auto elim!: execute_delegated_Ok)
  from run_calls_permitted [OF this assms(3)] show ?thesis .
qed

text \<open>C12: Delegation is exactly what the registry granted: when the registry contract answers the lending
  contract's queries, a batch can only succeed if the registry holds an unexpired delegation from the
  delegator to the delegate whose mask has the bit of every action in the batch; after the delegator revokes
  it, no batch with a call in it succeeds any more, and everything it tried is rolled back.\<close>

theorem delegated_batch_needs_live_grant:
  assumes "DelegationRegistry s = Some registry"
  shows "(execute_delegated (registry_host R registry h) delegator delegate nonce deadline calls s = (Ok u, t) \<longrightarrow>
            (\<forall>c\<in>set calls. \<exists>g. Delegations R (delegator, delegate) = Some g \<and> (expiry g = 0 \<or> now h < expiry g) \<and>
               permissions g AND permission_bit (permission_of (action c)) \<noteq> 0)) \<and>
         (revoke h' delegator delegate R = (Ok (), R') \<and> calls \<noteq> [] \<longrightarrow>
            exec_call (registry_host R' registry h) (Call_execute_delegated delegator delegate nonce deadline calls) s = s)"
proof -
  have perm: "\<forall>c\<in>set calls. validate h Q delegator delegate (permission_bit (permission_of (action c)))"
    if "execute_delegated (registry_host Q registry h) delegator delegate nonce deadline calls s = (Ok v, r)" for Q v r
    using delegated_batch_permissions [OF that assms]
    by (auto simp: registry_host_def permission_agrees split: if_splits)
  have "execute_delegated (registry_host R' registry h) delegator delegate nonce deadline calls s \<noteq> (Ok v, r)"
    if "revoke h' delegator delegate R = (Ok (), R')" "calls \<noteq> []" for v r
    using perm [of R' v r] that by (cases calls) (auto simp: revoke_Ok validate_def get_delegation_def)
  then have "revoke h' delegator delegate R = (Ok (), R') \<and> calls \<noteq> [] \<longrightarrow>
      exec_call (registry_host R' registry h) (Call_execute_delegated delegator delegate nonce deadline calls) s = s"
    unfolding exec_call.simps by (intro impI after_refused) blast
  moreover have "\<forall>c\<in>set calls. \<exists>g. Delegations R (delegator, delegate) = Some g \<and> (expiry g = 0 \<or> now h < expiry g) \<and>
               permissions g AND permission_bit (permission_of (action c)) \<noteq> 0"
    if "execute_delegated (registry_host R registry h) delegator delegate nonce deadline calls s = (Ok u, t)"
    using perm [OF that]
    by (cases "Delegations R (delegator, delegate)")
       (auto simp: validate_def get_delegation_def delegation_valid_def split: if_splits)
  ultimately show ?thesis by blast
qed

theorem delegated_batch_needs_live_grant_witness:
  "let R = snd (grant (sample_host 0) 1 2 1 20 \<lparr>Delegations = (\<lambda>_. None)\<rparr>); R' = snd (revoke (sample_host 0) 1 2 R) in
     exec_call (registry_host R' 6 (sample_host 5)) (Call_execute_delegated 1 2 0 10 sample_batch :: unit entry_call) meta_sample
       = meta_sample"
proof -
  let ?R = "snd (grant (sample_host 0) 1 2 1 20 \<lparr>Delegations = (\<lambda>_. None)\<rparr>)"
  let ?R' = "snd (revoke (sample_host 0) 1 2 ?R)"
  have "revoke (sample_host 0) 1 2 ?R = (Ok (), ?R')" by (simp add: revoke_Ok sample_host_def revoke_def run_simps)
  moreover have "DelegationRegistry meta_sample = Some 6" by (simp add: meta_sample_def)
  ultimately show ?thesis
    using delegated_batch_needs_live_grant [of meta_sample 6 _ _ 1 2 0 10 sample_batch _ _ "sample_host 0" ?R']
    by (simp add: Let_def sample_batch_def)
qed

end
